(* ===== verification/Prelude.thy ===== *)
theory Prelude
  imports Main "HOL-Library.Sublist" "HOL-Library.Char_ord" "HOL-Library.List_Lexorder"
begin

text \<open>
  The shared ground of the development: the result type of fallible code, the
  collections of simplification facts the component theories add to, and the
  generic lemmas on lists and keyed tables that more than one component uses.
\<close>

section \<open>Collections of facts\<close>

named_theorems store_simps "how the store operations act on the tables"
named_theorems keeps_active "operations that never make an inactive job active"
named_theorems text_simps "evaluation rules of the text operations"

section \<open>Results of fallible code\<close>

text \<open>An exception is \<open>Inl\<close>, a returned value is \<open>Inr\<close>. The first exception wins.\<close>

definition rbind :: "'e + 'a \<Rightarrow> ('a \<Rightarrow> 'e + 'b) \<Rightarrow> 'e + 'b" where
  "rbind r f = (case r of Inl e \<Rightarrow> Inl e | Inr x \<Rightarrow> f x)"

lemma rbind_simps [simp]:
  "rbind (Inl e) f = Inl e"
  "rbind (Inr x) f = f x"
  by (simp_all add: rbind_def)

lemma rbind_eq_Inr: "rbind r f = Inr y \<longleftrightarrow> (\<exists>x. r = Inr x \<and> f x = Inr y)"
  by (cases r) auto

lemma rbind_InrE:
  assumes "rbind r f = Inr y"
  obtains x where "r = Inr x" and "f x = Inr y"
  using assms by (auto simp: rbind_eq_Inr)

text \<open>A loop over a list whose body may raise: the state is threaded, the first error stops.\<close>

fun rfold :: "('a \<Rightarrow> 's \<Rightarrow> 'e + 's) \<Rightarrow> 'a list \<Rightarrow> 's \<Rightarrow> 'e + 's" where
  "rfold f [] s = Inr s"
| "rfold f (x # xs) s = rbind (f x s) (rfold f xs)"

lemma rfold_invariant:
  assumes "rfold f xs s = Inr s'" and "P s"
    and "\<And>x s s'. x \<in> set xs \<Longrightarrow> P s \<Longrightarrow> f x s = Inr s' \<Longrightarrow> P s'"
  shows "P s'"
  using assms
proof (induction xs arbitrary: s)
  case Nil
  then show ?case by simp
next
  case (Cons x xs)
  then obtain t where "f x s = Inr t" and "rfold f xs t = Inr s'"
    by (auto elim: rbind_InrE)
  with Cons show ?case by (metis list.set_intros(1) list.set_intros(2))
qed

section \<open>Keyed rows\<close>

text \<open>A table is a list of rows. An update rewrites the rows of one key in place.\<close>

definition upd_row :: "('r \<Rightarrow> 'k) \<Rightarrow> 'k \<Rightarrow> ('r \<Rightarrow> 'r) \<Rightarrow> 'r list \<Rightarrow> 'r list" where
  "upd_row key k f rows = map (\<lambda>r. if key r = k then f r else r) rows"

definition get_row :: "('r \<Rightarrow> 'k) \<Rightarrow> 'k \<Rightarrow> 'r list \<Rightarrow> 'r option" where
  "get_row key k rows = find (\<lambda>r. key r = k) rows"

lemma upd_row_keys: "(\<And>r. key (f r) = key r) \<Longrightarrow> map key (upd_row key k f rows) = map key rows"
  by (simp add: upd_row_def)

lemma get_row_Some: "get_row key k rows = Some r \<Longrightarrow> r \<in> set rows \<and> key r = k"
  by (auto simp: get_row_def find_Some_iff)

lemma get_row_None: "get_row key k rows = None \<longleftrightarrow> (\<forall>r\<in>set rows. key r \<noteq> k)"
  by (auto simp: get_row_def find_None_iff)

lemma get_row_simps [simp]:
  "get_row key k [] = None"
  "get_row key k (r # rs) = (if key r = k then Some r else get_row key k rs)"
  by (simp_all add: get_row_def)

lemma get_row_append:
  "get_row key k (xs @ ys) = (case get_row key k xs of Some r \<Rightarrow> Some r | None \<Rightarrow> get_row key k ys)"
  by (induction xs) (auto simp: get_row_def)

lemma get_row_unique:
  "distinct (map key rows) \<Longrightarrow> r \<in> set rows \<Longrightarrow> get_row key (key r) rows = Some r"
  by (induction rows) (auto simp: get_row_def)

lemma get_row_upd_same:
  assumes "\<And>r. key (f r) = key r"
  shows "get_row key k (upd_row key k f rows) = map_option f (get_row key k rows)"
  by (induction rows) (auto simp: get_row_def upd_row_def assms)

lemma get_row_upd_other:
  assumes "\<And>r. key (f r) = key r" and "k' \<noteq> k"
  shows "get_row key k' (upd_row key k f rows) = get_row key k' rows"
  using assms(2) by (induction rows) (auto simp: get_row_def upd_row_def assms(1))

lemma set_upd_row:
  "set (upd_row key k f rows) = {r \<in> set rows. key r \<noteq> k} \<union> f ` {r \<in> set rows. key r = k}"
  by (auto simp: upd_row_def)

section \<open>Filters and subsequences\<close>

lemma subseq_filter_length:
  "subseq xs ys \<Longrightarrow> length (filter P xs) \<le> length (filter P ys)"
  by (rule list_emb_length) (rule subseq_filter)

lemma subseq_map_filter_weaken:
  assumes "\<And>x. x \<in> set xs \<Longrightarrow> P (f x) \<Longrightarrow> Q x \<and> g (f x) = g x"
  shows "subseq (map g (filter P (map f xs))) (map g (filter Q xs))"
  using assms by (induction xs) auto

lemma subseq_set: "subseq xs ys \<Longrightarrow> set xs \<subseteq> set ys"
  by (induction rule: list_emb.induct) auto

lemma sorted_wrt_of_subseq: "subseq xs ys \<Longrightarrow> sorted_wrt R ys \<Longrightarrow> sorted_wrt R xs"
  by (induction rule: list_emb.induct) (auto dest: subseq_set)

lemma find_SomeD: "find P xs = Some x \<Longrightarrow> x \<in> set xs \<and> P x"
  by (auto simp: find_Some_iff)

lemma length_le_1D:
  "length xs \<le> 1 \<Longrightarrow> x \<in> set xs \<Longrightarrow> y \<in> set xs \<Longrightarrow> x = y"
  by (cases xs) auto

lemma count_le_1:
  assumes "distinct xs" and "\<And>x y. x \<in> set xs \<Longrightarrow> y \<in> set xs \<Longrightarrow> P x \<Longrightarrow> P y \<Longrightarrow> x = y"
  shows "length (filter P xs) \<le> 1"
proof (cases "filter P xs")
  case (Cons x ys)
  have "ys = []"
  proof (rule ccontr)
    assume "ys \<noteq> []"
    then obtain y zs where "ys = y # zs" by (cases ys) auto
    with Cons have "x \<in> set (filter P xs)" "y \<in> set (filter P xs)" by auto
    then have "x = y" using assms(2) by auto
    moreover have "distinct (filter P xs)" using assms(1) by simp
    ultimately show False using Cons \<open>ys = y # zs\<close> by simp
  qed
  with Cons show ?thesis by simp
qed simp

end
