(* ===== verification/PyText.thy ===== *)
theory PyText
  imports Prelude
begin

text \<open>
  Python's \<open>str\<close>. A \<open>char\<close> stands for one code point of the Windows-1252
  repertoire (the Latin letters, and the ellipsis \<open>0x85\<close>, em dash \<open>0x97\<close> and middle
  dot \<open>0xB7\<close> that the program's messages use; of the codes that repertoire leaves
  unassigned, \<open>0x9D\<close> stands for the arrow U+2192, \<open>0x8D\<close> for the cross U+2717 and \<open>0x8F\<close>
  for the tick U+2713), so \<open>length\<close>, slices and indices count code points as Python does.
  Text outside that repertoire is not represented.
\<close>

section \<open>White space and case\<close>

definition py_space :: "char \<Rightarrow> bool" where
  "py_space c = (let n = of_char c :: nat in
     (9 \<le> n \<and> n \<le> 13) \<or> (28 \<le> n \<and> n \<le> 32) \<or> n = 160)"

definition lower_char :: "char \<Rightarrow> char" where
  "lower_char c = (let n = of_char c :: nat in
     if (65 \<le> n \<and> n \<le> 90) \<or> (192 \<le> n \<and> n \<le> 222 \<and> n \<noteq> 215) then char_of (n + 32)
     else if n = 138 \<or> n = 140 \<or> n = 142 then char_of (n + 16)
     else if n = 159 then char_of (255 :: nat)
     else c)"

definition lower :: "string \<Rightarrow> string" where
  "lower s = map lower_char s"

definition rstrip_chars :: "(char \<Rightarrow> bool) \<Rightarrow> string \<Rightarrow> string" where
  "rstrip_chars p s = rev (dropWhile p (rev s))"

definition lstrip_chars :: "(char \<Rightarrow> bool) \<Rightarrow> string \<Rightarrow> string" where
  "lstrip_chars p s = dropWhile p s"

definition strip :: "string \<Rightarrow> string" where
  "strip s = rstrip_chars py_space (lstrip_chars py_space s)"

lemma strip_Nil [simp]: "strip [] = []"
  by (simp add: strip_def rstrip_chars_def lstrip_chars_def)

lemma set_strip: "set (strip s) \<subseteq> set s"
proof
  fix x assume "x \<in> set (strip s)"
  then have "x \<in> set (rev (dropWhile py_space (rev (dropWhile py_space s))))"
    unfolding strip_def rstrip_chars_def lstrip_chars_def .
  then show "x \<in> set s" by (metis set_dropWhileD set_rev)
qed

lemma dropWhile_idem_hd: "xs = [] \<or> \<not> P (hd xs) \<Longrightarrow> dropWhile P xs = xs"
  by (cases xs) auto

lemma hd_dropWhile_not: "dropWhile P xs \<noteq> [] \<Longrightarrow> \<not> P (hd (dropWhile P xs))"
  by (rule hd_dropWhile)

lemma rstrip_Nil [simp]: "rstrip_chars P [] = []"
  by (simp add: rstrip_chars_def)

lemma rstrip_keeps_hd: "rstrip_chars P s \<noteq> [] \<Longrightarrow> hd (rstrip_chars P s) = hd s"
proof -
  assume ne: "rstrip_chars P s \<noteq> []"
  have "rev s = takeWhile P (rev s) @ dropWhile P (rev s)" by simp
  then have "s = rstrip_chars P s @ rev (takeWhile P (rev s))"
    by (metis rev_append rev_rev_ident rstrip_chars_def)
  with ne show ?thesis by (metis hd_append2)
qed

lemma strip_idem [simp]: "strip (strip s) = strip s"
proof -
  let ?l = "dropWhile py_space s"
  let ?r = "rstrip_chars py_space ?l"
  have "dropWhile py_space ?r = ?r"
  proof (rule dropWhile_idem_hd)
    show "?r = [] \<or> \<not> py_space (hd ?r)"
    proof (cases "?r = []")
      case False
      then have "?l \<noteq> []" by (metis rstrip_Nil)
      with False show ?thesis
        using rstrip_keeps_hd [OF False] hd_dropWhile_not [of py_space s] by metis
    qed simp
  qed
  moreover have "rstrip_chars py_space ?r = ?r"
    by (simp add: rstrip_chars_def dropWhile_idem_hd hd_dropWhile_not disjI2)
  ultimately show ?thesis by (simp add: strip_def lstrip_chars_def)
qed

lemma length_strip: "length (strip s) \<le> length s"
proof -
  have "length (rstrip_chars py_space t) \<le> length t" for t
    by (simp add: rstrip_chars_def) (metis length_dropWhile_le length_rev)
  then show ?thesis
    unfolding strip_def lstrip_chars_def
    by (meson dual_order.trans length_dropWhile_le)
qed

section \<open>Searching, splitting, joining\<close>

definition startswith :: "string \<Rightarrow> string \<Rightarrow> bool" where
  "startswith s p = prefix p s"

definition endswith :: "string \<Rightarrow> string \<Rightarrow> bool" where
  "endswith s p = suffix p s"

text \<open>Python's \<open>sub in s\<close>.\<close>

fun contains :: "string \<Rightarrow> string \<Rightarrow> bool" where
  "contains [] sub = (sub = [])"
| "contains (c # cs) sub = (prefix sub (c # cs) \<or> contains cs sub)"

lemma contains_iff: "contains s sub \<longleftrightarrow> (\<exists>ps ss. s = ps @ sub @ ss)"
proof (induction s)
  case Nil
  then show ?case by auto
next
  case (Cons c cs)
  show ?case
  proof
    assume "contains (c # cs) sub"
    then consider zs where "c # cs = sub @ zs" | ps ss where "cs = ps @ sub @ ss"
      using Cons.IH by (auto simp: prefix_def)
    then show "\<exists>ps ss. c # cs = ps @ sub @ ss"
    proof cases
      case 1
      then have "c # cs = [] @ sub @ zs" by simp
      then show ?thesis by blast
    next
      case 2
      then have "c # cs = (c # ps) @ sub @ ss" by simp
      then show ?thesis by blast
    qed
  next
    assume "\<exists>ps ss. c # cs = ps @ sub @ ss"
    then obtain ps ss where eq: "c # cs = ps @ sub @ ss" by blast
    show "contains (c # cs) sub"
    proof (cases ps)
      case Nil
      with eq have "prefix sub (c # cs)" by (simp add: prefix_def)
      then show ?thesis by simp
    next
      case (Cons p ps')
      with eq have "cs = ps' @ sub @ ss" by simp
      with Cons.IH show ?thesis by auto
    qed
  qed
qed

fun split_on :: "char \<Rightarrow> string \<Rightarrow> string list" where
  "split_on d [] = [[]]"
| "split_on d (c # cs) =
     (if c = d then [] # split_on d cs
      else (case split_on d cs of [] \<Rightarrow> [[c]] | w # ws \<Rightarrow> (c # w) # ws))"

fun join :: "string \<Rightarrow> string list \<Rightarrow> string" where
  "join sep [] = []"
| "join sep [w] = w"
| "join sep (w # ws) = w @ sep @ join sep ws"

lemma split_on_not_Nil [simp]: "split_on d s \<noteq> []"
  by (induction s) (auto split: list.splits)

lemma join_split_on [simp]: "join [d] (split_on d s) = s"
proof (induction s)
  case Nil
  then show ?case by simp
next
  case (Cons c cs)
  then show ?case
    by (cases "split_on d cs" rule: list.exhaust; cases "tl (split_on d cs)") (auto split: list.splits)
qed

lemma split_on_parts: "w \<in> set (split_on d s) \<Longrightarrow> d \<notin> set w"
  by (induction s arbitrary: w) (auto split: if_splits list.splits)

lemma split_on_no_sep: "d \<notin> set w \<Longrightarrow> split_on d w = [w]"
  by (induction w) auto

lemma split_on_append: "d \<notin> set w \<Longrightarrow> split_on d (w @ d # s) = w # split_on d s"
  by (induction w) auto

lemma split_on_join:
  "ws \<noteq> [] \<Longrightarrow> (\<And>w. w \<in> set ws \<Longrightarrow> d \<notin> set w) \<Longrightarrow> split_on d (join [d] ws) = ws"
  by (induction "[d]" ws rule: join.induct) (auto simp: split_on_no_sep split_on_append)

text \<open>\<open>s.replace(old, new)\<close> for a non-empty \<open>old\<close>: left to right, no overlap.\<close>

fun replace_from :: "nat \<Rightarrow> string \<Rightarrow> string \<Rightarrow> string \<Rightarrow> string" where
  "replace_from k old new [] = []"
| "replace_from (Suc k) old new (c # cs) = replace_from k old new cs"
| "replace_from 0 old new (c # cs) =
     (if old \<noteq> [] \<and> prefix old (c # cs) then new @ replace_from (length old - 1) old new cs
      else c # replace_from 0 old new cs)"

definition replace_all :: "string \<Rightarrow> string \<Rightarrow> string \<Rightarrow> string" where
  "replace_all s old new = replace_from 0 old new s"

text \<open>\<open>s[:n]\<close> is \<open>take n s\<close>; \<open>xs[-n:]\<close> is the last \<open>n\<close> items.\<close>

definition last_n :: "nat \<Rightarrow> 'a list \<Rightarrow> 'a list" where
  "last_n n xs = drop (length xs - n) xs"

lemma length_last_n [simp]: "length (last_n n xs) = min n (length xs)"
  by (simp add: last_n_def)

lemma set_last_n: "set (last_n n xs) \<subseteq> set xs"
  by (auto simp: last_n_def dest: in_set_dropD)

lemma last_last_n: "0 < n \<Longrightarrow> xs \<noteq> [] \<Longrightarrow> last (last_n n xs) = last xs"
  by (simp add: last_n_def)

section \<open>Lines\<close>

text \<open>\<open>str.splitlines\<close>.\<close>

definition line_end :: "char \<Rightarrow> bool" where
  "line_end c = (let n = of_char c :: nat in (10 \<le> n \<and> n \<le> 13) \<or> (28 \<le> n \<and> n \<le> 30))"

fun split_lines :: "string \<Rightarrow> string \<Rightarrow> string list" where
  "split_lines acc [] = (if acc = [] then [] else [acc])"
| "split_lines acc (c # cs) =
     (if line_end c then acc # split_lines [] (if c = CHR 0x0D \<and> cs \<noteq> [] \<and> hd cs = CHR 0x0A then tl cs else cs)
      else split_lines (acc @ [c]) cs)"

section \<open>Decimal numbers\<close>

definition digit_char :: "nat \<Rightarrow> char" where
  "digit_char d = char_of (48 + d)"

fun nat_str :: "nat \<Rightarrow> string" where
  "nat_str n = (if n < 10 then [digit_char n] else nat_str (n div 10) @ [digit_char (n mod 10)])"

declare nat_str.simps [simp del]

definition int_str :: "int \<Rightarrow> string" where
  "int_str n = (if n < 0 then ''-'' @ nat_str (nat (- n)) else nat_str (nat n))"

definition is_digit :: "char \<Rightarrow> bool" where
  "is_digit c = (let n = of_char c :: nat in 48 \<le> n \<and> n \<le> 57)"

definition digit_val :: "char \<Rightarrow> nat" where
  "digit_val c = of_char c - 48"

definition digits_val :: "string \<Rightarrow> nat" where
  "digits_val s = foldl (\<lambda>acc c. 10 * acc + digit_val c) 0 s"

text \<open>\<open>int(s)\<close> for a string: surrounding white space, a sign, digits with single underscores.\<close>

definition py_int_body :: "string \<Rightarrow> nat option" where
  "py_int_body s = (let gs = split_on CHR ''_'' s in
     if list_all (\<lambda>g. g \<noteq> [] \<and> list_all is_digit g) gs then Some (digits_val (concat gs)) else None)"

definition int_of_str :: "string \<Rightarrow> int option" where
  "int_of_str s = (case strip s of
       [] \<Rightarrow> None
     | c # cs \<Rightarrow>
         if c = CHR ''-'' then map_option (\<lambda>n. - int n) (py_int_body cs)
         else if c = CHR ''+'' then map_option int (py_int_body cs)
         else map_option int (py_int_body (c # cs)))"

lemma is_digit_digit_char: "d < 10 \<Longrightarrow> is_digit (digit_char d)"
  by (simp add: is_digit_def digit_char_def)

lemma digit_val_digit_char: "d < 10 \<Longrightarrow> digit_val (digit_char d) = d"
  by (simp add: digit_val_def digit_char_def)

lemma nat_str_digits: "list_all is_digit (nat_str n)"
proof (induction n rule: nat_str.induct)
  case (1 n)
  then show ?case by (subst nat_str.simps) (auto simp: is_digit_digit_char)
qed

lemma nat_str_not_Nil [simp]: "nat_str n \<noteq> []"
  by (subst nat_str.simps) simp

lemma digits_val_snoc: "digits_val (s @ [c]) = 10 * digits_val s + digit_val c"
  by (simp add: digits_val_def)

lemma digits_val_nat_str: "digits_val (nat_str n) = n"
proof (induction n rule: nat_str.induct)
  case (1 n)
  show ?case
  proof (cases "n < 10")
    case True
    then show ?thesis by (subst nat_str.simps) (simp add: digits_val_def digit_val_digit_char)
  next
    case False
    with 1 show ?thesis
      by (subst nat_str.simps) (simp add: digits_val_snoc digit_val_digit_char)
  qed
qed

lemma is_digit_not_special: "is_digit c \<Longrightarrow> \<not> py_space c \<and> c \<noteq> CHR ''_'' \<and> c \<noteq> CHR ''-'' \<and> c \<noteq> CHR ''+''"
  by (auto simp: is_digit_def py_space_def Let_def)

lemma list_all_digit_no_underscore: "list_all is_digit s \<Longrightarrow> CHR ''_'' \<notin> set s"
  by (induction s) (auto dest: is_digit_not_special)

lemma strip_no_space: "list_all (\<lambda>c. \<not> py_space c) s \<Longrightarrow> strip s = s"
proof -
  assume a: "list_all (\<lambda>c. \<not> py_space c) s"
  have "dropWhile py_space t = t" if "list_all (\<lambda>c. \<not> py_space c) t" for t
    using that by (cases t) auto
  with a show ?thesis
    by (simp add: strip_def rstrip_chars_def lstrip_chars_def list_all_rev)
qed

lemma py_int_body_nat_str: "py_int_body (nat_str n) = Some n"
  using nat_str_digits [of n]
  by (simp add: py_int_body_def split_on_no_sep list_all_digit_no_underscore digits_val_nat_str)

lemma nat_str_no_space: "list_all (\<lambda>c. \<not> py_space c) (nat_str n)"
  using nat_str_digits [of n] by (rule list.pred_mono_strong) (auto dest: is_digit_not_special)

text \<open>Printing an integer and reading it back.\<close>

lemma int_of_str_int_str [simp]: "int_of_str (int_str n) = Some n"
proof (cases "n < 0")
  case True
  have "list_all (\<lambda>c. \<not> py_space c) (CHR ''-'' # nat_str (nat (- n)))"
    using nat_str_no_space by (simp add: py_space_def)
  then have "strip (CHR ''-'' # nat_str (nat (- n))) = CHR ''-'' # nat_str (nat (- n))"
    by (rule strip_no_space)
  with True show ?thesis by (simp add: int_of_str_def int_str_def py_int_body_nat_str)
next
  case False
  obtain c cs where cc: "nat_str (nat n) = c # cs"
    using nat_str_not_Nil by (meson neq_Nil_conv)
  have "is_digit c" using nat_str_digits [of "nat n"] by (simp add: cc)
  then have "c \<noteq> CHR ''-''" and "c \<noteq> CHR ''+''" by (auto dest: is_digit_not_special)
  moreover have "strip (nat_str (nat n)) = nat_str (nat n)"
    by (rule strip_no_space) (rule nat_str_no_space)
  ultimately show ?thesis
    using False py_int_body_nat_str [of "nat n"] by (simp add: int_of_str_def int_str_def cc)
qed

lemma int_str_inject [simp]: "int_str m = int_str n \<longleftrightarrow> m = n"
  by (metis int_of_str_int_str option.inject)

end
