(* ===== verification/PyJson.thy ===== *)
theory PyJson
  imports PyText
begin

text \<open>
  The values that travel through \<open>json.loads\<close> and \<open>json.dumps\<close>, with Python's
  dictionary operations (insertion order, last write wins), truth test, \<open>str\<close>, \<open>int\<close>
  and \<open>list\<close> conversions. A string that \<open>datetime.isoformat\<close> produced is kept as
  its instant (\<open>JStamp\<close>, microseconds since 1970-01-01), so \<open>fromisoformat\<close> gives
  the instant back. Floating-point numbers do not occur in the values modelled.

  A text column holds no text, the text of a JSON value, or text that does not parse.
\<close>

section \<open>Values\<close>

datatype json =
    JNull
  | JBool bool
  | JInt int
  | JStr string
  | JStamp int
  | JList "json list"
  | JObj "(string \<times> json) list"

type_synonym dict = "(string \<times> json) list"

section \<open>Dictionaries\<close>

definition dget :: "dict \<Rightarrow> string \<Rightarrow> json option" where
  "dget d k = map_of d k"

text \<open>\<open>d.get(k)\<close>, with \<open>None\<close> for a missing key.\<close>

definition dget0 :: "dict \<Rightarrow> string \<Rightarrow> json" where
  "dget0 d k = (case dget d k of None \<Rightarrow> JNull | Some v \<Rightarrow> v)"

fun dset :: "string \<Rightarrow> json \<Rightarrow> dict \<Rightarrow> dict" where
  "dset k v [] = [(k, v)]"
| "dset k v ((k', v') # d) = (if k' = k then (k, v) # d else (k', v') # dset k v d)"

text \<open>\<open>d.update(extra)\<close>.\<close>

fun dupdate :: "dict \<Rightarrow> dict \<Rightarrow> dict" where
  "dupdate d [] = d"
| "dupdate d ((k, v) # extra) = dupdate (dset k v d) extra"

lemma dget_dset_same [simp]: "dget (dset k v d) k = Some v"
  by (induction k v d rule: dset.induct) (auto simp: dget_def)

lemma dget_dset_other [simp]: "k' \<noteq> k \<Longrightarrow> dget (dset k v d) k' = dget d k'"
  by (induction k v d rule: dset.induct) (auto simp: dget_def)

lemma dget_dset: "dget (dset k v d) k' = (if k' = k then Some v else dget d k')"
  by auto

lemma dget0_dset: "dget0 (dset k v d) k' = (if k' = k then v else dget0 d k')"
  by (simp add: dget0_def)

lemma dget_dupdate_other: "k \<notin> fst ` set extra \<Longrightarrow> dget (dupdate d extra) k = dget d k"
  by (induction d extra rule: dupdate.induct) auto

lemma dget_dupdate_in:
  "distinct (map fst extra) \<Longrightarrow> (k, v) \<in> set extra \<Longrightarrow> dget (dupdate d extra) k = Some v"
proof (induction d extra rule: dupdate.induct)
  case (2 d k' v' extra)
  show ?case
  proof (cases "(k, v) = (k', v')")
    case True
    with 2 have "k \<notin> fst ` set extra" by auto
    with True show ?thesis by (simp add: dget_dupdate_other)
  next
    case False
    with 2 have "(k, v) \<in> set extra" and "distinct (map fst extra)" by auto
    with 2 show ?thesis by simp
  qed
qed simp

lemma dget_dupdate: "distinct (map fst extra) \<Longrightarrow>
    dget (dupdate d extra) k = (case map_of extra k of Some v \<Rightarrow> Some v | None \<Rightarrow> dget d k)"
  by (metis dget_dupdate_in dget_dupdate_other map_of_SomeD map_of_eq_None_iff option.case_eq_if
      option.collapse)

section \<open>Time stamps as text\<close>

text \<open>The proleptic Gregorian date of a day number (day 0 is 1970-01-01).\<close>

definition civil_from_days :: "int \<Rightarrow> int \<times> int \<times> int" where
  "civil_from_days z0 = (let z = z0 + 719468; era = z div 146097; doe = z mod 146097;
     yoe = (doe - doe div 1460 + doe div 36524 - doe div 146096) div 365;
     doy = doe - (365 * yoe + yoe div 4 - yoe div 100);
     mp = (5 * doy + 2) div 153;
     d = doy - (153 * mp + 2) div 5 + 1;
     m = (if mp < 10 then mp + 3 else mp - 9);
     y = yoe + era * 400 + (if m \<le> 2 then 1 else 0)
   in (y, m, d))"

definition zpad :: "nat \<Rightarrow> int \<Rightarrow> string" where
  "zpad w n = (let s = nat_str (nat n) in replicate (w - length s) CHR ''0'' @ s)"

definition isoformat :: "int \<Rightarrow> string" where
  "isoformat t = (let days = t div 86400000000; us = t mod 86400000000;
     (y, m, d) = civil_from_days days;
     secs = us div 1000000; frac = us mod 1000000
   in zpad 4 y @ ''-'' @ zpad 2 m @ ''-'' @ zpad 2 d @ ''T'' @
      zpad 2 (secs div 3600) @ '':'' @ zpad 2 (secs div 60 mod 60) @ '':'' @ zpad 2 (secs mod 60) @
      (if frac = 0 then [] else ''.'' @ zpad 6 frac))"

section \<open>Truth, text, integers, lists\<close>

text \<open>\<open>bool(x)\<close>.\<close>

fun truthy :: "json \<Rightarrow> bool" where
  "truthy JNull = False"
| "truthy (JBool b) = b"
| "truthy (JInt n) = (n \<noteq> 0)"
| "truthy (JStr s) = (s \<noteq> [])"
| "truthy (JStamp t) = True"
| "truthy (JList xs) = (xs \<noteq> [])"
| "truthy (JObj d) = (d \<noteq> [])"

text \<open>\<open>x or y\<close>.\<close>

definition jor :: "json \<Rightarrow> json \<Rightarrow> json" where
  "jor x y = (if truthy x then x else y)"

definition hex_digit :: "nat \<Rightarrow> char" where
  "hex_digit d = (if d < 10 then char_of (48 + d) else char_of (87 + d))"

text \<open>The code point of a Windows-1252 char, for the escapes of \<open>json.dumps\<close>.\<close>

definition code_point :: "char \<Rightarrow> nat" where
  "code_point c = (let n = of_char c :: nat in
     case map_of [(128, 8364), (130, 8218), (131, 402), (132, 8222), (133, 8230), (134, 8224),
       (135, 8225), (136, 710), (137, 8240), (138, 352), (139, 8249), (140, 338), (141, 10007), (142, 381), (143, 10003),
       (145, 8216), (146, 8217), (147, 8220), (148, 8221), (149, 8226), (150, 8211),
       (151, 8212), (152, 732), (153, 8482), (154, 353), (155, 8250), (156, 339), (157, 8594), (158, 382),
       (159, 376)] n
     of Some u \<Rightarrow> u | None \<Rightarrow> n)"

definition u_escape :: "nat \<Rightarrow> string" where
  "u_escape n = CHR 0x5C # ''u'' @ map (\<lambda>k. hex_digit (n div 16 ^ k mod 16)) [3, 2, 1, 0]"

definition json_char :: "char \<Rightarrow> string" where
  "json_char c = (let n = of_char c :: nat in
     if n = 34 then [CHR 0x5C, CHR 0x22] else if n = 92 then [CHR 0x5C, CHR 0x5C]
     else if n = 10 then CHR 0x5C # ''n'' else if n = 13 then CHR 0x5C # ''r''
     else if n = 9 then CHR 0x5C # ''t'' else if n = 8 then CHR 0x5C # ''b''
     else if n = 12 then CHR 0x5C # ''f''
     else if n < 32 \<or> 126 < n then u_escape (code_point c) else [c])"

definition json_str :: "string \<Rightarrow> string" where
  "json_str s = [CHR 0x22] @ concat (map json_char s) @ [CHR 0x22]"

text \<open>\<open>json.dumps\<close> with its default separators.\<close>

fun dumps :: "json \<Rightarrow> string" where
  "dumps JNull = ''null''"
| "dumps (JBool b) = (if b then ''true'' else ''false'')"
| "dumps (JInt n) = int_str n"
| "dumps (JStr s) = json_str s"
| "dumps (JStamp t) = json_str (isoformat t)"
| "dumps (JList xs) = ''['' @ join '', '' (map dumps xs) @ '']''"
| "dumps (JObj d) = ''{'' @ join '', '' (map (\<lambda>(k, v). json_str k @ '': '' @ dumps v) d) @ ''}''"

text \<open>\<open>repr\<close> of a string: single quotes unless it holds one and no double quote.\<close>

definition repr_char :: "char \<Rightarrow> char \<Rightarrow> string" where
  "repr_char q c = (let n = of_char c :: nat in
     if c = q \<or> n = 92 then [CHR 0x5C, c] else if n = 10 then CHR 0x5C # ''n''
     else if n = 13 then CHR 0x5C # ''r'' else if n = 9 then CHR 0x5C # ''t''
     else if n < 32 \<or> n = 127 \<or> n \<in> {129, 144, 160, 173}
       then CHR 0x5C # ''x'' @ [hex_digit (n div 16), hex_digit (n mod 16)]
     else [c])"

definition repr_str :: "string \<Rightarrow> string" where
  "repr_str s = (let q = (if CHR 0x27 \<in> set s \<and> CHR 0x22 \<notin> set s then CHR 0x22 else CHR 0x27)
     in [q] @ concat (map (repr_char q) s) @ [q])"

fun py_repr :: "json \<Rightarrow> string" where
  "py_repr JNull = ''None''"
| "py_repr (JBool b) = (if b then ''True'' else ''False'')"
| "py_repr (JInt n) = int_str n"
| "py_repr (JStr s) = repr_str s"
| "py_repr (JStamp t) = repr_str (isoformat t)"
| "py_repr (JList xs) = ''['' @ join '', '' (map py_repr xs) @ '']''"
| "py_repr (JObj d) = ''{'' @ join '', '' (map (\<lambda>(k, v). repr_str k @ '': '' @ py_repr v) d) @ ''}''"

definition py_str :: "json \<Rightarrow> string" where
  "py_str v = (case v of JStr s \<Rightarrow> s | JStamp t \<Rightarrow> isoformat t | _ \<Rightarrow> py_repr v)"

lemma py_str_simps [simp]:
  "py_str (JStr s) = s"
  "py_str (JInt n) = int_str n"
  "py_str JNull = ''None''"
  by (simp_all add: py_str_def)

text \<open>\<open>int(x)\<close>: \<open>None\<close> is the \<open>TypeError\<close> or \<open>ValueError\<close>.\<close>

definition py_int :: "json \<Rightarrow> int option" where
  "py_int v = (case v of JInt n \<Rightarrow> Some n | JBool b \<Rightarrow> Some (if b then 1 else 0)
     | JStr s \<Rightarrow> int_of_str s | _ \<Rightarrow> None)"

text \<open>\<open>list(x)\<close>: \<open>None\<close> is the \<open>TypeError\<close> of a value that is not iterable.\<close>

definition py_list :: "json \<Rightarrow> json list option" where
  "py_list v = (case v of JList xs \<Rightarrow> Some xs
     | JStr s \<Rightarrow> Some (map (\<lambda>c. JStr [c]) s)
     | JStamp t \<Rightarrow> Some (map (\<lambda>c. JStr [c]) (isoformat t))
     | JObj d \<Rightarrow> Some (map (JStr \<circ> fst) d)
     | _ \<Rightarrow> None)"

text \<open>\<open>None\<close> or a value, as a JSON value.\<close>

definition jopt :: "('a \<Rightarrow> json) \<Rightarrow> 'a option \<Rightarrow> json" where
  "jopt f x = (case x of None \<Rightarrow> JNull | Some v \<Rightarrow> f v)"

section \<open>Text columns\<close>

datatype column = Absent | Text json | Garbled string

text \<open>\<open>json.loads(col or "{}")\<close>; \<open>None\<close> is the parse error.\<close>

definition loads :: "column \<Rightarrow> json option" where
  "loads c = (case c of Absent \<Rightarrow> Some (JObj []) | Text j \<Rightarrow> Some j | Garbled _ \<Rightarrow> None)"

text \<open>The same, replaced by an empty dictionary when it does not parse or is not one.\<close>

definition load_dict :: "column \<Rightarrow> dict" where
  "load_dict c = (case loads c of Some (JObj d) \<Rightarrow> d | _ \<Rightarrow> [])"

lemma load_dict_simps [simp]:
  "load_dict Absent = []"
  "load_dict (Text (JObj d)) = d"
  "load_dict (Garbled s) = []"
  by (simp_all add: load_dict_def loads_def)

lemma loads_simps [simp]:
  "loads Absent = Some (JObj [])"
  "loads (Text j) = Some j"
  "loads (Garbled s) = None"
  by (simp_all add: loads_def)

end
