(* ===== verification/JobStore.thy ===== *)
theory JobStore
  imports PyJson
begin

text \<open>
  The database tables the job queue works on (\<open>app/models.py\<close>: Job, AuditLog, the
  columns of Server the queue reads), the surroundings of one request (\<open>env\<close>: clock,
  configuration, request address, and the answers of Redis, Celery and SSH, which are not
  part of the program), the outside effects it leaves, and the relation \<open>calm\<close> that every
  operation satisfies which adds no job and makes no finished job active again.

  Each function of the code that opens and commits a session is one step on \<open>db\<close>. All
  clock reads of one call are the same instant \<open>e_now\<close>, in microseconds. A call that raises
  before its commit leaves the tables as they were; the effect log records the effects of the
  calls that reach their commit.
\<close>

section \<open>Rows\<close>

record job =
  j_id :: int
  j_server_id :: "int option"
  j_job_type :: string
  j_status :: string
  j_celery_task_id :: "string option"
  j_worker_hostname :: "string option"
  j_created_at :: int
  j_started_at :: "int option"
  j_finished_at :: "int option"
  j_details :: column

record audit =
  a_id :: int
  a_user_id :: json
  a_server_id :: "int option"
  a_api_token_id :: "int option"
  a_api_token_name :: "string option"
  a_action :: string
  a_status :: string
  a_details :: "string option"
  a_output_snippet :: "string option"
  a_client_ip :: "string option"
  a_started_at :: int
  a_finished_at :: "int option"

record server =
  s_id :: int
  s_name :: string
  s_hostname :: string
  s_ssh_username :: string
  s_docker_base_dir :: string
  s_last_seen :: "int option"
  s_host_facts_status :: string
  s_os_apply_steps :: column
  s_os_type :: string
  s_last_os_check_at :: "int option"
  s_os_updates_count :: "int option"
  s_os_updates_summary :: column
  s_reboot_pending :: bool
  s_last_container_check_at :: "int option"
  s_container_updates_count :: "int option"
  s_container_updates_summary :: column

section \<open>Exceptions and outside effects\<close>

datatype exc =
    JobAlreadyActive int
  | BackupAlreadyRunning int
  | JobNotCancellable string
  | RuntimeError string
  | ValueError string
  | TypeError
  | AttributeError
  | FormatError
  | Retry int

datatype effect =
    Revoked string
  | StoppedBackup string
  | Published string int json
  | RanInProcess string int json
  | OsLog string string
  | ContainerLog string string
  | WebhookSent string string string string
  | NotifiedBackupFailed int string string
  | ResolvedBackupFailed int
  | ResolvedScheduleMissed int
  | ResolvedContainerMissed int
  | NotifiedHerderFailed string string
  | ResolvedHerderFailed
  | OfferedArchive string
  | NotifiedOsUpdates int string int bool int
  | NotifiedImageUpdates int string json
  | ResolvedRebootPending int
  | InvalidatedInventory int
  | ContainerProgress string string
  | OsProgress string string
  | Executed string int

text \<open>
  The rows of one database. \<open>db_ssh_down\<close> and \<open>db_host_down\<close> are the server ids with a
  down SSH binding of Uptime Kuma and with an open \<open>host_down\<close> notification.
\<close>

record db =
  db_jobs :: "job list"
  db_audits :: "audit list"
  db_servers :: "server list"
  db_next_job :: int
  db_next_audit :: int
  db_ssh_down :: "int list"
  db_host_down :: "int list"
  db_effects :: "effect list"

text \<open>
  What one call sees of its surroundings. \<open>e_publish\<close> is the broker's answer
  (an error text or a task id), \<open>e_ssh\<close> whether the SSH probe of a server answers,
  \<open>e_redact_text\<close> the demo-mode rewriting of addresses inside audit text,
  \<open>e_encrypt\<close> and \<open>e_decrypt\<close> Fernet under the master key,
  \<open>e_retries_left\<close> whether Celery still grants the task a retry, \<open>e_error_text\<close> the text of
  an exception whose text Python itself composes.
\<close>

record env =
  e_now :: int
  e_demo :: bool
  e_inline :: bool
  e_has_celery :: bool
  e_publish :: "string + string"
  e_request_ip :: "string option"
  e_ssh :: "int \<Rightarrow> bool"
  e_redact_text :: "string \<Rightarrow> string"
  e_encrypt :: "string \<Rightarrow> string"
  e_decrypt :: "string \<Rightarrow> string option"
  e_host_wait_env :: "string"
  e_host_wait_setting :: "json option"
  e_revoke_ok :: bool
  e_retries_left :: bool
  e_error_text :: string

section \<open>Calls that commit more than once\<close>

text \<open>One session: its changes are kept when it commits and dropped when it raises.\<close>

definition commit :: "db \<Rightarrow> exc + db \<Rightarrow> db \<times> (exc + unit)" where
  "commit d r = (case r of Inl x \<Rightarrow> (d, Inl x) | Inr d' \<Rightarrow> (d', Inr ()))"

definition andthen :: "db \<times> (exc + 'a) \<Rightarrow> (db \<Rightarrow> 'a \<Rightarrow> db \<times> (exc + 'b)) \<Rightarrow> db \<times> (exc + 'b)" where
  "andthen m f = (case m of (d, Inl x) \<Rightarrow> (d, Inl x) | (d, Inr v) \<Rightarrow> f d v)"

lemma commit_simps [simp]:
  "commit d (Inl x) = (d, Inl x)"
  "commit d (Inr d') = (d', Inr ())"
  by (simp_all add: commit_def)

lemma andthen_simps [simp]:
  "andthen (d, Inl x) f = (d, Inl x)"
  "andthen (d, Inr v) f = f d v"
  by (simp_all add: andthen_def)

section \<open>Table operations\<close>

definition get_job :: "db \<Rightarrow> int \<Rightarrow> job option" where
  "get_job d i = get_row j_id i (db_jobs d)"

definition get_audit :: "db \<Rightarrow> int \<Rightarrow> audit option" where
  "get_audit d i = get_row a_id i (db_audits d)"

definition get_server :: "db \<Rightarrow> int \<Rightarrow> server option" where
  "get_server d i = get_row s_id i (db_servers d)"

definition upd_job :: "int \<Rightarrow> (job \<Rightarrow> job) \<Rightarrow> db \<Rightarrow> db" where
  "upd_job i f d = d\<lparr>db_jobs := upd_row j_id i f (db_jobs d)\<rparr>"

definition upd_audit :: "int \<Rightarrow> (audit \<Rightarrow> audit) \<Rightarrow> db \<Rightarrow> db" where
  "upd_audit i f d = d\<lparr>db_audits := upd_row a_id i f (db_audits d)\<rparr>"

definition upd_server :: "int \<Rightarrow> (server \<Rightarrow> server) \<Rightarrow> db \<Rightarrow> db" where
  "upd_server i f d = d\<lparr>db_servers := upd_row s_id i f (db_servers d)\<rparr>"

definition emit :: "effect \<Rightarrow> db \<Rightarrow> db" where
  "emit e d = d\<lparr>db_effects := db_effects d @ [e]\<rparr>"

text \<open>\<open>session.add(row)\<close> of a new row and the flush that gives it its id.\<close>

definition add_job :: "env \<Rightarrow> int option \<Rightarrow> string \<Rightarrow> column \<Rightarrow> db \<Rightarrow> db" where
  "add_job e sid jt det d = d\<lparr>
     db_jobs := db_jobs d @ [\<lparr>j_id = db_next_job d, j_server_id = sid, j_job_type = jt,
       j_status = ''pending'', j_celery_task_id = None, j_worker_hostname = None,
       j_created_at = e_now e, j_started_at = None, j_finished_at = None, j_details = det\<rparr>],
     db_next_job := db_next_job d + 1\<rparr>"

definition add_audit :: "(int \<Rightarrow> audit) \<Rightarrow> db \<Rightarrow> db" where
  "add_audit mk d = d\<lparr>db_audits := db_audits d @ [mk (db_next_audit d)],
     db_next_audit := db_next_audit d + 1\<rparr>"

text \<open>The exceptions that carry their text.\<close>

definition exc_text :: "env \<Rightarrow> exc \<Rightarrow> string" where
  "exc_text e x = (case x of RuntimeError s \<Rightarrow> s | ValueError s \<Rightarrow> s | JobNotCancellable s \<Rightarrow> s
     | _ \<Rightarrow> e_error_text e)"

section \<open>Active jobs\<close>

definition active_status :: "string \<Rightarrow> bool" where
  "active_status st = (st = ''pending'' \<or> st = ''running'')"

definition terminal_status :: "string \<Rightarrow> bool" where
  "terminal_status st = (st = ''success'' \<or> st = ''failed'' \<or> st = ''cancelled'')"

definition active :: "job \<Rightarrow> bool" where
  "active j = active_status (j_status j)"

lemma active_status_simps [simp]:
  "active_status ''pending''" "active_status ''running''"
  "\<not> active_status ''failed''" "\<not> active_status ''cancelled''" "\<not> active_status ''success''"
  by (simp_all add: active_status_def)

lemma terminal_not_active: "terminal_status st \<Longrightarrow> \<not> active_status st"
  by (auto simp: terminal_status_def active_status_def)

definition job_key :: "job \<Rightarrow> int \<times> int option \<times> string" where
  "job_key j = (j_id j, j_server_id j, j_job_type j)"

text \<open>The abstract view of the queue: id, host and type of every active job.\<close>

definition active_keys :: "db \<Rightarrow> (int \<times> int option \<times> string) list" where
  "active_keys d = map job_key (filter active (db_jobs d))"

definition wf_ids :: "db \<Rightarrow> bool" where
  "wf_ids d = (distinct (map j_id (db_jobs d)) \<and> (\<forall>j\<in>set (db_jobs d). j_id j < db_next_job d))"

definition calm :: "db \<Rightarrow> db \<Rightarrow> bool" where
  "calm d d' = (subseq (active_keys d') (active_keys d)
     \<and> map j_id (db_jobs d') = map j_id (db_jobs d) \<and> db_next_job d' = db_next_job d)"

lemma calm_refl [simp, intro]: "calm d d"
  by (simp add: calm_def)

lemma calm_trans [trans]: "calm d d' \<Longrightarrow> calm d' d'' \<Longrightarrow> calm d d''"
  by (auto simp: calm_def intro: subseq_order.order_trans)

lemma wf_ids_calm: 
  assumes "calm d d'" and "wf_ids d" shows "wf_ids d'"
proof -
  from assms(1) have ids: "map j_id (db_jobs d') = map j_id (db_jobs d)"
    and next_id: "db_next_job d' = db_next_job d" by (auto simp: calm_def)
  have "j_id j < db_next_job d" if "j \<in> set (db_jobs d')" for j
  proof -
    from that have "j_id j \<in> j_id ` set (db_jobs d)"
      by (metis ids image_eqI list.set_map)
    with assms(2) show ?thesis by (auto simp: wf_ids_def)
  qed
  with ids next_id assms(2) show ?thesis by (simp add: wf_ids_def)
qed

text \<open>An update is calm when it keeps the key and never turns an inactive row active.\<close>

definition calm_upd :: "(job \<Rightarrow> job) \<Rightarrow> bool" where
  "calm_upd f = (\<forall>j. job_key (f j) = job_key j \<and> (active (f j) \<longrightarrow> active j))"

lemma calm_upd_job:
  assumes "\<And>j. get_job d i = Some j \<Longrightarrow> wf_ids d \<Longrightarrow> active (f j) \<Longrightarrow> active j"
    and "\<And>j. job_key (f j) = job_key j" and "wf_ids d"
  shows "calm d (upd_job i f d)"
proof -
  let ?g = "\<lambda>j. if j_id j = i then f j else j"
  have key: "job_key (?g j) = job_key j" for j using assms(2) by simp
  have act: "active j" if "j \<in> set (db_jobs d)" and "active (?g j)" for j
  proof (cases "j_id j = i")
    case True
    with that(1) assms(3) have "get_job d i = Some j"
      by (auto simp: get_job_def wf_ids_def intro: get_row_unique)
    with assms(1,3) that(2) True show ?thesis by simp
  next
    case False
    with that(2) show ?thesis by simp
  qed
  have "subseq (map job_key (filter active (map ?g (db_jobs d)))) (map job_key (filter active (db_jobs d)))"
    by (rule subseq_map_filter_weaken) (use act key in auto)
  moreover have "j_id (?g j) = j_id j" for j using key [of j] by (simp add: job_key_def)
  ultimately show ?thesis
    by (simp add: calm_def active_keys_def upd_job_def upd_row_def del: if_split)
qed

lemma calm_upd_job': "calm_upd f \<Longrightarrow> calm d (upd_job i f d)"
proof -
  assume f: "calm_upd f"
  let ?g = "\<lambda>j. if j_id j = i then f j else j"
  have key: "job_key (?g j) = job_key j" for j using f by (simp add: calm_upd_def)
  have "subseq (map job_key (filter active (map ?g (db_jobs d)))) (map job_key (filter active (db_jobs d)))"
    by (rule subseq_map_filter_weaken) (use f in \<open>auto simp: calm_upd_def split: if_splits\<close>)
  moreover have "j_id (?g j) = j_id j" for j using key [of j] by (simp add: job_key_def)
  ultimately show ?thesis
    by (simp add: calm_def active_keys_def upd_job_def upd_row_def del: if_split)
qed

lemma calm_others [simp, intro]:
  "calm d (upd_audit i f d)"
  "calm d (upd_server i g d)"
  "calm d (emit x d)"
  "calm d (add_audit mk d)"
  by (simp_all add: calm_def active_keys_def upd_audit_def upd_server_def emit_def add_audit_def)

lemma active_keys_add_job:
  "active_keys (add_job e sid jt det d) = active_keys d @ [(db_next_job d, sid, jt)]"
  by (simp add: active_keys_def add_job_def job_key_def active_def)

lemma wf_ids_add_job: "wf_ids d \<Longrightarrow> wf_ids (add_job e sid jt det d)"
  by (auto simp: wf_ids_def add_job_def)

lemma job_of_active_key:
  "(i, sid, jt) \<in> set (active_keys d) \<longleftrightarrow>
     (\<exists>j\<in>set (db_jobs d). active j \<and> j_id j = i \<and> j_server_id j = sid \<and> j_job_type j = jt)"
  by (auto simp: active_keys_def job_key_def)

section \<open>Reading and writing the same row\<close>

lemma get_job_upd_same:
  "(\<And>j. j_id (f j) = j_id j) \<Longrightarrow> get_job (upd_job i f d) i = map_option f (get_job d i)"
  by (simp add: get_job_def upd_job_def get_row_upd_same)

lemma get_job_upd_other:
  "(\<And>j. j_id (f j) = j_id j) \<Longrightarrow> k \<noteq> i \<Longrightarrow> get_job (upd_job i f d) k = get_job d k"
  by (simp add: get_job_def upd_job_def get_row_upd_other)

lemma get_job_frame [simp]:
  "get_job (upd_audit i f d) k = get_job d k"
  "get_job (upd_server i g d) k = get_job d k"
  "get_job (emit x d) k = get_job d k"
  "get_job (add_audit mk d) k = get_job d k"
  by (simp_all add: get_job_def upd_audit_def upd_server_def emit_def add_audit_def)

lemma get_server_frame [simp]:
  "get_server (upd_audit i f d) k = get_server d k"
  "get_server (upd_job i h d) k = get_server d k"
  "get_server (emit x d) k = get_server d k"
  "get_server (add_audit mk d) k = get_server d k"
  "get_server (add_job e sid jt det d) k = get_server d k"
  by (simp_all add: get_server_def upd_audit_def upd_job_def emit_def add_audit_def add_job_def)

lemma get_audit_frame [simp]:
  "get_audit (upd_job i h d) k = get_audit d k"
  "get_audit (upd_server i g d) k = get_audit d k"
  "get_audit (emit x d) k = get_audit d k"
  "get_audit (add_job e sid jt det d) k = get_audit d k"
  by (simp_all add: get_audit_def upd_job_def upd_server_def emit_def add_job_def)

lemma get_job_cong: "db_jobs d = db_jobs d' \<Longrightarrow> get_job d i = get_job d' i"
  by (simp add: get_job_def)

lemma emit_db_jobs [simp]: "db_jobs (emit x d) = db_jobs d"
  by (simp add: emit_def)

lemma get_job_add_job:
  "wf_ids d \<Longrightarrow> get_job (add_job e sid jt det d) (db_next_job d) = Some
     \<lparr>j_id = db_next_job d, j_server_id = sid, j_job_type = jt, j_status = ''pending'',
      j_celery_task_id = None, j_worker_hostname = None, j_created_at = e_now e,
      j_started_at = None, j_finished_at = None, j_details = det\<rparr>"
proof -
  assume "wf_ids d"
  then have "get_row j_id (db_next_job d) (db_jobs d) = None"
    by (auto simp: get_row_None wf_ids_def)
  then show ?thesis by (simp add: get_job_def add_job_def get_row_append)
qed

lemma get_job_add_job_other:
  "k \<noteq> db_next_job d \<Longrightarrow> get_job (add_job e sid jt det d) k = get_job d k"
  by (auto simp: get_job_def add_job_def get_row_append split: option.splits)

lemma get_job_id: "get_job d i = Some j \<Longrightarrow> j_id j = i"
  by (auto simp: get_job_def dest: get_row_Some)

lemma get_job_in: "get_job d i = Some j \<Longrightarrow> j \<in> set (db_jobs d)"
  by (auto simp: get_job_def dest: get_row_Some)

lemma get_job_of_in: "wf_ids d \<Longrightarrow> j \<in> set (db_jobs d) \<Longrightarrow> get_job d (j_id j) = Some j"
  by (auto simp: get_job_def wf_ids_def intro: get_row_unique)

section \<open>Merging fields into the details column\<close>

text \<open>\<open>_merge_job_details\<close>: \<open>log_line\<close> appends, \<open>log_lines\<close> replaces, both keep the last 40.\<close>

definition merge_field :: "string \<times> json \<Rightarrow> dict \<Rightarrow> exc + dict" where
  "merge_field kv data = (case kv of (k, v) \<Rightarrow>
     if k = ''log_line'' \<and> truthy v then
       (case py_list (jor (dget0 data ''log_lines'') (JList [])) of None \<Rightarrow> Inl TypeError
        | Some lines \<Rightarrow> Inr (dset ''log_lines'' (JList (last_n 40 (lines @ [JStr (py_str v)]))) data))
     else if k = ''log_lines'' \<and> v \<noteq> JNull then
       (case py_list v of None \<Rightarrow> Inl TypeError
        | Some lines \<Rightarrow> Inr (dset ''log_lines'' (JList (last_n 40 lines)) data))
     else Inr (dset k v data))"

definition merge_details :: "dict \<Rightarrow> column \<Rightarrow> exc + column" where
  "merge_details kvs c = rbind (rfold merge_field kvs (load_dict c)) (\<lambda>data. Inr (Text (JObj data)))"

definition merge_job_details :: "dict \<Rightarrow> job \<Rightarrow> exc + job" where
  "merge_job_details kvs j = rbind (merge_details kvs (j_details j)) (\<lambda>c. Inr (j\<lparr>j_details := c\<rparr>))"

lemma merge_job_details_frame:
  "merge_job_details kvs j = Inr j' \<Longrightarrow> j_id j' = j_id j \<and> j_server_id j' = j_server_id j
     \<and> j_job_type j' = j_job_type j \<and> j_status j' = j_status j \<and> job_key j' = job_key j
     \<and> active j' = active j"
  by (auto simp: merge_job_details_def job_key_def active_def elim!: rbind_InrE)

text \<open>A column is usable when its log, if it has one, is a list.\<close>

definition log_ok :: "column \<Rightarrow> bool" where
  "log_ok c = (case dget (load_dict c) ''log_lines'' of None \<Rightarrow> True
     | Some v \<Rightarrow> (case v of JList _ \<Rightarrow> True | JNull \<Rightarrow> True | _ \<Rightarrow> False))"

lemma log_ok_list:
  "log_ok c \<Longrightarrow> \<exists>xs. py_list (jor (dget0 (load_dict c) ''log_lines'') (JList [])) = Some xs"
  by (auto simp: log_ok_def dget0_def jor_def py_list_def split: option.splits json.splits)

end
