(* ===== verification/JobWorker.thy ===== *)
theory JobWorker
  imports JobStore
begin

text \<open>
  Which process claimed a job (\<open>app/services/job_worker.py\<close>). A Celery request is the
  object with its \<open>id\<close> and \<open>hostname\<close> attributes, a dictionary, or absent.
\<close>

datatype celery_request = NoRequest | RequestObj json json | RequestDict dict

definition WEB_WORKER_NAME :: string where
  "WEB_WORKER_NAME = ''web''"

definition normalize_worker_name :: "json \<Rightarrow> string option" where
  "normalize_worker_name raw = (let text = strip (py_str (jor raw (JStr []))) in
     if text = [] \<or> lower text \<in> {''none'', ''null''} then None else Some (take 200 text))"

definition hostname_from_celery_request :: "celery_request \<Rightarrow> string option" where
  "hostname_from_celery_request request = (case request of
     NoRequest \<Rightarrow> None
   | RequestObj rid host \<Rightarrow> normalize_worker_name host
   | RequestDict d \<Rightarrow> normalize_worker_name (dget0 d ''hostname''))"

text \<open>\<open>getattr(request, "id", None)\<close>.\<close>

definition request_id :: "celery_request \<Rightarrow> json" where
  "request_id request = (case request of RequestObj rid host \<Rightarrow> rid | _ \<Rightarrow> JNull)"

definition stripped :: "string option \<Rightarrow> string" where
  "stripped s = strip (case s of None \<Rightarrow> [] | Some t \<Rightarrow> t)"

text \<open>Returns whether the value changed, and the row.\<close>

definition stamp_job_worker :: "job \<Rightarrow> string option \<Rightarrow> bool \<Rightarrow> bool \<times> job" where
  "stamp_job_worker j name overwrite =
     (case normalize_worker_name (jopt JStr name) of
        None \<Rightarrow> (False, j)
      | Some clean \<Rightarrow>
          (let current = stripped (j_worker_hostname j) in
           if current = clean then (False, j)
           else if current \<noteq> [] \<and> \<not> overwrite then (False, j)
           else (True, j\<lparr>j_worker_hostname := Some clean\<rparr>)))"

definition remember_celery_worker :: "job \<Rightarrow> celery_request \<Rightarrow> bool \<times> job" where
  "remember_celery_worker j request =
     (let name = hostname_from_celery_request request in
      if j_status j = ''running'' then stamp_job_worker j name False
      else stamp_job_worker j name True)"

definition job_worker_label :: "job \<Rightarrow> string option" where
  "job_worker_label j = (let name = stripped (j_worker_hostname j) in
     if name \<noteq> [] then Some name
     else if j_status j = ''pending'' then Some ''not claimed'' else None)"

lemma stamp_job_worker_frame [simp]:
  "j_id (snd (stamp_job_worker j n o')) = j_id j"
  "j_status (snd (stamp_job_worker j n o')) = j_status j"
  "j_details (snd (stamp_job_worker j n o')) = j_details j"
  "j_server_id (snd (stamp_job_worker j n o')) = j_server_id j"
  "j_job_type (snd (stamp_job_worker j n o')) = j_job_type j"
  "j_started_at (snd (stamp_job_worker j n o')) = j_started_at j"
  "j_finished_at (snd (stamp_job_worker j n o')) = j_finished_at j"
  "j_created_at (snd (stamp_job_worker j n o')) = j_created_at j"
  "j_celery_task_id (snd (stamp_job_worker j n o')) = j_celery_task_id j"
  by (simp_all add: stamp_job_worker_def Let_def split: option.splits)

lemma stamp_keeps_key [simp]:
  "job_key (snd (stamp_job_worker j n o')) = job_key j"
  "active (snd (stamp_job_worker j n o')) = active j"
  by (simp_all add: job_key_def active_def)

lemma remember_keeps_key [simp]:
  "job_key (snd (remember_celery_worker j r)) = job_key j"
  "active (snd (remember_celery_worker j r)) = active j"
  "j_id (snd (remember_celery_worker j r)) = j_id j"
  "j_status (snd (remember_celery_worker j r)) = j_status j"
  "j_details (snd (remember_celery_worker j r)) = j_details j"
  "j_server_id (snd (remember_celery_worker j r)) = j_server_id j"
  "j_job_type (snd (remember_celery_worker j r)) = j_job_type j"
  "j_created_at (snd (remember_celery_worker j r)) = j_created_at j"
  by (simp_all add: remember_celery_worker_def Let_def)

text \<open>Without \<open>overwrite\<close>, a name that is set is never replaced.\<close>

lemma stamp_no_overwrite:
  "stripped (j_worker_hostname j) \<noteq> [] \<Longrightarrow> stamp_job_worker j n False = (False, j)"
  by (simp add: stamp_job_worker_def Let_def split: option.splits)

lemma normalize_worker_name_bound:
  "normalize_worker_name v = Some n \<Longrightarrow> n \<noteq> [] \<and> length n \<le> 200"
  by (auto simp: normalize_worker_name_def Let_def split: if_splits)

end
