(* ===== verification/JobAudit.thy ===== *)
theory JobAudit
  imports JobWorker
begin

text \<open>
  The audit trail: \<open>app/services/audit_write.py\<close>, \<open>app/services/backup_audit.py\<close> and the
  address redaction of \<open>app/services/demo.py\<close>.
\<close>

section \<open>Addresses\<close>

definition DEMO_AUDIT_IP_PLACEHOLDER :: string where
  "DEMO_AUDIT_IP_PLACEHOLDER = ''redacted''"

definition scrub_audit_client_ip :: "env \<Rightarrow> json \<Rightarrow> bool \<Rightarrow> json" where
  "scrub_audit_client_ip e ip for_display =
     (if \<not> e_demo e then ip
      else if ip = JNull then JNull
      else let s = strip (py_str ip) in
        if s = [] then JNull
        else let s = take 64 s in
          if \<not> for_display then JStr DEMO_AUDIT_IP_PLACEHOLDER
          else if s = DEMO_AUDIT_IP_PLACEHOLDER then JStr s
          else if lower s \<in> {''::1'', ''localhost''} then JStr s
          else if startswith s ''10.'' \<or> startswith s ''192.168.'' \<or> startswith s ''127.'' then JStr s
          else JStr DEMO_AUDIT_IP_PLACEHOLDER)"

text \<open>The first candidate that is not blank, cut to 64 characters.\<close>

fun first_candidate :: "json list \<Rightarrow> string option" where
  "first_candidate [] = None"
| "first_candidate (c # cs) =
     (if c = JNull then first_candidate cs
      else let s = strip (py_str c) in if s \<noteq> [] then Some (take 64 s) else first_candidate cs)"

definition resolve_client_ip :: "env \<Rightarrow> json \<Rightarrow> json \<Rightarrow> string option" where
  "resolve_client_ip e explicit fallback =
     (case first_candidate [explicit, jopt JStr (e_request_ip e), fallback] of
        None \<Rightarrow> None
      | Some resolved \<Rightarrow>
          (case scrub_audit_client_ip e (JStr resolved) False of JStr s \<Rightarrow> Some s | _ \<Rightarrow> None))"

lemma resolve_client_ip_demo:
  "e_demo e \<Longrightarrow> resolve_client_ip e x y = Some s \<Longrightarrow> s = DEMO_AUDIT_IP_PLACEHOLDER"
  by (auto simp: resolve_client_ip_def scrub_audit_client_ip_def Let_def
      split: option.splits if_splits)

section \<open>New rows\<close>

text \<open>\<open>scrub_audit_text\<close>: the identity outside the demo.\<close>

definition scrub_audit_text :: "env \<Rightarrow> string option \<Rightarrow> string option" where
  "scrub_audit_text e text = (if \<not> e_demo e then text else map_option (e_redact_text e) text)"

record audit_args =
  g_action :: string
  g_status :: string
  g_user_id :: json
  g_server_id :: "int option"
  g_api_token_id :: "int option"
  g_api_token_name :: json
  g_details :: "string option"
  g_output_snippet :: "string option"
  g_started_at :: "int option"
  g_finished_at :: "int option"
  g_client_ip :: json

definition make_audit_log :: "env \<Rightarrow> audit_args \<Rightarrow> int \<Rightarrow> audit" where
  "make_audit_log e g i = \<lparr>a_id = i, a_user_id = g_user_id g, a_server_id = g_server_id g,
     a_api_token_id = g_api_token_id g,
     a_api_token_name = (if truthy (g_api_token_name g)
       then Some (take 120 (py_str (g_api_token_name g))) else None),
     a_action = g_action g, a_status = g_status g,
     a_details = scrub_audit_text e (g_details g),
     a_output_snippet = scrub_audit_text e (g_output_snippet g),
     a_client_ip = resolve_client_ip e (g_client_ip g) JNull,
     a_started_at = (case g_started_at g of Some t \<Rightarrow> t | None \<Rightarrow> e_now e),
     a_finished_at = g_finished_at g\<rparr>"

section \<open>Backup phases\<close>

definition PHASE_ACTIONS :: "(string \<times> (string \<times> string)) list" where
  "PHASE_ACTIONS = [
     (''request'', (''backup_request'', ''success'')),
     (''queued'', (''backup_queued'', ''info'')),
     (''running'', (''backup_running'', ''info'')),
     (''success'', (''backup'', ''success'')),
     (''failed'', (''backup'', ''failed'')),
     (''cancelled'', (''backup'', ''cancelled''))]"

definition text_of :: "string option \<Rightarrow> string" where
  "text_of s = (case s of None \<Rightarrow> [] | Some t \<Rightarrow> t)"

text \<open>\<open>record_backup_audit_event\<close>. The keyword arguments come as one record.\<close>

record event_args =
  v_server_id :: "int option"
  v_job_id :: int
  v_user_id :: json
  v_api_token_id :: "int option"
  v_api_token_name :: json
  v_source_filter :: json
  v_message :: "string option"
  v_output_snippet :: "json option"
  v_started_at :: "int option"
  v_finished_at :: "int option"
  v_client_ip :: json

definition event_payload :: "string \<Rightarrow> event_args \<Rightarrow> dict" where
  "event_payload phase v =
     [(''job_id'', JInt (v_job_id v)), (''phase'', JStr phase)]
     @ (if truthy (v_source_filter v) then [(''source_filter'', v_source_filter v)] else [])
     @ (if text_of (v_message v) \<noteq> [] then [(''message'', JStr (text_of (v_message v)))] else [])
     @ (case v_api_token_id v of None \<Rightarrow> [] | Some t \<Rightarrow> [(''api_token_id'', JInt t)])
     @ (if truthy (v_api_token_name v) then [(''api_token_name'', v_api_token_name v)] else [])"

definition record_backup_audit_event :: "env \<Rightarrow> string \<Rightarrow> event_args \<Rightarrow> db \<Rightarrow> exc + db" where
  "record_backup_audit_event e phase v d = (case map_of PHASE_ACTIONS phase of
     None \<Rightarrow> Inl (ValueError (''Unknown backup audit phase: '' @ phase))
   | Some (action, status) \<Rightarrow>
       (let snippet = (case v_output_snippet v of
              None \<Rightarrow> None
            | Some (JObj o') \<Rightarrow> Some (take 4000 (dumps (JObj o')))
            | Some x \<Rightarrow> Some (take 4000 (py_str x)));
            early = phase \<in> {''request'', ''queued'', ''running''};
            start = (if early then Some (e_now e) else case v_started_at v of
              Some t \<Rightarrow> Some t | None \<Rightarrow> Some (e_now e));
            finish = (if early then Some (e_now e) else case v_finished_at v of
              Some t \<Rightarrow> Some t | None \<Rightarrow> Some (e_now e))
        in Inr (add_audit (make_audit_log e
            \<lparr>g_action = action, g_status = status, g_user_id = v_user_id v,
             g_server_id = v_server_id v, g_api_token_id = v_api_token_id v,
             g_api_token_name = v_api_token_name v,
             g_details = Some (dumps (JObj (event_payload phase v))),
             g_output_snippet = snippet, g_started_at = start, g_finished_at = finish,
             g_client_ip = v_client_ip v\<rparr>) d)))"

text \<open>\<open>job_meta\<close>: a details text that does not parse counts as empty.\<close>

definition job_meta :: "job \<Rightarrow> json" where
  "job_meta j = (case loads (j_details j) of None \<Rightarrow> JObj [] | Some v \<Rightarrow> v)"

definition record_backup_audit_from_job ::
    "env \<Rightarrow> job \<Rightarrow> string \<Rightarrow> string option \<Rightarrow> json option \<Rightarrow> db \<Rightarrow> exc + db" where
  "record_backup_audit_from_job e j phase message snippet d = (case job_meta j of
     JObj meta \<Rightarrow> record_backup_audit_event e phase
       \<lparr>v_server_id = j_server_id j, v_job_id = j_id j, v_user_id = dget0 meta ''user_id'',
        v_api_token_id = py_int (dget0 meta ''api_token_id''),
        v_api_token_name = dget0 meta ''api_token_name'',
        v_source_filter = dget0 meta ''source_filter'',
        v_message = message, v_output_snippet = snippet,
        v_started_at = (case j_started_at j of Some t \<Rightarrow> Some t | None \<Rightarrow> Some (j_created_at j)),
        v_finished_at = j_finished_at j,
        v_client_ip = jopt JStr (resolve_client_ip e JNull (dget0 meta ''client_ip''))\<rparr> d
   | _ \<Rightarrow> Inl AttributeError)"

lemma record_event_calm: "record_backup_audit_event e phase v d = Inr d' \<Longrightarrow> calm d d'"
  by (auto simp: record_backup_audit_event_def Let_def split: option.splits)

lemma record_event_jobs: "record_backup_audit_event e phase v d = Inr d' \<Longrightarrow>
    db_jobs d' = db_jobs d \<and> db_servers d' = db_servers d \<and> db_next_job d' = db_next_job d
    \<and> db_effects d' = db_effects d"
  by (auto simp: record_backup_audit_event_def Let_def add_audit_def split: option.splits)

lemma record_from_job_jobs: "record_backup_audit_from_job e j phase m s d = Inr d' \<Longrightarrow>
    db_jobs d' = db_jobs d \<and> db_servers d' = db_servers d \<and> db_next_job d' = db_next_job d
    \<and> db_effects d' = db_effects d"
  by (auto simp: record_backup_audit_from_job_def split: json.splits dest: record_event_jobs)

lemma record_from_job_calm: "record_backup_audit_from_job e j phase m s d = Inr d' \<Longrightarrow> calm d d'"
  by (auto simp: record_backup_audit_from_job_def split: json.splits dest: record_event_calm)

text \<open>A known phase of a job whose details are a dictionary is always recorded.\<close>

lemma record_event_ok:
  "map_of PHASE_ACTIONS phase = Some p \<Longrightarrow> \<exists>d'. record_backup_audit_event e phase v d = Inr d'"
  by (cases p) (auto simp: record_backup_audit_event_def Let_def)

lemma record_from_job_ok:
  "job_meta j = JObj m \<Longrightarrow> map_of PHASE_ACTIONS phase = Some p \<Longrightarrow>
     \<exists>d'. record_backup_audit_from_job e j phase msg s d = Inr d'"
  by (simp add: record_backup_audit_from_job_def record_event_ok)

section \<open>Compact snippets\<close>

definition snippet_item :: "dict \<Rightarrow> dict \<times> int" where
  "snippet_item r =
     (let cut = (\<lambda>k n. if truthy (dget0 r k) then [(k, JStr (take n (py_str (dget0 r k))))] else []);
          size = dget0 r ''size_bytes'';
          sb = (case py_int size of Some n \<Rightarrow> n | None \<Rightarrow> 0)
      in ([(''source'', dget0 r ''source'')]
          @ cut ''rel'' 200 @ cut ''destination'' 80 @ cut ''where'' 200
          @ (if truthy (dget0 r ''skipped'') then [(''skipped'', JBool True)]
               @ (if truthy (dget0 r ''reason'') then [(''reason'', dget0 r ''reason'')] else []) else [])
          @ cut ''error'' 240
          @ (if dget0 r ''rc'' \<noteq> JNull then [(''rc'', dget0 r ''rc'')] else [])
          @ (if size \<noteq> JNull then [(''size_bytes'', JInt sb)]
               @ (if truthy (dget0 r ''size_human'') then [(''size_human'', dget0 r ''size_human'')] else [])
             else [])
          @ cut ''dest'' 200,
          if size \<noteq> JNull then sb else 0))"

fun snippet_items :: "json list \<Rightarrow> dict list \<times> int" where
  "snippet_items [] = ([], 0)"
| "snippet_items (JObj r # rs) = (let (item, sb) = snippet_item r; (items, total) = snippet_items rs
     in (item # items, sb + total))"
| "snippet_items (_ # rs) = snippet_items rs"

text \<open>\<open>compact_backup_snippet\<close> of a result dictionary whose \<open>results\<close> is a list or missing.\<close>

definition compact_backup_snippet :: "json \<Rightarrow> bool \<Rightarrow> dict" where
  "compact_backup_snippet summary ok = (case summary of
     JObj s \<Rightarrow>
       (let rows = (case dget0 s ''results'' of JList xs \<Rightarrow> xs | _ \<Rightarrow> []);
            (items, total) = snippet_items (take 50 rows)
        in [(''server'', dget0 s ''server''), (''ok'', JBool ok)]
           @ (if truthy (dget0 s ''direct'') then [(''direct'', JBool True)] else [])
           @ (if truthy (dget0 s ''where'') then [(''where'', JStr (take 300 (py_str (dget0 s ''where''))))] else [])
           @ (if truthy (dget0 s ''error'') then [(''error'', JStr (take 500 (py_str (dget0 s ''error''))))] else [])
           @ (if truthy (dget0 s ''timestamp'') then [(''timestamp'', dget0 s ''timestamp'')] else [])
           @ [(''results'', JList (map JObj items))]
           @ (if total \<noteq> 0 then [(''total_size_bytes'', JInt total)] else []))
   | _ \<Rightarrow> [(''ok'', JBool ok), (''raw'', JStr (take 500 (py_str summary)))])"

lemma snippet_items_length: "length (fst (snippet_items rs)) \<le> length rs"
proof (induction rs)
  case (Cons r rs)
  then show ?case by (cases r) (auto simp: split_beta)
qed simp

end
