(* ===== verification/JobTypes.thy ===== *)
theory JobTypes
  imports JobAudit
begin

text \<open>
  The job type sets and labels of \<open>app/services/jobs/service.py\<close> and
  \<open>app/services/jobs_exclusive.py\<close>. A \<open>frozenset\<close> is a list in the source's order;
  where the code iterates over one, the model uses that order.
\<close>

definition EXCLUSIVE_CELERY_TYPES :: "string list" where
  "EXCLUSIVE_CELERY_TYPES = [''os_patch'', ''container_patch'', ''host_reboot'',
     ''os_update_check'', ''container_update_check'', ''container_start'', ''container_stop'',
     ''container_restart'', ''container_redeploy'', ''docker_stack_check'',
     ''docker_stack_deploy'', ''docker_stack_stop'', ''docker_stack_start'',
     ''docker_stack_restart'', ''docker_stack_down'', ''docker_stack_remove'',
     ''template_deploy'', ''template_redeploy'', ''template_drift_check'', ''host_facts'',
     ''docker_prune'', ''host_bootstrap'']"

definition EXCLUSIVE_JOB_TYPES :: "string list" where
  "EXCLUSIVE_JOB_TYPES = [''os_patch'', ''container_patch'', ''host_reboot'',
     ''os_update_check'', ''container_update_check'', ''container_start'', ''container_stop'',
     ''container_restart'', ''container_redeploy'', ''docker_stack_check'',
     ''docker_stack_deploy'', ''docker_stack_stop'', ''docker_stack_start'',
     ''docker_stack_restart'', ''docker_stack_down'', ''docker_stack_remove'',
     ''template_deploy'', ''template_redeploy'', ''template_drift_check'',
     ''service_migrate'', ''service_migrate_undo'', ''service_migrate_dest_recover'',
     ''host_facts'', ''docker_prune'', ''host_bootstrap'']"

definition STACK_MUTATING_JOB_TYPES :: "string list" where
  "STACK_MUTATING_JOB_TYPES = [''docker_stack_deploy'', ''docker_stack_stop'',
     ''docker_stack_start'', ''docker_stack_restart'', ''docker_stack_down'',
     ''docker_stack_remove'', ''container_start'', ''container_stop'', ''container_restart'',
     ''container_redeploy'', ''template_deploy'', ''template_redeploy'', ''service_migrate'',
     ''service_migrate_undo'', ''service_migrate_dest_recover'']"

definition STACK_LIFECYCLE_ACTIONS :: "string list" where
  "STACK_LIFECYCLE_ACTIONS = [''stop'', ''start'', ''restart'', ''down'']"

definition STACK_LIFECYCLE_JOB_TYPES :: "string list" where
  "STACK_LIFECYCLE_JOB_TYPES = map (\<lambda>a. ''docker_stack_'' @ a) STACK_LIFECYCLE_ACTIONS"

definition CONTAINER_SERVICE_ACTIONS :: "(string \<times> string) list" where
  "CONTAINER_SERVICE_ACTIONS = [(''container_start'', ''start''), (''container_stop'', ''stop''),
     (''container_restart'', ''restart''), (''container_redeploy'', ''redeploy'')]"

definition CONTAINER_SERVICE_JOB_TYPES :: "string list" where
  "CONTAINER_SERVICE_JOB_TYPES =
     [''container_start'', ''container_stop'', ''container_restart'', ''container_redeploy'']"

definition HOUSEKEEPING_JOB_TYPES :: "string list" where
  "HOUSEKEEPING_JOB_TYPES = [''retention'', ''herder_backup'']"

definition CELERY_JOB_TYPES :: "string list" where
  "CELERY_JOB_TYPES = [''backup'', ''service_migrate'', ''service_migrate_undo'',
     ''service_migrate_dest_recover''] @ EXCLUSIVE_CELERY_TYPES @ HOUSEKEEPING_JOB_TYPES"

lemmas type_sets = EXCLUSIVE_CELERY_TYPES_def EXCLUSIVE_JOB_TYPES_def
  STACK_MUTATING_JOB_TYPES_def STACK_LIFECYCLE_ACTIONS_def STACK_LIFECYCLE_JOB_TYPES_def
  CONTAINER_SERVICE_JOB_TYPES_def HOUSEKEEPING_JOB_TYPES_def CELERY_JOB_TYPES_def

text \<open>The types the token API accepts, with the feature each needs (\<open>app/services/api_tokens.py\<close>).\<close>

definition JOB_FEATURE_KEY :: "(string \<times> string) list" where
  "JOB_FEATURE_KEY = [(''backup'', ''backup''), (''retention'', ''backup''), (''os_patch'', ''os''),
     (''os_update_check'', ''os''), (''host_reboot'', ''os''), (''container_patch'', ''docker''),
     (''container_update_check'', ''docker''), (''container_start'', ''docker''),
     (''container_stop'', ''docker''), (''container_restart'', ''docker''),
     (''container_redeploy'', ''docker''), (''docker_stack_check'', ''docker''),
     (''docker_stack_deploy'', ''docker''), (''docker_stack_stop'', ''docker''),
     (''docker_stack_start'', ''docker''), (''docker_stack_restart'', ''docker''),
     (''template_deploy'', ''docker''), (''template_redeploy'', ''docker'')]"

section \<open>Labels\<close>

definition JOB_TYPE_LABELS :: "(string \<times> string) list" where
  "JOB_TYPE_LABELS = [(''backup'', ''Backup''), (''os_patch'', ''OS patch''),
     (''container_patch'', ''Container patch''), (''host_reboot'', ''Host reboot''),
     (''os_update_check'', ''OS check''), (''container_update_check'', ''Image check''),
     (''container_start'', ''Container start''), (''container_stop'', ''Container stop''),
     (''container_restart'', ''Container restart''), (''container_redeploy'', ''Container update''),
     (''docker_stack_check'', ''Stack check''), (''docker_stack_deploy'', ''Stack deploy''),
     (''docker_stack_stop'', ''Stack stop''), (''docker_stack_start'', ''Stack start''),
     (''docker_stack_restart'', ''Stack restart''), (''docker_stack_down'', ''Stack undeploy''),
     (''docker_stack_remove'', ''Stack delete''), (''template_deploy'', ''Template deploy''),
     (''template_redeploy'', ''Template redeploy''),
     (''template_drift_check'', ''Template drift check''), (''retention'', ''Retention''),
     (''diagnostics'', ''Diagnostics''), (''herder_backup'', ''PiHerder backup''),
     (''docker_prune'', ''Docker prune''), (''backup_replicate'', ''Backup copy''),
     (''pihole_action'', ''Pi-hole action''), (''stale_data_cleanup'', ''Stale data cleanup''),
     (''nmap_discovery'', ''Nmap discovery''), (''nmap_inventory'', ''Nmap inventory''),
     (''nmap_detailed'', ''Nmap detailed''), (''nmap_host_deep'', ''Nmap deep scan''),
     (''nmap_vuln_db_update'', ''Nmap vuln DB update''), (''service_migrate'', ''Service migrate''),
     (''service_migrate_undo'', ''Undo move''),
     (''service_migrate_dest_recover'', ''Stop dest, start source''),
     (''host_facts'', ''Host facts''), (''host_bootstrap'', ''Host tool bootstrap'')]"

definition is_upper_ascii :: "char \<Rightarrow> bool" where
  "is_upper_ascii c = (let n = of_char c :: nat in 65 \<le> n \<and> n \<le> 90)"

definition is_lower_ascii :: "char \<Rightarrow> bool" where
  "is_lower_ascii c = (let n = of_char c :: nat in 97 \<le> n \<and> n \<le> 122)"

text \<open>\<open>s.title()\<close> of an ASCII string: a letter after a non-letter is upper case, any other lower.\<close>

fun title_from :: "bool \<Rightarrow> string \<Rightarrow> string" where
  "title_from prev [] = []"
| "title_from prev (c # cs) =
     (let letter = is_upper_ascii c \<or> is_lower_ascii c in
      (if \<not> letter then c else if prev then lower_char c
       else if is_lower_ascii c then char_of ((of_char c :: nat) - 32) else c)
      # title_from letter cs)"

definition job_type_label :: "string \<Rightarrow> string" where
  "job_type_label jt = (if jt = [] then ''Job''
     else case map_of JOB_TYPE_LABELS jt of Some l \<Rightarrow> l
       | None \<Rightarrow> title_from False (replace_all jt ''_'' '' ''))"

definition job_display_label :: "string \<Rightarrow> dict \<Rightarrow> string" where
  "job_display_label jt data =
     (if jt = ''backup_replicate'' \<and> strip (py_str (jor (dget0 data ''herder_archive'') (JStr []))) \<noteq> []
        then ''Self-backup copy''
      else if jt = ''backup_replicate'' \<and> dget0 data ''direct_host'' = JBool True then ''Direct copy''
      else job_type_label jt)"

text \<open>Every type the queue treats as exclusive, and every Celery type, has a label of its own.\<close>

lemma exclusive_types_labelled:
  "list_all (\<lambda>t. map_of JOB_TYPE_LABELS t \<noteq> None) (EXCLUSIVE_JOB_TYPES @ CELERY_JOB_TYPES)"
  by code_simp

lemma celery_types_are_exclusive_types:
  "list_all (\<lambda>t. t \<in> set EXCLUSIVE_JOB_TYPES) EXCLUSIVE_CELERY_TYPES"
  by code_simp

lemma stack_types_are_exclusive_types:
  "list_all (\<lambda>t. t \<in> set EXCLUSIVE_JOB_TYPES) STACK_MUTATING_JOB_TYPES"
  by code_simp

lemma stack_type_exclusive: "t \<in> set STACK_MUTATING_JOB_TYPES \<Longrightarrow> t \<in> set EXCLUSIVE_JOB_TYPES"
  using stack_types_are_exclusive_types by (simp add: list_all_iff)

lemma container_service_types:
  "t \<in> set CONTAINER_SERVICE_JOB_TYPES \<longleftrightarrow> t \<in> fst ` set CONTAINER_SERVICE_ACTIONS"
  by (auto simp: CONTAINER_SERVICE_JOB_TYPES_def CONTAINER_SERVICE_ACTIONS_def)

lemma service_type_stack: "t \<in> set CONTAINER_SERVICE_JOB_TYPES \<Longrightarrow> t \<in> set STACK_MUTATING_JOB_TYPES"
  by (auto simp: CONTAINER_SERVICE_JOB_TYPES_def STACK_MUTATING_JOB_TYPES_def)

end
