(* ===== verification/JobSummary.thy ===== *)
theory JobSummary
  imports JobTypes
begin

text \<open>
  The display line of a finished job: \<open>_human_job_summary\<close> of
  \<open>app/services/jobs/service.py\<close> and \<open>summarize_container_patch\<close> of
  \<open>app/services/container_patching.py\<close>. The snippet a job finishes with is either
  the JSON text of a value or plain text that is not the text of a JSON object or list.
  A summary is a value because the code slices whatever the result dictionary holds.
\<close>

datatype snippet = Plain string | Dumped json

definition snip_text :: "snippet \<Rightarrow> string" where
  "snip_text sn = (case sn of Plain s \<Rightarrow> s | Dumped j \<Rightarrow> dumps j)"

text \<open>The parsed snippet when its text starts with a brace or a bracket.\<close>

definition snip_data :: "snippet \<Rightarrow> json option" where
  "snip_data sn = (case sn of Dumped (JObj d) \<Rightarrow> Some (JObj d) | Dumped (JList xs) \<Rightarrow> Some (JList xs)
     | _ \<Rightarrow> None)"

definition middot :: string where "middot = '' '' @ [CHR 0xB7] @ '' ''"
definition emdash :: string where "emdash = '' '' @ [CHR 0x97] @ '' ''"

text \<open>\<open>len(x)\<close> and \<open>x[:n]\<close>.\<close>

definition py_len :: "json \<Rightarrow> exc + nat" where
  "py_len v = (case py_list v of None \<Rightarrow> Inl TypeError | Some xs \<Rightarrow> Inr (length xs))"

definition py_slice :: "nat \<Rightarrow> json \<Rightarrow> exc + json" where
  "py_slice n v = (case v of JStr s \<Rightarrow> Inr (JStr (take n s)) | JStamp t \<Rightarrow> Inr (JStr (take n (isoformat t)))
     | JList xs \<Rightarrow> Inr (JList (take n xs)) | _ \<Rightarrow> Inl TypeError)"

definition py_items :: "json \<Rightarrow> exc + json list" where
  "py_items v = (case py_list v of None \<Rightarrow> Inl TypeError | Some xs \<Rightarrow> Inr xs)"

lemma py_slice_ok [simp]:
  "py_slice n (JStr s) = Inr (JStr (take n s))"
  "py_slice n (JList xs) = Inr (JList (take n xs))"
  by (simp_all add: py_slice_def)

definition len_or :: "dict \<Rightarrow> string \<Rightarrow> exc + nat" where
  "len_or d k = py_len (jor (dget0 d k) (JList []))"

definition summarize_container_patch :: "dict \<Rightarrow> exc + string" where
  "summarize_container_patch d =
     (if d = [] then Inr ''Container patch''
      else if truthy (dget0 d ''error'') then Inr (''Failed: '' @ take 120 (py_str (dget0 d ''error'')))
      else rbind (len_or d ''projects_checked'') (\<lambda>n.
        rbind (if truthy (dget0 d ''updated'')
               then rbind (len_or d ''updated'') (\<lambda>u. Inr (int_str (int u) @ '' updated''))
               else Inr ''none updated'') (\<lambda>up.
        rbind (if truthy (dget0 d ''failed'')
               then rbind (len_or d ''failed'') (\<lambda>k. Inr [int_str (int k) @ '' failed''])
               else Inr []) (\<lambda>fl.
        Inr (join middot ([int_str (int n) @ '' project(s)'', up] @ fl))))))"

definition os_check_summary :: "dict \<Rightarrow> exc + json" where
  "os_check_summary d =
     (let ready = (case dget d ''actionable_count'' of Some v \<Rightarrow> v | None \<Rightarrow> dget0 d ''updates_count'');
          phased = jor (dget0 d ''phased_count'') (JInt 0);
          total = dget0 d ''total_upgradable'';
          sample = jor (dget0 d ''packages_sample'') (JList [])
      in rbind
        (if dget0 d ''backend'' = JStr ''ha_cli'' then
           rbind (if truthy sample then
                    rbind (py_slice 3 sample) (\<lambda>s3. rbind (py_items s3) (\<lambda>xs.
                      Inr [join '', '' (map py_str xs)]))
                  else Inr []) (\<lambda>extra.
             Inr ((py_str ready @ '' HA component(s) ready'') # extra))
         else Inr ((py_str ready @ '' ready to install'')
           # (if truthy phased then [py_str phased @ '' phased''] else [])
           @ (if total \<noteq> JNull \<and> total \<noteq> ready then [py_str total @ '' listed''] else [])))
        (\<lambda>parts. Inr (JStr (join middot (parts
           @ (if truthy (dget0 d ''reboot_pending'') then [''reboot pending''] else [])
           @ (if truthy (dget0 d ''error'') then [''note: '' @ take 80 (py_str (dget0 d ''error''))] else []))))))"

definition image_check_summary :: "dict \<Rightarrow> exc + json" where
  "image_check_summary d =
     rbind (len_or d ''projects_with_updates'') (\<lambda>n.
     rbind (py_len (jor (jor (dget0 d ''projects_checked'') (dget0 d ''checked'')) (JList []))) (\<lambda>k.
       Inr (JStr (int_str (int n) @ '' project(s) with image updates''
         @ (if k \<noteq> 0 then '' ('' @ int_str (int k) @ '' checked)'' else [])))))"

definition stack_of :: "dict \<Rightarrow> string" where
  "stack_of d = py_str (jor (jor (dget0 d ''project'') (dget0 d ''project_path'')) (JStr ''stack''))"

definition err_or :: "dict \<Rightarrow> string \<Rightarrow> string" where
  "err_or d status = py_str (jor (dget0 d ''error'') (JStr status))"

definition went_ok :: "dict \<Rightarrow> string \<Rightarrow> bool" where
  "went_ok d status = (truthy (dget0 d ''success'') \<or> status = ''success'')"

definition stack_check_summary :: "dict \<Rightarrow> exc + json" where
  "stack_check_summary d =
     (if truthy (dget0 d ''has_updates'') then
        rbind (len_or d ''updated_images'') (\<lambda>n.
          Inr (JStr (stack_of d @ '': updates available ('' @ int_str (int n) @ '' image(s))'')))
      else if truthy (dget0 d ''success'') then Inr (JStr (stack_of d @ '': images up to date''))
      else Inr (JStr (stack_of d @ '': check failed'')))"

definition act_line :: "string \<Rightarrow> string \<Rightarrow> dict \<Rightarrow> string \<Rightarrow> bool \<Rightarrow> exc + json" where
  "act_line who act d status ok =
     (if ok then Inr (JStr (who @ '': '' @ act @ '' ok''))
      else Inr (JStr (take 200 (who @ '': '' @ act @ '' failed'' @ emdash @ err_or d status))))"

definition template_label :: "dict \<Rightarrow> string" where
  "template_label d =
     (let proj = py_str (jor (jor (dget0 d ''project_name'') (dget0 d ''project'')) (JStr ''template''));
          slug = jor (dget0 d ''template_slug'') (JStr [])
      in if truthy slug then py_str slug @ ''/'' @ proj else proj)"

definition template_summary :: "dict \<Rightarrow> string \<Rightarrow> exc + json" where
  "template_summary d status =
     (if went_ok d status then
        Inr (JStr (template_label d @ '': ok''
          @ (if dget0 d ''config_version'' \<noteq> JNull
             then '' (V'' @ py_str (dget0 d ''config_version'') @ '')'' else [])))
      else Inr (JStr (take 200 (template_label d @ '': failed'' @ emdash @ err_or d status))))"

definition drift_summary :: "dict \<Rightarrow> string \<Rightarrow> exc + json" where
  "drift_summary d status =
     (let proj = py_str (jor (jor (dget0 d ''project_name'') (dget0 d ''project'')) (JStr ''template''));
          st = jor (jor (dget0 d ''drift_status'') (dget0 d ''status'')) (JStr status);
          n = dget0 d ''diff_count''
      in if st = JStr ''in_sync'' \<or> truthy (dget0 d ''success'') \<and> st \<noteq> JStr ''drifted'' then
           Inr (JStr (proj @ '': in sync''))
         else if st = JStr ''drifted'' then
           Inr (JStr (proj @ '': drifted''
             @ (if n \<noteq> JNull then '' ('' @ py_str n @ '' file(s))'' else [])))
         else Inr (JStr (take 200 (proj @ '': drift unknown'' @ emdash
           @ py_str (jor (jor (dget0 d ''error'') (dget0 d ''reason'')) st)))))"

definition bootstrap_summary :: "dict \<Rightarrow> string \<Rightarrow> exc + json" where
  "bootstrap_summary d status =
     (let msg = py_str (jor (dget0 d ''message'') (JStr status));
          msg = (case jor (dget0 d ''features'') (JList []) of
              JList fs \<Rightarrow> (if fs = [] then msg else msg @ '' ('' @ join '', '' (map py_str fs) @ '')'')
            | _ \<Rightarrow> msg);
          os_id = py_str (jor (dget0 d ''os_id'') (JStr []));
          codename = py_str (jor (dget0 d ''codename'') (JStr []));
          who = py_str (jor (dget0 d ''bootstrap_username'') (JStr []));
          named = filter (\<lambda>part. part \<noteq> []) [os_id, codename]
      in Inr (JStr (take 200 (join middot ([msg]
           @ (if named \<noteq> [] then [join '' '' named] else [])
           @ (if who \<noteq> [] then [who] else []))))))"

definition human_job_summary :: "string \<Rightarrow> string \<Rightarrow> snippet \<Rightarrow> exc + json" where
  "human_job_summary jt status sn =
     (let plain = Inr (JStr (take 200 (if snip_text sn \<noteq> [] then snip_text sn else status)));
          isobj = (case snip_data sn of Some (JObj d) \<Rightarrow> True | _ \<Rightarrow> False);
          d = (case snip_data sn of Some (JObj d) \<Rightarrow> d | _ \<Rightarrow> [])
      in if jt = ''os_update_check'' \<and> isobj then os_check_summary d
      else if jt = ''container_update_check'' \<and> isobj then image_check_summary d
      else if jt = ''docker_stack_check'' \<and> isobj then stack_check_summary d
      else if jt = ''docker_stack_deploy'' \<and> isobj then
        act_line (stack_of d) ''deploy'' d status (truthy (dget0 d ''success''))
      else if jt \<in> set CONTAINER_SERVICE_JOB_TYPES \<and> isobj then
        act_line (py_str (jor (dget0 d ''service'') (JStr ''service'')))
          (case map_of CONTAINER_SERVICE_ACTIONS jt of Some a \<Rightarrow> a | None \<Rightarrow> ''stop'')
          d status (went_ok d status)
      else if jt \<in> set STACK_LIFECYCLE_JOB_TYPES \<and> isobj then
        act_line (stack_of d)
          (py_str (jor (dget0 d ''action'') (JStr (drop (length ''docker_stack_'') jt))))
          d status (went_ok d status)
      else if jt = ''docker_stack_remove'' \<and> isobj then
        (if went_ok d status then Inr (JStr (stack_of d @ '': project deleted''))
         else Inr (JStr (take 200 (stack_of d @ '': delete failed'' @ emdash @ err_or d status))))
      else if jt \<in> {''template_deploy'', ''template_redeploy''} \<and> isobj then template_summary d status
      else if jt = ''template_drift_check'' \<and> isobj then drift_summary d status
      else if jt = ''os_patch'' \<and> isobj then
        py_slice 200 (jor (jor (dget0 d ''summary'') (JStr (snip_text sn))) (JStr status))
      else if jt = ''container_patch'' then
        (if isobj then
           (if truthy (dget0 d ''summary'') then py_slice 200 (dget0 d ''summary'')
            else rbind (summarize_container_patch d) (\<lambda>s. Inr (JStr (take 200 (if s \<noteq> [] then s else status)))))
         else plain)
      else if jt = ''retention'' then
        Inr (JStr (take 200 (if snip_text sn \<noteq> [] then snip_text sn else ''Retention complete'')))
      else if jt = ''host_bootstrap'' \<and> isobj then bootstrap_summary d status
      else plain)"

lemma stack_lifecycle_prefix: "t \<in> set STACK_LIFECYCLE_JOB_TYPES \<Longrightarrow>
    \<exists>a. t = ''docker_stack_'' @ a \<and> drop (length ''docker_stack_'') t = a"
  by (auto simp: STACK_LIFECYCLE_JOB_TYPES_def)

text \<open>Plain text never raises; what it shows has at most 200 characters.\<close>

lemma human_summary_plain:
  "\<exists>s. human_job_summary jt status (Plain t) = Inr (JStr s) \<and> length s \<le> 200"
  by (auto simp: human_job_summary_def Let_def snip_data_def)

end
