(* ===== verification/JobLifecycle.thy ===== *)
theory JobLifecycle
  imports JobSummary
begin

text \<open>
  The life of a job row once it exists (\<open>app/services/jobs/service.py\<close>): terminal marks,
  stop and cancel, the sweeps that fail jobs whose process is gone, and the completion
  \<open>_finish\<close>. An operation that may raise returns \<open>Inl\<close> the exception (the session is
  rolled back) or \<open>Inr\<close> the tables after its commit.
\<close>

section \<open>Terminal marks\<close>

definition revoke_celery_task :: "env \<Rightarrow> string option \<Rightarrow> db \<Rightarrow> db" where
  "revoke_celery_task e tid d = (case tid of None \<Rightarrow> d
     | Some t \<Rightarrow> if t = [] \<or> \<not> e_has_celery e then d
                 else if e_revoke_ok e then emit (Revoked t) d else d)"

text \<open>The fields \<open>_mark_job_terminal\<close> writes before it extends the log.\<close>

definition terminal_fields :: "string \<Rightarrow> string \<Rightarrow> dict" where
  "terminal_fields message status =
     [(''error'', JStr message), (''current'', JStr status), (''status'', JStr status),
      (''summary'', JStr (take 200 message)), (''done'', JBool True)]
     @ (if status = ''cancelled'' then [(''cancelled'', JBool True), (''cancel_requested'', JBool True)]
        else [])
     @ [(''audit_failed_recorded'', JBool True)]"

definition terminal_details :: "string \<Rightarrow> string \<Rightarrow> column \<Rightarrow> exc + dict" where
  "terminal_details message status c =
     (case (case loads c of None \<Rightarrow> JObj [] | Some v \<Rightarrow> v) of
        JObj old \<Rightarrow>
          (let new = dupdate old (terminal_fields message status) in
           case py_list (jor (dget0 new ''log_lines'') (JList [])) of
             None \<Rightarrow> Inl TypeError
           | Some lines \<Rightarrow>
               Inr (dset ''log_lines'' (JList (last_n 15 (lines @ [JStr (take 240 message)]))) new))
      | _ \<Rightarrow> Inl TypeError)"

definition set_terminal :: "env \<Rightarrow> string \<Rightarrow> dict \<Rightarrow> job \<Rightarrow> job" where
  "set_terminal e status det j =
     j\<lparr>j_status := status, j_finished_at := Some (e_now e), j_details := Text (JObj det)\<rparr>"

definition mark_job_terminal :: "env \<Rightarrow> int \<Rightarrow> string \<Rightarrow> string \<Rightarrow> bool \<Rightarrow> db \<Rightarrow> exc + db" where
  "mark_job_terminal e i message status record_audit d = (case get_job d i of
     None \<Rightarrow> Inl AttributeError
   | Some j \<Rightarrow>
       rbind (terminal_details message status (j_details j)) (\<lambda>det.
         let d1 = upd_job i (set_terminal e status det) d; j1 = set_terminal e status det j;
             snip = Some (JObj [(''error'', JStr message), (''status'', JStr status)]) in
         if record_audit \<and> j_job_type j = ''backup'' then
           (case record_backup_audit_from_job e j1
                   (if status = ''cancelled'' then ''cancelled'' else ''failed'') (Some message) snip d1 of
              Inl (ValueError m) \<Rightarrow> record_backup_audit_from_job e j1 ''failed'' (Some message) snip d1
            | r \<Rightarrow> r)
         else Inr d1))"

definition mark_job_failed :: "env \<Rightarrow> int \<Rightarrow> string \<Rightarrow> bool \<Rightarrow> db \<Rightarrow> exc + db" where
  "mark_job_failed e i message record_audit d = mark_job_terminal e i message ''failed'' record_audit d"

definition mark_job_cancelled :: "env \<Rightarrow> int \<Rightarrow> string \<Rightarrow> bool \<Rightarrow> db \<Rightarrow> exc + db" where
  "mark_job_cancelled e i message record_audit d = mark_job_terminal e i message ''cancelled'' record_audit d"

lemma revoke_calm [simp, intro]: "calm d (revoke_celery_task e tid d)"
  by (auto simp: revoke_celery_task_def split: option.splits)

lemma revoke_frame [simp]:
  "db_jobs (revoke_celery_task e tid d) = db_jobs d"
  "db_audits (revoke_celery_task e tid d) = db_audits d"
  "get_job (revoke_celery_task e tid d) i = get_job d i"
  "get_server (revoke_celery_task e tid d) k = get_server d k"
  by (auto simp: revoke_celery_task_def emit_def get_job_def get_server_def split: option.splits)

lemma set_terminal_frame [simp]:
  "j_id (set_terminal e st det j) = j_id j"
  "j_server_id (set_terminal e st det j) = j_server_id j"
  "j_job_type (set_terminal e st det j) = j_job_type j"
  "j_status (set_terminal e st det j) = st"
  "j_finished_at (set_terminal e st det j) = Some (e_now e)"
  "j_details (set_terminal e st det j) = Text (JObj det)"
  "job_key (set_terminal e st det j) = job_key j"
  by (simp_all add: set_terminal_def job_key_def)

lemma set_terminal_calm: "\<not> active_status st \<Longrightarrow> calm_upd (set_terminal e st det)"
  by (simp add: calm_upd_def active_def)

lemma mark_terminal_cases:
  assumes "mark_job_terminal e i m st ra d = Inr d'"
  obtains j det where "get_job d i = Some j" and "terminal_details m st (j_details j) = Inr det"
    and "db_jobs d' = db_jobs (upd_job i (set_terminal e st det) d)"
    and "db_servers d' = db_servers d" and "db_effects d' = db_effects d"
    and "calm (upd_job i (set_terminal e st det) d) d'"
proof -
  from assms obtain j det where j: "get_job d i = Some j"
    and det: "terminal_details m st (j_details j) = Inr det"
    by (auto simp: mark_job_terminal_def split: option.splits elim!: rbind_InrE)
  let ?d1 = "upd_job i (set_terminal e st det) d"
  have "d' = ?d1 \<or> (\<exists>ph sn. record_backup_audit_from_job e (set_terminal e st det j) ph (Some m) sn ?d1 = Inr d')"
    using assms by (auto simp: mark_job_terminal_def j det Let_def split: if_splits sum.splits exc.splits)
  moreover have "calm ?d1 d'" using calculation by (auto dest: record_from_job_calm)
  ultimately have "db_jobs d' = db_jobs ?d1 \<and> db_servers d' = db_servers d
      \<and> db_effects d' = db_effects d \<and> calm ?d1 d'"
    by (auto simp: upd_job_def dest: record_from_job_jobs)
  with j det that show ?thesis by blast
qed

lemma mark_terminal_calm:
  "mark_job_terminal e i m st ra d = Inr d' \<Longrightarrow> \<not> active_status st \<Longrightarrow> calm d d'"
  by (erule mark_terminal_cases) (metis calm_trans calm_upd_job' set_terminal_calm)

lemma terminal_details_ok: "log_ok c \<Longrightarrow> loads c = None \<or> (\<exists>o'. loads c = Some (JObj o')) \<Longrightarrow>
    \<exists>det. terminal_details m st c = Inr det"
proof -
  assume ok: "log_ok c" and obj: "loads c = None \<or> (\<exists>o'. loads c = Some (JObj o'))"
  have ll: "dget0 (dupdate (load_dict c) (terminal_fields m st)) ''log_lines'' = dget0 (load_dict c) ''log_lines''"
    by (simp add: dget0_def, subst dget_dupdate_other) (auto simp: terminal_fields_def)
  obtain xs where "py_list (jor (dget0 (load_dict c) ''log_lines'') (JList [])) = Some xs"
    using log_ok_list [OF ok] by blast
  then show ?thesis using obj ll
    by (auto simp: terminal_details_def Let_def load_dict_def split: option.splits)
qed

lemma terminal_fields_distinct: "distinct (map fst (terminal_fields m st))"
  by (cases "st = ''cancelled''") (simp_all add: terminal_fields_def)

text \<open>What the mark leaves in the row: the status, the message, a bounded log that ends with it.\<close>

lemma terminal_details_fields:
  assumes "terminal_details m st c = Inr det"
  shows "dget0 det ''status'' = JStr st \<and> dget0 det ''error'' = JStr m \<and> dget0 det ''done'' = JBool True
    \<and> (\<exists>xs. dget0 det ''log_lines'' = JList xs \<and> length xs \<le> 15 \<and> last xs = JStr (take 240 m))"
proof -
  obtain old lines where det: "det = dset ''log_lines'' (JList (last_n 15 (lines @ [JStr (take 240 m)])))
      (dupdate old (terminal_fields m st))"
    using assms by (auto simp: terminal_details_def Let_def split: json.splits option.splits)
  have "dget0 (dupdate old (terminal_fields m st)) ''status'' = JStr st"
    "dget0 (dupdate old (terminal_fields m st)) ''error'' = JStr m"
    "dget0 (dupdate old (terminal_fields m st)) ''done'' = JBool True"
    by (simp_all add: dget0_def dget_dupdate terminal_fields_distinct) (simp_all add: terminal_fields_def)
  moreover have "last (last_n 15 (lines @ [JStr (take 240 m)])) = JStr (take 240 m)"
    by (simp add: last_last_n)
  ultimately show ?thesis by (simp add: det dget0_dset)
qed

section \<open>Usable details\<close>

text \<open>
  The details of every job the program writes: a dictionary (or nothing, or text that does not
  parse) whose log, if it has one, is a list. Terminal marks keep this and need nothing more.
\<close>

definition det_ok :: "column \<Rightarrow> bool" where
  "det_ok c = (log_ok c \<and> (case loads c of None \<Rightarrow> True | Some (JObj _) \<Rightarrow> True | _ \<Rightarrow> False))"

definition db_ok :: "db \<Rightarrow> bool" where
  "db_ok d = (\<forall>j\<in>set (db_jobs d). det_ok (j_details j))"

lemma det_ok_get: "db_ok d \<Longrightarrow> get_job d i = Some j \<Longrightarrow> det_ok (j_details j)"
  by (auto simp: db_ok_def dest: get_job_in)

lemma det_okI: "dget0 o' ''log_lines'' = JList xs \<or> dget0 o' ''log_lines'' = JNull \<Longrightarrow> det_ok (Text (JObj o'))"
  by (auto simp: det_ok_def log_ok_def dget0_def split: option.splits)

lemma terminal_det_ok: "terminal_details m st c = Inr det \<Longrightarrow> det_ok (Text (JObj det))"
  by (metis det_okI terminal_details_fields)

lemma db_ok_upd: "db_ok d \<Longrightarrow> (\<And>j. det_ok (j_details j) \<Longrightarrow> det_ok (j_details (f j))) \<Longrightarrow> db_ok (upd_job i f d)"
  by (auto simp: db_ok_def upd_job_def set_upd_row)

lemma db_ok_cong: "db_jobs d' = db_jobs d \<Longrightarrow> db_ok d' = db_ok d"
  by (simp add: db_ok_def)

lemma mark_terminal_ok:
  assumes "db_ok d" and "get_job d i = Some j"
  shows "\<exists>d'. mark_job_terminal e i m st ra d = Inr d' \<and> db_ok d'"
proof -
  have "det_ok (j_details j)" using assms by (rule det_ok_get)
  then obtain det where det: "terminal_details m st (j_details j) = Inr det"
    using terminal_details_ok [of "j_details j" m st]
    by (auto simp: det_ok_def split: option.splits json.splits)
  have meta: "job_meta (set_terminal e st det j) = JObj det" by (simp add: job_meta_def)
  have "\<exists>p. map_of PHASE_ACTIONS (if st = ''cancelled'' then ''cancelled'' else ''failed'') = Some p"
    by (simp add: PHASE_ACTIONS_def)
  then have rec: "\<exists>x. record_backup_audit_from_job e (set_terminal e st det j)
      (if st = ''cancelled'' then ''cancelled'' else ''failed'') (Some m) sn y = Inr x" for sn y
    using record_from_job_ok [OF meta] by blast
  obtain x where x: "record_backup_audit_from_job e (set_terminal e st det j)
      (if st = ''cancelled'' then ''cancelled'' else ''failed'') (Some m)
      (Some (JObj [(''error'', JStr m), (''status'', JStr st)]))
      (upd_job i (set_terminal e st det) d) = Inr x"
    using rec by blast
  obtain d' where ok: "mark_job_terminal e i m st ra d = Inr d'"
    by (cases "ra \<and> j_job_type j = ''backup''")
      (simp_all add: mark_job_terminal_def assms(2) det Let_def x)
  then have jobs: "db_jobs d' = db_jobs (upd_job i (set_terminal e st det) d)"
    using det assms(2) by (auto elim: mark_terminal_cases)
  have "db_ok (upd_job i (set_terminal e st det) d)"
    using assms(1) terminal_det_ok [OF det] by (auto intro: db_ok_upd)
  with ok jobs db_ok_cong show ?thesis by blast
qed

text \<open>\<open>marked e i st d d'\<close>: the tables differ, in the jobs, by the terminal mark of one row.\<close>

definition marked :: "env \<Rightarrow> int \<Rightarrow> string \<Rightarrow> db \<Rightarrow> db \<Rightarrow> bool" where
  "marked e i st d d' = (\<exists>det. dget0 det ''status'' = JStr st
     \<and> db_jobs d' = db_jobs (upd_job i (set_terminal e st det) d))"

lemma mark_terminal_marked: "mark_job_terminal e i m st ra d = Inr d' \<Longrightarrow> marked e i st d d'"
  unfolding marked_def by (erule mark_terminal_cases) (use terminal_details_fields in blast)

lemma marked_get:
  assumes "marked e i st d d'"
  obtains det where "dget0 det ''status'' = JStr st"
    and "\<And>k. get_job d' k = (if k = i then map_option (set_terminal e st det) (get_job d i) else get_job d k)"
proof -
  from assms obtain det where det: "dget0 det ''status'' = JStr st"
    and jobs: "db_jobs d' = db_jobs (upd_job i (set_terminal e st det) d)"
    by (auto simp: marked_def)
  have "get_job d' k = (if k = i then map_option (set_terminal e st det) (get_job d i) else get_job d k)" for k
    by (simp add: get_job_cong [OF jobs] get_job_upd_same get_job_upd_other)
  with det that show ?thesis by blast
qed

lemma marked_same: "marked e i st d d' \<Longrightarrow> get_job d i = Some j \<Longrightarrow>
    \<exists>det. get_job d' i = Some (set_terminal e st det j) \<and> dget0 det ''status'' = JStr st"
  by (erule marked_get) auto

lemma marked_other: "marked e i st d d' \<Longrightarrow> k \<noteq> i \<Longrightarrow> get_job d' k = get_job d k"
  by (erule marked_get) simp

section \<open>Looking jobs up\<close>

text \<open>\<open>job_source_filter\<close>: any error while reading the details counts as no filter.\<close>

definition job_source_filter :: "job option \<Rightarrow> json" where
  "job_source_filter jo = (case jo of None \<Rightarrow> JNull
     | Some j \<Rightarrow> (case j_details j of Absent \<Rightarrow> JNull
         | c \<Rightarrow> jor (dget0 (load_dict c) ''source_filter'') JNull))"

definition get_active_backup_jobs :: "db \<Rightarrow> int \<Rightarrow> job list" where
  "get_active_backup_jobs d sid = sort_key j_created_at
     (filter (\<lambda>j. j_server_id j = Some sid \<and> j_job_type j = ''backup'' \<and> active j) (db_jobs d))"

definition list_jobs_for_server ::
    "db \<Rightarrow> int \<Rightarrow> int \<Rightarrow> string option \<Rightarrow> string option \<Rightarrow> bool \<Rightarrow> job list" where
  "list_jobs_for_server d sid limit status jt active_only =
     (let q = filter (\<lambda>j. j_server_id j = Some sid) (db_jobs d);
          q = (if active_only then filter active q
               else if text_of status \<noteq> [] then filter (\<lambda>j. j_status j = text_of status) q else q);
          q = (if text_of jt \<noteq> [] then filter (\<lambda>j. j_job_type j = text_of jt) q else q)
      in take (nat (max 1 (min limit 100))) (sort_key (\<lambda>j. - j_created_at j) q))"

record job_filter =
  f_server_id :: "int option"
  f_status :: "string option"
  f_job_type :: "string option"
  f_active_only :: bool
  f_date_from :: "int option"
  f_date_to :: "int option"
  f_hide_routine :: bool

definition jobs_filter_query :: "job_filter \<Rightarrow> job list \<Rightarrow> job list" where
  "jobs_filter_query f q =
     (let q = (case f_server_id f of None \<Rightarrow> q | Some s \<Rightarrow> filter (\<lambda>j. j_server_id j = Some s) q);
          q = (if f_active_only f then filter active q
               else if text_of (f_status f) \<noteq> [] then filter (\<lambda>j. j_status j = text_of (f_status f)) q
               else q);
          q = (if text_of (f_job_type f) \<noteq> [] then filter (\<lambda>j. j_job_type j = text_of (f_job_type f)) q
               else if f_hide_routine f
                 then filter (\<lambda>j. \<not> (j_job_type j = ''host_facts'' \<and> j_status j = ''success'')) q
               else q);
          q = (case f_date_from f of None \<Rightarrow> q | Some t \<Rightarrow> filter (\<lambda>j. j_created_at j \<ge> t) q);
          q = (case f_date_to f of None \<Rightarrow> q | Some t \<Rightarrow> filter (\<lambda>j. j_created_at j \<le> t) q)
      in q)"

definition list_jobs :: "db \<Rightarrow> job_filter \<Rightarrow> int \<Rightarrow> int \<Rightarrow> job list" where
  "list_jobs d f limit offset =
     (let lim = max 1 (min limit 100); off = max 0 offset
      in take (nat lim) (drop (nat off)
           (sort_key (\<lambda>j. - j_created_at j) (jobs_filter_query f (db_jobs d)))))"

text \<open>\<open>count_jobs\<close> writes its own conditions, row by row.\<close>

definition count_jobs :: "db \<Rightarrow> job_filter \<Rightarrow> nat" where
  "count_jobs d f = length (filter (\<lambda>j.
      (case f_server_id f of None \<Rightarrow> True | Some s \<Rightarrow> j_server_id j = Some s)
      \<and> (if f_active_only f then active j
         else text_of (f_status f) \<noteq> [] \<longrightarrow> j_status j = text_of (f_status f))
      \<and> (if text_of (f_job_type f) \<noteq> [] then j_job_type j = text_of (f_job_type f)
         else f_hide_routine f \<longrightarrow> \<not> (j_job_type j = ''host_facts'' \<and> j_status j = ''success''))
      \<and> (case f_date_from f of None \<Rightarrow> True | Some t \<Rightarrow> j_created_at j \<ge> t)
      \<and> (case f_date_to f of None \<Rightarrow> True | Some t \<Rightarrow> j_created_at j \<le> t)) (db_jobs d))"

definition get_active_backup_job :: "db \<Rightarrow> int \<Rightarrow> job option" where
  "get_active_backup_job d sid =
     (let jobs = get_active_backup_jobs d sid in
      case find (\<lambda>j. j_status j = ''running'') jobs of Some r \<Rightarrow> Some r
      | None \<Rightarrow> if jobs = [] then None else Some (last jobs))"

text \<open>Newest start first; rows without a start come first, as PostgreSQL orders them.\<close>

definition start_rank :: "job \<Rightarrow> int \<times> int" where
  "start_rank j = (case j_started_at j of None \<Rightarrow> (0, 0) | Some t \<Rightarrow> (1, - t))"

definition get_running_backup_job :: "db \<Rightarrow> int \<Rightarrow> job option" where
  "get_running_backup_job d sid =
     (case sort_key (\<lambda>j. fst (start_rank j)) (sort_key (\<lambda>j. snd (start_rank j))
        (filter (\<lambda>j. j_server_id j = Some sid \<and> j_job_type j = ''backup'' \<and> j_status j = ''running'')
          (db_jobs d))) of [] \<Rightarrow> None | j # _ \<Rightarrow> Some j)"

definition get_active_job_for_source :: "db \<Rightarrow> int \<Rightarrow> json \<Rightarrow> job option" where
  "get_active_job_for_source d sid source_filter =
     find (\<lambda>j. job_source_filter (Some j) = jor source_filter JNull) (get_active_backup_jobs d sid)"

definition resolve_backup_job :: "db \<Rightarrow> int \<Rightarrow> int option \<Rightarrow> json \<Rightarrow> job option" where
  "resolve_backup_job d sid job_id source_filter =
     (if job_id \<noteq> None \<and> job_id \<noteq> Some 0 then
        (case get_job d (the job_id) of
           None \<Rightarrow> None
         | Some j \<Rightarrow> if j_server_id j = Some sid \<and> j_job_type j = ''backup'' then Some j else None)
      else if source_filter \<noteq> JNull then get_active_job_for_source d sid source_filter
      else case get_running_backup_job d sid of Some j \<Rightarrow> Some j | None \<Rightarrow> get_active_backup_job d sid)"

section \<open>Stop and cancel\<close>

definition stop_backup_job :: "env \<Rightarrow> server \<Rightarrow> job \<Rightarrow> db \<Rightarrow> exc + db" where
  "stop_backup_job e srv j d =
     (let d1 = (if j_status j = ''running'' then emit (StoppedBackup (s_hostname srv)) d else d);
          d2 = revoke_celery_task e (j_celery_task_id j) d1
      in mark_job_cancelled e (j_id j) ''Stopped by user'' True d2)"

text \<open>The second component is the job the call returns.\<close>

definition stop_active_backup :: "env \<Rightarrow> server \<Rightarrow> job option \<Rightarrow> db \<Rightarrow> exc + (db \<times> int option)" where
  "stop_active_backup e srv jo d =
     (let target = (case jo of Some j \<Rightarrow> Some j
          | None \<Rightarrow> (case get_running_backup_job d (s_id srv) of Some j \<Rightarrow> Some j
                    | None \<Rightarrow> get_active_backup_job d (s_id srv))) in
      case target of
        None \<Rightarrow> Inr (emit (StoppedBackup (s_hostname srv)) d, None)
      | Some j \<Rightarrow> rbind (stop_backup_job e srv j d) (\<lambda>d'. Inr (d', Some (j_id j))))"

definition cancel_message :: "string option \<Rightarrow> string" where
  "cancel_message message =
     (let m = take 240 (strip (if text_of message \<noteq> [] then text_of message else ''Cancelled by user''))
      in if m \<noteq> [] then m else ''Cancelled by user'')"

definition nonzero :: "int option \<Rightarrow> bool" where
  "nonzero x = (x \<noteq> None \<and> x \<noteq> Some 0)"

definition cancel_audit :: "env \<Rightarrow> int option \<Rightarrow> string \<Rightarrow> job \<Rightarrow> db \<Rightarrow> db" where
  "cancel_audit e uid msg j d =
     (let job_ip = (case get_job d (j_id j) of None \<Rightarrow> JNull
          | Some r \<Rightarrow> dget0 (load_dict (j_details r)) ''client_ip'')
      in add_audit (make_audit_log e
        \<lparr>g_action = ''job_cancel'', g_status = ''cancelled'', g_user_id = jopt JInt uid,
         g_server_id = j_server_id j, g_api_token_id = None, g_api_token_name = JNull,
         g_details = Some (dumps (JObj [(''job_id'', JInt (j_id j)),
           (''job_type'', JStr (j_job_type j)), (''message'', JStr msg)])),
         g_output_snippet = None, g_started_at = None, g_finished_at = Some (e_now e),
         g_client_ip = jopt JStr (resolve_client_ip e JNull job_ip)\<rparr>) d)"

definition cancel_log :: "string \<Rightarrow> job \<Rightarrow> db \<Rightarrow> db" where
  "cancel_log msg j d =
     (if \<not> nonzero (j_server_id j) then d
      else let hostname = (case get_server d (the (j_server_id j)) of None \<Rightarrow> [] | Some s \<Rightarrow> s_hostname s) in
        if hostname = [] then d
        else if j_job_type j = ''os_patch'' then emit (OsLog hostname (''[os] '' @ msg)) d
        else if j_job_type j = ''container_patch''
          then emit (ContainerLog hostname (''[containers] '' @ msg)) d
        else d)"

text \<open>The signals to the outside before the row is marked.\<close>

definition cancel_signals :: "env \<Rightarrow> string \<Rightarrow> job \<Rightarrow> db \<Rightarrow> db" where
  "cancel_signals e msg j d =
     (if j_job_type j = ''backup'' then
        revoke_celery_task e (j_celery_task_id j)
          (if nonzero (j_server_id j) \<and> j_status j = ''running'' then
             (case get_server d (the (j_server_id j)) of
                Some srv \<Rightarrow> emit (StoppedBackup (s_hostname srv)) d | None \<Rightarrow> d)
           else d)
      else cancel_log msg j (revoke_celery_task e (j_celery_task_id j) d))"

definition cancel_job :: "env \<Rightarrow> int \<Rightarrow> int option \<Rightarrow> string option \<Rightarrow> db \<Rightarrow> exc + db" where
  "cancel_job e i uid message d = (case get_job d i of
     None \<Rightarrow> Inl (JobNotCancellable ''Job not found'')
   | Some j \<Rightarrow>
       if \<not> active j then Inl (JobNotCancellable (''Job is already '' @ j_status j))
       else let msg = cancel_message message in
         rbind (mark_job_cancelled e i msg (j_job_type j = ''backup'') (cancel_signals e msg j d))
           (\<lambda>d2. Inr (cancel_audit e uid msg j d2)))"

lemma cancel_log_frame [simp]:
  "db_jobs (cancel_log msg j d) = db_jobs d"
  "get_job (cancel_log msg j d) i = get_job d i"
  by (auto simp: cancel_log_def emit_def Let_def get_job_def)

lemma cancel_log_calm [simp, intro]: "calm d (cancel_log msg j d)"
  by (auto simp: cancel_log_def Let_def)

lemma cancel_audit_frame [simp]:
  "db_jobs (cancel_audit e uid msg j d) = db_jobs d"
  "get_job (cancel_audit e uid msg j d) i = get_job d i"
  by (simp_all add: cancel_audit_def add_audit_def get_job_def)

lemma cancel_audit_calm [simp, intro]: "calm d (cancel_audit e uid msg j d)"
  by (auto simp: cancel_audit_def)

lemma cancel_signals_frame [simp]:
  "db_jobs (cancel_signals e msg j d) = db_jobs d"
  "get_job (cancel_signals e msg j d) i = get_job d i"
  by (auto simp: cancel_signals_def split: option.splits)

lemma cancel_signals_calm [simp, intro]: "calm d (cancel_signals e msg j d)"
proof -
  have 1: "calm d (revoke_celery_task e t (emit x d))" for x t
    by (rule calm_trans [of _ "emit x d"]) auto
  have 2: "calm d (cancel_log m j (revoke_celery_task e t d))" for m t
    by (rule calm_trans [of _ "revoke_celery_task e t d"]) auto
  show ?thesis by (auto simp: cancel_signals_def 1 2 split: option.splits)
qed

lemma cancel_job_cases:
  assumes "cancel_job e i uid message d = Inr d'"
  obtains j d2 where "get_job d i = Some j" and "active j"
    and "mark_job_terminal e i (cancel_message message) ''cancelled'' (j_job_type j = ''backup'')
      (cancel_signals e (cancel_message message) j d) = Inr d2"
    and "d' = cancel_audit e uid (cancel_message message) j d2"
  using assms
  by (auto simp: cancel_job_def mark_job_cancelled_def Let_def split: option.splits if_splits
      elim!: rbind_InrE)

lemma cancel_job_calm: 
  assumes "cancel_job e i uid message d = Inr d'" shows "calm d d'"
proof (rule cancel_job_cases [OF assms])
  fix j d2
  assume "mark_job_terminal e i (cancel_message message) ''cancelled'' (j_job_type j = ''backup'')
      (cancel_signals e (cancel_message message) j d) = Inr d2"
    and d': "d' = cancel_audit e uid (cancel_message message) j d2"
  then have "calm (cancel_signals e (cancel_message message) j d) d2"
    by (simp add: mark_terminal_calm)
  then have "calm d d2" using cancel_signals_calm calm_trans by blast
  then show "calm d d'" unfolding d' using cancel_audit_calm calm_trans by blast
qed

lemma stop_backup_job_calm:
  assumes "stop_backup_job e srv j d = Inr d'" shows "calm d d'"
proof -
  let ?d1 = "if j_status j = ''running'' then emit (StoppedBackup (s_hostname srv)) d else d"
  from assms have "calm (revoke_celery_task e (j_celery_task_id j) ?d1) d'"
    by (simp add: stop_backup_job_def mark_job_cancelled_def mark_terminal_calm)
  moreover have "calm d ?d1" by simp
  ultimately show ?thesis by (meson calm_trans revoke_calm)
qed

lemma stop_active_backup_calm: "stop_active_backup e srv jo d = Inr (d', r) \<Longrightarrow> calm d d'"
  by (auto simp: stop_active_backup_def Let_def split: option.splits elim!: rbind_InrE
      dest: stop_backup_job_calm)

end
