(* ===== verification/JobSweeps.thy ===== *)
theory JobSweeps
  imports JobLifecycle
begin

text \<open>
  The sweeps of \<open>app/services/jobs/service.py\<close> that fail jobs whose process is gone:
  superseded and stale jobs, orphans of a restarted web process, expired bootstraps, and
  running jobs whose Celery worker no longer answers. A loop over the rows a query returned
  threads the tables (\<open>rfold\<close>); the number returned is the second component.
\<close>

section \<open>Source states\<close>

text \<open>A dictionary key must be hashable, lists and dictionaries are not.\<close>

definition hashable :: "json \<Rightarrow> bool" where
  "hashable v = (case v of JList _ \<Rightarrow> False | JObj _ \<Rightarrow> False | _ \<Rightarrow> True)"

definition by_source_step :: "job \<Rightarrow> (json \<times> job) list \<Rightarrow> exc + (json \<times> job) list" where
  "by_source_step j m =
     (let key = jor (job_source_filter (Some j)) (JStr ''__full__'') in
      if \<not> hashable key then Inl TypeError
      else if map_of m key = None \<or> j_status j = ''running'' then Inr ((key, j) # m) else Inr m)"

definition attach_row :: "(json \<times> job) list \<Rightarrow> dict \<Rightarrow> exc + dict" where
  "attach_row m row =
     (if \<not> hashable (dget0 row ''source'') then Inl TypeError
      else Inr (case map_of m (dget0 row ''source'') of None \<Rightarrow> row
        | Some j \<Rightarrow> dset ''active_job_status'' (JStr (j_status j))
            (dset ''active_job_id'' (JInt (j_id j)) row)))"

definition attach_source_job_states :: "dict list \<Rightarrow> job list \<Rightarrow> exc + dict list" where
  "attach_source_job_states profiles active_jobs =
     rbind (rfold by_source_step active_jobs []) (\<lambda>m.
       rfold (\<lambda>row out. rbind (attach_row m row) (\<lambda>r. Inr (out @ [r]))) profiles [])"

section \<open>Superseded and stale jobs\<close>

definition supersede_running_backups :: "env \<Rightarrow> int \<Rightarrow> db \<Rightarrow> exc + (db \<times> nat)" where
  "supersede_running_backups e sid d =
     (let stuck = filter (\<lambda>j. j_server_id j = Some sid \<and> j_job_type j = ''backup'' \<and> active j) (db_jobs d)
      in rbind (rfold (\<lambda>j s. mark_job_failed e (j_id j) ''Superseded by new backup run'' True
                  (revoke_celery_task e (j_celery_task_id j) s)) stuck d) (\<lambda>d1.
         Inr (case get_server d sid of
                Some srv \<Rightarrow> if stuck \<noteq> [] then emit (StoppedBackup (s_hostname srv)) d1 else d1
              | None \<Rightarrow> d1,
              length stuck)))"

definition HOST_FACTS_STALE_MINUTES :: int where "HOST_FACTS_STALE_MINUTES = 30"

definition release_host_facts_refresh :: "int option \<Rightarrow> db \<Rightarrow> db" where
  "release_host_facts_refresh sid d =
     (if \<not> nonzero sid then d
      else case get_server d (the sid) of
        None \<Rightarrow> d
      | Some s \<Rightarrow> if s_host_facts_status s \<noteq> ''refreshing'' then d
          else upd_server (the sid) (\<lambda>s. s\<lparr>s_host_facts_status := ''stale''\<rparr>) d)"

definition minutes :: "int \<Rightarrow> int" where "minutes n = n * 60000000"
definition seconds :: "int \<Rightarrow> int" where "seconds n = n * 1000000"

definition stale_job_types :: "string list" where
  "stale_job_types = [''backup'', ''service_migrate'', ''service_migrate_undo'',
     ''service_migrate_dest_recover''] @ EXCLUSIVE_CELERY_TYPES"

definition is_stale :: "int \<Rightarrow> int \<Rightarrow> job \<Rightarrow> bool" where
  "is_stale now max_age_minutes j =
     (j_job_type j \<in> set stale_job_types \<and> active j
      \<and> j_created_at j < now - minutes (if j_job_type j = ''host_facts'' then HOST_FACTS_STALE_MINUTES
                                       else max_age_minutes))"

definition stale_message :: string where
  "stale_message = ''Stale job'' @ emdash @ ''worker timeout or restart''"

definition cleanup_stale_backup_jobs :: "env \<Rightarrow> int \<Rightarrow> db \<Rightarrow> exc + (db \<times> nat)" where
  "cleanup_stale_backup_jobs e max_age_minutes d =
     (let stale = filter (is_stale (e_now e) max_age_minutes) (db_jobs d)
      in rbind (rfold (\<lambda>j s. rbind (mark_job_failed e (j_id j) stale_message True s) (\<lambda>s1.
            Inr (if j_job_type j = ''host_facts'' then release_host_facts_refresh (j_server_id j) s1
                 else s1))) stale d) (\<lambda>d1. Inr (d1, length stale)))"

section \<open>Orphans\<close>

definition is_celery_owned_job :: "job \<Rightarrow> bool" where
  "is_celery_owned_job j = (stripped (j_celery_task_id j) \<noteq> []
     \<or> j_job_type j \<in> set CELERY_JOB_TYPES \<or> startswith (j_job_type j) ''nmap_'')"

definition job_needle :: "int \<Rightarrow> string" where
  "job_needle i = ''Job #'' @ int_str i"

text \<open>Which running audit rows the code takes for the job's own.\<close>

definition audit_of_job :: "int \<Rightarrow> string \<Rightarrow> int option \<Rightarrow> audit \<Rightarrow> bool" where
  "audit_of_job i jt sid a =
     (a_status a = ''running'' \<and> a_action a = jt
      \<and> contains (text_of (a_details a)) (job_needle i)
      \<and> \<not> (nonzero sid \<and> nonzero (a_server_id a) \<and> a_server_id a \<noteq> sid))"

definition close_audit :: "env \<Rightarrow> int \<Rightarrow> string \<Rightarrow> string \<Rightarrow> audit \<Rightarrow> audit" where
  "close_audit e i status message a = a\<lparr>a_status := status, a_finished_at := Some (e_now e),
     a_details := Some (take 500 (job_needle i @ middot @ message))\<rparr>"

definition finish_running_audit_for_job :: "env \<Rightarrow> job option \<Rightarrow> string \<Rightarrow> string \<Rightarrow> db \<Rightarrow> db" where
  "finish_running_audit_for_job e jo status message d = (case jo of
     None \<Rightarrow> d
   | Some j \<Rightarrow> if j_id j = 0 then d
       else d\<lparr>db_audits := map (\<lambda>a. if audit_of_job (j_id j) (j_job_type j) (j_server_id j) a
                then close_audit e (j_id j) status message a else a) (db_audits d)\<rparr>)"

definition fail_and_close :: "env \<Rightarrow> job \<Rightarrow> string \<Rightarrow> db \<Rightarrow> exc + db" where
  "fail_and_close e j reason d = rbind (mark_job_failed e (j_id j) reason False d) (\<lambda>d1.
     Inr (finish_running_audit_for_job e (Some j) ''failed'' reason d1))"

definition orphan_web_reason :: string where
  "orphan_web_reason = ''Web process restarted'' @ emdash @ ''this job was no longer running''"

definition cleanup_orphan_web_jobs :: "env \<Rightarrow> string \<Rightarrow> db \<Rightarrow> exc + (db \<times> nat)" where
  "cleanup_orphan_web_jobs e reason d =
     (let stale = filter (\<lambda>j. active j \<and> \<not> is_celery_owned_job j) (db_jobs d)
      in rbind (rfold (\<lambda>j s. fail_and_close e j reason s) stale d) (\<lambda>d1. Inr (d1, length stale)))"

section \<open>Workers that no longer answer\<close>

text \<open>What Celery's inspector gives: nothing usable, no inspector, or its two answers.\<close>

datatype inspection = CheckFailed | NoInspector | Answers json json

definition celery_worker_activity :: "inspection \<Rightarrow> (bool \<times> string list) option" where
  "celery_worker_activity ins = (case ins of
     CheckFailed \<Rightarrow> None
   | NoInspector \<Rightarrow> Some (False, [])
   | Answers ping act \<Rightarrow>
       if \<not> truthy ping then Some (False, [])
       else (case jor act (JObj []) of
          JObj workers \<Rightarrow> Some (True, concat (map (\<lambda>(w, tasks). case tasks of
             JList ts \<Rightarrow> concat (map (\<lambda>t. case t of
                JObj task \<Rightarrow> if truthy (dget0 task ''id'') then [py_str (dget0 task ''id'')] else []
              | _ \<Rightarrow> []) ts)
           | _ \<Rightarrow> []) workers))
        | _ \<Rightarrow> None))"

definition HOST_BOOTSTRAP_EXPIRES_SEC :: int where "HOST_BOOTSTRAP_EXPIRES_SEC = 120"
definition HOST_BOOTSTRAP_EXPIRE_GRACE_SEC :: int where "HOST_BOOTSTRAP_EXPIRE_GRACE_SEC = 30"
definition ORPHAN_GRACE :: int where "ORPHAN_GRACE = seconds 60"

definition HOST_BOOTSTRAP_EXPIRED_REASON :: string where
  "HOST_BOOTSTRAP_EXPIRED_REASON = ''expired before a worker picked it up, rerun with a fresh password''"
definition HOST_BOOTSTRAP_BUSY_REASON :: string where
  "HOST_BOOTSTRAP_BUSY_REASON = ''another job holds this host, rerun when it finishes''"
definition ORPHAN_REASON :: string where
  "ORPHAN_REASON = ''Interrupted. The Celery worker is no longer alive.''"

text \<open>Returns whether the job was failed.\<close>

definition fail_expired_host_bootstrap :: "env \<Rightarrow> job option \<Rightarrow> db \<Rightarrow> exc + (db \<times> bool)" where
  "fail_expired_host_bootstrap e jo d = (case jo of
     None \<Rightarrow> Inr (d, False)
   | Some j \<Rightarrow> if j_job_type j \<noteq> ''host_bootstrap'' \<or> j_status j \<noteq> ''pending'' then Inr (d, False)
       else rbind (fail_and_close e j HOST_BOOTSTRAP_EXPIRED_REASON d) (\<lambda>d1. Inr (d1, True)))"

definition fail_expired_host_bootstrap_by_id :: "env \<Rightarrow> int \<Rightarrow> db \<Rightarrow> exc + db" where
  "fail_expired_host_bootstrap_by_id e i d =
     rbind (fail_expired_host_bootstrap e (get_job d i) d) (\<lambda>(d1, done). Inr (if done then d1 else d))"

definition bootstrap_cutoff :: "int \<Rightarrow> int" where
  "bootstrap_cutoff now = now - seconds (HOST_BOOTSTRAP_EXPIRES_SEC + HOST_BOOTSTRAP_EXPIRE_GRACE_SEC)"

definition fail_expired_pending_host_bootstrap :: "env \<Rightarrow> db \<Rightarrow> exc + (db \<times> nat)" where
  "fail_expired_pending_host_bootstrap e d =
     (let rows = filter (\<lambda>j. j_job_type j = ''host_bootstrap'' \<and> j_status j = ''pending'') (db_jobs d)
      in rfold (\<lambda>j (s, n).
           if j_created_at j > bootstrap_cutoff (e_now e) then Inr (s, n)
           else rbind (fail_expired_host_bootstrap e (Some j) s) (\<lambda>(s1, done).
             Inr (s1, if done then n + 1 else n))) rows (d, 0))"

text \<open>A running Celery job counts as lost when no worker answers, or when the workers that
  answer do not run its task and its start is older than the grace.\<close>

definition lost_job :: "int \<Rightarrow> bool \<times> string list \<Rightarrow> job \<Rightarrow> bool" where
  "lost_job now act j = (case act of (alive, ids) \<Rightarrow>
     is_celery_owned_job j
     \<and> \<not> (alive \<and> stripped (j_celery_task_id j) \<noteq> [] \<and> stripped (j_celery_task_id j) \<in> set ids)
     \<and> \<not> (alive \<and> now - (case j_started_at j of Some t \<Rightarrow> t | None \<Rightarrow> j_created_at j) < ORPHAN_GRACE))"

definition reconcile_step :: "env \<Rightarrow> bool \<times> string list \<Rightarrow> job \<Rightarrow> db \<times> nat \<Rightarrow> exc + (db \<times> nat)" where
  "reconcile_step e act j = (\<lambda>(s, n).
     if \<not> lost_job (e_now e) act j then Inr (s, n)
     else rbind (fail_and_close e j ORPHAN_REASON s) (\<lambda>s1.
       Inr (if j_job_type j = ''host_facts'' then release_host_facts_refresh (j_server_id j) s1 else s1,
            n + 1)))"

definition reconcile_orphaned_running_jobs :: "env \<Rightarrow> inspection \<Rightarrow> db \<Rightarrow> exc + (db \<times> nat)" where
  "reconcile_orphaned_running_jobs e ins d =
     rbind (fail_expired_pending_host_bootstrap e d) (\<lambda>(d1, n).
       case celery_worker_activity ins of
         None \<Rightarrow> Inr (d1, n)
       | Some act \<Rightarrow> rfold (reconcile_step e act)
           (filter (\<lambda>j. j_status j = ''running'') (db_jobs d1)) (d1, n))"

section \<open>Loops of marks\<close>

lemma rfold_calm:
  assumes "rfold f xs d = Inr d'" and "\<And>x s s'. x \<in> set xs \<Longrightarrow> f x s = Inr s' \<Longrightarrow> calm s s'"
  shows "calm d d'"
  by (rule rfold_invariant [OF assms(1), of "calm d"]) (use assms(2) calm_trans in \<open>blast+\<close>)

text \<open>The effect of a loop that marks one row per step: these rows, and no others.\<close>

definition marks_all :: "env \<Rightarrow> job list \<Rightarrow> db \<Rightarrow> db \<Rightarrow> bool" where
  "marks_all e rows d d' = (\<forall>k.
     if k \<in> j_id ` set rows then
       (\<forall>j. get_job d k = Some j \<longrightarrow> (\<exists>det. get_job d' k = Some (set_terminal e ''failed'' det j)))
     else get_job d' k = get_job d k)"

lemma set_terminal_twice:
  "set_terminal e st det (set_terminal e st' det' j) = set_terminal e st det j"
  by (simp add: set_terminal_def)

lemma marks_all_Cons:
  assumes m: "marked e (j_id x) ''failed'' d d1" and rest: "marks_all e xs d1 d'"
  shows "marks_all e (x # xs) d d'"
  unfolding marks_all_def
proof
  fix k
  show "if k \<in> j_id ` set (x # xs) then
       (\<forall>j. get_job d k = Some j \<longrightarrow> (\<exists>det. get_job d' k = Some (set_terminal e ''failed'' det j)))
     else get_job d' k = get_job d k"
  proof (cases "k = j_id x")
    case True
    show ?thesis
    proof (cases "k \<in> j_id ` set xs")
      case in_xs: True
      have "\<exists>det. get_job d' k = Some (set_terminal e ''failed'' det j)" if j: "get_job d k = Some j" for j
      proof -
        obtain det where "get_job d1 k = Some (set_terminal e ''failed'' det j)"
          using marked_same [OF m] j [unfolded True] unfolding True by blast
        with in_xs rest show ?thesis
          unfolding marks_all_def by (metis set_terminal_twice)
      qed
      then show ?thesis using True by simp
    next
      case False
      then have "get_job d' k = get_job d1 k" using rest by (simp add: marks_all_def)
      then show ?thesis using True marked_same [OF m] by auto
    qed
  next
    case False
    then have "get_job d1 k = get_job d k" using marked_other [OF m] by simp
    with rest False show ?thesis by (simp add: marks_all_def)
  qed
qed

lemma rfold_marks_all:
  assumes "rfold f rows d = Inr d'"
    and "\<And>x s s'. x \<in> set rows \<Longrightarrow> f x s = Inr s' \<Longrightarrow> marked e (j_id x) ''failed'' s s'"
  shows "marks_all e rows d d'"
  using assms
proof (induction rows arbitrary: d)
  case Nil
  then show ?case by (simp add: marks_all_def)
next
  case (Cons x xs)
  then obtain d1 where "f x d = Inr d1" and "rfold f xs d1 = Inr d'" by (auto elim: rbind_InrE)
  with Cons show ?case by (metis list.set_intros(1) list.set_intros(2) marks_all_Cons)
qed

text \<open>A loop of marks over usable rows never raises.\<close>

lemma rfold_marks_ok:
  assumes "db_ok d" and "\<And>x. x \<in> set rows \<Longrightarrow> get_job d (j_id x) \<noteq> None"
    and "\<And>x s. x \<in> set rows \<Longrightarrow> db_ok s \<Longrightarrow> get_job s (j_id x) \<noteq> None \<Longrightarrow>
           \<exists>s'. f x s = Inr s' \<and> db_ok s' \<and> (\<forall>k. get_job s k \<noteq> None \<longrightarrow> get_job s' k \<noteq> None)"
  shows "\<exists>d'. rfold f rows d = Inr d' \<and> db_ok d'"
  using assms
proof (induction rows arbitrary: d)
  case Nil
  then show ?case by simp
next
  case (Cons x xs)
  then obtain s' where s': "f x d = Inr s'" "db_ok s'" "\<forall>k. get_job d k \<noteq> None \<longrightarrow> get_job s' k \<noteq> None"
    by (meson list.set_intros(1))
  have "\<exists>d'. rfold f xs s' = Inr d' \<and> db_ok d'"
    by (rule Cons.IH) (use Cons.prems s' in auto)
  with s' show ?case by simp
qed

lemma marks_all_filter:
  assumes "wf_ids d" and "marks_all e (filter P (db_jobs d)) d d'" and "get_job d k = Some j"
  shows "if P j then \<exists>det. get_job d' k = Some (set_terminal e ''failed'' det j) else get_job d' k = Some j"
proof -
  have "k \<in> j_id ` set (filter P (db_jobs d)) \<longleftrightarrow> P j"
    using assms(1,3) by (auto simp: image_iff dest: get_job_id get_job_in get_job_of_in)
  with assms(2,3) show ?thesis by (simp add: marks_all_def split: if_splits)
qed

section \<open>What the sweeps do\<close>

lemma get_job_audits [simp]: "get_job (d\<lparr>db_audits := x\<rparr>) k = get_job d k"
  by (simp add: get_job_def)

lemma finish_audit_frame [simp]:
  "db_jobs (finish_running_audit_for_job e jo st m d) = db_jobs d"
  "get_job (finish_running_audit_for_job e jo st m d) k = get_job d k"
  "calm d (finish_running_audit_for_job e jo st m d)"
  by (auto simp: finish_running_audit_for_job_def calm_def active_keys_def split: option.splits)

lemma release_frame [simp]:
  "db_jobs (release_host_facts_refresh sid d) = db_jobs d"
  "get_job (release_host_facts_refresh sid d) k = get_job d k"
  "calm d (release_host_facts_refresh sid d)"
  by (auto simp: release_host_facts_refresh_def upd_server_def get_job_def calm_def active_keys_def
      split: option.splits)

lemma calm_marked: "marked e i st d d' \<Longrightarrow> \<not> active_status st \<Longrightarrow> db_next_job d' = db_next_job d \<Longrightarrow> calm d d'"
proof -
  assume m: "marked e i st d d'" and st: "\<not> active_status st" and nx: "db_next_job d' = db_next_job d"
  obtain det where jobs: "db_jobs d' = db_jobs (upd_job i (set_terminal e st det) d)"
    using m by (auto simp: marked_def)
  have "calm d (upd_job i (set_terminal e st det) d)" using st by (intro calm_upd_job' set_terminal_calm)
  then show ?thesis
    using jobs nx by (simp add: calm_def active_keys_def)
qed

lemma marked_cong: "db_jobs d2 = db_jobs d1 \<Longrightarrow> marked e i st d d1 \<Longrightarrow> marked e i st d d2"
  by (simp add: marked_def)

lemma marked_cong_left: "db_jobs d1 = db_jobs d \<Longrightarrow> marked e i st d1 d2 \<Longrightarrow> marked e i st d d2"
  by (auto simp: marked_def upd_job_def)

lemma marked_present: "marked e i st d d' \<Longrightarrow> get_job d k \<noteq> None \<Longrightarrow> get_job d' k \<noteq> None"
  by (erule marked_get) (cases "k = i"; simp)

lemma mark_failed_step:
  "mark_job_failed e i m ra s = Inr s' \<Longrightarrow> marked e i ''failed'' s s' \<and> calm s s'"
  by (auto simp: mark_job_failed_def dest: mark_terminal_marked mark_terminal_calm)

lemma mark_failed_ok: "db_ok s \<Longrightarrow> get_job s i \<noteq> None \<Longrightarrow> \<exists>s'. mark_job_failed e i m ra s = Inr s' \<and> db_ok s'"
  by (auto simp: mark_job_failed_def dest: mark_terminal_ok)

lemma fail_and_close_step:
  "fail_and_close e j r s = Inr s' \<Longrightarrow> marked e (j_id j) ''failed'' s s' \<and> calm s s'"
  by (auto simp: fail_and_close_def elim!: rbind_InrE dest!: mark_failed_step
      intro: marked_cong calm_trans)

lemma fail_and_close_ok:
  "db_ok s \<Longrightarrow> get_job s (j_id j) \<noteq> None \<Longrightarrow> \<exists>s'. fail_and_close e j r s = Inr s' \<and> db_ok s'"
  using mark_failed_ok [of s "j_id j" e r False]
  by (auto simp: fail_and_close_def db_ok_def)

lemma in_filter_present: "x \<in> set (filter P (db_jobs d)) \<Longrightarrow> get_job d (j_id x) \<noteq> None"
  by (auto simp: get_job_def get_row_None)

definition sweeps :: "env \<Rightarrow> (job \<Rightarrow> bool) \<Rightarrow> db \<Rightarrow> db \<Rightarrow> bool" where
  "sweeps e P d d' = (marks_all e (filter P (db_jobs d)) d d' \<and> calm d d')"

lemma sweepsI:
  assumes "rfold f (filter P (db_jobs d)) d = Inr d'"
    and "\<And>x s s'. f x s = Inr s' \<Longrightarrow> marked e (j_id x) ''failed'' s s' \<and> calm s s'"
  shows "sweeps e P d d'"
  unfolding sweeps_def
  using rfold_marks_all [OF assms(1)] rfold_calm [OF assms(1)] assms(2) by blast

lemma sweepsI_ok:
  assumes "db_ok d"
    and "\<And>x s. db_ok s \<Longrightarrow> get_job s (j_id x) \<noteq> None \<Longrightarrow> \<exists>s'. f x s = Inr s' \<and> db_ok s'"
    and "\<And>x s s'. f x s = Inr s' \<Longrightarrow> marked e (j_id x) ''failed'' s s' \<and> calm s s'"
  shows "\<exists>d'. rfold f (filter P (db_jobs d)) d = Inr d' \<and> db_ok d'"
proof (rule rfold_marks_ok [OF assms(1) in_filter_present])
  fix x :: job and s assume "db_ok s" and "get_job s (j_id x) \<noteq> None"
  then obtain s' where s': "f x s = Inr s'" "db_ok s'" using assms(2) by blast
  then have "marked e (j_id x) ''failed'' s s'" using assms(3) by blast
  with s' show "\<exists>s'. f x s = Inr s' \<and> db_ok s' \<and> (\<forall>k. get_job s k \<noteq> None \<longrightarrow> get_job s' k \<noteq> None)"
    using marked_present by blast
qed

lemma sweeps_row:
  "sweeps e P d d' \<Longrightarrow> wf_ids d \<Longrightarrow> get_job d k = Some j \<Longrightarrow>
     if P j then \<exists>det. get_job d' k = Some (set_terminal e ''failed'' det j) else get_job d' k = Some j"
  unfolding sweeps_def using marks_all_filter by blast

definition stale_step :: "env \<Rightarrow> job \<Rightarrow> db \<Rightarrow> exc + db" where
  "stale_step e j s = rbind (mark_job_failed e (j_id j) stale_message True s) (\<lambda>s1.
     Inr (if j_job_type j = ''host_facts'' then release_host_facts_refresh (j_server_id j) s1 else s1))"

lemma marked_release: "marked e i st d d1 \<Longrightarrow> marked e i st d (release_host_facts_refresh sid d1)"
  by (rule marked_cong) simp_all

lemma calm_release: "calm d d1 \<Longrightarrow> calm d (release_host_facts_refresh sid d1)"
  by (erule calm_trans) simp

lemma stale_step_step: "stale_step e j s = Inr s' \<Longrightarrow> marked e (j_id j) ''failed'' s s' \<and> calm s s'"
  by (auto simp: stale_step_def elim!: rbind_InrE dest!: mark_failed_step
      intro: marked_release calm_release)

lemma stale_step_ok:
  "db_ok s \<Longrightarrow> get_job s (j_id j) \<noteq> None \<Longrightarrow> \<exists>s'. stale_step e j s = Inr s' \<and> db_ok s'"
  using mark_failed_ok [of s "j_id j" e stale_message True]
  by (auto simp: stale_step_def db_ok_def)

lemma cleanup_stale_sweeps:
  "cleanup_stale_backup_jobs e m d = Inr (d', n) \<Longrightarrow>
     sweeps e (is_stale (e_now e) m) d d' \<and> n = length (filter (is_stale (e_now e) m) (db_jobs d))"
  by (auto simp: cleanup_stale_backup_jobs_def Let_def stale_step_def [symmetric] elim!: rbind_InrE
      intro: sweepsI dest: stale_step_step)

lemma cleanup_stale_ok:
  assumes "db_ok d"
  shows "\<exists>d' n. cleanup_stale_backup_jobs e m d = Inr (d', n) \<and> db_ok d'"
proof -
  obtain d' where "rfold (stale_step e) (filter (is_stale (e_now e) m) (db_jobs d)) d = Inr d'" "db_ok d'"
    using sweepsI_ok [where f = "stale_step e" and e = e, OF assms stale_step_ok stale_step_step] by blast
  then show ?thesis
    by (simp add: cleanup_stale_backup_jobs_def Let_def stale_step_def [symmetric])
qed

lemma cleanup_orphan_sweeps:
  "cleanup_orphan_web_jobs e r d = Inr (d', n) \<Longrightarrow>
     sweeps e (\<lambda>j. active j \<and> \<not> is_celery_owned_job j) d d'
     \<and> n = length (filter (\<lambda>j. active j \<and> \<not> is_celery_owned_job j) (db_jobs d))"
  by (auto simp: cleanup_orphan_web_jobs_def Let_def elim!: rbind_InrE
      intro: sweepsI dest: fail_and_close_step)

lemma cleanup_orphan_ok:
  assumes "db_ok d"
  shows "\<exists>d' n. cleanup_orphan_web_jobs e r d = Inr (d', n) \<and> db_ok d'"
proof -
  let ?P = "\<lambda>j. active j \<and> \<not> is_celery_owned_job j"
  obtain d' where "rfold (\<lambda>j. fail_and_close e j r) (filter ?P (db_jobs d)) d = Inr d'" "db_ok d'"
    using sweepsI_ok [where f = "\<lambda>j. fail_and_close e j r" and e = e and P = ?P, OF assms
        fail_and_close_ok fail_and_close_step [where r = r]] by blast
  then show ?thesis by (simp add: cleanup_orphan_web_jobs_def Let_def)
qed

text \<open>The reconcile pass is two sweeps: pending bootstraps past their expiry, then lost jobs.\<close>

definition expired_bootstrap :: "int \<Rightarrow> job \<Rightarrow> bool" where
  "expired_bootstrap now j = (j_job_type j = ''host_bootstrap'' \<and> j_status j = ''pending''
     \<and> j_created_at j \<le> bootstrap_cutoff now)"

lemma rfold_counted:
  "rfold (\<lambda>j (s, n). if \<not> P j then Inr (s, n) else rbind (f j s) (\<lambda>s1. Inr (s1, n + 1))) xs (d, k)
   = rbind (rfold f (filter P xs) d) (\<lambda>d'. Inr (d', k + length (filter P xs)))"
proof (induction xs arbitrary: d k)
  case (Cons x xs)
  then show ?case by (cases "f x d") auto
qed simp

lemma expired_pass:
  "fail_expired_pending_host_bootstrap e d =
     rbind (rfold (\<lambda>j. fail_and_close e j HOST_BOOTSTRAP_EXPIRED_REASON)
              (filter (expired_bootstrap (e_now e)) (db_jobs d)) d)
       (\<lambda>d'. Inr (d', length (filter (expired_bootstrap (e_now e)) (db_jobs d))))"
proof -
  let ?pend = "\<lambda>j. j_job_type j = ''host_bootstrap'' \<and> j_status j = ''pending''"
  let ?old = "\<lambda>j. j_created_at j \<le> bootstrap_cutoff (e_now e)"
  have loop: "rfold (\<lambda>j (s, n). if j_created_at j > bootstrap_cutoff (e_now e) then Inr (s, n)
        else rbind (fail_expired_host_bootstrap e (Some j) s) (\<lambda>(s1, done). Inr (s1, if done then n + 1 else n)))
      rows st
    = rfold (\<lambda>j (s, n). if \<not> ?old j then Inr (s, n)
        else rbind (fail_and_close e j HOST_BOOTSTRAP_EXPIRED_REASON s) (\<lambda>s1. Inr (s1, n + 1))) rows st"
    if "\<forall>j\<in>set rows. ?pend j" for rows st
    using that
  proof (induction rows arbitrary: st)
    case (Cons j rows)
    show ?case
      using Cons by (cases st; cases "fail_and_close e j HOST_BOOTSTRAP_EXPIRED_REASON (fst st)")
        (auto simp: fail_expired_host_bootstrap_def)
  qed simp
  have "filter ?old (filter ?pend (db_jobs d)) = filter (expired_bootstrap (e_now e)) (db_jobs d)"
    unfolding filter_filter by (rule filter_cong) (auto simp: expired_bootstrap_def)
  then show ?thesis
    unfolding fail_expired_pending_host_bootstrap_def Let_def
    by (subst loop) (auto simp: rfold_counted)
qed

definition lost_step :: "env \<Rightarrow> job \<Rightarrow> db \<Rightarrow> exc + db" where
  "lost_step e j s = rbind (fail_and_close e j ORPHAN_REASON s) (\<lambda>s1.
     Inr (if j_job_type j = ''host_facts'' then release_host_facts_refresh (j_server_id j) s1 else s1))"

lemma reconcile_loop:
  "rfold (reconcile_step e act) rows (d, n) =
     rbind (rfold (lost_step e) (filter (lost_job (e_now e) act) rows) d)
       (\<lambda>d'. Inr (d', n + length (filter (lost_job (e_now e) act) rows)))"
proof -
  have "reconcile_step e act = (\<lambda>j (s, n). if \<not> lost_job (e_now e) act j then Inr (s, n)
      else rbind (lost_step e j s) (\<lambda>s1. Inr (s1, n + 1)))"
    by (auto simp: reconcile_step_def lost_step_def fun_eq_iff rbind_def split: sum.splits)
  then show ?thesis by (simp add: rfold_counted)
qed

lemma lost_step_step: "lost_step e j s = Inr s' \<Longrightarrow> marked e (j_id j) ''failed'' s s' \<and> calm s s'"
  by (auto simp: lost_step_def elim!: rbind_InrE dest!: fail_and_close_step
      intro: marked_release calm_release)

lemma lost_step_ok:
  "db_ok s \<Longrightarrow> get_job s (j_id j) \<noteq> None \<Longrightarrow> \<exists>s'. lost_step e j s = Inr s' \<and> db_ok s'"
  using fail_and_close_ok [of s j e ORPHAN_REASON] by (auto simp: lost_step_def db_ok_def)

lemma reconcile_sweeps:
  assumes "reconcile_orphaned_running_jobs e ins d = Inr (d', n)"
  obtains d1 where "sweeps e (expired_bootstrap (e_now e)) d d1"
    and "(case celery_worker_activity ins of None \<Rightarrow> d' = d1
          | Some act \<Rightarrow> sweeps e (\<lambda>j. j_status j = ''running'' \<and> lost_job (e_now e) act j) d1 d')"
proof -
  from assms obtain d1 m where 1: "rfold (\<lambda>j. fail_and_close e j HOST_BOOTSTRAP_EXPIRED_REASON)
      (filter (expired_bootstrap (e_now e)) (db_jobs d)) d = Inr d1"
    and 2: "(case celery_worker_activity ins of None \<Rightarrow> Inr (d1, m)
       | Some act \<Rightarrow> rfold (reconcile_step e act)
           (filter (\<lambda>j. j_status j = ''running'') (db_jobs d1)) (d1, m)) = Inr (d', n)"
    by (auto simp: reconcile_orphaned_running_jobs_def expired_pass elim!: rbind_InrE)
  have "sweeps e (expired_bootstrap (e_now e)) d d1"
    by (rule sweepsI [OF 1]) (rule fail_and_close_step)
  moreover have "sweeps e (\<lambda>j. j_status j = ''running'' \<and> lost_job (e_now e) act j) d1 d'"
    if "celery_worker_activity ins = Some act" for act
    using 2 that by (auto simp: reconcile_loop conj_commute elim!: rbind_InrE
        intro!: sweepsI [where f = "lost_step e"] lost_step_step)
  ultimately show ?thesis using 2 that by (auto split: option.splits)
qed

end
