(* ===== verification/JobFinish.thy ===== *)
theory JobFinish
  imports JobSweeps
begin

text \<open>
  How a job row is created and how it ends (\<open>app/services/jobs/service.py\<close>): the initial
  details, progress flushes, the demo simulation, \<open>_create_queued_job_with_audit\<close> and
  \<open>_finish\<close>, which never overwrites a cancelled or finished row.
\<close>

section \<open>New rows\<close>

text \<open>\<open>_initial_job_details\<close>: the request address is snapshotted, redacted in the demo.\<close>

definition initial_job_details :: "env \<Rightarrow> string \<Rightarrow> dict \<Rightarrow> dict" where
  "initial_job_details e queue_message extra =
     (let d0 = dupdate [(''current'', JStr ''queued''), (''log_lines'', JList [JStr queue_message]),
            (''done'', JBool False)] extra;
          d1 = (if truthy (dget0 d0 ''client_ip'') then d0
                else if text_of (e_request_ip e) \<noteq> [] then dset ''client_ip'' (jopt JStr (e_request_ip e)) d0
                else d0)
      in if truthy (dget0 d1 ''client_ip'')
         then dset ''client_ip'' (scrub_audit_client_ip e (dget0 d1 ''client_ip'') False) d1 else d1)"

definition job_ip_of :: "column \<Rightarrow> json" where
  "job_ip_of c = dget0 (load_dict c) ''client_ip''"

text \<open>\<open>dict[key] = value\<close> unless the key is there.\<close>

definition dset_new :: "string \<Rightarrow> json \<Rightarrow> dict \<Rightarrow> dict" where
  "dset_new k v d = (if dget d k = None then d @ [(k, v)] else d)"

record origin =
  o_user_id :: "int option"
  o_api_token_id :: "int option"
  o_api_token_name :: "string option"

definition origin_extra :: "origin \<Rightarrow> dict \<Rightarrow> dict" where
  "origin_extra og extra =
     (let x = (case o_user_id og of None \<Rightarrow> extra | Some u \<Rightarrow> dset_new ''user_id'' (JInt u) extra);
          x = (case o_api_token_id og of None \<Rightarrow> x | Some t \<Rightarrow> dset_new ''api_token_id'' (JInt t) x)
      in if text_of (o_api_token_name og) \<noteq> []
         then dset_new ''api_token_name'' (JStr (take 120 (text_of (o_api_token_name og)))) x else x)"

text \<open>
  \<open>audit_details.format(job_id=i)\<close>: doubled braces stand for one, \<open>{job_id}\<close> for the number, any
  other brace raises. (A field with a conversion or format of \<open>job_id\<close> is not represented.)
\<close>

fun format_job_id :: "string option \<Rightarrow> int \<Rightarrow> string \<Rightarrow> string option" where
  "format_job_id None i [] = Some []"
| "format_job_id (Some field) i [] = None"
| "format_job_id None i (c # cs) =
     (if c = CHR ''{'' then
        (if cs \<noteq> [] \<and> hd cs = CHR ''{'' then map_option ((#) c) (format_job_id None i (tl cs))
         else format_job_id (Some []) i cs)
      else if c = CHR ''}'' then
        (if cs \<noteq> [] \<and> hd cs = CHR ''}'' then map_option ((#) c) (format_job_id None i (tl cs)) else None)
      else map_option ((#) c) (format_job_id None i cs))"
| "format_job_id (Some field) i (c # cs) =
     (if c = CHR ''}'' then
        (if field = ''job_id'' then map_option ((@) (int_str i)) (format_job_id None i cs) else None)
      else format_job_id (Some (field @ [c])) i cs)"

definition no_braces :: "string \<Rightarrow> bool" where
  "no_braces s = (CHR ''{'' \<notin> set s \<and> CHR ''}'' \<notin> set s)"

lemma format_plain: "no_braces s \<Longrightarrow> format_job_id None i s = Some s"
  by (induction s) (auto simp: no_braces_def)

lemma format_prefix: "no_braces s \<Longrightarrow>
    format_job_id None i (s @ t) = map_option ((@) s) (format_job_id None i t)"
  by (cases "format_job_id None i t"; induction s) (auto simp: no_braces_def)

text \<open>
  \<open>_create_queued_job_with_audit\<close>: the pending row is committed, then its running audit row.
  The result has the ids of both. The format of the audit text is read after the first commit.
\<close>

definition started_text :: "int \<Rightarrow> string" where
  "started_text i = ''Job #'' @ int_str i @ '' started''"

definition queued_details :: "env \<Rightarrow> string \<Rightarrow> origin \<Rightarrow> dict \<Rightarrow> column" where
  "queued_details e queue_message og extra =
     Text (JObj (initial_job_details e queue_message (origin_extra og extra)))"

definition create_queued_job_with_audit ::
    "env \<Rightarrow> int option \<Rightarrow> string \<Rightarrow> string \<Rightarrow> origin \<Rightarrow> string option \<Rightarrow> dict \<Rightarrow> db
     \<Rightarrow> db \<times> (exc + int \<times> int)" where
  "create_queued_job_with_audit e sid jt queue_message og audit_details extra d =
     (let det = queued_details e queue_message og extra; d1 = add_job e sid jt det d; i = db_next_job d in
      case (case audit_details of None \<Rightarrow> Some (started_text i) | Some t \<Rightarrow> format_job_id None i t) of
        None \<Rightarrow> (d1, Inl FormatError)
      | Some text \<Rightarrow>
          (add_audit (make_audit_log e
            \<lparr>g_action = jt, g_status = ''running'', g_user_id = jopt JInt (o_user_id og),
             g_server_id = sid, g_api_token_id = o_api_token_id og,
             g_api_token_name = jopt JStr (o_api_token_name og),
             g_details = Some text, g_output_snippet = None, g_started_at = None,
             g_finished_at = None,
             g_client_ip = jopt JStr (resolve_client_ip e JNull (job_ip_of det))\<rparr>) d1,
           Inr (i, db_next_audit d)))"

text \<open>\<open>_flush_job_progress\<close>: best effort, any error leaves the row as it was.\<close>

definition flush_job_progress :: "int \<Rightarrow> string \<Rightarrow> string \<Rightarrow> string \<Rightarrow> dict \<Rightarrow> db \<Rightarrow> db" where
  "flush_job_progress i current log_line default_current extra d = (case get_job d i of
     None \<Rightarrow> d
   | Some j \<Rightarrow> if \<not> active j then d
       else (case merge_job_details ([(''current'', JStr (if current \<noteq> [] then current else default_current)),
                (''log_line'', JStr log_line), (''done'', JBool False)] @ extra) j of
          Inl _ \<Rightarrow> d
        | Inr j' \<Rightarrow> upd_job i (\<lambda>r. r\<lparr>j_details := j_details j'\<rparr>) d))"

section \<open>Demo jobs\<close>

definition start_demo_row :: "env \<Rightarrow> job \<Rightarrow> job" where
  "start_demo_row e j =
     (if terminal_status (j_status j) then j
      else let j1 = (if j_status j \<noteq> ''running''
             then j\<lparr>j_status := ''running'',
                    j_started_at := (case j_started_at j of None \<Rightarrow> Some (e_now e) | Some t \<Rightarrow> Some t)\<rparr>
             else j)
        in snd (stamp_job_worker j1 (Some WEB_WORKER_NAME) False))"

definition start_demo_job :: "env \<Rightarrow> int \<Rightarrow> db \<Rightarrow> db" where
  "start_demo_job e i d = upd_job i (start_demo_row e) d"

definition demo_message :: string where
  "demo_message = ''Demo simulation'' @ emdash @ ''no live host action''"

definition demo_details :: "json \<Rightarrow> column \<Rightarrow> exc + dict" where
  "demo_details source_filter c =
     (case py_list (jor (dget0 (load_dict c) ''log_lines'') (JList [])) of
        None \<Rightarrow> Inl TypeError
      | Some lines \<Rightarrow> Inr (dupdate (load_dict c)
          ([(''log_lines'', JList (last_n 20 (lines @ [JStr demo_message]))),
            (''current'', JStr ''success''), (''status'', JStr ''success''),
            (''summary'', JStr ''Demo simulation''), (''done'', JBool True), (''demo'', JBool True)]
           @ (if truthy source_filter then [(''source_filter'', source_filter)] else []))))"

definition finish_demo_row :: "env \<Rightarrow> dict \<Rightarrow> job \<Rightarrow> job" where
  "finish_demo_row e det j = snd (stamp_job_worker
     (j\<lparr>j_status := ''success'', j_finished_at := Some (e_now e), j_details := Text (JObj det)\<rparr>)
     (Some WEB_WORKER_NAME) False)"

text \<open>The audit rows are best effort for a backup; the start is committed on its own.\<close>

definition finish_demo_job :: "env \<Rightarrow> int \<Rightarrow> origin \<Rightarrow> json \<Rightarrow> db \<Rightarrow> db \<times> (exc + unit)" where
  "finish_demo_job e i og source_filter d0 =
     (let d = start_demo_job e i d0 in
      case get_job d i of
        None \<Rightarrow> (d, Inl AttributeError)
      | Some j \<Rightarrow> (case demo_details source_filter (j_details j) of
          Inl x \<Rightarrow> (d, Inl x)
        | Inr det \<Rightarrow>
            (let d1 = upd_job i (finish_demo_row e det) d; j1 = finish_demo_row e det j in
             if j_job_type j = ''backup'' then
               (let ev = \<lparr>v_server_id = j_server_id j, v_job_id = i, v_user_id = jopt JInt (o_user_id og),
                      v_api_token_id = o_api_token_id og, v_api_token_name = jopt JStr (o_api_token_name og),
                      v_source_filter = source_filter, v_message = Some ''Demo backup requested'',
                      v_output_snippet = None, v_started_at = None, v_finished_at = None,
                      v_client_ip = JNull\<rparr>;
                    d2 = (case record_backup_audit_event e ''request'' ev d1 of Inl _ \<Rightarrow> d1 | Inr x \<Rightarrow>
                      (case record_backup_audit_from_job e j1 ''success'' (Some demo_message)
                          (Some (JObj [(''demo'', JBool True), (''summary'', JStr ''Demo simulation'')])) x
                       of Inl _ \<Rightarrow> x | Inr y \<Rightarrow> y))
                in (d2, Inr ()))
             else (add_audit (make_audit_log e
                 \<lparr>g_action = (if j_job_type j \<noteq> [] then j_job_type j else ''job''), g_status = ''success'',
                  g_user_id = jopt JInt (o_user_id og), g_server_id = j_server_id j,
                  g_api_token_id = o_api_token_id og, g_api_token_name = jopt JStr (o_api_token_name og),
                  g_details = Some (''Job #'' @ int_str i @ middot @ ''Demo simulation''),
                  g_output_snippet = None, g_started_at = None, g_finished_at = Some (e_now e),
                  g_client_ip = JNull\<rparr>) d1, Inr ()))))"

section \<open>Completion\<close>

text \<open>\<open>^Job #\d+ started\<close>.\<close>

definition job_started_text :: "string \<Rightarrow> bool" where
  "job_started_text s = (let rest = drop 5 s in
     startswith s ''Job #'' \<and> takeWhile is_digit rest \<noteq> []
     \<and> startswith (dropWhile is_digit rest) '' started'')"

definition replaceable_text :: "string option \<Rightarrow> bool" where
  "replaceable_text s = (text_of s = [] \<or> job_started_text (text_of s))"

definition job_line :: "int \<Rightarrow> string \<Rightarrow> string" where
  "job_line i msg = take 500 (''Job #'' @ int_str i @ middot @ msg)"

definition finish_cancelled_audit :: "env \<Rightarrow> int \<Rightarrow> audit \<Rightarrow> audit" where
  "finish_cancelled_audit e i a = (if a_status a \<noteq> ''running'' then a
     else a\<lparr>a_status := ''cancelled'', a_finished_at := Some (e_now e),
       a_details := (if replaceable_text (a_details a) then Some (job_line i ''Cancelled by user'')
                     else a_details a)\<rparr>)"

definition finish_audit ::
    "env \<Rightarrow> int \<Rightarrow> string \<Rightarrow> string \<Rightarrow> string \<Rightarrow> json \<Rightarrow> job option \<Rightarrow> audit \<Rightarrow> audit" where
  "finish_audit e i jt status text summary jo a =
     (let jip = (case jo of None \<Rightarrow> JNull | Some j \<Rightarrow> job_ip_of (j_details j));
          line = Some (job_line i (py_str summary))
      in a\<lparr>a_status := status,
           a_output_snippet := Some (take (if jt = ''os_patch'' then 16000 else 2000) text),
           a_finished_at := Some (e_now e),
           a_client_ip := (if text_of (a_client_ip a) = [] \<and> truthy jip
             then resolve_client_ip e JNull (JStr (take 64 (py_str jip))) else a_client_ip a),
           a_details := (if jt = ''os_patch'' \<and> truthy summary then line
             else if terminal_status status \<and> truthy summary \<and> replaceable_text (a_details a) then line
             else a_details a)\<rparr>)"

definition finish_fields :: "string \<Rightarrow> snippet \<Rightarrow> json \<Rightarrow> dict" where
  "finish_fields status sn summary =
     [(''current'', if terminal_status status then JNull else JStr status),
      (''status'', JStr status), (''summary'', summary),
      (''result_snippet'', JStr (take 1500 (snip_text sn))),
      (''log_line'', JStr (''['' @ status @ ''] '' @ py_str summary)), (''done'', JBool True)]
     @ (case snip_data sn of
          Some (JObj o') \<Rightarrow>
            (if truthy (dget0 o' ''redirect_url'')
             then [(''redirect_url'', JStr (take 400 (py_str (dget0 o' ''redirect_url''))))] else [])
            @ (if dget0 o' ''deployment_id'' \<noteq> JNull
               then [(''deployment_id'', dget0 o' ''deployment_id'')] else [])
        | _ \<Rightarrow> [])"

text \<open>A row that is terminal and has its end keeps everything.\<close>

definition finish_job_row :: "env \<Rightarrow> string \<Rightarrow> snippet \<Rightarrow> json \<Rightarrow> job \<Rightarrow> exc + job" where
  "finish_job_row e status sn summary j =
     (if terminal_status (j_status j) \<and> j_finished_at j \<noteq> None then Inr j
      else merge_job_details (finish_fields status sn summary)
             (j\<lparr>j_status := status, j_finished_at := Some (e_now e)\<rparr>))"

text \<open>Writing back what \<open>_finish\<close> changes of a row.\<close>

definition put_row :: "job \<Rightarrow> job \<Rightarrow> job" where
  "put_row j' r = r\<lparr>j_status := j_status j', j_finished_at := j_finished_at j', j_details := j_details j'\<rparr>"

text \<open>The notices after the commit; the integration tables are outside the model.\<close>

definition finish_notices :: "string \<Rightarrow> int option \<Rightarrow> string \<Rightarrow> string \<Rightarrow> string \<Rightarrow> db \<Rightarrow> db" where
  "finish_notices jt sid status text hostname d =
     (let d1 = (if jt = ''backup'' \<and> sid \<noteq> None then
            (let name = (case get_server d (the sid) of Some s \<Rightarrow> s_name s | None \<Rightarrow> hostname) in
             if status = ''failed'' then
               emit (NotifiedBackupFailed (the sid) (if name \<noteq> [] then name else int_str (the sid)) (take 300 text)) d
             else if status = ''success'' then
               emit (ResolvedScheduleMissed (the sid)) (emit (ResolvedBackupFailed (the sid)) d)
             else d) else d);
          d2 = (if jt = ''container_update_check'' \<and> sid \<noteq> None \<and> status = ''success''
                then emit (ResolvedContainerMissed (the sid)) d1 else d1);
          d3 = (if jt = ''host_facts'' \<and> (status = ''failed'' \<or> status = ''cancelled'')
                then release_host_facts_refresh sid d2 else d2)
      in if hostname \<noteq> [] \<and> jt \<noteq> [] then emit (WebhookSent hostname jt status (take 400 text)) d3 else d3)"

text \<open>\<open>_finish\<close>. A missing audit or job row is skipped.\<close>

definition finish :: "env \<Rightarrow> int \<Rightarrow> int \<Rightarrow> string \<Rightarrow> snippet \<Rightarrow> string \<Rightarrow> string \<Rightarrow> db \<Rightarrow> exc + db" where
  "finish e audit_id i status sn hostname job_type d =
     (let jo = get_job d i;
          jt = (if job_type \<noteq> [] then job_type else case jo of Some j \<Rightarrow> j_job_type j | None \<Rightarrow> []);
          sid = (case jo of Some j \<Rightarrow> if nonzero (j_server_id j) then j_server_id j else None | None \<Rightarrow> None)
      in case jo of
        Some j \<Rightarrow>
          if j_status j = ''cancelled'' then
            (let d1 = upd_audit audit_id (finish_cancelled_audit e i) d
             in Inr (if j_job_type j = ''host_facts'' then release_host_facts_refresh (j_server_id j) d1 else d1))
          else rbind (human_job_summary jt status sn) (\<lambda>summary.
            rbind (finish_job_row e status sn summary j) (\<lambda>j'.
              Inr (finish_notices jt sid status (snip_text sn) hostname
                (upd_job i (put_row j') (upd_audit audit_id
                   (finish_audit e i jt status (snip_text sn) summary (Some j)) d)))))
      | None \<Rightarrow> rbind (human_job_summary jt status sn) (\<lambda>summary.
          Inr (finish_notices jt sid status (snip_text sn) hostname
            (upd_audit audit_id (finish_audit e i jt status (snip_text sn) summary None) d))))"

section \<open>Details stay usable\<close>

definition kv_ok :: "string \<times> json \<Rightarrow> bool" where
  "kv_ok kv = (fst kv = ''log_lines'' \<longrightarrow> (\<exists>xs. snd kv = JList xs))"

lemma merge_field_ok:
  assumes "det_ok (Text (JObj data))" and "kv_ok kv"
  shows "\<exists>data'. merge_field kv data = Inr data' \<and> det_ok (Text (JObj data'))"
proof -
  obtain k v where kv: "kv = (k, v)" by (cases kv)
  have log: "\<exists>xs. py_list (jor (dget0 data ''log_lines'') (JList [])) = Some xs"
    using assms(1) log_ok_list [of "Text (JObj data)"] by (simp add: det_ok_def)
  have keep: "det_ok (Text (JObj (dset k' v' data)))" if "k' \<noteq> ''log_lines''" for k' v'
    using assms(1) that by (simp add: det_ok_def log_ok_def)
  have setl: "det_ok (Text (JObj (dset ''log_lines'' (JList xs) data)))" for xs
    by (rule det_okI) (simp add: dget0_dset)
  show ?thesis
    using log assms(2) keep setl
    by (auto simp: kv merge_field_def kv_ok_def py_list_def)
qed

lemma rfold_merge_ok:
  "det_ok (Text (JObj data)) \<Longrightarrow> list_all kv_ok kvs \<Longrightarrow>
     \<exists>data'. rfold merge_field kvs data = Inr data' \<and> det_ok (Text (JObj data'))"
proof (induction kvs arbitrary: data)
  case (Cons kv kvs)
  then obtain d1 where "merge_field kv data = Inr d1" "det_ok (Text (JObj d1))"
    using merge_field_ok [of data kv] by auto
  with Cons show ?case by simp
qed simp

lemma det_ok_load: "det_ok c \<Longrightarrow> det_ok (Text (JObj (load_dict c)))"
  by (auto simp: det_ok_def log_ok_def load_dict_def loads_def dget_def split: column.splits)

lemma merge_job_details_ok:
  assumes "det_ok (j_details j)" and "list_all kv_ok kvs"
  shows "\<exists>j'. merge_job_details kvs j = Inr j' \<and> det_ok (j_details j')"
  using rfold_merge_ok [OF det_ok_load [OF assms(1)] assms(2)]
  by (auto simp: merge_job_details_def merge_details_def)

text \<open>A field that is not a log line holds its value after the merge.\<close>

lemma merge_field_other: "merge_field (k, v) data = Inr data' \<Longrightarrow> k' \<noteq> k \<Longrightarrow> k' \<noteq> ''log_lines'' \<Longrightarrow>
    dget data' k' = dget data k'"
  by (auto simp: merge_field_def split: if_splits option.splits)

lemma merge_field_same: "merge_field (k, v) data = Inr data' \<Longrightarrow> k \<noteq> ''log_line'' \<Longrightarrow> k \<noteq> ''log_lines'' \<Longrightarrow>
    dget data' k = Some v"
  by (auto simp: merge_field_def split: if_splits)

lemma rfold_merge_other:
  "rfold merge_field kvs data = Inr data' \<Longrightarrow> k \<notin> fst ` set kvs \<Longrightarrow> k \<noteq> ''log_lines'' \<Longrightarrow>
     dget data' k = dget data k"
proof (induction kvs arbitrary: data)
  case (Cons kv kvs)
  then obtain d1 where d1: "merge_field kv data = Inr d1" "rfold merge_field kvs d1 = Inr data'"
    by (auto elim: rbind_InrE)
  with Cons have "dget data' k = dget d1 k" by simp
  moreover have "dget d1 k = dget data k"
    using d1(1) Cons.prems(2,3) by (cases kv) (auto simp: merge_field_other)
  ultimately show ?case by simp
qed simp

lemma rfold_merge_value:
  assumes "rfold merge_field kvs data = Inr data'" and "(k, v) \<in> set kvs" and "distinct (map fst kvs)"
    and "k \<noteq> ''log_line''" and "k \<noteq> ''log_lines''"
  shows "dget data' k = Some v"
  using assms(1-3)
proof (induction kvs arbitrary: data)
  case (Cons kv kvs)
  then obtain d1 where d1: "merge_field kv data = Inr d1" "rfold merge_field kvs d1 = Inr data'"
    by (auto elim: rbind_InrE)
  show ?case
  proof (cases "(k, v) = kv")
    case True
    have "k \<notin> fst ` set kvs" using Cons.prems(3) True [symmetric] by simp
    then have "dget data' k = dget d1 k" using d1 assms(5) by (simp add: rfold_merge_other)
    with d1 True assms(4,5) show ?thesis by (auto dest: merge_field_same)
  next
    case False
    with Cons.prems have "(k, v) \<in> set kvs" "distinct (map fst kvs)" by auto
    with Cons.IH d1 show ?thesis by blast
  qed
qed simp

section \<open>Facts about completion\<close>

lemma put_row_frame [simp]:
  "j_id (put_row j' r) = j_id r" "job_key (put_row j' r) = job_key r"
  "j_status (put_row j' r) = j_status j'" "j_details (put_row j' r) = j_details j'"
  "j_finished_at (put_row j' r) = j_finished_at j'"
  by (simp_all add: put_row_def job_key_def)

lemma finish_notices_frame [simp]:
  "db_jobs (finish_notices jt sid st t h d) = db_jobs d"
  "db_audits (finish_notices jt sid st t h d) = db_audits d"
  "get_job (finish_notices jt sid st t h d) k = get_job d k"
  by (auto simp: finish_notices_def Let_def emit_def get_job_def release_host_facts_refresh_def
      upd_server_def split: option.splits)

lemma finish_job_row_status:
  "finish_job_row e st sn sm j = Inr j' \<Longrightarrow> j_id j' = j_id j \<and> j_server_id j' = j_server_id j
     \<and> j_job_type j' = j_job_type j
     \<and> (j' = j \<and> terminal_status (j_status j) \<or> j_status j' = st)"
  by (auto simp: finish_job_row_def dest!: merge_job_details_frame split: if_splits)

text \<open>The row a completion leaves, by the state it finds.\<close>

lemma finish_cases:
  assumes "finish e aid i st sn h jt d = Inr d'"
  obtains (missing) "get_job d i = None" and "db_jobs d' = db_jobs d"
  | (cancelled) j where "get_job d i = Some j" and "j_status j = ''cancelled''" and "db_jobs d' = db_jobs d"
  | (written) j j' sm where "get_job d i = Some j" and "j_status j \<noteq> ''cancelled''"
      and "finish_job_row e st sn sm j = Inr j'" and "db_jobs d' = db_jobs (upd_job i (put_row j') d)"
  using assms
  by (auto simp: finish_def Let_def upd_audit_def upd_job_def split: option.splits if_splits
      elim!: rbind_InrE)

lemma upd_job_at:
  assumes "\<And>r. j_id (f r) = j_id r" and "db_jobs d' = db_jobs (upd_job i f d)"
  shows "get_job d' k = (if k = i then map_option f (get_job d i) else get_job d k)"
  unfolding get_job_cong [OF assms(2)] using assms(1)
  by (cases "k = i") (simp_all add: get_job_upd_same get_job_upd_other)

lemma calm_cong: "db_jobs d1 = db_jobs d2 \<Longrightarrow> db_next_job d1 = db_next_job d2 \<Longrightarrow> calm d d1 = calm d d2"
  by (simp add: calm_def active_keys_def)

lemma next_job_frame [simp]:
  "db_next_job (upd_audit a g d) = db_next_job d"
  "db_next_job (upd_job i f d) = db_next_job d"
  "db_next_job (emit x d) = db_next_job d"
  "db_next_job (release_host_facts_refresh sid d) = db_next_job d"
  by (simp_all add: upd_audit_def upd_job_def emit_def release_host_facts_refresh_def upd_server_def
      split: option.splits)

lemma finish_notices_next_job [simp]: "db_next_job (finish_notices jt sid st t h d) = db_next_job d"
  by (simp add: finish_notices_def Let_def)

lemma finish_next_job: "finish e aid i st sn h jt d = Inr d' \<Longrightarrow> db_next_job d' = db_next_job d"
  unfolding finish_def Let_def
  by (auto split: option.splits if_split_asm elim!: rbind_InrE)

lemma finish_calm:
  assumes "finish e aid i st sn h jt d = Inr d'" and "\<not> active_status st" and "wf_ids d"
  shows "calm d d'"
  using assms(1)
proof (cases rule: finish_cases)
  case missing
  then show ?thesis
    using finish_next_job [OF assms(1)] by (simp add: calm_def active_keys_def)
next
  case (cancelled j)
  then show ?thesis
    using finish_next_job [OF assms(1)] by (simp add: calm_def active_keys_def)
next
  case (written j j' sm)
  have "\<not> active (put_row j' r)" for r
    using finish_job_row_status [OF written(3)] assms(2) terminal_not_active
    by (auto simp: active_def)
  then have "calm d (upd_job i (put_row j') d)"
    by (intro calm_upd_job' ) (simp add: calm_upd_def)
  with written(4) finish_next_job [OF assms(1)] show ?thesis
    by (simp add: calm_cong [of d' "upd_job i (put_row j') d"] upd_job_def)
qed

text \<open>Plain results never raise: the completion of a usable row always commits.\<close>

lemma finish_fields_ok: "list_all kv_ok (finish_fields st sn sm)"
  by (auto simp: finish_fields_def kv_ok_def split: option.splits json.splits)

lemma finish_job_row_ok:
  "det_ok (j_details j) \<Longrightarrow> \<exists>j'. finish_job_row e st sn sm j = Inr j' \<and> det_ok (j_details j')"
  using merge_job_details_ok [OF _ finish_fields_ok,
      of "j\<lparr>j_status := st, j_finished_at := Some (e_now e)\<rparr>" st sn sm]
  by (auto simp: finish_job_row_def)

lemma finish_plain_ok:
  assumes "db_ok d"
  shows "\<exists>d'. finish e aid i st (Plain t) h jt d = Inr d' \<and> db_ok d'"
proof -
  have jt_ok: "\<exists>s. human_job_summary jt' st (Plain t) = Inr s" for jt'
    using human_summary_plain by blast
  show ?thesis
  proof (cases "get_job d i")
    case None
    then obtain d' where fin: "finish e aid i st (Plain t) h jt d = Inr d'"
      using jt_ok [of jt] jt_ok [of "[]"] by (cases "jt = []") (auto simp: finish_def Let_def)
    then have "db_jobs d' = db_jobs d" using None by (auto elim: finish_cases)
    with fin assms show ?thesis by (auto simp: db_ok_def)
  next
    case (Some j)
    show ?thesis
    proof (cases "j_status j = ''cancelled''")
      case True
      then obtain d' where fin: "finish e aid i st (Plain t) h jt d = Inr d'"
        using Some by (auto simp: finish_def Let_def)
      then have "db_jobs d' = db_jobs d" using Some True by (auto elim: finish_cases)
      with fin assms show ?thesis by (auto simp: db_ok_def)
    next
      case False
      have ok: "det_ok (j_details j)" using assms Some by (rule det_ok_get)
      obtain s1 where s1: "human_job_summary (if jt \<noteq> [] then jt else j_job_type j) st (Plain t) = Inr s1"
        using jt_ok by blast
      obtain j1 where j1: "finish_job_row e st (Plain t) s1 j = Inr j1" "det_ok (j_details j1)"
        using finish_job_row_ok [OF ok] by blast
      obtain d' where fin: "finish e aid i st (Plain t) h jt d = Inr d'"
        and jobs: "db_jobs d' = db_jobs (upd_job i (put_row j1) d)"
        using Some False s1 j1
        by (auto simp: finish_def Let_def upd_audit_def upd_job_def split: if_splits)
      then have "db_ok (upd_job i (put_row j1) d)" using assms j1 by (auto intro: db_ok_upd)
      with fin jobs db_ok_cong show ?thesis by blast
    qed
  qed
qed

section \<open>Facts about new rows and progress\<close>

text \<open>Whatever the audit text does, exactly one active key is added.\<close>

lemma create_queued_adds:
  assumes "create_queued_job_with_audit e sid jt q og txt extra d = (d', r)"
  shows "db_jobs d' = db_jobs (add_job e sid jt (queued_details e q og extra) d)"
    and "db_next_job d' = db_next_job d + 1"
    and "active_keys d' = active_keys d @ [(db_next_job d, sid, jt)]"
    and "db_servers d' = db_servers d"
    and "wf_ids d \<Longrightarrow> wf_ids d'"
    and "r = Inl FormatError \<or> r = Inr (db_next_job d, db_next_audit d)"
proof -
  let ?d1 = "add_job e sid jt (queued_details e q og extra) d"
  have d': "d' = ?d1 \<or> (\<exists>mk. d' = add_audit mk ?d1)"
    using assms by (auto simp: create_queued_job_with_audit_def Let_def split: option.splits)
  show jobs: "db_jobs d' = db_jobs ?d1" using d' by (auto simp: add_audit_def)
  show nx: "db_next_job d' = db_next_job d + 1" using d' by (auto simp: add_audit_def add_job_def)
  show "db_servers d' = db_servers d" using d' by (auto simp: add_audit_def add_job_def)
  have "active_keys d' = active_keys ?d1" using jobs by (simp add: active_keys_def)
  then show "active_keys d' = active_keys d @ [(db_next_job d, sid, jt)]"
    by (simp add: active_keys_add_job)
  have "db_next_job ?d1 = db_next_job d + 1" by (simp add: add_job_def)
  then show "wf_ids d'" if "wf_ids d"
    using wf_ids_add_job [OF that, of e sid jt "queued_details e q og extra"] jobs nx
    by (simp add: wf_ids_def)
  show "r = Inl FormatError \<or> r = Inr (db_next_job d, db_next_audit d)"
    using assms by (auto simp: create_queued_job_with_audit_def Let_def split: option.splits)
qed

lemma flush_calm [simp, intro]: "calm d (flush_job_progress i c l dc ex d)"
proof -
  have "calm d (upd_job i (\<lambda>r. r\<lparr>j_details := x\<rparr>) d)" for x
    by (rule calm_upd_job') (simp add: calm_upd_def job_key_def active_def)
  then show ?thesis by (auto simp: flush_job_progress_def split: option.splits sum.splits)
qed

text \<open>A flush never changes a status, and leaves a job that is not active alone.\<close>

lemma flush_status:
  "map_option j_status (get_job (flush_job_progress i c l dc ex d) k) = map_option j_status (get_job d k)"
proof -
  have "map_option j_status (get_job (upd_job i (\<lambda>r. r\<lparr>j_details := x\<rparr>) d) k) = map_option j_status (get_job d k)" for x
    by (cases "k = i") (simp_all add: get_job_upd_same get_job_upd_other option.map_comp comp_def)
  then show ?thesis by (auto simp: flush_job_progress_def split: option.splits sum.splits)
qed

lemma flush_inactive: "get_job d i = Some j \<Longrightarrow> \<not> active j \<Longrightarrow> flush_job_progress i c l dc ex d = d"
  by (simp add: flush_job_progress_def)

end
