(* ===== verification/JobGuards.thy ===== *)
theory JobGuards
  imports JobFinish
begin

text \<open>
  The questions the enqueue functions ask of the queue before they add a row
  (\<open>app/services/jobs/service.py\<close>): is a job of this type active on the host, does a reboot
  stand in the way, is the host's stack lane taken, is a Move writing to it. Also the
  normalisation of their arguments.
\<close>

section \<open>Arguments\<close>

definition container_service_target :: "string option \<Rightarrow> string option \<Rightarrow> exc + string \<times> string" where
  "container_service_target source_filter service =
     (let path = stripped source_filter; svc = stripped service in
      if path = [] \<or> svc = [] then
        Inl (ValueError ''container start and stop need a compose directory and a service name'')
      else Inr (path, svc))"

definition OS_STEP_ORDER :: "string list" where
  "OS_STEP_ORDER = [''update'', ''upgrade'', ''full-upgrade'', ''autoremove'']"

definition default_os_steps :: "string list" where
  "default_os_steps = [''update'', ''upgrade'', ''autoremove'']"

definition normalize_os_patch_steps :: "string list option \<Rightarrow> string list" where
  "normalize_os_patch_steps selected = (case selected of
     None \<Rightarrow> default_os_steps
   | Some steps \<Rightarrow>
       (let chosen = filter (\<lambda>s. s \<in> set OS_STEP_ORDER) steps;
            chosen = (if ''upgrade'' \<in> set chosen \<and> ''full-upgrade'' \<in> set chosen
              then filter (\<lambda>s. s \<noteq> ''full-upgrade'') chosen else chosen)
        in filter (\<lambda>s. s \<in> set chosen) OS_STEP_ORDER))"

text \<open>The text of a column; a JSON value is written the way \<open>json.dumps\<close> does.\<close>

definition column_text :: "column \<Rightarrow> string" where
  "column_text c = (case c of Absent \<Rightarrow> [] | Text j \<Rightarrow> dumps j | Garbled s \<Rightarrow> s)"

definition parse_os_apply_steps :: "column \<Rightarrow> string list" where
  "parse_os_apply_steps raw =
     (if strip (column_text raw) = [] then default_os_steps
      else let steps = (case raw of
          Text (JList xs) \<Rightarrow> normalize_os_patch_steps (Some (map py_str xs))
        | _ \<Rightarrow> normalize_os_patch_steps (Some (filter (\<lambda>p. p \<noteq> [])
                 (map strip (split_on CHR '','' (column_text raw))))))
      in if steps \<noteq> [] then steps else default_os_steps)"

definition basename :: "string \<Rightarrow> string" where
  "basename p = rev (takeWhile (\<lambda>c. c \<noteq> CHR ''/'') (rev p))"

definition project_basename :: "string \<Rightarrow> string" where
  "project_basename path =
     (let b = basename (rstrip_chars (\<lambda>c. c = CHR ''/'') path) in
      if b \<noteq> [] then b else if path \<noteq> [] then path else ''project'')"

lemma normalize_os_patch_steps_values:
  "normalize_os_patch_steps (Some s) =
     (if ''update'' \<in> set s then [''update''] else [])
     @ (if ''upgrade'' \<in> set s then [''upgrade'']
        else if ''full-upgrade'' \<in> set s then [''full-upgrade''] else [])
     @ (if ''autoremove'' \<in> set s then [''autoremove''] else [])"
  by (simp add: normalize_os_patch_steps_def OS_STEP_ORDER_def Let_def)

lemma normalize_os_patch_steps_idem:
  "normalize_os_patch_steps (Some (normalize_os_patch_steps s)) = normalize_os_patch_steps s"
proof (cases s)
  case None
  then show ?thesis
    by (simp add: normalize_os_patch_steps_values) (simp add: normalize_os_patch_steps_def default_os_steps_def)
next
  case (Some steps)
  then show ?thesis by (simp add: normalize_os_patch_steps_values)
qed

lemma normalize_os_patch_steps_safe:
  "set (normalize_os_patch_steps s) \<subseteq> set OS_STEP_ORDER \<and> distinct (normalize_os_patch_steps s)
   \<and> \<not> (''upgrade'' \<in> set (normalize_os_patch_steps s) \<and> ''full-upgrade'' \<in> set (normalize_os_patch_steps s))"
proof (cases s)
  case None
  then show ?thesis
    by (simp add: normalize_os_patch_steps_def default_os_steps_def OS_STEP_ORDER_def)
next
  case (Some steps)
  then show ?thesis by (simp add: normalize_os_patch_steps_values OS_STEP_ORDER_def)
qed

section \<open>Active jobs of a host\<close>

definition active_on :: "int \<Rightarrow> string \<Rightarrow> job \<Rightarrow> bool" where
  "active_on sid jt j = (j_server_id j = Some sid \<and> j_job_type j = jt \<and> active j)"

definition first_row :: "job list \<Rightarrow> job option" where
  "first_row rows = (case rows of [] \<Rightarrow> None | j # _ \<Rightarrow> Some j)"

definition active_job_of_type :: "db \<Rightarrow> int \<Rightarrow> string \<Rightarrow> job option" where
  "active_job_of_type d sid jt =
     first_row (sort_key (\<lambda>j. - j_created_at j) (filter (active_on sid jt) (db_jobs d)))"

definition other_active_job :: "db \<Rightarrow> int \<Rightarrow> string \<Rightarrow> int \<Rightarrow> job option" where
  "other_active_job d sid jt i =
     first_row (filter (\<lambda>j. active_on sid jt j \<and> j_id j \<noteq> i) (db_jobs d))"

fun first_active_type :: "db \<Rightarrow> int \<Rightarrow> string list \<Rightarrow> job option" where
  "first_active_type d sid [] = None"
| "first_active_type d sid (jt # jts) =
     (case active_job_of_type d sid jt of Some j \<Rightarrow> Some j | None \<Rightarrow> first_active_type d sid jts)"

definition REBOOT_EXCLUDES :: "string list" where
  "REBOOT_EXCLUDES = [''os_patch'', ''container_patch'', ''backup'']"

definition reboot_lane_blocker :: "db \<Rightarrow> int \<Rightarrow> string \<Rightarrow> job option" where
  "reboot_lane_blocker d sid jt =
     (if jt = ''host_reboot'' then first_active_type d sid REBOOT_EXCLUDES
      else if jt \<in> set REBOOT_EXCLUDES then active_job_of_type d sid ''host_reboot''
      else None)"

definition active_stack_mutating_job :: "db \<Rightarrow> int \<Rightarrow> job option" where
  "active_stack_mutating_job d sid = first_active_type d sid STACK_MUTATING_JOB_TYPES"

definition MOVE_TYPES :: "string list" where
  "MOVE_TYPES = [''service_migrate'', ''service_migrate_undo'', ''service_migrate_dest_recover'']"

text \<open>A Move's row carries its source host; the destination is in the details.\<close>

definition move_dest :: "job \<Rightarrow> int option" where
  "move_dest j = py_int (dget0 (load_dict (j_details j)) ''dest_server_id'')"

definition active_migrate_as_dest :: "db \<Rightarrow> int \<Rightarrow> job option" where
  "active_migrate_as_dest d sid = find (\<lambda>j. move_dest j = Some sid)
     (filter (\<lambda>j. j_job_type j \<in> set MOVE_TYPES \<and> active j \<and> j_server_id j \<noteq> None
        \<and> j_server_id j \<noteq> Some sid) (db_jobs d))"

fun find_stack_job :: "string \<Rightarrow> job list \<Rightarrow> exc + job option" where
  "find_stack_job want [] = Inr None"
| "find_stack_job want (j # js) =
     (if want = [] then Inr (Some j)
      else case (case loads (j_details j) of None \<Rightarrow> JObj [] | Some v \<Rightarrow> v) of
        JObj data \<Rightarrow>
          (case jor (jor (dget0 data ''project_path'') (dget0 data ''source_filter'')) (JStr []) of
             JStr p \<Rightarrow> if strip p = want \<or> project_basename (strip p) = project_basename want
                       then Inr (Some j) else find_stack_job want js
           | JStamp t \<Rightarrow> if isoformat t = want \<or> project_basename (isoformat t) = project_basename want
                       then Inr (Some j) else find_stack_job want js
           | _ \<Rightarrow> Inl AttributeError)
      | _ \<Rightarrow> Inl AttributeError)"

definition active_docker_stack_job :: "db \<Rightarrow> int \<Rightarrow> string \<Rightarrow> string \<Rightarrow> exc + job option" where
  "active_docker_stack_job d sid jt path =
     find_stack_job (strip path)
       (sort_key (\<lambda>j. - j_created_at j) (filter (active_on sid jt) (db_jobs d)))"

lemma first_row_None [simp]: "first_row rows = None \<longleftrightarrow> rows = []"
  by (cases rows) (simp_all add: first_row_def)

lemma first_row_in: "first_row rows = Some j \<Longrightarrow> j \<in> set rows"
  by (cases rows) (simp_all add: first_row_def)

lemma active_job_of_type_None:
  "active_job_of_type d sid jt = None \<longleftrightarrow> (\<forall>k\<in>set (active_keys d). snd k \<noteq> (Some sid, jt))"
proof -
  have "active_job_of_type d sid jt = None \<longleftrightarrow> (\<forall>j\<in>set (db_jobs d). \<not> active_on sid jt j)"
    by (simp add: active_job_of_type_def filter_empty_conv Ball_def flip: set_empty)
  also have "\<dots> \<longleftrightarrow> (\<forall>k\<in>set (active_keys d). snd k \<noteq> (Some sid, jt))"
    by (auto simp: active_keys_def job_key_def active_on_def)
  finally show ?thesis .
qed

lemma active_job_of_type_Some:
  "active_job_of_type d sid jt = Some j \<Longrightarrow> j \<in> set (db_jobs d) \<and> active_on sid jt j"
  by (auto simp: active_job_of_type_def dest: first_row_in)

lemma first_active_type_None:
  "first_active_type d sid jts = None \<longleftrightarrow>
     (\<forall>jt\<in>set jts. \<forall>k\<in>set (active_keys d). snd k \<noteq> (Some sid, jt))"
proof (induction jts)
  case (Cons jt jts)
  then show ?case
    using active_job_of_type_None [of d sid jt] by (cases "active_job_of_type d sid jt") auto
qed simp

lemma first_active_type_Some:
  "first_active_type d sid jts = Some j \<Longrightarrow> j \<in> set (db_jobs d) \<and> (\<exists>jt\<in>set jts. active_on sid jt j)"
  by (induction jts) (auto split: option.splits dest: active_job_of_type_Some)

end
