(* ===== verification/ExclusiveJobs.thy ===== *)
theory ExclusiveJobs
  imports JobGuards
begin

text \<open>
  Exclusive host jobs on the Celery queue (\<open>app/services/jobs_exclusive.py\<close>): handing a job
  to Celery, the task body \<open>run_exclusive_job\<close> with its redelivery and cancel checks, the
  bounded wait for SSH, and the dispatch to an executor. The executors' own SSH work is a
  parameter (\<open>body\<close>): it gets the call the dispatch chose and answers with the tables it
  leaves and the text of its exception, if it raised one.
\<close>

section \<open>The wait for SSH\<close>

definition DEFAULT_HOST_WAIT_SEC :: int where "DEFAULT_HOST_WAIT_SEC = 1800"
definition HOST_WAIT_COUNTDOWN_SEC :: int where "HOST_WAIT_COUNTDOWN_SEC = 30"
definition HOST_WAIT_FLOOR_SEC :: int where "HOST_WAIT_FLOOR_SEC = 30"
definition HOST_WAIT_CEILING_SEC :: int where "HOST_WAIT_CEILING_SEC = 24 * 60 * 60"
definition LAST_SEEN_SIGNAL_SEC :: int where "LAST_SEEN_SIGNAL_SEC = 15 * 60"

definition host_wait_env_locked :: "env \<Rightarrow> bool" where
  "host_wait_env_locked e = (strip (e_host_wait_env e) \<noteq> [])"

definition clamp_host_wait_sec :: "json \<Rightarrow> int" where
  "clamp_host_wait_sec raw = (let n = (case py_int raw of Some n \<Rightarrow> n | None \<Rightarrow> DEFAULT_HOST_WAIT_SEC)
     in max HOST_WAIT_FLOOR_SEC (min n HOST_WAIT_CEILING_SEC))"

text \<open>The environment locks the value, else the stored setting, else the default of 1800.\<close>

definition host_wait_limit_sec :: "env \<Rightarrow> int" where
  "host_wait_limit_sec e =
     (if host_wait_env_locked e then clamp_host_wait_sec (JStr (e_host_wait_env e))
      else clamp_host_wait_sec (case e_host_wait_setting e of Some v \<Rightarrow> v | None \<Rightarrow> JInt 1800))"

definition host_down_signal :: "env \<Rightarrow> db \<Rightarrow> server option \<Rightarrow> string option" where
  "host_down_signal e d so = (case so of None \<Rightarrow> None
     | Some s \<Rightarrow>
         if s_id s = 0 then None
         else if s_id s \<in> set (db_ssh_down d) then Some ''kuma''
         else if s_id s \<in> set (db_host_down d) then Some ''kuma''
         else (case s_last_seen s of
             None \<Rightarrow> None
           | Some t \<Rightarrow> if e_now e - t \<ge> seconds LAST_SEEN_SIGNAL_SEC then Some ''last_seen'' else None))"

definition host_wait_display :: "env \<Rightarrow> db \<Rightarrow> job \<Rightarrow> dict \<Rightarrow> (string \<times> string) option" where
  "host_wait_display e d j details =
     (if j_status j \<noteq> ''pending'' then None
      else if j_job_type j \<notin> set EXCLUSIVE_CELERY_TYPES then None
      else if dget0 details ''current'' = JStr ''waiting_for_host'' then Some (''waiting on host'', ''ssh'')
      else if \<not> nonzero (j_server_id j) then None
      else map_option (\<lambda>kind. (''waiting on host'', kind))
             (host_down_signal e d (get_server d (the (j_server_id j)))))"

section \<open>Enqueueing\<close>

definition redact_secret :: "string \<Rightarrow> string \<Rightarrow> string" where
  "redact_secret text secret = (if secret = [] \<or> text = [] then text else replace_all text secret [])"

definition redact_bootstrap_text :: "env \<Rightarrow> string \<Rightarrow> dict \<Rightarrow> string" where
  "redact_bootstrap_text e text payload =
     (let enc = py_str (jor (dget0 payload ''sudo_password_encrypted'') (JStr []));
          plain = (if enc = [] then [] else case e_decrypt e enc of Some p \<Rightarrow> p | None \<Rightarrow> []);
          cleaned = redact_secret text plain
      in if enc \<noteq> [] \<and> cleaned \<noteq> [] then replace_all cleaned enc [] else cleaned)"

definition fail_enqueue :: "env \<Rightarrow> int \<Rightarrow> string \<Rightarrow> db \<Rightarrow> exc + db" where
  "fail_enqueue e i message d = (case get_job d i of
     None \<Rightarrow> Inr d
   | Some j \<Rightarrow> if \<not> active j then Inr d
       else rbind (mark_job_terminal e i message ''failed'' False d) (\<lambda>d1.
         Inr (finish_running_audit_for_job e (Some j) ''failed'' message d1)))"

definition set_task_id :: "string \<Rightarrow> job \<Rightarrow> job" where
  "set_task_id t j = j\<lparr>j_celery_task_id := Some t\<rparr>"

definition no_worker_message :: string where
  "no_worker_message = ''Celery worker required. Start the celery-worker container''"

definition enqueue_celery :: "env \<Rightarrow> int \<Rightarrow> string \<Rightarrow> dict \<Rightarrow> db \<Rightarrow> db \<times> (exc + unit)" where
  "enqueue_celery e i jt payload d =
     (if \<not> e_has_celery e then
        andthen (commit d (fail_enqueue e i no_worker_message d))
          (\<lambda>d1 _. (d1, Inl (RuntimeError no_worker_message)))
      else case e_publish e of
        Inl err \<Rightarrow>
          (let raw = ''Failed to enqueue '' @ jt @ '' to Celery: '' @ err;
               msg = (if jt = ''host_bootstrap'' then redact_bootstrap_text e raw payload else raw)
           in andthen (commit d (fail_enqueue e i msg d)) (\<lambda>d1 _. (d1, Inl (RuntimeError msg))))
      | Inr tid \<Rightarrow> (upd_job i (set_task_id tid) (emit (Published jt i (JObj payload)) d), Inr ()))"

text \<open>Demo mode finishes a pending row as a simulation and only starts a running one.\<close>

definition simulate :: "env \<Rightarrow> int \<Rightarrow> db \<Rightarrow> db \<times> (exc + unit)" where
  "simulate e i d = (case get_job d i of
     None \<Rightarrow> (d, Inr ())
   | Some j \<Rightarrow>
       if j_status j = ''running'' then (start_demo_job e i d, Inr ())
       else if j_status j = ''pending'' then
         finish_demo_job e i \<lparr>o_user_id = None, o_api_token_id = None, o_api_token_name = None\<rparr> JNull
           (start_demo_job e i d)
       else (d, Inr ()))"

text \<open>\<open>runner\<close>: the caller gave an in-process runner (tests and the debug hatch only).\<close>

definition handoff_exclusive :: "env \<Rightarrow> int \<Rightarrow> string \<Rightarrow> dict \<Rightarrow> bool \<Rightarrow> db \<Rightarrow> db \<times> (exc + unit)" where
  "handoff_exclusive e i jt payload runner d =
     (if \<not> e_inline e then
        (if e_demo e then simulate e i d else enqueue_celery e i jt payload d)
      else if runner then (emit (RanInProcess jt i (JObj payload)) d, Inr ())
      else (d, Inl (RuntimeError (''No in-process runner for '' @ jt))))"

section \<open>Failing with a message\<close>

definition fail_message :: "env \<Rightarrow> int \<Rightarrow> int \<Rightarrow> string \<Rightarrow> string \<Rightarrow> db \<Rightarrow> exc + db" where
  "fail_message e i aid jt message d = (case get_job d i of
     None \<Rightarrow> Inr d
   | Some j \<Rightarrow> if \<not> active j then Inr d
       else let hostname = (if \<not> nonzero (j_server_id j) then []
              else case get_server d (the (j_server_id j)) of Some s \<Rightarrow> s_hostname s | None \<Rightarrow> [])
         in finish e aid i ''failed'' (Plain message) hostname jt d)"

definition redelivery_message :: string where
  "redelivery_message = ''Worker restarted while this job was running. It was not resumed.''"

definition unreachable_message :: "int \<Rightarrow> string" where
  "unreachable_message limit = ''Host stayed unreachable for '' @ int_str limit @ ''s''"

text \<open>\<open>_fail_unexpected\<close> checks the status first, as \<open>_fail_message\<close> does again.\<close>

definition fail_unexpected :: "env \<Rightarrow> int \<Rightarrow> int \<Rightarrow> string \<Rightarrow> string \<Rightarrow> db \<Rightarrow> exc + db" where
  "fail_unexpected e i aid jt message d = (case get_job d i of
     None \<Rightarrow> Inr d
   | Some j \<Rightarrow> if \<not> active j then Inr d else fail_message e i aid jt message d)"

section \<open>The task body\<close>

datatype outcome =
    Skipped "string option"
  | CancelledOut
  | FailedOut string
  | DemoOut
  | OkOut
  | ErrorOut

definition ssh_ready :: "env \<Rightarrow> int \<Rightarrow> db \<Rightarrow> bool" where
  "ssh_ready e sid d = (get_server d sid \<noteq> None \<and> e_ssh e sid)"

definition waiting_line :: "int \<Rightarrow> string" where
  "waiting_line limit = ''Host SSH unreachable'' @ emdash @ ''waiting (probe every ''
     @ int_str HOST_WAIT_COUNTDOWN_SEC @ ''s, up to '' @ int_str limit @ ''s)''"

text \<open>When the wait began: the stored stamp, or now when there is none to read.\<close>

definition wait_started :: "env \<Rightarrow> dict \<Rightarrow> int" where
  "wait_started e data = (case dget0 data ''host_wait_started'' of JStamp t \<Rightarrow> t | _ \<Rightarrow> e_now e)"

definition wait_fields :: "int \<Rightarrow> int \<Rightarrow> dict" where
  "wait_fields started limit = [(''host_wait_started'', JStamp started),
     (''current'', JStr ''waiting_for_host''), (''log_line'', JStr (waiting_line limit)),
     (''done'', JBool False)]"

definition wait_for_host :: "env \<Rightarrow> int \<Rightarrow> int \<Rightarrow> string \<Rightarrow> db \<Rightarrow> db \<times> (exc + outcome)" where
  "wait_for_host e i aid jt d =
     (let limit = host_wait_limit_sec e in
      case get_job d i of
        None \<Rightarrow> (d, Inr (Skipped None))
      | Some j \<Rightarrow>
          if \<not> active j then (d, Inr (Skipped None))
          else if j_status j = ''running'' then (d, Inr (Skipped (Some ''running'')))
          else if \<not> nonzero (j_server_id j) \<or> get_server d (the (j_server_id j)) = None then
            andthen (commit d (fail_message e i aid jt ''Server not found'' d))
              (\<lambda>d1 _. (d1, Inr (FailedOut ''no_server'')))
          else let started = wait_started e (load_dict (j_details j)) in
            if e_now e - started \<ge> seconds limit then
              andthen (commit d (fail_message e i aid jt (unreachable_message limit) d))
                (\<lambda>d1 _. (d1, Inr (FailedOut ''host_wait'')))
            else (case merge_job_details (wait_fields started limit) j of
                Inl x \<Rightarrow> (d, Inl x)
              | Inr j' \<Rightarrow> (upd_job i (\<lambda>r. r\<lparr>j_details := j_details j', j_status := ''pending''\<rparr>) d,
                          Inl (Retry HOST_WAIT_COUNTDOWN_SEC))))"

section \<open>Dispatch\<close>

text \<open>The executor \<open>_execute\<close> calls, with the arguments it takes from the payload.\<close>

datatype exec_call =
    ExecOsPatch json
  | ExecContainerPatch
  | ExecHostReboot
  | ExecOsCheck
  | ExecImageCheck
  | ExecStackCheck json
  | ExecStackDeploy json bool "json list"
  | ExecStackLifecycle json json
  | ExecStackRemove json
  | ExecTemplateDeploy json bool
  | ExecTemplateRedeploy int bool
  | ExecTemplateDrift int
  | ExecHostFacts
  | ExecDockerPrune json
  | ExecHostBootstrap dict
  | ExecContainerService json json json

definition payload_text :: "dict \<Rightarrow> string \<Rightarrow> json" where
  "payload_text p k = jor (dget0 p k) (JStr [])"

definition payload_flag :: "dict \<Rightarrow> string \<Rightarrow> bool" where
  "payload_flag p k = (case dget p k of None \<Rightarrow> True | Some v \<Rightarrow> truthy v)"

definition payload_int :: "dict \<Rightarrow> string \<Rightarrow> exc + int" where
  "payload_int p k = (case py_int (jor (dget0 p k) (JInt 0)) of Some n \<Rightarrow> Inr n | None \<Rightarrow> Inl TypeError)"

definition exec_dispatch :: "string \<Rightarrow> dict \<Rightarrow> exc + exec_call" where
  "exec_dispatch jt p =
     (if jt = ''os_patch'' then Inr (ExecOsPatch (dget0 p ''os_steps''))
      else if jt = ''container_patch'' then Inr ExecContainerPatch
      else if jt = ''host_reboot'' then Inr ExecHostReboot
      else if jt = ''os_update_check'' then Inr ExecOsCheck
      else if jt = ''container_update_check'' then Inr ExecImageCheck
      else if jt = ''docker_stack_check'' then Inr (ExecStackCheck (payload_text p ''project_path''))
      else if jt = ''docker_stack_deploy'' then
        rbind (py_items (jor (dget0 p ''compose_files'') (JList []))) (\<lambda>files.
          Inr (ExecStackDeploy (payload_text p ''project_path'') (payload_flag p ''pull'') files))
      else if jt \<in> set STACK_LIFECYCLE_JOB_TYPES then
        Inr (ExecStackLifecycle (payload_text p ''project_path'')
          (jor (dget0 p ''action'') (JStr (drop (length ''docker_stack_'') jt))))
      else if jt = ''docker_stack_remove'' then Inr (ExecStackRemove (payload_text p ''project_path''))
      else if jt = ''template_deploy'' then
        Inr (ExecTemplateDeploy (payload_text p ''template_slug'') (payload_flag p ''deploy_now''))
      else if jt = ''template_redeploy'' then
        rbind (payload_int p ''deployment_id'') (\<lambda>n. Inr (ExecTemplateRedeploy n (payload_flag p ''deploy_now'')))
      else if jt = ''template_drift_check'' then
        rbind (payload_int p ''deployment_id'') (\<lambda>n. Inr (ExecTemplateDrift n))
      else if jt = ''host_facts'' then Inr ExecHostFacts
      else if jt = ''docker_prune'' then Inr (ExecDockerPrune (payload_text p ''prune_type''))
      else if jt = ''host_bootstrap'' then Inr (ExecHostBootstrap p)
      else if jt \<in> set CONTAINER_SERVICE_JOB_TYPES then
        Inr (ExecContainerService (payload_text p ''project_path'') (payload_text p ''service'')
          (jor (dget0 p ''action'') (JStr (
            if jt = ''container_start'' then ''start'' else if jt = ''container_restart'' then ''restart''
            else if jt = ''container_redeploy'' then ''redeploy'' else ''stop''))))
      else Inl (ValueError (''not an exclusive celery job: '' @ jt)))"

text \<open>An executor gets job, host and audit id and the tables; it may end with an exception.\<close>

type_synonym body = "exec_call \<Rightarrow> int \<Rightarrow> int \<Rightarrow> int \<Rightarrow> db \<Rightarrow> db \<times> string option"

definition execute :: "body \<Rightarrow> string \<Rightarrow> int \<Rightarrow> int \<Rightarrow> int \<Rightarrow> dict \<Rightarrow> db \<Rightarrow> db \<times> (exc + unit)" where
  "execute body jt i sid aid payload d = (case exec_dispatch jt payload of
     Inl x \<Rightarrow> (d, Inl x)
   | Inr call \<Rightarrow> (case body call i sid aid d of
       (d1, None) \<Rightarrow> (d1, Inr ())
     | (d1, Some text) \<Rightarrow> (d1, Inl (RuntimeError text))))"

section \<open>The task\<close>

text \<open>The worker's name, and the task id when the row has none.\<close>

definition claim_row :: "celery_request \<Rightarrow> job \<Rightarrow> job" where
  "claim_row req j =
     (let tid = request_id req;
          j1 = (if truthy tid \<and> stripped (j_celery_task_id j) = []
                then j\<lparr>j_celery_task_id := Some (py_str tid)\<rparr> else j)
      in snd (remember_celery_worker j1 req))"

definition exclusive_work ::
    "env \<Rightarrow> body \<Rightarrow> int \<Rightarrow> int \<Rightarrow> int \<Rightarrow> string \<Rightarrow> dict \<Rightarrow> db \<Rightarrow> db \<times> (exc + outcome)" where
  "exclusive_work e body i sid aid jt payload d =
     (if e_demo e then andthen (simulate e i d) (\<lambda>d1 _. (d1, Inr DemoOut))
      else if jt = ''host_bootstrap'' \<and> other_active_job d sid ''host_bootstrap'' i \<noteq> None then
        andthen (commit d (fail_message e i aid jt HOST_BOOTSTRAP_BUSY_REASON d))
          (\<lambda>d1 _. (d1, Inr (FailedOut ''host_busy'')))
      else if jt \<noteq> ''host_bootstrap'' \<and> \<not> ssh_ready e sid d then wait_for_host e i aid jt d
      else andthen (execute body jt i sid aid payload d) (\<lambda>d1 _. (d1, Inr OkOut)))"

definition exclusive_try ::
    "env \<Rightarrow> body \<Rightarrow> celery_request \<Rightarrow> int \<Rightarrow> int \<Rightarrow> int \<Rightarrow> string \<Rightarrow> dict \<Rightarrow> db \<Rightarrow> db \<times> (exc + outcome)" where
  "exclusive_try e body req i sid aid job_type payload d = (case get_job d i of
     None \<Rightarrow> (d, Inr (Skipped None))
   | Some j \<Rightarrow>
       (let jt = (if j_job_type j \<noteq> [] then j_job_type j else job_type) in
        if jt \<notin> set EXCLUSIVE_CELERY_TYPES then (d, Inr (Skipped (Some jt)))
        else if j_status j = ''cancelled'' then (d, Inr CancelledOut)
        else if \<not> active j then (d, Inr (Skipped (Some (j_status j))))
        else let d1 = upd_job i (claim_row req) d in
          if j_status j = ''running'' then
            andthen (commit d1 (fail_message e i aid jt redelivery_message d1))
              (\<lambda>d2 _. (d2, Inr (FailedOut ''worker_restart'')))
          else exclusive_work e body i sid aid jt payload d1))"

text \<open>
  \<open>run_exclusive_job\<close>: a Celery retry passes through (or, when no retry is left, fails the
  wait), any other exception fails the job with its text.
\<close>

definition run_exclusive_job ::
    "env \<Rightarrow> body \<Rightarrow> celery_request \<Rightarrow> int \<Rightarrow> int \<Rightarrow> int \<Rightarrow> string \<Rightarrow> dict \<Rightarrow> db \<Rightarrow> db \<times> (exc + outcome)" where
  "run_exclusive_job e body req i sid aid job_type payload d =
     (case exclusive_try e body req i sid aid job_type payload d of
        (d1, Inr out) \<Rightarrow> (d1, Inr out)
      | (d1, Inl (Retry n)) \<Rightarrow>
          if e_retries_left e then (d1, Inl (Retry n))
          else andthen (commit d1 (fail_message e i aid job_type
                 (unreachable_message (host_wait_limit_sec e)) d1))
               (\<lambda>d2 _. (d2, Inr (FailedOut ''host_wait'')))
      | (d1, Inl x) \<Rightarrow>
          (let text = take 800 (exc_text e x);
               msg = (if job_type = ''host_bootstrap'' then redact_bootstrap_text e text payload else text)
           in andthen (commit d1 (fail_unexpected e i aid job_type msg d1)) (\<lambda>d2 _. (d2, Inr ErrorOut))))"

end
