(* ===== verification/ExclusiveFacts.thy ===== *)
theory ExclusiveFacts
  imports ExclusiveJobs
begin

text \<open>
  What the Celery side guarantees: no operation of \<open>ExclusiveJobs\<close> adds a job or makes a
  finished one active, the wait for SSH is bounded, a redelivered or cancelled job is not
  executed. The interface \<open>executor\<close> states what the task body relies on from the executors.
\<close>

section \<open>Calm operations\<close>

definition settled :: "db \<Rightarrow> int \<Rightarrow> bool" where
  "settled d i = (\<forall>j. get_job d i = Some j \<longrightarrow> active j \<or> terminal_status (j_status j))"

lemma start_demo_row_frame [simp]:
  "job_key (start_demo_row e j) = job_key j" "j_id (start_demo_row e j) = j_id j"
  "j_details (start_demo_row e j) = j_details j"
  by (simp_all add: start_demo_row_def Let_def job_key_def)

lemma start_demo_row_status:
  "j_status (start_demo_row e j) = (if terminal_status (j_status j) then j_status j else ''running'')"
  by (simp add: start_demo_row_def Let_def)

lemma start_demo_calm: "wf_ids d \<Longrightarrow> settled d i \<Longrightarrow> calm d (start_demo_job e i d)"
  unfolding start_demo_job_def
  by (rule calm_upd_job) (auto simp: settled_def active_def start_demo_row_status split: if_splits
      dest: terminal_not_active)

lemma start_demo_settled: "settled (start_demo_job e i d) i"
  by (auto simp: settled_def start_demo_job_def get_job_upd_same active_def start_demo_row_status)

lemma finish_demo_row_frame [simp]:
  "job_key (finish_demo_row e det j) = job_key j" "j_id (finish_demo_row e det j) = j_id j"
  "j_status (finish_demo_row e det j) = ''success''"
  by (simp_all add: finish_demo_row_def)
    (simp add: job_key_def)

lemma finish_demo_row_calm: "calm d (upd_job i (finish_demo_row e det) d)"
  by (rule calm_upd_job') (simp add: calm_upd_def active_def)

lemma finish_demo_calm:
  assumes "finish_demo_job e i og sf d = (d', r)" and "wf_ids d" and "settled d i"
  shows "calm d d'"
proof -
  let ?d = "start_demo_job e i d"
  have start: "calm d ?d" using assms(2,3) by (rule start_demo_calm)
  have row: "calm d (upd_job i (finish_demo_row e det) ?d)" for det
    using start finish_demo_row_calm by (rule calm_trans)
  have aud: "calm d (add_audit mk (upd_job i (finish_demo_row e det) ?d))" for mk det
    using row calm_others(4) by (rule calm_trans)
  show ?thesis
    using assms(1) start row aud
    by (auto simp: finish_demo_job_def Let_def split: option.splits sum.splits if_splits
        dest!: record_event_calm record_from_job_calm) (metis calm_trans row)+
qed

lemma simulate_calm:
  assumes "simulate e i d = (d', r)" and "wf_ids d" shows "calm d d'"
proof (cases "get_job d i")
  case None
  with assms show ?thesis by (auto simp: simulate_def)
next
  case (Some j)
  show ?thesis
  proof (cases "active j")
    case True
    with Some have set: "settled d i" by (simp add: settled_def)
    have 1: "calm d (start_demo_job e i d)" using assms(2) set by (rule start_demo_calm)
    have 2: "calm d x" if "finish_demo_job e i og sf (start_demo_job e i d) = (x, r')" for x og sf r'
      using calm_trans [OF 1 finish_demo_calm [OF that wf_ids_calm [OF 1 assms(2)] start_demo_settled]] .
    show ?thesis using assms(1) Some 1 2 by (auto simp: simulate_def split: if_splits)
  next
    case False
    with assms(1) Some show ?thesis
      by (auto simp: simulate_def active_def active_status_def split: if_splits)
  qed
qed

lemma fail_enqueue_calm: "fail_enqueue e i m d = Inr d' \<Longrightarrow> calm d d'"
  by (auto simp: fail_enqueue_def split: option.splits if_splits elim!: rbind_InrE
      dest!: mark_terminal_calm intro: calm_trans)

lemma set_task_id_calm: "calm d (upd_job i (set_task_id t) d)"
  by (rule calm_upd_job') (simp add: calm_upd_def set_task_id_def job_key_def active_def)

lemma commit_calm: "commit d r = (d', x) \<Longrightarrow> (\<And>d1. r = Inr d1 \<Longrightarrow> calm d d1) \<Longrightarrow> calm d d'"
  by (cases r) auto

lemma andthen_calm:
  "andthen m f = (d', r) \<Longrightarrow> calm d (fst m) \<Longrightarrow>
     (\<And>d1 v x s. m = (d1, Inr v) \<Longrightarrow> f d1 v = (x, s) \<Longrightarrow> calm d1 x) \<Longrightarrow> calm d d'"
  by (cases m; cases "snd m") (auto intro: calm_trans)

lemma enqueue_celery_calm:
  assumes "enqueue_celery e i jt p d = (d', r)" shows "calm d d'"
proof -
  have fail: "calm d (fst (commit d (fail_enqueue e i m d)))" for m
    by (cases "fail_enqueue e i m d") (auto dest: fail_enqueue_calm)
  have "calm d (upd_job i (set_task_id t) (emit x d))" for t x
    using calm_others(3) set_task_id_calm by (rule calm_trans)
  then show ?thesis
    using assms fail
    by (auto simp: enqueue_celery_def Let_def split: if_splits sum.splits
        elim!: andthen_calm)
qed

lemma handoff_calm:
  "handoff_exclusive e i jt p rn d = (d', r) \<Longrightarrow> wf_ids d \<Longrightarrow> calm d d'"
  by (auto simp: handoff_exclusive_def split: if_splits dest: simulate_calm enqueue_celery_calm)

lemma fail_message_calm: "fail_message e i aid jt m d = Inr d' \<Longrightarrow> wf_ids d \<Longrightarrow> calm d d'"
  by (auto simp: fail_message_def Let_def split: option.splits if_splits intro: finish_calm)

lemma fail_unexpected_calm: "fail_unexpected e i aid jt m d = Inr d' \<Longrightarrow> wf_ids d \<Longrightarrow> calm d d'"
  by (auto simp: fail_unexpected_def split: option.splits if_splits intro: fail_message_calm)

lemma commit_fail_calm: "wf_ids d \<Longrightarrow> calm d (fst (commit d (fail_message e i aid jt m d)))"
  by (cases "fail_message e i aid jt m d") (auto dest: fail_message_calm)

lemma wait_for_host_calm:
  assumes "wait_for_host e i aid jt d = (d', r)" and "wf_ids d" shows "calm d d'"
proof -
  have upd: "calm d (upd_job i (\<lambda>r. r\<lparr>j_details := x, j_status := ''pending''\<rparr>) d)"
    if "get_job d i = Some j" "active j" for x j
    by (rule calm_upd_job [OF _ _ assms(2)]) (use that in \<open>auto simp: job_key_def\<close>)
  show ?thesis
    using assms(1) upd commit_fail_calm [OF assms(2)]
    by (auto simp: wait_for_host_def Let_def split: option.splits if_splits sum.splits elim!: andthen_calm)
qed

lemma claim_row_frame [simp]:
  "job_key (claim_row req j) = job_key j" "j_id (claim_row req j) = j_id j"
  "j_status (claim_row req j) = j_status j" "j_details (claim_row req j) = j_details j"
  "j_server_id (claim_row req j) = j_server_id j"
  by (simp_all add: claim_row_def Let_def) (simp add: job_key_def)

lemma claim_calm: "calm d (upd_job i (claim_row req) d)"
  by (rule calm_upd_job') (simp add: calm_upd_def active_def)

section \<open>The executor interface\<close>

text \<open>
  What \<open>run_exclusive_job\<close> relies on from an executor: started on an active job, it adds
  no job and makes no finished one active.
\<close>

locale executor =
  fixes body :: body
  assumes keeps: "wf_ids d \<Longrightarrow> get_job d i = Some j \<Longrightarrow> active j \<Longrightarrow> calm d (fst (body c i sid aid d))"
begin

lemma execute_calm:
  assumes "execute body jt i sid aid p d = (d', r)" and "wf_ids d" and "get_job d i = Some j" and "active j"
  shows "calm d d'"
proof -
  have "calm d (fst (body c i sid aid d))" for c using assms(2-4) by (rule keeps)
  then show ?thesis
    using assms(1) by (auto simp: execute_def split: sum.splits prod.splits option.splits) (metis fst_conv)+
qed

lemma exclusive_work_calm:
  assumes "exclusive_work e body i sid aid jt p d = (d', r)"
    and "wf_ids d" and "get_job d i = Some j" and "active j"
  shows "calm d d'"
proof -
  have "calm d (fst (simulate e i d))" using simulate_calm [OF _ assms(2)] by (metis prod.collapse)
  moreover have "calm d (fst (execute body jt i sid aid p d))"
    using execute_calm [OF _ assms(2-4)] by (metis prod.collapse)
  ultimately show ?thesis
    using assms(1) commit_fail_calm [OF assms(2)] wait_for_host_calm [OF _ assms(2)]
    by (auto simp: exclusive_work_def split: if_splits elim!: andthen_calm)
qed

lemma exclusive_try_calm:
  assumes "exclusive_try e body req i sid aid jt p d = (d', r)" and "wf_ids d"
  shows "calm d d'"
proof -
  let ?d1 = "upd_job i (claim_row req) d"
  have c1: "calm d ?d1" by (rule claim_calm)
  then have wf1: "wf_ids ?d1" using assms(2) wf_ids_calm by blast
  have c2: "calm d (fst (commit ?d1 (fail_message e i aid jt' m ?d1)))" for jt' m
    using c1 commit_fail_calm [OF wf1] by (rule calm_trans)
  have c3: "calm d x" if "exclusive_work e body i sid aid jt' p ?d1 = (x, s)"
    and "get_job d i = Some j" and "active j" for jt' x s j
  proof -
    have "get_job ?d1 i = Some (claim_row req j)" using that(2) by (simp add: get_job_upd_same)
    moreover have "active (claim_row req j)" using that(3) by (simp add: active_def)
    ultimately have "calm ?d1 x" using exclusive_work_calm [OF that(1) wf1] by blast
    with c1 show ?thesis by (rule calm_trans)
  qed
  show ?thesis
    using assms(1) c2 c3
    by (auto simp: exclusive_try_def Let_def split: option.splits if_splits elim!: andthen_calm)
qed

theorem run_exclusive_calm:
  assumes "run_exclusive_job e body req i sid aid jt p d = (d', r)" and "wf_ids d"
  shows "calm d d'"
proof -
  obtain d1 r1 where t: "exclusive_try e body req i sid aid jt p d = (d1, r1)"
    by (cases "exclusive_try e body req i sid aid jt p d")
  have c1: "calm d d1" using exclusive_try_calm [OF t assms(2)] .
  then have wf1: "wf_ids d1" using assms(2) wf_ids_calm by blast
  have 2: "calm d (fst (commit d1 (fail_message e i aid jt m d1)))" for m
    using c1 commit_fail_calm [OF wf1] by (rule calm_trans)
  have "calm d1 (fst (commit d1 (fail_unexpected e i aid jt m d1)))" for m
    using fail_unexpected_calm [OF _ wf1] by (cases "fail_unexpected e i aid jt m d1") auto
  then have 3: "calm d (fst (commit d1 (fail_unexpected e i aid jt m d1)))" for m
    using c1 calm_trans by blast
  show ?thesis
    using assms(1) c1 2 3
    by (auto simp: run_exclusive_job_def t Let_def split: sum.splits exc.splits if_splits elim!: andthen_calm)
qed

end

end
