(* ===== verification/JobLanes.thy ===== *)
theory JobLanes
  imports ExclusiveFacts
begin

text \<open>
  How jobs enter the queue (\<open>app/services/jobs/service.py\<close>): \<open>create_job_and_run\<close> and the
  \<open>enqueue_*\<close> functions. Each asks the guards of \<open>JobGuards\<close>, adds one pending row with its
  audit trail, and hands it to Celery. The result is the tables and an exception or the id of
  the job returned (\<open>None\<close> where the code returns \<open>None\<close>).
\<close>

definition dots :: string where "dots = [CHR 0x85]"

section \<open>Housekeeping hand-off\<close>

definition fail_housekeeping_open :: "env \<Rightarrow> int \<Rightarrow> int \<Rightarrow> string \<Rightarrow> string \<Rightarrow> db \<Rightarrow> exc + db" where
  "fail_housekeeping_open e i aid jt message d = (case get_job d i of
     None \<Rightarrow> Inr d
   | Some j \<Rightarrow> if \<not> active j then Inr d
       else let hostname = (if jt = ''retention'' then
              (if nonzero (j_server_id j)
               then (case get_server d (the (j_server_id j)) of Some s \<Rightarrow> s_hostname s | None \<Rightarrow> []) else [])
              else if jt = ''herder_backup'' then ''piherder'' else [])
         in finish e aid i ''failed'' (Plain message) hostname jt d)"

definition handoff_housekeeping :: "env \<Rightarrow> int \<Rightarrow> int \<Rightarrow> string \<Rightarrow> bool \<Rightarrow> db \<Rightarrow> db \<times> (exc + unit)" where
  "handoff_housekeeping e i aid jt runner d =
     (if e_inline e then
        (if runner then (emit (RanInProcess jt i JNull) d, Inr ())
         else (d, Inl (RuntimeError (''No in-process runner for '' @ jt))))
      else if \<not> e_has_celery e then
        (let msg = ''Celery worker required'' @ emdash @ ''start the celery-worker container'' in
         andthen (commit d (fail_housekeeping_open e i aid jt msg d)) (\<lambda>d1 _. (d1, Inl (RuntimeError msg))))
      else case e_publish e of
        Inl err \<Rightarrow>
          (let msg = ''Failed to enqueue '' @ jt @ '' to Celery: '' @ err in
           andthen (commit d (fail_housekeeping_open e i aid jt msg d)) (\<lambda>d1 _. (d1, Inl (RuntimeError msg))))
      | Inr tid \<Rightarrow> (upd_job i (set_task_id tid) (emit (Published jt i JNull) d), Inr ()))"

section \<open>Backups\<close>

definition opt_json :: "string option \<Rightarrow> json" where
  "opt_json s = jopt JStr s"

definition backup_event :: "server option \<Rightarrow> int \<Rightarrow> origin \<Rightarrow> string option \<Rightarrow> string \<Rightarrow> event_args" where
  "backup_event so i og source_filter message =
     \<lparr>v_server_id = map_option s_id so, v_job_id = i, v_user_id = jopt JInt (o_user_id og),
      v_api_token_id = o_api_token_id og, v_api_token_name = opt_json (o_api_token_name og),
      v_source_filter = opt_json source_filter, v_message = Some message, v_output_snippet = None,
      v_started_at = None, v_finished_at = None, v_client_ip = JNull\<rparr>"

definition source_label :: "string option \<Rightarrow> string" where
  "source_label source_filter = (if text_of source_filter \<noteq> [] then text_of source_filter else ''all sources'')"

text \<open>The two audit rows, the hand-off to Celery, and the failed row when it cannot be handed off.\<close>

definition publish_backup ::
    "env \<Rightarrow> server option \<Rightarrow> int \<Rightarrow> origin \<Rightarrow> string option \<Rightarrow> string \<Rightarrow> string \<Rightarrow> db \<Rightarrow> db \<times> (exc + unit)" where
  "publish_backup e so i og source_filter request_message no_worker d =
     andthen (commit d
       (rbind (record_backup_audit_event e ''request'' (backup_event so i og source_filter request_message) d)
         (record_backup_audit_event e ''queued'' (backup_event so i og source_filter ''Waiting for worker''))))
     (\<lambda>d1 _.
       if \<not> e_has_celery e then
         andthen (commit d1 (mark_job_terminal e i no_worker ''failed'' True d1))
           (\<lambda>d2 _. (d2, Inl (RuntimeError no_worker)))
       else case (if so = None then Inl (e_error_text e) else e_publish e) of
         Inl err \<Rightarrow>
           (let msg = ''Failed to enqueue backup to Celery: '' @ err in
            andthen (commit d1 (mark_job_terminal e i msg ''failed'' True d1))
              (\<lambda>d2 _. (d2, Inl (RuntimeError msg))))
       | Inr tid \<Rightarrow> (upd_job i (set_task_id tid)
             (emit (Published ''backup'' i (opt_json source_filter)) d1), Inr ()))"

text \<open>\<open>cleanup_stale_backup_jobs\<close> with its default age, committed on its own.\<close>

definition stale_sweep :: "env \<Rightarrow> db \<Rightarrow> db \<times> (exc + unit)" where
  "stale_sweep e d = commit d (rbind (cleanup_stale_backup_jobs e 120 d) (\<lambda>(d1, n). Inr d1))"

definition demo_result :: "env \<Rightarrow> int \<Rightarrow> origin \<Rightarrow> string option \<Rightarrow> db \<Rightarrow> db \<times> (exc + int)" where
  "demo_result e i og source_filter d =
     andthen (finish_demo_job e i og (opt_json source_filter) (start_demo_job e i d)) (\<lambda>d1 _. (d1, Inr i))"

definition enqueue_backup_for_server ::
    "env \<Rightarrow> server \<Rightarrow> int option \<Rightarrow> string option \<Rightarrow> bool \<Rightarrow> db \<Rightarrow> db \<times> (exc + int)" where
  "enqueue_backup_for_server e srv uid source_filter scheduled d0 =
     andthen (stale_sweep e d0) (\<lambda>d _.
       case active_job_of_type d (s_id srv) ''host_reboot'' of
         Some r \<Rightarrow> (d, Inl (JobAlreadyActive (j_id r)))
       | None \<Rightarrow> (case get_active_job_for_source d (s_id srv) (opt_json source_filter) of
           Some a \<Rightarrow> (d, Inr (j_id a))
         | None \<Rightarrow>
             (let og = \<lparr>o_user_id = uid, o_api_token_id = None, o_api_token_name = None\<rparr>;
                  i = db_next_job d;
                  d1 = add_job e (Some (s_id srv)) ''backup'' (Text (JObj (initial_job_details e
                    (''Backup queued'' @ dots)
                    [(''source_filter'', opt_json source_filter), (''user_id'', jopt JInt uid),
                     (''queued_at'', JStamp (e_now e)), (''scheduled'', JBool scheduled)]))) d;
                  label = source_label source_filter
              in if e_demo e then demo_result e i og source_filter d1
                 else andthen (publish_backup e (Some srv) i og source_filter
                    (if scheduled then ''Scheduled backup requested for '' @ label
                     else ''Backup requested for '' @ label)
                    ''Celery worker required for backups'' d1) (\<lambda>d2 _. (d2, Inr i)))))"

section \<open>Exclusive enqueues\<close>

text \<open>The common tail: the queued row with its audit row, then the hand-off.\<close>

definition queue_and_handoff ::
    "env \<Rightarrow> int \<Rightarrow> string \<Rightarrow> string \<Rightarrow> int option \<Rightarrow> string option \<Rightarrow> dict \<Rightarrow> dict \<Rightarrow> db
     \<Rightarrow> db \<times> (exc + int option)" where
  "queue_and_handoff e sid jt queue_message uid audit_details extra payload d =
     andthen (create_queued_job_with_audit e (Some sid) jt queue_message
         \<lparr>o_user_id = uid, o_api_token_id = None, o_api_token_name = None\<rparr> audit_details extra d)
       (\<lambda>d1 (i, aid). andthen (handoff_exclusive e i jt payload True d1) (\<lambda>d2 _. (d2, Inr (Some i))))"

definition enqueue_os_patch_apply ::
    "env \<Rightarrow> int \<Rightarrow> int option \<Rightarrow> bool \<Rightarrow> string list option \<Rightarrow> db \<Rightarrow> db \<times> (exc + int option)" where
  "enqueue_os_patch_apply e sid uid scheduled os_steps d = (case get_server d sid of
     None \<Rightarrow> (d, Inr None)
   | Some srv \<Rightarrow>
       if active_job_of_type d sid ''os_patch'' \<noteq> None then (d, Inr None)
       else if active_job_of_type d sid ''host_reboot'' \<noteq> None then (d, Inr None)
       else (let picked = (case os_steps of None \<Rightarrow> parse_os_apply_steps (s_os_apply_steps srv) | Some s \<Rightarrow> s);
                 steps = (case normalize_os_patch_steps (Some picked) of [] \<Rightarrow> default_os_steps | s \<Rightarrow> s);
                 steps_s = join '','' steps;
                 label = (if scheduled then ''Scheduled OS patch'' else ''OS patch'');
                 js = JList (map JStr steps)
             in queue_and_handoff e (s_id srv) ''os_patch'' (label @ '' queued'' @ dots) uid
                  (Some (if scheduled then ''Job #{job_id} started'' @ middot @ ''scheduled'' @ middot @ steps_s
                         else ''Job #{job_id} started'' @ middot @ steps_s))
                  [(''scheduled'', JBool scheduled), (''os_steps'', js)] [(''os_steps'', js)] d))"

definition enqueue_container_patch_apply ::
    "env \<Rightarrow> int \<Rightarrow> int option \<Rightarrow> bool \<Rightarrow> db \<Rightarrow> db \<times> (exc + int option)" where
  "enqueue_container_patch_apply e sid uid scheduled d = (case get_server d sid of
     None \<Rightarrow> (d, Inr None)
   | Some srv \<Rightarrow>
       if active_job_of_type d sid ''container_patch'' \<noteq> None then (d, Inr None)
       else if active_job_of_type d sid ''host_reboot'' \<noteq> None then (d, Inr None)
       else queue_and_handoff e (s_id srv) ''container_patch''
         ((if scheduled then ''Scheduled container patch'' else ''Container patch'') @ '' queued'' @ dots) uid
         (Some (if scheduled then ''Job #{job_id} started'' @ middot @ ''scheduled'' else ''Job #{job_id} started''))
         [(''scheduled'', JBool scheduled)] [] d)"

definition enqueue_os_update_check :: "env \<Rightarrow> int \<Rightarrow> int option \<Rightarrow> db \<Rightarrow> db \<times> (exc + int option)" where
  "enqueue_os_update_check e sid uid d = (case get_server d sid of
     None \<Rightarrow> (d, Inr None)
   | Some srv \<Rightarrow> (case active_job_of_type d sid ''os_update_check'' of
       Some a \<Rightarrow> (d, Inr (Some (j_id a)))
     | None \<Rightarrow> queue_and_handoff e (s_id srv) ''os_update_check'' (''OS update check queued'' @ dots) uid
         (Some ''Job #{job_id} queued'') [] [] d))"

definition enqueue_container_update_check :: "env \<Rightarrow> int \<Rightarrow> int option \<Rightarrow> db \<Rightarrow> db \<times> (exc + int option)" where
  "enqueue_container_update_check e sid uid d = (case get_server d sid of
     None \<Rightarrow> (d, Inr None)
   | Some srv \<Rightarrow> (case active_job_of_type d sid ''container_update_check'' of
       Some a \<Rightarrow> (d, Inr (Some (j_id a)))
     | None \<Rightarrow> queue_and_handoff e (s_id srv) ''container_update_check''
         (''Container update check queued'' @ dots) uid (Some ''Job #{job_id} queued'') [] [] d))"

text \<open>The lookups of a stack enqueue: the same type on the path, then \<open>fallback\<close>.\<close>

definition stack_blocker :: "db \<Rightarrow> int \<Rightarrow> string \<Rightarrow> string \<Rightarrow> job option \<Rightarrow> exc + job option" where
  "stack_blocker d sid jt path fallback =
     rbind (active_docker_stack_job d sid jt path) (\<lambda>a. Inr (case a of Some j \<Rightarrow> Some j | None \<Rightarrow> fallback))"

definition unless_blocked ::
    "exc + job option \<Rightarrow> db \<Rightarrow> db \<times> (exc + int option) \<Rightarrow> db \<times> (exc + int option)" where
  "unless_blocked b d go = (case b of Inl x \<Rightarrow> (d, Inl x)
     | Inr (Some j) \<Rightarrow> (d, Inl (JobAlreadyActive (j_id j))) | Inr None \<Rightarrow> go)"

definition path_required :: exc where "path_required = ValueError ''project_path required''"
definition server_not_found :: exc where "server_not_found = ValueError ''server not found''"

definition enqueue_docker_stack_check ::
    "env \<Rightarrow> int \<Rightarrow> string option \<Rightarrow> int option \<Rightarrow> db \<Rightarrow> db \<times> (exc + int option)" where
  "enqueue_docker_stack_check e sid project_path uid d =
     (let path = stripped project_path; proj = project_basename path in
      if path = [] then (d, Inl path_required)
      else case get_server d sid of
        None \<Rightarrow> (d, Inl server_not_found)
      | Some srv \<Rightarrow> unless_blocked
          (stack_blocker d sid ''docker_stack_check'' path (active_job_of_type d sid ''docker_stack_check'')) d
          (queue_and_handoff e (s_id srv) ''docker_stack_check'' (''Stack check queued for '' @ proj @ dots) uid
            (Some (''Job #{job_id}'' @ middot @ ''check '' @ proj))
            [(''project_path'', JStr path), (''project'', JStr proj)] [(''project_path'', JStr path)] d))"

definition enqueue_docker_stack_deploy ::
    "env \<Rightarrow> int \<Rightarrow> string option \<Rightarrow> bool \<Rightarrow> json list \<Rightarrow> int option \<Rightarrow> db \<Rightarrow> db \<times> (exc + int option)" where
  "enqueue_docker_stack_deploy e sid project_path pull compose_files uid d =
     (let path = stripped project_path; proj = project_basename path;
          files = filter (\<lambda>f. f \<noteq> []) (map (\<lambda>f. strip (py_str f)) compose_files);
          note = (if files \<noteq> [] then middot @ ''-f '' @ join '','' files else []);
          jfiles = JList (map JStr files)
      in if path = [] then (d, Inl path_required)
      else case get_server d sid of
        None \<Rightarrow> (d, Inl server_not_found)
      | Some srv \<Rightarrow> unless_blocked
          (stack_blocker d sid ''docker_stack_deploy'' path (active_stack_mutating_job d sid)) d
          (queue_and_handoff e (s_id srv) ''docker_stack_deploy''
            (''Stack deploy queued for '' @ proj @ note @ dots) uid
            (Some (''Job #{job_id}'' @ middot @ ''deploy '' @ proj @ note))
            [(''project_path'', JStr path), (''project'', JStr proj), (''pull'', JBool pull),
             (''compose_files'', jfiles)]
            [(''project_path'', JStr path), (''pull'', JBool pull), (''compose_files'', jfiles)] d))"

definition enqueue_docker_stack_lifecycle ::
    "env \<Rightarrow> int \<Rightarrow> string option \<Rightarrow> string option \<Rightarrow> int option \<Rightarrow> bool \<Rightarrow> db \<Rightarrow> db \<times> (exc + int option)" where
  "enqueue_docker_stack_lifecycle e sid project_path action uid remove_volumes d =
     (let act = lower (stripped action); path = stripped project_path; proj = project_basename path;
          drop_vols = (remove_volumes \<and> act = ''down''); jt = ''docker_stack_'' @ act;
          act_label = (if drop_vols then ''down -v'' else act)
      in if act \<notin> set STACK_LIFECYCLE_ACTIONS then
           (d, Inl (ValueError (''invalid lifecycle action: '' @ py_repr (opt_json action))))
      else if path = [] then (d, Inl path_required)
      else case get_server d sid of
        None \<Rightarrow> (d, Inl server_not_found)
      | Some srv \<Rightarrow> unless_blocked (stack_blocker d sid jt path (active_stack_mutating_job d sid)) d
          (queue_and_handoff e (s_id srv) jt (''Stack '' @ act_label @ '' queued for '' @ proj @ dots) uid
            (Some (''Job #{job_id}'' @ middot @ act_label @ middot @ proj))
            [(''project_path'', JStr path), (''project'', JStr proj), (''action'', JStr act_label),
             (''remove_volumes'', JBool drop_vols)]
            [(''project_path'', JStr path), (''action'', JStr act)] d))"

text \<open>\<open>wipe\<close> is the answer of \<open>assert_wipe_allowed\<close>: an error text, or the path may be deleted.\<close>

definition enqueue_docker_stack_remove ::
    "env \<Rightarrow> int \<Rightarrow> string option \<Rightarrow> string option \<Rightarrow> int option \<Rightarrow> db \<Rightarrow> db \<times> (exc + int option)" where
  "enqueue_docker_stack_remove e sid project_path wipe uid d =
     (let path = stripped project_path; proj = project_basename path; jt = ''docker_stack_remove'' in
      if path = [] then (d, Inl path_required)
      else case get_server d sid of
        None \<Rightarrow> (d, Inl server_not_found)
      | Some srv \<Rightarrow> (case wipe of
          Some err \<Rightarrow> (d, Inl (ValueError err))
        | None \<Rightarrow> unless_blocked (stack_blocker d sid jt path (active_stack_mutating_job d sid)) d
            (queue_and_handoff e (s_id srv) jt (''Delete project queued for '' @ proj @ dots) uid
              (Some (''Job #{job_id}'' @ middot @ ''delete project'' @ middot @ proj))
              [(''project_path'', JStr path), (''project'', JStr proj), (''action'', JStr ''remove'')]
              [(''project_path'', JStr path)] d)))"

text \<open>Template values are encrypted before they reach the row.\<close>

definition enqueue_template_deploy ::
    "env \<Rightarrow> int \<Rightarrow> string option \<Rightarrow> json \<Rightarrow> bool \<Rightarrow> int option \<Rightarrow> db \<Rightarrow> db \<times> (exc + int option)" where
  "enqueue_template_deploy e sid template_slug values deploy_now uid d =
     (let slug = stripped template_slug in
      if slug = [] then (d, Inl (ValueError ''template_slug required''))
      else case values of
        JObj _ \<Rightarrow> (case get_server d sid of
            None \<Rightarrow> (d, Inl server_not_found)
          | Some srv \<Rightarrow> unless_blocked (Inr (active_stack_mutating_job d sid)) d
              (queue_and_handoff e (s_id srv) ''template_deploy''
                (''Template deploy queued ('' @ slug @ '')'' @ dots) uid
                (Some (''Job #{job_id}'' @ middot @ ''template deploy '' @ slug))
                [(''template_slug'', JStr slug), (''deploy_now'', JBool deploy_now),
                 (''values_encrypted'', JStr (e_encrypt e (dumps values)))]
                [(''template_slug'', JStr slug), (''deploy_now'', JBool deploy_now)] d))
      | _ \<Rightarrow> (d, Inl (ValueError ''values must be a dict'')))"

definition enqueue_template_redeploy ::
    "env \<Rightarrow> int \<Rightarrow> int \<Rightarrow> dict \<Rightarrow> dict \<Rightarrow> bool \<Rightarrow> int option \<Rightarrow> db \<Rightarrow> db \<times> (exc + int option)" where
  "enqueue_template_redeploy e sid dep_id updated_public updated_secrets deploy_now uid d =
     (let pub = map (\<lambda>(k, v). (k, JStr (py_str v))) updated_public;
          secs = map (\<lambda>(k, v). (k, JStr (py_str v)))
            (filter (\<lambda>(k, v). v \<noteq> JNull \<and> py_str v \<noteq> []) updated_secrets);
          enc = (if secs \<noteq> [] then JStr (e_encrypt e (dumps (JObj secs))) else JNull)
      in case get_server d sid of
        None \<Rightarrow> (d, Inl server_not_found)
      | Some srv \<Rightarrow> unless_blocked (Inr (active_stack_mutating_job d sid)) d
          (queue_and_handoff e (s_id srv) ''template_redeploy''
            (''Template redeploy queued (deployment #'' @ int_str dep_id @ '')'' @ dots) uid
            (Some (''Job #{job_id}'' @ middot @ ''template redeploy deployment='' @ int_str dep_id))
            [(''deployment_id'', JInt dep_id), (''deploy_now'', JBool deploy_now),
             (''updated_public'', JObj pub), (''secrets_encrypted'', enc)]
            [(''deployment_id'', JInt dep_id), (''deploy_now'', JBool deploy_now)] d))"

definition enqueue_template_drift_check ::
    "env \<Rightarrow> int \<Rightarrow> int \<Rightarrow> int option \<Rightarrow> db \<Rightarrow> db \<times> (exc + int option)" where
  "enqueue_template_drift_check e sid dep_id uid d = (case get_server d sid of
     None \<Rightarrow> (d, Inl server_not_found)
   | Some srv \<Rightarrow> unless_blocked (Inr (active_job_of_type d sid ''template_drift_check'')) d
       (queue_and_handoff e (s_id srv) ''template_drift_check''
         (''Template drift check queued (deployment #'' @ int_str dep_id @ '')'' @ dots) uid
         (Some (''Job #{job_id}'' @ middot @ ''template drift check deployment='' @ int_str dep_id))
         [(''deployment_id'', JInt dep_id)] [(''deployment_id'', JInt dep_id)] d))"

end
