(* ===== verification/JobCreate.thy ===== *)
theory JobCreate
  imports JobLanes
begin

text \<open>
  \<open>create_job_and_run\<close> of \<open>app/services/jobs/service.py\<close>, the entry point of the web and API
  routes: its guards, the pending row, the audit row or the backup publication, and the
  dispatch to Celery by job type.
\<close>

record request =
  r_job_type :: string
  r_origin :: origin
  r_source_filter :: "string option"
  r_os_steps :: "string list option"
  r_service :: "string option"
  r_bootstrap :: dict

definition PRUNE_TYPES :: "string list" where
  "PRUNE_TYPES = [''images'', ''containers'', ''both'', ''networks'', ''volumes'']"

definition prune_kind_of :: "string option \<Rightarrow> exc + string" where
  "prune_kind_of source_filter =
     (let raw = lower (strip (if text_of source_filter \<noteq> [] then text_of source_filter else ''both''));
          kind = (if raw \<noteq> [] then raw else ''both'')
      in if kind \<in> set PRUNE_TYPES then Inr kind
         else Inl (ValueError ''prune_type must be images, containers, both, networks, or volumes''))"

section \<open>Guards\<close>

definition blocked_by :: "job option \<Rightarrow> exc + unit" where
  "blocked_by jo = (case jo of None \<Rightarrow> Inr () | Some j \<Rightarrow> Inl (JobAlreadyActive (j_id j)))"

definition reboot_guard :: "db \<Rightarrow> server option \<Rightarrow> string \<Rightarrow> exc + unit" where
  "reboot_guard d so jt = (case so of
     Some s \<Rightarrow> if s_id s \<noteq> 0 \<and> jt \<in> set (''host_reboot'' # REBOOT_EXCLUDES)
       then blocked_by (reboot_lane_blocker d (s_id s) jt) else Inr ()
   | None \<Rightarrow> Inr ())"

text \<open>The compose directory and service of a container job, and its host's stack lane.\<close>

definition service_guard :: "db \<Rightarrow> server option \<Rightarrow> request \<Rightarrow> exc + string option \<times> string option" where
  "service_guard d so rq =
     (if r_job_type rq \<notin> set CONTAINER_SERVICE_JOB_TYPES then Inr (r_source_filter rq, r_service rq)
      else rbind (container_service_target (r_source_filter rq) (r_service rq)) (\<lambda>(path, svc).
        rbind (case so of
            Some s \<Rightarrow> if s_id s \<noteq> 0 then blocked_by (active_stack_mutating_job d (s_id s)) else Inr ()
          | None \<Rightarrow> Inr ()) (\<lambda>_. Inr (Some path, Some svc))))"

definition backup_guard :: "db \<Rightarrow> server option \<Rightarrow> string option \<Rightarrow> exc + unit" where
  "backup_guard d so source_filter = (case so of
     Some s \<Rightarrow> if s_id s = 0 then Inr ()
       else (case get_active_job_for_source d (s_id s) (opt_json source_filter) of
          Some a \<Rightarrow> Inl (BackupAlreadyRunning (j_id a)) | None \<Rightarrow> Inr ())
   | None \<Rightarrow> Inr ())"

definition type_guard :: "db \<Rightarrow> server option \<Rightarrow> string \<Rightarrow> exc + unit" where
  "type_guard d so jt = (case so of
     Some s \<Rightarrow> if jt \<in> set EXCLUSIVE_JOB_TYPES \<and> jt \<noteq> ''host_bootstrap''
       then blocked_by (active_job_of_type d (s_id s) jt) else Inr ()
   | None \<Rightarrow> Inr ())"

text \<open>What the guards hand on: source filter, service, prune kind.\<close>

record accepted =
  p_source_filter :: "string option"
  p_service :: "string option"
  p_prune :: "string option"

definition create_guards :: "env \<Rightarrow> server option \<Rightarrow> request \<Rightarrow> db \<Rightarrow> db \<times> (exc + accepted)" where
  "create_guards e so rq d =
     (let jt = r_job_type rq in
      case rbind (reboot_guard d so jt) (\<lambda>_. service_guard d so rq) of
        Inl x \<Rightarrow> (d, Inl x)
      | Inr (sf, svc) \<Rightarrow>
          andthen (if jt = ''backup''
                   then andthen (stale_sweep e d) (\<lambda>d1 _. (d1, backup_guard d1 so sf))
                   else (d, Inr ()))
            (\<lambda>d1 _. (d1,
               rbind (if jt = ''docker_prune'' then rbind (prune_kind_of sf) (\<lambda>k. Inr (Some k)) else Inr None)
                 (\<lambda>prune. rbind (type_guard d1 so jt) (\<lambda>_.
                   Inr \<lparr>p_source_filter = sf, p_service = svc, p_prune = prune\<rparr>)))))"

section \<open>The new row\<close>

definition boot_user_of :: "request \<Rightarrow> string" where
  "boot_user_of rq = take 32 (strip (py_str (jor (dget0 (r_bootstrap rq) ''bootstrap_username'') (JStr []))))"

definition boot_confirm_of :: "request \<Rightarrow> bool" where
  "boot_confirm_of rq = truthy (dget0 (r_bootstrap rq) ''confirm_docker_bootstrap'')"

definition boot_password_of :: "request \<Rightarrow> string" where
  "boot_password_of rq = py_str (jor (dget0 (r_bootstrap rq) ''sudo_password'') (JStr []))"

definition queue_label :: "string \<Rightarrow> string option \<Rightarrow> string option \<Rightarrow> string" where
  "queue_label jt service prune =
     (let svc = (if stripped service \<noteq> [] then stripped service else ''container'');
          fixed = map_of [(''os_patch'', ''OS patch''), (''container_patch'', ''Container patch''),
            (''host_reboot'', ''Host reboot''), (''retention'', ''Retention cleanup''),
            (''herder_backup'', ''PiHerder backup''), (''host_facts'', ''Host facts''),
            (''os_update_check'', ''OS update check''),
            (''container_update_check'', ''Container update check''),
            (''docker_stack_check'', ''Stack update check''), (''docker_stack_deploy'', ''Stack deploy''),
            (''docker_stack_stop'', ''Stack stop''), (''docker_stack_start'', ''Stack start''),
            (''docker_stack_restart'', ''Stack restart''), (''docker_stack_down'', ''Stack undeploy''),
            (''docker_stack_remove'', ''Stack delete''), (''container_start'', ''Start '' @ svc),
            (''container_stop'', ''Stop '' @ svc), (''container_restart'', ''Restart '' @ svc),
            (''container_redeploy'', ''Update '' @ svc),
            (''docker_prune'', ''Docker prune ('' @ (if text_of prune \<noteq> [] then text_of prune else ''both'') @ '')''),
            (''host_bootstrap'', ''Host tool bootstrap'')] jt
      in (case fixed of Some t \<Rightarrow> t | None \<Rightarrow> jt) @ '' queued'' @ dots)"

definition create_details :: "env \<Rightarrow> request \<Rightarrow> accepted \<Rightarrow> dict" where
  "create_details e rq p =
     (let jt = r_job_type rq; actor = origin_extra (r_origin rq) [] in
      if jt = ''backup'' then
        initial_job_details e (''Backup queued'' @ dots)
          ([(''source_filter'', opt_json (p_source_filter p)), (''queued_at'', JStamp (e_now e))] @ actor)
      else initial_job_details e (queue_label jt (p_service p) (p_prune p))
        (actor
         @ (if jt = ''host_bootstrap'' then [(''bootstrap_username'', JStr (boot_user_of rq)),
              (''confirm_docker_bootstrap'', JBool (boot_confirm_of rq))] else [])
         @ (if text_of (p_prune p) \<noteq> [] then [(''prune_type'', opt_json (p_prune p))] else [])
         @ (if jt \<in> set CONTAINER_SERVICE_JOB_TYPES
            then [(''source_filter'', JStr (stripped (p_source_filter p))),
                  (''service'', JStr (stripped (p_service p)))] else [])))"

definition start_text :: "server option \<Rightarrow> request \<Rightarrow> accepted \<Rightarrow> int \<Rightarrow> string" where
  "start_text so rq p i =
     (let jt = r_job_type rq in
      if jt = ''os_patch'' \<and> r_os_steps rq \<noteq> None \<and> r_os_steps rq \<noteq> Some [] then
        started_text i @ middot @ join '','' (the (r_os_steps rq))
      else if jt = ''docker_prune'' \<and> text_of (p_prune p) \<noteq> [] then
        started_text i @ middot @ text_of (p_prune p)
      else if jt = ''host_bootstrap'' then
        take 500 (started_text i @ middot @ (if boot_user_of rq \<noteq> [] then boot_user_of rq
          else case so of Some s \<Rightarrow> s_ssh_username s | None \<Rightarrow> []))
      else started_text i)"

definition start_audit :: "env \<Rightarrow> server option \<Rightarrow> request \<Rightarrow> accepted \<Rightarrow> int \<Rightarrow> dict \<Rightarrow> db \<Rightarrow> db" where
  "start_audit e so rq p i det d = (let og = r_origin rq in
     add_audit (make_audit_log e
       \<lparr>g_action = r_job_type rq, g_status = ''running'', g_user_id = jopt JInt (o_user_id og),
        g_server_id = map_option s_id so, g_api_token_id = o_api_token_id og,
        g_api_token_name = opt_json (o_api_token_name og), g_details = Some (start_text so rq p i),
        g_output_snippet = None, g_started_at = None, g_finished_at = None,
        g_client_ip = jopt JStr (resolve_client_ip e JNull (dget0 det ''client_ip''))\<rparr>) d)"

section \<open>Dispatch\<close>

text \<open>The payload of an exclusive job; \<open>None\<close> for a type that is not handed to that queue.\<close>

definition exclusive_payload :: "request \<Rightarrow> accepted \<Rightarrow> dict option" where
  "exclusive_payload rq p =
     (let jt = r_job_type rq; path = (''project_path'', JStr (stripped (p_source_filter p))) in
      if jt \<in> {''container_patch'', ''host_reboot'', ''os_update_check'', ''host_facts'',
               ''container_update_check''} then Some []
      else if jt = ''os_patch'' then
        Some [(''os_steps'', case r_os_steps rq of None \<Rightarrow> JNull | Some s \<Rightarrow> JList (map JStr s))]
      else if jt = ''docker_prune'' then
        Some [(''prune_type'', JStr (if text_of (p_prune p) \<noteq> [] then text_of (p_prune p) else ''both''))]
      else if jt = ''docker_stack_check'' \<or> jt = ''docker_stack_remove'' then Some [path]
      else if jt = ''docker_stack_deploy'' then
        Some [path, (''pull'', JBool True), (''compose_files'', JList [])]
      else if jt \<in> set CONTAINER_SERVICE_JOB_TYPES then
        Some [path, (''service'', JStr (stripped (p_service p))),
              (''action'', opt_json (map_of CONTAINER_SERVICE_ACTIONS jt))]
      else if jt \<in> set STACK_LIFECYCLE_JOB_TYPES then
        Some [path, (''action'', JStr (drop (length ''docker_stack_'') jt))]
      else None)"

definition bootstrap_payload :: "env \<Rightarrow> request \<Rightarrow> dict" where
  "bootstrap_payload e rq =
     [(''confirm_docker_bootstrap'', JBool (boot_confirm_of rq)),
      (''bootstrap_username'', JStr (boot_user_of rq)),
      (''sudo_password_encrypted'', JStr (if boot_password_of rq \<noteq> []
         then e_encrypt e (boot_password_of rq) else []))]"

text \<open>A second bootstrap of the host is failed instead of handed on.\<close>

definition dispatch_bootstrap :: "env \<Rightarrow> request \<Rightarrow> server \<Rightarrow> int \<Rightarrow> db \<Rightarrow> db \<times> (exc + unit)" where
  "dispatch_bootstrap e rq srv i d =
     (case other_active_job d (s_id srv) ''host_bootstrap'' i of
        Some _ \<Rightarrow> (case get_job d i of
            None \<Rightarrow> (d, Inl AttributeError)
          | Some j \<Rightarrow> commit d (fail_and_close e j HOST_BOOTSTRAP_BUSY_REASON d))
      | None \<Rightarrow> handoff_exclusive e i ''host_bootstrap'' (bootstrap_payload e rq) True d)"

definition dispatch_job ::
    "env \<Rightarrow> server option \<Rightarrow> request \<Rightarrow> accepted \<Rightarrow> int \<Rightarrow> int \<Rightarrow> db \<Rightarrow> db \<times> (exc + unit)" where
  "dispatch_job e so rq p i aid d =
     (let jt = r_job_type rq in
      if jt = ''herder_backup'' then handoff_housekeeping e i aid jt True d
      else if exclusive_payload rq p = None \<and> jt \<noteq> ''retention'' \<and> jt \<noteq> ''host_bootstrap'' then (d, Inr ())
      else case so of
        None \<Rightarrow> (d, Inl AttributeError)
      | Some srv \<Rightarrow>
          if jt = ''retention'' then handoff_housekeeping e i aid jt True d
          else if jt = ''host_bootstrap'' then dispatch_bootstrap e rq srv i d
          else handoff_exclusive e i jt (the (exclusive_payload rq p)) True d)"

definition create_job_and_run :: "env \<Rightarrow> server option \<Rightarrow> request \<Rightarrow> db \<Rightarrow> db \<times> (exc + int)" where
  "create_job_and_run e so rq d0 =
     andthen (create_guards e so rq d0) (\<lambda>d p.
       let i = db_next_job d; det = create_details e rq p; jt = r_job_type rq;
           d1 = add_job e (map_option s_id so) jt (Text (JObj det)) d
       in if e_demo e then demo_result e i (r_origin rq) (p_source_filter p) d1
          else if jt = ''backup'' then
            andthen (publish_backup e so i (r_origin rq) (p_source_filter p)
                (''Backup requested for '' @ source_label (p_source_filter p))
                (''Celery worker required for backups'' @ emdash @ ''start celery-worker container'') d1)
              (\<lambda>d2 _. (d2, Inr i))
          else andthen (dispatch_job e so rq p i (db_next_audit d1) (start_audit e so rq p i det d1))
              (\<lambda>d2 _. (d2, Inr i)))"

end
