(* ===== verification/Lanes.thy ===== *)
theory Lanes
  imports JobCreate
begin

text \<open>
  The exclusive lanes as an interface. A lane is a symmetric clash between the (host, type)
  pairs of jobs; it is free when no two active jobs clash. The locale proves once that calm
  operations keep a lane free and that a row may be added when it clashes with no active one;
  it is interpreted on the lane of one type per host with the reboot hold (\<open>host_clash\<close>) and on
  the shared stack lane (\<open>stack_clash\<close>).
\<close>

type_synonym lane_key = "int option \<times> string"

definition lane_free :: "(lane_key \<Rightarrow> lane_key \<Rightarrow> bool) \<Rightarrow> db \<Rightarrow> bool" where
  "lane_free clash d = sorted_wrt (\<lambda>a b. \<not> clash (snd a) (snd b)) (active_keys d)"

definition unclashed :: "(lane_key \<Rightarrow> lane_key \<Rightarrow> bool) \<Rightarrow> db \<Rightarrow> lane_key \<Rightarrow> bool" where
  "unclashed clash d k = (\<forall>a\<in>set (active_keys d). \<not> clash (snd a) k)"

text \<open>An operation is admitted by a lane: it is calm, or calm around one new row that does not clash.\<close>

definition admits :: "(lane_key \<Rightarrow> lane_key \<Rightarrow> bool) \<Rightarrow> db \<Rightarrow> db \<Rightarrow> bool" where
  "admits clash d d' = (wf_ids d' \<and> (calm d d'
     \<or> (\<exists>d1 d2 i k. calm d d1 \<and> unclashed clash d1 k \<and> active_keys d2 = active_keys d1 @ [(i, k)]
          \<and> calm d2 d')))"

locale lane =
  fixes clash :: "lane_key \<Rightarrow> lane_key \<Rightarrow> bool"
  assumes sym: "clash a b \<Longrightarrow> clash b a"
begin

lemma calm_free:
  assumes "calm d d'" and "lane_free clash d" shows "lane_free clash d'"
proof -
  have "subseq (active_keys d') (active_keys d)" using assms(1) by (simp add: calm_def)
  then show ?thesis using assms(2) unfolding lane_free_def by (rule sorted_wrt_of_subseq)
qed

lemma calm_unclashed: "calm d d' \<Longrightarrow> unclashed clash d k \<Longrightarrow> unclashed clash d' k"
  unfolding unclashed_def calm_def using subseq_set by blast

lemma add_free:
  assumes "lane_free clash d" and "unclashed clash d k" and "active_keys d' = active_keys d @ [(i, k)]"
  shows "lane_free clash d'"
  using assms by (simp add: lane_free_def unclashed_def sorted_wrt_append)

lemma admits_free: "admits clash d d' \<Longrightarrow> lane_free clash d \<Longrightarrow> lane_free clash d'"
  unfolding admits_def using calm_free add_free by metis

lemma free_apart:
  assumes "lane_free clash d" and "wf_ids d"
    and "j \<in> set (db_jobs d)" and "active j" and "j' \<in> set (db_jobs d)" and "active j'"
    and "clash (j_server_id j, j_job_type j) (j_server_id j', j_job_type j')"
  shows "j = j'"
proof (rule ccontr)
  assume ne: "j \<noteq> j'"
  let ?ks = "active_keys d"
  have in_ks: "job_key j \<in> set ?ks" "job_key j' \<in> set ?ks"
    using assms(3-6) by (auto simp: active_keys_def)
  obtain n m where n: "n < length ?ks" "?ks ! n = job_key j" and m: "m < length ?ks" "?ks ! m = job_key j'"
    using in_ks by (metis in_set_conv_nth)
  have "job_key j \<noteq> job_key j'"
    using ne assms(2,3,5) get_job_of_in by (metis Pair_inject job_key_def option.inject)
  then have "n \<noteq> m" using n m by metis
  then consider "n < m" | "m < n" by linarith
  then show False
  proof cases
    case 1
    then have "\<not> clash (snd (?ks ! n)) (snd (?ks ! m))"
      using assms(1) m(1) unfolding lane_free_def by (simp add: sorted_wrt_iff_nth_less)
    then show False using assms(7) n m by (simp add: job_key_def)
  next
    case 2
    then have "\<not> clash (snd (?ks ! m)) (snd (?ks ! n))"
      using assms(1) n(1) unfolding lane_free_def by (simp add: sorted_wrt_iff_nth_less)
    then show False using assms(7) sym n m by (auto simp: job_key_def)
  qed
qed

end

section \<open>Admitted operations, for any lane\<close>

lemma calm_admits: "calm d d' \<Longrightarrow> wf_ids d \<Longrightarrow> admits clash d d'"
  by (auto simp: admits_def intro: wf_ids_calm)

lemma admits_wf: "admits clash d d' \<Longrightarrow> wf_ids d'"
  by (simp add: admits_def)

lemma admits_calm: "admits clash d d' \<Longrightarrow> calm d' d'' \<Longrightarrow> admits clash d d''"
  unfolding admits_def using calm_trans wf_ids_calm by metis

lemma calm_admits_trans: "calm d d1 \<Longrightarrow> admits clash d1 d' \<Longrightarrow> admits clash d d'"
  unfolding admits_def using calm_trans by metis

lemma add_admits:
  assumes "unclashed clash d k" and "wf_ids d'" and "active_keys d' = active_keys d @ [(i, k)]"
  shows "admits clash d d'"
  using assms calm_refl unfolding admits_def by metis

lemma andthen_fst:
  "andthen m f = (d', r) \<Longrightarrow> (\<And>d1 x. m = (d1, Inl x) \<Longrightarrow> P d1) \<Longrightarrow>
     (\<And>d1 v s. m = (d1, Inr v) \<Longrightarrow> f d1 v = (d', s) \<Longrightarrow> P d') \<Longrightarrow> P d'"
  by (cases m; cases "snd m") auto

lemma queue_and_handoff_admits:
  assumes "queue_and_handoff e sid jt q uid txt extra payload d = (d', r)"
    and "wf_ids d" and "unclashed clash d (Some sid, jt)"
  shows "admits clash d d'"
proof -
  obtain d1 r1 where c: "create_queued_job_with_audit e (Some sid) jt q
      \<lparr>o_user_id = uid, o_api_token_id = None, o_api_token_name = None\<rparr> txt extra d = (d1, r1)"
    by fastforce
  have wf1: "wf_ids d1" using create_queued_adds(5) [OF c assms(2)] .
  have 1: "admits clash d d1"
    using add_admits [OF assms(3) wf1] create_queued_adds(3) [OF c] by blast
  show ?thesis
  proof (cases r1)
    case (Inl x)
    then show ?thesis using assms(1) 1 by (simp add: queue_and_handoff_def c)
  next
    case (Inr v)
    obtain i aid where v: "v = (i, aid)" by (cases v)
    obtain d2 r2 where h: "handoff_exclusive e i jt payload True d1 = (d2, r2)" by fastforce
    have "calm d1 d2" using h wf1 by (rule handoff_calm)
    moreover have "d' = d2"
      using assms(1) by (cases r2) (simp_all add: queue_and_handoff_def c Inr v h)
    ultimately show ?thesis using admits_calm [OF 1] by simp
  qed
qed

section \<open>The two lanes\<close>

definition exclusive_type :: "string \<Rightarrow> bool" where
  "exclusive_type jt = (jt \<in> set EXCLUSIVE_JOB_TYPES \<and> jt \<noteq> ''host_bootstrap'')"

text \<open>Two jobs of one host clash when they have the same exclusive type, or one is a reboot and
  the other a patch or a backup.\<close>

definition host_clash :: "lane_key \<Rightarrow> lane_key \<Rightarrow> bool" where
  "host_clash a b = (fst a = fst b \<and> fst a \<noteq> None \<and> fst a \<noteq> Some 0
     \<and> (snd a = snd b \<and> exclusive_type (snd a)
        \<or> snd a = ''host_reboot'' \<and> snd b \<in> set REBOOT_EXCLUDES
        \<or> snd b = ''host_reboot'' \<and> snd a \<in> set REBOOT_EXCLUDES))"

definition stack_clash :: "lane_key \<Rightarrow> lane_key \<Rightarrow> bool" where
  "stack_clash a b = (fst a = fst b \<and> fst a \<noteq> None \<and> fst a \<noteq> Some 0
     \<and> snd a \<in> set STACK_MUTATING_JOB_TYPES \<and> snd b \<in> set STACK_MUTATING_JOB_TYPES)"

interpretation host_lane: lane host_clash
  by unfold_locales (auto simp: host_clash_def)

interpretation stack_lane: lane stack_clash
  by unfold_locales (auto simp: stack_clash_def)

lemma unclashed_host:
  assumes "exclusive_type jt \<Longrightarrow> active_job_of_type d sid jt = None"
    and "jt = ''host_reboot'' \<Longrightarrow> first_active_type d sid REBOOT_EXCLUDES = None"
    and "jt \<in> set REBOOT_EXCLUDES \<Longrightarrow> active_job_of_type d sid ''host_reboot'' = None"
  shows "unclashed host_clash d (Some sid, jt)"
  using assms
  by (fastforce simp: unclashed_def host_clash_def active_job_of_type_None first_active_type_None)

lemma unclashed_stack:
  assumes "jt \<in> set STACK_MUTATING_JOB_TYPES \<Longrightarrow> active_stack_mutating_job d sid = None"
  shows "unclashed stack_clash d (Some sid, jt)"
  using assms
  by (fastforce simp: unclashed_def stack_clash_def active_stack_mutating_job_def first_active_type_None)

lemma stack_free_type:
  "active_stack_mutating_job d sid = None \<Longrightarrow> jt \<in> set STACK_MUTATING_JOB_TYPES \<Longrightarrow>
     active_job_of_type d sid jt = None"
  by (auto simp: active_stack_mutating_job_def first_active_type_None active_job_of_type_None)

lemma get_server_id: "get_server d sid = Some s \<Longrightarrow> s_id s = sid"
  by (auto simp: get_server_def dest: get_row_Some)

end
