(* ===== verification/Admission.thy ===== *)
theory Admission
  imports Lanes
begin

text \<open>
  Every enqueue of \<open>JobLanes\<close> and \<open>create_job_and_run\<close> is admitted by the host lane, and every
  enqueue of a stack mutation by the stack lane.
\<close>

lemmas enqueue_defs = enqueue_os_patch_apply_def enqueue_container_patch_apply_def
  enqueue_os_update_check_def enqueue_container_update_check_def enqueue_docker_stack_check_def
  enqueue_docker_stack_deploy_def enqueue_docker_stack_lifecycle_def enqueue_docker_stack_remove_def
  enqueue_template_deploy_def enqueue_template_redeploy_def enqueue_template_drift_check_def

definition enqueue_result ::
    "(lane_key \<Rightarrow> lane_key \<Rightarrow> bool) \<Rightarrow> db \<Rightarrow> db \<times> (exc + int option) \<Rightarrow> bool" where
  "enqueue_result clash d r = (wf_ids d \<longrightarrow> admits clash d (fst r))"

lemma enqueue_same [simp, intro]: "enqueue_result clash d (d, r)"
  by (simp add: enqueue_result_def calm_admits)

lemma enqueue_queue:
  "(wf_ids d \<Longrightarrow> unclashed clash d (Some sid, jt)) \<Longrightarrow>
     enqueue_result clash d (queue_and_handoff e sid jt q uid txt extra payload d)"
  unfolding enqueue_result_def using queue_and_handoff_admits by (metis prod.collapse)

lemma enqueue_unless:
  "(b = Inr None \<Longrightarrow> enqueue_result clash d go) \<Longrightarrow> enqueue_result clash d (unless_blocked b d go)"
  by (auto simp: unless_blocked_def split: sum.splits option.splits)

lemma stack_blocker_None: "stack_blocker d sid jt path fallback = Inr None \<Longrightarrow> fallback = None"
  by (auto simp: stack_blocker_def split: option.splits elim!: rbind_InrE)

text \<open>A stack mutation whose host has no active stack job clashes in neither lane.\<close>

lemma unclashed_mutation:
  assumes "active_stack_mutating_job d sid = None" and "jt \<in> set STACK_MUTATING_JOB_TYPES"
  shows "unclashed host_clash d (Some sid, jt)" and "unclashed stack_clash d (Some sid, jt)"
proof -
  have "jt \<noteq> ''host_reboot''" and "jt \<notin> set REBOOT_EXCLUDES"
    using assms(2) by (auto simp: STACK_MUTATING_JOB_TYPES_def REBOOT_EXCLUDES_def)
  then show "unclashed host_clash d (Some sid, jt)"
    using stack_free_type [OF assms] by (intro unclashed_host) auto
  show "unclashed stack_clash d (Some sid, jt)" using assms(1) by (intro unclashed_stack)
qed

lemma unclashed_single:
  assumes "active_job_of_type d sid jt = None" and "jt \<noteq> ''host_reboot''" and "jt \<notin> set REBOOT_EXCLUDES"
    and "jt \<notin> set STACK_MUTATING_JOB_TYPES"
  shows "unclashed host_clash d (Some sid, jt)" and "unclashed stack_clash d (Some sid, jt)"
  using assms by (auto intro: unclashed_host unclashed_stack)

lemma not_stack_types [simp]:
  "''docker_stack_check'' \<notin> set STACK_MUTATING_JOB_TYPES"
  "''template_drift_check'' \<notin> set STACK_MUTATING_JOB_TYPES"
  "''os_update_check'' \<notin> set STACK_MUTATING_JOB_TYPES"
  "''container_update_check'' \<notin> set STACK_MUTATING_JOB_TYPES"
  "''os_patch'' \<notin> set STACK_MUTATING_JOB_TYPES"
  "''container_patch'' \<notin> set STACK_MUTATING_JOB_TYPES"
  "''backup'' \<notin> set STACK_MUTATING_JOB_TYPES"
  "''herder_backup'' \<notin> set STACK_MUTATING_JOB_TYPES"
  by (simp_all add: STACK_MUTATING_JOB_TYPES_def)

lemma stack_types [simp]:
  "''docker_stack_deploy'' \<in> set STACK_MUTATING_JOB_TYPES"
  "''docker_stack_remove'' \<in> set STACK_MUTATING_JOB_TYPES"
  "''template_deploy'' \<in> set STACK_MUTATING_JOB_TYPES"
  "''template_redeploy'' \<in> set STACK_MUTATING_JOB_TYPES"
  "''service_migrate'' \<in> set STACK_MUTATING_JOB_TYPES"
  "''service_migrate_undo'' \<in> set STACK_MUTATING_JOB_TYPES"
  "''service_migrate_dest_recover'' \<in> set STACK_MUTATING_JOB_TYPES"
  by (simp_all add: STACK_MUTATING_JOB_TYPES_def)

lemma plain_types [simp]:
  "''docker_stack_check'' \<notin> set REBOOT_EXCLUDES" "''template_drift_check'' \<notin> set REBOOT_EXCLUDES"
  "''os_update_check'' \<notin> set REBOOT_EXCLUDES" "''container_update_check'' \<notin> set REBOOT_EXCLUDES"
  "''os_patch'' \<in> set REBOOT_EXCLUDES" "''container_patch'' \<in> set REBOOT_EXCLUDES"
  "''backup'' \<in> set REBOOT_EXCLUDES" "''host_reboot'' \<notin> set REBOOT_EXCLUDES"
  by (simp_all add: REBOOT_EXCLUDES_def)

lemma mutation_both:
  "active_stack_mutating_job d sid = None \<Longrightarrow> jt \<in> set STACK_MUTATING_JOB_TYPES \<Longrightarrow>
     clash = host_clash \<or> clash = stack_clash \<Longrightarrow> unclashed clash d (Some sid, jt)"
  using unclashed_mutation by blast

lemma single_both:
  "active_job_of_type d sid jt = None \<Longrightarrow> jt \<noteq> ''host_reboot'' \<Longrightarrow> jt \<notin> set REBOOT_EXCLUDES \<Longrightarrow>
     jt \<notin> set STACK_MUTATING_JOB_TYPES \<Longrightarrow> clash = host_clash \<or> clash = stack_clash \<Longrightarrow>
     unclashed clash d (Some sid, jt)"
  using unclashed_single by blast

lemma patch_both:
  "active_job_of_type d sid jt = None \<Longrightarrow> active_job_of_type d sid ''host_reboot'' = None \<Longrightarrow>
     jt \<noteq> ''host_reboot'' \<Longrightarrow> jt \<notin> set STACK_MUTATING_JOB_TYPES \<Longrightarrow>
     clash = host_clash \<or> clash = stack_clash \<Longrightarrow> unclashed clash d (Some sid, jt)"
  by (auto intro: unclashed_host unclashed_stack)

definition a_lane :: "(lane_key \<Rightarrow> lane_key \<Rightarrow> bool) \<Rightarrow> bool" where
  "a_lane clash = (clash = host_clash \<or> clash = stack_clash)"

lemma os_patch_admitted: "a_lane clash \<Longrightarrow> enqueue_result clash d (enqueue_os_patch_apply e sid uid sch st d)"
  by (auto simp: a_lane_def enqueue_os_patch_apply_def Let_def dest!: get_server_id stack_blocker_None
      split: option.splits intro!: enqueue_unless enqueue_queue patch_both)

lemma container_patch_admitted: "a_lane clash \<Longrightarrow> enqueue_result clash d (enqueue_container_patch_apply e sid uid sch d)"
  by (auto simp: a_lane_def enqueue_container_patch_apply_def Let_def dest!: get_server_id stack_blocker_None
      split: option.splits intro!: enqueue_unless enqueue_queue patch_both)

lemma os_check_admitted: "a_lane clash \<Longrightarrow> enqueue_result clash d (enqueue_os_update_check e sid uid d)"
  by (auto simp: a_lane_def enqueue_os_update_check_def Let_def dest!: get_server_id stack_blocker_None
      split: option.splits intro!: enqueue_unless enqueue_queue single_both)

lemma image_check_admitted: "a_lane clash \<Longrightarrow> enqueue_result clash d (enqueue_container_update_check e sid uid d)"
  by (auto simp: a_lane_def enqueue_container_update_check_def Let_def dest!: get_server_id stack_blocker_None
      split: option.splits intro!: enqueue_unless enqueue_queue single_both)

lemma stack_check_admitted: "a_lane clash \<Longrightarrow> enqueue_result clash d (enqueue_docker_stack_check e sid path uid d)"
  by (auto simp: a_lane_def enqueue_docker_stack_check_def Let_def dest!: get_server_id stack_blocker_None
      split: option.splits intro!: enqueue_unless enqueue_queue single_both)

lemma stack_deploy_admitted: "a_lane clash \<Longrightarrow> enqueue_result clash d (enqueue_docker_stack_deploy e sid path pull files uid d)"
  by (auto simp: a_lane_def enqueue_docker_stack_deploy_def Let_def dest!: get_server_id stack_blocker_None
      split: option.splits intro!: enqueue_unless enqueue_queue mutation_both)

lemma stack_lifecycle_admitted: "a_lane clash \<Longrightarrow> enqueue_result clash d (enqueue_docker_stack_lifecycle e sid path act uid vols d)"
  by (auto simp: a_lane_def enqueue_docker_stack_lifecycle_def Let_def dest!: get_server_id stack_blocker_None
      split: option.splits intro!: enqueue_unless enqueue_queue mutation_both)
    (auto simp: STACK_LIFECYCLE_ACTIONS_def STACK_MUTATING_JOB_TYPES_def)

lemma stack_remove_admitted: "a_lane clash \<Longrightarrow> enqueue_result clash d (enqueue_docker_stack_remove e sid path wipe uid d)"
  by (auto simp: a_lane_def enqueue_docker_stack_remove_def Let_def dest!: get_server_id stack_blocker_None
      split: option.splits intro!: enqueue_unless enqueue_queue mutation_both)

lemma template_deploy_admitted: "a_lane clash \<Longrightarrow> enqueue_result clash d (enqueue_template_deploy e sid slug vals now uid d)"
  by (auto simp: a_lane_def enqueue_template_deploy_def Let_def dest!: get_server_id stack_blocker_None
      split: option.splits json.splits intro!: enqueue_unless enqueue_queue mutation_both)

lemma template_redeploy_admitted: "a_lane clash \<Longrightarrow> enqueue_result clash d (enqueue_template_redeploy e sid dep pub secs now uid d)"
  by (auto simp: a_lane_def enqueue_template_redeploy_def Let_def dest!: get_server_id stack_blocker_None
      split: option.splits intro!: enqueue_unless enqueue_queue mutation_both)

lemma template_drift_admitted: "a_lane clash \<Longrightarrow> enqueue_result clash d (enqueue_template_drift_check e sid dep uid d)"
  by (auto simp: a_lane_def enqueue_template_drift_check_def Let_def dest!: get_server_id stack_blocker_None
      split: option.splits intro!: enqueue_unless enqueue_queue single_both)

section \<open>Backups\<close>

lemma stale_sweep_calm: "stale_sweep e d = (d', r) \<Longrightarrow> calm d d'"
  unfolding stale_sweep_def
  by (erule commit_calm) (auto simp: sweeps_def elim!: rbind_InrE dest!: cleanup_stale_sweeps)

lemma publish_backup_calm:
  assumes "publish_backup e so i og sf m1 m2 d = (d', r)" shows "calm d d'"
proof -
  have mark: "calm x (fst (commit x (mark_job_terminal e i m ''failed'' True x)))" for x m
    by (cases "mark_job_terminal e i m ''failed'' True x") (auto dest: mark_terminal_calm)
  have pub: "calm x (upd_job i (set_task_id t) (emit y x))" for x y t
    using calm_others(3) set_task_id_calm by (rule calm_trans)
  have ev: "calm d (fst (commit d (rbind (record_backup_audit_event e p1 v1 d)
      (record_backup_audit_event e p2 v2))))" for p1 v1 p2 v2
    by (cases "rbind (record_backup_audit_event e p1 v1 d) (record_backup_audit_event e p2 v2)")
      (auto elim!: rbind_InrE dest!: record_event_calm intro: calm_trans)
  show ?thesis
    using assms unfolding publish_backup_def
    by (elim andthen_calm) (use ev mark pub in \<open>auto simp: Let_def split: if_splits sum.splits elim!: andthen_calm\<close>)
qed

lemma andthen_admits:
  assumes "andthen m f = (d', r)" and "admits clash d (fst m)"
    and "\<And>d1 v x s. m = (d1, Inr v) \<Longrightarrow> f d1 v = (x, s) \<Longrightarrow> calm d1 x"
  shows "admits clash d d'"
  using assms by (cases m; cases "snd m") (auto intro: admits_calm)

lemma add_job_admits:
  "wf_ids d \<Longrightarrow> unclashed clash d (sid, jt) \<Longrightarrow> admits clash d (add_job e sid jt det d)"
  by (rule add_admits) (simp_all add: wf_ids_add_job active_keys_add_job)

lemma get_added: "wf_ids d \<Longrightarrow> settled (add_job e sid jt det d) (db_next_job d)"
  by (simp add: settled_def get_job_add_job active_def)

lemma demo_result_calm:
  assumes "demo_result e i og sf d = (d', r)" and "wf_ids d" and "settled d i" shows "calm d d'"
proof -
  have 1: "calm d (start_demo_job e i d)" using assms(2,3) by (rule start_demo_calm)
  have 2: "calm (start_demo_job e i d) (fst (finish_demo_job e i og x (start_demo_job e i d)))" for x
    using finish_demo_calm [OF _ wf_ids_calm [OF 1 assms(2)] start_demo_settled] by (metis prod.collapse)
  show ?thesis
    using assms(1) calm_trans [OF 1 2] by (auto simp: demo_result_def elim!: andthen_calm)
qed

lemma unclashed_backup:
  "active_job_of_type d sid ''host_reboot'' = None \<Longrightarrow> a_lane clash \<Longrightarrow> unclashed clash d (Some sid, ''backup'')"
  by (auto simp: a_lane_def exclusive_type_def EXCLUSIVE_JOB_TYPES_def intro!: unclashed_host unclashed_stack)

lemma backup_tail_admitted:
  assumes "wf_ids d" and "unclashed clash d (sid, ''backup'')"
    and "d1 = add_job e sid ''backup'' det d"
    and "(if e_demo e then demo_result e (db_next_job d) og sf d1
          else andthen (publish_backup e so (db_next_job d) og sf m1 m2 d1) (\<lambda>d2 _. (d2, Inr i))) = (d', r)"
  shows "admits clash d d'"
proof -
  have 1: "admits clash d d1" using assms(1-3) by (simp add: add_job_admits)
  have "wf_ids d1" "settled d1 (db_next_job d)"
    using assms(1,3) by (simp_all add: wf_ids_add_job get_added)
  then have "calm d1 d'"
    using assms(4) publish_backup_calm
    by (auto split: if_splits intro: demo_result_calm elim!: andthen_calm) (metis prod.collapse)
  with 1 show ?thesis by (rule admits_calm)
qed

lemma backup_admitted:
  assumes "a_lane clash" and "enqueue_backup_for_server e srv uid sf sch d0 = (d', r)" and "wf_ids d0"
  shows "admits clash d0 d'"
proof -
  obtain d r1 where sw: "stale_sweep e d0 = (d, r1)" by fastforce
  have c: "calm d0 d" using sw by (rule stale_sweep_calm)
  then have wf: "wf_ids d" using assms(3) wf_ids_calm by blast
  have "admits clash d d'"
  proof (cases r1)
    case (Inl x)
    then show ?thesis using assms(2) wf by (simp add: enqueue_backup_for_server_def sw calm_admits)
  next
    case (Inr u)
    show ?thesis
    proof (cases "active_job_of_type d (s_id srv) ''host_reboot''")
      case None
      show ?thesis
      proof (cases "get_active_job_for_source d (s_id srv) (opt_json sf)")
        case no: None
        show ?thesis
          by (rule backup_tail_admitted [OF wf unclashed_backup [OF None assms(1)] refl])
            (use assms(2) None no in \<open>simp add: enqueue_backup_for_server_def sw Inr Let_def\<close>)
      qed (use assms(2) None Inr wf in \<open>auto simp: enqueue_backup_for_server_def sw calm_admits\<close>)
    qed (use assms(2) Inr wf in \<open>auto simp: enqueue_backup_for_server_def sw calm_admits\<close>)
  qed
  with c show ?thesis by (rule calm_admits_trans)
qed

end
