(* ===== verification/CreateFacts.thy ===== *)
theory CreateFacts
  imports Admission
begin

text \<open>\<open>create_job_and_run\<close> is admitted by the host lane for every job type, and by the stack lane for
  the types whose guard looks at that lane.\<close>

lemma calm_no_active:
  "calm d d' \<Longrightarrow> active_job_of_type d sid jt = None \<Longrightarrow> active_job_of_type d' sid jt = None"
  unfolding active_job_of_type_None calm_def using subseq_set by blast

lemma calm_no_first:
  "calm d d' \<Longrightarrow> first_active_type d sid jts = None \<Longrightarrow> first_active_type d' sid jts = None"
  unfolding first_active_type_None calm_def using subseq_set by blast

lemma blocked_by_Inr: "blocked_by jo = Inr u \<Longrightarrow> jo = None"
  by (cases jo) (auto simp: blocked_by_def)

lemma create_guards_calm:
  assumes "create_guards e so rq d = (d1, r)" shows "calm d d1"
proof -
  have "calm d (fst (andthen (stale_sweep e d) (\<lambda>d1 _. (d1, backup_guard d1 so sf))))" for sf
    by (cases "stale_sweep e d"; cases "snd (stale_sweep e d)") (auto dest: stale_sweep_calm)
  then have m: "calm d (fst (if jt = ''backup'' then andthen (stale_sweep e d) (\<lambda>d1 _. (d1, backup_guard d1 so sf))
      else (d, Inr ())))" for jt sf
    by simp
  show ?thesis
  proof (cases "rbind (reboot_guard d so (r_job_type rq)) (\<lambda>_. service_guard d so rq)")
    case (Inl x)
    then show ?thesis using assms by (simp add: create_guards_def)
  next
    case (Inr v)
    obtain sf svc where "v = (sf, svc)" by (cases v)
    with Inr assms show ?thesis
      by (simp only: create_guards_def Let_def sum.case prod.case) (erule andthen_calm, rule m, simp)
  qed
qed

text \<open>What an accepted request has passed.\<close>

lemma create_guards_passed:
  assumes g: "create_guards e (Some s) rq d = (d1, Inr p)" and c: "calm d d1" and id: "s_id s \<noteq> 0"
  shows "exclusive_type (r_job_type rq) \<Longrightarrow> active_job_of_type d1 (s_id s) (r_job_type rq) = None"
    and "r_job_type rq = ''host_reboot'' \<Longrightarrow> first_active_type d1 (s_id s) REBOOT_EXCLUDES = None"
    and "r_job_type rq \<in> set REBOOT_EXCLUDES \<Longrightarrow> active_job_of_type d1 (s_id s) ''host_reboot'' = None"
    and "r_job_type rq \<in> set CONTAINER_SERVICE_JOB_TYPES \<Longrightarrow> active_stack_mutating_job d1 (s_id s) = None"
proof -
  let ?jt = "r_job_type rq"
  obtain sf svc where rb: "reboot_guard d (Some s) ?jt = Inr ()"
    and sv: "service_guard d (Some s) rq = Inr (sf, svc)"
    using g by (auto simp: create_guards_def Let_def split: sum.splits elim!: rbind_InrE)
  show "active_job_of_type d1 (s_id s) ?jt = None" if "exclusive_type ?jt"
  proof -
    have "type_guard d1 (Some s) ?jt = Inr ()"
      using g rb sv
      by (auto simp: create_guards_def Let_def andthen_def split: prod.splits sum.splits if_splits elim!: rbind_InrE)
    then show ?thesis using that by (auto simp: type_guard_def exclusive_type_def dest: blocked_by_Inr)
  qed
  show "first_active_type d1 (s_id s) REBOOT_EXCLUDES = None" if "?jt = ''host_reboot''"
    using rb id that calm_no_first [OF c]
    by (auto simp: reboot_guard_def reboot_lane_blocker_def dest: blocked_by_Inr)
  show "active_job_of_type d1 (s_id s) ''host_reboot'' = None" if "?jt \<in> set REBOOT_EXCLUDES"
    using rb id that calm_no_active [OF c]
    by (auto simp: reboot_guard_def reboot_lane_blocker_def dest!: blocked_by_Inr split: if_splits)
  show "active_stack_mutating_job d1 (s_id s) = None" if "?jt \<in> set CONTAINER_SERVICE_JOB_TYPES"
    using sv id that calm_no_first [OF c]
    by (auto simp: service_guard_def active_stack_mutating_job_def elim!: rbind_InrE dest!: blocked_by_Inr)
qed

lemma create_unclashed_host:
  assumes "create_guards e so rq d = (d1, Inr p)"
  shows "unclashed host_clash d1 (map_option s_id so, r_job_type rq)"
proof (cases so)
  case None
  then show ?thesis by (auto simp: unclashed_def host_clash_def)
next
  case (Some s)
  show ?thesis
  proof (cases "s_id s = 0")
    case True
    then show ?thesis by (simp add: Some unclashed_def host_clash_def)
  next
    case False
    have "create_guards e (Some s) rq d = (d1, Inr p)" using assms Some by simp
    from create_guards_passed [OF this create_guards_calm [OF this] False]
    show ?thesis by (simp add: Some unclashed_host)
  qed
qed

lemma create_unclashed_stack:
  assumes "create_guards e so rq d = (d1, Inr p)"
    and "r_job_type rq \<in> set STACK_MUTATING_JOB_TYPES \<Longrightarrow> r_job_type rq \<in> set CONTAINER_SERVICE_JOB_TYPES"
  shows "unclashed stack_clash d1 (map_option s_id so, r_job_type rq)"
proof (cases so)
  case None
  then show ?thesis by (auto simp: unclashed_def stack_clash_def)
next
  case (Some s)
  show ?thesis
  proof (cases "s_id s = 0")
    case True
    then show ?thesis by (simp add: Some unclashed_def stack_clash_def)
  next
    case False
    have "create_guards e (Some s) rq d = (d1, Inr p)" using assms(1) Some by simp
    from create_guards_passed(4) [OF this create_guards_calm [OF this] False]
    show ?thesis using assms(2) by (simp add: Some unclashed_stack)
  qed
qed

section \<open>The hand-off is calm\<close>

lemma fail_housekeeping_calm: "fail_housekeeping_open e i aid jt m d = Inr d' \<Longrightarrow> wf_ids d \<Longrightarrow> calm d d'"
  by (auto simp: fail_housekeeping_open_def Let_def split: option.splits if_splits intro: finish_calm)

lemma handoff_housekeeping_calm:
  assumes "handoff_housekeeping e i aid jt rn d = (d', r)" and "wf_ids d" shows "calm d d'"
proof -
  have fail: "calm d (fst (commit d (fail_housekeeping_open e i aid jt m d)))" for m
    by (cases "fail_housekeeping_open e i aid jt m d") (auto simp: assms(2) dest: fail_housekeeping_calm)
  have pub: "calm d (upd_job i (set_task_id t) (emit y d))" for y t
    using calm_others(3) set_task_id_calm by (rule calm_trans)
  show ?thesis
    using assms(1) fail pub
    by (auto simp: handoff_housekeeping_def Let_def split: if_splits sum.splits elim!: andthen_calm)
qed

lemma dispatch_calm:
  assumes "dispatch_job e so rq p i aid d = (d', r)" and "wf_ids d" shows "calm d d'"
proof -
  have "calm d (fst (commit d (fail_and_close e j m d)))" for j m
    by (cases "fail_and_close e j m d") (auto dest: fail_and_close_step)
  moreover have "dispatch_bootstrap e rq s i d = (d', r) \<Longrightarrow> calm d d'" for s
    using calculation assms(2)
    by (auto simp: dispatch_bootstrap_def split: option.splits dest: handoff_calm) (metis fst_conv)
  ultimately show ?thesis
    using assms by (auto simp: dispatch_job_def Let_def split: if_splits option.splits
        dest: handoff_housekeeping_calm handoff_calm)
qed

lemma start_audit_calm: "calm d (start_audit e so rq p i det d)"
  by (simp add: start_audit_def Let_def)

lemma create_admits:
  assumes "create_job_and_run e so rq d0 = (d', r)" and "wf_ids d0"
    and un: "\<And>d p. create_guards e so rq d0 = (d, Inr p) \<Longrightarrow> unclashed clash d (map_option s_id so, r_job_type rq)"
  shows "admits clash d0 d'"
proof -
  obtain d r1 where g: "create_guards e so rq d0 = (d, r1)" by fastforce
  have c: "calm d0 d" using g by (rule create_guards_calm)
  then have wf: "wf_ids d" using assms(2) wf_ids_calm by blast
  have "admits clash d d'"
  proof (cases r1)
    case (Inl x)
    then show ?thesis using assms(1) wf by (simp add: create_job_and_run_def g calm_admits)
  next
    case (Inr p)
    let ?d1 = "add_job e (map_option s_id so) (r_job_type rq) (Text (JObj (create_details e rq p))) d"
    let ?d2 = "start_audit e so rq p (db_next_job d) (create_details e rq p) ?d1"
    have 1: "admits clash d ?d1" using wf un g Inr by (simp add: add_job_admits)
    have wf1: "wf_ids ?d1" using wf by (rule wf_ids_add_job)
    have 2: "calm ?d1 ?d2" by (rule start_audit_calm)
    then have wf2: "wf_ids ?d2" using wf1 wf_ids_calm by blast
    have disp: "calm ?d1 (fst (dispatch_job e so rq p (db_next_job d) a ?d2))" for a
      using calm_trans [OF 2] dispatch_calm [OF _ wf2] by (metis prod.collapse)
    have pub: "calm ?d1 (fst (publish_backup e so i og sf m1 m2 ?d1))" for i og sf m1 m2
      using publish_backup_calm by (metis prod.collapse)
    have "calm ?d1 d'"
      using assms(1) disp pub demo_result_calm [OF _ wf1 get_added [OF wf]]
      by (auto simp: create_job_and_run_def g Inr Let_def split: if_splits elim!: andthen_calm)
    with 1 show ?thesis by (rule admits_calm)
  qed
  with c show ?thesis by (rule calm_admits_trans)
qed

lemma create_admitted_host:
  "create_job_and_run e so rq d = (d', r) \<Longrightarrow> wf_ids d \<Longrightarrow> admits host_clash d d'"
  by (rule create_admits) (auto intro: create_unclashed_host)

lemma create_admitted_stack:
  "create_job_and_run e so rq d = (d', r) \<Longrightarrow> wf_ids d \<Longrightarrow>
     (r_job_type rq \<in> set STACK_MUTATING_JOB_TYPES \<Longrightarrow> r_job_type rq \<in> set CONTAINER_SERVICE_JOB_TYPES) \<Longrightarrow>
     admits stack_clash d d'"
  by (rule create_admits) (auto intro: create_unclashed_stack)

end
