(* ===== verification/Housekeeping.thy ===== *)
theory Housekeeping
  imports CreateFacts
begin

text \<open>
  Retention and self-backup on the default queue (\<open>app/services/jobs/service.py\<close>). The work of a
  run is a parameter: what \<open>run_retention\<close> returns, or the archive path
  \<open>create_herder_backup\<close> writes, or the text of their exception.
\<close>

section \<open>Executors\<close>

definition merge_if_present :: "int \<Rightarrow> dict \<Rightarrow> db \<Rightarrow> exc + db" where
  "merge_if_present i kvs d = (case get_job d i of
     None \<Rightarrow> Inr d
   | Some j \<Rightarrow> rbind (merge_job_details kvs j) (\<lambda>j'. Inr (upd_job i (\<lambda>r. r\<lparr>j_details := j_details j'\<rparr>) d)))"

text \<open>\<open>_mark_housekeeping_running\<close>: no look at the old status except for the start stamp.\<close>

definition set_running :: "env \<Rightarrow> job \<Rightarrow> job" where
  "set_running e j = (if j_status j = ''running'' then j
     else j\<lparr>j_status := ''running'',
            j_started_at := (case j_started_at j of None \<Rightarrow> Some (e_now e) | Some t \<Rightarrow> Some t)\<rparr>)"

definition mark_housekeeping_running :: "env \<Rightarrow> int \<Rightarrow> string \<Rightarrow> string \<Rightarrow> db \<Rightarrow> exc + db" where
  "mark_housekeeping_running e i current log_line d = (case get_job d i of
     None \<Rightarrow> Inr d
   | Some j \<Rightarrow> merge_if_present i [(''current'', JStr current), (''log_line'', JStr log_line), (''done'', JBool False)]
       (upd_job i (set_running e) d))"

definition herder_backup_flags :: "job option \<Rightarrow> bool \<times> bool" where
  "herder_backup_flags jo =
     (let data = (case jo of None \<Rightarrow> [] | Some j \<Rightarrow> load_dict (j_details j)) in
      if dget data ''config_only'' \<noteq> None \<or> dget data ''include_audit'' \<noteq> None
      then (truthy (dget0 data ''include_audit''),
            case dget data ''config_only'' of None \<Rightarrow> True | Some v \<Rightarrow> truthy v)
      else (False, True))"

text \<open>The host name for messages: the host name, else the name, else the id.\<close>

definition host_label :: "db \<Rightarrow> int \<Rightarrow> string" where
  "host_label d sid = (case get_server d sid of None \<Rightarrow> int_str sid
     | Some s \<Rightarrow> if s_hostname s \<noteq> [] then s_hostname s else if s_name s \<noteq> [] then s_name s else int_str sid)"

text \<open>\<open>try: first except Exception as e: _finish(failed, str(e))\<close>.\<close>

definition or_fail :: "env \<Rightarrow> int \<Rightarrow> int \<Rightarrow> string \<Rightarrow> string \<Rightarrow> db \<times> (exc + unit) \<Rightarrow> db \<times> (exc + unit)" where
  "or_fail e i aid hostname jt m = (case m of
     (d, Inl x) \<Rightarrow> commit d (finish e aid i ''failed'' (Plain (exc_text e x)) hostname jt d)
   | (d, Inr u) \<Rightarrow> (d, Inr u))"

definition execute_retention :: "env \<Rightarrow> string + snippet \<Rightarrow> int \<Rightarrow> int \<Rightarrow> int \<Rightarrow> db \<Rightarrow> db \<times> (exc + unit)" where
  "execute_retention e work i sid aid d =
     (let hostname = host_label d sid in
      andthen (commit d (mark_housekeeping_running e i ''cleaning'' (''Retention cleanup started'' @ dots) d))
        (\<lambda>d1 _. if get_server d1 sid = None then
            commit d1 (finish e aid i ''failed'' (Plain ''Server not found'') hostname ''retention'' d1)
          else or_fail e i aid hostname ''retention''
            (andthen (commit d1 (merge_if_present i [(''current'', JStr ''cleaning''),
                (''log_line'', JStr (''Cleaning old backups for '' @ hostname @ dots))] d1)) (\<lambda>d2 _.
             case work of
               Inl err \<Rightarrow> (d2, Inl (RuntimeError err))
             | Inr sn \<Rightarrow> andthen (commit d2 (merge_if_present i [(''current'', JStr ''finishing''),
                   (''log_line'', JStr (''Retention result: '' @ take 200 (snip_text sn)))] d2)) (\<lambda>d3 _.
                 commit d3 (finish e aid i ''success'' sn hostname ''retention'' d3))))))"

text \<open>The same with the alert that a self-backup failed.\<close>

definition herder_or_notify :: "env \<Rightarrow> int \<Rightarrow> int \<Rightarrow> db \<times> (exc + unit) \<Rightarrow> db \<times> (exc + unit)" where
  "herder_or_notify e i aid m = (case m of
     (d, Inl x) \<Rightarrow> andthen (commit d (finish e aid i ''failed'' (Plain (exc_text e x)) ''piherder'' ''herder_backup'' d))
       (\<lambda>d1 _. (emit (NotifiedHerderFailed (exc_text e x) ''/herder-backups'') d1, Inr ()))
   | (d, Inr u) \<Rightarrow> (d, Inr u))"

definition execute_herder_backup :: "env \<Rightarrow> (bool \<Rightarrow> bool \<Rightarrow> string + string) \<Rightarrow> int \<Rightarrow> int \<Rightarrow> db \<Rightarrow> db \<times> (exc + unit)" where
  "execute_herder_backup e archive i aid d =
     (let (include_audit, config_only) = herder_backup_flags (get_job d i) in
      andthen (commit d (mark_housekeeping_running e i ''archiving'' (''PiHerder backup started'' @ dots) d))
        (\<lambda>d1 _. herder_or_notify e i aid (case archive include_audit config_only of
             Inl err \<Rightarrow> (d1, Inl (RuntimeError err))
           | Inr path \<Rightarrow> andthen (commit d1 (finish e aid i ''success''
                 (Dumped (JObj [(''path'', JStr path)])) ''piherder'' ''herder_backup'' d1))
               (\<lambda>d2 _. (emit (OfferedArchive path) (emit ResolvedHerderFailed d2), Inr ())))))"

section \<open>The task body\<close>

record works =
  w_retention :: "string + snippet"
  w_archive :: "bool \<Rightarrow> bool \<Rightarrow> string + string"

definition housekeeping_work :: "env \<Rightarrow> works \<Rightarrow> int \<Rightarrow> int \<Rightarrow> int \<Rightarrow> string \<Rightarrow> db \<Rightarrow> db \<times> (exc + unit)" where
  "housekeeping_work e w i sid aid jt d =
     (if jt = ''retention'' then execute_retention e (w_retention w) i sid aid d
      else if jt = ''herder_backup'' then execute_herder_backup e (w_archive w) i aid d
      else (d, Inr ()))"

definition housekeeping_try ::
    "env \<Rightarrow> works \<Rightarrow> celery_request \<Rightarrow> int \<Rightarrow> int \<Rightarrow> int \<Rightarrow> string \<Rightarrow> db \<Rightarrow> db \<times> (exc + outcome)" where
  "housekeeping_try e w req i sid aid job_type d = (case get_job d i of
     None \<Rightarrow> (d, Inr (Skipped None))
   | Some j \<Rightarrow>
       (let jt = (if j_job_type j \<noteq> [] then j_job_type j else job_type) in
        if jt \<notin> set HOUSEKEEPING_JOB_TYPES then (d, Inr (Skipped (Some jt)))
        else if j_status j = ''cancelled'' then (d, Inr CancelledOut)
        else if \<not> active j then (d, Inr (Skipped (Some (j_status j))))
        else let d1 = upd_job i (claim_row req) d;
                 host = (if sid \<noteq> 0 then sid else case j_server_id j of Some s \<Rightarrow> s | None \<Rightarrow> 0) in
          if j_status j = ''running'' then
            andthen (commit d1 (fail_housekeeping_open e i aid jt redelivery_message d1))
              (\<lambda>d2 _. (d2, Inr (FailedOut ''worker_restart'')))
          else andthen (housekeeping_work e w i host aid jt d1) (\<lambda>d2 _. (d2, Inr OkOut))))"

definition run_housekeeping_job ::
    "env \<Rightarrow> works \<Rightarrow> celery_request \<Rightarrow> int \<Rightarrow> int \<Rightarrow> int \<Rightarrow> string \<Rightarrow> db \<Rightarrow> db \<times> (exc + outcome)" where
  "run_housekeeping_job e w req i sid aid job_type d =
     (let jt = (case get_job d i of Some j \<Rightarrow> if j_job_type j \<noteq> [] then j_job_type j else job_type
                | None \<Rightarrow> job_type) in
      case housekeeping_try e w req i sid aid job_type d of
        (d1, Inr out) \<Rightarrow> (d1, Inr out)
      | (d1, Inl x) \<Rightarrow> andthen (commit d1 (fail_housekeeping_open e i aid jt (take 800 (exc_text e x)) d1))
          (\<lambda>d2 _. (d2, Inr ErrorOut)))"

section \<open>Self-backups\<close>

definition HERDER_BACKUP_PENDING_SEC :: int where "HERDER_BACKUP_PENDING_SEC = 30 * 60"

text \<open>The newest running audit row whose text mentions \<open>Job #N\<close>; 0 when there is none.\<close>

definition open_herder_audit_id :: "db \<Rightarrow> int \<Rightarrow> int" where
  "open_herder_audit_id d i =
     (case find (\<lambda>a. contains (text_of (a_details a)) (job_needle i))
        (sort_key (\<lambda>a. - a_id a)
          (filter (\<lambda>a. a_action a = ''herder_backup'' \<and> a_status a = ''running'') (db_audits d))) of
       Some a \<Rightarrow> a_id a | None \<Rightarrow> 0)"

definition pending_message :: "int \<Rightarrow> int \<Rightarrow> string" where
  "pending_message i mins =
     ''PiHerder self-backup #'' @ int_str i @ '' stayed pending for '' @ int_str mins @ '' minutes. ''
     @ ''No worker started it. The job was stopped so the next backup can run.''"

definition expire_one :: "env \<Rightarrow> job \<Rightarrow> db \<Rightarrow> db \<times> (exc + unit)" where
  "expire_one e j d =
     (let i = j_id j; age = e_now e - j_created_at j;
          msg = pending_message i (max 1 (age div minutes 1)) in
      andthen (commit d (fail_housekeeping_open e i (open_herder_audit_id d i) ''herder_backup'' msg d))
        (\<lambda>d1 _. andthen (commit d1 (merge_if_present i [(''error'', JStr msg), (''current'', JStr ''failed'')] d1))
          (\<lambda>d2 _. (emit (NotifiedHerderFailed msg (''/jobs?highlight='' @ int_str i)) d2, Inr ()))))"

fun expire_loop :: "env \<Rightarrow> job list \<Rightarrow> int list \<Rightarrow> db \<Rightarrow> db \<times> (exc + int list)" where
  "expire_loop e [] failed d = (d, Inr failed)"
| "expire_loop e (j # js) failed d =
     (if e_now e - j_created_at j < seconds HERDER_BACKUP_PENDING_SEC then expire_loop e js failed d
      else andthen (expire_one e j d) (\<lambda>d1 _. expire_loop e js (failed @ [j_id j]) d1))"

definition expire_stale_pending_herder_backups :: "env \<Rightarrow> db \<Rightarrow> db \<times> (exc + int list)" where
  "expire_stale_pending_herder_backups e d = expire_loop e
     (filter (\<lambda>j. j_job_type j = ''herder_backup'' \<and> j_status j = ''pending'') (db_jobs d)) [] d"

definition active_herder_backup :: "db \<Rightarrow> job option" where
  "active_herder_backup d = first_row (sort_key (\<lambda>j. - j_created_at j)
     (filter (\<lambda>j. j_job_type j = ''herder_backup'' \<and> active j) (db_jobs d)))"

definition enqueue_herder_backup_job :: "env \<Rightarrow> int option \<Rightarrow> bool \<Rightarrow> bool \<Rightarrow> bool \<Rightarrow> db \<Rightarrow> db \<times> (exc + int)" where
  "enqueue_herder_backup_job e uid include_audit config_only runner d0 =
     andthen (expire_stale_pending_herder_backups e d0) (\<lambda>d _.
       case active_herder_backup d of
         Some a \<Rightarrow> (d, Inr (j_id a))
       | None \<Rightarrow> andthen (create_queued_job_with_audit e None ''herder_backup'' (''PiHerder backup queued'' @ dots)
             \<lparr>o_user_id = uid, o_api_token_id = None, o_api_token_name = None\<rparr>
             (Some (''Job #{job_id} started'' @ middot @ (if config_only then ''config_only'' else ''full'')))
             [(''include_audit'', JBool include_audit), (''config_only'', JBool config_only)] d)
           (\<lambda>d1 (i, aid). andthen (handoff_housekeeping e i aid ''herder_backup'' runner d1) (\<lambda>d2 _. (d2, Inr i))))"

section \<open>Calm\<close>

lemma set_running_frame [simp]:
  "job_key (set_running e j) = job_key j" "j_id (set_running e j) = j_id j"
  "j_status (set_running e j) = ''running''" "j_details (set_running e j) = j_details j"
  by (simp_all add: set_running_def job_key_def)

lemma merge_if_present_calm: "merge_if_present i kvs d = Inr d' \<Longrightarrow> calm d d'"
  by (auto simp: merge_if_present_def calm_upd_def job_key_def active_def split: option.splits
      elim!: rbind_InrE intro!: calm_upd_job')

lemma mark_running_calm:
  assumes "mark_housekeeping_running e i c l d = Inr d'" and "wf_ids d" and "get_job d i = Some j" and "active j"
  shows "calm d d'"
proof -
  have "calm d (upd_job i (set_running e) d)"
    by (rule calm_upd_job [OF _ _ assms(2)]) (use assms(3,4) in auto)
  moreover have "calm (upd_job i (set_running e) d) d'"
    using assms(1,3) by (auto simp: mark_housekeeping_running_def dest: merge_if_present_calm)
  ultimately show ?thesis by (rule calm_trans)
qed

lemma commit_finish_calm:
  "wf_ids d \<Longrightarrow> \<not> active_status st \<Longrightarrow> calm d (fst (commit d (finish e aid i st sn h jt d)))"
  by (cases "finish e aid i st sn h jt d") (auto dest: finish_calm)

text \<open>A chain of calm steps is calm.\<close>

definition calm_run :: "db \<Rightarrow> db \<times> (exc + 'a) \<Rightarrow> bool" where
  "calm_run d m = calm d (fst m)"

lemma calm_run_pair [simp]: "calm_run d (d', r) = calm d d'"
  by (simp add: calm_run_def)

lemma calm_run_then:
  assumes "wf_ids d" and "calm_run d m" and "\<And>d1 v. wf_ids d1 \<Longrightarrow> calm_run d1 (f d1 v)"
  shows "calm_run d (andthen m f)"
proof (cases m)
  case (Pair d1 r)
  then have c: "calm d d1" using assms(2) by simp
  then have "wf_ids d1" using assms(1) wf_ids_calm by blast
  then show ?thesis using assms(3) [of d1] c Pair
    by (cases r) (auto simp: calm_run_def intro: calm_trans)
qed

lemma calm_run_merge: "calm_run d (commit d (merge_if_present i kvs d))"
  by (cases "merge_if_present i kvs d") (auto dest: merge_if_present_calm)

lemma calm_run_finish: "wf_ids d \<Longrightarrow> \<not> active_status st \<Longrightarrow> calm_run d (commit d (finish e aid i st sn h jt d))"
  by (simp add: calm_run_def commit_finish_calm)

lemma calm_run_or_fail:
  assumes "wf_ids d" and "calm_run d m" shows "calm_run d (or_fail e i aid h jt m)"
proof (cases m)
  case (Pair d1 r)
  then have c: "calm d d1" using assms(2) by simp
  then have "wf_ids d1" using assms(1) wf_ids_calm by blast
  then have "calm d (fst (commit d1 (finish e aid i ''failed'' sn h jt d1)))" for sn
    using c commit_finish_calm calm_trans active_status_simps(3) by blast
  then show ?thesis using Pair c by (cases r) (simp_all add: or_fail_def calm_run_def)
qed

lemma calm_run_mark:
  "wf_ids d \<Longrightarrow> get_job d i = Some j \<Longrightarrow> active j \<Longrightarrow> calm_run d (commit d (mark_housekeeping_running e i c l d))"
  by (cases "mark_housekeeping_running e i c l d") (auto dest: mark_running_calm)

lemma calm_run_retention:
  assumes "wf_ids d" and "get_job d i = Some j" and "active j"
  shows "calm_run d (execute_retention e work i sid aid d)"
  unfolding execute_retention_def Let_def
  by (rule calm_run_then [OF assms(1) calm_run_mark [OF assms]])
    (auto intro!: calm_run_or_fail calm_run_then calm_run_merge calm_run_finish split: sum.splits)

lemma calm_run_notify:
  assumes "wf_ids d" and "calm_run d m" shows "calm_run d (herder_or_notify e i aid m)"
proof (cases m)
  case (Pair d1 r)
  then have c: "calm d d1" using assms(2) by simp
  then have wf1: "wf_ids d1" using assms(1) wf_ids_calm by blast
  have "calm_run d1 (andthen (commit d1 (finish e aid i ''failed'' sn h jt d1)) (\<lambda>d2 _. (emit x d2, Inr ())))" for sn h jt x
    by (rule calm_run_then [OF wf1 calm_run_finish [OF wf1]]) auto
  then show ?thesis using Pair c
    by (cases r) (auto simp: herder_or_notify_def calm_run_def intro: calm_trans)
qed

lemma calm_run_herder:
  assumes "wf_ids d" and "get_job d i = Some j" and "active j"
  shows "calm_run d (execute_herder_backup e archive i aid d)"
proof -
  have off: "calm x (emit y (emit z x))" for x y z
    by (rule calm_trans [of _ "emit z x"]) auto
  show ?thesis
    unfolding execute_herder_backup_def Let_def split_beta
    by (rule calm_run_then [OF assms(1) calm_run_mark [OF assms]])
      (auto intro!: calm_run_notify calm_run_then calm_run_finish off split: sum.splits)
qed

lemma calm_run_housekeeping: "wf_ids d \<Longrightarrow> calm_run d (run_housekeeping_job e w req i sid aid jt d)"
proof -
  assume wf: "wf_ids d"
  let ?d1 = "upd_job i (claim_row req) d"
  have c1: "calm d ?d1" by (rule claim_calm)
  have wf1: "wf_ids ?d1" using c1 wf wf_ids_calm by blast
  have lift: "calm_run ?d1 m \<Longrightarrow> calm_run d m" for m :: "db \<times> (exc + outcome)"
    using c1 by (auto simp: calm_run_def intro: calm_trans)
  have fail: "calm_run x (commit x (fail_housekeeping_open e i aid jt' m x))" if "wf_ids x" for x jt' m
    by (cases "fail_housekeeping_open e i aid jt' m x") (auto dest: fail_housekeeping_calm simp: that)
  have work: "calm_run ?d1 (housekeeping_work e w i s aid jt' ?d1)"
    if "get_job d i = Some j" "active j" for j s jt'
  proof -
    have "get_job ?d1 i = Some (claim_row req j)" "active (claim_row req j)"
      using that by (simp_all add: get_job_upd_same active_def)
    then show ?thesis
      using wf1 by (auto simp: housekeeping_work_def intro: calm_run_retention calm_run_herder)
  qed
  have try_calm: "calm_run d (housekeeping_try e w req i sid aid jt d)"
    using work
    by (auto simp: housekeeping_try_def Let_def split: option.splits
        intro!: lift calm_run_then [OF wf1] fail wf1)
  obtain d2 r where t: "housekeeping_try e w req i sid aid jt d = (d2, r)" by fastforce
  have c2: "calm d d2" using try_calm t by simp
  then have wf2: "wf_ids d2" using wf wf_ids_calm by blast
  have "calm_run d2 (andthen (commit d2 (fail_housekeeping_open e i aid jt' m d2)) (\<lambda>d3 _. (d3, Inr ErrorOut)))" for jt' m
    by (rule calm_run_then [OF wf2 fail [OF wf2]]) simp
  with c2 have "calm_run d (andthen (commit d2 (fail_housekeeping_open e i aid jt' m d2)) (\<lambda>d3 _. (d3, Inr ErrorOut)))" for jt' m
    by (auto simp: calm_run_def intro: calm_trans)
  with c2 show ?thesis by (cases r) (simp_all add: run_housekeeping_job_def Let_def t)
qed

lemma calm_run_expire_loop: "wf_ids d \<Longrightarrow> calm_run d (expire_loop e js acc d)"
proof (induction js arbitrary: acc d)
  case (Cons j js)
  have fail: "calm_run x (commit x (fail_housekeeping_open e i aid jt' m x))" if "wf_ids x" for x i aid jt' m
    by (cases "fail_housekeeping_open e i aid jt' m x") (auto dest: fail_housekeeping_calm simp: that)
  have "calm_run x (expire_one e j x)" if "wf_ids x" for x
    unfolding expire_one_def Let_def
    by (intro calm_run_then [OF that fail [OF that]] calm_run_then calm_run_merge) auto
  then show ?case using Cons by (auto intro!: calm_run_then)
qed simp

lemma enqueue_herder_admitted:
  assumes "a_lane clash" and "wf_ids d0"
  shows "admits clash d0 (fst (enqueue_herder_backup_job e uid ia co rn d0))"
proof -
  obtain d r1 where ex: "expire_stale_pending_herder_backups e d0 = (d, r1)" by fastforce
  have c: "calm d0 d"
    using calm_run_expire_loop [OF assms(2), of e "filter (\<lambda>j. j_job_type j = ''herder_backup''
        \<and> j_status j = ''pending'') (db_jobs d0)" "[]"] ex
    by (simp add: expire_stale_pending_herder_backups_def)
  have wf: "wf_ids d" using c assms(2) wf_ids_calm by blast
  have un: "unclashed clash d (None, ''herder_backup'')"
    using assms(1) by (auto simp: a_lane_def unclashed_def host_clash_def stack_clash_def)
  have tail: "admits clash d (fst (andthen (create_queued_job_with_audit e None ''herder_backup'' q og tx extra d)
      (\<lambda>d1 (i, aid). andthen (handoff_housekeeping e i aid ''herder_backup'' rn d1) (\<lambda>d2 _. (d2, Inr (i :: int))))))"
    for q og tx extra
  proof -
    obtain d1 r where cq: "create_queued_job_with_audit e None ''herder_backup'' q og tx extra d = (d1, r)" by fastforce
    have wf1: "wf_ids d1" using create_queued_adds(5) [OF cq wf] .
    have 1: "admits clash d d1" using add_admits [OF un wf1] create_queued_adds(3) [OF cq] by blast
    have "calm_run d1 (handoff_housekeeping e i aid ''herder_backup'' rn d1)" for i aid
      using handoff_housekeeping_calm [OF _ wf1] by (metis calm_run_def prod.collapse)
    then have "calm_run d1 (andthen (handoff_housekeeping e i aid ''herder_backup'' rn d1) (\<lambda>d2 _. (d2, Inr i)))" for i aid
      by (intro calm_run_then [OF wf1]) auto
    then show ?thesis
      using 1 by (cases r) (auto simp: cq calm_run_def intro: admits_calm)
  qed
  have "admits clash d (fst (enqueue_herder_backup_job e uid ia co rn d0))"
    using tail calm_admits [OF calm_refl wf]
    by (cases r1) (auto simp: enqueue_herder_backup_job_def ex split: option.splits)
  with c show ?thesis by (rule calm_admits_trans)
qed

end
