(* ===== verification/HostExecutors.thy ===== *)
theory HostExecutors
  imports Housekeeping
begin

text \<open>
  The executors of single-host jobs (\<open>app/services/jobs/service.py\<close>: reboot, update checks,
  prune, facts, OS patch, container patch) and the host columns they write. What the host answers
  over SSH is a parameter, the record \<open>remotes\<close>: the text of an exception or the result
  dictionary of the helper the executor calls.
\<close>

record remotes =
  x_reboot :: "string + bool \<times> string"
  x_os_check :: "string + dict"
  x_image_check :: "string + dict"
  x_prune :: "string \<Rightarrow> string + dict"
  x_facts :: "string + dict"
  x_os_patch :: "json \<Rightarrow> string + dict"
  x_os_log :: "json list"
  x_container_patch :: "(string \<times> string) list \<times> (string + dict)"
  x_dangling :: "string + dict"

section \<open>Steps the executors share\<close>

text \<open>Every executor sets its row running, with a fresh start stamp, without a look at the status.\<close>

definition begin_run :: "env \<Rightarrow> int \<Rightarrow> dict \<Rightarrow> db \<Rightarrow> db \<times> (exc + unit)" where
  "begin_run e i kvs d = commit d (merge_if_present i kvs
     (upd_job i (\<lambda>j. j\<lparr>j_status := ''running'', j_started_at := Some (e_now e)\<rparr>) d))"

definition run_fields :: "string \<Rightarrow> string \<Rightarrow> dict" where
  "run_fields current line = [(''current'', JStr current), (''log_line'', JStr line), (''done'', JBool False)]"

definition run_lines :: "string \<Rightarrow> string list \<Rightarrow> dict" where
  "run_lines current lines = [(''current'', JStr current), (''log_lines'', JList (map JStr lines)),
     (''done'', JBool False)]"

definition finish_run :: "env \<Rightarrow> int \<Rightarrow> int \<Rightarrow> string \<Rightarrow> snippet \<Rightarrow> string \<Rightarrow> string \<Rightarrow> db \<Rightarrow> db \<times> (exc + unit)" where
  "finish_run e aid i st sn hostname jt d = commit d (finish e aid i st sn hostname jt d)"

text \<open>The value of a call that answers or raises.\<close>

definition answer :: "string + 'a \<Rightarrow> (db \<Rightarrow> 'a \<Rightarrow> db \<times> (exc + 'b)) \<Rightarrow> db \<Rightarrow> db \<times> (exc + 'b)" where
  "answer r f d = (case r of Inl t \<Rightarrow> (d, Inl (RuntimeError t)) | Inr v \<Rightarrow> f d v)"

text \<open>\<open>try: m except Exception: pass\<close>: what \<open>m\<close> committed stays.\<close>

definition swallow :: "db \<times> (exc + unit) \<Rightarrow> db \<times> (exc + unit)" where
  "swallow m = (fst m, Inr ())"

definition host_name :: "db \<Rightarrow> int \<Rightarrow> string" where
  "host_name d sid = (case get_server d sid of None \<Rightarrow> [] | Some s \<Rightarrow> s_hostname s)"

section \<open>The results of a check, on the host row\<close>

definition py_lower :: "json \<Rightarrow> exc + string" where
  "py_lower v = (case v of JStr s \<Rightarrow> Inr (lower s) | JStamp t \<Rightarrow> Inr (lower (isoformat t)) | _ \<Rightarrow> Inl AttributeError)"

definition py_int_exc :: "json \<Rightarrow> exc + int" where
  "py_int_exc v = (case py_int v of Some n \<Rightarrow> Inr n | None \<Rightarrow> Inl TypeError)"

definition or_list :: "dict \<Rightarrow> string \<Rightarrow> json" where
  "or_list d k = jor (dget0 d k) (JList [])"

definition or_zero :: "dict \<Rightarrow> string \<Rightarrow> json" where
  "or_zero d k = jor (dget0 d k) (JInt 0)"

text \<open>\<open>res.get(k, res.get(k'))\<close>.\<close>

definition dget_or :: "dict \<Rightarrow> string \<Rightarrow> string \<Rightarrow> json" where
  "dget_or d k k' = (case dget d k of Some v \<Rightarrow> v | None \<Rightarrow> dget0 d k')"

definition os_check_payload :: "dict \<Rightarrow> json \<Rightarrow> json \<Rightarrow> dict" where
  "os_check_payload res sample phased =
     [(''packages_sample'', sample), (''phased_sample'', phased),
      (''actionable_count'', dget_or res ''actionable_count'' ''updates_count''),
      (''phased_count'', or_zero res ''phased_count''),
      (''total_upgradable'', dget0 res ''total_upgradable''), (''error'', dget0 res ''error''),
      (''backend'', jor (dget0 res ''backend'') (JStr ''apt''))]
     @ (if truthy (dget0 res ''ha'') then [(''ha'', dget0 res ''ha'')] else [])
     @ (if truthy (dget0 res ''identity'') then [(''identity'', dget0 res ''identity'')] else [])"

definition apply_os_check_result :: "env \<Rightarrow> int \<Rightarrow> dict \<Rightarrow> db \<Rightarrow> exc + db" where
  "apply_os_check_result e sid res d = (case get_server d sid of
     None \<Rightarrow> Inr d
   | Some s \<Rightarrow>
       rbind (if (case dget res ''supported'' of None \<Rightarrow> True | Some v \<Rightarrow> truthy v)
                 \<and> dget0 res ''updates_count'' \<noteq> JNull
              then rbind (py_int_exc (or_zero res ''updates_count'')) (\<lambda>n. Inr (Some n))
              else Inr (s_os_updates_count s)) (\<lambda>count.
       rbind (if truthy (dget0 res ''auto_mark_haos'') then Inr True
              else rbind (py_lower (jor (dget0 res ''detected_os_type'') (JStr [])))
                (\<lambda>t. Inr (t = ''haos''))) (\<lambda>haos.
       rbind (py_slice 15 (or_list res ''packages_sample'')) (\<lambda>sample.
       rbind (py_slice 15 (or_list res ''phased_sample'')) (\<lambda>phased.
         let reboot = truthy (dget0 res ''reboot_pending'');
             d1 = upd_server sid (\<lambda>r. r\<lparr>s_last_os_check_at := Some (e_now e), s_os_updates_count := count,
               s_reboot_pending := reboot,
               s_os_type := (if haos \<and> lower (s_os_type r) \<noteq> ''haos'' then ''haos'' else s_os_type r),
               s_os_updates_summary := Text (JObj (os_check_payload res sample phased))\<rparr>) d
         in Inr (case py_int (or_zero res ''phased_count'') of None \<Rightarrow> d1
              | Some n \<Rightarrow> emit (NotifiedOsUpdates sid (s_name s)
                  (case count of None \<Rightarrow> 0 | Some c \<Rightarrow> c) reboot n) d1))))))"

definition apply_container_check_result :: "env \<Rightarrow> int \<Rightarrow> dict \<Rightarrow> db \<Rightarrow> exc + db" where
  "apply_container_check_result e sid res d = (case get_server d sid of
     None \<Rightarrow> Inr d
   | Some s \<Rightarrow> let projects = or_list res ''projects_with_updates'' in
       rbind (py_len projects) (\<lambda>n.
         Inr (emit (NotifiedImageUpdates sid (s_name s) projects)
           (upd_server sid (\<lambda>r. r\<lparr>s_last_container_check_at := Some (e_now e),
             s_container_updates_count := Some (int n),
             s_container_updates_summary := Text (JObj [(''projects'', projects),
               (''project_details'', jor (dget0 res ''project_details'') (JObj [])),
               (''failed'', or_list res ''failed''), (''checked'', or_list res ''projects_checked'')])\<rparr>) d))))"

section \<open>Reboot, checks, prune, facts\<close>

definition execute_host_reboot :: "env \<Rightarrow> remotes \<Rightarrow> int \<Rightarrow> int \<Rightarrow> int \<Rightarrow> db \<Rightarrow> db \<times> (exc + unit)" where
  "execute_host_reboot e x i sid aid d =
     andthen (begin_run e i (run_lines ''rebooting'' [''Host reboot started'' @ dots]) d) (\<lambda>d1 _.
       if get_server d1 sid = None then finish_run e aid i ''failed'' (Plain ''Server not found'') [] ''host_reboot'' d1
       else let hostname = host_name d1 sid;
                (success, details) = (case x_reboot x of
                   Inl t \<Rightarrow> (False, ''Reboot command failed to send: '' @ t) | Inr r \<Rightarrow> r)
            in if success then
                 finish_run e aid i ''success'' (Plain details) hostname ''host_reboot''
                   (emit (ResolvedRebootPending sid) (upd_server sid (\<lambda>r. r\<lparr>s_reboot_pending := False\<rparr>) d1))
               else finish_run e aid i ''failed'' (Plain details) hostname ''host_reboot'' d1)"

definition execute_os_update_check :: "env \<Rightarrow> remotes \<Rightarrow> int \<Rightarrow> int \<Rightarrow> int \<Rightarrow> db \<Rightarrow> db \<times> (exc + unit)" where
  "execute_os_update_check e x i sid aid d =
     andthen (begin_run e i (run_lines ''checking'' [''OS update check started'' @ dots,
         ''Refreshing apt lists & simulating upgrade'' @ dots]) d) (\<lambda>d1 _.
       if get_server d1 sid = None then finish_run e aid i ''failed'' (Plain ''Server not found'') [] ''os_update_check'' d1
       else let hostname = host_name d1 sid in
         or_fail e i aid hostname ''os_update_check'' (answer (x_os_check x) (\<lambda>d2 res.
           andthen (commit d2 (apply_os_check_result e sid res d2)) (\<lambda>d3 _.
             finish_run e aid i
               (if truthy (dget0 res ''error'') \<and> dget0 res ''updates_count'' = JNull then ''failed'' else ''success'')
               (Dumped (JObj res)) hostname ''os_update_check'' d3)) d1))"

definition execute_container_update_check :: "env \<Rightarrow> remotes \<Rightarrow> int \<Rightarrow> int \<Rightarrow> int \<Rightarrow> db \<Rightarrow> db \<times> (exc + unit)" where
  "execute_container_update_check e x i sid aid d =
     andthen (begin_run e i (run_lines ''checking'' [''Container image check started'' @ dots,
         ''Scanning compose projects'' @ dots]) d) (\<lambda>d1 _.
       if get_server d1 sid = None
       then finish_run e aid i ''failed'' (Plain ''Server not found'') [] ''container_update_check'' d1
       else let hostname = host_name d1 sid in
         or_fail e i aid hostname ''container_update_check'' (answer (x_image_check x) (\<lambda>d2 res.
           andthen (commit d2 (apply_container_check_result e sid res d2)) (\<lambda>d3 _.
             finish_run e aid i ''success'' (Dumped (JObj res)) hostname ''container_update_check'' d3)) d1))"

definition prune_kind_saved :: "job option \<Rightarrow> json \<Rightarrow> exc + string" where
  "prune_kind_saved jo prune_type =
     (case jor prune_type (JStr ''both'') of
        JStr t \<Rightarrow> let asked = lower (strip t); kind = (if asked \<noteq> [] then asked else ''both'');
              saved = (case jo of None \<Rightarrow> JNull | Some j \<Rightarrow> dget0 (load_dict (j_details j)) ''prune_type'')
          in Inr (if truthy saved \<and> lower (strip (py_str saved)) \<noteq> [] then lower (strip (py_str saved)) else kind)
      | _ \<Rightarrow> Inl AttributeError)"

definition execute_docker_prune :: "env \<Rightarrow> remotes \<Rightarrow> json \<Rightarrow> int \<Rightarrow> int \<Rightarrow> int \<Rightarrow> db \<Rightarrow> db \<times> (exc + unit)" where
  "execute_docker_prune e x prune_type i sid aid d =
     (case prune_kind_saved (get_job d i) prune_type of Inl ex \<Rightarrow> (d, Inl ex) | Inr kind \<Rightarrow>
     andthen (begin_run e i [(''current'', JStr ''pruning''), (''prune_type'', JStr kind),
         (''log_lines'', JList [JStr (''Docker prune ('' @ kind @ '') started'' @ dots)]), (''done'', JBool False)] d) (\<lambda>d1 _.
       if get_server d1 sid = None then finish_run e aid i ''failed'' (Plain ''Server not found'') [] ''docker_prune'' d1
       else let hostname = host_name d1 sid in
         case x_prune x kind of
           Inl t \<Rightarrow> finish_run e aid i ''failed'' (Plain (kind @ '': '' @ t)) hostname ''docker_prune'' d1
         | Inr res \<Rightarrow>
             let raw = strip (py_str (jor (dget0 res ''output'') (JStr [])));
                 output = (if raw \<noteq> [] then raw else ''Nothing to prune.'')
             in finish_run e aid i (if truthy (dget0 res ''success'') then ''success'' else ''failed'')
                  (Plain (kind @ '': '' @ output)) hostname ''docker_prune'' d1))"

text \<open>\<open>json.dumps(res)[:4000]\<close>: a text cut short no longer parses.\<close>

definition facts_snippet :: "dict \<Rightarrow> snippet" where
  "facts_snippet res = (let t = dumps (JObj res) in
     if length t \<le> 4000 then Dumped (JObj res) else Plain (take 4000 t))"

definition execute_host_facts :: "env \<Rightarrow> remotes \<Rightarrow> int \<Rightarrow> int \<Rightarrow> int \<Rightarrow> db \<Rightarrow> db \<times> (exc + unit)" where
  "execute_host_facts e x i sid aid d =
     andthen (commit d (mark_housekeeping_running e i ''refreshing'' (''Host facts refresh started'' @ dots) d)) (\<lambda>d1 _.
       let hostname = host_label d1 sid in
       if get_server d1 sid = None then finish_run e aid i ''failed'' (Plain ''Server not found'') hostname ''host_facts'' d1
       else or_fail e i aid hostname ''host_facts'' (answer (x_facts x) (\<lambda>d2 res.
         finish_run e aid i
           (if truthy (dget0 res ''error'') \<and> dget0 res ''status'' = JStr ''error'' then ''failed'' else ''success'')
           (facts_snippet res) hostname ''host_facts'' d2) d1))"

section \<open>Patching\<close>

text \<open>\<open>os_patch_succeeded\<close>: every step ended with return code 0.\<close>

fun patch_steps_ok :: "json list \<Rightarrow> exc + bool" where
  "patch_steps_ok [] = Inr True"
| "patch_steps_ok (r # rs) = (case r of
     JObj o1 \<Rightarrow> if truthy (dget0 o1 ''error'') then Inr False
       else rbind (py_int_exc (case dget o1 ''rc'' of None \<Rightarrow> JInt 1 | Some v \<Rightarrow> v)) (\<lambda>rc.
         if rc \<noteq> 0 then Inr False else patch_steps_ok rs)
   | _ \<Rightarrow> Inl AttributeError)"

definition os_patch_succeeded :: "dict \<Rightarrow> exc + bool" where
  "os_patch_succeeded res =
     (if res = [] \<or> truthy (dget0 res ''error'') then Inr False
      else let results = or_list res ''results'' in
        if \<not> truthy results then Inr False
        else rbind (py_items results) patch_steps_ok)"

definition cross :: string where "cross = [CHR 0x8D]"
definition tick :: string where "tick = [CHR 0x8F]"

text \<open>\<open>(x or "").strip()\<close>, which only a string has.\<close>

definition py_strip :: "json \<Rightarrow> exc + string" where
  "py_strip v = (case jor v (JStr []) of JStr s \<Rightarrow> Inr (strip s) | JStamp t \<Rightarrow> Inr (isoformat t)
     | _ \<Rightarrow> Inl AttributeError)"

definition patch_step_text :: "json \<Rightarrow> exc + string" where
  "patch_step_text r = (case r of
     JObj o1 \<Rightarrow> let step = py_str (jor (dget0 o1 ''step'') (JStr ''?'')) in
       if truthy (dget0 o1 ''error'') then Inr (step @ '' '' @ cross)
       else rbind (py_int_exc (case dget o1 ''rc'' of None \<Rightarrow> JInt 1 | Some v \<Rightarrow> v)) (\<lambda>rc.
         if rc = 0 then Inr (step @ '' '' @ tick)
         else let bit = step @ '' rc='' @ py_str (dget0 o1 ''rc'')
           in rbind (py_strip (dget0 o1 ''reason'')) (\<lambda>reason.
             Inr (if reason \<noteq> [] then bit @ middot @ reason else bit)))
   | _ \<Rightarrow> Inl AttributeError)"

fun collect :: "('a \<Rightarrow> exc + 'b) \<Rightarrow> 'a list \<Rightarrow> exc + 'b list" where
  "collect f [] = Inr []"
| "collect f (v # vs) = rbind (f v) (\<lambda>y. rbind (collect f vs) (\<lambda>ys. Inr (y # ys)))"

definition summarize_os_patch_result :: "dict \<Rightarrow> exc + string" where
  "summarize_os_patch_result res =
     (if res = [] then Inr ''OS patch''
      else if truthy (dget0 res ''error'') then Inr (''Failed: '' @ take 120 (py_str (dget0 res ''error'')))
      else rbind (py_items (or_list res ''results'')) (\<lambda>rs. rbind (collect patch_step_text rs) (\<lambda>parts.
        Inr ((if parts = [] then ''no steps'' else join middot parts)
          @ (if truthy (dget0 res ''needs_reboot'') then middot @ ''reboot needed'' else [])))))"

definition post_check_of :: "dict \<Rightarrow> exc + dict" where
  "post_check_of c = rbind (py_int_exc (or_zero c ''phased_count'')) (\<lambda>n.
     Inr [(''actionable_count'', dget_or c ''actionable_count'' ''updates_count''), (''phased_count'', JInt n),
          (''reboot_pending'', JBool (truthy (dget0 c ''reboot_pending''))),
          (''updates_count'', dget0 c ''updates_count'')])"

definition post_check_bits :: "dict \<Rightarrow> string list" where
  "post_check_bits pc =
     (if dget0 pc ''actionable_count'' \<noteq> JNull
      then [py_str (dget0 pc ''actionable_count'') @ '' ready after''] else [])
     @ (if truthy (dget0 pc ''phased_count'') then [py_str (dget0 pc ''phased_count'') @ '' phased''] else [])
     @ (if truthy (dget0 pc ''reboot_pending'') then [''reboot pending''] else [])"

text \<open>\<open>attach_audit_fields\<close>; \<open>tail\<close> is the tail of the in-memory apt log of the host.\<close>

definition attach_audit_fields :: "json list \<Rightarrow> dict \<Rightarrow> string \<Rightarrow> dict option \<Rightarrow> exc + dict" where
  "attach_audit_fields tail res hostname post_check =
     (let out1 = (if hostname \<noteq> [] \<and> \<not> truthy (dget0 res ''server'') then dset ''server'' (JStr hostname) res else res);
          out2 = (if tail \<noteq> [] then dset ''log_tail'' (JList tail) out1 else out1)
      in rbind (case post_check of
           None \<Rightarrow> Inr out2
         | Some c \<Rightarrow> if c = [] \<or> truthy (dget0 c ''error'') then Inr out2
             else rbind (post_check_of c) (\<lambda>pc.
               let out3 = dset ''post_check'' (JObj pc) out2; bits = post_check_bits pc
               in if bits = [] then Inr out3
                  else rbind (py_strip (dget0 out3 ''summary'')) (\<lambda>base.
                    Inr (dset ''summary'' (JStr (if base \<noteq> [] then base @ middot @ join middot bits
                      else join middot bits)) out3))))
         (\<lambda>out. rbind (py_strip (dget0 out ''summary'')) (\<lambda>s.
            if s \<noteq> [] then Inr out
            else rbind (summarize_os_patch_result out) (\<lambda>t. Inr (dset ''summary'' (JStr t) out)))))"

definition failed_payload :: "string \<Rightarrow> dict" where
  "failed_payload text = [(''error'', JStr text), (''summary'', JStr (''Failed: '' @ take 120 text))]"

definition mark_haos :: "int \<Rightarrow> db \<Rightarrow> db" where
  "mark_haos sid d = upd_server sid (\<lambda>r. r\<lparr>s_os_type := if lower (s_os_type r) \<noteq> ''haos'' then ''haos'' else s_os_type r\<rparr>) d"

text \<open>The host is Home Assistant OS by its marker, its detected type or its back end.\<close>

definition says_haos :: "dict \<Rightarrow> exc + bool" where
  "says_haos res = (if truthy (dget0 res ''auto_mark_haos'') then Inr True
     else rbind (py_lower (jor (dget0 res ''detected_os_type'') (JStr []))) (\<lambda>t.
       Inr (t = ''haos'' \<or> dget0 res ''backend'' = JStr ''ha_cli'')))"

definition recheck_os :: "env \<Rightarrow> remotes \<Rightarrow> int \<Rightarrow> int \<Rightarrow> string \<Rightarrow> db \<Rightarrow> db \<times> dict option" where
  "recheck_os e x i sid hostname d0 =
     (let d = emit (OsLog hostname (''[os] rechecking update counts'' @ dots)) d0 in
      case merge_if_present i [(''current'', JStr ''rechecking''), (''log_line'', JStr (''Rechecking OS updates'' @ dots))] d of
        Inl _ \<Rightarrow> (d, None)
      | Inr d1 \<Rightarrow> (case x_os_check x of Inl _ \<Rightarrow> (d1, None)
          | Inr check \<Rightarrow> (fst (commit d1 (apply_os_check_result e sid check d1)), Some check)))"

definition os_patch_work :: "env \<Rightarrow> remotes \<Rightarrow> json \<Rightarrow> int \<Rightarrow> int \<Rightarrow> int \<Rightarrow> string \<Rightarrow> db \<Rightarrow> db \<times> (exc + unit)" where
  "os_patch_work e x steps i sid aid hostname d = answer (x_os_patch x steps) (\<lambda>d1 res.
     case rbind (os_patch_succeeded res) (\<lambda>ok. rbind (says_haos res) (\<lambda>haos. Inr (ok, haos))) of
       Inl ex \<Rightarrow> (d1, Inl ex)
     | Inr (ok, haos) \<Rightarrow>
         let status = (if ok then ''success'' else ''failed'');
             d2 = (if haos then mark_haos sid d1 else d1);
             (d3, post) = (if ok then recheck_os e x i sid hostname d2 else (d2, None));
             d4 = emit (OsLog hostname (''[os] all done'' @ emdash @ status)) (emit (OsProgress hostname ''done'') d3)
         in case attach_audit_fields (x_os_log x) res hostname post of
              Inl ex \<Rightarrow> (d4, Inl ex)
            | Inr out \<Rightarrow> finish_run e aid i status (Dumped (JObj out)) hostname ''os_patch'' d4) d"

definition execute_os_patch_sync :: "env \<Rightarrow> remotes \<Rightarrow> json \<Rightarrow> int \<Rightarrow> int \<Rightarrow> int \<Rightarrow> db \<Rightarrow> db \<times> (exc + unit)" where
  "execute_os_patch_sync e x steps i sid aid d0 =
     (let hostname = host_label d0 sid; known = get_server d0 sid \<noteq> None in
      andthen (begin_run e i (run_fields ''patching'' (''OS patch started'' @ dots)) d0) (\<lambda>d _.
        if \<not> known then finish_run e aid i ''failed'' (Plain ''Server not found'') hostname ''os_patch'' d
        else case os_patch_work e x steps i sid aid hostname
            (emit (OsProgress hostname (''starting scheduled patch'' @ dots)) d) of
          (d1, Inr u) \<Rightarrow> (d1, Inr u)
        | (d1, Inl ex) \<Rightarrow>
            let d2 = emit (OsLog hostname (''[os] ERROR: '' @ exc_text e ex)) (emit (OsProgress hostname ''done'') d1)
            in case attach_audit_fields (x_os_log x)
                ((''server'', JStr hostname) # failed_payload (exc_text e ex)) hostname None of
                 Inl ex2 \<Rightarrow> (d2, Inl ex2)
               | Inr out \<Rightarrow> finish_run e aid i ''failed'' (Dumped (JObj out)) hostname ''os_patch'' d2))"

definition container_patch_succeeded :: "dict \<Rightarrow> exc + bool" where
  "container_patch_succeeded res =
     (if res = [] \<or> truthy (dget0 res ''error'') then Inr False
      else rbind (py_len (or_list res ''failed'')) (\<lambda>n. Inr (n = 0)))"

definition prune_dangling_images_after_update :: "remotes \<Rightarrow> int \<Rightarrow> db \<Rightarrow> db" where
  "prune_dangling_images_after_update x i d = (case x_dangling x of
     Inl _ \<Rightarrow> d
   | Inr res \<Rightarrow> flush_job_progress i ''pruning''
       (''Dangling image prune: '' @ take 240 (py_str (jor (dget0 res ''output'') (JStr ''done'')))) ''patching'' [] d)"

definition flush_all :: "int \<Rightarrow> string \<Rightarrow> (string \<times> string) list \<Rightarrow> db \<Rightarrow> db" where
  "flush_all i default_current lines d =
     foldl (\<lambda>d' (current, line). flush_job_progress i current line default_current [] d') d lines"

definition recheck_images :: "env \<Rightarrow> remotes \<Rightarrow> int \<Rightarrow> int \<Rightarrow> db \<Rightarrow> db" where
  "recheck_images e x i sid d =
     (case merge_if_present i [(''current'', JStr ''rechecking''), (''log_line'', JStr (''Rechecking image updates'' @ dots))] d of
        Inl _ \<Rightarrow> d
      | Inr d1 \<Rightarrow> (case x_image_check x of Inl _ \<Rightarrow> d1
          | Inr check \<Rightarrow> fst (commit d1 (apply_container_check_result e sid check d1))))"

definition container_patch_work :: "env \<Rightarrow> remotes \<Rightarrow> int \<Rightarrow> int \<Rightarrow> int \<Rightarrow> string \<Rightarrow> db \<Rightarrow> db \<times> (exc + unit)" where
  "container_patch_work e x i sid aid hostname d =
     answer (snd (x_container_patch x)) (\<lambda>d1 res.
       case container_patch_succeeded res of
         Inl ex \<Rightarrow> (d1, Inl ex)
       | Inr ok \<Rightarrow>
           let status = (if ok then ''success'' else ''failed'');
               d2 = (if ok then prune_dangling_images_after_update x i (recheck_images e x i sid d1) else d1);
               d3 = emit (ContainerLog hostname (''[containers] all done'' @ emdash @ status))
                      (emit (ContainerProgress hostname ''done'') d2)
           in case (if truthy (dget0 res ''summary'') then Inr res
                    else rbind (summarize_container_patch res) (\<lambda>t. Inr (dset ''summary'' (JStr t) res))) of
                Inl ex \<Rightarrow> (d3, Inl ex)
              | Inr out \<Rightarrow> finish_run e aid i status (Dumped (JObj out)) hostname ''container_patch'' d3)
       (flush_all i ''patching'' (fst (x_container_patch x)) d)"

definition execute_container_patch_sync :: "env \<Rightarrow> remotes \<Rightarrow> int \<Rightarrow> int \<Rightarrow> int \<Rightarrow> db \<Rightarrow> db \<times> (exc + unit)" where
  "execute_container_patch_sync e x i sid aid d0 =
     (let hostname = host_label d0 sid; known = get_server d0 sid \<noteq> None in
      andthen (begin_run e i (run_fields ''starting'' (''Container patch started'' @ dots)) d0) (\<lambda>d _.
        if \<not> known then finish_run e aid i ''failed'' (Plain ''Server not found'') hostname ''container_patch'' d
        else case container_patch_work e x i sid aid hostname
            (emit (ContainerProgress hostname (''starting scheduled container patch'' @ dots)) d) of
          (d1, Inr u) \<Rightarrow> (d1, Inr u)
        | (d1, Inl ex) \<Rightarrow> finish_run e aid i ''failed'' (Dumped (JObj (failed_payload (exc_text e ex)))) hostname ''container_patch''
            (emit (ContainerLog hostname (''[containers] ERROR: '' @ exc_text e ex))
              (emit (ContainerProgress hostname ''done'') d1))))"

end
