(* ===== verification/StackExecutors.thy ===== *)
theory StackExecutors
  imports HostExecutors
begin

text \<open>
  The executors of compose stacks, of one compose service, of templates and of the host tool
  bootstrap (\<open>app/services/jobs/service.py\<close>), and \<open>run_call\<close>, which is what \<open>_execute\<close>
  calls. The answers of Docker and of the template services are the record \<open>stack_remotes\<close>.
\<close>

text \<open>The row of a template deployment that an executor reads.\<close>

record deployment =
  t_server_id :: int
  t_project_name :: string
  t_template_slug :: string

text \<open>What the bootstrap of a host returned: ok, message, details.\<close>

record stack_remotes = remotes +
  x_stack_check :: "string \<Rightarrow> string + dict"
  x_redeploy :: "string \<Rightarrow> bool \<Rightarrow> string list option \<Rightarrow> string + dict"
  x_compose :: "string \<Rightarrow> string \<Rightarrow> string option \<Rightarrow> bool \<Rightarrow> string + dict"
  x_service_redeploy :: "string \<Rightarrow> string \<Rightarrow> string + dict"
  x_wipe :: "string \<Rightarrow> string list \<times> (string + bool)"
  x_deployment :: "int \<Rightarrow> deployment option"
  x_drift :: "int \<Rightarrow> string + dict"
  x_values :: "string \<Rightarrow> string + json"
  x_apply_template :: "string \<Rightarrow> dict \<Rightarrow> bool \<Rightarrow> string + dict"
  x_redeploy_state :: "int \<Rightarrow> dict \<Rightarrow> dict \<Rightarrow> bool \<Rightarrow> string + dict"
  x_bootstrap :: "bool \<Rightarrow> string \<Rightarrow> string \<Rightarrow> string + bool \<times> string \<times> dict"

section \<open>Command output in the job log\<close>

definition append_output_log_lines :: "int \<Rightarrow> string \<Rightarrow> string \<Rightarrow> db \<Rightarrow> db" where
  "append_output_log_lines i current output d =
     (let text = strip output in
      if text = [] then d
      else flush_all i current (map (\<lambda>ln. (current, take 300 ln))
        (last_n 20 (filter (\<lambda>ln. strip ln \<noteq> []) (split_lines [] text)))) d)"

text \<open>\<open>result.get("output") or ""\<close>, which the log needs as a string.\<close>

definition output_text :: "dict \<Rightarrow> string \<Rightarrow> exc + string" where
  "output_text res k = (case jor (dget0 res k) (JStr []) of
     JStr s \<Rightarrow> Inr s | JStamp t \<Rightarrow> Inr (isoformat t) | _ \<Rightarrow> Inl AttributeError)"

section \<open>Update badges of one project\<close>

text \<open>\<open>dict(x)\<close> of a dictionary or of a list of pairs with string keys.\<close>

fun pairs_dict :: "json list \<Rightarrow> dict \<Rightarrow> exc + dict" where
  "pairs_dict [] acc = Inr acc"
| "pairs_dict (p # ps) acc = (case py_list p of
     Some [JStr k, v] \<Rightarrow> pairs_dict ps (dset k v acc)
   | _ \<Rightarrow> Inl TypeError)"

definition py_dict :: "json \<Rightarrow> exc + dict" where
  "py_dict v = (case v of JObj d \<Rightarrow> Inr d
     | _ \<Rightarrow> (case py_list v of None \<Rightarrow> Inl TypeError | Some xs \<Rightarrow> pairs_dict xs []))"

fun dpop :: "string \<Rightarrow> dict \<Rightarrow> dict" where
  "dpop k [] = []"
| "dpop k ((k', v) # d) = (if k' = k then d else (k', v) # dpop k d)"

text \<open>The name the badges use: the last path component, else the path.\<close>

definition badge_name :: "string \<Rightarrow> string" where
  "badge_name path = (let b = basename (rstrip_chars (\<lambda>c. c = CHR ''/'') path) in if b \<noteq> [] then b else path)"

text \<open>The stored summary; a value that is neither a dictionary nor empty has no \<open>get\<close>.\<close>

definition stored_summary :: "server \<Rightarrow> exc + dict" where
  "stored_summary s = (case s_container_updates_summary s of
     Absent \<Rightarrow> Inr []
   | Garbled t \<Rightarrow> Inr []
   | Text v \<Rightarrow> if truthy v then (case v of JObj o1 \<Rightarrow> Inr o1 | _ \<Rightarrow> Inl AttributeError) else Inr [])"

definition write_badges :: "dict \<Rightarrow> json list \<Rightarrow> dict \<Rightarrow> server \<Rightarrow> server" where
  "write_badges summary projects details r = r\<lparr>
     s_container_updates_summary := Text (JObj [(''projects'', JList projects), (''project_details'', JObj details),
       (''failed'', or_list summary ''failed''), (''checked'', or_list summary ''checked'')]),
     s_container_updates_count := Some (int (length projects))\<rparr>"

definition badge_projects :: "string \<Rightarrow> bool \<Rightarrow> json list \<Rightarrow> json list" where
  "badge_projects name has_updates projects =
     (if has_updates then (if JStr name \<in> set projects then projects else projects @ [JStr name])
      else filter (\<lambda>p. p \<noteq> JStr name) projects)"

definition apply_single_project_check_result :: "env \<Rightarrow> int \<Rightarrow> string \<Rightarrow> dict \<Rightarrow> db \<Rightarrow> exc + db" where
  "apply_single_project_check_result e sid path result d = (case get_server d sid of
     None \<Rightarrow> Inr d
   | Some s \<Rightarrow> let name = badge_name path; has = truthy (dget0 result ''has_updates'') in
       rbind (stored_summary s) (\<lambda>summary.
       rbind (py_items (or_list summary ''projects'')) (\<lambda>projects0.
       rbind (py_dict (jor (dget0 summary ''project_details'') (JObj []))) (\<lambda>details0.
       rbind (if has then rbind (py_items (or_list result ''updated_images'')) (\<lambda>imgs.
                Inr (dset name (JObj [(''images'', JList imgs)]) details0))
              else Inr (dpop name details0)) (\<lambda>details.
         let projects = badge_projects name has projects0 in
         Inr (emit (NotifiedImageUpdates sid (if s_name s \<noteq> [] then s_name s else name) (JList projects))
           (upd_server sid (\<lambda>r. (write_badges summary projects details r)
              \<lparr>s_last_container_check_at := Some (e_now e)\<rparr>) d)))))))"

definition still_pending :: "string \<Rightarrow> json list \<Rightarrow> json list" where
  "still_pending name projects =
     filter (\<lambda>p. strip (py_str p) \<noteq> [] \<and> strip (py_str p) \<noteq> strip name) projects"

definition keep_details :: "string \<Rightarrow> dict \<Rightarrow> dict" where
  "keep_details name details = filter (\<lambda>(k, v). \<not> (strip k = strip name
     \<or> basename (rstrip_chars (\<lambda>c. c = CHR ''/'') k) = strip name)) (dpop name details)"

definition apply_single_project_deploy_result :: "env \<Rightarrow> int \<Rightarrow> string \<Rightarrow> bool \<Rightarrow> db \<Rightarrow> exc + db" where
  "apply_single_project_deploy_result e sid path ok d =
     (if \<not> ok then Inr d else case get_server d sid of
     None \<Rightarrow> Inr d
   | Some s \<Rightarrow> let name = badge_name path in
       rbind (stored_summary s) (\<lambda>summary.
       rbind (py_items (or_list summary ''projects'')) (\<lambda>projects0.
       rbind (py_dict (jor (dget0 summary ''project_details'') (JObj []))) (\<lambda>details0.
         let remaining = still_pending name projects0 in
         Inr (emit (NotifiedImageUpdates sid (if s_name s \<noteq> [] then s_name s else name) (JList remaining))
           (upd_server sid (write_badges summary remaining (keep_details name details0)) d))))))"

section \<open>Compose stacks\<close>

definition py_text :: "json \<Rightarrow> exc + string" where
  "py_text v = (case v of JStr s \<Rightarrow> Inr s | JStamp t \<Rightarrow> Inr (isoformat t) | _ \<Rightarrow> Inl TypeError)"

text \<open>The executors that look the host up, set the row running and stop when there is no host.\<close>

definition on_host ::
    "env \<Rightarrow> int \<Rightarrow> int \<Rightarrow> int \<Rightarrow> string \<Rightarrow> snippet \<Rightarrow> dict \<Rightarrow> (string \<Rightarrow> db \<Rightarrow> db \<times> (exc + unit)) \<Rightarrow> db \<Rightarrow> db \<times> (exc + unit)" where
  "on_host e i sid aid jt missing kvs work d0 =
     (let hostname = host_label d0 sid; known = get_server d0 sid \<noteq> None in
      andthen (begin_run e i kvs d0) (\<lambda>d _.
        if known then work hostname d else finish_run e aid i ''failed'' missing hostname jt d))"

definition no_server :: snippet where "no_server = Plain ''Server not found''"

text \<open>\<open>try: m except Exception as e: _finish(failed, json.dumps({..., "error": str(e)}))\<close>.\<close>

definition or_fail_with ::
    "env \<Rightarrow> int \<Rightarrow> int \<Rightarrow> string \<Rightarrow> string \<Rightarrow> (string \<Rightarrow> dict) \<Rightarrow> db \<times> (exc + unit) \<Rightarrow> db \<times> (exc + unit)" where
  "or_fail_with e i aid hostname jt payload m = (case m of
     (d, Inl x) \<Rightarrow> finish_run e aid i ''failed'' (Dumped (JObj (payload (exc_text e x)))) hostname jt d
   | (d, Inr u) \<Rightarrow> (d, Inr u))"

definition lift_exc :: "exc + 'a \<Rightarrow> (db \<Rightarrow> 'a \<Rightarrow> db \<times> (exc + 'b)) \<Rightarrow> db \<Rightarrow> db \<times> (exc + 'b)" where
  "lift_exc r f d = (case r of Inl x \<Rightarrow> (d, Inl x) | Inr v \<Rightarrow> f d v)"

definition stack_check_payload :: "string \<Rightarrow> string \<Rightarrow> dict \<Rightarrow> json list \<Rightarrow> string \<Rightarrow> dict" where
  "stack_check_payload proj path result imgs pull_out =
     [(''project'', JStr proj), (''project_path'', JStr path),
      (''has_updates'', JBool (truthy (dget0 result ''has_updates''))), (''updated_images'', JList imgs),
      (''success'', JBool (truthy (dget0 result ''success''))), (''pull_output'', JStr (take 800 pull_out))]"

definition stack_check_work :: "env \<Rightarrow> stack_remotes \<Rightarrow> string \<Rightarrow> string \<Rightarrow> int \<Rightarrow> int \<Rightarrow> int \<Rightarrow> string \<Rightarrow> db \<Rightarrow> db \<times> (exc + unit)" where
  "stack_check_work e x path proj i sid aid hostname d0 =
     answer (x_stack_check x path) (\<lambda>d1 result.
       lift_exc (output_text result ''pull_output'') (\<lambda>d2 pull_out.
       andthen (let d3 = append_output_log_lines i ''checking'' pull_out d2 in
                commit d3 (apply_single_project_check_result e sid path result d3)) (\<lambda>d4 _.
       lift_exc (py_items (or_list result ''updated_images'')) (\<lambda>d5 imgs.
         let has = truthy (dget0 result ''has_updates'');
             status = (if truthy (dget0 result ''success'') \<or> has then ''success'' else ''failed'');
             done = (\<lambda>d. finish_run e aid i status
               (Dumped (JObj (stack_check_payload proj path result imgs pull_out))) hostname ''docker_stack_check'' d)
         in if has then lift_exc (collect py_text (take 8 imgs)) (\<lambda>d6 names.
                done (flush_job_progress i ''updates''
                  (''Updates: '' @ (if join '', '' names \<noteq> [] then join '', '' names else ''yes'')) ''checking'' [] d6)) d5
            else done (flush_job_progress i ''ok'' ''No newer registry images'' ''checking'' [] d5)) d4)) d1)
       (flush_job_progress i ''pulling'' (''docker compose pull in '' @ path @ dots) ''checking'' [] d0)"

definition execute_docker_stack_check :: "env \<Rightarrow> stack_remotes \<Rightarrow> json \<Rightarrow> int \<Rightarrow> int \<Rightarrow> int \<Rightarrow> db \<Rightarrow> db \<times> (exc + unit)" where
  "execute_docker_stack_check e x project_path i sid aid = lift_exc (py_strip project_path) (\<lambda>d path.
     let proj = project_basename path in
     on_host e i sid aid ''docker_stack_check'' no_server
       (run_fields ''checking'' (''Checking registry images for '' @ proj @ dots))
       (\<lambda>hostname d1. or_fail e i aid hostname ''docker_stack_check''
          (stack_check_work e x path proj i sid aid hostname d1)) d)"

definition set_note :: "string list \<Rightarrow> string" where
  "set_note files = (if files = [] then [] else '' -f '' @ join '','' files)"

definition py_bool_text :: "bool \<Rightarrow> string" where
  "py_bool_text b = (if b then ''True'' else ''False'')"

definition stack_deploy_payload :: "string \<Rightarrow> string \<Rightarrow> bool \<Rightarrow> string list \<Rightarrow> dict \<Rightarrow> string \<Rightarrow> dict" where
  "stack_deploy_payload proj path pull files result output =
     [(''project'', JStr proj), (''project_path'', JStr path), (''pull'', JBool pull),
      (''compose_files'', JList (map JStr files)), (''success'', JBool (truthy (dget0 result ''success''))),
      (''pull_status'', dget0 result ''pull_status''), (''up_status'', dget0 result ''up_status''),
      (''error'', dget0 result ''error''), (''output'', JStr (take 1500 output))]"

definition stack_deploy_work ::
    "env \<Rightarrow> stack_remotes \<Rightarrow> string \<Rightarrow> string \<Rightarrow> bool \<Rightarrow> string list \<Rightarrow> int \<Rightarrow> int \<Rightarrow> int \<Rightarrow> string \<Rightarrow> db \<Rightarrow> db \<times> (exc + unit)" where
  "stack_deploy_work e x path proj pull files i sid aid hostname d0 =
     (let d1 = (if pull then flush_job_progress i ''pulling'' (''docker compose'' @ set_note files @ '' pull'' @ dots)
                  ''deploying'' [] d0 else d0);
          d2 = flush_job_progress i ''up'' (''docker compose'' @ set_note files @ '' up -d'' @ dots) ''deploying'' [] d1
      in answer (x_redeploy x path pull (if files = [] then None else Some files)) (\<lambda>d3 result.
           lift_exc (output_text result ''output'') (\<lambda>d4 output.
             let ok = truthy (dget0 result ''success''); d5 = append_output_log_lines i ''deploying'' output d4 in
             andthen (commit d5 (apply_single_project_deploy_result e sid path ok d5)) (\<lambda>d6 _.
               finish_run e aid i (if ok then ''success'' else ''failed'')
                 (Dumped (JObj (stack_deploy_payload proj path pull files result output))) hostname
                 ''docker_stack_deploy'' d6)) d3) d2)"

definition execute_docker_stack_deploy ::
    "env \<Rightarrow> stack_remotes \<Rightarrow> json \<Rightarrow> bool \<Rightarrow> json list \<Rightarrow> int \<Rightarrow> int \<Rightarrow> int \<Rightarrow> db \<Rightarrow> db \<times> (exc + unit)" where
  "execute_docker_stack_deploy e x project_path pull compose_files i sid aid = lift_exc (py_strip project_path) (\<lambda>d path.
     let proj = project_basename path;
         files = filter (\<lambda>f. f \<noteq> []) (map (\<lambda>f. strip (py_str f)) compose_files) in
     on_host e i sid aid ''docker_stack_deploy'' no_server
       (run_fields ''deploying'' (''Deploying '' @ proj @ set_note files @ '' (pull='' @ py_bool_text pull @ '')'' @ dots))
       (\<lambda>hostname d1. or_fail_with e i aid hostname ''docker_stack_deploy''
          (\<lambda>t. [(''project'', JStr proj), (''project_path'', JStr path), (''error'', JStr t)])
          (stack_deploy_work e x path proj pull files i sid aid hostname d1)) d)"

text \<open>\<open>invalidate_after_mutation\<close> for a host that still exists.\<close>

definition invalidate_inventory :: "int \<Rightarrow> db \<Rightarrow> db" where
  "invalidate_inventory sid d = (if get_server d sid = None then d else emit (InvalidatedInventory sid) d)"

definition compose_cmd :: "string \<Rightarrow> bool \<Rightarrow> string" where
  "compose_cmd act drop_vols = ''docker compose '' @ act @ (if drop_vols then '' -v'' else [])"

definition lifecycle_payload :: "string \<Rightarrow> string \<Rightarrow> string \<Rightarrow> bool \<Rightarrow> dict \<Rightarrow> string \<Rightarrow> dict" where
  "lifecycle_payload proj path act drop_vols result output =
     [(''project'', JStr proj), (''project_path'', JStr path),
      (''action'', JStr (if drop_vols then act @ '' -v'' else act)),
      (''success'', JBool (truthy (dget0 result ''success''))), (''error'', dget0 result ''error''),
      (''output'', JStr (take 1500 output)), (''remove_volumes'', JBool drop_vols)]"

definition ok_text :: "bool \<Rightarrow> string" where
  "ok_text ok = (if ok then ''ok'' else ''failed'')"

definition lifecycle_work ::
    "env \<Rightarrow> stack_remotes \<Rightarrow> string \<Rightarrow> string \<Rightarrow> string \<Rightarrow> bool \<Rightarrow> int \<Rightarrow> int \<Rightarrow> int \<Rightarrow> string \<Rightarrow> db \<Rightarrow> db \<times> (exc + unit)" where
  "lifecycle_work e x path proj act drop_vols i sid aid hostname d0 =
     answer (x_compose x path act None drop_vols) (\<lambda>d1 result.
       lift_exc (output_text result ''output'') (\<lambda>d2 output.
         let ok = truthy (dget0 result ''success''); d3 = append_output_log_lines i act output d2;
             d4 = (if ok then invalidate_inventory sid d3 else d3)
         in finish_run e aid i (if ok then ''success'' else ''failed'')
              (Dumped (JObj (lifecycle_payload proj path act drop_vols result output))) hostname
              (''docker_stack_'' @ act)
              (flush_job_progress i (if ok then ''done'' else ''error'') (act @ '' '' @ ok_text ok) act [] d4)) d1)
       (flush_job_progress i act (''Running '' @ compose_cmd act drop_vols @ '' in '' @ path @ dots) act [] d0)"

definition execute_docker_stack_lifecycle ::
    "env \<Rightarrow> stack_remotes \<Rightarrow> json \<Rightarrow> json \<Rightarrow> int \<Rightarrow> int \<Rightarrow> int \<Rightarrow> db \<Rightarrow> db \<times> (exc + unit)" where
  "execute_docker_stack_lifecycle e x project_path action i sid aid =
     lift_exc (rbind (py_strip action) (\<lambda>a. rbind (py_strip project_path) (\<lambda>p. Inr (lower a, p)))) (\<lambda>d (act, path).
     let proj = project_basename path; jt = ''docker_stack_'' @ act;
         drop_vols = ((case get_job d i of None \<Rightarrow> False
           | Some j \<Rightarrow> truthy (dget0 (load_dict (j_details j)) ''remove_volumes'')) \<and> act = ''down'') in
     on_host e i sid aid jt no_server (run_fields act (compose_cmd act drop_vols @ '' for '' @ proj @ dots))
       (\<lambda>hostname d1. or_fail_with e i aid hostname jt
          (\<lambda>t. [(''project'', JStr proj), (''project_path'', JStr path), (''action'', JStr act), (''error'', JStr t)])
          (lifecycle_work e x path proj act drop_vols i sid aid hostname d1)) d)"

end
