(* ===== verification/TemplateExecutors.thy ===== *)
theory TemplateExecutors
  imports StackExecutors
begin

text \<open>
  The remaining executors (\<open>app/services/jobs/service.py\<close>): stack removal, one compose service,
  templates with their encrypted variables, and the host tool bootstrap with its one-time sudo
  password; then \<open>run_call\<close>, the branch of \<open>_execute\<close> a job type takes.
\<close>

section \<open>Stack removal and one service\<close>

definition remove_payload :: "string \<Rightarrow> string \<Rightarrow> dict" where
  "remove_payload proj path =
     [(''project'', JStr proj), (''project_path'', JStr path), (''action'', JStr ''remove'')]"

definition stack_remove_work ::
    "env \<Rightarrow> stack_remotes \<Rightarrow> string \<Rightarrow> string \<Rightarrow> int \<Rightarrow> int \<Rightarrow> int \<Rightarrow> string \<Rightarrow> db \<Rightarrow> db \<times> (exc + unit)" where
  "stack_remove_work e x path proj i sid aid hostname d0 =
     (let d1 = flush_all i ''remove'' (map (Pair ''remove'') (fst (x_wipe x path))) d0 in
      answer (snd (x_wipe x path)) (\<lambda>d2 removed.
        finish_run e aid i ''success'' (Dumped (JObj (remove_payload proj path
            @ [(''success'', JBool True), (''project_removed'', JBool removed)]))) hostname ''docker_stack_remove''
          (flush_job_progress i ''remove'' ''Project folder removed.'' ''remove'' [] (invalidate_inventory sid d2))) d1)"

definition execute_docker_stack_remove :: "env \<Rightarrow> stack_remotes \<Rightarrow> json \<Rightarrow> int \<Rightarrow> int \<Rightarrow> int \<Rightarrow> db \<Rightarrow> db \<times> (exc + unit)" where
  "execute_docker_stack_remove e x project_path i sid aid = lift_exc (py_strip project_path) (\<lambda>d path.
     let proj = project_basename path in
     on_host e i sid aid ''docker_stack_remove'' no_server
       (run_fields ''remove'' (''Deleting project '' @ proj @ '' ('' @ path @ '')'' @ dots))
       (\<lambda>hostname d1. or_fail_with e i aid hostname ''docker_stack_remove''
          (\<lambda>t. remove_payload proj path @ [(''error'', JStr t)])
          (stack_remove_work e x path proj i sid aid hostname d1)) d)"

definition service_act :: "string \<Rightarrow> string" where
  "service_act raw = (if raw \<in> {''start'', ''stop'', ''restart'', ''redeploy''} then raw else ''stop'')"

definition service_payload :: "string \<Rightarrow> string \<Rightarrow> string \<Rightarrow> dict" where
  "service_payload svc path act =
     [(''service'', JStr svc), (''project_path'', JStr path), (''action'', JStr act)]"

definition service_work ::
    "env \<Rightarrow> stack_remotes \<Rightarrow> string \<Rightarrow> string \<Rightarrow> string \<Rightarrow> int \<Rightarrow> int \<Rightarrow> int \<Rightarrow> string \<Rightarrow> db \<Rightarrow> db \<times> (exc + unit)" where
  "service_work e x path svc act i sid aid hostname d0 =
     answer (if act = ''redeploy'' then x_service_redeploy x path svc else x_compose x path act (Some svc) False)
       (\<lambda>d1 result. lift_exc (output_text result ''output'') (\<lambda>d2 output.
         let ok = truthy (dget0 result ''success''); d3 = append_output_log_lines i act output d2;
             d4 = (if ok then invalidate_inventory sid d3 else d3);
             d5 = (if ok \<and> act = ''redeploy'' then prune_dangling_images_after_update (remotes.truncate x) i d4 else d4)
         in finish_run e aid i (if ok then ''success'' else ''failed'')
              (Dumped (JObj (service_payload svc path act @ [(''success'', JBool ok), (''error'', dget0 result ''error''),
                (''output'', JStr (take 1500 output))]))) hostname (''container_'' @ act)
              (flush_job_progress i (if ok then ''done'' else ''error'') (svc @ '' '' @ act @ '' '' @ ok_text ok) act [] d5)) d1)
       (flush_job_progress i act (''Running docker compose '' @ act @ '' '' @ svc @ '' in '' @ path @ dots) act [] d0)"

definition execute_container_service ::
    "env \<Rightarrow> stack_remotes \<Rightarrow> json \<Rightarrow> json \<Rightarrow> json \<Rightarrow> int \<Rightarrow> int \<Rightarrow> int \<Rightarrow> db \<Rightarrow> db \<times> (exc + unit)" where
  "execute_container_service e x project_path service action i sid aid =
     lift_exc (rbind (py_strip action) (\<lambda>a. rbind (py_strip project_path) (\<lambda>p. rbind (py_strip service) (\<lambda>s.
       Inr (service_act (lower a), p, s))))) (\<lambda>d0 (act, path, svc).
     let jt = ''container_'' @ act; hostname = host_label d0 sid; known = get_server d0 sid \<noteq> None in
     andthen (begin_run e i (run_fields act (''docker compose '' @ act @ '' '' @ svc @ dots)) d0) (\<lambda>d _.
       if svc = [] \<or> path = [] then
         finish_run e aid i ''failed'' (Dumped (JObj [(''error'', JStr ''compose directory and service are required''),
           (''service'', JStr svc)])) hostname jt d
       else if \<not> known then finish_run e aid i ''failed'' no_server hostname jt d
       else or_fail_with e i aid hostname jt (\<lambda>t. service_payload svc path act @ [(''error'', JStr t)])
              (service_work e x path svc act i sid aid hostname d)))"

section \<open>Templates\<close>

definition drift_error :: "int \<Rightarrow> string \<Rightarrow> dict" where
  "drift_error dep t = [(''success'', JBool False), (''error'', JStr t), (''deployment_id'', JInt dep)]"

definition drift_diff_line :: "json \<Rightarrow> exc + string" where
  "drift_diff_line v = (case v of
     JObj o1 \<Rightarrow> Inr (''  '' @ py_str (dget0 o1 ''file'') @ '': '' @ py_str (dget0 o1 ''detail''))
   | _ \<Rightarrow> Inl AttributeError)"

definition drift_lines :: "dict \<Rightarrow> json \<Rightarrow> json \<Rightarrow> nat \<Rightarrow> exc + string list" where
  "drift_lines result st diffs n =
     rbind (py_slice 12 diffs) (\<lambda>first. rbind (py_items first) (\<lambda>ds. rbind (collect drift_diff_line ds) (\<lambda>ls.
       Inr ([''Drift status: '' @ py_str st]
         @ (if truthy (dget0 result ''error'') then [''Error: '' @ py_str (dget0 result ''error'')] else [])
         @ (if truthy (dget0 result ''reason'') then [''Reason: '' @ py_str (dget0 result ''reason'')] else [])
         @ ls
         @ (if n > 12 then [''  '' @ dots @ '' +'' @ int_str (int (n - 12)) @ '' more''] else [])))))"

definition drift_work :: "env \<Rightarrow> stack_remotes \<Rightarrow> int \<Rightarrow> int \<Rightarrow> int \<Rightarrow> int \<Rightarrow> string \<Rightarrow> db \<Rightarrow> db \<times> (exc + unit)" where
  "drift_work e x dep i sid aid hostname d0 =
     (let d1 = flush_job_progress i ''ssh'' (''Reading compose/.env over SSH'' @ dots) ''checking'' [] d0 in
      case x_deployment x dep of
        None \<Rightarrow> (d1, Inl (ValueError ''Deployment not found''))
      | Some dp \<Rightarrow>
          if t_server_id dp \<noteq> sid then (d1, Inl (ValueError ''Deployment is not on this server''))
          else answer (x_drift x dep) (\<lambda>d2 result.
            let st = jor (dget0 result ''status'') (JStr ''unknown''); diffs = or_list result ''diffs'' in
            lift_exc (rbind (py_len diffs) (\<lambda>n. rbind (drift_lines result st diffs n) (\<lambda>ls.
                rbind (py_slice 20 diffs) (\<lambda>ds. Inr (n, ls, ds))))) (\<lambda>d3 (n, ls, ds).
              finish_run e aid i (if st = JStr ''in_sync'' \<or> st = JStr ''drifted'' then ''success'' else ''failed'')
                (Dumped (JObj [(''success'', JBool (st \<noteq> JStr ''unknown'')), (''status'', st), (''drift_status'', st),
                  (''diff_count'', JInt (int n)), (''diffs'', ds), (''deployment_id'', JInt dep),
                  (''project_name'', JStr (t_project_name dp)), (''template_slug'', JStr (t_template_slug dp)),
                  (''error'', dget0 result ''error''), (''reason'', dget0 result ''reason'')])) hostname
                ''template_drift_check'' (flush_all i ''checking'' (map (Pair ''compare'') ls) d3)) d2) d1)"

definition execute_template_drift_check :: "env \<Rightarrow> stack_remotes \<Rightarrow> int \<Rightarrow> int \<Rightarrow> int \<Rightarrow> int \<Rightarrow> db \<Rightarrow> db \<times> (exc + unit)" where
  "execute_template_drift_check e x dep i sid aid d =
     on_host e i sid aid ''template_drift_check'' (Dumped (JObj (drift_error dep ''Server not found'')))
       (run_fields ''checking'' (''Comparing host files to desired state (deployment #'' @ int_str dep @ '')'' @ dots))
       (\<lambda>hostname d1. or_fail_with e i aid hostname ''template_drift_check'' (\<lambda>t. drift_error dep (take 200 t))
          (drift_work e x dep i sid aid hostname d1)) d"

text \<open>\<open>_clear_job_secret_blobs\<close>.\<close>

definition secret_keys :: "string list" where
  "secret_keys = [''values_encrypted'', ''secrets_encrypted'']"

definition clear_details :: "column \<Rightarrow> column" where
  "clear_details c = (case loads c of
     Some (JObj data) \<Rightarrow> if \<exists>k\<in>set secret_keys. dget data k \<noteq> None
       then Text (JObj (filter (\<lambda>(k, v). k \<notin> set secret_keys) data)) else c
   | _ \<Rightarrow> c)"

definition clear_job_secret_blobs :: "int \<Rightarrow> db \<Rightarrow> db" where
  "clear_job_secret_blobs i d = upd_job i (\<lambda>j. j\<lparr>j_details := clear_details (j_details j)\<rparr>) d"

text \<open>\<open>finally: _clear_job_secret_blobs(job_id)\<close>.\<close>

definition finally_clear :: "int \<Rightarrow> db \<times> (exc + unit) \<Rightarrow> db \<times> (exc + unit)" where
  "finally_clear i m = (clear_job_secret_blobs i (fst m), snd m)"

definition job_dict :: "db \<Rightarrow> int \<Rightarrow> dict" where
  "job_dict d i = (case get_job d i of None \<Rightarrow> [] | Some j \<Rightarrow> load_dict (j_details j))"

definition stored_values :: "stack_remotes \<Rightarrow> json \<Rightarrow> string + dict" where
  "stored_values x blob = (if \<not> truthy blob then Inr [] else case x_values x (py_str blob) of
     Inl t \<Rightarrow> Inl t | Inr (JObj v) \<Rightarrow> Inr v | Inr _ \<Rightarrow> Inr [])"

text \<open>The \<open>redeploy\<close> part of a result: its dictionary when it is one, and whether the host failed.\<close>

definition redeploy_part :: "dict \<Rightarrow> dict option" where
  "redeploy_part result = (case jor (dget0 result ''redeploy'') (JObj []) of JObj rd \<Rightarrow> Some rd | _ \<Rightarrow> None)"

definition host_ok :: "dict \<Rightarrow> bool \<Rightarrow> bool" where
  "host_ok result deploy_now = (case redeploy_part result of
     Some rd \<Rightarrow> \<not> (deploy_now \<and> dget0 rd ''success'' = JBool False) | None \<Rightarrow> True)"

definition host_error :: "dict \<Rightarrow> bool \<Rightarrow> json" where
  "host_error result ok = (case redeploy_part result of
     Some rd \<Rightarrow> if ok then JNull else dget0 rd ''error'' | None \<Rightarrow> JNull)"

definition template_payload :: "string \<Rightarrow> dict \<Rightarrow> bool \<Rightarrow> json \<Rightarrow> dict" where
  "template_payload slug result ok project =
     (let dep = dget0 result ''deployment_id'' in
      [(''success'', JBool ok), (''template_slug'', JStr slug), (''project_name'', project), (''deployment_id'', dep),
       (''config_version'', dget0 result ''config_version''), (''project_path'', dget0 result ''project_path''),
       (''secret_keys'', or_list result ''secret_keys''),
       (''redeploy'', case redeploy_part result of None \<Rightarrow> JNull
          | Some rd \<Rightarrow> JObj [(''success'', dget0 rd ''success''), (''error'', dget0 rd ''error'')]),
       (''redirect_url'', if truthy dep then JStr (''/templates/deployments/'' @ py_str dep) else JNull),
       (''error'', host_error result ok)])"

definition template_error :: "string \<Rightarrow> string \<Rightarrow> dict" where
  "template_error slug t = [(''success'', JBool False), (''error'', JStr t), (''template_slug'', JStr slug)]"

definition template_deploy_work ::
    "env \<Rightarrow> stack_remotes \<Rightarrow> string \<Rightarrow> dict \<Rightarrow> bool \<Rightarrow> int \<Rightarrow> int \<Rightarrow> string \<Rightarrow> db \<Rightarrow> db \<times> (exc + unit)" where
  "template_deploy_work e x slug values deploy_now i aid hostname d0 =
     answer (x_apply_template x slug values deploy_now) (\<lambda>d1 result.
       let project = jor (dget0 result ''project_name'') (JStr slug); ok = host_ok result deploy_now in
       finish_run e aid i (if ok then ''success'' else ''failed'')
         (Dumped (JObj (template_payload slug result ok project))) hostname ''template_deploy''
         (flush_job_progress i ''done'' (''Stored desired state V'' @ py_str (dget0 result ''config_version'')
            @ '' for '' @ py_str project) ''deploying'' [] d1))
       (flush_job_progress i ''writing'' (''Rendering files and writing over SSH'' @ dots) ''deploying'' [] d0)"

definition execute_template_deploy ::
    "env \<Rightarrow> stack_remotes \<Rightarrow> json \<Rightarrow> bool \<Rightarrow> int \<Rightarrow> int \<Rightarrow> int \<Rightarrow> db \<Rightarrow> db \<times> (exc + unit)" where
  "execute_template_deploy e x template_slug deploy_now i sid aid = lift_exc (py_strip template_slug) (\<lambda>d0 slug.
     let hostname = host_label d0 sid; known = get_server d0 sid \<noteq> None; jt = ''template_deploy'' in
     andthen (begin_run e i (run_fields ''deploying'' (''Applying template '' @ slug @ dots)) d0) (\<lambda>d _.
       if \<not> known then andthen (finish_run e aid i ''failed'' no_server hostname jt d)
         (\<lambda>d1 u. (clear_job_secret_blobs i d1, Inr u))
       else case stored_values x (payload_text (job_dict d i) ''values_encrypted'') of
         Inl t \<Rightarrow> andthen (finish_run e aid i ''failed''
             (Dumped (JObj (template_error slug (''Could not load deploy values: '' @ t)))) hostname jt d)
           (\<lambda>d1 u. (clear_job_secret_blobs i d1, Inr u))
       | Inr values \<Rightarrow> finally_clear i (or_fail_with e i aid hostname jt (\<lambda>t. template_error slug (take 400 t))
           (template_deploy_work e x slug values deploy_now i aid hostname d))))"

definition redeploy_error :: "int \<Rightarrow> string \<Rightarrow> dict" where
  "redeploy_error dep t = [(''success'', JBool False), (''error'', JStr t), (''deployment_id'', JInt dep)]"

definition template_redeploy_work ::
    "env \<Rightarrow> stack_remotes \<Rightarrow> int \<Rightarrow> dict \<Rightarrow> dict \<Rightarrow> bool \<Rightarrow> int \<Rightarrow> int \<Rightarrow> int \<Rightarrow> string \<Rightarrow> db \<Rightarrow> db \<times> (exc + unit)" where
  "template_redeploy_work e x dep public secrets deploy_now i sid aid hostname d0 =
     (let d1 = flush_job_progress i ''writing'' (''Updating desired state and writing over SSH'' @ dots) ''redeploying'' [] d0 in
      case x_deployment x dep of
        None \<Rightarrow> (d1, Inl (ValueError ''Server or deployment not found''))
      | Some dp \<Rightarrow>
          if t_server_id dp \<noteq> sid then (d1, Inl (ValueError ''Deployment does not belong to this server''))
          else answer (x_redeploy_state x dep public secrets deploy_now) (\<lambda>d2 result.
            let ok = host_ok result deploy_now;
                project = jor (dget0 result ''project_name'') (JStr (''deployment-'' @ int_str dep));
                out = jor (dget0 result ''deployment_id'') (JInt dep)
            in finish_run e aid i (if ok then ''success'' else ''failed'')
                 (Dumped (JObj [(''success'', JBool ok), (''deployment_id'', out), (''project_name'', project),
                   (''config_version'', dget0 result ''config_version''),
                   (''redirect_url'', JStr (''/templates/deployments/'' @ py_str out)),
                   (''error'', host_error result ok)])) hostname ''template_redeploy'' d2) d1)"

definition execute_template_redeploy ::
    "env \<Rightarrow> stack_remotes \<Rightarrow> int \<Rightarrow> bool \<Rightarrow> int \<Rightarrow> int \<Rightarrow> int \<Rightarrow> db \<Rightarrow> db \<times> (exc + unit)" where
  "execute_template_redeploy e x dep deploy_now i sid aid d0 =
     (let hostname = host_label d0 sid; known = get_server d0 sid \<noteq> None; jt = ''template_redeploy'' in
     andthen (begin_run e i (run_fields ''redeploying'' (''Redeploying deployment #'' @ int_str dep @ dots)) d0) (\<lambda>d _.
       if \<not> known then andthen (finish_run e aid i ''failed'' no_server hostname jt d)
         (\<lambda>d1 u. (clear_job_secret_blobs i d1, Inr u))
       else let details = job_dict d i;
                public = (case dget0 details ''updated_public'' of JObj p \<Rightarrow> p | _ \<Rightarrow> []) in
         case stored_values x (dget0 details ''secrets_encrypted'') of
         Inl t \<Rightarrow> andthen (finish_run e aid i ''failed''
             (Dumped (JObj (redeploy_error dep (''Could not load secret updates: '' @ t)))) hostname jt d)
           (\<lambda>d1 u. (clear_job_secret_blobs i d1, Inr u))
       | Inr secrets \<Rightarrow> finally_clear i (or_fail_with e i aid hostname jt (\<lambda>t. redeploy_error dep (take 400 t))
           (template_redeploy_work e x dep public secrets deploy_now i sid aid hostname d))))"

section \<open>Host tool bootstrap\<close>

record boot_args =
  b_confirm :: bool
  b_user :: string
  b_enc :: string
  b_password :: string

definition boot_args_of :: "env \<Rightarrow> dict \<Rightarrow> boot_args" where
  "boot_args_of e payload =
     (let enc = py_str (jor (dget0 payload ''sudo_password_encrypted'') (JStr [])) in
      \<lparr>b_confirm = truthy (dget0 payload ''confirm_docker_bootstrap''),
       b_user = strip (py_str (jor (dget0 payload ''bootstrap_username'') (JStr []))),
       b_enc = enc,
       b_password = (if enc = [] then [] else case e_decrypt e enc of Some p \<Rightarrow> p | None \<Rightarrow> [])\<rparr>)"

text \<open>The inner function \<open>_safe\<close>.\<close>

definition boot_safe :: "boot_args \<Rightarrow> string \<Rightarrow> string" where
  "boot_safe b text = (let cleaned = redact_secret text (b_password b) in
     if b_enc b \<noteq> [] then replace_all cleaned (b_enc b) [] else cleaned)"

definition boot_start :: "string \<Rightarrow> string \<Rightarrow> string \<Rightarrow> boot_args \<Rightarrow> dict" where
  "boot_start label ssh_user fleet b =
     [(''current'', JStr ''bootstrapping''), (''bootstrap_username'', JStr ssh_user),
      (''confirm_docker_bootstrap'', JBool (b_confirm b)),
      (''log_line'', JStr (''Bootstrapping missing host tools on '' @ label @ '' (SSH user: '' @ ssh_user
         @ '', fleet user: '' @ fleet @ '')'' @ dots)), (''done'', JBool False)]"

definition boot_summary :: "boot_args \<Rightarrow> string \<Rightarrow> bool \<Rightarrow> string \<Rightarrow> dict \<Rightarrow> json list \<Rightarrow> dict" where
  "boot_summary b ssh_user ok message raw feats =
     [(''ok'', JBool ok), (''message'', JStr (take 500 (boot_safe b message))),
      (''os_id'', jor (dget0 raw ''os_id'') (JStr [])), (''codename'', jor (dget0 raw ''codename'') (JStr [])),
      (''features'', JList feats), (''bootstrap_username'', jor (dget0 raw ''bootstrap_username'') (JStr ssh_user))]"

definition boot_line :: "dict \<Rightarrow> json list \<Rightarrow> string" where
  "boot_line summary feats =
     (let names = join '', '' (map py_str feats) in
      take 400 (''OS '' @ py_str (dget0 summary ''os_id'') @ '' '' @ py_str (dget0 summary ''codename'')
        @ ''. Features: '' @ (if names \<noteq> [] then names else ''none'') @ ''. SSH user: ''
        @ py_str (dget0 summary ''bootstrap_username'') @ ''. '' @ py_str (dget0 summary ''message'')))"

definition merge_if_active :: "int \<Rightarrow> dict \<Rightarrow> db \<Rightarrow> exc + db" where
  "merge_if_active i kvs d = (case get_job d i of
     None \<Rightarrow> Inr d | Some j \<Rightarrow> if active j then merge_if_present i kvs d else Inr d)"

definition execute_host_bootstrap :: "env \<Rightarrow> stack_remotes \<Rightarrow> dict \<Rightarrow> int \<Rightarrow> int \<Rightarrow> int \<Rightarrow> db \<Rightarrow> db \<times> (exc + unit)" where
  "execute_host_bootstrap e x payload i sid aid d0 =
     (let b = boot_args_of e payload; so = get_server d0 sid;
          fleet = (case so of Some s \<Rightarrow> s_ssh_username s | None \<Rightarrow> []);
          ssh_user = (if b_user b \<noteq> [] then b_user b else fleet);
          host = (case so of Some s \<Rightarrow> if s_name s \<noteq> [] then s_name s else host_label d0 sid | None \<Rightarrow> ''host'')
      in on_host e i sid aid ''host_bootstrap'' no_server (boot_start host ssh_user fleet b)
        (\<lambda>hostname d. case x_bootstrap x (b_confirm b) (b_password b) (b_user b) of
           Inl t \<Rightarrow> finish_run e aid i ''failed'' (Plain (take 800 (boot_safe b t))) hostname ''host_bootstrap'' d
         | Inr (ok, message, details) \<Rightarrow>
             let raw = filter (\<lambda>(k, v). k \<notin> {''sudo_password'', ''sudo_password_encrypted''}) details in
             lift_exc (py_items (or_list raw ''features'')) (\<lambda>d1 feats.
               let summary = boot_summary b ssh_user ok message raw feats in
               andthen (commit d1 (merge_if_active i [(''log_line'', JStr (boot_line summary feats)), (''done'', JBool False)] d1))
                 (\<lambda>d2 _. finish_run e aid i (if ok then ''success'' else ''failed'') (Dumped (JObj summary)) hostname
                    ''host_bootstrap'' d2)) d) d0)"

section \<open>The executor of a job\<close>

fun run_call :: "env \<Rightarrow> stack_remotes \<Rightarrow> exec_call \<Rightarrow> int \<Rightarrow> int \<Rightarrow> int \<Rightarrow> db \<Rightarrow> db \<times> (exc + unit)" where
  "run_call e x (ExecOsPatch steps) = execute_os_patch_sync e (remotes.truncate x) steps"
| "run_call e x ExecContainerPatch = execute_container_patch_sync e (remotes.truncate x)"
| "run_call e x ExecHostReboot = execute_host_reboot e (remotes.truncate x)"
| "run_call e x ExecOsCheck = execute_os_update_check e (remotes.truncate x)"
| "run_call e x ExecImageCheck = execute_container_update_check e (remotes.truncate x)"
| "run_call e x (ExecStackCheck path) = execute_docker_stack_check e x path"
| "run_call e x (ExecStackDeploy path pull files) = execute_docker_stack_deploy e x path pull files"
| "run_call e x (ExecStackLifecycle path action) = execute_docker_stack_lifecycle e x path action"
| "run_call e x (ExecStackRemove path) = execute_docker_stack_remove e x path"
| "run_call e x (ExecTemplateDeploy slug now) = execute_template_deploy e x slug now"
| "run_call e x (ExecTemplateRedeploy dep now) = execute_template_redeploy e x dep now"
| "run_call e x (ExecTemplateDrift dep) = execute_template_drift_check e x dep"
| "run_call e x ExecHostFacts = execute_host_facts e (remotes.truncate x)"
| "run_call e x (ExecDockerPrune kind) = execute_docker_prune e (remotes.truncate x) kind"
| "run_call e x (ExecHostBootstrap payload) = execute_host_bootstrap e x payload"
| "run_call e x (ExecContainerService path svc action) = execute_container_service e x path svc action"

text \<open>As a body of \<open>run_exclusive_job\<close>: the text of the exception that leaves the executor.\<close>

definition program_body :: "env \<Rightarrow> stack_remotes \<Rightarrow> body" where
  "program_body e x call i sid aid d = (case run_call e x call i sid aid d of
     (d1, Inl ex) \<Rightarrow> (d1, Some (exc_text e ex)) | (d1, Inr u) \<Rightarrow> (d1, None))"

end
