(* ===== verification/ExecutorFacts.thy ===== *)
theory ExecutorFacts
  imports TemplateExecutors
begin

text \<open>
  Every executor keeps the queue: started on an active job it adds no job and makes no finished
  one active. With it \<open>program_body\<close> interprets the locale \<open>executor\<close>.
\<close>

named_theorems calm_runs

lemma begin_run_calm:
  assumes "wf_ids d" and "get_job d i = Some j" and "active j"
  shows "calm_run d (begin_run e i kvs d)"
proof -
  let ?d1 = "upd_job i (\<lambda>j. j\<lparr>j_status := ''running'', j_started_at := Some (e_now e)\<rparr>) d"
  have "calm d ?d1" by (rule calm_upd_job [OF _ _ assms(1)]) (use assms in \<open>auto simp: job_key_def\<close>)
  then have "merge_if_present i kvs ?d1 = Inr d' \<Longrightarrow> calm d d'" for d'
    using merge_if_present_calm calm_trans by blast
  then show ?thesis
    by (cases "merge_if_present i kvs ?d1") (simp_all add: begin_run_def)
qed

lemma finish_run_calm [calm_runs]: "wf_ids d \<Longrightarrow> \<not> active_status st \<Longrightarrow> calm_run d (finish_run e aid i st sn h jt d)"
  by (simp add: finish_run_def calm_run_finish)

lemma answer_calm [calm_runs]: "(\<And>v. calm_run d (f d v)) \<Longrightarrow> calm_run d (answer r f d)"
  by (auto simp: answer_def split: sum.splits)

lemma lift_exc_calm [calm_runs]: "(\<And>v. calm_run d (f d v)) \<Longrightarrow> calm_run d (lift_exc r f d)"
  by (auto simp: lift_exc_def split: sum.splits)

lemma calm_after: "calm d d1 \<Longrightarrow> calm_run d1 m \<Longrightarrow> calm_run d m"
  by (auto simp: calm_run_def intro: calm_trans)

lemma calm_after_wf: "wf_ids d \<Longrightarrow> calm d d1 \<Longrightarrow> (wf_ids d1 \<Longrightarrow> calm_run d1 m) \<Longrightarrow> calm_run d m"
  using calm_after wf_ids_calm by blast

lemma or_fail_with_calm [calm_runs]:
  assumes "wf_ids d" and "calm_run d m" shows "calm_run d (or_fail_with e i aid h jt p m)"
proof (cases m)
  case (Pair d1 r)
  then have c: "calm d d1" using assms(2) by simp
  then have "wf_ids d1" using assms(1) wf_ids_calm by blast
  then have "calm_run d (finish_run e aid i ''failed'' sn h jt d1)" for sn
    using c finish_run_calm calm_after active_status_simps(3) by blast
  then show ?thesis using Pair c by (cases r) (simp_all add: or_fail_with_def)
qed

lemma commit_run_calm: "(\<And>d'. r = Inr d' \<Longrightarrow> calm d d') \<Longrightarrow> calm_run d (commit d r)"
  by (cases r) auto

lemma flush_all_calm [simp, intro]: "calm d (flush_all i c ls d)"
proof (induction ls arbitrary: d)
  case (Cons l ls)
  have "calm d (flush_job_progress i (fst l) (snd l) c [] d)" by (rule flush_calm)
  also have "calm \<dots> (flush_all i c (l # ls) d)" using Cons by (simp add: flush_all_def split_beta)
  finally show ?case .
qed (simp add: flush_all_def)

lemma output_log_calm [simp, intro]: "calm d (append_output_log_lines i c t d)"
  by (simp add: append_output_log_lines_def Let_def)

lemma inventory_calm [simp, intro]: "calm d (invalidate_inventory sid d)"
  by (simp add: invalidate_inventory_def)

lemma prune_dangling_calm [simp, intro]: "calm d (prune_dangling_images_after_update x i d)"
  by (simp add: prune_dangling_images_after_update_def split: sum.splits)

lemma clear_blobs_calm [simp, intro]: "calm d (clear_job_secret_blobs i d)"
  unfolding clear_job_secret_blobs_def
  by (rule calm_upd_job') (simp add: calm_upd_def job_key_def active_def)

lemma emit_upd_calm: "calm d (emit x (upd_server i f d))"
  by (rule calm_trans [of _ "upd_server i f d"]) auto

lemma os_result_calm: "apply_os_check_result e sid res d = Inr d' \<Longrightarrow> calm d d'"
  by (auto simp: apply_os_check_result_def Let_def emit_upd_calm elim!: rbind_InrE split: option.splits)

lemma image_result_calm: "apply_container_check_result e sid res d = Inr d' \<Longrightarrow> calm d d'"
  by (auto simp: apply_container_check_result_def Let_def emit_upd_calm elim!: rbind_InrE split: option.splits)

lemma project_check_calm: "apply_single_project_check_result e sid p res d = Inr d' \<Longrightarrow> calm d d'"
  by (auto simp: apply_single_project_check_result_def Let_def emit_upd_calm elim!: rbind_InrE split: option.splits)

lemma project_deploy_calm: "apply_single_project_deploy_result e sid p ok d = Inr d' \<Longrightarrow> calm d d'"
  by (auto simp: apply_single_project_deploy_result_def Let_def emit_upd_calm elim!: rbind_InrE split: option.splits if_splits)

lemmas result_calm [calm_runs] =
  commit_run_calm [OF os_result_calm] commit_run_calm [OF image_result_calm]
  commit_run_calm [OF project_check_calm] commit_run_calm [OF project_deploy_calm]

text \<open>Chains of calm steps, read from the outside in.\<close>

lemma calm_chain:
  "calm d d1 \<Longrightarrow> calm d (flush_job_progress i c l dc ex d1)"
  "calm d d1 \<Longrightarrow> calm d (flush_all i c ls d1)"
  "calm d d1 \<Longrightarrow> calm d (append_output_log_lines i c t d1)"
  "calm d d1 \<Longrightarrow> calm d (invalidate_inventory sid d1)"
  "calm d d1 \<Longrightarrow> calm d (prune_dangling_images_after_update x i d1)"
  "calm d d1 \<Longrightarrow> calm d (emit y d1)"
  "calm d d1 \<Longrightarrow> calm d (upd_server sid f d1)"
  by (auto elim!: calm_trans)

lemma calm_if: "(b \<Longrightarrow> calm d d1) \<Longrightarrow> (\<not> b \<Longrightarrow> calm d d2) \<Longrightarrow> calm d (if b then d1 else d2)"
  by simp

lemma finish_run_chain [calm_runs]:
  "wf_ids d \<Longrightarrow> calm d d1 \<Longrightarrow> \<not> active_status st \<Longrightarrow> calm_run d (finish_run e aid i st sn h jt d1)"
  by (rule calm_after_wf) (auto intro: finish_run_calm)

lemma answer_chain:
  "wf_ids d \<Longrightarrow> calm d d1 \<Longrightarrow> (\<And>v. wf_ids d1 \<Longrightarrow> calm_run d1 (f d1 v)) \<Longrightarrow> calm_run d (answer r f d1)"
  by (rule calm_after_wf) (auto intro: answer_calm)

lemma lift_chain:
  "wf_ids d \<Longrightarrow> calm d d1 \<Longrightarrow> (\<And>v. wf_ids d1 \<Longrightarrow> calm_run d1 (f d1 v)) \<Longrightarrow> calm_run d (lift_exc r f d1)"
  by (rule calm_after_wf) (auto intro: lift_exc_calm)

lemma commit_chain:
  assumes "wf_ids d" and "calm d d1" and "\<And>d'. r = Inr d' \<Longrightarrow> calm d1 d'"
  shows "calm_run d (commit d1 r)"
  by (rule calm_after_wf [OF assms(1,2)]) (rule commit_run_calm [OF assms(3)])

lemma on_host_calm:
  assumes "wf_ids d" and "get_job d i = Some j" and "active j"
    and "\<And>h d1. wf_ids d1 \<Longrightarrow> calm_run d1 (work h d1)"
  shows "calm_run d (on_host e i sid aid jt missing kvs work d)"
  unfolding on_host_def Let_def
  by (rule calm_run_then [OF assms(1) begin_run_calm [OF assms(1-3)]]) (auto intro: assms(4) finish_run_calm)

text \<open>The rules for one executor, with the branches of its result.\<close>

lemmas calm_work = finish_run_chain answer_chain lift_chain commit_chain calm_run_then calm_run_or_fail
  or_fail_with_calm calm_chain calm_if calm_refl

lemmas calm_results = os_result_calm image_result_calm project_check_calm project_deploy_calm

section \<open>Each executor\<close>

lemma status_of_flag [simp]: "\<not> active_status (if b then ''success'' else ''failed'')"
  "\<not> active_status (if b then ''failed'' else ''success'')"
  by simp_all

lemma calm_host_reboot:
  assumes "wf_ids d" and "get_job d i = Some j" and "active j"
  shows "calm_run d (execute_host_reboot e x i sid aid d)"
  unfolding execute_host_reboot_def Let_def split_beta
  by (rule calm_run_then [OF assms(1) begin_run_calm [OF assms]]) (auto intro!: calm_work dest: calm_results)

lemma calm_os_check:
  assumes "wf_ids d" and "get_job d i = Some j" and "active j"
  shows "calm_run d (execute_os_update_check e x i sid aid d)"
  unfolding execute_os_update_check_def Let_def
  by (rule calm_run_then [OF assms(1) begin_run_calm [OF assms]]) (auto intro!: calm_work dest: calm_results)

lemma calm_image_check:
  assumes "wf_ids d" and "get_job d i = Some j" and "active j"
  shows "calm_run d (execute_container_update_check e x i sid aid d)"
  unfolding execute_container_update_check_def Let_def
  by (rule calm_run_then [OF assms(1) begin_run_calm [OF assms]]) (auto intro!: calm_work dest: calm_results)

lemma calm_prune:
  assumes "wf_ids d" and "get_job d i = Some j" and "active j"
  shows "calm_run d (execute_docker_prune e x k i sid aid d)"
proof (cases "prune_kind_saved (get_job d i) k")
  case (Inr kind)
  then show ?thesis
    unfolding execute_docker_prune_def Let_def
    by simp (rule calm_run_then [OF assms(1) begin_run_calm [OF assms]],
      auto split: sum.splits intro!: calm_work)
qed (simp add: execute_docker_prune_def)

lemma calm_host_facts:
  assumes "wf_ids d" and "get_job d i = Some j" and "active j"
  shows "calm_run d (execute_host_facts e x i sid aid d)"
  unfolding execute_host_facts_def Let_def
  by (rule calm_run_then [OF assms(1) calm_run_mark [OF assms]]) (auto intro!: calm_work dest: calm_results)

text \<open>A handler for the exceptions of a run.\<close>

lemma handled_calm:
  assumes "wf_ids d" and "calm_run d m"
    and "\<And>d1 ex. wf_ids d1 \<Longrightarrow> calm_run d1 (h d1 ex)"
  shows "calm_run d (case m of (d1, Inr u) \<Rightarrow> (d1, Inr ()) | (d1, Inl ex) \<Rightarrow> h d1 ex)"
proof -
  obtain d1 r where m: "m = (d1, r)" by (cases m)
  have c: "calm d d1" using assms(2) m by simp
  have "wf_ids d1" using c assms(1) wf_ids_calm by blast
  then have "calm_run d (h d1 ex)" for ex using calm_after [OF c assms(3)] by blast
  then show ?thesis using c m by (cases r) simp_all
qed

lemma fst_commit_calm: "(\<And>d'. r = Inr d' \<Longrightarrow> calm d1 d') \<Longrightarrow> calm d d1 \<Longrightarrow> calm d (fst (commit d1 r))"
  by (cases r) (auto intro: calm_trans)

lemma recheck_os_calm: "calm d (fst (recheck_os e x i sid h d))"
proof -
  have "calm d d1" if "merge_if_present i kvs (emit y d) = Inr d1" for kvs y d1
    using calm_trans [OF calm_others(3) merge_if_present_calm [OF that]] .
  then show ?thesis
    by (auto simp: recheck_os_def Let_def split: sum.splits intro!: fst_commit_calm dest: os_result_calm)
qed

lemma recheck_images_calm: "calm d (recheck_images e x i sid d)"
  by (auto simp: recheck_images_def split: sum.splits intro!: fst_commit_calm
      dest: merge_if_present_calm image_result_calm)

lemma os_patch_work_calm:
  assumes wf: "wf_ids d" shows "calm_run d (os_patch_work e x st i sid aid h d)"
proof -
  have m: "calm d (mark_haos sid d)" by (simp add: mark_haos_def)
  have "calm d (fst (recheck_os e x i sid h (mark_haos sid d)))"
    using calm_trans [OF m recheck_os_calm] .
  then show ?thesis
    unfolding os_patch_work_def Let_def split_beta
    by (rule_tac answer_calm, simp only: split: sum.splits)
      (auto simp: split_beta intro!: finish_run_chain [OF wf] calm_chain(6) m recheck_os_calm
        split: sum.splits prod.splits)
qed

lemma calm_os_patch:
  assumes "wf_ids d" and "get_job d i = Some j" and "active j"
  shows "calm_run d (execute_os_patch_sync e x st i sid aid d)"
  unfolding execute_os_patch_sync_def Let_def
  by (rule calm_run_then [OF assms(1) begin_run_calm [OF assms]])
    (auto intro!: finish_run_chain handled_calm calm_after_wf [OF _ _ os_patch_work_calm] calm_chain split: sum.splits)

lemma container_patch_work_calm: "wf_ids d \<Longrightarrow> calm_run d (container_patch_work e x i sid aid h d)"
proof -
  assume wf: "wf_ids d"
  let ?d1 = "flush_all i ''patching'' (fst (x_container_patch x)) d"
  have c: "calm ?d1 (prune_dangling_images_after_update x i (recheck_images e x i sid ?d1))"
    using recheck_images_calm prune_dangling_calm by (rule calm_trans)
  show ?thesis
    unfolding container_patch_work_def Let_def
    by (rule calm_after_wf [OF wf flush_all_calm [of _ i "''patching''" "fst (x_container_patch x)"]])
      (auto intro!: answer_calm finish_run_chain calm_chain(6) c split: sum.splits)
qed

lemma calm_container_patch:
  assumes "wf_ids d" and "get_job d i = Some j" and "active j"
  shows "calm_run d (execute_container_patch_sync e x i sid aid d)"
  unfolding execute_container_patch_sync_def Let_def
  by (rule calm_run_then [OF assms(1) begin_run_calm [OF assms]])
    (auto intro!: finish_run_chain handled_calm calm_after_wf [OF _ _ container_patch_work_calm] calm_chain split: sum.splits)

lemma stack_check_work_calm: "wf_ids d \<Longrightarrow> calm_run d (stack_check_work e x p pr i sid aid h d)"
  unfolding stack_check_work_def Let_def
  by (auto intro!: calm_work dest: calm_results)

lemma calm_stack_check:
  assumes "wf_ids d" and "get_job d i = Some j" and "active j"
  shows "calm_run d (execute_docker_stack_check e x p i sid aid d)"
  unfolding execute_docker_stack_check_def Let_def
  by (intro lift_exc_calm on_host_calm [OF assms] calm_run_or_fail stack_check_work_calm)

lemma stack_deploy_work_calm: "wf_ids d \<Longrightarrow> calm_run d (stack_deploy_work e x p pr pull fs i sid aid h d)"
  unfolding stack_deploy_work_def Let_def
  by (auto intro!: calm_work dest: calm_results)

lemma calm_stack_deploy:
  assumes "wf_ids d" and "get_job d i = Some j" and "active j"
  shows "calm_run d (execute_docker_stack_deploy e x p pull fs i sid aid d)"
  unfolding execute_docker_stack_deploy_def Let_def
  by (intro lift_exc_calm on_host_calm [OF assms] or_fail_with_calm stack_deploy_work_calm)

lemma lifecycle_work_calm: "wf_ids d \<Longrightarrow> calm_run d (lifecycle_work e x p pr act dv i sid aid h d)"
  unfolding lifecycle_work_def Let_def
  by (auto intro!: calm_work)

lemma calm_stack_lifecycle:
  assumes "wf_ids d" and "get_job d i = Some j" and "active j"
  shows "calm_run d (execute_docker_stack_lifecycle e x p a i sid aid d)"
  unfolding execute_docker_stack_lifecycle_def Let_def split_beta
  by (intro lift_exc_calm on_host_calm [OF assms] or_fail_with_calm lifecycle_work_calm)

lemma stack_remove_work_calm: "wf_ids d \<Longrightarrow> calm_run d (stack_remove_work e x p pr i sid aid h d)"
  unfolding stack_remove_work_def Let_def
  by (auto intro!: calm_work)

lemma calm_stack_remove:
  assumes "wf_ids d" and "get_job d i = Some j" and "active j"
  shows "calm_run d (execute_docker_stack_remove e x p i sid aid d)"
  unfolding execute_docker_stack_remove_def Let_def
  by (intro lift_exc_calm on_host_calm [OF assms] or_fail_with_calm stack_remove_work_calm)

lemma service_work_calm: "wf_ids d \<Longrightarrow> calm_run d (service_work e x p s act i sid aid h d)"
  unfolding service_work_def Let_def
  by (auto intro!: calm_work)

lemma calm_service:
  assumes "wf_ids d" and "get_job d i = Some j" and "active j"
  shows "calm_run d (execute_container_service e x p s a i sid aid d)"
  unfolding execute_container_service_def Let_def split_beta
  by (intro lift_exc_calm calm_run_then [OF assms(1) begin_run_calm [OF assms]])
    (auto intro!: finish_run_calm or_fail_with_calm service_work_calm)

lemma drift_work_calm: "wf_ids d \<Longrightarrow> calm_run d (drift_work e x dep i sid aid h d)"
  unfolding drift_work_def Let_def split_beta
  by (auto intro!: calm_work split: option.splits)

lemma calm_drift:
  assumes "wf_ids d" and "get_job d i = Some j" and "active j"
  shows "calm_run d (execute_template_drift_check e x dep i sid aid d)"
  unfolding execute_template_drift_check_def
  by (intro on_host_calm [OF assms] or_fail_with_calm drift_work_calm)

lemma clear_then_calm:
  "wf_ids d \<Longrightarrow> calm_run d m \<Longrightarrow> calm_run d (andthen m (\<lambda>d1 u. (clear_job_secret_blobs i d1, Inr ())))"
  by (rule calm_run_then) auto

lemma finally_clear_calm: "calm_run d m \<Longrightarrow> calm_run d (finally_clear i m)"
  using clear_blobs_calm calm_trans by (auto simp: finally_clear_def calm_run_def)

lemma template_deploy_work_calm: "wf_ids d \<Longrightarrow> calm_run d (template_deploy_work e x s v now i aid h d)"
  unfolding template_deploy_work_def Let_def
  by (auto intro!: calm_work)

lemma calm_template_deploy:
  assumes "wf_ids d" and "get_job d i = Some j" and "active j"
  shows "calm_run d (execute_template_deploy e x s now i sid aid d)"
  unfolding execute_template_deploy_def Let_def
  by (intro lift_exc_calm calm_run_then [OF assms(1) begin_run_calm [OF assms]])
    (auto intro!: finish_run_calm clear_then_calm finally_clear_calm or_fail_with_calm
      template_deploy_work_calm split: sum.splits)

lemma template_redeploy_work_calm: "wf_ids d \<Longrightarrow> calm_run d (template_redeploy_work e x dep pu se now i sid aid h d)"
  unfolding template_redeploy_work_def Let_def
  by (auto intro!: calm_work split: option.splits)

lemma calm_template_redeploy:
  assumes "wf_ids d" and "get_job d i = Some j" and "active j"
  shows "calm_run d (execute_template_redeploy e x dep now i sid aid d)"
  unfolding execute_template_redeploy_def Let_def
  by (intro calm_run_then [OF assms(1) begin_run_calm [OF assms]])
    (auto intro!: finish_run_calm clear_then_calm finally_clear_calm or_fail_with_calm
      template_redeploy_work_calm split: sum.splits)

lemma merge_if_active_calm: "merge_if_active i kvs d = Inr d' \<Longrightarrow> calm d d'"
  by (auto simp: merge_if_active_def split: option.splits if_splits dest: merge_if_present_calm)

lemma calm_bootstrap:
  assumes "wf_ids d" and "get_job d i = Some j" and "active j"
  shows "calm_run d (execute_host_bootstrap e x payload i sid aid d)"
  unfolding execute_host_bootstrap_def Let_def
  by (rule on_host_calm [OF assms])
    (auto intro!: finish_run_calm lift_exc_calm calm_run_then commit_run_calm
      dest: merge_if_active_calm split: sum.splits)

section \<open>The executor of the program\<close>

lemma run_call_calm:
  assumes "wf_ids d" and "get_job d i = Some j" and "active j"
  shows "calm_run d (run_call e x c i sid aid d)"
  by (cases c) (simp_all add: calm_os_patch [OF assms] calm_container_patch [OF assms]
    calm_host_reboot [OF assms] calm_os_check [OF assms] calm_image_check [OF assms]
    calm_stack_check [OF assms] calm_stack_deploy [OF assms] calm_stack_lifecycle [OF assms]
    calm_stack_remove [OF assms] calm_template_deploy [OF assms] calm_template_redeploy [OF assms]
    calm_drift [OF assms] calm_host_facts [OF assms] calm_prune [OF assms] calm_bootstrap [OF assms]
    calm_service [OF assms])

interpretation task: executor "program_body e x"
proof
  fix d :: db and i sid aid :: int and j c
  assume "wf_ids d" and "get_job d i = Some j" and "active j"
  then have "calm_run d (run_call e x c i sid aid d)" by (rule run_call_calm)
  then show "calm d (fst (program_body e x c i sid aid d))"
    by (auto simp: program_body_def calm_run_def split: prod.splits sum.splits)
qed

end
