(* ===== verification/PosixPath.thy ===== *)
theory PosixPath
  imports PyText
begin

text \<open>
  The part of \<open>os.path\<close> (POSIX) the path policy uses: \<open>normpath\<close> and \<open>expanduser\<close> of the
  current user. A normalised path is a number of leading slashes (none, one, or exactly two)
  and a list of components; the lemmas relate the text to that pair.
\<close>

section \<open>\<open>os.path.normpath\<close>\<close>

abbreviation slash :: char where
  "slash \<equiv> CHR ''/''"

text \<open>One component, against the components kept so far (last one first).\<close>

definition norm_step :: "bool \<Rightarrow> string \<Rightarrow> string list \<Rightarrow> string list" where
  "norm_step rooted seg st =
     (if seg = [] \<or> seg = ''.'' then st
      else if seg \<noteq> ''..'' \<or> (\<not> rooted \<and> st = []) \<or> (st \<noteq> [] \<and> hd st = ''..'') then seg # st
      else tl st)"

definition norm_comps :: "bool \<Rightarrow> string list \<Rightarrow> string list" where
  "norm_comps rooted comps = rev (fold (norm_step rooted) comps [])"

text \<open>POSIX keeps a double slash at the start, and takes three or more as one.\<close>

datatype lead = No_root | Root | Double_root

definition root_slashes :: "string \<Rightarrow> lead" where
  "root_slashes p =
     (if \<not> prefix ''/'' p then No_root
      else if prefix ''//'' p \<and> \<not> prefix ''///'' p then Double_root else Root)"

fun show_path :: "lead \<Rightarrow> string list \<Rightarrow> string" where
  "show_path No_root comps = join ''/'' comps"
| "show_path Root comps = ''/'' @ join ''/'' comps"
| "show_path Double_root comps = ''//'' @ join ''/'' comps"

declare show_path.simps [simp del]

lemma show_path_lead [simp]:
  "show_path n cs = [] \<longleftrightarrow> n = No_root \<and> join ''/'' cs = []"
  "[] = show_path n cs \<longleftrightarrow> n = No_root \<and> join ''/'' cs = []"
  by (cases n; auto simp: show_path.simps)+

definition normpath :: "string \<Rightarrow> string" where
  "normpath p =
     (if p = [] then ''.''
      else (let q = show_path (root_slashes p) (norm_comps (root_slashes p \<noteq> No_root) (split_on slash p))
            in if q = [] then ''.'' else q))"

text \<open>\<open>os.path.expanduser\<close> for the current user, whose home directory is a parameter.\<close>

definition expanduser :: "string option \<Rightarrow> string \<Rightarrow> string" where
  "expanduser home p =
     (case home of
        None \<Rightarrow> p
      | Some h \<Rightarrow>
          (if p = ''~'' \<or> prefix ''~/'' p
           then (let q = rstrip_chars (\<lambda>c. c = slash) h @ drop 1 p in if q = [] then ''/'' else q)
           else p))"

section \<open>Components\<close>

definition plain :: "string \<Rightarrow> bool" where
  "plain c = (c \<noteq> [] \<and> c \<noteq> ''.'' \<and> c \<noteq> ''..'' \<and> slash \<notin> set c)"

lemma norm_step_plain:
  "(\<forall>c\<in>set st. plain c) \<Longrightarrow> slash \<notin> set seg \<Longrightarrow> \<forall>c\<in>set (norm_step True seg st). plain c"
  by (cases st) (auto simp: norm_step_def plain_def)

lemma norm_comps_plain:
  assumes "\<forall>c\<in>set comps. slash \<notin> set c"
  shows "\<forall>c\<in>set (norm_comps True comps). plain c"
proof -
  have "\<forall>c\<in>set (fold (norm_step True) comps st). plain c" if "\<forall>c\<in>set st. plain c" for st
    using assms that
  proof (induction comps arbitrary: st)
    case (Cons a comps)
    have "\<forall>c\<in>set (norm_step True a st). plain c" using Cons.prems by (intro norm_step_plain) auto
    with Cons.IH [OF _ this] Cons.prems(1) show ?case by simp
  qed simp
  from this [of "[]"] show ?thesis by (simp add: norm_comps_def)
qed

lemma norm_step_of_plain: "plain c \<Longrightarrow> norm_step r c st = c # st"
  by (simp add: norm_step_def plain_def)

lemma norm_comps_of_plain: "\<forall>c\<in>set cs. plain c \<Longrightarrow> norm_comps r cs = cs"
proof -
  assume *: "\<forall>c\<in>set cs. plain c"
  have "fold (norm_step r) cs st = rev cs @ st" for st
    using * by (induction cs arbitrary: st) (auto simp: norm_step_of_plain)
  then show ?thesis by (simp add: norm_comps_def)
qed

lemma norm_comps_skip_empty: "norm_comps r ([] # cs) = norm_comps r cs"
  by (simp add: norm_comps_def norm_step_def)

lemma split_slash_parts: "c \<in> set (split_on slash p) \<Longrightarrow> slash \<notin> set c"
  by (rule split_on_parts)

lemma split_on_app: "split_on d (u @ d # v) = split_on d u @ split_on d v"
  by (induction u) (auto split: list.splits)

lemma split_join_plain: "\<forall>c\<in>set cs. plain c \<Longrightarrow> cs \<noteq> [] \<Longrightarrow> split_on slash (join ''/'' cs) = cs"
  by (rule split_on_join) (auto simp: plain_def)

lemma join_plain_hd:
  assumes "\<forall>c\<in>set cs. plain c"
  shows "\<not> prefix ''/'' (join ''/'' cs)"
proof (cases cs)
  case (Cons c ds)
  then obtain x xs where "c = x # xs" "x \<noteq> slash" using assms by (cases c) (auto simp: plain_def)
  with Cons show ?thesis by (cases ds) auto
qed simp

lemma show_path_rooted: "n \<noteq> No_root \<Longrightarrow> prefix ''/'' (show_path n cs)"
  by (cases n) (auto simp: show_path.simps)

lemma root_slashes_show:
  assumes "\<forall>c\<in>set cs. plain c" and "n \<noteq> No_root"
  shows "root_slashes (show_path n cs) = n"
  using assms(2) join_plain_hd [OF assms(1)] by (cases n) (auto simp: root_slashes_def show_path.simps)

lemma split_show:
  assumes "\<forall>c\<in>set cs. plain c"
  shows "norm_comps r (split_on slash (show_path n cs)) = cs"
proof -
  have "norm_comps r (split_on slash (join ''/'' cs)) = cs"
    using assms by (cases "cs = []") (simp_all add: split_join_plain norm_comps_of_plain,
      simp add: norm_comps_def norm_step_def)
  then show ?thesis by (cases n) (simp_all add: norm_comps_skip_empty show_path.simps)
qed

text \<open>A rooted path after normalisation: one or two slashes and plain components.\<close>

lemma normpath_rooted:
  assumes "prefix ''/'' p"
  obtains n cs where "n = root_slashes p" and "n \<noteq> No_root" and "\<forall>c\<in>set cs. plain c"
    and "cs = norm_comps True (split_on slash p)" and "normpath p = show_path n cs"
proof -
  let ?cs = "norm_comps True (split_on slash p)"
  have n: "root_slashes p \<noteq> No_root" using assms by (auto simp: root_slashes_def)
  have "\<forall>c\<in>set ?cs. plain c" using split_slash_parts by (intro norm_comps_plain) blast
  moreover have "normpath p = show_path (root_slashes p) ?cs"
    using assms n by (auto simp: normpath_def Let_def)
  ultimately show ?thesis using n that by blast
qed

lemma normpath_show:
  assumes "\<forall>c\<in>set cs. plain c" and "n \<noteq> No_root"
  shows "normpath (show_path n cs) = show_path n cs"
proof -
  have "show_path n cs \<noteq> []" using assms(2) by simp
  then show ?thesis
    using assms by (auto simp: normpath_def Let_def root_slashes_show split_show)
qed

end
