(* ===== verification/MoveNames.thy ===== *)
theory MoveNames
  imports PosixPath PyJson "HOL-Library.AList"
begin

text \<open>
  The names and paths of a Move (\<open>app/services/service_migrate/overrides.py\<close>, with
  \<open>compose_project_name\<close> of \<open>host_lock.py\<close>, \<open>docker_base_abs\<close> of \<open>facts.py\<close>, \<open>expand_remote_path\<close> of
  \<open>app/services/ssh.py\<close>, the path jail of \<open>leftover.py\<close> and \<open>invert_port_map\<close> of \<open>undo.py\<close>). A mapping of
  text to text is an association list in the order of the code's dictionary.
\<close>

section \<open>Project names\<close>

definition MAX_PROJECT :: nat where
  "MAX_PROJECT = 128"

text \<open>The result is the name, or the message of the \<open>HostLockError\<close>.\<close>

definition compose_project_name :: "string option \<Rightarrow> string + string" where
  "compose_project_name raw =
     (let name = strip (case raw of None \<Rightarrow> [] | Some s \<Rightarrow> s) in
      if name = [] \<or> startswith name ''/'' \<or> contains name ''..'' \<or> slash \<in> set name \<or> CHR 0x5C \<in> set name
         \<or> CHR 0x00 \<in> set name \<or> list_ex (\<lambda>c. c \<in> set name) [CHR 0x0A, CHR 0x0D, CHR '';'', CHR ''|'', CHR ''&'', CHR 0x60]
      then Inl ''invalid compose project name''
      else if MAX_PROJECT < length name then Inl ''compose project name is too long'' else Inr name)"

text \<open>\<open>(dest_project, error)\<close>: an empty field is the source's name.\<close>

definition normalize_dest_project :: "string \<Rightarrow> string option \<Rightarrow> string \<times> string option" where
  "normalize_dest_project source_project dest_raw =
     (let raw = strip (case dest_raw of None \<Rightarrow> [] | Some s \<Rightarrow> s) in
      if raw = [] then (source_project, None)
      else case compose_project_name (Some raw) of
        Inr n \<Rightarrow> (n, None)
      | Inl e \<Rightarrow> (source_project, Some (if e \<noteq> [] then e else ''invalid destination project name'')))"

definition remap_named_volume :: "string \<Rightarrow> string \<Rightarrow> string \<Rightarrow> string" where
  "remap_named_volume volume source_project dest_project =
     (let vol = strip volume; src = strip source_project; dest = strip dest_project in
      if vol = [] \<or> src = [] \<or> dest = [] \<or> src = dest then vol
      else if startswith vol (src @ ''_'') then dest @ ''_'' @ drop (length src + 1) vol
      else if startswith vol (src @ ''-'') then dest @ ''-'' @ drop (length src + 1) vol
      else vol)"

text \<open>\<open>^/var/lib/docker/volumes/([^/]+)/_data/?$\<close> against a stripped text, and a name of type \<open>volume\<close>.\<close>

definition volume_store :: string where
  "volume_store = ''/var/lib/docker/volumes/''"

definition store_volume :: "string \<Rightarrow> string option" where
  "store_volume s =
     (if \<not> startswith s volume_store then None
      else case split_on slash (drop (length volume_store) s) of
        [vol, d] \<Rightarrow> if vol \<noteq> [] \<and> d = ''_data'' then Some vol else None
      | [vol, d, e] \<Rightarrow> if vol \<noteq> [] \<and> d = ''_data'' \<and> e = [] then Some vol else None
      | _ \<Rightarrow> None)"

definition named_volume_id :: "string \<Rightarrow> string \<Rightarrow> string \<Rightarrow> string option" where
  "named_volume_id source mtype nm =
     (let n = strip nm; t = lower (strip mtype) in
      if t = ''volume'' \<and> n \<noteq> [] \<and> slash \<notin> set n \<and> \<not> contains n ''..'' then Some n
      else case store_volume (strip source) of
        Some vol \<Rightarrow> if vol \<noteq> [] \<and> slash \<notin> set vol \<and> \<not> contains vol ''..'' then Some vol else None
      | None \<Rightarrow> None)"

section \<open>Published ports\<close>

text \<open>\<open>str.isdigit\<close> also holds for the superscripts, which \<open>int\<close> refuses.\<close>

definition py_isdigit :: "string \<Rightarrow> bool" where
  "py_isdigit s = (s \<noteq> [] \<and> list_all (\<lambda>c. is_digit c \<or> of_char c \<in> {178, 179, 185 :: nat}) s)"

definition int_or_raise :: "string \<Rightarrow> string + int" where
  "int_or_raise s = (case int_of_str s of
       Some n \<Rightarrow> Inr n
     | None \<Rightarrow> Inl (''invalid literal for int() with base 10: '' @ repr_str s))"

definition port_map_key :: "int \<Rightarrow> string \<Rightarrow> string" where
  "port_map_key host proto = int_str host @ ''/'' @ lower (if proto \<noteq> [] then proto else ''tcp'')"

definition valid_port :: "int \<Rightarrow> bool" where
  "valid_port n = (1 \<le> n \<and> n \<le> 65535)"

text \<open>\<open>isdigit() and 1 <= int(...) <= 65535\<close>, with the \<open>ValueError\<close> of \<open>int\<close>.\<close>

definition port_text :: "string \<Rightarrow> string + int option" where
  "port_text s = (if \<not> py_isdigit s then Inr None
     else rbind (int_or_raise s) (\<lambda>n. Inr (if valid_port n then Some n else None)))"

record port_scan =
  ps_clean :: "(string \<times> string) list"
  ps_errors :: "string list"
  ps_seen :: "(string \<times> string) list"

definition port_error :: "string \<Rightarrow> port_scan \<Rightarrow> port_scan" where
  "port_error msg p = p\<lparr>ps_errors := ps_errors p @ [msg]\<rparr>"

definition to_char :: char where
  "to_char = CHR 0x96"

text \<open>Two sources on one destination port are refused.\<close>

definition map_port :: "int \<Rightarrow> int \<Rightarrow> string \<Rightarrow> port_scan \<Rightarrow> port_scan" where
  "map_port h t proto p =
     (let dest_key = port_map_key t proto; src_key = port_map_key h proto; prev = map_of (ps_seen p) dest_key in
      if prev \<noteq> None \<and> prev \<noteq> Some src_key then port_error (''two published ports mapped to '' @ dest_key) p
      else p\<lparr>ps_seen := AList.update dest_key src_key (ps_seen p), ps_clean := AList.update src_key (int_str t) (ps_clean p)\<rparr>)"

definition validate_port_entry :: "string \<times> json \<Rightarrow> port_scan \<Rightarrow> string + port_scan" where
  "validate_port_entry kv p = (case kv of (raw_key, raw_val) \<Rightarrow>
     let key = lower (strip raw_key); val = strip (py_str raw_val) in
     if slash \<notin> set key then Inr (port_error (''invalid port map key '' @ raw_key) p)
     else let host_s = takeWhile (\<lambda>c. c \<noteq> slash) key; proto = drop (length host_s + 1) key in
       if proto \<noteq> ''tcp'' \<and> proto \<noteq> ''udp'' then Inr (port_error (key @ '': protocol must be tcp or udp'') p)
       else rbind (port_text host_s) (\<lambda>host. case host of
           None \<Rightarrow> Inr (port_error (key @ '': source host port must be 1'' @ [to_char] @ ''65535'') p)
         | Some h \<Rightarrow> rbind (port_text val) (\<lambda>target. case target of
               None \<Rightarrow> Inr (port_error (key @ '': destination host port must be 1'' @ [to_char] @ ''65535'') p)
             | Some t \<Rightarrow> Inr (map_port h t proto p))))"

definition validate_port_map :: "dict \<Rightarrow> string + ((string \<times> string) list \<times> string list)" where
  "validate_port_map port_map =
     rbind (rfold validate_port_entry port_map \<lparr>ps_clean = [], ps_errors = [], ps_seen = []\<rparr>)
       (\<lambda>p. Inr (ps_clean p, ps_errors p))"

definition mapped_host_port :: "int \<Rightarrow> string \<Rightarrow> (string \<times> string) list \<Rightarrow> string" where
  "mapped_host_port host proto port_map =
     (case map_of port_map (port_map_key host proto) of Some v \<Rightarrow> v | None \<Rightarrow> int_str host)"

text \<open>From the destination's published port back to the source's.\<close>

definition invert_port_entry :: "string \<times> json \<Rightarrow> (string \<times> string) list \<Rightarrow> string + (string \<times> string) list" where
  "invert_port_entry kv out = (case kv of (raw_key, raw_val) \<Rightarrow>
     let key = lower (strip raw_key); val = strip (py_str raw_val) in
     if slash \<notin> set key \<or> \<not> py_isdigit val then Inr out
     else let host_s = takeWhile (\<lambda>c. c \<noteq> slash) key; proto = drop (length host_s + 1) key in
       if \<not> py_isdigit host_s then Inr out
       else rbind (int_or_raise val) (\<lambda>v. rbind (int_or_raise host_s) (\<lambda>h.
         Inr (AList.update (port_map_key v proto) (int_str h) out))))"

definition invert_port_map :: "dict \<Rightarrow> string + (string \<times> string) list" where
  "invert_port_map port_map = rfold invert_port_entry port_map []"

section \<open>Form fields\<close>

text \<open>\<open>^prefix(\d+)$\<close>: the digits, where \<open>$\<close> also matches before a final newline.\<close>

definition index_field :: "string \<Rightarrow> string \<Rightarrow> int option" where
  "index_field pre k =
     (if \<not> startswith k pre then None
      else let body = drop (length pre) k;
               ds = (if body \<noteq> [] \<and> last body = CHR 0x0A then butlast body else body) in
        if ds \<noteq> [] \<and> list_all is_digit ds then Some (int (digits_val ds)) else None)"

text \<open>\<open>^dest_port_(\d{1,5})_(tcp|udp)$\<close>, in any case.\<close>

definition dest_port_field :: "string \<Rightarrow> (int \<times> string) option" where
  "dest_port_field k =
     (let k1 = lower (if k \<noteq> [] \<and> last k = CHR 0x0A then butlast k else k);
          body = drop (length ''dest_port_'') k1;
          ds = takeWhile is_digit body; proto = drop (length ds) body in
      if startswith k1 ''dest_port_'' \<and> ds \<noteq> [] \<and> length ds \<le> 5 \<and> (proto = ''_tcp'' \<or> proto = ''_udp'')
      then Some (int (digits_val ds), drop 1 proto) else None)"

definition parse_port_map :: "(string \<times> string) list \<Rightarrow> (string \<times> string) list" where
  "parse_port_map items = foldl (\<lambda>out (k, v). case dest_port_field k of
       None \<Rightarrow> out
     | Some (host, proto) \<Rightarrow> let val = strip v in
         if val = [] then out else AList.update (port_map_key host proto) val out) [] items"

record bind_row =
  br_index :: int
  br_source :: string
  br_dest :: string
  br_skip :: bool

record bind_fields =
  bf_srcs :: "(int \<times> string) list"
  bf_dests :: "(int \<times> string) list"
  bf_skips :: "int list"

definition bind_field :: "bind_fields \<Rightarrow> string \<times> string \<Rightarrow> bind_fields" where
  "bind_field b kv = (case kv of (k, v) \<Rightarrow> let val = strip v in
     case index_field ''bind_src_'' k of
       Some n \<Rightarrow> b\<lparr>bf_srcs := AList.update n val (bf_srcs b)\<rparr>
     | None \<Rightarrow> (case index_field ''dest_bind_'' k of
           Some n \<Rightarrow> b\<lparr>bf_dests := AList.update n val (bf_dests b)\<rparr>
         | None \<Rightarrow> (case index_field ''skip_bind_'' k of
               Some n \<Rightarrow> if lower val \<in> set [''1'', ''true'', ''on'', ''yes'']
                          then b\<lparr>bf_skips := n # bf_skips b\<rparr> else b
             | None \<Rightarrow> b)))"

definition text0 :: "string option \<Rightarrow> string" where
  "text0 x = (case x of None \<Rightarrow> [] | Some s \<Rightarrow> s)"

definition parse_bind_overrides :: "(string \<times> string) list \<Rightarrow> bind_row list" where
  "parse_bind_overrides items =
     (let b = foldl bind_field \<lparr>bf_srcs = [], bf_dests = [], bf_skips = []\<rparr> items;
          ids = sort (remdups (map fst (bf_srcs b) @ map fst (bf_dests b) @ bf_skips b)) in
      map (\<lambda>n. \<lparr>br_index = n, br_source = text0 (map_of (bf_srcs b) n), br_dest = text0 (map_of (bf_dests b) n),
             br_skip = n \<in> set (bf_skips b)\<rparr>)
        (filter (\<lambda>n. text0 (map_of (bf_srcs b) n) \<noteq> []) ids))"

definition bind_map_from_overrides :: "bind_row list \<Rightarrow> (string \<times> string) list" where
  "bind_map_from_overrides rows = foldl (\<lambda>out r. let src = strip (br_source r); dest = strip (br_dest r) in
       if br_skip r \<or> src = [] \<or> dest = [] then out else AList.update src dest out) [] rows"

section \<open>Paths\<close>

definition ellipsis :: char where
  "ellipsis = CHR 0x85"

definition is_truncated_host_path :: "string \<Rightarrow> bool" where
  "is_truncated_host_path path = (let p = strip path in p \<noteq> [] \<and> (ellipsis \<in> set p \<or> contains p ''...''))"

text \<open>\<open>s.rstrip("/")\<close>.\<close>

definition rslash :: "string \<Rightarrow> string" where
  "rslash s = rstrip_chars (\<lambda>c. c = slash) s"

definition norm_text :: "string \<Rightarrow> string" where
  "norm_text s = normpath (strip s)"

definition path_in_jail :: "string \<Rightarrow> string \<Rightarrow> bool" where
  "path_in_jail path docker_base =
     (let p = norm_text path; base = norm_text docker_base in
      if base = ''/'' then False else p = base \<or> startswith p (rslash base @ ''/''))"

definition FORBIDDEN_BIND_DEST :: "string list" where
  "FORBIDDEN_BIND_DEST = [''/'', ''/home'', ''/var'', ''/opt'', ''/usr'', ''/root'', ''/etc'', ''/boot'', ''/dev'',
     ''/proc'', ''/sys'']"

definition HOST_LOCAL_PATHS :: "string list" where
  "HOST_LOCAL_PATHS = [''/var/run/docker.sock'', ''/run/docker.sock'', ''/var/run/docker.sock.raw'',
     ''/run/containerd/containerd.sock'', ''/var/run/podman/podman.sock'', ''/run/podman/podman.sock'',
     ''/var/run/dbus/system_bus_socket'', ''/run/dbus/system_bus_socket'']"

definition HOST_LOCAL_PREFIXES :: "string list" where
  "HOST_LOCAL_PREFIXES = [''/dev/'', ''/proc/'', ''/sys/'']"

definition is_host_local_bind :: "string \<Rightarrow> bool" where
  "is_host_local_bind path =
     (let p = norm_text path in
      if \<not> startswith p ''/'' \<or> p = ''.'' \<or> p = ''/'' then False
      else p \<in> set HOST_LOCAL_PATHS \<or> endswith p ''.sock'' \<or> p \<in> set [''/dev'', ''/proc'', ''/sys'']
        \<or> list_ex (startswith p) HOST_LOCAL_PREFIXES)"

text \<open>\<open>os.path.basename\<close>.\<close>

definition path_leaf :: "string \<Rightarrow> string" where
  "path_leaf p = last (split_on slash p)"

definition suggest_dest_bind :: "string \<Rightarrow> string \<Rightarrow> string \<Rightarrow> string \<Rightarrow> string" where
  "suggest_dest_bind source_path src_base dest_base dest_project =
     (let src = norm_text source_path in
      if is_host_local_bind src then src
      else let src_b = rslash (norm_text src_base); dest_b = rslash (norm_text dest_base);
               dest_p = (if strip dest_project \<noteq> [] then strip dest_project else ''project'') in
        if src_b \<noteq> [] \<and> dest_b \<noteq> [] \<and> (src = src_b \<or> startswith src (src_b @ ''/''))
        then dest_b @ (if drop (length src_b) src \<noteq> [] then drop (length src_b) src else ''/'')
        else let leaf = path_leaf (rslash src) in
          dest_b @ ''/'' @ dest_p @ ''/'' @ (if leaf = [] \<or> leaf = ''.'' \<or> leaf = ''..'' then ''data'' else leaf))"

definition compose_volume_lhs :: "string \<Rightarrow> string \<Rightarrow> string" where
  "compose_volume_lhs dest_path dest_project_path =
     (let d = norm_text dest_path; p = rslash (norm_text dest_project_path) in
      if d = [] \<or> p = [] then dest_path
      else if d = p then ''.''
      else if startswith d (p @ ''/'') then ''./'' @ drop (length p + 1) d else d)"

definition validate_dest_bind_path :: "string \<Rightarrow> string \<Rightarrow> string option" where
  "validate_dest_bind_path path dest_base =
     (let p = strip path in
      if p = [] then Some ''destination bind path is required (or skip copy)''
      else if \<not> startswith p ''/'' \<or> ''..'' \<in> set (split_on slash p) \<or> CHR 0x00 \<in> set p
        then Some ''destination bind must be an absolute path without ..''
      else let n = normpath p in
        if n \<in> set FORBIDDEN_BIND_DEST then Some (''refusing dest bind of '' @ n)
        else if dest_base \<noteq> [] \<and> n = norm_text dest_base
          then Some ''destination bind cannot be the docker base dir itself''
        else None)"

definition uniq :: "string list \<Rightarrow> string list" where
  "uniq xs = rev (foldl (\<lambda>out a. if a = [] \<or> a \<in> set out then out else a # out) [] xs)"

definition compose_bind_aliases :: "string \<Rightarrow> string list" where
  "compose_bind_aliases abs_source =
     (let src = norm_text abs_source in
      if \<not> startswith src ''/'' then (if src \<noteq> [] then [src] else [])
      else let parts = split_on slash src; leaf = path_leaf (rslash src);
               home = (if 4 \<le> length parts \<and> parts ! 1 = ''home'' \<and> parts ! 2 \<noteq> []
                 then (let tail = join ''/'' (drop 3 parts) in
                   if tail \<noteq> [] then [''~/'' @ tail, ''$HOME/'' @ tail, ''~'' @ parts ! 2 @ ''/'' @ tail] else [])
                 else []);
               local = (if leaf \<noteq> [] then [''~/'' @ leaf, ''$HOME/'' @ leaf] else []) in
        uniq ([src] @ home @ local))"

definition expand_bind_map_for_compose :: "(string \<times> string) list \<Rightarrow> (string \<times> string) list" where
  "expand_bind_map_for_compose bind_map = foldl (\<lambda>out (src0, dest0). let dest = strip dest0; src = strip src0 in
       if src = [] \<or> dest = [] then out
       else foldl (\<lambda>o1 alias. if alias = dest then o1 else AList.update alias dest o1) out
              (compose_bind_aliases src @ [src])) [] bind_map"

section \<open>The project directory of a host\<close>

record host =
  h_id :: int
  h_name :: string
  h_hostname :: string
  h_ssh_username :: string
  h_docker_base_dir :: string
  h_os_type :: string

definition expand_remote_path :: "string \<Rightarrow> string \<Rightarrow> string" where
  "expand_remote_path path username =
     (let p = strip path; user = (if strip username \<noteq> [] then strip username else ''root'') in
      if p = [] then p
      else if p = ''~'' then (if user \<noteq> ''root'' then ''/home/'' @ user else ''/root'')
      else if startswith p ''~/'' then
        (let rest = drop 2 p in
         if user = ''root'' then (if rest \<noteq> [] then ''/root/'' @ rest else ''/root'')
         else if rest \<noteq> [] then ''/home/'' @ user @ ''/'' @ rest else ''/home/'' @ user)
      else p)"

definition or_default :: "string \<Rightarrow> string \<Rightarrow> string" where
  "or_default s dflt = (let t = strip (if s \<noteq> [] then s else dflt) in if t \<noteq> [] then t else dflt)"

definition docker_base_abs :: "host \<Rightarrow> string" where
  "docker_base_abs h = expand_remote_path (or_default (h_docker_base_dir h) ''~/docker'') (or_default (h_ssh_username h) ''pi'')"

text \<open>The \<open>HostLockError\<close> of the name and the two \<open>LeftoverError\<close>s of the path, with their messages.\<close>

datatype jail_error = Bad_name string | Bad_path string

definition jailed_source_project_path :: "host \<Rightarrow> string \<Rightarrow> jail_error + string" where
  "jailed_source_project_path source project =
     (case compose_project_name (Some project) of
        Inl e \<Rightarrow> Inl (Bad_name e)
      | Inr name \<Rightarrow> let base = rslash (docker_base_abs source) in
          if base = [] \<or> base = ''/'' then Inl (Bad_path ''refusing leftover wipe: docker base is empty or /'')
          else let path = base @ ''/'' @ name in
            if rslash path \<in> set [[], ''/'', base, ''/home'', ''/var'', ''/opt'', ''/usr'']
            then Inl (Bad_path ''refusing leftover wipe: path is not a project dir'') else Inr path)"

definition jail_text :: "jail_error \<Rightarrow> string" where
  "jail_text e = (case e of Bad_name m \<Rightarrow> m | Bad_path m \<Rightarrow> m)"

end
