(* ===== verification/Actions.thy ===== *)
theory Actions
  imports Prelude
begin

text \<open>
  Code that works on something outside the program (a host over SSH, a control plane) and may
  raise at every call: an action takes the state of the outside and gives the state after it with
  an exception or a value. The combinators are the code's sequencing, \<open>try\<close> and \<open>for\<close>; a
  weakest-precondition calculus with one condition for the return and one for the exception
  computes what an action guarantees.
\<close>

section \<open>Actions\<close>

type_synonym ('s, 'e, 'a) act = "'s \<Rightarrow> 's \<times> ('e + 'a)"

definition ret :: "'a \<Rightarrow> ('s, 'e, 'a) act" where
  "ret v s = (s, Inr v)"

definition raise :: "'e \<Rightarrow> ('s, 'e, 'a) act" where
  "raise e s = (s, Inl e)"

text \<open>A call whose exceptions are swallowed, or that raises none, as a change of the state.\<close>

definition touch :: "('s \<Rightarrow> 's) \<Rightarrow> ('s, 'e, unit) act" where
  "touch f s = (f s, Inr ())"

definition seq :: "('s, 'e, 'a) act \<Rightarrow> ('a \<Rightarrow> ('s, 'e, 'b) act) \<Rightarrow> ('s, 'e, 'b) act" where
  "seq m f s = (case m s of (s', Inl e) \<Rightarrow> (s', Inl e) | (s', Inr v) \<Rightarrow> f v s')"

abbreviation andalso :: "('s, 'e, 'a) act \<Rightarrow> ('s, 'e, 'b) act \<Rightarrow> ('s, 'e, 'b) act" where
  "andalso m k \<equiv> seq m (\<lambda>_. k)"

text \<open>\<open>try: m except ...: h\<close>; the handler re-raises what it does not catch.\<close>

definition catching :: "('s, 'd, 'a) act \<Rightarrow> ('d \<Rightarrow> ('s, 'e, 'a) act) \<Rightarrow> ('s, 'e, 'a) act" where
  "catching m h s = (case m s of (s', Inl e) \<Rightarrow> h e s' | (s', Inr v) \<Rightarrow> (s', Inr v))"

text \<open>\<open>for x in xs: acc = body(x, acc)\<close>.\<close>

fun loop :: "('x \<Rightarrow> 'a \<Rightarrow> ('s, 'e, 'a) act) \<Rightarrow> 'x list \<Rightarrow> 'a \<Rightarrow> ('s, 'e, 'a) act" where
  "loop body [] acc = ret acc"
| "loop body (x # xs) acc = seq (body x acc) (loop body xs)"

definition unless :: "bool \<Rightarrow> ('s, 'e, unit) act \<Rightarrow> ('s, 'e, unit) act" where
  "unless b m = (if b then ret () else m)"

text \<open>An exception of another kind is turned into one of the caller's.\<close>

definition wrapped :: "('d \<Rightarrow> 'e) \<Rightarrow> ('s, 'd, 'a) act \<Rightarrow> ('s, 'e, 'a) act" where
  "wrapped f m s = (case m s of (s', Inl e) \<Rightarrow> (s', Inl (f e)) | (s', Inr v) \<Rightarrow> (s', Inr v))"

section \<open>What an action guarantees\<close>

named_theorems wp_simps "the weakest precondition of each combinator"

definition wp :: "('s, 'e, 'a) act \<Rightarrow> ('a \<Rightarrow> 's \<Rightarrow> bool) \<Rightarrow> ('e \<Rightarrow> 's \<Rightarrow> bool) \<Rightarrow> 's \<Rightarrow> bool" where
  "wp m Q R s = (case m s of (s', Inl e) \<Rightarrow> R e s' | (s', Inr v) \<Rightarrow> Q v s')"

lemma wp_ret [wp_simps]: "wp (ret v) Q R s = Q v s"
  by (simp add: wp_def ret_def)

lemma wp_raise [wp_simps]: "wp (raise e) Q R s = R e s"
  by (simp add: wp_def raise_def)

lemma wp_touch [wp_simps]: "wp (touch f) Q R s = Q () (f s)"
  by (simp add: wp_def touch_def)

lemma wp_seq [wp_simps]: "wp (seq m f) Q R s = wp m (\<lambda>v. wp (f v) Q R) R s"
  by (auto simp: wp_def seq_def split: prod.split sum.split)

lemma wp_catching [wp_simps]: "wp (catching m h) Q R s = wp m Q (\<lambda>e. wp (h e) Q R) s"
  by (auto simp: wp_def catching_def split: prod.split sum.split)

lemma wp_wrapped [wp_simps]: "wp (wrapped g m) Q R s = wp m Q (\<lambda>e. R (g e)) s"
  by (auto simp: wp_def wrapped_def split: prod.split sum.split)

lemma wp_unless [wp_simps]: "wp (unless b m) Q R s = (if b then Q () s else wp m Q R s)"
  by (simp add: unless_def wp_simps)

lemma wp_if [wp_simps]: "wp (if b then m else n) Q R s = (if b then wp m Q R s else wp n Q R s)"
  by simp

lemma wp_conseq:
  assumes "wp m Q R s" and "\<And>v s'. Q v s' \<Longrightarrow> Q' v s'" and "\<And>e s'. R e s' \<Longrightarrow> R' e s'"
  shows "wp m Q' R' s"
  using assms by (auto simp: wp_def split: prod.splits sum.splits)

text \<open>Sequencing from what the first part guarantees, or keeps.\<close>

lemma wp_seqI:
  assumes "wp m Q' R' s" and "\<And>v s'. Q' v s' \<Longrightarrow> wp (f v) Q R s'" and "\<And>e s'. R' e s' \<Longrightarrow> R e s'"
  shows "wp (seq m f) Q R s"
  using wp_conseq [OF assms(1)] assms(2,3) by (simp add: wp_seq)

lemma wp_case_prod: "(\<And>a b. wp (f a b) Q R s) \<Longrightarrow> wp (case v of (a, b) \<Rightarrow> f a b) Q R s"
  by (cases v) simp

lemma wp_loop:
  assumes "I acc s" and "\<And>x acc s. x \<in> set xs \<Longrightarrow> I acc s \<Longrightarrow> wp (body x acc) I R s"
  shows "wp (loop body xs acc) I R s"
  using assms
proof (induction xs arbitrary: acc s)
  case Nil
  then show ?case by (simp add: wp_simps)
next
  case (Cons x xs)
  have "wp (body x acc) I R s" using Cons.prems by simp
  then show ?case using Cons.IH Cons.prems(2) by (auto simp: wp_simps intro: wp_conseq)
qed

lemma wp_result: "wp m Q R s \<Longrightarrow> m s = (s', Inr v) \<Longrightarrow> Q v s'"
  and wp_error: "wp m Q R s \<Longrightarrow> m s = (s', Inl e) \<Longrightarrow> R e s'"
  by (simp_all add: wp_def)

lemma wp_by_result:
  "(\<And>s' v. m s = (s', Inr v) \<Longrightarrow> Q v s') \<Longrightarrow> (\<And>s' e. m s = (s', Inl e) \<Longrightarrow> R e s') \<Longrightarrow> wp m Q R s"
  by (auto simp: wp_def split: prod.split sum.split)

section \<open>Invariants\<close>

text \<open>An action keeps a property of the state, however it ends.\<close>

named_theorems keeps_rules "an action keeps an invariant when its parts do"

definition keeps :: "('s \<Rightarrow> bool) \<Rightarrow> ('s, 'e, 'a) act \<Rightarrow> bool" where
  "keeps P m = (\<forall>s. P s \<longrightarrow> P (fst (m s)))"

lemma keeps_ret [keeps_rules]: "keeps P (ret v)"
  and keeps_raise [keeps_rules]: "keeps P (raise e)"
  by (simp_all add: keeps_def ret_def raise_def)

lemma keeps_touch [keeps_rules]: "(\<And>s. P s \<Longrightarrow> P (f s)) \<Longrightarrow> keeps P (touch f)"
  by (simp add: keeps_def touch_def)

lemma keeps_seq [keeps_rules]: "keeps P m \<Longrightarrow> (\<And>v. keeps P (f v)) \<Longrightarrow> keeps P (seq m f)"
  by (fastforce simp: keeps_def seq_def split: prod.split sum.split dest: spec)

lemma keeps_catching [keeps_rules]: "keeps P m \<Longrightarrow> (\<And>e. keeps P (h e)) \<Longrightarrow> keeps P (catching m h)"
  by (fastforce simp: keeps_def catching_def split: prod.split sum.split dest: spec)

lemma keeps_wrapped [keeps_rules]: "keeps P m \<Longrightarrow> keeps P (wrapped g m)"
  by (fastforce simp: keeps_def wrapped_def split: prod.split sum.split dest: spec)

lemma keeps_unless [keeps_rules]: "keeps P m \<Longrightarrow> keeps P (unless b m)"
  by (simp add: unless_def keeps_ret)

lemma keeps_loop [keeps_rules]:
  "(\<And>x acc. x \<in> set xs \<Longrightarrow> keeps P (body x acc)) \<Longrightarrow> keeps P (loop body xs acc)"
  by (induction xs arbitrary: acc) (auto intro: keeps_rules)

lemma keeps_wp: "keeps P m \<Longrightarrow> P s \<Longrightarrow> wp m (\<lambda>v. P) (\<lambda>e. P) s"
  by (fastforce simp: keeps_def wp_def split: prod.split sum.split dest: spec)

lemma wp_seq_keeps:
  assumes "keeps P m" and "P s" and "\<And>v s'. P s' \<Longrightarrow> wp (f v) Q R s'" and "\<And>e s'. P s' \<Longrightarrow> R e s'"
  shows "wp (seq m f) Q R s"
  by (rule wp_seqI [OF keeps_wp [OF assms(1,2)]]) (use assms(3,4) in auto)

lemma keepsD: "keeps P m \<Longrightarrow> P s \<Longrightarrow> m s = (s', r) \<Longrightarrow> P s'"
  by (fastforce simp: keeps_def dest: spec)

end
