(* ===== verification/MoveCopy.thy ===== *)
theory MoveCopy
  imports MoveNames Actions
begin

text \<open>
  The operations and exceptions of a Move (\<open>app/services/service_migrate/pipeline.py\<close>) and the first
  half of its pipeline: preflight and copy. Each call that leaves the function (SSH, Docker, rsync, the
  staging tree, the rows of DNS and certificates) is an operation on a state that is a parameter; it
  answers with a value or raises. The hooks \<open>*_fn\<close> of the tests are such operations too.
\<close>

section \<open>Operations and exceptions\<close>

datatype (plugins only: code size) move_op =
    Preflight int int string "string option" "(string \<times> string) list" "bind_row list" int bool
  | PrepareStaging string
  | MakeDir string
  | ComposeStop int string
  | ComposeStart int string
  | ComposeDown int string bool
  | Redeploy int string
  | PullTree int string string bool bool
  | PushTree int string string bool
  | CopyVolume int int string string "string option"
  | PathKind int string
  | StageSummary string
  | RewriteStaging string string string "(string \<times> string) list" "(string \<times> string) list" "(string \<times> string) list"
  | ChownLike int string "string option"
  | RemoveGhosts int string
  | RefreshInventory int
  | Retarget int int string "string option" "(string \<times> string) list" bool
  | RebindRows int int string "string option"
  | Validate int int string
  | RmVolume int string
  | RmTree int string
  | DisableCerts int int string
  | EnableCerts int string string
  | DropMeta int string
  | CommitRows
  | MarkStale int
  | ProbeFacts int
  | HerderFree
  | WipeStaging string

datatype move_exc =
    MigrateError string "string option"
  | CopyError string
  | CutoverError string
  | LeftoverError string
  | ValidateError string
  | LockedError string
  | UndoError string "string list"
  | RecoverError string
  | WrongArgs string
  | OtherError string

fun move_text :: "move_exc \<Rightarrow> string" where
  "move_text (MigrateError m s) = m"
| "move_text (CopyError m) = m"
| "move_text (CutoverError m) = m"
| "move_text (LeftoverError m) = m"
| "move_text (ValidateError m) = m"
| "move_text (LockedError m) = m"
| "move_text (UndoError m ss) = m"
| "move_text (RecoverError m) = m"
| "move_text (WrongArgs m) = m"
| "move_text (OtherError m) = m"

text \<open>\<open>getattr(e, "failed_step", None)\<close>.\<close>

definition failed_step :: "move_exc \<Rightarrow> string option" where
  "failed_step e = (case e of MigrateError m s \<Rightarrow> s | _ \<Rightarrow> None)"

record 's outside =
  o_call :: "move_op \<Rightarrow> ('s, move_exc, json) act"
  o_log :: "string \<Rightarrow> 's \<Rightarrow> 's"
  o_step :: "string \<Rightarrow> 's \<Rightarrow> 's"

type_synonym ('s, 'a) move = "('s, move_exc, 'a) act"

definition log :: "'s outside \<Rightarrow> string \<Rightarrow> ('s, unit) move" where
  "log x msg = touch (o_log x msg)"

text \<open>The step hook; an exception of it is swallowed.\<close>

definition step :: "'s outside \<Rightarrow> string \<Rightarrow> ('s, unit) move" where
  "step x nm = touch (o_step x nm)"

text \<open>\<open>try: call(all arguments) except TypeError: call(fewer)\<close>.\<close>

definition call_or :: "'s outside \<Rightarrow> move_op \<Rightarrow> move_op \<Rightarrow> ('s, json) move" where
  "call_or x full short = catching (o_call x full) (\<lambda>e. case e of WrongArgs m \<Rightarrow> o_call x short | _ \<Rightarrow> raise e)"

text \<open>\<open>_guard_copy\<close>.\<close>

definition as_copy :: "('s, 'a) move \<Rightarrow> ('s, 'a) move" where
  "as_copy m = catching m (\<lambda>e. case e of CopyError t \<Rightarrow> raise (MigrateError t (Some ''copy'')) | _ \<Rightarrow> raise e)"

section \<open>Answers\<close>

definition is_dict :: "json \<Rightarrow> bool" where
  "is_dict r = (case r of JObj d \<Rightarrow> True | _ \<Rightarrow> False)"

definition dict_of :: "json \<Rightarrow> dict" where
  "dict_of r = (case r of JObj d \<Rightarrow> d | _ \<Rightarrow> [])"

text \<open>\<open>isinstance(r, dict) and not r.get("success", True)\<close>.\<close>

definition unsuccessful :: "json \<Rightarrow> bool" where
  "unsuccessful r = (is_dict r \<and> \<not> truthy (case dget (dict_of r) ''success'' of None \<Rightarrow> JBool True | Some v \<Rightarrow> v))"

definition field :: "json \<Rightarrow> string \<Rightarrow> json" where
  "field r k = dget0 (dict_of r) k"

text \<open>\<open>str(r.get(k) or "")\<close>.\<close>

definition str_field :: "json \<Rightarrow> string \<Rightarrow> string" where
  "str_field r k = py_str (jor (field r k) (JStr []))"

definition attribute_error :: move_exc where
  "attribute_error = OtherError ''attribute error''"

definition type_error :: move_exc where
  "type_error = WrongArgs ''type error''"

text \<open>\<open>(r.get(k) or "").strip()\<close>, which needs a text.\<close>

definition stripped_field :: "json \<Rightarrow> string \<Rightarrow> ('s, string) move" where
  "stripped_field r k = (case jor (field r k) (JStr []) of JStr s \<Rightarrow> ret (strip s)
     | JStamp t \<Rightarrow> ret (isoformat t) | _ \<Rightarrow> raise attribute_error)"

text \<open>\<open>r.get(k) or []\<close>, to iterate over.\<close>

definition items_of :: "json \<Rightarrow> ('s, json list) move" where
  "items_of r = (case py_list (jor r (JList [])) of Some xs \<Rightarrow> ret xs | None \<Rightarrow> raise type_error)"

definition text_pairs :: "json \<Rightarrow> (string \<times> string) list" where
  "text_pairs r = map (\<lambda>(k, v). (k, py_str v)) (dict_of r)"

definition ssh_fail_detail :: "json \<Rightarrow> string \<Rightarrow> string" where
  "ssh_fail_detail result fallback =
     (if \<not> is_dict result then fallback
      else let err = strip (str_field result ''error''); out = strip (str_field result ''output'');
               msg = (if err \<noteq> [] \<and> out \<noteq> [] \<and> \<not> contains out err then err @ [CHR 0x0A] @ out
                      else if out \<noteq> [] then out else if err \<noteq> [] then err else fallback)
        in if last_n 1500 msg \<noteq> [] then last_n 1500 msg else fallback)"

section \<open>Preflight\<close>

record move_args =
  ma_source :: host
  ma_dest :: host
  ma_project :: string
  ma_job_id :: int
  ma_stage :: string
  ma_leftover :: "string option"
  ma_devices_ack :: bool
  ma_adopt_fabric :: bool
  ma_dest_project :: "string option"
  ma_port_map :: "(string \<times> string) list"
  ma_bind_map :: "(string \<times> string) list"
  ma_skip_binds :: "string list"
  ma_live_inspect :: bool

abbreviation source_id :: "move_args \<Rightarrow> int" where
  "source_id a \<equiv> h_id (ma_source a)"

abbreviation dest_id :: "move_args \<Rightarrow> int" where
  "dest_id a \<equiv> h_id (ma_dest a)"

definition checked_project :: "string \<Rightarrow> ('s, string) move" where
  "checked_project p = (case compose_project_name (Some p) of Inl m \<Rightarrow> raise (LockedError m) | Inr n \<Rightarrow> ret n)"

text \<open>Inventory rows of the caller's form: a destination, or none and skipped.\<close>

definition bind_overrides :: "move_args \<Rightarrow> bind_row list" where
  "bind_overrides a =
     map (\<lambda>(src, dest). \<lparr>br_index = 0, br_source = src, br_dest = dest, br_skip = False\<rparr>) (ma_bind_map a)
     @ map (\<lambda>src. \<lparr>br_index = 0, br_source = src, br_dest = [], br_skip = True\<rparr>) (ma_skip_binds a)"

fun block_texts :: "json list \<Rightarrow> move_exc + string list" where
  "block_texts [] = Inr []"
| "block_texts (b # bs) = (case b of
     JObj d \<Rightarrow> (case jor (dget0 d ''message'') (dget0 d ''id'') of
         JStr s \<Rightarrow> rbind (block_texts bs) (\<lambda>ts. Inr (s # ts))
       | _ \<Rightarrow> Inl type_error)
   | _ \<Rightarrow> Inl attribute_error)"

definition is_devices :: "json \<Rightarrow> bool" where
  "is_devices w = (field w ''id'' = JStr ''devices'')"

definition devices_text :: "json list \<Rightarrow> string" where
  "devices_text warns = (case find is_devices warns of
     Some w \<Rightarrow> (case dget (dict_of w) ''message'' of Some v \<Rightarrow> py_str v | None \<Rightarrow> ''None'')
   | None \<Rightarrow> ''hardware / host network / privileged'')"

definition run_preflight_step :: "'s outside \<Rightarrow> move_args \<Rightarrow> string \<Rightarrow> ('s, json) move" where
  "run_preflight_step x a nm =
     seq (o_call x (Preflight (source_id a) (dest_id a) nm (ma_dest_project a) (ma_port_map a) (bind_overrides a)
            (ma_job_id a) (ma_live_inspect a))) (\<lambda>pf.
     if \<not> truthy (field pf ''ok'') then
       seq (items_of (field pf ''blocks'')) (\<lambda>bs. case block_texts bs of
           Inl e \<Rightarrow> raise e
         | Inr ts \<Rightarrow> raise (MigrateError (''preflight blocked: '' @ join ''; '' ts) (Some ''preflight'')))
     else seq (items_of (field pf ''warns'')) (\<lambda>ws.
       if list_ex is_devices ws \<and> \<not> ma_devices_ack a
       then raise (MigrateError (devices_text ws @ '': lock the project or acknowledge the warning'') (Some ''preflight''))
       else ret pf))"

section \<open>Copy\<close>

text \<open>The paths of one Move and the maps its preflight settled.\<close>

record move_plan =
  mp_name :: string
  mp_dest_name :: string
  mp_src_base :: string
  mp_dst_base :: string
  mp_src_proj :: string
  mp_dst_proj :: string
  mp_proj_stage :: string
  mp_bind_map :: json
  mp_skip_set :: "string list"

definition plan_skip_set :: "move_args \<Rightarrow> json list \<Rightarrow> string list" where
  "plan_skip_set a pf_skips =
     map (rslash \<circ> strip) (filter (\<lambda>s. strip s \<noteq> []) (ma_skip_binds a @ map py_str pf_skips))"

record copy_state =
  cs_volumes :: "string list"
  cs_binds :: "(string \<times> string) list"

definition arrow :: string where
  "arrow = '' '' @ [CHR 0x9D] @ '' ''"

definition copy_named :: "'s outside \<Rightarrow> move_args \<Rightarrow> move_plan \<Rightarrow> string \<Rightarrow> string \<Rightarrow> copy_state \<Rightarrow> ('s, copy_state) move" where
  "copy_named x a p vol0 src c =
     (let vol_name = (if vol0 \<noteq> [] then vol0 else src) in
      if vol_name = [] \<or> vol_name \<in> set (cs_volumes c) then ret c
      else let dest_vol = remap_named_volume vol_name (mp_name p) (mp_dest_name p);
               label = (if dest_vol = vol_name then vol_name else vol_name @ arrow @ dest_vol) in
        andalso (log x (''Copy named volume '' @ label))
          (seq (as_copy (call_or x (CopyVolume (source_id a) (dest_id a) vol_name (ma_stage a) (Some dest_vol))
                 (CopyVolume (source_id a) (dest_id a) vol_name (ma_stage a) None)))
             (\<lambda>_. ret (c\<lparr>cs_volumes := cs_volumes c @ [vol_name]\<rparr>))))"

definition path_under :: "string \<Rightarrow> string \<Rightarrow> bool" where
  "path_under base p = (p = base \<or> startswith p (base @ ''/''))"

text \<open>\<open>"socket"\<close> and the other special kinds stay where they are.\<close>

definition special_kind :: "string \<Rightarrow> bool" where
  "special_kind k = (k \<in> set [''socket'', ''fifo'', ''chr'', ''blk''])"

definition remote_kind :: "'s outside \<Rightarrow> move_args \<Rightarrow> string \<Rightarrow> ('s, string) move" where
  "remote_kind x a src = seq (catching (o_call x (PathKind (source_id a) src)) (\<lambda>_. ret (JStr ''dir''))) (\<lambda>k. ret (py_str k))"

definition parent_dir :: "string \<Rightarrow> string" where
  "parent_dir p = join ''/'' (butlast (split_on slash p))"

definition fold_bind :: "'s outside \<Rightarrow> move_args \<Rightarrow> move_plan \<Rightarrow> string \<Rightarrow> string \<Rightarrow> bool \<Rightarrow> ('s, unit) move" where
  "fold_bind x a p src mapped as_file =
     (let rel = lstrip_chars (\<lambda>c. c = slash) (drop (length (mp_dst_proj p)) mapped);
          nested = (if rel = [] then mp_proj_stage p else mp_proj_stage p @ ''/'' @ rel) in
      seq (o_call x (MakeDir (if as_file then parent_dir nested else nested))) (\<lambda>_.
      andalso (log x ((if as_file then ''Fold bind file '' else ''Fold bind '') @ src @ '' into project as ./'' @ rel))
        (seq (as_copy (call_or x (PullTree (source_id a) src nested False as_file)
                (PullTree (source_id a) src nested False False))) (\<lambda>_. ret ()))))"

definition extra_bind :: "'s outside \<Rightarrow> move_args \<Rightarrow> string \<Rightarrow> string \<Rightarrow> ('s, unit) move" where
  "extra_bind x a src mapped =
     (let extra = ma_stage a @ ''/binds/'' @ replace_all (lstrip_chars (\<lambda>c. c = slash) src) ''..'' ''_'' in
      seq (o_call x (MakeDir extra)) (\<lambda>_.
      andalso (log x (''Copy bind '' @ src @ arrow @ mapped))
        (seq (as_copy (call_or x (PullTree (source_id a) src extra False False)
                (PullTree (source_id a) src extra False False))) (\<lambda>_.
         seq (as_copy (call_or x (PushTree (dest_id a) extra mapped True) (PushTree (dest_id a) extra mapped False)))
           (\<lambda>_. ret ())))))"

definition add_bind :: "string \<Rightarrow> string \<Rightarrow> copy_state \<Rightarrow> copy_state" where
  "add_bind src lhs c = c\<lparr>cs_binds := AList.update src lhs (cs_binds c)\<rparr>"

definition copy_mapped :: "'s outside \<Rightarrow> move_args \<Rightarrow> move_plan \<Rightarrow> string \<Rightarrow> string \<Rightarrow> copy_state \<Rightarrow> ('s, copy_state) move" where
  "copy_mapped x a p src mapped c =
     seq (remote_kind x a src) (\<lambda>rkind.
       if special_kind rkind
       then andalso (log x (''Keep host-local bind '' @ src @ '' ('' @ rkind @ '' '' @ [CHR 0x97] @ '' not copied)'')) (ret c)
       else seq (if path_under (mp_dst_proj p) mapped then fold_bind x a p src mapped (rkind = ''file'')
                 else extra_bind x a src mapped)
              (\<lambda>_. ret (add_bind src (compose_volume_lhs mapped (mp_dst_proj p)) c)))"

definition bind_target :: "move_plan \<Rightarrow> string \<Rightarrow> json" where
  "bind_target p src = jor (dget0 (dict_of (mp_bind_map p)) src)
     (JStr (suggest_dest_bind src (mp_src_base p) (mp_dst_base p) (mp_dest_name p)))"

definition copy_bind :: "'s outside \<Rightarrow> move_args \<Rightarrow> move_plan \<Rightarrow> string \<Rightarrow> string \<Rightarrow> copy_state \<Rightarrow> ('s, copy_state) move" where
  "copy_bind x a p kind src c =
     (if is_truncated_host_path src
      then raise (MigrateError (''refusing truncated inventory bind path: '' @ src) (Some ''copy''))
      else if path_under (mp_src_proj p) src
      then ret (add_bind src (compose_volume_lhs (mp_dst_proj p @ drop (length (mp_src_proj p)) src) (mp_dst_proj p)) c)
      else let host_local = (kind = ''bind_host_local'' \<or> is_host_local_bind src) in
        if host_local then andalso (log x (''Keep host-local bind '' @ src @ '' (socket/device '' @ [CHR 0x97]
             @ '' not copied; dest uses dest host path)'')) (ret c)
        else if rslash src \<in> set (mp_skip_set p) \<or> src \<in> set (mp_skip_set p)
          then andalso (log x (''Skip bind '' @ src @ '' (not copied)'')) (ret c)
        else case bind_target p src of
            JStr mapped \<Rightarrow> if mapped = [] then andalso (log x (''Skip bind '' @ src @ '' (not copied)'')) (ret c)
              else copy_mapped x a p src mapped c
          | _ \<Rightarrow> raise attribute_error)"

definition copy_item :: "'s outside \<Rightarrow> move_args \<Rightarrow> move_plan \<Rightarrow> json \<Rightarrow> copy_state \<Rightarrow> ('s, copy_state) move" where
  "copy_item x a p it c =
     (if \<not> is_dict it then raise attribute_error
      else seq (stripped_field it ''source'') (\<lambda>src. seq (stripped_field it ''volume'') (\<lambda>vol.
        let kind = field it ''kind'';
            vol0 = (if vol \<noteq> [] then vol else text0 (named_volume_id src [] [])) in
        if kind = JStr ''named'' then copy_named x a p vol0 src c
        else if kind = JStr ''bind_absolute'' then copy_bind x a p ''bind_absolute'' src c
        else if kind = JStr ''bind_host_local'' then copy_bind x a p ''bind_host_local'' src c
        else ret c)))"

definition volume_renames :: "move_plan \<Rightarrow> string list \<Rightarrow> (string \<times> string) list" where
  "volume_renames p vols = map (\<lambda>v. (v, remap_named_volume v (mp_name p) (mp_dest_name p)))
     (filter (\<lambda>v. remap_named_volume v (mp_name p) (mp_dest_name p) \<noteq> v) vols)"

definition rewrite_log :: "'s outside \<Rightarrow> json \<Rightarrow> ('s, unit) move" where
  "rewrite_log x rewritten = (case field rewritten ''files'' of
     JList (f # fs) \<Rightarrow> log x (''Rewrote dest compose/env: '' @ join '', '' (take 8 (map py_str (f # fs))))
   | _ \<Rightarrow> ret ())"

definition chown_step :: "'s outside \<Rightarrow> move_args \<Rightarrow> move_plan \<Rightarrow> ('s, unit) move" where
  "chown_step x a p =
     (if \<not> ma_live_inspect a then ret ()
      else andalso (log x (''Chown dest project like '' @ mp_dst_base p @ '' (not root / fleet SSH)'' @ [ellipsis]))
        (seq (as_copy (call_or x (ChownLike (dest_id a) (mp_dst_proj p) (Some (mp_dst_base p)))
                (ChownLike (dest_id a) (mp_dst_proj p) None))) (\<lambda>_. ret ())))"

definition ghosts_step :: "'s outside \<Rightarrow> move_args \<Rightarrow> move_plan \<Rightarrow> ('s, unit) move" where
  "ghosts_step x a p =
     (if \<not> ma_live_inspect a then ret ()
      else andalso (log x (''Removing leftover dest containers for '' @ mp_dest_name p @ '' (if any)'' @ [ellipsis]))
        (seq (o_call x (RemoveGhosts (dest_id a) (mp_dest_name p))) (\<lambda>rm.
          if \<not> is_dict rm then ret ()
          else andalso (if truthy (field rm ''output'') then log x (take 500 (str_field rm ''output'')) else ret ())
            (if field rm ''ok'' = JBool False
             then raise (MigrateError (py_str (jor (field rm ''error'') (JStr ''failed to remove leftover dest containers'')))
                    (Some ''dest_up''))
             else ret ()))))"

definition copy_phase :: "'s outside \<Rightarrow> move_args \<Rightarrow> move_plan \<Rightarrow> json \<Rightarrow> ('s, unit) move" where
  "copy_phase x a p pf =
     andalso (step x ''copy'')
     (andalso (log x (''Copy project tree '' @ mp_src_proj p @ arrow @ ''staging (verbatim, all files)''))
     (seq (as_copy (call_or x (PullTree (source_id a) (mp_src_proj p) (mp_proj_stage p) True False)
             (PullTree (source_id a) (mp_src_proj p) (mp_proj_stage p) False False))) (\<lambda>_.
      seq (o_call x (StageSummary (mp_proj_stage p))) (\<lambda>summary.
      andalso (log x (''Staged project: '' @ py_str summary))
      (seq (items_of (field pf ''skip_binds'')) (\<lambda>pf_skips.
      seq (items_of (field (jor (field pf ''dataset'') (JObj [])) ''items'')) (\<lambda>its.
      seq (loop (copy_item x a (p\<lparr>mp_skip_set := plan_skip_set a pf_skips\<rparr>)) its \<lparr>cs_volumes = [], cs_binds = []\<rparr>) (\<lambda>c.
      seq (o_call x (RewriteStaging (mp_proj_stage p) (mp_dest_name p) (mp_name p)
             (text_pairs (jor (field pf ''port_map'') (JObj []))) (volume_renames p (cs_volumes c)) (cs_binds c))) (\<lambda>rewritten.
      andalso (rewrite_log x rewritten)
      (andalso (log x (''Push project tree'' @ arrow @ mp_dst_proj p @ '' (verbatim --delete)''))
      (seq (as_copy (call_or x (PushTree (dest_id a) (mp_proj_stage p) (mp_dst_proj p) True)
              (PushTree (dest_id a) (mp_proj_stage p) (mp_dst_proj p) False))) (\<lambda>_.
      andalso (chown_step x a p) (ghosts_step x a p)))))))))))))"

end
