(* ===== verification/MoveLock.thy ===== *)
theory MoveLock
  imports MoveNames
begin

text \<open>
  The lock of a compose project on its host (\<open>app/services/service_migrate/host_lock.py\<close>): the
  rows of \<open>ComposeProjectMeta\<close>, what a lock, an unlock and a look-up do to them, and the flags shown
  beside each project. A HAOS host is locked without a row.
\<close>

section \<open>Rows and states\<close>

record meta =
  m_server_id :: int
  m_project :: string
  m_host_locked :: bool
  m_lock_reason :: "string option"
  m_lock_note :: "string option"
  m_locked_at :: "int option"
  m_locked_by :: "int option"
  m_created_at :: int
  m_updated_at :: int

datatype host_lock_error = HostLockError string int

record lock_view =
  lv_locked :: bool
  lv_implicit :: bool
  lv_reason :: "string option"
  lv_reason_label :: "string option"
  lv_note :: "string option"
  lv_locked_at :: "int option"
  lv_locked_by :: "int option"

definition LOCK_REASONS :: "string list" where
  "LOCK_REASONS = [''operator'', ''hardware'', ''infra'']"

definition REASON_LABELS :: "(string \<times> string) list" where
  "REASON_LABELS = [(''operator'', ''Operator''), (''hardware'', ''Hardware''), (''infra'', ''Infrastructure''),
     (''haos'', ''HAOS'')]"

definition MAX_NOTE :: nat where
  "MAX_NOTE = 255"

definition empty_state :: lock_view where
  "empty_state = \<lparr>lv_locked = False, lv_implicit = False, lv_reason = None, lv_reason_label = None,
     lv_note = None, lv_locked_at = None, lv_locked_by = None\<rparr>"

definition haos_state :: lock_view where
  "haos_state = \<lparr>lv_locked = True, lv_implicit = True, lv_reason = Some ''haos'', lv_reason_label = Some ''HAOS'',
     lv_note = Some ''HAOS appliances cannot be a migrate source or destination'', lv_locked_at = None,
     lv_locked_by = None\<rparr>"

definition nonempty :: "string \<Rightarrow> string option" where
  "nonempty s = (if s = [] then None else Some s)"

definition from_row :: "meta \<Rightarrow> lock_view" where
  "from_row r =
     (if \<not> m_host_locked r then empty_state
      else let raw = lower (strip (if text0 (m_lock_reason r) \<noteq> [] then text0 (m_lock_reason r) else ''operator''));
               reason = (if raw \<in> fst ` set REASON_LABELS then raw else ''operator'') in
        \<lparr>lv_locked = True, lv_implicit = False, lv_reason = Some reason,
          lv_reason_label = Some (case map_of REASON_LABELS reason of Some l \<Rightarrow> l | None \<Rightarrow> ''Operator''),
          lv_note = nonempty (strip (text0 (m_lock_note r))), lv_locked_at = m_locked_at r,
          lv_locked_by = m_locked_by r\<rparr>)"

definition is_haos_server :: "host \<Rightarrow> bool" where
  "is_haos_server h = contains (lower (h_os_type h)) ''haos''"

definition meta_key :: "meta \<Rightarrow> int \<times> string" where
  "meta_key r = (m_server_id r, m_project r)"

text \<open>The exceptions of a name are \<open>HostLockError(message, 400)\<close>.\<close>

definition checked_name :: "string \<Rightarrow> host_lock_error + string" where
  "checked_name project = (case compose_project_name (Some project) of
     Inl m \<Rightarrow> Inl (HostLockError m 400) | Inr n \<Rightarrow> Inr n)"

section \<open>Operations\<close>

definition lock_state :: "host \<Rightarrow> string \<Rightarrow> meta list \<Rightarrow> host_lock_error + lock_view" where
  "lock_state server project rows =
     (if is_haos_server server then Inr haos_state
      else rbind (checked_name project) (\<lambda>name.
        Inr (case get_row meta_key (h_id server, name) rows of None \<Rightarrow> empty_state | Some r \<Rightarrow> from_row r)))"

definition assert_unlocked :: "host \<Rightarrow> string \<Rightarrow> meta list \<Rightarrow> host_lock_error + unit" where
  "assert_unlocked server project rows = rbind (lock_state server project rows) (\<lambda>st.
     if \<not> lv_locked st then Inr ()
     else let label = (if text0 (lv_reason_label st) \<noteq> [] then text0 (lv_reason_label st) else ''this host'');
              msg = ''Locked to '' @ label in
       Inl (HostLockError (if text0 (lv_note st) \<noteq> [] then msg @ '': '' @ text0 (lv_note st) else msg) 403))"

definition get_or_create :: "int \<Rightarrow> int \<Rightarrow> string \<Rightarrow> meta list \<Rightarrow> meta list" where
  "get_or_create now sid project rows =
     (case get_row meta_key (sid, project) rows of
        Some r \<Rightarrow> rows
      | None \<Rightarrow> rows @ [\<lparr>m_server_id = sid, m_project = project, m_host_locked = False, m_lock_reason = None,
          m_lock_note = None, m_locked_at = None, m_locked_by = None, m_created_at = now, m_updated_at = now\<rparr>])"

definition no_haos :: host_lock_error where
  "no_haos = HostLockError ''HAOS hosts cannot be a migrate source or destination'' 403"

definition set_host_lock ::
    "int \<Rightarrow> host \<Rightarrow> string \<Rightarrow> string \<Rightarrow> string option \<Rightarrow> int option \<Rightarrow> meta list \<Rightarrow> host_lock_error + meta list" where
  "set_host_lock now server project reason note user_id rows =
     (if is_haos_server server then Inl no_haos
      else rbind (checked_name project) (\<lambda>name.
        let r = lower (strip reason); note_s = strip (text0 note); sid = h_id server in
        if r \<notin> set LOCK_REASONS then Inl (HostLockError ''lock reason must be operator, hardware, or infra'' 400)
        else if MAX_NOTE < length note_s then Inl (HostLockError ''lock note is too long'' 400)
        else if sid \<le> 0 then Inl (HostLockError ''server required'' 400)
        else Inr (upd_row meta_key (sid, name) (\<lambda>row. row\<lparr>m_host_locked := True, m_lock_reason := Some r,
               m_lock_note := nonempty note_s, m_locked_at := Some now, m_locked_by := user_id, m_updated_at := now\<rparr>)
               (get_or_create now sid name rows))))"

definition unlock_host :: "int \<Rightarrow> host \<Rightarrow> string \<Rightarrow> meta list \<Rightarrow> host_lock_error + meta list" where
  "unlock_host now server project rows =
     (if is_haos_server server then Inl no_haos
      else rbind (checked_name project) (\<lambda>name.
        let key = (h_id server, name); missing = Inl (HostLockError ''project is not locked'' 400) in
        case get_row meta_key key rows of
          None \<Rightarrow> missing
        | Some r \<Rightarrow> if \<not> m_host_locked r then missing
            else Inr (upd_row meta_key key (\<lambda>row. row\<lparr>m_host_locked := False, m_lock_reason := None,
               m_lock_note := None, m_locked_at := None, m_locked_by := None, m_updated_at := now\<rparr>) rows)))"

definition state_json :: "lock_view \<Rightarrow> json" where
  "state_json st = JObj [(''locked'', JBool (lv_locked st)), (''implicit'', JBool (lv_implicit st)),
     (''reason'', jopt JStr (lv_reason st)), (''reason_label'', jopt JStr (lv_reason_label st)),
     (''note'', jopt JStr (lv_note st)), (''locked_at'', jopt JStamp (lv_locked_at st)),
     (''locked_by_user_id'', jopt JInt (lv_locked_by st))]"

definition annotate_project :: "host \<Rightarrow> meta list \<Rightarrow> json \<Rightarrow> json" where
  "annotate_project server rows p = (case p of
     JObj d \<Rightarrow>
       if is_haos_server server then JObj (dset ''host_lock'' (state_json haos_state) d)
       else (case checked_name (py_str (jor (dget0 d ''name'') (JStr []))) of
           Inl e \<Rightarrow> JObj (dset ''host_lock'' (state_json empty_state) d)
         | Inr key \<Rightarrow> if dget d ''host_lock'' \<noteq> None then p
             else JObj (dset ''host_lock'' (state_json (case get_row meta_key (h_id server, key) rows of
                 None \<Rightarrow> empty_state | Some r \<Rightarrow> from_row r)) d))
   | _ \<Rightarrow> p)"

definition annotate_projects :: "host \<Rightarrow> meta list \<Rightarrow> json list \<Rightarrow> json list" where
  "annotate_projects server rows projects = map (annotate_project server rows) projects"

section \<open>What a lock promises\<close>

lemma meta_key_upd [simp]:
  "meta_key (r\<lparr>m_host_locked := a, m_lock_reason := b, m_lock_note := c, m_locked_at := t, m_locked_by := u,
     m_updated_at := v\<rparr>) = meta_key r"
  by (simp add: meta_key_def)

lemma get_created: "get_row meta_key k (get_or_create now sid name rows) \<noteq> None" if "k = (sid, name)"
  using that by (auto simp: get_or_create_def get_row_append meta_key_def split: option.splits)

lemma get_created_other:
  "k \<noteq> (sid, name) \<Longrightarrow> get_row meta_key k (get_or_create now sid name rows) = get_row meta_key k rows"
  by (auto simp: get_or_create_def get_row_append meta_key_def split: option.splits)

lemma created_distinct:
  "distinct (map meta_key rows) \<Longrightarrow> distinct (map meta_key (get_or_create now sid name rows))"
  by (auto simp: get_or_create_def get_row_None meta_key_def split: option.splits)

text \<open>Every accepted lock keeps the unique key of the table.\<close>

lemma set_host_lock_distinct:
  "set_host_lock now h p r n u rows = Inr rows' \<Longrightarrow> distinct (map meta_key rows) \<Longrightarrow> distinct (map meta_key rows')"
  by (auto simp: set_host_lock_def Let_def rbind_eq_Inr upd_row_keys created_distinct split: if_splits)

lemma unlock_host_distinct:
  "unlock_host now h p rows = Inr rows' \<Longrightarrow> distinct (map meta_key rows) \<Longrightarrow> distinct (map meta_key rows')"
  by (auto simp: unlock_host_def Let_def rbind_eq_Inr upd_row_keys split: if_splits option.splits)

text \<open>A lock that is accepted holds, and concerns one project of one host.\<close>

lemma set_host_lock_view:
  assumes "set_host_lock now h p r n u rows = Inr rows'"
  shows "\<exists>st. lock_state h p rows' = Inr st \<and> lv_locked st \<and> lv_locked_by st = u"
    and "\<And>k name. checked_name p = Inr name \<Longrightarrow> k \<noteq> (h_id h, name) \<Longrightarrow> get_row meta_key k rows' = get_row meta_key k rows"
proof -
  from assms obtain name where n: "\<not> is_haos_server h" "checked_name p = Inr name"
    and rows': "rows' = upd_row meta_key (h_id h, name) (\<lambda>row. row\<lparr>m_host_locked := True,
        m_lock_reason := Some (lower (strip r)), m_lock_note := nonempty (strip (text0 n)), m_locked_at := Some now,
        m_locked_by := u, m_updated_at := now\<rparr>) (get_or_create now (h_id h) name rows)"
    by (auto simp: set_host_lock_def Let_def rbind_eq_Inr split: if_splits)
  obtain row where row: "get_row meta_key (h_id h, name) (get_or_create now (h_id h) name rows) = Some row"
    using get_created [of "(h_id h, name)" "h_id h" name now rows] by auto
  show "\<exists>st. lock_state h p rows' = Inr st \<and> lv_locked st \<and> lv_locked_by st = u"
    using n row by (simp add: lock_state_def rows' get_row_upd_same from_row_def Let_def)
  show "get_row meta_key k rows' = get_row meta_key k rows"
    if "checked_name p = Inr name'" "k \<noteq> (h_id h, name')" for k name'
    using that n by (simp add: rows' get_row_upd_other get_created_other)
qed

lemma unlock_after_lock:
  assumes "set_host_lock now h p r n u rows = Inr rows'"
  shows "\<exists>rows''. unlock_host later h p rows' = Inr rows'' \<and> assert_unlocked h p rows'' = Inr ()"
proof -
  from set_host_lock_view(1) [OF assms] obtain st where st: "lock_state h p rows' = Inr st" "lv_locked st" by blast
  have nh: "\<not> is_haos_server h" using assms by (auto simp: set_host_lock_def)
  then obtain name row where row: "checked_name p = Inr name" "get_row meta_key (h_id h, name) rows' = Some row"
      "m_host_locked row"
    using st by (auto simp: lock_state_def rbind_eq_Inr from_row_def empty_state_def split: option.splits if_splits)
  show ?thesis
    using nh row by (simp add: unlock_host_def assert_unlocked_def lock_state_def get_row_upd_same from_row_def empty_state_def)
qed

lemma locked_is_refused:
  assumes "lock_state h p rows = Inr st" and "lv_locked st"
  shows "\<exists>m. assert_unlocked h p rows = Inl (HostLockError m 403)"
  using assms by (simp add: assert_unlocked_def Let_def)

end
