(* ===== verification/MoveLeftover.thy ===== *)
theory MoveLeftover
  imports MoveCopy MoveLock
begin

text \<open>
  What a Move leaves on its source, and the wipe of a stack
  (\<open>app/services/service_migrate/leftover.py\<close>): compose down, volumes, the project directory and the
  control-plane rows, each only after the one before succeeded.
\<close>

section \<open>Modes and volumes\<close>

definition LEFTOVER_MODES :: "string list" where
  "LEFTOVER_MODES = [''stopped'', ''down'', ''remove'']"

definition normalize_leftover :: "string option \<Rightarrow> string" where
  "normalize_leftover raw =
     (let v = lower (strip (if text0 raw \<noteq> [] then text0 raw else ''stopped'')) in
      if v \<in> set LEFTOVER_MODES then v else ''stopped'')"

definition dataset_volume :: "json \<Rightarrow> string list \<Rightarrow> move_exc + string list" where
  "dataset_volume it out = (case it of
     JObj d \<Rightarrow> (case jor (dget0 d ''volume'') (JStr []) of
         JStr v \<Rightarrow>
           (let vol = (if dget0 d ''kind'' = JStr ''named'' \<and> strip v = []
                 then text0 (named_volume_id (py_str (jor (dget0 d ''source'') (JStr []))) [] []) else strip v) in
            if vol = [] \<or> slash \<in> set vol \<or> contains vol ''..'' \<or> vol \<in> set out then Inr out
            else Inr (out @ [vol]))
       | _ \<Rightarrow> Inl attribute_error)
   | _ \<Rightarrow> Inr out)"

definition named_volumes_from_dataset :: "json \<Rightarrow> move_exc + string list" where
  "named_volumes_from_dataset dataset = (case py_list (jor (field (jor dataset (JObj [])) ''items'') (JList [])) of
     None \<Rightarrow> Inl type_error | Some its \<Rightarrow> rfold dataset_volume its [])"

section \<open>Single removals\<close>

definition failure :: "string \<Rightarrow> json" where
  "failure msg = JObj [(''success'', JBool False), (''error'', JStr msg)]"

text \<open>\<open>_rm_volume\<close> and \<open>_rm_tree\<close> check what they are given before they connect.\<close>

definition rm_volume :: "'s outside \<Rightarrow> int \<Rightarrow> string \<Rightarrow> ('s, json) move" where
  "rm_volume x server volume =
     (let nm = strip volume in
      if nm = [] \<or> slash \<in> set nm \<or> contains nm ''..'' then ret (failure (''invalid volume name: '' @ repr_str volume))
      else o_call x (RmVolume server nm))"

definition rm_tree :: "'s outside \<Rightarrow> int \<Rightarrow> string \<Rightarrow> ('s, json) move" where
  "rm_tree x server path =
     (let p = rslash path in
      if p = [] \<or> p = ''/'' \<or> contains p ''..'' then ret (failure ''refusing rm of unsafe path'')
      else o_call x (RmTree server p))"

text \<open>\<open>raise LeftoverError(r.get("error") or fallback)\<close>.\<close>

definition leftover_error :: "json \<Rightarrow> string \<Rightarrow> ('s, 'a) move" where
  "leftover_error r fallback = raise (LeftoverError (py_str (jor (field r ''error'') (JStr fallback))))"

definition need_success :: "json \<Rightarrow> string \<Rightarrow> ('s, unit) move" where
  "need_success r fallback = (if unsuccessful r then leftover_error r fallback else ret ())"

definition jailed :: "host \<Rightarrow> string \<Rightarrow> ('s, string) move" where
  "jailed h project = (case jailed_source_project_path h project of
     Inl (Bad_name m) \<Rightarrow> raise (LockedError m)
   | Inl (Bad_path m) \<Rightarrow> raise (LeftoverError m)
   | Inr p \<Rightarrow> ret p)"

section \<open>The wipe of a stack\<close>

definition assert_wipe_allowed :: "meta list \<Rightarrow> host \<Rightarrow> string \<Rightarrow> ('s, string \<times> string) move" where
  "assert_wipe_allowed rows server project_path =
     (let raw_name = last (split_on slash (rslash project_path)) in
      case compose_project_name (Some raw_name) of
        Inl m \<Rightarrow> raise (LeftoverError m)
      | Inr nm \<Rightarrow> seq (jailed server nm) (\<lambda>want.
          let path = rslash project_path in
          if path \<noteq> want then raise (LeftoverError (''refusing project wipe: path '' @ repr_str path @ '' is not '' @ repr_str want))
          else case assert_unlocked server nm rows of
              Inl (HostLockError m c) \<Rightarrow> raise (LeftoverError m)
            | Inr u \<Rightarrow> ret (nm, want)))"

definition wipe_result :: "string \<Rightarrow> string \<Rightarrow> bool \<Rightarrow> bool \<Rightarrow> json \<Rightarrow> json" where
  "wipe_result nm path vols removed dropped = JObj [(''project'', JStr nm), (''project_path'', JStr path),
     (''volumes_removed'', JBool vols), (''project_removed'', JBool removed), (''meta_dropped'', dropped)]"

definition wipe_compose_project ::
    "'s outside \<Rightarrow> meta list \<Rightarrow> host \<Rightarrow> string \<Rightarrow> bool \<Rightarrow> bool \<Rightarrow> ('s, json) move" where
  "wipe_compose_project x rows server project_path remove_volumes delete_tree =
     seq (assert_wipe_allowed rows server project_path) (\<lambda>(nm, path).
     andalso (log x ((if remove_volumes then ''docker compose down -v'' else ''docker compose down'')
                @ '' on '' @ h_name server @ '' ('' @ path @ '')''))
     (seq (o_call x (ComposeDown (h_id server) path remove_volumes)) (\<lambda>stopped.
      andalso (need_success stopped ''compose down failed'')
      (if \<not> delete_tree then ret (wipe_result nm path remove_volumes False (JInt 0))
       else andalso (log x (''remove project dir '' @ path))
         (seq (rm_tree x (h_id server) path) (\<lambda>tree.
          andalso (need_success tree ''project dir remove failed'')
          (seq (o_call x (DropMeta (h_id server) nm)) (\<lambda>dropped.
           seq (o_call x CommitRows) (\<lambda>_. ret (wipe_result nm path remove_volumes True dropped))))))))))"

section \<open>After a Move\<close>

definition leftover_result :: "string \<Rightarrow> string list \<Rightarrow> bool \<Rightarrow> json \<Rightarrow> json \<Rightarrow> json" where
  "leftover_result mode vols removed certs dropped = JObj [(''leftover'', JStr mode),
     (''volumes_removed'', JList (map JStr vols)), (''project_removed'', JBool removed),
     (''certs_disabled'', certs), (''meta_dropped'', dropped)]"

definition remove_volume :: "'s outside \<Rightarrow> host \<Rightarrow> string \<Rightarrow> string list \<Rightarrow> ('s, string list) move" where
  "remove_volume x source vol removed =
     andalso (log x (''docker volume rm '' @ vol @ '' on '' @ h_name source @ '' (not dest)''))
       (seq (rm_volume x (h_id source) vol) (\<lambda>r.
        andalso (need_success r (''volume rm '' @ vol @ '' failed'')) (ret (removed @ [vol]))))"

definition remove_source ::
    "'s outside \<Rightarrow> host \<Rightarrow> host \<Rightarrow> string \<Rightarrow> string \<Rightarrow> string option \<Rightarrow> json \<Rightarrow> ('s, json) move" where
  "remove_source x source dest nm path dest_project dataset =
     (case named_volumes_from_dataset dataset of
        Inl e \<Rightarrow> raise e
      | Inr vols \<Rightarrow>
          seq (loop (remove_volume x source) vols []) (\<lambda>removed.
          andalso (log x (''remove source project dir '' @ path))
          (seq (rm_tree x (h_id source) path) (\<lambda>tree.
           andalso (need_success tree ''source project dir remove failed'')
           (seq (o_call x (DisableCerts (h_id source) (h_id dest)
                    (if text0 dest_project \<noteq> [] then text0 dest_project else nm))) (\<lambda>certs.
            seq (o_call x (DropMeta (h_id source) nm)) (\<lambda>dropped.
            seq (o_call x CommitRows) (\<lambda>_. ret (leftover_result ''remove'' removed True certs dropped)))))))))"

definition apply_leftover ::
    "'s outside \<Rightarrow> host \<Rightarrow> host \<Rightarrow> string \<Rightarrow> string option \<Rightarrow> json \<Rightarrow> string \<Rightarrow> string option \<Rightarrow> ('s, json) move" where
  "apply_leftover x source dest project leftover dataset src_proj dest_project =
     (let mode = normalize_leftover leftover in
      seq (checked_project project) (\<lambda>nm.
      if mode = ''stopped'' then ret (leftover_result mode [] False (JInt 0) (JInt 0))
      else if h_id source = h_id dest
        then raise (LeftoverError ''refusing leftover wipe: source and dest are the same host'')
      else seq (if rslash src_proj \<noteq> [] then ret (rslash src_proj) else jailed source nm) (\<lambda>path.
        seq (jailed source nm) (\<lambda>want.
        if path \<noteq> want
        then raise (LeftoverError (''refusing leftover wipe: project path '' @ repr_str path @ '' is not '' @ repr_str want))
        else andalso (log x (''compose down on source '' @ h_name source
                 @ (if mode = ''remove'' then '' (then wipe project + named volumes)'' else '' (volumes kept)'')))
          (seq (o_call x (ComposeDown (h_id source) path False)) (\<lambda>stopped.
           andalso (need_success stopped ''source compose down failed'')
           (if mode = ''down'' then ret (leftover_result mode [] False (JInt 0) (JInt 0))
            else remove_source x source dest nm path dest_project dataset)))))))"

end
