(* ===== verification/MovePipeline.thy ===== *)
theory MovePipeline
  imports MoveLeftover
begin

text \<open>
  The pipeline of a Move (\<open>run_copy_and_start\<close> in \<open>app/services/service_migrate/pipeline.py\<close>): preflight,
  stop, copy, start on the destination, names, control-plane rows, validation, leftover. A failure
  carries the step it happened in, or none when the code does not wrap it.
\<close>

section \<open>Start on the destination\<close>

definition up_worked :: "json \<Rightarrow> bool" where
  "up_worked started = (if \<not> is_dict started then True
     else case dget (dict_of started) ''up_ok'' of
         Some v \<Rightarrow> truthy v
       | None \<Rightarrow> field started ''success'' \<noteq> JBool False)"

definition refresh_dest :: "'s outside \<Rightarrow> move_args \<Rightarrow> ('s, unit) move" where
  "refresh_dest x a = catching (seq (o_call x (RefreshInventory (dest_id a))) (\<lambda>r.
       if truthy r then log x (''Refreshed dest Docker inventory on '' @ h_name (ma_dest a)) else ret ()))
     (\<lambda>_. ret ())"

definition dest_up_step :: "'s outside \<Rightarrow> move_args \<Rightarrow> move_plan \<Rightarrow> ('s, unit) move" where
  "dest_up_step x a p =
     andalso (step x ''dest_up'')
     (andalso (log x (''Starting '' @ mp_dest_name p @ '' on '' @ h_name (ma_dest a) @ '' (compose up -d)'' @ [ellipsis]))
     (seq (o_call x (Redeploy (dest_id a) (mp_dst_proj p))) (\<lambda>started.
      andalso (if truthy (field started ''output'') then log x (last_n 1500 (str_field started ''output'')) else ret ())
      (andalso (if truthy (field started ''pull'') \<and> field started ''pull_ok'' = JBool False \<and> up_worked started
                then log x (''compose pull had errors; dest up succeeded '' @ [CHR 0x97] @ '' continuing'') else ret ())
      (andalso (unless (up_worked started)
                 (raise (MigrateError (ssh_fail_detail started ''dest up failed'') (Some ''dest_up''))))
       (refresh_dest x a))))))"

section \<open>Names, rows, validation\<close>

definition cutover_step :: "'s outside \<Rightarrow> move_args \<Rightarrow> move_plan \<Rightarrow> json \<Rightarrow> ('s, json) move" where
  "cutover_step x a p pf =
     andalso (step x ''cutover'')
     (andalso (log x (''Retargeting DNS / NPM'' @ [ellipsis]))
     (catching (call_or x (Retarget (source_id a) (dest_id a) (mp_name p) (Some (mp_dest_name p))
                  (text_pairs (jor (field pf ''port_map'') (JObj []))) (ma_adopt_fabric a))
               (Retarget (source_id a) (dest_id a) (mp_name p) None [] False))
        (\<lambda>e. case e of CutoverError m \<Rightarrow> raise (MigrateError m (Some ''cutover'')) | _ \<Rightarrow> raise e)))"

definition rebind_step :: "'s outside \<Rightarrow> move_args \<Rightarrow> move_plan \<Rightarrow> ('s, json) move" where
  "rebind_step x a p =
     andalso (log x (''Rebinding control-plane rows'' @ [ellipsis]))
     (catching (call_or x (RebindRows (source_id a) (dest_id a) (mp_name p) (Some (mp_dest_name p)))
               (RebindRows (source_id a) (dest_id a) (mp_name p) None))
        (\<lambda>e. case e of MigrateError m s \<Rightarrow> raise e | _ \<Rightarrow> raise (MigrateError (move_text e) (Some ''rebind''))))"

definition validate_step :: "'s outside \<Rightarrow> move_args \<Rightarrow> move_plan \<Rightarrow> ('s, json) move" where
  "validate_step x a p =
     andalso (step x ''validate'')
     (andalso (log x (''Validating TLS / Kuma'' @ [ellipsis]))
     (catching (o_call x (Validate (source_id a) (dest_id a) (mp_dest_name p)))
        (\<lambda>e. case e of ValidateError m \<Rightarrow> raise (MigrateError m (Some ''validate'')) | _ \<Rightarrow> raise e)))"

definition leftover_step :: "'s outside \<Rightarrow> move_args \<Rightarrow> move_plan \<Rightarrow> json \<Rightarrow> ('s, json) move" where
  "leftover_step x a p pf =
     andalso (step x ''leftover'')
     (catching (apply_leftover x (ma_source a) (ma_dest a) (mp_name p) (Some (normalize_leftover (ma_leftover a)))
                 (jor (field pf ''dataset'') (JObj [])) (mp_src_proj p) (Some (mp_dest_name p)))
        (\<lambda>e. case e of LeftoverError m \<Rightarrow> raise (MigrateError m (Some ''leftover'')) | _ \<Rightarrow> raise e))"

definition mark_stale_step :: "'s outside \<Rightarrow> move_args \<Rightarrow> ('s, unit) move" where
  "mark_stale_step x a = catching (seq (o_call x (MarkStale (source_id a))) (\<lambda>_.
     seq (o_call x (MarkStale (dest_id a))) (\<lambda>_. ret ()))) (\<lambda>_. ret ())"

section \<open>The whole pipeline\<close>

definition make_plan :: "move_args \<Rightarrow> string \<Rightarrow> json \<Rightarrow> move_plan" where
  "make_plan a nm pf =
     (let dest_name = py_str (jor (field pf ''dest_project'') (JStr nm));
          src_base = rslash (docker_base_abs (ma_source a)); dst_base = rslash (docker_base_abs (ma_dest a)) in
      \<lparr>mp_name = nm, mp_dest_name = dest_name, mp_src_base = src_base, mp_dst_base = dst_base,
        mp_src_proj = src_base @ ''/'' @ nm, mp_dst_proj = dst_base @ ''/'' @ dest_name,
        mp_proj_stage = ma_stage a @ ''/project'', mp_bind_map = jor (field pf ''bind_map'') (JObj []),
        mp_skip_set = []\<rparr>)"

definition stop_step :: "'s outside \<Rightarrow> move_args \<Rightarrow> move_plan \<Rightarrow> ('s, unit) move" where
  "stop_step x a p =
     andalso (step x ''stop'')
     (andalso (log x (''Stopping '' @ mp_name p @ '' on '' @ h_name (ma_source a) @ [ellipsis]))
     (seq (o_call x (ComposeStop (source_id a) (mp_src_proj p))) (\<lambda>stopped.
      if unsuccessful stopped
      then raise (MigrateError (ssh_fail_detail stopped ''compose stop failed'') (Some ''stop'')) else ret ())))"

definition dict_or :: "json \<Rightarrow> json \<Rightarrow> json" where
  "dict_or r fallback = (if is_dict r then r else fallback)"

definition ok_json :: json where
  "ok_json = JObj [(''ok'', JBool True)]"

definition move_result :: "move_args \<Rightarrow> move_plan \<Rightarrow> json \<Rightarrow> json \<Rightarrow> json \<Rightarrow> json \<Rightarrow> json" where
  "move_result a p dns rb val left =
     (let mode = normalize_leftover (ma_leftover a) in
      JObj [(''ok'', JBool True), (''project'', JStr (mp_name p)), (''dest_project'', JStr (mp_dest_name p)),
        (''source_id'', JInt (source_id a)), (''dest_id'', JInt (dest_id a)), (''staging'', JStr (ma_stage a)),
        (''dns'', dict_or dns ok_json), (''rebind'', dict_or rb ok_json), (''validate'', dict_or val ok_json),
        (''leftover'', JStr mode), (''leftover_detail'', dict_or left (JObj [(''leftover'', JStr mode)]))])"

definition after_copy :: "'s outside \<Rightarrow> move_args \<Rightarrow> move_plan \<Rightarrow> json \<Rightarrow> ('s, json) move" where
  "after_copy x a p pf =
     andalso (dest_up_step x a p)
     (seq (cutover_step x a p pf) (\<lambda>dns.
      seq (rebind_step x a p) (\<lambda>rb.
      seq (validate_step x a p) (\<lambda>val.
      seq (leftover_step x a p pf) (\<lambda>left.
      andalso (mark_stale_step x a)
      (andalso (log x ''Migrate complete.'')
       (ret (move_result a p dns rb val left))))))))"

definition run_copy_and_start :: "'s outside \<Rightarrow> move_args \<Rightarrow> ('s, json) move" where
  "run_copy_and_start x a =
     andalso (step x ''preflight'')
     (seq (checked_project (ma_project a)) (\<lambda>nm.
      seq (run_preflight_step x a nm) (\<lambda>pf.
      seq (o_call x (PrepareStaging (ma_stage a))) (\<lambda>_.
      let p = make_plan a nm pf in
      andalso (stop_step x a p)
      (andalso (copy_phase x a p pf) (after_copy x a p pf))))))"

end
