(* ===== verification/MoveUndo.thy ===== *)
theory MoveUndo
  imports MoveLeftover
begin

text \<open>
  The two ways back (\<open>app/services/service_migrate/undo.py\<close>, \<open>dest_up_recover.py\<close>): undo of a Move that
  failed after the names moved, and recovery of one whose worker died while the destination started. Both
  stop the destination first; an undo remembers the steps it committed for the next attempt.
\<close>

section \<open>Payloads\<close>

definition UNDO_STEPS :: "string list" where
  "UNDO_STEPS = [''cutover'', ''rebind'', ''validate'']"

definition RECOVER_SOURCE_STEPS :: "string list" where
  "RECOVER_SOURCE_STEPS = [''stop'', ''copy'', ''dest_up'']"

definition WORKER_RESTART_RECOVER_STEPS :: "string list" where
  "WORKER_RESTART_RECOVER_STEPS = [''stop'', ''copy'']"

definition DEST_RECOVER_JOB_TYPE :: string where
  "DEST_RECOVER_JOB_TYPE = ''service_migrate_dest_recover''"

definition names_of :: "string \<Rightarrow> string option \<Rightarrow> (string \<times> string) option" where
  "names_of project dest_project =
     (case (compose_project_name (Some project),
            compose_project_name (Some (if text0 dest_project \<noteq> [] then text0 dest_project else project))) of
        (Inr n, Inr m) \<Rightarrow> Some (n, m) | _ \<Rightarrow> None)"

definition undo_move_details ::
    "int \<Rightarrow> int \<Rightarrow> string \<Rightarrow> string option \<Rightarrow> dict \<Rightarrow> string option \<Rightarrow> dict option" where
  "undo_move_details sid did project dest_project port_map failed =
     (let st = strip (text0 failed) in
      if st \<notin> set UNDO_STEPS then None
      else case names_of project dest_project of
        None \<Rightarrow> None
      | Some (nm, dest_name) \<Rightarrow> Some [(''source_id'', JInt sid), (''dest_id'', JInt did), (''project'', JStr nm),
          (''dest_project'', JStr dest_name), (''port_map'', JObj port_map),
          (''failed_step'', JStr st)])"

definition dest_up_recover_details :: "int \<Rightarrow> int \<Rightarrow> string \<Rightarrow> string option \<Rightarrow> dict option" where
  "dest_up_recover_details sid did project dest_project =
     (case names_of project dest_project of
        None \<Rightarrow> None
      | Some (nm, dest_name) \<Rightarrow> if sid \<le> 0 \<or> did \<le> 0 then None
          else Some [(''source_id'', JInt sid), (''dest_id'', JInt did), (''project'', JStr nm),
            (''dest_project'', JStr dest_name)])"

section \<open>Undo\<close>

text \<open>\<open>_ok\<close>.\<close>

definition call_ok :: "json \<Rightarrow> bool" where
  "call_ok r = (\<not> (is_dict r \<and> (field r ''success'' = JBool False \<or> field r ''ok'' = JBool False)))"

definition log_output :: "'s outside \<Rightarrow> json \<Rightarrow> ('s, unit) move" where
  "log_output x r = (if truthy (field r ''output'') then log x (last_n 800 (str_field r ''output'')) else ret ())"

text \<open>\<open>str(r.get("error") or r.get("output") or "")\<close>, or the fallback.\<close>

definition error_or :: "json \<Rightarrow> string \<Rightarrow> string" where
  "error_or r fallback = (let e = py_str (jor (jor (field r ''error'') (field r ''output'')) (JStr []))
     in if e \<noteq> [] then e else fallback)"

record undo_args =
  ua_source :: host
  ua_dest :: host
  ua_name :: string
  ua_dest_name :: string
  ua_source_path :: string
  ua_dest_path :: string
  ua_back_ports :: "(string \<times> string) list"

definition UNDO_KEYS :: "string list" where
  "UNDO_KEYS = [''stop'', ''dns'', ''rebind'', ''certs'']"

definition says_down :: "json \<Rightarrow> bool" where
  "says_down r = (field r ''action'' = JStr ''down'')"

definition undo_stop :: "'s outside \<Rightarrow> undo_args \<Rightarrow> string list \<Rightarrow> ('s, string list) move" where
  "undo_stop x u steps =
     (if ''stop'' \<in> set steps then andalso (log x ''Dest stop already committed on a previous undo'') (ret steps)
      else andalso (log x (''Stopping dest project '' @ ua_dest_name u @ '' at '' @ ua_dest_path u @ '' (compose stop, not down -v)''))
        (seq (o_call x (ComposeStop (h_id (ua_dest u)) (ua_dest_path u))) (\<lambda>stopped.
          if says_down stopped then raise (UndoError ''refusing undo: dest down is not allowed'' steps)
          else andalso (log_output x stopped)
            (if call_ok stopped then ret (steps @ [''stop''])
             else raise (UndoError (error_or stopped ''dest compose stop failed'') steps)))))"

text \<open>\<open>_fail\<close>: before the names moved the destination is started again.\<close>

definition undo_fail :: "'s outside \<Rightarrow> undo_args \<Rightarrow> string list \<Rightarrow> string \<Rightarrow> bool \<Rightarrow> ('s, 'a) move" where
  "undo_fail x u steps msg restart_dest =
     (if \<not> restart_dest then raise (UndoError msg steps)
      else andalso (log x ''Names were not moved; starting dest again'')
        (seq (o_call x (ComposeStart (h_id (ua_dest u)) (ua_dest_path u))) (\<lambda>back.
         andalso (log_output x back)
         (if call_ok back then raise (UndoError msg (remove1 ''stop'' steps))
          else andalso (log x ''Dest was stopped and could not be started again'') (raise (UndoError msg steps))))))"

text \<open>One committed step: skipped when an attempt before did it, else called; \<open>UndoError\<close> passes.\<close>

definition undo_call ::
    "'s outside \<Rightarrow> undo_args \<Rightarrow> string list \<Rightarrow> string \<Rightarrow> bool \<Rightarrow> ('s, json) move \<Rightarrow> ('s, json \<times> string list) move" where
  "undo_call x u steps fallback restart m =
     seq (catching (seq m (\<lambda>r. ret (Inr r))) (\<lambda>e. case e of
            UndoError t ss \<Rightarrow> raise e
          | _ \<Rightarrow> ret (Inl (if move_text e \<noteq> [] then move_text e else fallback)))) (\<lambda>r.
       case r of
         Inl msg \<Rightarrow> undo_fail x u steps msg restart
       | Inr out \<Rightarrow> ret (out, steps))"

definition skipped_json :: json where
  "skipped_json = JObj [(''ok'', JBool True), (''skipped'', JBool True)]"

definition undo_dns :: "'s outside \<Rightarrow> undo_args \<Rightarrow> string list \<Rightarrow> ('s, json \<times> string list) move" where
  "undo_dns x u steps =
     (if ''dns'' \<in> set steps
      then andalso (log x ''DNS / NPM revert already committed on a previous undo'') (ret (skipped_json, steps))
      else andalso (log x (''Reverting DNS / NPM for '' @ ua_name u @ arrow @ h_name (ua_source u)))
        (seq (undo_call x u steps ''DNS revert failed'' True
               (call_or x (Retarget (h_id (ua_dest u)) (h_id (ua_source u)) (ua_dest_name u) (Some (ua_name u)) (ua_back_ports u) False)
                          (Retarget (h_id (ua_dest u)) (h_id (ua_source u)) (ua_dest_name u) (Some (ua_name u)) (ua_back_ports u) False)))
          (\<lambda>(out, st). if call_ok out then ret (out, st @ [''dns''])
             else undo_fail x u st (error_or out ''DNS revert failed'') True)))"

definition rebind_error :: "json \<Rightarrow> string" where
  "rebind_error r = (if str_field r ''error'' \<noteq> [] then str_field r ''error'' else ''rebind failed'')"

definition undo_rebind :: "'s outside \<Rightarrow> undo_args \<Rightarrow> string list \<Rightarrow> ('s, json \<times> string list) move" where
  "undo_rebind x u steps =
     (if ''rebind'' \<in> set steps
      then andalso (log x ''Control-plane rebind already committed on a previous undo'') (ret (skipped_json, steps))
      else andalso (log x ''Rebinding control-plane rows back to source'')
        (seq (undo_call x u steps ''rebind failed'' False
               (call_or x (RebindRows (h_id (ua_dest u)) (h_id (ua_source u)) (ua_dest_name u) (Some (ua_name u)))
                          (RebindRows (h_id (ua_dest u)) (h_id (ua_source u)) (ua_dest_name u) None)))
          (\<lambda>(out, st). if call_ok out then ret (out, st @ [''rebind'']) else undo_fail x u st (rebind_error out) False)))"

text \<open>The second call of \<open>reenable_source_certs\<close> has too few arguments.\<close>

definition missing_argument :: string where
  "missing_argument = ''reenable_source_certs() missing 1 required positional argument: ''
     @ [CHR 0x27] @ ''dest_project'' @ [CHR 0x27]"

definition undo_certs :: "'s outside \<Rightarrow> undo_args \<Rightarrow> string list \<Rightarrow> ('s, json \<times> string list) move" where
  "undo_certs x u steps =
     (if ''certs'' \<in> set steps
      then andalso (log x ''Certificate re-enable already committed on a previous undo'') (ret (JInt 0, steps))
      else seq (undo_call x u steps ''certificate re-enable failed'' False
             (catching (o_call x (EnableCerts (h_id (ua_source u)) (ua_name u) (ua_dest_name u)))
               (\<lambda>e. case e of WrongArgs m \<Rightarrow> raise (WrongArgs missing_argument) | _ \<Rightarrow> raise e)))
          (\<lambda>(n, st). andalso (if truthy n then log x (''Re-enabled '' @ py_str n
                 @ '' source certificate target(s); dest clone kept'') else ret ()) (ret (n, st @ [''certs'']))))"

definition undo_start :: "'s outside \<Rightarrow> undo_args \<Rightarrow> string list \<Rightarrow> ('s, unit) move" where
  "undo_start x u steps =
     andalso (log x (''Starting source project '' @ ua_name u @ '' at '' @ ua_source_path u))
       (seq (o_call x (ComposeStart (h_id (ua_source u)) (ua_source_path u))) (\<lambda>started.
        andalso (log_output x started)
        (if call_ok started then ret () else raise (UndoError (error_or started ''source compose start failed'') steps))))"

definition undo_result :: "undo_args \<Rightarrow> json \<Rightarrow> json \<Rightarrow> json \<Rightarrow> json" where
  "undo_result u dns rb n = JObj [(''ok'', JBool True), (''project'', JStr (ua_name u)),
     (''dest_project'', JStr (ua_dest_name u)), (''dest_path'', JStr (ua_dest_path u)), (''source_path'', JStr (ua_source_path u)),
     (''dns'', if is_dict dns then dns else JObj [(''ok'', JBool True)]),
     (''rebind'', if is_dict rb then rb else JObj [(''ok'', JBool True)]),
     (''certs_reenabled'', JInt (case py_int (jor n (JInt 0)) of Some k \<Rightarrow> k | None \<Rightarrow> 0)), (''dest_removed'', JBool False)]"

definition undo_steps :: "'s outside \<Rightarrow> undo_args \<Rightarrow> string list \<Rightarrow> ('s, json) move" where
  "undo_steps x u done =
     seq (undo_stop x u (filter (\<lambda>s. s \<in> set UNDO_KEYS) done)) (\<lambda>s1.
     seq (undo_dns x u s1) (\<lambda>(dns, s2).
     seq (undo_rebind x u s2) (\<lambda>(rb, s3).
     seq (undo_certs x u s3) (\<lambda>(n, s4).
     andalso (undo_start x u s4)
     (andalso (log x ''Undo complete. Dest directory and volumes were left in place.'')
      (ret (undo_result u dns rb n)))))))"

definition run_undo_pipeline ::
    "'s outside \<Rightarrow> host \<Rightarrow> host \<Rightarrow> string \<Rightarrow> string \<Rightarrow> dict \<Rightarrow> string list \<Rightarrow> ('s, json) move" where
  "run_undo_pipeline x source dest project dest_project port_map done =
     seq (checked_project project) (\<lambda>nm.
     seq (checked_project (if dest_project \<noteq> [] then dest_project else project)) (\<lambda>dest_name.
     seq (jailed dest dest_name) (\<lambda>dest_path.
     seq (jailed source nm) (\<lambda>source_path.
     case invert_port_map port_map of
       Inl m \<Rightarrow> raise (OtherError m)
     | Inr back_ports \<Rightarrow> undo_steps x \<lparr>ua_source = source, ua_dest = dest, ua_name = nm, ua_dest_name = dest_name,
         ua_source_path = source_path, ua_dest_path = dest_path, ua_back_ports = back_ports\<rparr> done))))"

section \<open>Recovery of a death during dest up\<close>

definition recover_start :: "'s outside \<Rightarrow> host \<Rightarrow> string \<Rightarrow> string \<Rightarrow> string \<Rightarrow> string \<Rightarrow> ('s, json) move" where
  "recover_start x source nm source_path dest_name dest_path =
     andalso (log x (''Starting source project '' @ nm @ '' at '' @ source_path))
     (seq (o_call x (ComposeStart (h_id source) source_path)) (\<lambda>started.
      andalso (log_output x started)
      (if \<not> call_ok started then raise (RecoverError (error_or started ''source compose start failed''))
       else andalso (log x ''Dest is stopped and source is started. Dest directory and volumes stay.'')
         (ret (JObj [(''ok'', JBool True), (''project'', JStr nm), (''dest_project'', JStr dest_name),
            (''dest_path'', JStr dest_path), (''source_path'', JStr source_path), (''dns_changed'', JBool False),
            (''volumes_removed'', JBool False)])))))"

definition run_dest_up_recover :: "'s outside \<Rightarrow> host \<Rightarrow> host \<Rightarrow> string \<Rightarrow> string \<Rightarrow> ('s, json) move" where
  "run_dest_up_recover x source dest project dest_project =
     seq (checked_project project) (\<lambda>nm.
     seq (checked_project (if dest_project \<noteq> [] then dest_project else project)) (\<lambda>dest_name.
     seq (jailed dest dest_name) (\<lambda>dest_path.
     seq (jailed source nm) (\<lambda>source_path.
     andalso (log x (''Stopping dest project '' @ dest_name @ '' at '' @ dest_path @ '' (compose stop, not down -v)''))
     (andalso (log x ''DNS and NPM are not changed'')
     (seq (o_call x (ComposeStop (h_id dest) dest_path)) (\<lambda>stopped.
      if says_down stopped then raise (RecoverError ''refusing: dest down is not allowed'')
      else andalso (log_output x stopped)
      (if \<not> call_ok stopped then raise (RecoverError (error_or stopped ''dest compose stop failed''))
       else recover_start x source nm source_path dest_name dest_path))))))))"

end
