(* ===== verification/MoveRows.thy ===== *)
theory MoveRows
  imports ExecutorFacts MovePipeline MoveUndo
begin

text \<open>
  The job rows of a Move and of its ways back (\<open>app/services/jobs_migrate.py\<close>): how a row becomes the
  arguments of a pipeline, what the executor writes while it runs and when it ends, and which ways back
  a failed row offers (\<open>eligible_undo\<close> of \<open>undo.py\<close>, \<open>eligible_dest_up_recover\<close> of \<open>dest_up_recover.py\<close>).
  The state is the tables and the outside; the calls of a pipeline work on the outside only.
\<close>

section \<open>Tables and outside\<close>

type_synonym ('w, 'a) job_act = "(db \<times> 'w, exc, 'a) act"

definition on_tables :: "(db \<Rightarrow> db \<times> (exc + 'a)) \<Rightarrow> ('w, 'a) job_act" where
  "on_tables f s = (let (d', r) = f (fst s) in ((d', snd s), r))"

text \<open>What a Move needs from its surroundings: the calls, \<open>BACKUP_ROOT\<close>, \<open>migrate_surface_allowed()\<close>.\<close>

record 'w move_env =
  mv_call :: "move_op \<Rightarrow> ('w, move_exc, json) act"
  mv_backup_root :: string
  mv_surface_allowed :: bool

definition move_outside ::
    "'w move_env \<Rightarrow> (string \<Rightarrow> db \<Rightarrow> db) \<Rightarrow> (string \<Rightarrow> db \<Rightarrow> db) \<Rightarrow> (db \<times> 'w) outside" where
  "move_outside m log_line on_step =
     \<lparr>o_call = (\<lambda>call (d, w). let (w', r) = mv_call m call w in ((d, w'), r)),
      o_log = (\<lambda>msg (d, w). (log_line msg d, w)), o_step = (\<lambda>nm (d, w). (on_step nm d, w))\<rparr>"

definition staging_root :: "'w move_env \<Rightarrow> int \<Rightarrow> string" where
  "staging_root m i = mv_backup_root m @ ''/_migrate/'' @ int_str i"

definition host_of :: "server \<Rightarrow> host" where
  "host_of s = \<lparr>h_id = s_id s, h_name = s_name s, h_hostname = s_hostname s, h_ssh_username = s_ssh_username s,
     h_docker_base_dir = s_docker_base_dir s, h_os_type = s_os_type s\<rparr>"

text \<open>An exception of the job code inside the pipeline's \<open>try\<close> is seen by its text.\<close>

definition as_move :: "env \<Rightarrow> ('w, 'a) job_act \<Rightarrow> (db \<times> 'w, 'a) move" where
  "as_move e = wrapped (\<lambda>x. OtherError (exc_text e x))"

text \<open>A merge in a session of its own, whose exceptions are logged.\<close>

definition try_merge :: "int \<Rightarrow> dict \<Rightarrow> db \<Rightarrow> db" where
  "try_merge i kvs d = (case merge_if_present i kvs d of Inl x \<Rightarrow> d | Inr d' \<Rightarrow> d')"

definition details_of :: "db \<Rightarrow> int \<Rightarrow> dict" where
  "details_of d i = (case get_job d i of None \<Rightarrow> [] | Some j \<Rightarrow> load_dict (j_details j))"

text \<open>\<open>str(data.get(k) or "")\<close>.\<close>

definition str_of :: "dict \<Rightarrow> string \<Rightarrow> string" where
  "str_of data k = py_str (jor (dget0 data k) (JStr []))"

definition as_text :: "json \<Rightarrow> string option" where
  "as_text v = (case v of JStr s \<Rightarrow> Some s | JStamp t \<Rightarrow> Some (isoformat t) | _ \<Rightarrow> None)"

definition text_dict :: "(string \<times> string) list \<Rightarrow> dict" where
  "text_dict m = map (\<lambda>(k, v). (k, JStr v)) m"

section \<open>The arguments of a Move in its row\<close>

record move_options =
  mo_leftover :: string
  mo_devices_ack :: bool
  mo_adopt_fabric :: bool
  mo_dest_project :: json
  mo_port_map :: "(string \<times> string) list"
  mo_bind_map :: "(string \<times> string) list"
  mo_skip_binds :: "string list"

definition default_options :: "string \<Rightarrow> move_options" where
  "default_options project = \<lparr>mo_leftover = ''stopped'', mo_devices_ack = False, mo_adopt_fabric = False,
     mo_dest_project = JStr project, mo_port_map = [], mo_bind_map = [], mo_skip_binds = []\<rparr>"

text \<open>\<open>normalize_leftover(data.get("leftover"))\<close>, which raises on a value that is no text.\<close>

definition stored_leftover :: "json \<Rightarrow> string option" where
  "stored_leftover v = (if \<not> truthy v then Some (normalize_leftover None)
     else map_option (\<lambda>s. normalize_leftover (Some s)) (as_text v))"

text \<open>Any error keeps the defaults.\<close>

definition stored_options :: "string \<Rightarrow> column \<Rightarrow> move_options" where
  "stored_options project c = (case loads c of
     None \<Rightarrow> default_options project
   | Some v \<Rightarrow> (case jor v (JObj []) of
       JObj data \<Rightarrow> (case stored_leftover (dget0 data ''leftover'') of
           None \<Rightarrow> default_options project
         | Some left \<Rightarrow> \<lparr>mo_leftover = left, mo_devices_ack = truthy (dget0 data ''devices_ack''),
             mo_adopt_fabric = truthy (dget0 data ''adopt_fabric''),
             mo_dest_project = jor (dget0 data ''dest_project'') (JStr project),
             mo_port_map = text_pairs (dget0 data ''port_map''), mo_bind_map = text_pairs (dget0 data ''bind_map''),
             mo_skip_binds = (case dget0 data ''skip_binds'' of
                 JList xs \<Rightarrow> filter (\<lambda>s. strip s \<noteq> []) (map py_str xs) | _ \<Rightarrow> [])\<rparr>)
     | _ \<Rightarrow> default_options project))"

definition move_args_of ::
    "'w move_env \<Rightarrow> server \<Rightarrow> server \<Rightarrow> string \<Rightarrow> int \<Rightarrow> move_options \<Rightarrow> string \<Rightarrow> move_args" where
  "move_args_of m src dst project i opts dest_project = \<lparr>ma_source = host_of src, ma_dest = host_of dst,
     ma_project = project, ma_job_id = i, ma_stage = staging_root m i, ma_leftover = Some (mo_leftover opts),
     ma_devices_ack = mo_devices_ack opts, ma_adopt_fabric = mo_adopt_fabric opts,
     ma_dest_project = Some dest_project, ma_port_map = mo_port_map opts, ma_bind_map = mo_bind_map opts,
     ma_skip_binds = mo_skip_binds opts, ma_live_inspect = True\<rparr>"

section \<open>The Move\<close>

definition move_log :: "int \<Rightarrow> string \<Rightarrow> db \<Rightarrow> db" where
  "move_log i msg = flush_job_progress i ''migrating'' msg ''migrating'' []"

definition move_on_step :: "int \<Rightarrow> string \<Rightarrow> db \<Rightarrow> db" where
  "move_on_step i nm = flush_job_progress i nm (''Step: '' @ nm) nm [(''migrate_step'', JStr nm)]"

abbreviation of_move :: "'w move_env \<Rightarrow> int \<Rightarrow> (db \<times> 'w) outside" where
  "of_move m i \<equiv> move_outside m (move_log i) (move_on_step i)"

text \<open>A destination name in the row that is no text stops the preflight at its first use.\<close>

definition pipeline_with ::
    "'w move_env \<Rightarrow> server \<Rightarrow> server \<Rightarrow> string \<Rightarrow> int \<Rightarrow> move_options \<Rightarrow> (db \<times> 'w, json) move" where
  "pipeline_with m src dst project i opts = (case as_text (mo_dest_project opts) of
     Some dest_project \<Rightarrow> run_copy_and_start (of_move m i) (move_args_of m src dst project i opts dest_project)
   | None \<Rightarrow> andalso (step (of_move m i) ''preflight'') (seq (checked_project project) (\<lambda>_. raise attribute_error)))"

definition run_move ::
    "'w move_env \<Rightarrow> int \<Rightarrow> int \<Rightarrow> int \<Rightarrow> string \<Rightarrow> move_options \<Rightarrow> (db \<times> 'w, json) move" where
  "run_move m i sid did project opts s = (case (get_server (fst s) sid, get_server (fst s) did) of
     (Some src, Some dst) \<Rightarrow>
       (let x = of_move m i in
        andalso (log x (''Refreshing dest Docker inventory from the host'' @ dots))
        (andalso (catching (seq (o_call x (RefreshInventory (s_id dst))) (\<lambda>_. ret ())) (\<lambda>_. ret ()))
        (andalso (o_call x (ProbeFacts (s_id src)))
        (andalso (o_call x (ProbeFacts (s_id dst)))
        (andalso (o_call x HerderFree)
         (pipeline_with m src dst project i opts)))))) s
   | _ \<Rightarrow> raise (MigrateError ''Server not found'' None) s)"

definition move_success :: "env \<Rightarrow> 'w move_env \<Rightarrow> int \<Rightarrow> int \<Rightarrow> string \<Rightarrow> int \<Rightarrow> string \<Rightarrow> (db \<times> 'w, unit) move" where
  "move_success e m i did project aid hostname =
     andalso (o_call (of_move m i) (WipeStaging (staging_root m i)))
     (andalso (as_move e (on_tables (finish_run e aid i ''success''
         (Dumped (JObj [(''ok'', JBool True), (''project'', JStr project), (''dest_id'', JInt did)])) hostname
         ''service_migrate'')))
      (log (of_move m i) ''Done.''))"

definition recover_payload :: "int \<Rightarrow> string \<Rightarrow> string \<Rightarrow> json" where
  "recover_payload sid project path = JObj [(''server_id'', JInt sid), (''project'', JStr project),
     (''project_path'', JStr path)]"

text \<open>What the failure leaves in the row: the start of the source, the undo, or nothing.\<close>

definition keep_way_back ::
    "int \<Rightarrow> int \<Rightarrow> int \<Rightarrow> string \<Rightarrow> move_options \<Rightarrow> server option \<Rightarrow> string option \<Rightarrow> db \<Rightarrow> db" where
  "keep_way_back i sid did project opts source failed d =
     (case failed of
        None \<Rightarrow> d
      | Some st \<Rightarrow>
          if st \<in> set RECOVER_SOURCE_STEPS \<and> source \<noteq> None then
            (case jailed_source_project_path (host_of (the source)) project of
               Inl x \<Rightarrow> d
             | Inr path \<Rightarrow> try_merge i [(''failed_step'', JStr st), (''recover_source'', recover_payload sid project path)] d)
          else (case as_text (mo_dest_project opts) of
              None \<Rightarrow> d
            | Some dest_project \<Rightarrow>
                (case undo_move_details sid did project (Some dest_project) (text_dict (mo_port_map opts)) failed of
                   None \<Rightarrow> d
                 | Some payload \<Rightarrow> try_merge i [(''failed_step'', JStr st), (''undo_move'', JObj payload)] d)))"

definition move_failed ::
    "env \<Rightarrow> int \<Rightarrow> int \<Rightarrow> int \<Rightarrow> string \<Rightarrow> int \<Rightarrow> move_options \<Rightarrow> server option \<Rightarrow> string \<Rightarrow> move_exc \<Rightarrow> ('w, unit) job_act" where
  "move_failed e i sid did project aid opts source hostname ex = on_tables (\<lambda>d.
     finish_run e aid i ''failed'' (Plain (take 800 (move_text ex))) hostname ''service_migrate''
       (keep_way_back i sid did project opts source (failed_step ex) d))"

definition execute_service_migrate ::
    "env \<Rightarrow> 'w move_env \<Rightarrow> int \<Rightarrow> int \<Rightarrow> int \<Rightarrow> string \<Rightarrow> int \<Rightarrow> ('w, unit) job_act" where
  "execute_service_migrate e m i sid did project aid s =
     (let d = fst s; source = get_server d sid; dest = get_server d did; hostname = host_label d sid;
          opts = (case get_job d i of None \<Rightarrow> default_options project | Some j \<Rightarrow> stored_options project (j_details j)) in
      andalso (on_tables (begin_run e i (run_fields ''migrating'' (''Migrating '' @ project @ dots))))
      (if source = None \<or> dest = None
       then on_tables (finish_run e aid i ''failed'' (Plain ''Server not found'') hostname ''service_migrate'')
       else catching (andalso (run_move m i sid did project opts) (move_success e m i did project aid hostname))
         (move_failed e i sid did project aid opts source hostname)) s)"

end
