(* ===== verification/MoveBack.thy ===== *)
theory MoveBack
  imports MoveRows
begin

text \<open>
  The ways back of a failed Move as jobs (\<open>app/services/jobs_migrate.py\<close>): which of them its row offers,
  the executors of undo and recovery with what they write to the row of the Move, and the end of a Move
  whose worker died.
\<close>

section \<open>What a failed row offers\<close>

text \<open>\<open>int(raw.get(...) or 0) <= 0 or ...\<close> and the project, in this order.\<close>

definition usable_payload :: "dict \<Rightarrow> exc + dict option" where
  "usable_payload raw =
     rbind (payload_int raw ''source_id'') (\<lambda>a. if a \<le> 0 then Inr None
       else rbind (payload_int raw ''dest_id'') (\<lambda>b.
         Inr (if b \<le> 0 \<or> \<not> truthy (dget0 raw ''project'') then None else Some raw)))"

text \<open>Rows of older versions have no payload; it is made from the arguments of the Move.\<close>

definition old_payload :: "job \<Rightarrow> dict \<Rightarrow> string \<Rightarrow> exc + dict option" where
  "old_payload j data st =
     rbind (py_int_exc (jor (jor (dget0 data ''source_id'') (jopt JInt (j_server_id j))) (JInt 0))) (\<lambda>sid.
     rbind (payload_int data ''dest_server_id'') (\<lambda>did.
       let dest = dget0 data ''dest_project'' in
       Inr (if truthy dest \<and> as_text dest = None then None
            else undo_move_details sid did (str_of data ''project'') (as_text dest) (dict_of (dget0 data ''port_map'')) (Some st))))"

definition eligible_undo :: "job option \<Rightarrow> exc + dict option" where
  "eligible_undo jo = (case jo of
     None \<Rightarrow> Inr None
   | Some j \<Rightarrow>
       (let data = load_dict (j_details j); st = str_of data ''failed_step'' in
        if j_job_type j \<noteq> ''service_migrate'' \<or> j_status j \<noteq> ''failed'' \<or> st \<notin> set UNDO_STEPS then Inr None
        else rbind (case dget0 data ''undo_move'' of JObj raw \<Rightarrow> Inr (Some raw) | _ \<Rightarrow> old_payload j data st) (\<lambda>p.
          case p of None \<Rightarrow> Inr None | Some raw \<Rightarrow> if raw = [] then Inr None else usable_payload raw)))"

definition eligible_dest_up_recover :: "job option \<Rightarrow> exc + dict option" where
  "eligible_dest_up_recover jo = (case jo of
     None \<Rightarrow> Inr None
   | Some j \<Rightarrow>
       (let data = load_dict (j_details j) in
        if j_job_type j \<noteq> ''service_migrate'' \<or> j_status j \<noteq> ''failed'' \<or> truthy (dget0 data ''dest_up_recovered'')
           \<or> truthy (dget0 data ''recover_source'') \<or> truthy (dget0 data ''undo_move'')
           \<or> str_of data ''failed_step'' \<noteq> ''worker_restart'' \<or> str_of data ''migrate_step'' \<noteq> ''dest_up''
        then Inr None
        else (case dget0 data ''dest_up_recover'' of JObj raw \<Rightarrow> usable_payload raw | _ \<Rightarrow> Inr None)))"

text \<open>A child row of the type that succeeded or is still on its way.\<close>

fun has_child :: "int \<Rightarrow> job list \<Rightarrow> exc + bool" where
  "has_child parent [] = Inr False"
| "has_child parent (j # js) = (case loads (j_details j) of
     None \<Rightarrow> has_child parent js
   | Some v \<Rightarrow> (case jor v (JObj []) of
       JObj data \<Rightarrow> rbind (payload_int data ''parent_job_id'') (\<lambda>p. if p = parent then Inr True else has_child parent js)
     | _ \<Rightarrow> Inl AttributeError))"

definition parent_has_child :: "db \<Rightarrow> int \<Rightarrow> string \<Rightarrow> exc + bool" where
  "parent_has_child d parent jt =
     has_child parent (filter (\<lambda>j. j_job_type j = jt \<and> (active j \<or> j_status j = ''success'')) (db_jobs d))"

section \<open>Undo\<close>

text \<open>The steps earlier attempts committed, in the row of the Move.\<close>

definition committed_steps :: "db \<Rightarrow> int \<Rightarrow> move_exc + string list" where
  "committed_steps d parent = (case get_job d parent of
     None \<Rightarrow> Inr []
   | Some j \<Rightarrow> (case loads (j_details j) of
       None \<Rightarrow> Inr []
     | Some v \<Rightarrow> (case jor v (JObj []) of
         JObj data \<Rightarrow> Inr (case dget0 data ''undo_steps'' of JList xs \<Rightarrow> map py_str xs | _ \<Rightarrow> [])
       | _ \<Rightarrow> Inl attribute_error)))"

definition from_sum :: "'e + 'a \<Rightarrow> ('s, 'e, 'a) act" where
  "from_sum r s = (s, r)"

definition undo_log :: "int \<Rightarrow> string \<Rightarrow> db \<Rightarrow> db" where
  "undo_log i msg = flush_job_progress i ''undo'' msg ''undo'' []"

abbreviation of_undo :: "'w move_env \<Rightarrow> int \<Rightarrow> (db \<times> 'w) outside" where
  "of_undo m i \<equiv> move_outside m (undo_log i) (\<lambda>_ d. d)"

text \<open>The row of a Move, when the job names one.\<close>

definition on_parent :: "int \<Rightarrow> dict \<Rightarrow> db \<Rightarrow> db \<times> (exc + unit)" where
  "on_parent parent kvs d = (if parent = 0 then (d, Inr ()) else commit d (merge_if_present parent kvs d))"

definition gone :: string where
  "gone = ''source or destination host is gone''"

definition undo_body ::
    "env \<Rightarrow> 'w move_env \<Rightarrow> int \<Rightarrow> int \<Rightarrow> int \<Rightarrow> dict \<Rightarrow> int \<Rightarrow> (db \<times> 'w, unit) move" where
  "undo_body e m i sid did data parent s = (case (get_server (fst s) sid, get_server (fst s) did) of
     (Some src, Some dst) \<Rightarrow>
       (let project = str_of data ''project''; dest = str_of data ''dest_project'';
            committed = (if parent = 0 then Inr [] else committed_steps (fst s) parent) in
        seq (from_sum committed) (\<lambda>steps.
        andalso (run_undo_pipeline (of_undo m i) (host_of src) (host_of dst) project
          (if truthy (dget0 data ''dest_project'') then dest else project) (dict_of (dget0 data ''port_map'')) steps)
         (as_move e (on_tables (on_parent parent [(''undo_completed'', JBool True), (''undo_job_id'', JInt i)])))) s)
   | _ \<Rightarrow> raise (UndoError gone []) s)"

definition done_json :: "dict \<Rightarrow> int \<Rightarrow> snippet" where
  "done_json data parent = Dumped (JObj [(''ok'', JBool True), (''project'', JStr (str_of data ''project'')),
     (''parent_job_id'', JInt parent)])"

definition undo_failed :: "env \<Rightarrow> int \<Rightarrow> int \<Rightarrow> int \<Rightarrow> string \<Rightarrow> move_exc \<Rightarrow> ('w, unit) job_act" where
  "undo_failed e i parent aid hostname ex =
     andalso (on_tables (case ex of
         UndoError msg steps \<Rightarrow> on_parent parent [(''undo_steps'', JList (map JStr steps))]
       | _ \<Rightarrow> (\<lambda>d. (d, Inr ()))))
     (on_tables (finish_run e aid i ''failed'' (Plain (take 800 (move_text ex))) hostname ''service_migrate_undo''))"

definition execute_service_migrate_undo ::
    "env \<Rightarrow> 'w move_env \<Rightarrow> int \<Rightarrow> int \<Rightarrow> int \<Rightarrow> int \<Rightarrow> ('w, unit) job_act" where
  "execute_service_migrate_undo e m i sid did aid s0 =
     (let hostname = host_label (fst s0) sid in
      andalso (on_tables (begin_run e i (run_fields ''undo'' (''Undoing Move'' @ dots)))) (\<lambda>s.
       let data = details_of (fst s) i in
       seq (from_sum (payload_int data ''parent_job_id'')) (\<lambda>parent.
       catching (andalso (undo_body e m i sid did data parent)
           (andalso (as_move e (on_tables (finish_run e aid i ''success'' (done_json data parent) hostname ''service_migrate_undo'')))
             (log (of_undo m i) ''Done.'')))
         (undo_failed e i parent aid hostname)) s) s0)"

section \<open>Recovery of a death during dest up\<close>

definition recover_log :: "int \<Rightarrow> string \<Rightarrow> db \<Rightarrow> db" where
  "recover_log i msg = flush_job_progress i ''dest_up_recover'' msg ''dest_up_recover'' []"

abbreviation of_recover :: "'w move_env \<Rightarrow> int \<Rightarrow> (db \<times> 'w) outside" where
  "of_recover m i \<equiv> move_outside m (recover_log i) (\<lambda>_ d. d)"

definition recover_body ::
    "env \<Rightarrow> 'w move_env \<Rightarrow> int \<Rightarrow> int \<Rightarrow> int \<Rightarrow> dict \<Rightarrow> int \<Rightarrow> (db \<times> 'w, unit) move" where
  "recover_body e m i sid did data parent s = (case (get_server (fst s) sid, get_server (fst s) did) of
     (Some src, Some dst) \<Rightarrow>
       (let project = str_of data ''project''; dest = str_of data ''dest_project'' in
        andalso (run_dest_up_recover (of_recover m i) (host_of src) (host_of dst) project
          (if truthy (dget0 data ''dest_project'') then dest else project))
         (as_move e (on_tables (on_parent parent [(''dest_up_recovered'', JBool True), (''dest_up_recover_job_id'', JInt i)])))) s
   | _ \<Rightarrow> raise (RecoverError gone) s)"

definition execute_dest_up_recover ::
    "env \<Rightarrow> 'w move_env \<Rightarrow> int \<Rightarrow> int \<Rightarrow> int \<Rightarrow> int \<Rightarrow> ('w, unit) job_act" where
  "execute_dest_up_recover e m i sid did aid s0 =
     (let hostname = host_label (fst s0) sid in
      andalso (on_tables (begin_run e i (run_fields ''dest_up_recover''
          ''Stopping dest, then starting source. DNS and NPM stay.''))) (\<lambda>s.
       let data = details_of (fst s) i in
       seq (from_sum (payload_int data ''parent_job_id'')) (\<lambda>parent.
       catching (andalso (recover_body e m i sid did data parent)
           (andalso (as_move e (on_tables (finish_run e aid i ''success'' (done_json data parent) hostname DEST_RECOVER_JOB_TYPE)))
             (log (of_recover m i) ''Done.'')))
         (\<lambda>ex. on_tables (finish_run e aid i ''failed'' (Plain (take 800 (move_text ex))) hostname DEST_RECOVER_JOB_TYPE))) s) s0)"

section \<open>A worker that died\<close>

definition restart_line :: string where
  "restart_line = ''Worker restarted'' @ emdash @ ''Move is no longer running. Staging kept.''"

definition restart_message :: string where
  "restart_message = ''Worker restarted'' @ emdash @ ''Move was no longer running. Staging kept.''"

definition restart_dest_message :: string where
  "restart_dest_message = ''Worker restarted during dest up. Dest may already be running. Inspect it before starting source. Names were not changed.''"

definition plain_restart :: "int \<Rightarrow> db \<Rightarrow> db" where
  "plain_restart i = try_merge i [(''failed_step'', JStr ''worker_restart''), (''log_line'', JStr restart_line)]"

text \<open>The row before its end, and the message of the end, by the step the Move was in.\<close>

definition note_restart :: "int \<Rightarrow> job \<Rightarrow> db \<Rightarrow> exc + db \<times> string" where
  "note_restart i j d =
     (let data = load_dict (j_details j); project = str_of data ''project'';
          st = (if truthy (dget0 data ''migrate_step'') then str_of data ''migrate_step'' else str_of data ''failed_step'') in
      case (if nonzero (j_server_id j) then get_server d (the (j_server_id j)) else None) of
        Some src \<Rightarrow>
          if project \<noteq> [] \<and> st \<in> set WORKER_RESTART_RECOVER_STEPS then
            Inr (case jailed_source_project_path (host_of src) project of
                Inl x \<Rightarrow> d
              | Inr path \<Rightarrow> try_merge i [(''failed_step'', JStr ''worker_restart''),
                  (''recover_source'', recover_payload (s_id src) project path), (''log_line'', JStr restart_line)] d, restart_message)
          else if st = ''dest_up'' \<and> project \<noteq> [] then
            rbind (payload_int data ''dest_server_id'') (\<lambda>did.
              case (if did \<noteq> 0 then get_server d did else None) of
                None \<Rightarrow> Inr (plain_restart i d, restart_message)
              | Some dst \<Rightarrow>
                  (case dest_up_recover_details (s_id src) (s_id dst) project
                          (Some (if truthy (dget0 data ''dest_project'') then str_of data ''dest_project'' else project)) of
                     None \<Rightarrow> Inr (plain_restart i d, restart_message)
                   | Some payload \<Rightarrow> Inr (try_merge i [(''failed_step'', JStr ''worker_restart''), (''migrate_step'', JStr ''dest_up''),
                       (''dest_up_recover'', JObj payload), (''log_line'', JStr restart_dest_message)] d, restart_dest_message)))
          else Inr (plain_restart i d, restart_message)
      | None \<Rightarrow> Inr (plain_restart i d, restart_message))"

definition fail_migrate_worker_restart :: "env \<Rightarrow> int \<Rightarrow> int \<Rightarrow> db \<Rightarrow> db \<times> (exc + unit)" where
  "fail_migrate_worker_restart e i aid d = (case get_job d i of
     None \<Rightarrow> (d, Inr ())
   | Some j \<Rightarrow> if terminal_status (j_status j) then (d, Inr ())
       else let hostname = (if nonzero (j_server_id j) then host_name d (the (j_server_id j)) else []) in
         case note_restart i j d of
           Inl x \<Rightarrow> (d, Inl x)
         | Inr (d1, msg) \<Rightarrow> finish_run e aid i ''failed'' (Plain msg) hostname ''service_migrate'' d1)"

end
