(* ===== verification/MoveQueue.thy ===== *)
theory MoveQueue
  imports MoveBack
begin

text \<open>
  How a Move, an undo and a recovery enter the queue (\<open>enqueue_service_migrate\<close>,
  \<open>enqueue_service_migrate_undo\<close>, \<open>enqueue_service_migrate_dest_recover\<close> in
  \<open>app/services/jobs_migrate.py\<close>): both hosts must be free, then one row with its audit row, then Celery.
\<close>

section \<open>Both hosts\<close>

text \<open>What keeps a host: a stack job, a Move towards it, a backup.\<close>

definition host_blocker :: "db \<Rightarrow> int \<Rightarrow> job option" where
  "host_blocker d sid = (case active_stack_mutating_job d sid of
     Some j \<Rightarrow> Some j
   | None \<Rightarrow> (case active_migrate_as_dest d sid of
       Some j \<Rightarrow> Some j
     | None \<Rightarrow> first_row (get_active_backup_jobs d sid)))"

definition move_blocker :: "db \<Rightarrow> int \<Rightarrow> int \<Rightarrow> job option" where
  "move_blocker d sid did = (case host_blocker d sid of Some j \<Rightarrow> Some j | None \<Rightarrow> host_blocker d did)"

section \<open>Hand-off\<close>

definition fail_move :: "env \<Rightarrow> int \<Rightarrow> string \<Rightarrow> db \<Rightarrow> db \<times> (exc + 'a)" where
  "fail_move e i msg d =
     andthen (commit d (if get_job d i = None then Inr d else mark_job_terminal e i msg ''failed'' True d))
       (\<lambda>d1 _. (d1, Inl (RuntimeError msg)))"

definition handoff_move :: "env \<Rightarrow> int \<Rightarrow> string \<Rightarrow> string \<Rightarrow> string \<Rightarrow> db \<Rightarrow> db \<times> (exc + int option)" where
  "handoff_move e i jt no_worker label d =
     andthen (if e_inline e then (emit (RanInProcess jt i JNull) d, Inr ())
       else if \<not> e_has_celery e then fail_move e i no_worker d
       else case e_publish e of
         Inl err \<Rightarrow> fail_move e i (''Failed to enqueue '' @ label @ '' to Celery: '' @ err) d
       | Inr tid \<Rightarrow> (upd_job i (set_task_id tid) (emit (Published jt i JNull) d), Inr ()))
     (\<lambda>d1 _. (d1, Inr (map_option j_id (get_job d1 i))))"

section \<open>The Move\<close>

record move_request =
  mr_source :: int
  mr_dest :: int
  mr_project :: string
  mr_origin :: origin
  mr_client_ip :: "string option"
  mr_leftover :: string
  mr_devices_ack :: bool
  mr_adopt_fabric :: bool
  mr_dest_project :: "string option"
  mr_port_map :: dict
  mr_bind_map :: dict
  mr_skip_binds :: "json list"

text \<open>The names and ports of a request, or the \<open>ValueError\<close>.\<close>

definition checked_request :: "move_request \<Rightarrow> exc + string \<times> string \<times> (string \<times> string) list" where
  "checked_request rq = (case compose_project_name (Some (mr_project rq)) of
     Inl m \<Rightarrow> Inl (ValueError m)
   | Inr nm \<Rightarrow> (case normalize_dest_project nm (mr_dest_project rq) of
       (dest_name, Some err) \<Rightarrow> Inl (ValueError err)
     | (dest_name, None) \<Rightarrow> (case validate_port_map (mr_port_map rq) of
         Inl m \<Rightarrow> Inl (ValueError m)
       | Inr (clean, errs) \<Rightarrow> if errs \<noteq> [] then Inl (ValueError (join ''; '' (take 4 errs)))
           else if mr_source rq = mr_dest rq then Inl (ValueError ''destination must differ from source'')
           else Inr (nm, dest_name, clean))))"

definition move_extra :: "move_request \<Rightarrow> server \<Rightarrow> string \<Rightarrow> string \<Rightarrow> (string \<times> string) list \<Rightarrow> dict" where
  "move_extra rq dest nm dest_name clean =
     [(''dest_server_id'', JInt (s_id dest)), (''dest_name'', JStr (s_name dest)), (''project'', JStr nm),
      (''dest_project'', JStr dest_name), (''port_map'', JObj (text_dict clean)), (''bind_map'', JObj (mr_bind_map rq)),
      (''skip_binds'', JList (mr_skip_binds rq)), (''leftover'', JStr (normalize_leftover (Some (mr_leftover rq)))),
      (''devices_ack'', JBool (mr_devices_ack rq)), (''adopt_fabric'', JBool (mr_adopt_fabric rq)),
      (''client_ip'', jopt JStr (mr_client_ip rq))]"

definition enqueue_service_migrate :: "env \<Rightarrow> move_request \<Rightarrow> db \<Rightarrow> db \<times> (exc + int option)" where
  "enqueue_service_migrate e rq d = (case checked_request rq of
     Inl x \<Rightarrow> (d, Inl x)
   | Inr (nm, dest_name, clean) \<Rightarrow> (case (get_server d (mr_source rq), get_server d (mr_dest rq)) of
       (Some source, Some dest) \<Rightarrow> unless_blocked (Inr (move_blocker d (mr_source rq) (mr_dest rq))) d
         (andthen (create_queued_job_with_audit e (Some (s_id source)) ''service_migrate''
             (''Migrate '' @ nm @ '' queued'' @ arrow @ s_name dest @ dots) (mr_origin rq)
             (Some (''Job #{job_id}'' @ middot @ ''migrate '' @ nm @ arrow @ s_name dest))
             (move_extra rq dest nm dest_name clean) d)
           (\<lambda>d1 (i, aid). handoff_move e i ''service_migrate''
              (''Celery worker required for Move'' @ emdash @ ''start celery-worker container'') ''Move'' d1))
     | _ \<Rightarrow> (d, Inl (ValueError ''server not found''))))"

section \<open>The ways back\<close>

text \<open>The common tail of undo and recovery: free hosts, the row of the way back, the hand-off.\<close>

definition enqueue_back ::
    "env \<Rightarrow> string \<Rightarrow> int option \<Rightarrow> dict \<Rightarrow> (string \<Rightarrow> server \<Rightarrow> string \<times> string) \<Rightarrow> (string \<Rightarrow> server \<Rightarrow> dict)
     \<Rightarrow> string \<Rightarrow> string \<Rightarrow> db \<Rightarrow> db \<times> (exc + int option)" where
  "enqueue_back e jt uid payload texts extra no_worker label d =
     lift_exc (rbind (py_int_exc (dget0 payload ''source_id'')) (\<lambda>sid.
         rbind (py_int_exc (dget0 payload ''dest_id'')) (\<lambda>did. Inr (sid, did))))
       (\<lambda>d (sid, did).
         let project = py_str (dget0 payload ''project'') in
         unless_blocked (Inr (move_blocker d sid did)) d
           (case (get_server d sid, get_server d did) of
              (Some source, Some dest) \<Rightarrow>
                andthen (create_queued_job_with_audit e (Some (s_id source)) jt (fst (texts project source))
                    \<lparr>o_user_id = uid, o_api_token_id = None, o_api_token_name = None\<rparr> (Some (snd (texts project source)))
                    (extra project dest) d)
                  (\<lambda>d1 (i, aid). handoff_move e i jt no_worker label d1)
            | _ \<Rightarrow> (d, Inl (ValueError gone)))) d"

definition back_extra :: "int \<Rightarrow> dict \<Rightarrow> string \<Rightarrow> server \<Rightarrow> dict" where
  "back_extra parent payload project dest =
     [(''parent_job_id'', JInt parent), (''dest_server_id'', JInt (s_id dest)), (''dest_name'', JStr (s_name dest)),
      (''project'', JStr project), (''dest_project'', jor (dget0 payload ''dest_project'') (JStr project))]"

text \<open>The guard on the row of the Move, then the tail with its payload.\<close>

definition from_parent ::
    "'w move_env \<Rightarrow> int \<Rightarrow> string \<Rightarrow> (job option \<Rightarrow> exc + dict option) \<Rightarrow> string \<Rightarrow> string
     \<Rightarrow> (dict \<Rightarrow> db \<Rightarrow> db \<times> (exc + int option)) \<Rightarrow> db \<Rightarrow> db \<times> (exc + int option)" where
  "from_parent m parent jt eligible refused again go d =
     (if \<not> mv_surface_allowed m then (d, Inl (ValueError ''Service migration is off''))
      else lift_exc (eligible (get_job d parent)) (\<lambda>d p. case p of
          None \<Rightarrow> (d, Inl (ValueError refused))
        | Some payload \<Rightarrow> lift_exc (parent_has_child d parent jt) (\<lambda>d has.
            if has then (d, Inl (ValueError again)) else go payload d) d) d)"

definition enqueue_service_migrate_undo ::
    "env \<Rightarrow> 'w move_env \<Rightarrow> int \<Rightarrow> int option \<Rightarrow> db \<Rightarrow> db \<times> (exc + int option)" where
  "enqueue_service_migrate_undo e m parent uid =
     from_parent m parent ''service_migrate_undo'' eligible_undo
       ''Undo is only for a failed Move after names flipped'' ''This Move was already undone or an undo is still running''
       (\<lambda>payload. enqueue_back e ''service_migrate_undo'' uid payload
          (\<lambda>project source. (''Undo '' @ project @ '' queued'' @ arrow @ ''back to '' @ s_name source @ dots,
             ''Job #{job_id}'' @ middot @ ''undo '' @ project @ '' back to '' @ s_name source))
          (\<lambda>project dest. back_extra parent payload project dest
             @ [(''port_map'', jor (dget0 payload ''port_map'') (JObj [])), (''failed_step'', dget0 payload ''failed_step'')])
          (''Celery worker required for Undo'' @ emdash @ ''start celery-worker container'') ''Undo'')"

definition enqueue_service_migrate_dest_recover ::
    "env \<Rightarrow> 'w move_env \<Rightarrow> int \<Rightarrow> int option \<Rightarrow> db \<Rightarrow> db \<times> (exc + int option)" where
  "enqueue_service_migrate_dest_recover e m parent uid =
     from_parent m parent DEST_RECOVER_JOB_TYPE eligible_dest_up_recover
       ''This helper is only for a Move that died while starting the destination''
       ''Dest was already recovered or that job is still running''
       (\<lambda>payload. enqueue_back e DEST_RECOVER_JOB_TYPE uid payload
          (\<lambda>project source. (''Stop dest and start source for '' @ project @ dots,
             ''Job #{job_id}'' @ middot @ ''dest-up recover '' @ project @ '' back to '' @ s_name source))
          (back_extra parent payload)
          (''Celery worker required'' @ emdash @ ''start celery-worker container'') ''dest-up recover'')"

end
