(* ===== verification/ServerLock.thy ===== *)
theory ServerLock
  imports PyText
begin

text \<open>
  \<open>src/app/services/server_job_lock.py\<close>: the mutex per server that Celery workers share. A
  lock is a Redis key with an expiry that holds a token of its owner; when Redis cannot be used
  the process falls back to a dictionary of its own.

  Redis is not part of the repository. It is a parameter \<open>call\<close> that answers one command at a
  time; what the code relies on is the predicate \<open>redis_ok\<close>, the documented behaviour of GET,
  SET with NX and EX, DEL and EXPIRE. Whether a command reaches the server, and whether its
  reply comes back, is part of the \<open>moment\<close> a function is called at, as are the clock and the
  random part of the token. Time is counted in microseconds.
\<close>

section \<open>Redis commands and scripts\<close>

datatype command = Get string | Set_nx_ex string string int | Del string | Expire string int

datatype reply = Nil_reply | Ok_reply | Bulk string | Count int

type_synonym 'r redis = "command \<Rightarrow> int \<Rightarrow> 'r \<Rightarrow> reply \<times> 'r"

definition second :: int where
  "second = 1000000"

text \<open>The two Lua scripts. The server runs a script in one step.\<close>

definition RELEASE_LUA :: "'r redis \<Rightarrow> string \<Rightarrow> string \<Rightarrow> int \<Rightarrow> 'r \<Rightarrow> reply \<times> 'r" where
  "RELEASE_LUA call key token now r =
     (let (v, r1) = call (Get key) now r
      in if v = Bulk token then call (Del key) now r1 else (Count 0, r1))"

definition REFRESH_LUA :: "'r redis \<Rightarrow> string \<Rightarrow> string \<Rightarrow> int \<Rightarrow> int \<Rightarrow> 'r \<Rightarrow> reply \<times> 'r" where
  "REFRESH_LUA call key token ttl now r =
     (let (v, r1) = call (Get key) now r
      in if v = Bulk token then call (Expire key ttl) now r1 else (Count 0, r1))"

text \<open>The truth value of a reply in the client: OK and a non-zero count.\<close>

definition reply_true :: "reply \<Rightarrow> bool" where
  "reply_true v = (case v of Ok_reply \<Rightarrow> True | Count n \<Rightarrow> n \<noteq> 0 | Bulk s \<Rightarrow> s \<noteq> [] | Nil_reply \<Rightarrow> False)"

section \<open>A process\<close>

text \<open>The module state of one process, and what one call of a lock function reads from outside.\<close>

record proc =
  p_client :: bool
  p_redis_failed :: bool
  p_local :: "string \<Rightarrow> (string \<times> int) option"

definition fresh_proc :: proc where
  "fresh_proc = \<lparr>p_client = False, p_redis_failed = False, p_local = (\<lambda>k. None)\<rparr>"

datatype reach = Answers | Refused | Reply_lost

record moment =
  m_now :: int
  m_hex :: string
  m_ping :: bool
  m_reach :: reach

text \<open>A request: \<open>None\<close> is an exception of the client, raised before or after the server acted.\<close>

definition ask :: "reach \<Rightarrow> ('r \<Rightarrow> reply \<times> 'r) \<Rightarrow> 'r \<Rightarrow> reply option \<times> 'r" where
  "ask h f r = (case h of Answers \<Rightarrow> (Some (fst (f r)), snd (f r)) | Refused \<Rightarrow> (None, r)
     | Reply_lost \<Rightarrow> (None, snd (f r)))"

definition get_redis :: "moment \<Rightarrow> proc \<Rightarrow> bool \<times> proc" where
  "get_redis m p =
     (if p_redis_failed p then (False, p)
      else if p_client p then (True, p)
      else if m_ping m then (True, p\<lparr>p_client := True\<rparr>)
      else (False, p\<lparr>p_redis_failed := True\<rparr>))"

section \<open>The local fallback\<close>

type_synonym local_locks = "string \<Rightarrow> (string \<times> int) option"

definition local_acquire :: "string \<Rightarrow> string \<Rightarrow> int \<Rightarrow> int \<Rightarrow> local_locks \<Rightarrow> bool \<times> local_locks" where
  "local_acquire key token ttl_sec now loc =
     (let taken = (True, loc(key \<mapsto> (token, now + ttl_sec * second)))
      in case loc key of None \<Rightarrow> taken
         | Some (held_token, exp) \<Rightarrow>
             if now < exp \<and> held_token \<noteq> token then (False, loc) else taken)"

definition local_release :: "string \<Rightarrow> string \<Rightarrow> int \<Rightarrow> local_locks \<Rightarrow> bool \<times> local_locks" where
  "local_release key token now loc =
     (case loc key of None \<Rightarrow> (False, loc)
      | Some (held_token, _) \<Rightarrow> if held_token \<noteq> token then (False, loc) else (True, loc(key := None)))"

definition local_refresh :: "string \<Rightarrow> string \<Rightarrow> int \<Rightarrow> int \<Rightarrow> local_locks \<Rightarrow> bool \<times> local_locks" where
  "local_refresh key token ttl_sec now loc =
     (case loc key of None \<Rightarrow> (False, loc)
      | Some (held_token, _) \<Rightarrow>
          if held_token \<noteq> token then (False, loc)
          else (True, loc(key \<mapsto> (token, now + ttl_sec * second))))"

definition local_holder :: "string \<Rightarrow> int \<Rightarrow> local_locks \<Rightarrow> string option \<times> local_locks" where
  "local_holder key now loc =
     (case loc key of None \<Rightarrow> (None, loc)
      | Some (token, exp) \<Rightarrow> if exp \<le> now then (None, loc(key := None)) else (Some token, loc))"

section \<open>The lock functions\<close>

datatype lock_kind = Backup_lock | Patch_lock

definition kind_name :: "lock_kind \<Rightarrow> string" where
  "kind_name k = (case k of Backup_lock \<Rightarrow> ''backup'' | Patch_lock \<Rightarrow> ''patch'')"

definition lock_key :: "lock_kind \<Rightarrow> int \<Rightarrow> string" where
  "lock_key kind sid = ''piherder:server_lock:'' @ kind_name kind @ '':'' @ int_str sid"

text \<open>\<open>max(30, int(ttl_sec or the default))\<close>; the default is read from the environment.\<close>

definition lock_ttl :: "int \<Rightarrow> int option \<Rightarrow> int" where
  "lock_ttl DEFAULT_TTL_SEC ttl_sec = max 30 (case ttl_sec of None \<Rightarrow> DEFAULT_TTL_SEC | Some t \<Rightarrow> t)"

definition lock_token :: "string \<Rightarrow> moment \<Rightarrow> string" where
  "lock_token holder m = holder @ '':'' @ take 12 (m_hex m)"

definition acquire_locally ::
    "string \<Rightarrow> string \<Rightarrow> int \<Rightarrow> moment \<Rightarrow> proc \<Rightarrow> string option \<times> proc" where
  "acquire_locally key token ttl m p =
     (let (ok, loc) = local_acquire key token ttl (m_now m) (p_local p)
      in (if ok then Some token else None, p\<lparr>p_local := loc\<rparr>))"

definition try_acquire_server_lock ::
    "'r redis \<Rightarrow> int \<Rightarrow> moment \<Rightarrow> lock_kind \<Rightarrow> int option \<Rightarrow> string \<Rightarrow> int option \<Rightarrow> proc \<times> 'r
      \<Rightarrow> string option \<times> proc \<times> 'r" where
  "try_acquire_server_lock call dflt m kind server_id holder ttl_sec pr =
     (case server_id of None \<Rightarrow> (None, pr)
      | Some sid \<Rightarrow>
          (let ttl = lock_ttl dflt ttl_sec; key = lock_key kind sid; token = lock_token holder m;
               (usable, p) = get_redis m (fst pr)
           in if usable then
                (case ask (m_reach m) (call (Set_nx_ex key token ttl) (m_now m)) (snd pr) of
                   (Some v, r) \<Rightarrow> (if reply_true v then Some token else None, p, r)
                 | (None, r) \<Rightarrow> (let (t, p') = acquire_locally key token ttl m p in (t, p', r)))
              else (let (t, p') = acquire_locally key token ttl m p in (t, p', snd pr))))"

definition no_token :: "string option \<Rightarrow> bool" where
  "no_token t = (t = None \<or> t = Some [])"

definition release_server_lock ::
    "'r redis \<Rightarrow> moment \<Rightarrow> lock_kind \<Rightarrow> int option \<Rightarrow> string option \<Rightarrow> proc \<times> 'r
      \<Rightarrow> bool \<times> proc \<times> 'r" where
  "release_server_lock call m kind server_id token pr =
     (if no_token token \<or> server_id = None then (False, pr)
      else (let key = lock_key kind (the server_id); tok = the token;
                (usable, p) = get_redis m (fst pr);
                here = (\<lambda>r. let (ok, loc) = local_release key tok (m_now m) (p_local p)
                            in (ok, p\<lparr>p_local := loc\<rparr>, r))
            in if usable then
                 (case ask (m_reach m) (RELEASE_LUA call key tok (m_now m)) (snd pr) of
                    (Some n, r) \<Rightarrow> (reply_true n, p, r)
                  | (None, r) \<Rightarrow> here r)
               else here (snd pr)))"

definition refresh_server_lock ::
    "'r redis \<Rightarrow> int \<Rightarrow> moment \<Rightarrow> lock_kind \<Rightarrow> int option \<Rightarrow> string option \<Rightarrow> int option \<Rightarrow> proc \<times> 'r
      \<Rightarrow> bool \<times> proc \<times> 'r" where
  "refresh_server_lock call dflt m kind server_id token ttl_sec pr =
     (if no_token token \<or> server_id = None then (False, pr)
      else (let ttl = lock_ttl dflt ttl_sec; key = lock_key kind (the server_id); tok = the token;
                (usable, p) = get_redis m (fst pr);
                here = (\<lambda>r. let (ok, loc) = local_refresh key tok ttl (m_now m) (p_local p)
                            in (ok, p\<lparr>p_local := loc\<rparr>, r))
            in if usable then
                 (case ask (m_reach m) (REFRESH_LUA call key tok ttl (m_now m)) (snd pr) of
                    (Some n, r) \<Rightarrow> (reply_true n, p, r)
                  | (None, r) \<Rightarrow> here r)
               else here (snd pr)))"

definition server_lock_holder ::
    "'r redis \<Rightarrow> moment \<Rightarrow> lock_kind \<Rightarrow> int option \<Rightarrow> proc \<times> 'r \<Rightarrow> string option \<times> proc \<times> 'r" where
  "server_lock_holder call m kind server_id pr =
     (case server_id of None \<Rightarrow> (None, pr)
      | Some sid \<Rightarrow>
          (let key = lock_key kind sid; (usable, p) = get_redis m (fst pr);
               here = (\<lambda>r. let (t, loc) = local_holder key (m_now m) (p_local p)
                           in (t, p\<lparr>p_local := loc\<rparr>, r))
           in if usable then
                (case ask (m_reach m) (call (Get key) (m_now m)) (snd pr) of
                   (Some v, r) \<Rightarrow> (case v of Bulk t \<Rightarrow> Some t | _ \<Rightarrow> None, p, r)
                 | (None, r) \<Rightarrow> here r)
              else here (snd pr)))"

definition is_server_locked ::
    "'r redis \<Rightarrow> moment \<Rightarrow> lock_kind \<Rightarrow> int option \<Rightarrow> proc \<times> 'r \<Rightarrow> bool \<times> proc \<times> 'r" where
  "is_server_locked call m kind server_id pr =
     (let (t, pr') = server_lock_holder call m kind server_id pr in (t \<noteq> None, pr'))"

section \<open>Two hosts at once\<close>

text \<open>The three moments are those of the first attempt, the second, and the release after a partial failure.\<close>

definition try_acquire_dual_server_lock ::
    "'r redis \<Rightarrow> int \<Rightarrow> moment \<times> moment \<times> moment \<Rightarrow> lock_kind \<Rightarrow> int option \<Rightarrow> int option \<Rightarrow> string
      \<Rightarrow> int option \<Rightarrow> proc \<times> 'r \<Rightarrow> (string \<times> string) option \<times> proc \<times> 'r" where
  "try_acquire_dual_server_lock call dflt ms kind server_id_a server_id_b holder ttl_sec pr =
     (let (m1, m2, m3) = ms in
      case (server_id_a, server_id_b) of
        (Some a, Some b) \<Rightarrow>
          if a = b then
            (let (tok, pr1) = try_acquire_server_lock call dflt m1 kind (Some a) holder ttl_sec pr
             in (map_option (\<lambda>t. (t, t)) tok, pr1))
          else
            (let (x, y) = (if a < b then (a, b) else (b, a));
                 (t_first, pr1) = try_acquire_server_lock call dflt m1 kind (Some x) holder ttl_sec pr
             in case t_first of None \<Rightarrow> (None, pr1)
                | Some t1 \<Rightarrow>
                    (let (t_second, pr2) =
                           try_acquire_server_lock call dflt m2 kind (Some y) holder ttl_sec pr1
                     in case t_second of
                          None \<Rightarrow> (None, snd (release_server_lock call m3 kind (Some x) t_first pr2))
                        | Some t2 \<Rightarrow> (Some (if a < b then (t1, t2) else (t2, t1)), pr2)))
      | _ \<Rightarrow> (None, pr))"

definition release_dual_server_lock ::
    "'r redis \<Rightarrow> moment \<times> moment \<Rightarrow> lock_kind \<Rightarrow> int option \<Rightarrow> string option \<Rightarrow> int option \<Rightarrow> string option
      \<Rightarrow> proc \<times> 'r \<Rightarrow> proc \<times> 'r" where
  "release_dual_server_lock call ms kind server_id_a token_a server_id_b token_b pr =
     (case (server_id_a, server_id_b) of
        (Some a, Some b) \<Rightarrow>
          if a = b then
            snd (release_server_lock call (fst ms) kind (Some a)
                   (if no_token token_a then token_b else token_a) pr)
          else snd (release_server_lock call (snd ms) kind (Some b) token_b
                 (snd (release_server_lock call (fst ms) kind (Some a) token_a pr)))
      | _ \<Rightarrow> pr)"

end
