(* ===== verification/MoveTasks.thy ===== *)
theory MoveTasks
  imports MoveQueue ServerLock
begin

text \<open>
  The Celery tasks of a Move and its ways back (\<open>service_migrate\<close>, \<open>_migrate_dual_lock_task\<close>,
  \<open>_update_job_status\<close> in \<open>app/tasks.py\<close>) and the in-process runs of \<open>jobs_migrate.py\<close>: the job runs while
  the backup lock of both hosts is held, a busy host delays it, a redelivered one is failed. The state
  has the tables, the outside and the lock as this process sees it.
\<close>

section \<open>The row while a task waits\<close>

definition LOCK_WAIT_COUNTDOWN_SEC :: int where "LOCK_WAIT_COUNTDOWN_SEC = 20"
definition LOCK_MAX_RETRIES :: int where "LOCK_MAX_RETRIES = 180"

definition new_lines :: "json list \<Rightarrow> json list \<Rightarrow> json list" where
  "new_lines lines fresh = foldl (\<lambda>ls l. if ls = [] \<or> last ls \<noteq> l then ls @ [l] else ls) lines fresh"

text \<open>\<open>json.loads(job.details)\<close>, empty when it does not parse; an update needs a dictionary.\<close>

definition updatable :: "column \<Rightarrow> dict option" where
  "updatable c = (case loads c of None \<Rightarrow> Some [] | Some (JObj data) \<Rightarrow> Some data | Some v \<Rightarrow> None)"

definition wait_details :: "dict \<Rightarrow> column \<Rightarrow> column option" where
  "wait_details extra c = (case updatable c of
     None \<Rightarrow> None
   | Some old \<Rightarrow>
       (let data = dupdate old (filter (\<lambda>kv. fst kv \<noteq> ''log_lines'') extra); fresh = dget0 extra ''log_lines'' in
        if \<not> truthy fresh then Some (Text (JObj data))
        else (case (py_list (jor (dget0 data ''log_lines'') (JList [])), py_list fresh) of
            (Some lines, Some ls) \<Rightarrow> Some (Text (JObj (dset ''log_lines'' (JList (last_n 15 (new_lines lines ls))) data)))
          | _ \<Rightarrow> None)))"

definition status_details :: "dict \<Rightarrow> column \<Rightarrow> column option" where
  "status_details extra c = (if extra = [] then Some c
     else map_option (\<lambda>old. Text (JObj (dupdate old extra))) (updatable c))"

definition set_status :: "env \<Rightarrow> string \<Rightarrow> column \<Rightarrow> job \<Rightarrow> job" where
  "set_status e status det j = j\<lparr>j_status := status, j_details := det,
     j_started_at := (if status = ''running'' \<and> j_started_at j = None then Some (e_now e) else j_started_at j),
     j_finished_at := (if terminal_status status then Some (e_now e) else j_finished_at j)\<rparr>"

text \<open>Any error is logged and leaves the row.\<close>

definition update_job_status :: "env \<Rightarrow> int \<Rightarrow> string \<Rightarrow> dict \<Rightarrow> db \<Rightarrow> db" where
  "update_job_status e i status extra d = (case get_job d i of
     None \<Rightarrow> d
   | Some j \<Rightarrow>
       if j_status j = ''cancelled'' then d
       else if (j_status j = ''success'' \<or> j_status j = ''failed'') \<and> j_finished_at j \<noteq> None
         \<and> active_status status then d
       else if status = ''pending'' \<and> j_status j = ''pending'' \<and> extra \<noteq> [] then
         (case wait_details extra (j_details j) of None \<Rightarrow> d | Some c \<Rightarrow> upd_job i (\<lambda>r. r\<lparr>j_details := c\<rparr>) d)
       else (case status_details extra (j_details j) of None \<Rightarrow> d | Some c \<Rightarrow> upd_job i (set_status e status c) d))"

section \<open>Under the locks of both hosts\<close>

text \<open>Redis and the moments of the calls of one task: three to take the locks, two to give them back.\<close>

record 'r lock_env =
  le_call :: "'r redis"
  le_ttl :: int
  le_take :: "moment \<times> moment \<times> moment"
  le_give :: "moment \<times> moment"

type_synonym ('w, 'r, 'a) task_act = "((db \<times> 'w) \<times> proc \<times> 'r, exc, 'a) act"

definition on_rows :: "('w, 'a) job_act \<Rightarrow> ('w, 'r, 'a) task_act" where
  "on_rows m s = (let (dw, r) = m (fst s) in ((dw, snd s), r))"

definition take_locks :: "'r lock_env \<Rightarrow> int \<Rightarrow> int \<Rightarrow> string \<Rightarrow> ('w, 'r, (string \<times> string) option) task_act" where
  "take_locks l sid did holder s =
     (let (toks, pr) = try_acquire_dual_server_lock (le_call l) (le_ttl l) (le_take l) Backup_lock (Some sid) (Some did)
            holder None (snd s)
      in ((fst s, pr), Inr toks))"

definition give_locks :: "'r lock_env \<Rightarrow> int \<Rightarrow> int \<Rightarrow> string \<times> string \<Rightarrow> ('w, 'r, unit) task_act" where
  "give_locks l sid did toks = touch (\<lambda>s. (fst s, release_dual_server_lock (le_call l) (le_give l) Backup_lock
     (Some sid) (Some (fst toks)) (Some did) (Some (snd toks)) (snd s)))"

text \<open>\<open>try: m finally: f\<close>.\<close>

definition always :: "('s, 'e, 'a) act \<Rightarrow> ('s, 'f, unit) act \<Rightarrow> ('s, 'e, 'a) act" where
  "always m f s = (let (s', r) = m s in (fst (f s'), r))"

definition host_busy :: string where
  "host_busy = ''A backup or Move is already using the source or destination host''"

definition end_failed :: "env \<Rightarrow> int \<Rightarrow> int \<Rightarrow> int \<Rightarrow> string \<Rightarrow> string \<Rightarrow> db \<Rightarrow> db \<times> (exc + unit)" where
  "end_failed e i sid aid msg jt d = finish_run e aid i ''failed'' (Plain msg) (host_label d sid) jt d"

text \<open>The in-process run: a busy host fails the job at once.\<close>

definition run_holding_locks ::
    "env \<Rightarrow> 'r lock_env \<Rightarrow> int \<Rightarrow> int \<Rightarrow> int \<Rightarrow> int \<Rightarrow> string \<Rightarrow> ('w, unit) job_act \<Rightarrow> ('w, 'r, unit) task_act" where
  "run_holding_locks e l i sid did aid jt work =
     seq (take_locks l sid did (int_str i)) (\<lambda>toks. case toks of
         None \<Rightarrow> on_rows (on_tables (end_failed e i sid aid host_busy jt))
       | Some t \<Rightarrow> always (on_rows work) (give_locks l sid did t))"

section \<open>The tasks\<close>

definition claim_move :: "celery_request \<Rightarrow> job \<Rightarrow> job" where
  "claim_move req j = snd (remember_celery_worker
     (j\<lparr>j_celery_task_id := (case request_id req of JNull \<Rightarrow> None | v \<Rightarrow> Some (py_str v))\<rparr>) req)"

definition lock_holder_name :: "int \<Rightarrow> celery_request \<Rightarrow> string \<Rightarrow> string" where
  "lock_holder_name i req fallback =
     (if i \<noteq> 0 then int_str i else if truthy (request_id req) then py_str (request_id req) else fallback)"

definition lock_timeout :: string where
  "lock_timeout = ''Timed out waiting for a backup or Move on the source or destination host''"

definition failed_fields :: "string \<Rightarrow> string \<Rightarrow> dict" where
  "failed_fields err line = [(''error'', JStr err), (''current'', JStr ''failed''), (''log_lines'', JList [JStr line])]"

definition waiting_fields :: dict where
  "waiting_fields = [(''current'', JStr ''waiting_for_server''),
     (''log_lines'', JList [JStr (''Waiting for a backup or Move on the source or destination host'' @ dots)])]"

text \<open>\<open>except Exception\<close>: a retry passes, anything else ends the job, in the row alone when \<open>_finish\<close> raises too.\<close>

definition closing :: "env \<Rightarrow> int \<Rightarrow> int \<Rightarrow> int \<Rightarrow> string \<Rightarrow> ('w, 'r, outcome) task_act \<Rightarrow> ('w, 'r, outcome) task_act" where
  "closing e i sid aid jt m = catching m (\<lambda>x. case x of
     Retry n \<Rightarrow> raise (Retry n)
   | _ \<Rightarrow> (let err = take 800 (exc_text e x) in
       andalso (catching (on_rows (on_tables (end_failed e i sid aid err jt)))
           (\<lambda>_. on_rows (on_tables (\<lambda>d. (update_job_status e i ''failed'' (failed_fields err (take 240 err)) d, Inr ())))))
         (ret ErrorOut)))"

definition set_row :: "(db \<Rightarrow> db) \<Rightarrow> ('w, 'r, unit) task_act" where
  "set_row f = on_rows (on_tables (\<lambda>d. (f d, Inr ())))"

text \<open>
  The body both kinds of task share. \<open>resume\<close> ends a job a dead worker left running, \<open>tell\<close> is whether
  the answer for a finished job has its status.
\<close>

definition dual_lock_task ::
    "env \<Rightarrow> 'r lock_env \<Rightarrow> celery_request \<Rightarrow> int \<Rightarrow> int \<Rightarrow> int \<Rightarrow> int \<Rightarrow> int \<Rightarrow> string \<Rightarrow> string \<Rightarrow> bool
     \<Rightarrow> (db \<Rightarrow> db \<times> (exc + unit)) \<Rightarrow> ('w, unit) job_act \<Rightarrow> ('w, 'r, outcome) task_act" where
  "dual_lock_task e l req retries i sid did aid jt fallback tell resume work s = (case get_job (fst (fst s)) i of
     None \<Rightarrow> ret (Skipped None) s
   | Some j \<Rightarrow>
       if j_status j = ''cancelled'' then ret CancelledOut s
       else if \<not> active j then ret (Skipped (if tell then Some (j_status j) else None)) s
       else if j_status j = ''running'' then
         closing e i sid aid jt (andalso (on_rows (on_tables resume)) (ret (FailedOut ''worker_restart''))) s
       else andalso (set_row (upd_job i (claim_move req)))
         (seq (take_locks l sid did (lock_holder_name i req fallback)) (\<lambda>toks. case toks of
            None \<Rightarrow>
              if LOCK_MAX_RETRIES \<le> retries then
                andalso (set_row (update_job_status e i ''failed'' (failed_fields lock_timeout lock_timeout)))
                  (ret (FailedOut lock_timeout))
              else andalso (set_row (update_job_status e i ''pending'' waiting_fields)) (raise (Retry LOCK_WAIT_COUNTDOWN_SEC))
          | Some t \<Rightarrow> always (closing e i sid aid jt (andalso (on_rows work) (ret OkOut))) (give_locks l sid did t))) s)"

definition service_migrate ::
    "env \<Rightarrow> 'w move_env \<Rightarrow> 'r lock_env \<Rightarrow> celery_request \<Rightarrow> int \<Rightarrow> int \<Rightarrow> int \<Rightarrow> int \<Rightarrow> string \<Rightarrow> int \<Rightarrow> ('w, 'r, outcome) task_act" where
  "service_migrate e m l req retries i sid did project aid =
     dual_lock_task e l req retries i sid did aid ''service_migrate'' (''migrate-'' @ int_str sid @ ''-'' @ int_str did) False
       (fail_migrate_worker_restart e i aid) (execute_service_migrate e m i sid did project aid)"

definition service_migrate_undo ::
    "env \<Rightarrow> 'w move_env \<Rightarrow> 'r lock_env \<Rightarrow> celery_request \<Rightarrow> int \<Rightarrow> int \<Rightarrow> int \<Rightarrow> int \<Rightarrow> int \<Rightarrow> ('w, 'r, outcome) task_act" where
  "service_migrate_undo e m l req retries i sid did aid =
     dual_lock_task e l req retries i sid did aid ''service_migrate_undo''
       (''service_migrate_undo-'' @ int_str sid @ ''-'' @ int_str did) True
       (end_failed e i sid aid ''Worker restarted during Undo. Dest directory was left in place. Inspect both hosts before retrying.''
          ''service_migrate_undo'')
       (execute_service_migrate_undo e m i sid did aid)"

definition service_migrate_dest_recover ::
    "env \<Rightarrow> 'w move_env \<Rightarrow> 'r lock_env \<Rightarrow> celery_request \<Rightarrow> int \<Rightarrow> int \<Rightarrow> int \<Rightarrow> int \<Rightarrow> int \<Rightarrow> ('w, 'r, outcome) task_act" where
  "service_migrate_dest_recover e m l req retries i sid did aid =
     dual_lock_task e l req retries i sid did aid DEST_RECOVER_JOB_TYPE
       (''service_migrate_dest_recover-'' @ int_str sid @ ''-'' @ int_str did) True
       (end_failed e i sid aid ''Worker restarted while stopping dest or starting source. Inspect both hosts before trying again. Names were not changed.''
          DEST_RECOVER_JOB_TYPE)
       (execute_dest_up_recover e m i sid did aid)"

end
