(* ===== verification/MoveKeeps.thy ===== *)
theory MoveKeeps
  imports MovePipeline MoveUndo
begin

text \<open>
  What an outside keeps under every call that starts no stack, the pipelines of a Move and of its ways
  back keep: one lemma per step, by the rules of the combinators.
\<close>

text \<open>A stack is a host and the path of its project.\<close>

datatype stack = Stack (stack_host: int) (stack_path: string)

definition starts :: "move_op \<Rightarrow> stack option" where
  "starts call = (case call of ComposeStart h p \<Rightarrow> Some (Stack h p) | Redeploy h p \<Rightarrow> Some (Stack h p) | _ \<Rightarrow> None)"

section \<open>Actions that keep what holds\<close>

text \<open>An operation that starts nothing.\<close>

definition quiet :: "move_op \<Rightarrow> bool" where
  "quiet call = (starts call = None)"

lemma quiet_simps [simp]:
  "quiet (Preflight i1 i2 s1 z1 ps1 bs i3 b1)" "quiet (PrepareStaging s1)" "quiet (MakeDir s1)" "quiet (ComposeStop i1 s1)"
  "quiet (ComposeDown i1 s1 b1)" "quiet (PullTree i1 s1 s2 b1 b2)" "quiet (PushTree i1 s1 s2 b1)"
  "quiet (CopyVolume i1 i2 s1 s2 z1)" "quiet (PathKind i1 s1)" "quiet (StageSummary s1)"
  "quiet (RewriteStaging s1 s2 s3 ps1 ps2 ps3)" "quiet (ChownLike i1 s1 z1)" "quiet (RemoveGhosts i1 s1)"
  "quiet (RefreshInventory i1)" "quiet (Retarget i1 i2 s1 z1 ps1 b1)" "quiet (RebindRows i1 i2 s1 z1)"
  "quiet (Validate i1 i2 s1)" "quiet (RmVolume i1 s1)" "quiet (RmTree i1 s1)" "quiet (DisableCerts i1 i2 s1)"
  "quiet (EnableCerts i1 s1 s2)" "quiet (DropMeta i1 s1)" "quiet CommitRows" "quiet (MarkStale i1)"
  "quiet (ProbeFacts i1)" "quiet HerderFree" "quiet (WipeStaging s1)"
  "\<not> quiet (ComposeStart i1 s1)" "\<not> quiet (Redeploy i1 s1)"
  by (simp_all add: quiet_def starts_def)

text \<open>One that does not write to the fabric either.\<close>

definition silent :: "move_op \<Rightarrow> bool" where
  "silent call = (quiet call \<and> (case call of Retarget i1 i2 s1 z1 ps1 b1 \<Rightarrow> False | RebindRows i1 i2 s1 z1 \<Rightarrow> False
     | Validate i1 i2 s1 \<Rightarrow> False | _ \<Rightarrow> True))"

lemma silent_simps [simp]:
  "silent (Preflight i1 i2 s1 z1 ps1 bs i3 b1)" "silent (PrepareStaging s1)" "silent (MakeDir s1)" "silent (ComposeStop i1 s1)"
  "silent (ComposeDown i1 s1 b1)" "silent (PullTree i1 s1 s2 b1 b2)" "silent (PushTree i1 s1 s2 b1)"
  "silent (CopyVolume i1 i2 s1 s2 z1)" "silent (PathKind i1 s1)" "silent (StageSummary s1)"
  "silent (RewriteStaging s1 s2 s3 ps1 ps2 ps3)" "silent (ChownLike i1 s1 z1)" "silent (RemoveGhosts i1 s1)"
  "silent (RefreshInventory i1)" "silent (RmVolume i1 s1)" "silent (RmTree i1 s1)" "silent (DisableCerts i1 i2 s1)"
  "silent (EnableCerts i1 s1 s2)" "silent (DropMeta i1 s1)" "silent CommitRows" "silent (MarkStale i1)"
  "silent (ProbeFacts i1)" "silent HerderFree" "silent (WipeStaging s1)"
  "\<not> silent (Retarget i1 i2 s1 z1 ps1 b1)" "\<not> silent (RebindRows i1 i2 s1 z1)" "\<not> silent (Validate i1 i2 s1)"
  by (simp_all add: silent_def)

text \<open>A property the outside keeps under every quiet operation, or under every silent one.\<close>

definition stable :: "'s outside \<Rightarrow> ('s \<Rightarrow> bool) \<Rightarrow> bool" where
  "stable x P = ((\<forall>call. quiet call \<longrightarrow> keeps P (o_call x call)) \<and> (\<forall>m s. P s \<longrightarrow> P (o_log x m s))
     \<and> (\<forall>m s. P s \<longrightarrow> P (o_step x m s)))"

definition at_rest :: "'s outside \<Rightarrow> ('s \<Rightarrow> bool) \<Rightarrow> bool" where
  "at_rest x P = ((\<forall>call. silent call \<longrightarrow> keeps P (o_call x call)) \<and> (\<forall>m s. P s \<longrightarrow> P (o_log x m s))
     \<and> (\<forall>m s. P s \<longrightarrow> P (o_step x m s)))"

lemma stable_at_rest: "stable x P \<Longrightarrow> at_rest x P"
  by (simp add: stable_def at_rest_def silent_def)

lemma keeps_call: "stable x P \<Longrightarrow> quiet call \<Longrightarrow> keeps P (o_call x call)"
  by (simp add: stable_def)

lemma rest_call: "at_rest x P \<Longrightarrow> silent call \<Longrightarrow> keeps P (o_call x call)"
  by (simp add: at_rest_def)

lemma rest_log: "at_rest x P \<Longrightarrow> keeps P (log x m)"
  by (auto simp: at_rest_def log_def intro!: keeps_rules)

lemma rest_step: "at_rest x P \<Longrightarrow> keeps P (step x m)"
  by (auto simp: at_rest_def step_def intro!: keeps_rules)

lemma keeps_if [keeps_rules]: "(b \<Longrightarrow> keeps P m) \<Longrightarrow> (\<not> b \<Longrightarrow> keeps P n) \<Longrightarrow> keeps P (if b then m else n)"
  by simp

lemma rest_call_or:
  assumes "at_rest x P" and "silent full" and "silent short"
  shows "keeps P (call_or x full short)"
  using assms by (auto simp: call_or_def intro!: keeps_rules rest_call split: move_exc.split)

lemma keeps_as_copy [keeps_rules]: "keeps P m \<Longrightarrow> keeps P (as_copy m)"
  by (auto simp: as_copy_def intro!: keeps_rules split: move_exc.split)

lemma keeps_checked [keeps_rules]: "keeps P (checked_project p)"
  by (auto simp: checked_project_def intro!: keeps_rules split: sum.split)

lemma keeps_stripped [keeps_rules]: "keeps P (stripped_field r k)"
  by (auto simp: stripped_field_def intro!: keeps_rules split: json.split)

lemma keeps_items [keeps_rules]: "keeps P (items_of r)"
  by (auto simp: items_of_def intro!: keeps_rules split: option.split)

lemma keeps_jailed [keeps_rules]: "keeps P (jailed h p)"
  by (auto simp: jailed_def intro!: keeps_rules split: sum.split jail_error.split)

lemma keeps_need_success [keeps_rules]: "keeps P (need_success r t)"
  by (auto simp: need_success_def leftover_error_def intro!: keeps_rules)

lemma rest_preflight: "at_rest x P \<Longrightarrow> keeps P (run_preflight_step x a nm)"
  by (auto simp: run_preflight_step_def intro!: keeps_rules rest_call split: sum.split)

lemma rest_copy_named: "at_rest x P \<Longrightarrow> keeps P (copy_named x a p vol src c)"
  unfolding copy_named_def Let_def by (intro keeps_rules rest_call_or rest_log) auto

lemma rest_fold_bind: "at_rest x P \<Longrightarrow> keeps P (fold_bind x a p src mapped af)"
  unfolding fold_bind_def Let_def by (intro keeps_rules rest_call rest_call_or rest_log) auto

lemma rest_extra_bind: "at_rest x P \<Longrightarrow> keeps P (extra_bind x a src mapped)"
  unfolding extra_bind_def Let_def by (intro keeps_rules rest_call rest_call_or rest_log) auto

lemma rest_copy_mapped: "at_rest x P \<Longrightarrow> keeps P (copy_mapped x a p src mapped c)"
  unfolding copy_mapped_def remote_kind_def
  by (intro keeps_rules rest_call rest_log rest_fold_bind rest_extra_bind) auto

lemma rest_copy_bind: "at_rest x P \<Longrightarrow> keeps P (copy_bind x a p kind src c)"
  unfolding copy_bind_def Let_def
  by (cases "bind_target p src") (auto intro!: keeps_rules rest_log rest_copy_mapped)

lemma rest_copy_item: "at_rest x P \<Longrightarrow> keeps P (copy_item x a p it c)"
  unfolding copy_item_def Let_def by (intro keeps_rules rest_copy_named rest_copy_bind)

lemma rest_rewrite_log: "at_rest x P \<Longrightarrow> keeps P (rewrite_log x r)"
  unfolding rewrite_log_def
  by (cases "field r ''files''"; simp split: list.split add: keeps_rules rest_log)

lemma rest_chown: "at_rest x P \<Longrightarrow> keeps P (chown_step x a p)"
  unfolding chown_step_def by (intro keeps_rules rest_call_or rest_log) auto

lemma rest_ghosts: "at_rest x P \<Longrightarrow> keeps P (ghosts_step x a p)"
  unfolding ghosts_step_def by (intro keeps_rules rest_call rest_log) auto

lemma rest_copy_phase: "at_rest x P \<Longrightarrow> keeps P (copy_phase x a p pf)"
  unfolding copy_phase_def
  by (intro keeps_rules rest_call rest_call_or rest_log rest_step rest_copy_item rest_rewrite_log
      rest_chown rest_ghosts) auto

lemma rest_remove_volume: "at_rest x P \<Longrightarrow> keeps P (remove_volume x s vol out)"
  unfolding remove_volume_def rm_volume_def Let_def by (intro keeps_rules rest_call rest_log) auto

lemma rest_remove_source: "at_rest x P \<Longrightarrow> keeps P (remove_source x s dst nm path dp ds)"
  unfolding remove_source_def rm_tree_def Let_def
  by (cases "named_volumes_from_dataset ds")
    (auto intro!: keeps_rules rest_call rest_log rest_remove_volume)

lemma rest_leftover: "at_rest x P \<Longrightarrow> keeps P (apply_leftover x s dst pr lo ds sp dp)"
  unfolding apply_leftover_def Let_def by (intro keeps_rules rest_call rest_log rest_remove_source) auto

lemma rest_stop_step: "at_rest x P \<Longrightarrow> keeps P (stop_step x a p)"
  unfolding stop_step_def by (intro keeps_rules rest_call rest_log rest_step) auto

text \<open>The same for what is stable.\<close>

lemma keeps_call_or:
  assumes "stable x P" and "quiet full" and "quiet short"
  shows "keeps P (call_or x full short)"
  using assms by (auto simp: call_or_def intro!: keeps_rules keeps_call split: move_exc.split)

lemmas keeps_log = rest_log [OF stable_at_rest]
  and keeps_step = rest_step [OF stable_at_rest]
  and keeps_preflight = rest_preflight [OF stable_at_rest]
  and keeps_copy_named = rest_copy_named [OF stable_at_rest]
  and keeps_fold_bind = rest_fold_bind [OF stable_at_rest]
  and keeps_extra_bind = rest_extra_bind [OF stable_at_rest]
  and keeps_copy_mapped = rest_copy_mapped [OF stable_at_rest]
  and keeps_copy_bind = rest_copy_bind [OF stable_at_rest]
  and keeps_copy_item = rest_copy_item [OF stable_at_rest]
  and keeps_rewrite_log = rest_rewrite_log [OF stable_at_rest]
  and keeps_chown = rest_chown [OF stable_at_rest]
  and keeps_ghosts = rest_ghosts [OF stable_at_rest]
  and keeps_copy_phase = rest_copy_phase [OF stable_at_rest]
  and keeps_remove_volume = rest_remove_volume [OF stable_at_rest]
  and keeps_remove_source = rest_remove_source [OF stable_at_rest]
  and keeps_leftover = rest_leftover [OF stable_at_rest]
  and keeps_stop_step = rest_stop_step [OF stable_at_rest]

section \<open>Whole pipelines\<close>

text \<open>With the operations that start a stack the pipelines keep a property as a whole.\<close>

lemma keeps_log_output: "stable x P \<Longrightarrow> keeps P (log_output x r)"
  unfolding log_output_def by (intro keeps_rules keeps_log)

lemma rest_dest_up:
  assumes st: "at_rest x P" and up: "keeps P (o_call x (Redeploy (dest_id a) (mp_dst_proj p)))"
  shows "keeps P (dest_up_step x a p)"
  unfolding dest_up_step_def refresh_dest_def
  by (intro keeps_rules rest_call [OF st] rest_log [OF st] rest_step [OF st] up) auto

lemma rest_validate:
  assumes "at_rest x P" and "keeps P (o_call x (Validate (source_id a) (dest_id a) (mp_dest_name p)))"
  shows "keeps P (validate_step x a p)"
  using assms unfolding validate_step_def
  by (intro keeps_rules rest_log rest_step) (auto split: move_exc.split intro: keeps_rules)

lemma rest_leftover_step: "at_rest x P \<Longrightarrow> keeps P (leftover_step x a p pf)"
  unfolding leftover_step_def
  by (intro keeps_rules rest_step rest_leftover) (auto split: move_exc.split intro: keeps_rules)

lemma rest_mark_stale: "at_rest x P \<Longrightarrow> keeps P (mark_stale_step x a)"
  unfolding mark_stale_step_def by (intro keeps_rules rest_call) auto

lemma keeps_after_copy:
  assumes st: "stable x P" and up: "keeps P (o_call x (Redeploy (dest_id a) (mp_dst_proj p)))"
  shows "keeps P (after_copy x a p pf)"
proof -
  note rest = stable_at_rest [OF st]
  have "keeps P (cutover_step x a p pf)" "keeps P (rebind_step x a p)"
    unfolding cutover_step_def rebind_step_def
    by (intro keeps_rules keeps_call [OF st] keeps_call_or [OF st] keeps_log [OF st] keeps_step [OF st];
        auto split: move_exc.split intro: keeps_rules)+
  then show ?thesis
    unfolding after_copy_def
    by (intro keeps_rules keeps_log [OF st] rest_dest_up [OF rest up] rest_validate [OF rest keeps_call [OF st]] rest_leftover_step [OF rest] rest_mark_stale [OF rest]) simp_all
qed

lemma keeps_run_copy_and_start:
  assumes "stable x P" and "\<And>h p. keeps P (o_call x (Redeploy h p))"
  shows "keeps P (run_copy_and_start x a)"
  unfolding run_copy_and_start_def Let_def
  by (intro keeps_rules keeps_step keeps_preflight keeps_call keeps_stop_step keeps_copy_phase keeps_after_copy assms) auto

lemma keeps_undo_fail:
  assumes "stable x P" and "\<And>h p. keeps P (o_call x (ComposeStart h p))"
  shows "keeps P (undo_fail x u steps msg b)"
  unfolding undo_fail_def by (intro keeps_rules keeps_log keeps_log_output assms)

lemma keeps_undo_call:
  assumes "stable x P" and "\<And>h p. keeps P (o_call x (ComposeStart h p))" and "keeps P m"
  shows "keeps P (undo_call x u steps fb b m)"
  unfolding undo_call_def
  by (rule keeps_seq) (auto intro!: keeps_rules keeps_undo_fail assms split: move_exc.split sum.split)

lemma keeps_prod [keeps_rules]: "(\<And>a b. keeps P (f a b)) \<Longrightarrow> keeps P (case v of (a, b) \<Rightarrow> f a b)"
  by (cases v) simp

lemma keeps_run_undo:
  assumes st: "stable x P" and go: "\<And>h p. keeps P (o_call x (ComposeStart h p))"
  shows "keeps P (run_undo_pipeline x source dest project dest_project pm committed)"
proof -
  note fail = keeps_undo_fail [OF st go] and call = keeps_undo_call [OF st go]
  have "keeps P (undo_stop x u steps)" for u steps
    unfolding undo_stop_def by (intro keeps_rules keeps_call [OF st] keeps_log [OF st] keeps_log_output [OF st]) auto
  moreover have "keeps P (undo_dns x u steps)" "keeps P (undo_rebind x u steps)" for u steps
    unfolding undo_dns_def undo_rebind_def
    by (intro keeps_rules call fail keeps_call_or [OF st] keeps_log [OF st]; simp)+
  moreover have "keeps P (undo_certs x u steps)" for u steps
    unfolding undo_certs_def
    by (intro keeps_rules call keeps_call [OF st] keeps_log [OF st]) (auto split: move_exc.split intro: keeps_rules)
  moreover have "keeps P (undo_start x u steps)" for u steps
    unfolding undo_start_def by (intro keeps_rules go keeps_log [OF st] keeps_log_output [OF st])
  ultimately have "keeps P (undo_steps x u ss)" for u ss
    unfolding undo_steps_def by (intro keeps_rules keeps_log [OF st])
  then show ?thesis
    unfolding run_undo_pipeline_def
    by (intro keeps_rules) (auto intro: keeps_rules split: sum.split)
qed

lemma keeps_run_recover:
  assumes st: "stable x P" and go: "\<And>h p. keeps P (o_call x (ComposeStart h p))"
  shows "keeps P (run_dest_up_recover x source dest project dest_project)"
proof -
  have "keeps P (recover_start x source nm sp dn dp)" for nm sp dn dp
    unfolding recover_start_def by (intro keeps_rules go keeps_log [OF st] keeps_log_output [OF st])
  then show ?thesis
    unfolding run_dest_up_recover_def
    by (intro keeps_rules keeps_call [OF st] keeps_log [OF st] keeps_log_output [OF st]) auto
qed

end
