(* ===== verification/MoveFacts.thy ===== *)
theory MoveFacts
  imports MoveTasks MoveKeeps
begin

text \<open>
  The queue around a Move: its three enqueues are admitted by both lanes, and neither an executor nor a
  task of it adds a job or makes a finished one active, whatever the calls answer.
\<close>

section \<open>Enqueues are admitted\<close>

lemma host_blocker_None: "host_blocker d sid = None \<longleftrightarrow>
    active_stack_mutating_job d sid = None \<and> active_migrate_as_dest d sid = None \<and> get_active_backup_jobs d sid = []"
  by (auto simp: host_blocker_def split: option.splits)

lemma move_blocker_None: "move_blocker d sid did = None \<longleftrightarrow> host_blocker d sid = None \<and> host_blocker d did = None"
  by (auto simp: move_blocker_def split: option.splits)

lemma fail_move_calm: "calm_run d (fail_move e i msg d)"
proof -
  have "mark_job_terminal e i msg ''failed'' True d = Inr d1 \<Longrightarrow> calm d d1" for d1
    by (auto dest: mark_terminal_calm)
  then show ?thesis
    by (cases "mark_job_terminal e i msg ''failed'' True d") (auto simp: fail_move_def)
qed

lemma task_id_calm: "calm d (upd_job i (set_task_id t) (emit x d))"
  by (rule calm_trans [OF calm_others(3) set_task_id_calm])

lemma handoff_move_calm:
  assumes "wf_ids d" shows "calm_run d (handoff_move e i jt no_worker label d)"
  unfolding handoff_move_def
  by (rule calm_run_then [OF assms])
    (auto simp: task_id_calm split: sum.split intro: fail_move_calm calm_others)

text \<open>The common shape: a new row, then steps that are calm.\<close>

lemma create_then_admits:
  assumes "create_queued_job_with_audit e (Some sid) jt q og txt extra d = c" and "unclashed clash d (Some sid, jt)"
    and "\<And>d1 v. wf_ids d1 \<Longrightarrow> calm_run d1 (f d1 v)"
  shows "enqueue_result clash d (andthen c f)"
proof -
  obtain d1 r where c: "c = (d1, r)" by (cases c)
  note adds = create_queued_adds [OF assms(1) [unfolded c]]
  have "admits clash d (fst (andthen c f))" if wf: "wf_ids d"
  proof -
    have 1: "admits clash d d1" using add_admits [OF assms(2) adds(5) [OF wf] adds(3)] .
    show ?thesis
    proof (cases r)
      case (Inr v)
      then show ?thesis using admits_calm [OF 1] assms(3) [OF adds(5) [OF wf], of v] c by (simp add: calm_run_def)
    qed (simp add: c 1)
  qed
  then show ?thesis by (simp add: enqueue_result_def)
qed

lemma move_type_unclashed:
  "a_lane clash \<Longrightarrow> active_stack_mutating_job d sid = None \<Longrightarrow> jt \<in> set MOVE_TYPES \<Longrightarrow> unclashed clash d (Some sid, jt)"
  by (rule mutation_both) (auto simp: a_lane_def MOVE_TYPES_def STACK_MUTATING_JOB_TYPES_def)

lemma move_admitted:
  assumes "a_lane clash" shows "enqueue_result clash d (enqueue_service_migrate e rq d)"
  unfolding enqueue_service_migrate_def
  by (auto split: sum.split option.split simp: move_blocker_None host_blocker_None MOVE_TYPES_def dest!: get_server_id
      intro!: enqueue_unless create_then_admits [OF refl] move_type_unclashed [OF assms] handoff_move_calm)

lemma enqueue_back_admitted:
  assumes "a_lane clash" and "jt \<in> set MOVE_TYPES"
  shows "enqueue_result clash d (enqueue_back e jt uid payload texts extra no_worker label d)"
  unfolding enqueue_back_def lift_exc_def Let_def
  by (auto split: sum.split option.split simp: move_blocker_None host_blocker_None dest!: get_server_id
      intro!: enqueue_unless create_then_admits [OF refl] move_type_unclashed [OF assms(1) _ assms(2)] handoff_move_calm)

lemma from_parent_admitted:
  "(\<And>payload. enqueue_result clash d (go payload d)) \<Longrightarrow> enqueue_result clash d (from_parent m parent jt el rf ag go d)"
  by (auto simp: from_parent_def lift_exc_def split: sum.split option.split)

lemma undo_admitted:
  "a_lane clash \<Longrightarrow> enqueue_result clash d (enqueue_service_migrate_undo e m parent uid d)"
  unfolding enqueue_service_migrate_undo_def
  by (rule from_parent_admitted, rule enqueue_back_admitted) (simp_all add: MOVE_TYPES_def)

lemma recover_admitted:
  "a_lane clash \<Longrightarrow> enqueue_result clash d (enqueue_service_migrate_dest_recover e m parent uid d)"
  unfolding enqueue_service_migrate_dest_recover_def
  by (rule from_parent_admitted, rule enqueue_back_admitted) (simp_all add: MOVE_TYPES_def DEST_RECOVER_JOB_TYPE_def)

section \<open>Executors are calm\<close>

text \<open>The tables after an action are calm with respect to some tables before it.\<close>

definition at_ease :: "db \<Rightarrow> db \<times> 'w \<Rightarrow> bool" where
  "at_ease d0 s = (calm d0 (fst s) \<and> wf_ids (fst s))"

lemma keeps_on_tables:
  assumes "\<And>d. wf_ids d \<Longrightarrow> calm_run d (f d)" shows "keeps (at_ease d0) (on_tables f)"
proof -
  have "at_ease d0 (fst (on_tables f (d, w)))" if "at_ease d0 (d, w)" for d w
  proof -
    have "calm d (fst (f d))" using assms that by (simp add: at_ease_def calm_run_def)
    then show ?thesis using that by (auto simp: at_ease_def on_tables_def split_beta intro: calm_trans wf_ids_calm)
  qed
  then show ?thesis by (auto simp: keeps_def)
qed

lemma at_ease_calm: "calm d d' \<Longrightarrow> at_ease d0 (d, w) \<Longrightarrow> at_ease d0 (d', w')"
  using calm_trans wf_ids_calm by (fastforce simp: at_ease_def)

text \<open>The calls work on the outside, and what is written on the way is a progress line.\<close>

lemma call_at_ease: "keeps (at_ease d0) (o_call (move_outside m lg st) call)"
  by (auto simp: keeps_def move_outside_def at_ease_def split_beta)

lemma move_stable:
  "(\<And>msg d. calm d (lg msg d)) \<Longrightarrow> (\<And>nm d. calm d (st nm d)) \<Longrightarrow> stable (move_outside m lg st) (at_ease d0)"
  by (simp add: stable_def call_at_ease) (auto simp: move_outside_def elim: at_ease_calm [rotated])

lemma progress_calm [simp, intro]:
  "calm d (move_log i msg d)" "calm d (move_on_step i nm d)" "calm d (undo_log i msg d)" "calm d (recover_log i msg d)"
  by (simp_all add: move_log_def move_on_step_def undo_log_def recover_log_def)

lemma of_move_stable: "stable (of_move m i) (at_ease d0)"
  and of_undo_stable: "stable (of_undo m i) (at_ease d0)"
  and of_recover_stable: "stable (of_recover m i) (at_ease d0)"
  by (rule move_stable; simp)+

lemma try_merge_calm [simp, intro]: "calm d (try_merge i kvs d)"
  by (auto simp: try_merge_def split: sum.split dest: merge_if_present_calm)

lemma keeps_finish_run:
  "\<not> active_status st \<Longrightarrow> keeps (at_ease d0) (on_tables (finish_run e aid i st sn h jt))"
  by (rule keeps_on_tables) (rule finish_run_calm)

lemma keeps_as_move [keeps_rules]: "keeps P m \<Longrightarrow> keeps P (as_move e m)"
  by (simp add: as_move_def keeps_rules)

lemma keep_way_back_calm: "calm d (keep_way_back i sid did project opts source failed d)"
  by (simp add: keep_way_back_def try_merge_calm split: option.split sum.split)

lemma keeps_move_failed: "keeps (at_ease d0) (move_failed e i sid did project aid opts source h ex)"
  unfolding move_failed_def
  by (rule keeps_on_tables, rule finish_run_chain) (simp_all add: keep_way_back_calm)

text \<open>What the outside keeps under its calls and progress lines, the whole run of a Move keeps.\<close>

lemma keeps_run_any:
  assumes st: "stable (of_move m i) P" and call: "\<And>call. keeps P (o_call (of_move m i) call)"
  shows "keeps P (run_move m i sid did project opts)"
proof -
  have pipe: "keeps P (pipeline_with m src dst project i opts)" for src dst
    unfolding pipeline_with_def
    by (cases "as_text (mo_dest_project opts)")
      (auto intro!: keeps_rules keeps_step [OF st] keeps_run_copy_and_start [OF st] call)
  have "keeps P (andalso (log (of_move m i) msg)
      (andalso (catching (seq (o_call (of_move m i) c1) (\<lambda>_. ret ())) (\<lambda>_. ret ()))
      (andalso (o_call (of_move m i) c2) (andalso (o_call (of_move m i) c3) (andalso (o_call (of_move m i) c4)
        (pipeline_with m src dst project i opts))))))" for msg c1 c2 c3 c4 src dst
    by (intro keeps_rules keeps_log [OF st] call pipe)
  then show ?thesis
    unfolding run_move_def keeps_def by (auto simp: raise_def Let_def split: option.split)
qed

lemma keeps_run_move: "keeps (at_ease d0) (run_move m i sid did project opts)"
  by (rule keeps_run_any [OF of_move_stable call_at_ease])

lemma keeps_move_success: "keeps (at_ease d0) (move_success e m i did project aid h)"
  unfolding move_success_def
  by (intro keeps_rules call_at_ease keeps_log [OF of_move_stable] keeps_finish_run) simp

text \<open>The start of an executor is calm on an active job; everything after it is.\<close>

lemma begun_at_ease:
  assumes "wf_ids d" and "get_job d i = Some j" and "active j" and "\<And>v. keeps (at_ease d) (f v)"
  shows "at_ease d (fst (seq (on_tables (begin_run e i kvs)) f (d, w)))"
proof -
  have b: "calm d (fst (begin_run e i kvs d))" using begin_run_calm [OF assms(1-3)] by (simp add: calm_run_def)
  obtain d1 r where r: "begin_run e i kvs d = (d1, r)" by (cases "begin_run e i kvs d")
  have s1: "at_ease d (d1, w)" using b r assms(1) by (auto simp: at_ease_def intro: wf_ids_calm)
  show ?thesis
    using s1 assms(4) by (cases r) (auto simp: seq_def on_tables_def r keeps_def)
qed

lemma execute_move_calm:
  assumes "wf_ids d" and "get_job d i = Some j" and "active j"
  shows "at_ease d (fst (execute_service_migrate e m i sid did project aid (d, w)))"
  unfolding execute_service_migrate_def Let_def fst_conv
  by (rule begun_at_ease [OF assms]) (intro keeps_rules keeps_run_move keeps_move_success keeps_move_failed keeps_finish_run; simp)

text \<open>The ways back. The row of the Move they write to has ended, and stays so.\<close>

lemma on_parent_calm: "calm_run d (on_parent parent kvs d)"
  using calm_run_merge [of d parent kvs] by (simp add: on_parent_def)

lemma keeps_from_sum [keeps_rules]: "keeps P (from_sum r)"
  by (simp add: from_sum_def keeps_def)

lemma keeps_on_parent: "keeps (at_ease d0) (on_tables (on_parent parent kvs))"
  by (rule keeps_on_tables) (rule on_parent_calm)

lemma keeps_pointwise: "(\<And>s. P s \<Longrightarrow> keeps P (m s)) \<Longrightarrow> keeps P (\<lambda>s. m s s)"
  by (simp add: keeps_def)

lemma keeps_undo_body: "keeps (at_ease d0) (undo_body e m i sid did data parent)"
proof -
  have "keeps (at_ease d0) (seq (from_sum r) (\<lambda>steps. andalso (run_undo_pipeline (of_undo m i) a b p dp pm steps)
      (as_move e (on_tables (on_parent parent kvs)))))" for r a b p dp pm kvs
    by (intro keeps_rules keeps_run_undo [OF of_undo_stable] call_at_ease keeps_on_parent)
  then show ?thesis
    unfolding undo_body_def keeps_def by (auto simp: raise_def Let_def split: option.split)
qed

lemma keeps_recover_body: "keeps (at_ease d0) (recover_body e m i sid did data parent)"
proof -
  have "keeps (at_ease d0) (andalso (run_dest_up_recover (of_recover m i) a b p dp)
      (as_move e (on_tables (on_parent parent kvs))))" for a b p dp kvs
    by (intro keeps_rules keeps_run_recover [OF of_recover_stable] call_at_ease keeps_on_parent)
  then show ?thesis
    unfolding recover_body_def keeps_def by (auto simp: raise_def Let_def split: option.split)
qed

lemma keeps_undo_failed: "keeps (at_ease d0) (undo_failed e i parent aid h ex)"
proof -
  have "keeps (at_ease d0) (on_tables (case ex of UndoError msg steps \<Rightarrow> on_parent parent (kvs steps) | _ \<Rightarrow> (\<lambda>d. (d, Inr ()))))" for kvs
    by (rule keeps_on_tables) (auto simp: on_parent_calm split: move_exc.split)
  then show ?thesis
    unfolding undo_failed_def by (intro keeps_rules keeps_finish_run) simp_all
qed

lemma execute_undo_calm:
  assumes "wf_ids d" and "get_job d i = Some j" and "active j"
  shows "at_ease d (fst (execute_service_migrate_undo e m i sid did aid (d, w)))"
  unfolding execute_service_migrate_undo_def Let_def fst_conv
  by (rule begun_at_ease [OF assms], rule keeps_pointwise,
      intro keeps_rules keeps_undo_body keeps_undo_failed keeps_finish_run keeps_log [OF of_undo_stable]; simp)

lemma execute_recover_calm:
  assumes "wf_ids d" and "get_job d i = Some j" and "active j"
  shows "at_ease d (fst (execute_dest_up_recover e m i sid did aid (d, w)))"
  unfolding execute_dest_up_recover_def Let_def fst_conv
  by (rule begun_at_ease [OF assms], rule keeps_pointwise,
      intro keeps_rules keeps_recover_body keeps_finish_run keeps_log [OF of_recover_stable]; simp)

section \<open>Tasks are calm\<close>

lemma note_restart_calm: "note_restart i j d = Inr (d', msg) \<Longrightarrow> calm d d'"
  by (auto simp: note_restart_def plain_restart_def Let_def split: option.splits if_splits sum.splits elim!: rbind_InrE)

lemma worker_restart_calm: "wf_ids d \<Longrightarrow> calm_run d (fail_migrate_worker_restart e i aid d)"
  by (auto simp: fail_migrate_worker_restart_def Let_def split: option.split sum.split prod.split
      intro: finish_run_chain note_restart_calm)

lemma set_status_calm:
  assumes "wf_ids d" and "get_job d i = Some j" and "active j \<or> \<not> active_status st"
  shows "calm d (upd_job i (set_status e st c) d)"
  by (rule calm_upd_job [OF _ _ assms(1)]) (use assms(2,3) in \<open>auto simp: set_status_def job_key_def active_def\<close>)

lemma update_status_calm:
  assumes "wf_ids d" and "\<not> active_status st \<or> (\<forall>j. get_job d i = Some j \<longrightarrow> active j)"
  shows "calm d (update_job_status e i st extra d)"
proof -
  have "calm d (upd_job i (\<lambda>r. r\<lparr>j_details := c\<rparr>) d)" for c
    by (rule calm_upd_job') (simp add: calm_upd_def job_key_def active_def)
  then show ?thesis
    using assms by (auto simp: update_job_status_def intro: set_status_calm split: option.split)
qed

lemma end_failed_calm: "wf_ids d \<Longrightarrow> calm_run d (end_failed e i sid aid msg jt d)"
  by (simp add: end_failed_def finish_run_calm)

lemma claim_move_calm: "calm d (upd_job i (claim_move req) d)"
  by (rule calm_upd_job') (auto simp: calm_upd_def claim_move_def job_key_def active_def
      remember_celery_worker_def Let_def split: json.split)

text \<open>The same property with the lock beside the tables.\<close>

definition at_ease_task :: "db \<Rightarrow> (db \<times> 'w) \<times> 'l \<Rightarrow> bool" where
  "at_ease_task d0 s = at_ease d0 (fst s)"

lemma keeps_on_rows: "keeps (at_ease d0) m \<Longrightarrow> keeps (at_ease_task d0) (on_rows m)"
  by (auto simp: keeps_def at_ease_task_def on_rows_def split_beta)

lemma keeps_set_row: "(\<And>d. wf_ids d \<Longrightarrow> calm d (f d)) \<Longrightarrow> keeps (at_ease_task d0) (set_row f)"
  unfolding set_row_def by (rule keeps_on_rows, rule keeps_on_tables) simp

lemma keeps_take: "keeps (at_ease_task d0) (take_locks l sid did holder)"
  by (auto simp: keeps_def take_locks_def at_ease_task_def split_beta)

lemma keeps_give: "keeps (at_ease_task d0) (give_locks l sid did toks)"
  by (auto simp: keeps_def give_locks_def touch_def at_ease_task_def)

lemma keeps_always: "keeps P m \<Longrightarrow> keeps P f \<Longrightarrow> keeps P (always m f)"
  by (auto simp: keeps_def always_def split_beta)

lemma keeps_closing:
  assumes "keeps (at_ease_task d0) m" shows "keeps (at_ease_task d0) (closing e i sid aid jt m)"
proof -
  have "keeps (at_ease_task d0) (on_rows (on_tables (end_failed e i sid aid err jt)))" for err
    by (rule keeps_on_rows, rule keeps_on_tables) (rule end_failed_calm)
  moreover have "keeps (at_ease_task d0) (on_rows (on_tables (\<lambda>d. (update_job_status e i ''failed'' kvs d, Inr ()))))" for kvs
    by (rule keeps_on_rows, rule keeps_on_tables) (simp add: update_status_calm)
  ultimately show ?thesis
    unfolding closing_def Let_def by (auto intro!: keeps_rules assms split: exc.split)
qed

lemma keeps_fst: "keeps P m \<Longrightarrow> P s \<Longrightarrow> P (fst (m s))"
  unfolding keeps_def by blast

lemma set_row_eq: "set_row f ((d, w), l) = (((f d, w), l), Inr ())"
  by (simp add: set_row_def on_rows_def on_tables_def)

lemma take_locks_eq: "\<exists>l' toks. take_locks le sid did holder ((d, w), l) = (((d, w), l'), Inr toks)"
  by (simp add: take_locks_def split_beta)

lemma dual_lock_calm:
  assumes "wf_ids d" and "\<And>d1. wf_ids d1 \<Longrightarrow> calm_run d1 (resume d1)"
    and work: "\<And>d1 w1 j. wf_ids d1 \<Longrightarrow> get_job d1 i = Some j \<Longrightarrow> active j \<Longrightarrow> at_ease d1 (fst (work (d1, w1)))"
  shows "at_ease_task d (fst (dual_lock_task e le req retries i sid did aid jt fb tell resume work ((d, w), l)))"
proof (cases "get_job d i")
  case None
  then show ?thesis using assms(1) by (simp add: dual_lock_task_def ret_def at_ease_task_def at_ease_def)
next
  case (Some j)
  have start: "at_ease_task d ((d, w), l)" using assms(1) by (simp add: at_ease_task_def at_ease_def)
  have res: "at_ease_task d (fst (closing e i sid aid jt (andalso (on_rows (on_tables resume)) (ret v)) ((d, w), l)))" for v
  proof -
    have "keeps (at_ease_task d) (closing e i sid aid jt (andalso (on_rows (on_tables resume)) (ret v)))"
      by (intro keeps_closing keeps_rules keeps_on_rows keeps_on_tables assms(2))
    then show ?thesis using start by (rule keeps_fst)
  qed
  let ?d1 = "upd_job i (claim_move req) d"
  have c: "calm d ?d1" by (rule claim_move_calm)
  have wf1: "wf_ids ?d1" using c assms(1) by (rule wf_ids_calm)
  have j1: "get_job ?d1 i = Some (claim_move req j)"
    using Some by (simp add: get_job_upd_same claim_move_def)
  have pend: "at_ease_task d (fst (seq (take_locks le sid did h) (\<lambda>toks. case toks of
        None \<Rightarrow> if LOCK_MAX_RETRIES \<le> retries
          then andalso (set_row (update_job_status e i ''failed'' f1)) (ret v1)
          else andalso (set_row (update_job_status e i ''pending'' f2)) (raise v2)
      | Some t \<Rightarrow> always (closing e i sid aid jt (andalso (on_rows work) (ret OkOut))) (give_locks le sid did t)) ((?d1, w), l)))"
    if act: "active j" for h f1 f2 v1 v2
  proof -
    have act1: "active (claim_move req j)" using act by (simp add: claim_move_def active_def)
    have ease1: "at_ease_task d ((?d1, w), l')" for l' using c wf1 by (simp add: at_ease_task_def at_ease_def)
    have upd: "at_ease_task d ((update_job_status e i st kvs ?d1, w), l')" for st kvs l'
      using update_status_calm [OF wf1, of st i e kvs] j1 act1 c wf1
      by (auto simp: at_ease_task_def at_ease_def intro: calm_trans wf_ids_calm)
    have run: "at_ease_task d (fst (andalso (on_rows work) (ret OkOut) ((?d1, w), l')))" for l'
    proof -
      have "at_ease ?d1 (fst (work (?d1, w)))" using work [OF wf1 j1 act1] .
      then have "at_ease d (fst (work (?d1, w)))" using c by (auto simp: at_ease_def intro: calm_trans)
      then show ?thesis by (auto simp: seq_def on_rows_def ret_def at_ease_task_def split_beta split: sum.split)
    qed
    have clo: "at_ease_task d (fst (closing e i sid aid jt (andalso (on_rows work) (ret OkOut)) ((?d1, w), l')))" for l'
    proof -
      let ?m = "andalso (on_rows work) (ret OkOut)"
      obtain s1 r where m: "?m ((?d1, w), l') = (s1, r)" by (cases "?m ((?d1, w), l')")
      have s1: "at_ease_task d s1" using run [of l'] m by simp
      have "keeps (at_ease_task d) (closing e i sid aid jt (\<lambda>s. (s, r)))"
        by (rule keeps_closing) (simp add: keeps_def)
      moreover have "closing e i sid aid jt ?m ((?d1, w), l') = closing e i sid aid jt (\<lambda>s. (s, r)) s1"
        by (simp add: closing_def catching_def m)
      ultimately show ?thesis using keeps_fst [where P = "at_ease_task d", OF _ s1] by simp
    qed
    obtain l' toks where t: "take_locks le sid did h ((?d1, w), l) = (((?d1, w), l'), Inr toks)"
      using take_locks_eq by metis
    have go: "seq (take_locks le sid did h) f ((?d1, w), l) = f toks ((?d1, w), l')" for f
      by (simp add: seq_def t)
    show ?thesis
    proof (cases toks)
      case None
      then show ?thesis unfolding go by (simp add: seq_def set_row_eq ret_def raise_def upd)
    next
      case (Some tk)
      then show ?thesis
        unfolding go using keeps_fst [where P = "at_ease_task d", OF keeps_give clo [of l']]
        by (simp add: always_def split_beta)
    qed
  qed
  show ?thesis
    using Some start res pend
    by (auto simp: dual_lock_task_def ret_def set_row_eq seq_def [of "set_row f" for f])
qed

lemma service_migrate_calm:
  "wf_ids d \<Longrightarrow> at_ease_task d (fst (service_migrate e m le req n i sid did project aid ((d, w), l)))"
  unfolding service_migrate_def
  by (rule dual_lock_calm) (auto intro: worker_restart_calm execute_move_calm)

lemma service_undo_calm:
  "wf_ids d \<Longrightarrow> at_ease_task d (fst (service_migrate_undo e m le req n i sid did aid ((d, w), l)))"
  unfolding service_migrate_undo_def
  by (rule dual_lock_calm) (auto intro: end_failed_calm execute_undo_calm)

lemma service_recover_calm:
  "wf_ids d \<Longrightarrow> at_ease_task d (fst (service_migrate_dest_recover e m le req n i sid did aid ((d, w), l)))"
  unfolding service_migrate_dest_recover_def
  by (rule dual_lock_calm) (auto intro: end_failed_calm execute_recover_calm)

end
