(* ===== verification/QueueRuns.thy ===== *)
theory QueueRuns
  imports MoveFacts
begin

text \<open>
  Runs of the job queue: a step is one call of the web process, the API, the scheduler or a
  Celery worker, with any environment; a run is any sequence of steps from an empty queue.
  Lane freedom is an invariant of every run.

  A step is atomic. The code takes no database lock between a guard and the insert that
  follows it, so two requests that interleave inside one step are outside this model.
\<close>

definition empty_queue :: "db \<Rightarrow> bool" where
  "empty_queue d = (db_jobs d = [])"

text \<open>
  \<open>types\<close> are the job types the callers of \<open>create_job_and_run\<close> pass. The outside and Redis of a Move
  task are the calls made so far: their answers may be any function of that history.
\<close>

type_synonym outside_history = "move_op list"
type_synonym redis_history = "(command \<times> int) list"

inductive qstep :: "(string \<Rightarrow> bool) \<Rightarrow> db \<Rightarrow> db \<Rightarrow> bool" for types :: "string \<Rightarrow> bool" where
  q_create: "types (r_job_type rq) \<Longrightarrow> create_job_and_run e so rq d = (d', r) \<Longrightarrow> qstep types d d'"
| q_backup: "enqueue_backup_for_server e srv uid sf sch d = (d', r) \<Longrightarrow> qstep types d d'"
| q_os_patch: "enqueue_os_patch_apply e sid uid sch st d = (d', r) \<Longrightarrow> qstep types d d'"
| q_container_patch: "enqueue_container_patch_apply e sid uid sch d = (d', r) \<Longrightarrow> qstep types d d'"
| q_os_check: "enqueue_os_update_check e sid uid d = (d', r) \<Longrightarrow> qstep types d d'"
| q_image_check: "enqueue_container_update_check e sid uid d = (d', r) \<Longrightarrow> qstep types d d'"
| q_stack_check: "enqueue_docker_stack_check e sid path uid d = (d', r) \<Longrightarrow> qstep types d d'"
| q_stack_deploy: "enqueue_docker_stack_deploy e sid path pull files uid d = (d', r) \<Longrightarrow> qstep types d d'"
| q_stack_lifecycle: "enqueue_docker_stack_lifecycle e sid path act uid vols d = (d', r) \<Longrightarrow> qstep types d d'"
| q_stack_remove: "enqueue_docker_stack_remove e sid path wipe uid d = (d', r) \<Longrightarrow> qstep types d d'"
| q_template_deploy: "enqueue_template_deploy e sid slug vals now uid d = (d', r) \<Longrightarrow> qstep types d d'"
| q_template_redeploy: "enqueue_template_redeploy e sid dep pub secs now uid d = (d', r) \<Longrightarrow> qstep types d d'"
| q_template_drift: "enqueue_template_drift_check e sid dep uid d = (d', r) \<Longrightarrow> qstep types d d'"
| q_herder_backup: "enqueue_herder_backup_job e uid ia co rn d = (d', r) \<Longrightarrow> qstep types d d'"
| q_run: "run_exclusive_job e (program_body e x) req i sid aid jt p d = (d', r) \<Longrightarrow> qstep types d d'"
| q_housekeeping: "run_housekeeping_job e w req i sid aid jt d = (d', r) \<Longrightarrow> qstep types d d'"
| q_move: "enqueue_service_migrate e mr d = (d', r) \<Longrightarrow> qstep types d d'"
| q_undo: "enqueue_service_migrate_undo e (m :: outside_history move_env) parent uid d = (d', r) \<Longrightarrow> qstep types d d'"
| q_recover: "enqueue_service_migrate_dest_recover e (m :: outside_history move_env) parent uid d = (d', r) \<Longrightarrow> qstep types d d'"
| q_run_move: "service_migrate e (m :: outside_history move_env) (l :: redis_history lock_env) req n i sid did project aid
    ((d, w), pr) = (((d', w'), pr'), r) \<Longrightarrow> qstep types d d'"
| q_run_undo: "service_migrate_undo e (m :: outside_history move_env) (l :: redis_history lock_env) req n i sid did aid
    ((d, w), pr) = (((d', w'), pr'), r) \<Longrightarrow> qstep types d d'"
| q_run_recover: "service_migrate_dest_recover e (m :: outside_history move_env) (l :: redis_history lock_env) req n i sid did aid
    ((d, w), pr) = (((d', w'), pr'), r) \<Longrightarrow> qstep types d d'"
| q_finish: "terminal_status st \<Longrightarrow> finish e aid i st sn h jt d = Inr d' \<Longrightarrow> qstep types d d'"
| q_progress: "qstep types d (flush_job_progress i c l dc ex d)"
| q_cancel: "cancel_job e i uid msg d = Inr d' \<Longrightarrow> qstep types d d'"
| q_stop: "stop_active_backup e srv jo d = Inr (d', r) \<Longrightarrow> qstep types d d'"
| q_supersede: "supersede_running_backups e sid d = Inr (d', n) \<Longrightarrow> qstep types d d'"
| q_stale: "cleanup_stale_backup_jobs e m d = Inr (d', n) \<Longrightarrow> qstep types d d'"
| q_orphans: "cleanup_orphan_web_jobs e reason d = Inr (d', n) \<Longrightarrow> qstep types d d'"
| q_reconcile: "reconcile_orphaned_running_jobs e ins d = Inr (d', n) \<Longrightarrow> qstep types d d'"
| q_expired: "fail_expired_host_bootstrap_by_id e i d = Inr d' \<Longrightarrow> qstep types d d'"

inductive reachable :: "(string \<Rightarrow> bool) \<Rightarrow> db \<Rightarrow> bool" for types :: "string \<Rightarrow> bool" where
  start: "empty_queue d \<Longrightarrow> reachable types d"
| more: "reachable types d \<Longrightarrow> qstep types d d' \<Longrightarrow> reachable types d'"

inductive_cases qstepE: "qstep types d d'"
inductive_cases reachableE: "reachable types d"

section \<open>Every step is admitted\<close>

lemma supersede_calm: "supersede_running_backups e sid d = Inr (d', n) \<Longrightarrow> calm d d'"
proof -
  assume a: "supersede_running_backups e sid d = Inr (d', n)"
  let ?P = "\<lambda>j. j_server_id j = Some sid \<and> j_job_type j = ''backup'' \<and> active j"
  let ?f = "\<lambda>j s. mark_job_failed e (j_id j) ''Superseded by new backup run'' True
    (revoke_celery_task e (j_celery_task_id j) s)"
  obtain d1 where loop: "rfold ?f (filter ?P (db_jobs d)) d = Inr d1"
    and d': "calm d1 d'"
    using a by (auto simp: supersede_running_backups_def Let_def split: option.splits if_splits elim!: rbind_InrE)
  have "calm s s'" if "?f x s = Inr s'" for x s s'
    using that mark_failed_step revoke_calm calm_trans by meson
  then have "calm d d1" by (intro rfold_calm [OF loop]) blast
  then show ?thesis using d' by (rule calm_trans)
qed

lemma reconcile_calm: "reconcile_orphaned_running_jobs e ins d = Inr (d', n) \<Longrightarrow> calm d d'"
  by (erule reconcile_sweeps) (auto simp: sweeps_def split: option.splits intro: calm_trans)

lemma expired_calm: "fail_expired_host_bootstrap_by_id e i d = Inr d' \<Longrightarrow> calm d d'"
  by (auto simp: fail_expired_host_bootstrap_by_id_def fail_expired_host_bootstrap_def
      split: option.splits if_splits elim!: rbind_InrE dest: fail_and_close_step)

lemma run_calm: "run_exclusive_job e (program_body e x) req i sid aid jt p d = (d', r) \<Longrightarrow>
    wf_ids d \<Longrightarrow> calm d d'"
  by (rule task.run_exclusive_calm)

lemma move_task_calm:
  assumes "at_ease_task d (fst m)" and "m = (((d', w'), l'), r)" shows "calm d d'"
  using assms by (simp add: at_ease_task_def at_ease_def)

lemma enqueued: "enqueue_result clash d (d', r) \<Longrightarrow> wf_ids d \<Longrightarrow> admits clash d d'"
  by (simp add: enqueue_result_def)

lemma qstep_admits:
  assumes "qstep types d d'" and wf: "wf_ids d" and lane: "a_lane clash"
    and cr: "\<And>e so rq r. types (r_job_type rq) \<Longrightarrow> create_job_and_run e so rq d = (d', r) \<Longrightarrow> admits clash d d'"
  shows "admits clash d d'"
  using assms(1)
proof cases
  case (q_create rq e so r)
  then show ?thesis by (rule cr)
next
  case (q_backup e srv uid sf sch r)
  then show ?thesis using backup_admitted [OF lane _ wf] by blast
next
  case (q_os_patch e sid uid sch st r)
  then show ?thesis using os_patch_admitted [OF lane, of d e sid uid sch st] wf by (simp add: enqueued)
next
  case (q_container_patch e sid uid sch r)
  then show ?thesis using container_patch_admitted [OF lane, of d e sid uid sch] wf by (simp add: enqueued)
next
  case (q_os_check e sid uid r)
  then show ?thesis using os_check_admitted [OF lane, of d e sid uid] wf by (simp add: enqueued)
next
  case (q_image_check e sid uid r)
  then show ?thesis using image_check_admitted [OF lane, of d e sid uid] wf by (simp add: enqueued)
next
  case (q_stack_check e sid path uid r)
  then show ?thesis using stack_check_admitted [OF lane, of d e sid path uid] wf by (simp add: enqueued)
next
  case (q_stack_deploy e sid path pull files uid r)
  then show ?thesis using stack_deploy_admitted [OF lane, of d e sid path pull files uid] wf by (simp add: enqueued)
next
  case (q_stack_lifecycle e sid path act uid vols r)
  then show ?thesis using stack_lifecycle_admitted [OF lane, of d e sid path act uid vols] wf by (simp add: enqueued)
next
  case (q_stack_remove e sid path wipe uid r)
  then show ?thesis using stack_remove_admitted [OF lane, of d e sid path wipe uid] wf by (simp add: enqueued)
next
  case (q_template_deploy e sid slug vals now uid r)
  then show ?thesis using template_deploy_admitted [OF lane, of d e sid slug vals now uid] wf by (simp add: enqueued)
next
  case (q_template_redeploy e sid dep pub secs now uid r)
  then show ?thesis using template_redeploy_admitted [OF lane, of d e sid dep pub secs now uid] wf by (simp add: enqueued)
next
  case (q_template_drift e sid dep uid r)
  then show ?thesis using template_drift_admitted [OF lane, of d e sid dep uid] wf by (simp add: enqueued)
next
  case (q_herder_backup e uid ia co rn r)
  then show ?thesis using enqueue_herder_admitted [OF lane wf, of e uid ia co rn] by simp
next
  case (q_run e x req i sid aid jt p r)
  then show ?thesis using run_calm wf calm_admits by blast
next
  case (q_housekeeping e w req i sid aid jt r)
  then show ?thesis using calm_run_housekeeping [OF wf, of e w req i sid aid jt] wf by (simp add: calm_admits)
next
  case (q_move e mr r)
  then show ?thesis using move_admitted [OF lane, of d e mr] wf by (simp add: enqueued)
next
  case (q_undo e m parent uid r)
  then show ?thesis using undo_admitted [OF lane, of d e m parent uid] wf by (simp add: enqueued)
next
  case (q_recover e m parent uid r)
  then show ?thesis using recover_admitted [OF lane, of d e m parent uid] wf by (simp add: enqueued)
next
  case q_run_move
  then show ?thesis by (rule calm_admits [OF move_task_calm [OF service_migrate_calm [OF wf]] wf])
next
  case q_run_undo
  then show ?thesis by (rule calm_admits [OF move_task_calm [OF service_undo_calm [OF wf]] wf])
next
  case q_run_recover
  then show ?thesis by (rule calm_admits [OF move_task_calm [OF service_recover_calm [OF wf]] wf])
next
  case (q_finish st e aid i sn h jt)
  then show ?thesis using finish_calm terminal_not_active wf calm_admits by blast
next
  case (q_progress i c l dc ex)
  then show ?thesis using wf by (simp add: calm_admits)
next
  case (q_cancel e i uid msg)
  then show ?thesis using cancel_job_calm wf calm_admits by blast
next
  case (q_stop e srv jo r)
  then show ?thesis using stop_active_backup_calm wf calm_admits by blast
next
  case (q_supersede e sid n)
  then show ?thesis using supersede_calm wf calm_admits by blast
next
  case (q_stale e m n)
  then show ?thesis using cleanup_stale_sweeps wf calm_admits unfolding sweeps_def by blast
next
  case (q_orphans e reason n)
  then show ?thesis using cleanup_orphan_sweeps wf calm_admits unfolding sweeps_def by blast
next
  case (q_reconcile e ins n)
  then show ?thesis using reconcile_calm wf calm_admits by blast
next
  case (q_expired e i)
  then show ?thesis using expired_calm wf calm_admits by blast
qed

lemma empty_queue_free: "empty_queue d \<Longrightarrow> lane_free clash d \<and> wf_ids d"
  by (simp add: empty_queue_def lane_free_def active_keys_def wf_ids_def)

lemma reachable_host: "reachable types d \<Longrightarrow> lane_free host_clash d \<and> wf_ids d"
proof (induction rule: reachable.induct)
  case (start d)
  then show ?case by (rule empty_queue_free)
next
  case (more d d')
  have wf: "wf_ids d" using more.IH ..
  have "admits host_clash d d'"
  proof (rule qstep_admits [OF more.hyps(2) wf])
    show "a_lane host_clash" by (simp add: a_lane_def)
    fix e so rq r
    assume "create_job_and_run e so rq d = (d', r)"
    then show "admits host_clash d d'" using wf by (rule create_admitted_host)
  qed
  with more.IH show ?case using host_lane.admits_free admits_wf by blast
qed

definition lane_checked_type :: "string \<Rightarrow> bool" where
  "lane_checked_type jt = (jt \<in> set STACK_MUTATING_JOB_TYPES \<longrightarrow> jt \<in> set CONTAINER_SERVICE_JOB_TYPES)"

lemma reachable_stack:
  assumes "reachable types d" and "\<And>jt. types jt \<Longrightarrow> lane_checked_type jt"
  shows "lane_free stack_clash d \<and> wf_ids d"
  using assms(1)
proof (induction rule: reachable.induct)
  case (start d)
  then show ?case by (rule empty_queue_free)
next
  case (more d d')
  have "admits stack_clash d d'"
  proof (rule qstep_admits [OF more.hyps(2)])
    show "wf_ids d" using more.IH ..
    show "a_lane stack_clash" by (simp add: a_lane_def)
    fix e so rq r
    assume "types (r_job_type rq)" and c: "create_job_and_run e so rq d = (d', r)"
    then have "lane_checked_type (r_job_type rq)" using assms(2) by blast
    then show "admits stack_clash d d'"
      using more.IH by (intro create_admitted_stack [OF c]) (auto simp: lane_checked_type_def)
  qed
  with more.IH show ?case using stack_lane.admits_free admits_wf by blast
qed

end
