(* ===== verification/QueueProps.thy ===== *)
theory QueueProps
  imports QueueRuns
begin

text \<open>
  The properties of the job queue as a whole: what every run guarantees of the lanes, and
  what the public operations do to a job.
\<close>

section \<open>Concrete states\<close>

text \<open>One host, an environment with a working broker, and requests through the API.\<close>

definition sample_server :: server where
  "sample_server = \<lparr>s_id = 1, s_name = ''nas'', s_hostname = ''10.0.0.5'', s_ssh_username = ''pi'', s_docker_base_dir = ''~/docker'',
     s_last_seen = None, s_host_facts_status = ''fresh'', s_os_apply_steps = Absent,
     s_os_type = ''debian'', s_last_os_check_at = None, s_os_updates_count = None,
     s_os_updates_summary = Absent, s_reboot_pending = False, s_last_container_check_at = None,
     s_container_updates_count = None, s_container_updates_summary = Absent\<rparr>"

definition sample_db :: db where
  "sample_db = \<lparr>db_jobs = [], db_audits = [], db_servers = [sample_server], db_next_job = 1,
     db_next_audit = 1, db_ssh_down = [], db_host_down = [], db_effects = []\<rparr>"

definition sample_env :: env where
  "sample_env = \<lparr>e_now = 1000000000, e_demo = False, e_inline = False, e_has_celery = True,
     e_publish = Inr ''task-1'', e_request_ip = Some ''10.0.0.9'', e_ssh = (\<lambda>_. True),
     e_redact_text = id, e_encrypt = id, e_decrypt = Some, e_host_wait_env = [],
     e_host_wait_setting = None, e_revoke_ok = True, e_retries_left = True,
     e_error_text = ''error''\<rparr>"

definition api_request :: "string \<Rightarrow> string \<Rightarrow> request" where
  "api_request jt path = \<lparr>r_job_type = jt,
     r_origin = \<lparr>o_user_id = Some 1, o_api_token_id = Some 7, o_api_token_name = Some ''ci''\<rparr>,
     r_source_filter = Some path, r_os_steps = None, r_service = None, r_bootstrap = []\<rparr>"

definition one_deploy :: db where
  "one_deploy = fst (create_job_and_run sample_env (Some sample_server)
     (api_request ''docker_stack_deploy'' ''/srv/web'') sample_db)"

definition two_mutations :: db where
  "two_mutations = fst (create_job_and_run sample_env (Some sample_server)
     (api_request ''docker_stack_stop'' ''/srv/web'') one_deploy)"

definition one_reboot :: db where
  "one_reboot = fst (create_job_and_run sample_env (Some sample_server)
     (api_request ''host_reboot'' []) sample_db)"

definition queued_deploy :: db where
  "queued_deploy = fst (enqueue_docker_stack_deploy sample_env 1 (Some ''/srv/web'') True [] (Some 1) sample_db)"

lemma reachable_sample: "reachable types sample_db"
  by (rule start) (simp add: empty_queue_def sample_db_def)

lemma create_reachable:
  "reachable types d \<Longrightarrow> types (r_job_type rq) \<Longrightarrow> reachable types (fst (create_job_and_run e so rq d))"
  by (rule more [OF _ qstep.q_create [OF _ surjective_pairing]])

lemma reachable_one_deploy: "types ''docker_stack_deploy'' \<Longrightarrow> reachable types one_deploy"
  unfolding one_deploy_def by (rule create_reachable [OF reachable_sample]) (simp add: api_request_def)

lemma reachable_one_reboot: "types ''host_reboot'' \<Longrightarrow> reachable types one_reboot"
  unfolding one_reboot_def by (rule create_reachable [OF reachable_sample]) (simp add: api_request_def)

lemma reachable_queued_deploy: "reachable types queued_deploy"
  unfolding queued_deploy_def
  by (rule more [OF reachable_sample qstep.q_stack_deploy [OF surjective_pairing]])

lemma one_reboot_active: "active_job_of_type one_reboot 1 ''host_reboot'' \<noteq> None"
  by code_simp

section \<open>Lanes\<close>

lemma jobs_distinct: "wf_ids d \<Longrightarrow> distinct (db_jobs d)"
  by (simp add: wf_ids_def distinct_map)

definition active_mutation_on :: "int \<Rightarrow> job \<Rightarrow> bool" where
  "active_mutation_on s j = (j_server_id j = Some s \<and> active j \<and> j_job_type j \<in> set STACK_MUTATING_JOB_TYPES)"



text \<open>C2: in every run, while a reboot of a host is pending or running, no OS patch, container patch
  or backup of that host is.\<close>

theorem reboot_excludes_patch_and_backup:
  assumes "reachable types d" and "s \<noteq> 0" and "active_job_of_type d s ''host_reboot'' = Some j"
    and "jt = ''os_patch'' \<or> jt = ''container_patch'' \<or> jt = ''backup''"
  shows "active_job_of_type d s jt = None"
proof (rule ccontr)
  assume "active_job_of_type d s jt \<noteq> None"
  then obtain j' where "j' \<in> set (db_jobs d)" and j': "active_on s jt j'"
    by (auto dest: active_job_of_type_Some)
  moreover have "j \<in> set (db_jobs d)" and j: "active_on s ''host_reboot'' j"
    using assms(3) by (auto dest: active_job_of_type_Some)
  moreover have "host_clash (j_server_id j, j_job_type j) (j_server_id j', j_job_type j')"
    using j j' assms(2,4) by (auto simp: active_on_def host_clash_def REBOOT_EXCLUDES_def)
  ultimately have "j = j'"
    using host_lane.free_apart reachable_host [OF assms(1)] by (auto simp: active_on_def)
  with j j' assms(4) show False by (auto simp: active_on_def)
qed

theorem reboot_excludes_patch_and_backup_witness:
  "active_job_of_type one_reboot 1 ''backup'' = None"
proof -
  obtain j where "active_job_of_type one_reboot 1 ''host_reboot'' = Some j"
    using one_reboot_active by (cases "active_job_of_type one_reboot 1 ''host_reboot''") auto
  then show ?thesis
    by (intro reboot_excludes_patch_and_backup [OF reachable_one_reboot [where types = "\<lambda>_. True"]]) simp_all
qed

text \<open>C3: as long as \<open>create_job_and_run\<close> is called only with types that are no stack mutations or
  whose guard looks at the stack lane (the one-service container jobs), every run has at most
  one active stack mutation per host.\<close>

theorem one_stack_mutation_per_host:
  assumes "reachable lane_checked_type d" and "s \<noteq> 0"
  shows "length (filter (active_mutation_on s) (db_jobs d)) \<le> 1"
proof (rule count_le_1)
  have r: "lane_free stack_clash d" "wf_ids d" using reachable_stack [OF assms(1)] by blast+
  then show "distinct (db_jobs d)" by (simp add: jobs_distinct)
  fix j j' assume "j \<in> set (db_jobs d)" "j' \<in> set (db_jobs d)" "active_mutation_on s j" "active_mutation_on s j'"
  then show "j = j'"
    using assms(2) stack_lane.free_apart [OF r, of j j'] by (simp add: active_mutation_on_def stack_clash_def)
qed

theorem one_stack_mutation_per_host_witness:
  "length (filter (active_mutation_on 1) (db_jobs queued_deploy)) \<le> 1"
  by (rule one_stack_mutation_per_host [OF reachable_queued_deploy]) simp

text \<open>Through the token API that bound fails: \<open>create_job_and_run\<close> asks a stack job only for its
  own type, so a stop of a project is queued while a deploy on the same host is active.\<close>

theorem api_stack_jobs_share_no_lane:
  "reachable (\<lambda>jt. jt \<in> fst ` set JOB_FEATURE_KEY) two_mutations
   \<and> length (filter (active_mutation_on 1) (db_jobs two_mutations)) = 2"
proof
  have dep: "''docker_stack_deploy'' \<in> fst ` set JOB_FEATURE_KEY" and stop: "''docker_stack_stop'' \<in> fst ` set JOB_FEATURE_KEY"
    by (simp_all add: JOB_FEATURE_KEY_def)
  show "reachable (\<lambda>jt. jt \<in> fst ` set JOB_FEATURE_KEY) two_mutations"
    unfolding two_mutations_def
    by (rule create_reachable [OF reachable_one_deploy]) (simp_all only: api_request_def request.select_convs dep stop)
  show "length (filter (active_mutation_on 1) (db_jobs two_mutations)) = 2"
    by code_simp
qed

section \<open>Requests nothing runs\<close>

text \<open>A template deploy requested through \<open>create_job_and_run\<close> (the token API accepts the type) is
  never handed to a worker: the call leaves a pending row without a task, and no effect.\<close>

theorem template_request_never_dispatched:
  assumes "create_job_and_run e so rq d = (d', Inr i)" and "wf_ids d" and "\<not> e_demo e"
    and "r_job_type rq = ''template_deploy'' \<or> r_job_type rq = ''template_redeploy''"
  shows "db_effects d' = db_effects d \<and> i = db_next_job d
    \<and> (\<exists>j. get_job d' i = Some j \<and> j_status j = ''pending'' \<and> j_celery_task_id j = None)"
proof -
  have jt: "r_job_type rq \<noteq> ''backup''" "r_job_type rq \<noteq> ''docker_prune''" "r_job_type rq \<noteq> ''herder_backup''"
    "r_job_type rq \<noteq> ''retention''" "r_job_type rq \<noteq> ''host_bootstrap''"
    and none: "exclusive_payload rq p = None" for p
    using assms(4) by (auto simp: exclusive_payload_def Let_def CONTAINER_SERVICE_JOB_TYPES_def
        STACK_LIFECYCLE_JOB_TYPES_def STACK_LIFECYCLE_ACTIONS_def)
  obtain p where g: "create_guards e so rq d = (d, Inr p)"
    using assms(1) jt by (auto simp: create_job_and_run_def create_guards_def Let_def andthen_def
        split: sum.splits prod.splits)
  obtain mk where d': "d' = add_audit mk (add_job e (map_option s_id so) (r_job_type rq)
      (Text (JObj (create_details e rq p))) d)" and i: "i = db_next_job d"
    using assms(1,3) jt none
    by (auto simp: create_job_and_run_def g Let_def dispatch_job_def start_audit_def)
  show ?thesis
    using get_job_add_job [OF assms(2)] by (simp add: d' i) (simp add: add_audit_def add_job_def)
qed

definition one_template :: db where
  "one_template = fst (create_job_and_run sample_env (Some sample_server)
     (api_request ''template_deploy'' []) sample_db)"

lemma one_template_created:
  "create_job_and_run sample_env (Some sample_server) (api_request ''template_deploy'' []) sample_db
   = (one_template, Inr 1)"
proof -
  have "snd (create_job_and_run sample_env (Some sample_server) (api_request ''template_deploy'' []) sample_db) = Inr 1"
    by code_simp
  then show ?thesis by (simp add: one_template_def prod_eq_iff)
qed

lemma sample_wf: "wf_ids sample_db"
  by (simp add: wf_ids_def sample_db_def)

theorem template_request_never_dispatched_witness:
  "\<exists>j. get_job one_template 1 = Some j \<and> j_status j = ''pending'' \<and> j_celery_task_id j = None"
  using template_request_never_dispatched [OF one_template_created sample_wf]
  by (simp add: sample_env_def api_request_def)

end
