(* ===== verification/LifeProps.thy ===== *)
theory LifeProps
  imports QueueProps
begin

text \<open>What the public operations do to one job: completion, cancel, the task body, the sweeps.\<close>

section \<open>Sample rows\<close>

definition sample_job :: "int \<Rightarrow> string \<Rightarrow> string \<Rightarrow> int \<Rightarrow> job" where
  "sample_job i jt st created = \<lparr>j_id = i, j_server_id = Some 1, j_job_type = jt, j_status = st,
     j_celery_task_id = Some ''task'', j_worker_hostname = None, j_created_at = created,
     j_started_at = Some created, j_finished_at = None, j_details = Text (JObj [])\<rparr>"

text \<open>A running patch, a pending host check, a cancelled update check, an old backup.\<close>

definition sample_jobs :: "job list" where
  "sample_jobs = [sample_job 1 ''os_patch'' ''running'' 900000000, sample_job 2 ''os_update_check'' ''pending'' 900000000,
     sample_job 3 ''container_update_check'' ''cancelled'' 900000000, sample_job 4 ''backup'' ''running'' (- 9000000000)]"

definition busy_db :: db where
  "busy_db = sample_db\<lparr>db_jobs := sample_jobs, db_next_job := 5\<rparr>"

lemma busy_ok: "db_ok busy_db" and busy_wf: "wf_ids busy_db"
  by code_simp+

lemma busy_rows:
  "get_job busy_db 1 = Some (sample_job 1 ''os_patch'' ''running'' 900000000)"
  "get_job busy_db 2 = Some (sample_job 2 ''os_update_check'' ''pending'' 900000000)"
  "get_job busy_db 3 = Some (sample_job 3 ''container_update_check'' ''cancelled'' 900000000)"
  "get_job busy_db 4 = Some (sample_job 4 ''backup'' ''running'' (- 9000000000))"
  by (simp_all add: busy_db_def sample_jobs_def get_job_def sample_job_def)

lemma sample_job_status [simp]:
  "j_status (sample_job i jt st c) = st" "active (sample_job i jt st c) = active_status st"
  "j_job_type (sample_job i jt st c) = jt" "j_id (sample_job i jt st c) = i"
  "j_server_id (sample_job i jt st c) = Some 1"
  by (simp_all add: sample_job_def active_def)

section \<open>Completion and cancel\<close>



text \<open>The fields of the details a completion with plain text writes.\<close>

definition FINISH_KEYS :: "string set" where
  "FINISH_KEYS = {''current'', ''status'', ''summary'', ''result_snippet'', ''log_line'', ''log_lines'', ''done''}"

lemma finish_writes:
  assumes "db_ok d" and "get_job d i = Some j" and "active j"
  shows "\<exists>d' j'. finish e aid i st (Plain t) h jt d = Inr d' \<and> get_job d' i = Some j'
    \<and> j_status j' = st \<and> j_finished_at j' = Some (e_now e)
    \<and> dget0 (load_dict (j_details j')) ''done'' = JBool True
    \<and> job_key j' = job_key j
    \<and> (\<forall>k. k \<notin> FINISH_KEYS \<longrightarrow> dget (load_dict (j_details j')) k = dget (load_dict (j_details j)) k)
    \<and> (\<forall>k. k \<noteq> i \<longrightarrow> get_job d' k = get_job d k)"
proof -
  obtain d' where fin: "finish e aid i st (Plain t) h jt d = Inr d'"
    using finish_plain_ok [OF assms(1)] by blast
  have nc: "j_status j \<noteq> ''cancelled''" "\<not> terminal_status (j_status j)"
    using assms(3) terminal_not_active by (auto simp: active_def)
  from fin obtain j1 sm where row: "finish_job_row e st (Plain t) sm j = Inr j1"
    and jobs: "db_jobs d' = db_jobs (upd_job i (put_row j1) d)"
    using assms(2) nc(1) by (auto elim!: finish_cases)
  have frame: "j_status j1 = st" "j_finished_at j1 = Some (e_now e)"
    using row nc(2) by (auto simp: finish_job_row_def merge_job_details_def elim!: rbind_InrE)
  obtain data where data: "rfold merge_field (finish_fields st (Plain t) sm) (load_dict (j_details j)) = Inr data"
    and det: "j_details j1 = Text (JObj data)"
    using row nc(2) by (auto simp: finish_job_row_def merge_job_details_def merge_details_def elim!: rbind_InrE)
  have "dget data ''done'' = Some (JBool True)"
    by (rule rfold_merge_value [OF data]) (simp_all add: finish_fields_def snip_data_def)
  then have "dget0 (load_dict (j_details (put_row j1 j))) ''done'' = JBool True" by (simp add: det dget0_def)
  moreover have "get_job d' i = Some (put_row j1 j)" "\<forall>k. k \<noteq> i \<longrightarrow> get_job d' k = get_job d k"
    using upd_job_at [OF _ jobs] assms(2) by simp_all
  moreover have "dget (load_dict (j_details (put_row j1 j))) k = dget (load_dict (j_details j)) k" if "k \<notin> FINISH_KEYS" for k
    using rfold_merge_other [OF data, of k] that by (simp add: det FINISH_KEYS_def finish_fields_def snip_data_def put_row_def)
  ultimately show ?thesis using fin frame by (auto simp: put_row_def job_key_def)
qed



text \<open>What a worker or the web process may still do to a job after it was cancelled.\<close>

datatype late_event =
    LateFinish env int int string snippet string string
  | LateProgress int string string string dict
  | LateFail env int int string string

fun late :: "late_event \<Rightarrow> db \<Rightarrow> db" where
  "late (LateFinish e aid i st sn h jt) d = (case finish e aid i st sn h jt d of Inl _ \<Rightarrow> d | Inr d' \<Rightarrow> d')"
| "late (LateProgress i c l dc ex) d = flush_job_progress i c l dc ex d"
| "late (LateFail e i aid jt m) d = (case fail_message e i aid jt m d of Inl _ \<Rightarrow> d | Inr d' \<Rightarrow> d')"

lemma finish_other:
  "finish e aid i st sn h jt d = Inr d' \<Longrightarrow> k \<noteq> i \<Longrightarrow> get_job d' k = get_job d k"
proof (erule finish_cases)
  fix j j' sm
  assume "k \<noteq> i" and "db_jobs d' = db_jobs (upd_job i (put_row j') d)"
  then show ?thesis using upd_job_at [of "put_row j'" d' i d k] by simp
qed (metis get_job_cong)+

lemma finish_keeps_cancelled:
  assumes "finish e aid i st sn h jt d = Inr d'" and "get_job d k = Some j" and "j_status j = ''cancelled''"
  shows "get_job d' k = Some j"
proof (cases "k = i")
  case True
  then have "db_jobs d' = db_jobs d" using assms by (auto elim!: finish_cases)
  then show ?thesis using assms(2) get_job_cong by metis
next
  case False
  then show ?thesis using finish_other [OF assms(1)] assms(2) by simp
qed

lemma late_keeps_cancelled:
  assumes "get_job d k = Some j" and "j_status j = ''cancelled''"
  shows "get_job (late ev d) k = Some j"
proof (cases ev)
  case (LateFinish e aid i st sn h jt)
  then show ?thesis using assms by (auto split: sum.splits dest: finish_keeps_cancelled)
next
  case (LateProgress i c l dc ex)
  have na: "\<not> active j" using assms(2) by (simp add: active_def)
  show ?thesis
  proof (cases "k = i")
    case True
    then show ?thesis using LateProgress assms na by (simp add: flush_inactive)
  next
    case False
    then show ?thesis using LateProgress assms(1)
      by (auto simp: flush_job_progress_def get_job_upd_other split: option.splits sum.splits)
  qed
next
  case (LateFail e i aid jt m)
  then show ?thesis using assms
    by (auto simp: fail_message_def Let_def split: sum.splits option.splits if_splits dest: finish_keeps_cancelled)
qed


lemma cancel_busy: "\<exists>d1. cancel_job sample_env 2 None None busy_db = Inr d1"
proof -
  have "case cancel_job sample_env 2 None None busy_db of Inl _ \<Rightarrow> False | Inr _ \<Rightarrow> True" by code_simp
  then show ?thesis by (auto split: sum.splits)
qed


text \<open>\<open>cancel_job\<close> of an active job whose log is a list always succeeds: it revokes the Celery task,
  adds one audit row of the cancel, marks that row only; any other job is refused.\<close>

theorem cancel_job_outcome:
  assumes "db_ok d" and "get_job d i = Some j"
  shows "if active j
    then \<exists>d' det a. cancel_job e i uid msg d = Inr d'
      \<and> get_job d' i = Some (set_terminal e ''cancelled'' det j)
      \<and> (\<forall>k. k \<noteq> i \<longrightarrow> get_job d' k = get_job d k)
      \<and> last (db_audits d') = a \<and> a_action a = ''job_cancel'' \<and> a_status a = ''cancelled''
    else cancel_job e i uid msg d = Inl (JobNotCancellable (''Job is already '' @ j_status j))"
proof (cases "active j")
  case True
  let ?m = "cancel_message msg"
  let ?s = "cancel_signals e ?m j d"
  have "db_ok ?s" "get_job ?s i = Some j" using assms by (simp_all add: db_ok_def)
  then obtain d2 where m: "mark_job_terminal e i ?m ''cancelled'' (j_job_type j = ''backup'') ?s = Inr d2"
    using mark_terminal_ok by blast
  obtain det where det: "get_job d2 i = Some (set_terminal e ''cancelled'' det j)"
    and other: "\<And>k. k \<noteq> i \<Longrightarrow> get_job d2 k = get_job ?s k"
    using marked_get [OF mark_terminal_marked [OF m]] assms(2)
    by (metis (no_types, lifting) cancel_signals_frame(2) option.simps(9))
  have c: "cancel_job e i uid msg d = Inr (cancel_audit e uid ?m j d2)"
    using assms(2) True m by (simp add: cancel_job_def mark_job_cancelled_def Let_def)
  show ?thesis
    using True c det other
    by (auto simp: cancel_audit_def add_audit_def make_audit_log_def Let_def get_job_def)
next
  case False
  then show ?thesis using assms(2) by (simp add: cancel_job_def)
qed

theorem cancel_job_outcome_witness:
  "cancel_job sample_env 3 None None busy_db = Inl (JobNotCancellable ''Job is already cancelled'')"
  using cancel_job_outcome [OF busy_ok busy_rows(3)] by simp

end
