(* ===== verification/ExclusiveProps.thy ===== *)
theory ExclusiveProps
  imports LifeProps
begin

text \<open>The Celery task body: redelivery, cancel before the start, and the bounded wait for SSH.\<close>

section \<open>Redelivery and cancel\<close>

lemma claim_db_ok: "db_ok d \<Longrightarrow> db_ok (upd_job i (claim_row req) d)"
  by (rule db_ok_upd) simp_all

lemma fail_message_fails:
  assumes "db_ok d" and "get_job d i = Some j" and "active j"
  shows "\<exists>d' j'. fail_message e i aid jt m d = Inr d' \<and> get_job d' i = Some j' \<and> j_status j' = ''failed''"
proof -
  let ?h = "if \<not> nonzero (j_server_id j) then [] else (case get_server d (the (j_server_id j)) of
    Some s \<Rightarrow> s_hostname s | None \<Rightarrow> [])"
  have "fail_message e i aid jt m d = finish e aid i ''failed'' (Plain m) ?h jt d"
    using assms(2,3) by (simp add: fail_message_def Let_def)
  then show ?thesis
    using finish_writes [OF assms, of e aid "''failed''" m ?h jt] by auto
qed

text \<open>A redelivered task that finds its job already running never resumes it: whatever the executors
  are, none is called, and the job ends failed.\<close>

theorem running_redelivery_fails:
  assumes "db_ok d" and "get_job d i = Some j" and "j_status j = ''running''"
    and "j_job_type j \<in> set EXCLUSIVE_CELERY_TYPES"
  shows "\<exists>d' j'. (\<forall>body. run_exclusive_job e body req i sid aid jt p d = (d', Inr (FailedOut ''worker_restart'')))
    \<and> get_job d' i = Some j' \<and> j_status j' = ''failed''"
proof -
  let ?d1 = "upd_job i (claim_row req) d"
  have j1: "get_job ?d1 i = Some (claim_row req j)" using assms(2) by (simp add: get_job_upd_same)
  have "active (claim_row req j)" using assms(3) by (simp add: active_def)
  then obtain d' j' where f: "fail_message e i aid (j_job_type j) redelivery_message ?d1 = Inr d'"
    and j': "get_job d' i = Some j'" "j_status j' = ''failed''"
    using fail_message_fails [OF claim_db_ok [OF assms(1)] j1] by blast
  have "j_job_type j \<noteq> []" using assms(4) by (auto simp: EXCLUSIVE_CELERY_TYPES_def)
  then have "exclusive_try e body req i sid aid jt p d = (d', Inr (FailedOut ''worker_restart''))" for body
    using assms f by (simp add: exclusive_try_def Let_def active_def)
  then have "run_exclusive_job e body req i sid aid jt p d = (d', Inr (FailedOut ''worker_restart''))" for body
    by (simp add: run_exclusive_job_def)
  with j' show ?thesis by blast
qed

theorem running_redelivery_fails_witness:
  "\<exists>d' j'. (\<forall>body. run_exclusive_job sample_env body NoRequest 1 1 1 ''os_patch'' [] busy_db
       = (d', Inr (FailedOut ''worker_restart'')))
     \<and> get_job d' 1 = Some j' \<and> j_status j' = ''failed''"
  using running_redelivery_fails [OF busy_ok busy_rows(1)] by (simp add: EXCLUSIVE_CELERY_TYPES_def)

section \<open>The wait for SSH\<close>

definition EXCLUSIVE_MAX_RETRIES :: int where "EXCLUSIVE_MAX_RETRIES = 3000"

text \<open>C23: whatever the environment variable and the stored setting hold, the wait for SSH lies between
  30 seconds and 24 hours, and Celery's retries of 30 seconds each never run out before it.\<close>

theorem host_wait_limit_bounds:
  "30 \<le> host_wait_limit_sec e \<and> host_wait_limit_sec e \<le> 86400
   \<and> host_wait_limit_sec e < HOST_WAIT_COUNTDOWN_SEC * EXCLUSIVE_MAX_RETRIES"
proof -
  have "30 \<le> clamp_host_wait_sec v \<and> clamp_host_wait_sec v \<le> 86400" for v
    by (simp add: clamp_host_wait_sec_def HOST_WAIT_FLOOR_SEC_def HOST_WAIT_CEILING_SEC_def Let_def)
  then have "30 \<le> host_wait_limit_sec e \<and> host_wait_limit_sec e \<le> 86400"
    by (simp add: host_wait_limit_sec_def)
  then show ?thesis by (simp add: HOST_WAIT_COUNTDOWN_SEC_def EXCLUSIVE_MAX_RETRIES_def)
qed

text \<open>A pending job of a known host, and since when it waits in the eyes of one probe.\<close>

definition waiting_job :: "db \<Rightarrow> int \<Rightarrow> job \<Rightarrow> bool" where
  "waiting_job d i j = (get_job d i = Some j \<and> j_status j = ''pending'' \<and> nonzero (j_server_id j)
     \<and> get_server d (the (j_server_id j)) \<noteq> None)"

definition waits_since :: "env \<Rightarrow> job \<Rightarrow> int" where
  "waits_since e j = wait_started e (load_dict (j_details j))"

lemma wait_merge:
  assumes "det_ok (j_details j)"
  shows "\<exists>data. merge_job_details (wait_fields t l) j = Inr (j\<lparr>j_details := Text (JObj data)\<rparr>)
    \<and> dget0 data ''host_wait_started'' = JStamp t \<and> det_ok (Text (JObj data))"
proof -
  obtain data where data: "rfold merge_field (wait_fields t l) (load_dict (j_details j)) = Inr data"
    and ok: "det_ok (Text (JObj data))"
    using rfold_merge_ok [OF det_ok_load [OF assms], of "wait_fields t l"] by (auto simp: wait_fields_def kv_ok_def)
  have "dget data ''host_wait_started'' = Some (JStamp t)"
    by (rule rfold_merge_value [OF data]) (simp_all add: wait_fields_def)
  then show ?thesis using data ok by (auto simp: merge_job_details_def merge_details_def dget0_def)
qed

lemma wait_continues:
  assumes "db_ok d" and "waiting_job d i j" and "e_now e - waits_since e j < seconds (host_wait_limit_sec e)"
  shows "\<exists>d' data. wait_for_host e i aid jt d = (d', Inl (Retry HOST_WAIT_COUNTDOWN_SEC))
    \<and> waiting_job d' i (j\<lparr>j_details := Text (JObj data)\<rparr>)
    \<and> dget0 data ''host_wait_started'' = JStamp (waits_since e j) \<and> db_ok d'
    \<and> (\<forall>k. k \<noteq> i \<longrightarrow> get_job d' k = get_job d k)"
proof -
  have j: "get_job d i = Some j" "j_status j = ''pending''" "nonzero (j_server_id j)"
    "get_server d (the (j_server_id j)) \<noteq> None" using assms(2) by (auto simp: waiting_job_def)
  obtain data where m: "merge_job_details (wait_fields (waits_since e j) (host_wait_limit_sec e)) j
      = Inr (j\<lparr>j_details := Text (JObj data)\<rparr>)"
    and st: "dget0 data ''host_wait_started'' = JStamp (waits_since e j)" and ok: "det_ok (Text (JObj data))"
    using wait_merge det_ok_get [OF assms(1) j(1)] by blast
  let ?f = "\<lambda>r. r\<lparr>j_details := Text (JObj data), j_status := ''pending''\<rparr>"
  have w: "wait_for_host e i aid jt d = (upd_job i ?f d, Inl (Retry HOST_WAIT_COUNTDOWN_SEC))"
    using j assms(3) m by (auto simp: wait_for_host_def Let_def waits_since_def active_def)
  have "waiting_job (upd_job i ?f d) i (j\<lparr>j_details := Text (JObj data)\<rparr>)"
    using j by (simp add: waiting_job_def get_job_upd_same)
  moreover have "db_ok (upd_job i ?f d)" using assms(1) ok by (auto intro: db_ok_upd)
  ultimately show ?thesis using w st get_job_upd_other by fastforce
qed

lemma wait_ends:
  assumes "db_ok d" and "waiting_job d i j" and "e_now e - waits_since e j \<ge> seconds (host_wait_limit_sec e)"
  shows "\<exists>d' j'. wait_for_host e i aid jt d = (d', Inr (FailedOut ''host_wait''))
    \<and> get_job d' i = Some j' \<and> j_status j' = ''failed''"
proof -
  have j: "get_job d i = Some j" "j_status j = ''pending''" "nonzero (j_server_id j)"
    "get_server d (the (j_server_id j)) \<noteq> None" using assms(2) by (auto simp: waiting_job_def)
  then have "active j" by (simp add: active_def)
  then obtain d' j' where f: "fail_message e i aid jt (unreachable_message (host_wait_limit_sec e)) d = Inr d'"
    and j': "get_job d' i = Some j'" "j_status j' = ''failed''"
    using fail_message_fails [OF assms(1) j(1)] by blast
  have "wait_for_host e i aid jt d = (d', Inr (FailedOut ''host_wait''))"
    using j assms(3) f by (auto simp: wait_for_host_def Let_def waits_since_def active_def)
  with j' show ?thesis by blast
qed

text \<open>One probe of a job whose host does not answer: before the limit the row stays pending, keeps
  the instant the wait began and the task is retried; at the limit the job fails.\<close>

theorem wait_for_host_outcome:
  assumes "db_ok d" and "waiting_job d i j"
  shows "if e_now e - waits_since e j < seconds (host_wait_limit_sec e)
    then \<exists>d' j'. wait_for_host e i aid jt d = (d', Inl (Retry 30)) \<and> waiting_job d' i j'
      \<and> (\<forall>e'. waits_since e' j' = waits_since e j)
    else \<exists>d' j'. wait_for_host e i aid jt d = (d', Inr (FailedOut ''host_wait''))
      \<and> get_job d' i = Some j' \<and> j_status j' = ''failed''"
proof (cases "e_now e - waits_since e j < seconds (host_wait_limit_sec e)")
  case True
  from wait_continues [OF assms True] obtain d' data where
    "wait_for_host e i aid jt d = (d', Inl (Retry HOST_WAIT_COUNTDOWN_SEC))"
    and "waiting_job d' i (j\<lparr>j_details := Text (JObj data)\<rparr>)"
    and "dget0 data ''host_wait_started'' = JStamp (waits_since e j)" by blast
  moreover from this(3) have "waits_since e' (j\<lparr>j_details := Text (JObj data)\<rparr>) = waits_since e j" for e'
    by (simp add: waits_since_def wait_started_def)
  ultimately show ?thesis using True by (auto simp: HOST_WAIT_COUNTDOWN_SEC_def)
next
  case False
  then show ?thesis using wait_ends [OF assms] by simp
qed

lemma busy_waiting: "waiting_job busy_db 2 (sample_job 2 ''os_update_check'' ''pending'' 900000000)"
  by (simp add: waiting_job_def busy_rows nonzero_def) (simp add: busy_db_def sample_db_def sample_server_def get_server_def)

theorem wait_for_host_outcome_witness:
  "\<exists>d' j'. wait_for_host sample_env 2 1 ''os_update_check'' busy_db = (d', Inl (Retry 30)) \<and> waiting_job d' 2 j'"
proof -
  have "waits_since sample_env (sample_job 2 ''os_update_check'' ''pending'' 900000000) = e_now sample_env"
    by (simp add: waits_since_def wait_started_def sample_job_def dget0_def dget_def)
  moreover have "0 < seconds (host_wait_limit_sec sample_env)" by code_simp
  ultimately show ?thesis
    using wait_for_host_outcome [OF busy_ok busy_waiting, of sample_env 1 "''os_update_check''"] by auto
qed

text \<open>A series of probes: each retry is followed by the next probe, with its own clock and settings.\<close>

fun probes :: "env list \<Rightarrow> int \<Rightarrow> int \<Rightarrow> string \<Rightarrow> db \<Rightarrow> db \<times> outcome option" where
  "probes [] i aid jt d = (d, None)"
| "probes (e # es) i aid jt d = (case wait_for_host e i aid jt d of
     (d1, Inl (Retry n)) \<Rightarrow> probes es i aid jt d1
   | (d1, Inl x) \<Rightarrow> (d1, None)
   | (d1, Inr out) \<Rightarrow> (d1, Some out))"

lemma probes_end:
  assumes "db_ok d" and "waiting_job d i j" and "\<And>e. waits_since e j = t"
    and "\<exists>e\<in>set es. e_now e - t \<ge> seconds (host_wait_limit_sec e)"
  shows "\<exists>d' j'. probes es i aid jt d = (d', Some (FailedOut ''host_wait''))
    \<and> get_job d' i = Some j' \<and> j_status j' = ''failed''"
  using assms
proof (induction es arbitrary: d j)
  case (Cons e es)
  show ?case
  proof (cases "e_now e - waits_since e j < seconds (host_wait_limit_sec e)")
    case True
    from wait_continues [OF Cons.prems(1,2) True, of aid jt] obtain d' data where
      w: "wait_for_host e i aid jt d = (d', Inl (Retry HOST_WAIT_COUNTDOWN_SEC))"
      and wj: "waiting_job d' i (j\<lparr>j_details := Text (JObj data)\<rparr>)"
      and st: "dget0 data ''host_wait_started'' = JStamp (waits_since e j)" and ok: "db_ok d'" by blast
    have "waits_since e' (j\<lparr>j_details := Text (JObj data)\<rparr>) = t" for e'
      using st Cons.prems(3) by (simp add: waits_since_def wait_started_def)
    moreover have "\<exists>e\<in>set es. e_now e - t \<ge> seconds (host_wait_limit_sec e)"
      using Cons.prems(3,4) True by auto
    ultimately show ?thesis using Cons.IH [OF ok wj] w by simp
  next
    case False
    then show ?thesis using wait_ends [OF Cons.prems(1,2), of e aid jt] by auto
  qed
qed simp

text \<open>C24: the wait always ends: when the first probe sets the start of the wait, any series of later
  probes in which one comes at or after its limit leaves the job failed, and never pending.\<close>

theorem wait_for_host_ends:
  assumes "db_ok d" and "waiting_job d i j" and "dget0 (load_dict (j_details j)) ''host_wait_started'' = JNull"
    and "e \<in> set es" and "e_now e - e_now e0 \<ge> seconds (host_wait_limit_sec e)"
  shows "\<exists>d' j'. probes (e0 # es) i aid jt d = (d', Some (FailedOut ''host_wait''))
    \<and> get_job d' i = Some j' \<and> j_status j' = ''failed''"
proof -
  have s0: "waits_since e0 j = e_now e0" using assms(3) by (simp add: waits_since_def wait_started_def)
  have "30 \<le> clamp_host_wait_sec v" for v
    by (simp add: clamp_host_wait_sec_def HOST_WAIT_FLOOR_SEC_def HOST_WAIT_CEILING_SEC_def Let_def)
  then have "e_now e0 - waits_since e0 j < seconds (host_wait_limit_sec e0)"
    using s0 by (simp add: host_wait_limit_sec_def seconds_def) (smt (verit, best))
  from wait_continues [OF assms(1,2) this, of aid jt] obtain d' data where
    w: "wait_for_host e0 i aid jt d = (d', Inl (Retry HOST_WAIT_COUNTDOWN_SEC))"
    and wj: "waiting_job d' i (j\<lparr>j_details := Text (JObj data)\<rparr>)"
    and st: "dget0 data ''host_wait_started'' = JStamp (waits_since e0 j)" and ok: "db_ok d'" by blast
  have "waits_since e' (j\<lparr>j_details := Text (JObj data)\<rparr>) = e_now e0" for e'
    using st s0 by (simp add: waits_since_def wait_started_def)
  from probes_end [OF ok wj this, of es aid jt] show ?thesis using assms(4,5) w by auto
qed

theorem wait_for_host_ends_witness:
  "\<exists>d' j'. probes [sample_env, sample_env\<lparr>e_now := 2800000000\<rparr>] 2 1 ''os_update_check'' busy_db
       = (d', Some (FailedOut ''host_wait''))
     \<and> get_job d' 2 = Some j' \<and> j_status j' = ''failed''"
proof (rule wait_for_host_ends [OF busy_ok busy_waiting])
  show "sample_env\<lparr>e_now := 2800000000\<rparr> \<in> set [sample_env\<lparr>e_now := 2800000000\<rparr>]" by simp
  have "host_wait_limit_sec (sample_env\<lparr>e_now := 2800000000\<rparr>) = 1800" by code_simp
  then show "e_now (sample_env\<lparr>e_now := 2800000000\<rparr>) - e_now sample_env
      \<ge> seconds (host_wait_limit_sec (sample_env\<lparr>e_now := 2800000000\<rparr>))"
    by (simp add: seconds_def sample_env_def)
qed (simp add: sample_job_def dget0_def dget_def)

end
