(* ===== verification/SweepProps.thy ===== *)
theory SweepProps
  imports ExclusiveProps
begin

text \<open>The recovery sweeps: exactly which rows each of them fails, and that it returns.\<close>

text \<open>Row \<open>j\<close> of a job before a sweep and its row after it.\<close>

definition failed_row :: "env \<Rightarrow> job \<Rightarrow> job \<Rightarrow> bool" where
  "failed_row e j j' = (job_key j' = job_key j \<and> j_status j' = ''failed'' \<and> j_finished_at j' = Some (e_now e)
     \<and> j_created_at j' = j_created_at j \<and> j_celery_task_id j' = j_celery_task_id j)"

definition swept :: "env \<Rightarrow> (job \<Rightarrow> bool) \<Rightarrow> db \<Rightarrow> db \<Rightarrow> bool" where
  "swept e P d d' = (\<forall>k. case get_job d k of
       None \<Rightarrow> get_job d' k = None
     | Some j \<Rightarrow> if P j then \<exists>j'. get_job d' k = Some j' \<and> failed_row e j j' else get_job d' k = Some j)"

lemma get_job_none_sweep: "sweeps e P d d' \<Longrightarrow> get_job d k = None \<Longrightarrow> get_job d' k = None"
proof -
  assume "sweeps e P d d'" and n: "get_job d k = None"
  then have ids: "map j_id (db_jobs d') = map j_id (db_jobs d)" by (simp add: sweeps_def calm_def)
  then have "j_id ` set (db_jobs d') = j_id ` set (db_jobs d)" by (metis list.set_map)
  with n show ?thesis by (simp add: get_job_def get_row_None) (metis imageE imageI)
qed

lemma sweeps_swept: "sweeps e P d d' \<Longrightarrow> wf_ids d \<Longrightarrow> swept e P d d'"
  using sweeps_row get_job_none_sweep
  by (fastforce simp: swept_def failed_row_def set_terminal_def job_key_def split: option.splits)

lemma swept_row: "swept e P d d' \<Longrightarrow> get_job d k = Some j \<Longrightarrow>
    if P j then \<exists>j'. get_job d' k = Some j' \<and> failed_row e j j' else get_job d' k = Some j"
  by (auto simp: swept_def dest: spec [of _ k])

text \<open>C25: the stale sweep returns, and it fails exactly the active Celery jobs older than their limit: 30
  minutes for host facts, the given age for the others. No other row changes.\<close>

theorem stale_sweep_exact:
  assumes "db_ok d" and "wf_ids d"
  shows "\<exists>d'. cleanup_stale_backup_jobs e m d = Inr (d', length (filter (is_stale (e_now e) m) (db_jobs d)))
    \<and> swept e (is_stale (e_now e) m) d d'"
  using cleanup_stale_ok [OF assms(1), of e m] cleanup_stale_sweeps sweeps_swept [OF _ assms(2)] by blast

theorem stale_sweep_exact_witness:
  "\<exists>d'. cleanup_stale_backup_jobs sample_env 120 busy_db
       = Inr (d', length (filter (is_stale (e_now sample_env) 120) (db_jobs busy_db)))
     \<and> swept sample_env (is_stale (e_now sample_env) 120) busy_db d'"
  by (rule stale_sweep_exact [OF busy_ok busy_wf])

text \<open>The sweep after a web restart fails exactly the active jobs the web process owned: no row with a
  task id, of a Celery type or of nmap is touched.\<close>

theorem orphan_sweep_exact:
  assumes "db_ok d" and "wf_ids d"
  shows "\<exists>d' n. cleanup_orphan_web_jobs e r d = Inr (d', n)
    \<and> swept e (\<lambda>j. active j \<and> \<not> is_celery_owned_job j) d d'"
  using cleanup_orphan_ok [OF assms(1), of e r] cleanup_orphan_sweeps sweeps_swept [OF _ assms(2)] by blast

theorem orphan_sweep_exact_witness:
  "\<exists>d' n. cleanup_orphan_web_jobs sample_env orphan_web_reason busy_db = Inr (d', n)
     \<and> swept sample_env (\<lambda>j. active j \<and> \<not> is_celery_owned_job j) busy_db d'"
  by (rule orphan_sweep_exact [OF busy_ok busy_wf])

section \<open>Reconciling with the workers\<close>

lemma lost_pass_ok:
  assumes "db_ok d"
  shows "\<exists>d'. rfold (lost_step e) (filter P (db_jobs d)) d = Inr d' \<and> db_ok d'"
  by (rule sweepsI_ok [where f = "lost_step e" and e = e, OF assms lost_step_ok lost_step_step])

lemma reconcile_ok:
  assumes "db_ok d" shows "\<exists>d' n. reconcile_orphaned_running_jobs e ins d = Inr (d', n)"
proof -
  obtain d1 where 1: "rfold (\<lambda>j. fail_and_close e j HOST_BOOTSTRAP_EXPIRED_REASON)
      (filter (expired_bootstrap (e_now e)) (db_jobs d)) d = Inr d1" and ok1: "db_ok d1"
    using sweepsI_ok [where f = "\<lambda>j. fail_and_close e j HOST_BOOTSTRAP_EXPIRED_REASON" and e = e,
        OF assms fail_and_close_ok fail_and_close_step [where r = HOST_BOOTSTRAP_EXPIRED_REASON]] by blast
  have "\<exists>d'. rfold (lost_step e) (filter (lost_job (e_now e) act) (filter (\<lambda>j. j_status j = ''running'') (db_jobs d1))) d1
      = Inr d'" for act
    using lost_pass_ok [OF ok1, of e "\<lambda>j. j_status j = ''running'' \<and> lost_job (e_now e) act j"]
    by (auto simp: filter_filter)
  then show ?thesis
    using 1 by (auto simp: reconcile_orphaned_running_jobs_def expired_pass reconcile_loop split: option.splits)
      (metis rbind_simps(2))
qed

text \<open>A second sweep leaves the rows the first has failed as they are.\<close>

lemma swept_twice:
  assumes 1: "swept e P d d1" and 2: "swept e Q d1 d2" and no: "\<And>j. j_status j = ''failed'' \<Longrightarrow> \<not> Q j"
  shows "swept e (\<lambda>j. P j \<or> Q j) d d2"
  unfolding swept_def
proof
  fix k
  show "case get_job d k of None \<Rightarrow> get_job d2 k = None
     | Some j \<Rightarrow> if P j \<or> Q j then \<exists>j'. get_job d2 k = Some j' \<and> failed_row e j j' else get_job d2 k = Some j"
  proof (cases "get_job d k")
    case None
    then have "get_job d1 k = None" using spec [OF 1 [unfolded swept_def], of k] by simp
    then show ?thesis using None spec [OF 2 [unfolded swept_def], of k] by simp
  next
    case (Some j)
    show ?thesis
    proof (cases "P j")
      case True
      then obtain j1 where j1: "get_job d1 k = Some j1" "failed_row e j j1" using swept_row [OF 1 Some] by auto
      then have "\<not> Q j1" using no by (simp add: failed_row_def)
      then show ?thesis using swept_row [OF 2 j1(1)] j1(2) True Some by simp
    next
      case False
      then have "get_job d1 k = Some j" using swept_row [OF 1 Some] by simp
      then show ?thesis using swept_row [OF 2, of k j] False Some by simp
    qed
  qed
qed

text \<open>Which rows a reconcile pass gives up.\<close>

definition given_up :: "env \<Rightarrow> inspection \<Rightarrow> job \<Rightarrow> bool" where
  "given_up e ins j = (expired_bootstrap (e_now e) j
     \<or> (case celery_worker_activity ins of None \<Rightarrow> False
        | Some act \<Rightarrow> j_status j = ''running'' \<and> lost_job (e_now e) act j))"

text \<open>A reconcile pass returns, and it fails exactly the pending bootstraps past their broker expiry
  and the running Celery jobs that are lost. Without a usable answer of the inspector no running job is
  failed.\<close>

theorem reconcile_exact:
  assumes "db_ok d" and "wf_ids d"
  shows "\<exists>d' n. reconcile_orphaned_running_jobs e ins d = Inr (d', n) \<and> swept e (given_up e ins) d d'"
proof -
  obtain d' n where r: "reconcile_orphaned_running_jobs e ins d = Inr (d', n)"
    using reconcile_ok [OF assms(1)] by blast
  from r obtain d1 where 1: "sweeps e (expired_bootstrap (e_now e)) d d1"
    and 2: "(case celery_worker_activity ins of None \<Rightarrow> d' = d1
          | Some act \<Rightarrow> sweeps e (\<lambda>j. j_status j = ''running'' \<and> lost_job (e_now e) act j) d1 d')"
    by (rule reconcile_sweeps)
  have s1: "swept e (expired_bootstrap (e_now e)) d d1" using sweeps_swept [OF 1 assms(2)] .
  have wf1: "wf_ids d1" using 1 assms(2) wf_ids_calm by (auto simp: sweeps_def)
  have "swept e (given_up e ins) d d'"
  proof (cases "celery_worker_activity ins")
    case None
    then show ?thesis using s1 2 by (simp add: given_up_def [abs_def])
  next
    case (Some act)
    have "swept e (\<lambda>j. expired_bootstrap (e_now e) j \<or> (j_status j = ''running'' \<and> lost_job (e_now e) act j)) d d'"
      by (rule swept_twice [OF s1]) (use 2 Some sweeps_swept [OF _ wf1] in simp_all)
    then show ?thesis using Some by (simp add: given_up_def [abs_def])
  qed
  with r show ?thesis by blast
qed

theorem reconcile_exact_witness:
  "\<exists>d' n. reconcile_orphaned_running_jobs sample_env NoInspector busy_db = Inr (d', n)
     \<and> swept sample_env (given_up sample_env NoInspector) busy_db d'"
  by (rule reconcile_exact [OF busy_ok busy_wf])

end
