(* ===== verification/AuditProps.thy ===== *)
theory AuditProps
  imports SweepProps
begin

text \<open>
  The hand-off to the broker, the wait for a host against the stale sweep, the audit row of a job,
  and the job list.
\<close>

section \<open>The stale sweep and the wait for SSH\<close>

text \<open>The stale sweep counts from the creation of the row, so it fails a job that still waits for its
  host within the configured limit: a probe at the same instant would retry it.\<close>

theorem stale_sweep_ends_wait:
  assumes "db_ok d" and "wf_ids d" and "waiting_job d i j" and "j_job_type j \<in> set EXCLUSIVE_CELERY_TYPES"
    and "j_job_type j \<noteq> ''host_facts''" and "j_created_at j < e_now e - minutes 120"
    and "e_now e - waits_since e j < seconds (host_wait_limit_sec e)"
  shows "(\<exists>d' n j'. cleanup_stale_backup_jobs e 120 d = Inr (d', n) \<and> get_job d' i = Some j' \<and> j_status j' = ''failed'')
    \<and> (\<exists>d' j'. wait_for_host e i aid jt d = (d', Inl (Retry HOST_WAIT_COUNTDOWN_SEC)) \<and> waiting_job d' i j')"
proof
  have j: "get_job d i = Some j" and "active j" using assms(3) by (auto simp: waiting_job_def active_def)
  then have "is_stale (e_now e) 120 j" using assms(4-6) by (simp add: is_stale_def stale_job_types_def)
  moreover obtain d' n where "cleanup_stale_backup_jobs e 120 d = Inr (d', n)"
    using cleanup_stale_ok [OF assms(1), of e 120] by blast
  ultimately show "\<exists>d' n j'. cleanup_stale_backup_jobs e 120 d = Inr (d', n) \<and> get_job d' i = Some j' \<and> j_status j' = ''failed''"
    using cleanup_stale_sweeps sweeps_row [OF _ assms(2) j] by (fastforce simp: set_terminal_def)
  show "\<exists>d' j'. wait_for_host e i aid jt d = (d', Inl (Retry HOST_WAIT_COUNTDOWN_SEC)) \<and> waiting_job d' i j'"
    using wait_continues [OF assms(1,3,7), of aid jt] by blast
qed

definition day_env :: env where
  "day_env = sample_env\<lparr>e_now := 20000000000, e_host_wait_setting := Some (JInt 86400)\<rparr>"

lemma day_limit: "host_wait_limit_sec day_env = 86400"
  by code_simp

theorem stale_sweep_ends_wait_witness:
  "(\<exists>d' n j'. cleanup_stale_backup_jobs day_env 120 busy_db = Inr (d', n) \<and> get_job d' 2 = Some j'
      \<and> j_status j' = ''failed'')
   \<and> (\<exists>d' j'. wait_for_host day_env 2 1 ''os_update_check'' busy_db = (d', Inl (Retry HOST_WAIT_COUNTDOWN_SEC))
      \<and> waiting_job d' 2 j')"
  by (rule stale_sweep_ends_wait [OF busy_ok busy_wf busy_waiting])
    (simp_all add: day_limit EXCLUSIVE_CELERY_TYPES_def, simp_all add: sample_job_def day_env_def minutes_def
      seconds_def waits_since_def wait_started_def dget0_def dget_def)

section \<open>Hand-off to the broker\<close>

lemma mark_quiet: "mark_job_terminal e i m st False d = Inr d' \<Longrightarrow> db_effects d' = db_effects d"
  by (auto simp: mark_job_terminal_def upd_job_def Let_def split: option.splits if_splits elim!: rbind_InrE)

lemma finish_audit_effects [simp]: "db_effects (finish_running_audit_for_job e jo st m d) = db_effects d"
  by (simp add: finish_running_audit_for_job_def split: option.splits)

lemma fail_enqueue_fails:
  assumes "db_ok d" and "get_job d i = Some j" and "active j"
  shows "\<exists>d' j'. fail_enqueue e i m d = Inr d' \<and> get_job d' i = Some j' \<and> j_status j' = ''failed''
    \<and> db_effects d' = db_effects d"
proof -
  obtain d1 where m: "mark_job_terminal e i m ''failed'' False d = Inr d1"
    using mark_failed_ok [OF assms(1), of i e m False] assms(2) by (auto simp: mark_job_failed_def)
  then obtain det where "get_job d1 i = Some (set_terminal e ''failed'' det j)"
    using marked_same [OF mark_terminal_marked [OF m] assms(2)] by blast
  then show ?thesis using assms m mark_quiet [OF m] by (simp add: fail_enqueue_def set_terminal_def)
qed



section \<open>The audit row of a job\<close>

lemma int_str_chars: "c \<in> set (int_str n) \<Longrightarrow> is_digit c \<or> c = CHR ''-''"
  using nat_str_digits by (auto simp: int_str_def list_all_iff split: if_splits)

lemma not_in_int_str: "CHR ''J'' \<notin> set (int_str n)" "CHR '' '' \<notin> set (int_str n)"
  by (auto simp: is_digit_def Let_def dest!: int_str_chars)

lemma prefix_before_space:
  assumes "sp \<notin> set w"
  shows "prefix w (v @ sp # r) \<longleftrightarrow> prefix w v"
  using assms by (auto simp: prefix_def append_eq_append_conv2 Cons_eq_append_conv)

text \<open>Which start lines hold the needle of a job.\<close>

lemma started_needle: "contains (started_text k) (job_needle i) \<longleftrightarrow> prefix (int_str i) (int_str k)"
proof
  assume "contains (started_text k) (job_needle i)"
  then obtain ps ss where eq: "''Job #'' @ int_str k @ '' started'' = ps @ ''Job #'' @ int_str i @ ss"
    by (auto simp: contains_iff started_text_def job_needle_def)
  have "ps = []"
  proof (rule ccontr)
    assume "ps \<noteq> []"
    then obtain c ps' where ps: "ps = c # ps'" by (cases ps) auto
    then have "''ob #'' @ int_str k @ '' started'' = ps' @ ''Job #'' @ int_str i @ ss" using eq by simp
    moreover have "CHR ''J'' \<in> set (ps' @ ''Job #'' @ int_str i @ ss)" by simp
    ultimately have "CHR ''J'' \<in> set (''ob #'' @ int_str k @ '' started'')" by metis
    then show False using not_in_int_str(1) [of k] by simp
  qed
  then have "int_str k @ CHR '' '' # ''started'' = int_str i @ ss" using eq by simp
  then have "prefix (int_str i) (int_str k @ CHR '' '' # ''started'')" by (metis prefixI)
  then show "prefix (int_str i) (int_str k)" by (rule iffD1 [OF prefix_before_space [OF not_in_int_str(2)]])
next
  assume "prefix (int_str i) (int_str k)"
  then obtain r where "int_str k = int_str i @ r" by (auto simp: prefix_def)
  then have "started_text k = [] @ job_needle i @ (r @ '' started'')"
    unfolding started_text_def job_needle_def by (simp only: append.assoc append_Nil)
  then show "contains (started_text k) (job_needle i)" unfolding contains_iff by (intro exI)
qed

lemma get_row_map: "(\<And>x. key (f x) = key x) \<Longrightarrow> get_row key i (map f rows) = map_option f (get_row key i rows)"
  by (induction rows) (simp_all add: get_row_simps)

text \<open>Closing the audit of a job closes, of the running rows of its type and host, exactly those whose
  number starts with the digits of the job's number: its own row, and also the rows of longer numbers.\<close>

theorem audit_closed_iff:
  assumes "j_id j \<noteq> 0" and "get_audit d n = Some a" and "a_status a = ''running''"
    and "a_action a = j_job_type j" and "a_server_id a = j_server_id j" and "a_details a = Some (started_text k)"
  shows "get_audit (finish_running_audit_for_job e (Some j) st m d) n
    = Some (if prefix (int_str (j_id j)) (int_str k) then close_audit e (j_id j) st m a else a)"
proof -
  have "audit_of_job (j_id j) (j_job_type j) (j_server_id j) a \<longleftrightarrow> prefix (int_str (j_id j)) (int_str k)"
    using assms(3-6) by (simp add: audit_of_job_def text_of_def started_needle)
  moreover have "get_audit (finish_running_audit_for_job e (Some j) st m d) n
      = map_option (\<lambda>a. if audit_of_job (j_id j) (j_job_type j) (j_server_id j) a
          then close_audit e (j_id j) st m a else a) (get_audit d n)"
    using assms(1) by (simp add: finish_running_audit_for_job_def get_audit_def)
      (rule get_row_map, simp add: close_audit_def)
  ultimately show ?thesis using assms(2) by simp
qed

text \<open>The row of job 12, closed when job 1 of the same type and host fails.\<close>

definition start_row :: "int \<Rightarrow> audit" where
  "start_row k = \<lparr>a_id = 5, a_user_id = JNull, a_server_id = Some 1, a_api_token_id = None,
     a_api_token_name = None, a_action = ''os_patch'', a_status = ''running'',
     a_details = Some (started_text k), a_output_snippet = None, a_client_ip = None, a_started_at = 0,
     a_finished_at = None\<rparr>"

theorem audit_closed_iff_witness:
  "get_audit (finish_running_audit_for_job sample_env (Some (sample_job 1 ''os_patch'' ''failed'' 0)) ''failed'' ''x''
     (sample_db\<lparr>db_audits := [start_row 12]\<rparr>)) 5 = Some (close_audit sample_env 1 ''failed'' ''x'' (start_row 12))"
proof -
  have "prefix (int_str 1) (int_str 12)" by code_simp
  moreover have "get_audit (sample_db\<lparr>db_audits := [start_row 12]\<rparr>) 5 = Some (start_row 12)"
    by (simp add: get_audit_def start_row_def)
  ultimately show ?thesis
    using audit_closed_iff [of "sample_job 1 ''os_patch'' ''failed'' 0" "sample_db\<lparr>db_audits := [start_row 12]\<rparr>" 5
      "start_row 12" 12 sample_env "''failed''" "''x''"]
    by (simp add: start_row_def)
qed

section \<open>The job list\<close>

lemma filter_query: "jobs_filter_query f rows = filter (\<lambda>j.
      (case f_server_id f of None \<Rightarrow> True | Some s \<Rightarrow> j_server_id j = Some s)
      \<and> (if f_active_only f then active j
         else text_of (f_status f) \<noteq> [] \<longrightarrow> j_status j = text_of (f_status f))
      \<and> (if text_of (f_job_type f) \<noteq> [] then j_job_type j = text_of (f_job_type f)
         else f_hide_routine f \<longrightarrow> \<not> (j_job_type j = ''host_facts'' \<and> j_status j = ''success''))
      \<and> (case f_date_from f of None \<Rightarrow> True | Some t \<Rightarrow> j_created_at j \<ge> t)
      \<and> (case f_date_to f of None \<Rightarrow> True | Some t \<Rightarrow> j_created_at j \<le> t)) rows"
  unfolding jobs_filter_query_def Let_def
  by (auto simp: filter_filter intro!: filter_cong split: option.splits)

lemma count_is_length: "count_jobs d f = length (jobs_filter_query f (db_jobs d))"
  by (simp add: count_jobs_def filter_query)

lemma pages_concat: "concat (map (\<lambda>p. take m (drop (p * m) xs)) [0..<n]) = take (n * m) xs"
proof (induction n)
  case (Suc n)
  have "take (Suc n * m) xs = take (n * m) xs @ take m (drop (n * m) xs)"
    by (simp add: take_add add.commute [of m])
  then show ?case using Suc by simp
qed simp


definition all_jobs :: job_filter where
  "all_jobs = \<lparr>f_server_id = None, f_status = None, f_job_type = None, f_active_only = False,
     f_date_from = None, f_date_to = None, f_hide_routine = False\<rparr>"


end
