(* ===== verification/ExecutorProps.thy ===== *)
theory ExecutorProps
  imports AuditProps
begin

text \<open>
  What an executor leaves behind: a task that returns has ended its job, a template executor has
  dropped the encrypted variables, and a cancel that comes before the executor's first step is lost.
\<close>

section \<open>Runs that end a job\<close>

named_theorems end_rules

definition has_job :: "int \<Rightarrow> db \<Rightarrow> bool" where
  "has_job i d = (get_job d i \<noteq> None)"

definition ended :: "int \<Rightarrow> db \<Rightarrow> bool" where
  "ended i d = (\<exists>j. get_job d i = Some j \<and> \<not> active j)"

text \<open>A run that returns a value has ended the job.\<close>

definition ends :: "int \<Rightarrow> db \<times> (exc + 'a) \<Rightarrow> bool" where
  "ends i m = (\<forall>d v. m = (d, Inr v) \<longrightarrow> ended i d)"

definition ready :: "int \<Rightarrow> db \<Rightarrow> bool" where
  "ready i d = (wf_ids d \<and> has_job i d)"

lemma ends_pair [simp]: "ends i (d, Inl ex)" "ends i (d, Inr v) = ended i d"
  by (simp_all add: ends_def)

lemma has_job_ids: "has_job i d \<longleftrightarrow> i \<in> set (map j_id (db_jobs d))"
  by (auto simp: has_job_def get_job_def get_row_None)

lemma ready_calm: "ready i d \<Longrightarrow> calm d d' \<Longrightarrow> ready i d'"
  using wf_ids_calm by (auto simp: ready_def has_job_ids calm_def)

lemma ended_finish:
  assumes "finish e aid i st sn h jt d = Inr d'" and "has_job i d" and "\<not> active_status st"
  shows "ended i d'"
  using assms(1)
proof (cases rule: finish_cases)
  case missing
  then show ?thesis using assms(2) by (simp add: has_job_def)
next
  case (cancelled j)
  then show ?thesis by (auto simp: ended_def active_def get_job_def)
next
  case (written j j' sm)
  have "get_job d' i = Some (put_row j' j)"
    using upd_job_at [OF _ written(4), of i] written(1) by (simp add: put_row_def)
  moreover have "\<not> active (put_row j' j)"
    using finish_job_row_status [OF written(3)] assms(3) terminal_not_active
    by (auto simp: active_def put_row_def)
  ultimately show ?thesis by (simp add: ended_def)
qed

lemma ends_finish_run [end_rules]:
  assumes "ready i d" and "\<not> active_status st"
  shows "ends i (finish_run e aid i st sn h jt d)"
  using ended_finish [OF _ _ assms(2)] assms(1)
  by (cases "finish e aid i st sn h jt d") (auto simp: finish_run_def commit_def ready_def)

lemma ends_then [end_rules]:
  assumes "ready i d" and "calm_run d m" and "\<And>d1 v. ready i d1 \<Longrightarrow> ends i (f d1 v)"
  shows "ends i (andthen m f)"
proof (cases m)
  case (Pair d1 r)
  then have "ready i d1" using assms(1,2) ready_calm by simp
  then show ?thesis using assms(3) Pair by (cases r) simp_all
qed

lemma ends_answer [end_rules]: "(\<And>v. ends i (f d v)) \<Longrightarrow> ends i (answer r f d)"
  by (cases r) (simp_all add: answer_def)

lemma ends_lift [end_rules]: "(\<And>v. ends i (f d v)) \<Longrightarrow> ends i (lift_exc r f d)"
  by (cases r) (simp_all add: lift_exc_def)

lemma ends_or_fail_with [end_rules]:
  assumes "ready i d" and "calm_run d m" and "ends i m"
  shows "ends i (or_fail_with e i aid h jt p m)"
proof (cases m)
  case (Pair d1 r)
  then have "ready i d1" using assms(1,2) ready_calm by simp
  then show ?thesis using Pair assms(3) ends_finish_run
    by (cases r) (simp_all add: or_fail_with_def)
qed

lemma ends_or_fail [end_rules]:
  assumes "ready i d" and "calm_run d m" and "ends i m"
  shows "ends i (or_fail e i aid h jt m)"
proof (cases m)
  case (Pair d1 r)
  then have "ready i d1" using assms(1,2) ready_calm by simp
  then show ?thesis using Pair assms(3) ends_finish_run [unfolded finish_run_def]
    by (cases r) (simp_all add: or_fail_def)
qed

lemma ends_handled:
  assumes "ready i d" and "calm_run d m" and "ends i m" and "\<And>d1 ex. ready i d1 \<Longrightarrow> ends i (h d1 ex)"
  shows "ends i (case m of (d1, Inr u) \<Rightarrow> (d1, Inr ()) | (d1, Inl ex) \<Rightarrow> h d1 ex)"
proof (cases m)
  case (Pair d1 r)
  then have "ready i d1" using assms(1,2) ready_calm by simp
  then show ?thesis using Pair assms(3,4) by (cases r) auto
qed

lemma ended_calm:
  assumes "wf_ids d" and "ended i d" and "calm d d'"
  shows "ended i d'"
proof -
  obtain j where j: "get_job d i = Some j" "\<not> active j" using assms(2) by (auto simp: ended_def)
  have wf': "wf_ids d'" using assms(1,3) wf_ids_calm by blast
  have "has_job i d'" using ready_calm [of i d d'] assms(1,3) j(1) by (simp add: ready_def has_job_def)
  then obtain j' where j': "get_job d' i = Some j'" by (auto simp: has_job_def)
  have "\<not> active j'"
  proof
    assume "active j'"
    then have "job_key j' \<in> set (active_keys d)"
      using get_job_in [OF j'] assms(3) subseq_set unfolding calm_def active_keys_def by fastforce
    then obtain k where k: "k \<in> set (db_jobs d)" "active k" "j_id k = i"
      using get_job_id [OF j'] by (auto simp: active_keys_def job_key_def)
    then have "get_job d i = Some k" using get_job_of_in [OF assms(1)] by blast
    with j k(2) show False by simp
  qed
  with j' show ?thesis by (simp add: ended_def)
qed

lemma ends_then_calm:
  assumes "ends i m" and "\<And>d1 v. m = (d1, Inr v) \<Longrightarrow> wf_ids d1" and "\<And>d1 v. calm_run d1 (f d1 v)"
  shows "ends i (andthen m f)"
proof (cases m)
  case (Pair d1 r)
  show ?thesis
  proof (cases r)
    case (Inr v)
    then have "ended i d1" "wf_ids d1" using assms(1,2) Pair by auto
    then show ?thesis
      using Pair Inr assms(3) [of d1 v] ended_calm by (cases "f d1 v") (auto simp: ends_def)
  qed (simp add: Pair)
qed

text \<open>States on the way stay ready.\<close>

lemma ready_chain:
  "ready i d \<Longrightarrow> ready i (flush_job_progress k c l dc ex d)"
  "ready i d \<Longrightarrow> ready i (flush_all k c ls d)"
  "ready i d \<Longrightarrow> ready i (append_output_log_lines k c t d)"
  "ready i d \<Longrightarrow> ready i (invalidate_inventory sid d)"
  "ready i d \<Longrightarrow> ready i (prune_dangling_images_after_update x k d)"
  "ready i d \<Longrightarrow> ready i (emit y d)"
  "ready i d \<Longrightarrow> ready i (upd_server sid f d)"
  by (erule ready_calm; auto)+

lemma ready_if: "(b \<Longrightarrow> ready i d1) \<Longrightarrow> (\<not> b \<Longrightarrow> ready i d2) \<Longrightarrow> ready i (if b then d1 else d2)"
  by simp

lemma ends_if: "(b \<Longrightarrow> ends i m1) \<Longrightarrow> (\<not> b \<Longrightarrow> ends i m2) \<Longrightarrow> ends i (if b then m1 else m2)"
  by simp

lemma ready_wf: "ready i d \<Longrightarrow> wf_ids d"
  by (simp add: ready_def)

lemma ready_job: "wf_ids d \<Longrightarrow> get_job d i = Some j \<Longrightarrow> ready i d"
  by (simp add: ready_def has_job_def)

lemmas end_work = end_rules ready_chain ready_if ends_if

lemma ends_begin:
  assumes "wf_ids d" and "get_job d i = Some j" and "active j" and "\<And>d1 v. ready i d1 \<Longrightarrow> ends i (f d1 v)"
  shows "ends i (andthen (begin_run e i kvs d) f)"
  by (rule ends_then [OF ready_job begin_run_calm]) (use assms in auto)

lemma ends_on_host:
  assumes "wf_ids d" and "get_job d i = Some j" and "active j" and "\<And>h d1. ready i d1 \<Longrightarrow> ends i (work h d1)"
  shows "ends i (on_host e i sid aid jt missing kvs work d)"
  unfolding on_host_def Let_def
  by (rule ends_begin [OF assms(1-3)]) (auto intro: assms(4) ends_finish_run)

section \<open>Each executor\<close>

lemma ends_host_reboot:
  assumes "wf_ids d" and "get_job d i = Some j" and "active j"
  shows "ends i (execute_host_reboot e x i sid aid d)"
  unfolding execute_host_reboot_def Let_def split_beta
  by (rule ends_begin [OF assms]) (auto intro!: end_work)

lemma ends_commit_result:
  assumes "ready i d" and "\<And>d'. r = Inr d' \<Longrightarrow> calm d d'" and "\<And>d1. ready i d1 \<Longrightarrow> ends i (f d1 ())"
  shows "ends i (andthen (commit d r) f)"
  by (rule ends_then [OF assms(1) commit_run_calm [OF assms(2)]]) (auto intro: assms(3))

lemma ends_os_check:
  assumes "wf_ids d" and "get_job d i = Some j" and "active j"
  shows "ends i (execute_os_update_check e x i sid aid d)"
  unfolding execute_os_update_check_def Let_def
  by (rule ends_begin [OF assms])
    (auto intro!: ends_finish_run ends_or_fail ends_answer ends_commit_result answer_calm calm_run_then
      commit_run_calm finish_run_calm ready_wf dest: calm_results)

lemmas end_steps = ends_finish_run ends_or_fail ends_or_fail_with ends_answer ends_lift ends_commit_result
  ready_chain ready_if ends_if ready_wf

lemma ends_image_check:
  assumes "wf_ids d" and "get_job d i = Some j" and "active j"
  shows "ends i (execute_container_update_check e x i sid aid d)"
  unfolding execute_container_update_check_def Let_def
  by (rule ends_begin [OF assms])
    (auto intro!: end_steps answer_calm calm_run_then commit_run_calm finish_run_calm dest: calm_results)

lemma ends_prune:
  assumes "wf_ids d" and "get_job d i = Some j" and "active j"
  shows "ends i (execute_docker_prune e x k i sid aid d)"
proof (cases "prune_kind_saved (get_job d i) k")
  case (Inr kind)
  then show ?thesis
    unfolding execute_docker_prune_def Let_def
    by simp (rule ends_begin [OF assms], auto split: sum.splits intro!: end_steps)
qed (simp add: execute_docker_prune_def)

lemma ends_host_facts:
  assumes "wf_ids d" and "get_job d i = Some j" and "active j"
  shows "ends i (execute_host_facts e x i sid aid d)"
  unfolding execute_host_facts_def Let_def
  by (rule ends_then [OF ready_job [OF assms(1,2)] calm_run_mark [OF assms]])
    (auto intro!: end_steps answer_calm finish_run_calm)

lemma ready_recheck:
  "ready i d \<Longrightarrow> ready i (fst (recheck_os e x k sid h d))"
  "ready i d \<Longrightarrow> ready i (recheck_images e x k sid d)"
  by (erule ready_calm, rule recheck_os_calm recheck_images_calm)+

lemma ends_os_patch_work: "ready i d \<Longrightarrow> ends i (os_patch_work e x st i sid aid h d)"
  unfolding os_patch_work_def Let_def split_beta
  by (rule ends_answer)
    (auto simp: split_beta mark_haos_def intro!: end_steps ready_recheck split: sum.splits prod.splits)

lemma ends_os_patch:
  assumes "wf_ids d" and "get_job d i = Some j" and "active j"
  shows "ends i (execute_os_patch_sync e x st i sid aid d)"
  unfolding execute_os_patch_sync_def Let_def
  by (rule ends_begin [OF assms])
    (auto intro!: end_steps ends_handled ends_os_patch_work
      calm_after_wf [OF _ _ os_patch_work_calm] calm_chain split: sum.splits)

lemma ends_container_patch_work: "ready i d \<Longrightarrow> ends i (container_patch_work e x i sid aid h d)"
  unfolding container_patch_work_def Let_def
  by (rule ends_answer) (auto intro!: end_steps ready_recheck split: sum.splits)

lemma ends_container_patch:
  assumes "wf_ids d" and "get_job d i = Some j" and "active j"
  shows "ends i (execute_container_patch_sync e x i sid aid d)"
  unfolding execute_container_patch_sync_def Let_def
  by (rule ends_begin [OF assms])
    (auto intro!: end_steps ends_handled ends_container_patch_work
      calm_after_wf [OF _ _ container_patch_work_calm] calm_chain split: sum.splits)

lemma ends_stack_check_work: "ready i d \<Longrightarrow> ends i (stack_check_work e x p pr i sid aid h d)"
  unfolding stack_check_work_def Let_def
  by (auto intro!: end_steps dest: calm_results)

lemma ends_stack_check:
  assumes "wf_ids d" and "get_job d i = Some j" and "active j"
  shows "ends i (execute_docker_stack_check e x p i sid aid d)"
  unfolding execute_docker_stack_check_def Let_def
  by (intro ends_lift ends_on_host [OF assms]) (auto intro!: ends_or_fail ends_stack_check_work stack_check_work_calm ready_wf)

lemma ends_stack_deploy_work: "ready i d \<Longrightarrow> ends i (stack_deploy_work e x p pr pull fs i sid aid h d)"
  unfolding stack_deploy_work_def Let_def
  by (auto intro!: end_steps dest: calm_results)

lemma ends_stack_deploy:
  assumes "wf_ids d" and "get_job d i = Some j" and "active j"
  shows "ends i (execute_docker_stack_deploy e x p pull fs i sid aid d)"
  unfolding execute_docker_stack_deploy_def Let_def
  by (intro ends_lift ends_on_host [OF assms]) (auto intro!: ends_or_fail_with ends_stack_deploy_work stack_deploy_work_calm ready_wf)

lemma ends_lifecycle_work: "ready i d \<Longrightarrow> ends i (lifecycle_work e x p pr act dv i sid aid h d)"
  unfolding lifecycle_work_def Let_def
  by (auto intro!: end_steps)

lemma ends_stack_lifecycle:
  assumes "wf_ids d" and "get_job d i = Some j" and "active j"
  shows "ends i (execute_docker_stack_lifecycle e x p a i sid aid d)"
  unfolding execute_docker_stack_lifecycle_def Let_def split_beta
  by (intro ends_lift ends_on_host [OF assms]) (auto intro!: ends_or_fail_with ends_lifecycle_work lifecycle_work_calm ready_wf)

lemma ends_stack_remove_work: "ready i d \<Longrightarrow> ends i (stack_remove_work e x p pr i sid aid h d)"
  unfolding stack_remove_work_def Let_def
  by (auto intro!: end_steps)

lemma ends_stack_remove:
  assumes "wf_ids d" and "get_job d i = Some j" and "active j"
  shows "ends i (execute_docker_stack_remove e x p i sid aid d)"
  unfolding execute_docker_stack_remove_def Let_def
  by (intro ends_lift ends_on_host [OF assms]) (auto intro!: ends_or_fail_with ends_stack_remove_work stack_remove_work_calm ready_wf)

lemma ends_service_work: "ready i d \<Longrightarrow> ends i (service_work e x p s act i sid aid h d)"
  unfolding service_work_def Let_def
  by (auto intro!: end_steps)

lemma ends_service:
  assumes "wf_ids d" and "get_job d i = Some j" and "active j"
  shows "ends i (execute_container_service e x p s a i sid aid d)"
  unfolding execute_container_service_def Let_def split_beta
  by (intro ends_lift ends_begin [OF assms])
    (auto intro!: end_steps ends_service_work service_work_calm)

lemma ends_drift_work: "ready i d \<Longrightarrow> ends i (drift_work e x dep i sid aid h d)"
  unfolding drift_work_def Let_def split_beta
  by (auto intro!: end_steps split: option.splits)

lemma ends_drift:
  assumes "wf_ids d" and "get_job d i = Some j" and "active j"
  shows "ends i (execute_template_drift_check e x dep i sid aid d)"
  unfolding execute_template_drift_check_def
  by (intro ends_on_host [OF assms]) (auto intro!: ends_or_fail_with ends_drift_work drift_work_calm ready_wf)

lemma ends_clear:
  assumes "ready i d" and "calm_run d m" and "ends i m"
  shows "ends i (andthen m (\<lambda>d1 u. (clear_job_secret_blobs i d1, Inr ())))"
  by (rule ends_then_calm [OF assms(3)])
    (use ready_calm [OF assms(1)] assms(2) in \<open>auto simp: ready_def calm_run_def\<close>)

lemma ends_finally_clear:
  assumes "ready i d" and "calm_run d m" and "ends i m"
  shows "ends i (finally_clear i m)"
proof (cases m)
  case (Pair d1 r)
  then have "ready i d1" using assms(1,2) ready_calm by simp
  then show ?thesis using Pair assms(3) ended_calm clear_blobs_calm
    by (cases r) (auto simp: finally_clear_def ready_def)
qed

lemma ends_template_deploy_work: "ready i d \<Longrightarrow> ends i (template_deploy_work e x s v now i aid h d)"
  unfolding template_deploy_work_def Let_def
  by (auto intro!: end_steps)

lemma ends_template_deploy:
  assumes "wf_ids d" and "get_job d i = Some j" and "active j"
  shows "ends i (execute_template_deploy e x s now i sid aid d)"
  unfolding execute_template_deploy_def Let_def
  by (intro ends_lift ends_begin [OF assms])
    (auto intro!: end_steps ends_clear ends_finally_clear ends_template_deploy_work
      finish_run_calm or_fail_with_calm template_deploy_work_calm split: sum.splits)

lemma ends_template_redeploy_work: "ready i d \<Longrightarrow> ends i (template_redeploy_work e x dep pu se now i sid aid h d)"
  unfolding template_redeploy_work_def Let_def
  by (auto intro!: end_steps split: option.splits)

lemma ends_template_redeploy:
  assumes "wf_ids d" and "get_job d i = Some j" and "active j"
  shows "ends i (execute_template_redeploy e x dep now i sid aid d)"
  unfolding execute_template_redeploy_def Let_def
  by (intro ends_begin [OF assms])
    (auto intro!: end_steps ends_clear ends_finally_clear ends_template_redeploy_work
      finish_run_calm or_fail_with_calm template_redeploy_work_calm split: sum.splits)

lemma ends_bootstrap:
  assumes "wf_ids d" and "get_job d i = Some j" and "active j"
  shows "ends i (execute_host_bootstrap e x payload i sid aid d)"
  unfolding execute_host_bootstrap_def Let_def
  by (rule ends_on_host [OF assms])
    (auto intro!: end_steps dest: merge_if_active_calm split: sum.splits)

lemma ends_run_call:
  assumes "wf_ids d" and "get_job d i = Some j" and "active j"
  shows "ends i (run_call e x c i sid aid d)"
  by (cases c) (simp_all add: ends_os_patch [OF assms] ends_container_patch [OF assms]
    ends_host_reboot [OF assms] ends_os_check [OF assms] ends_image_check [OF assms]
    ends_stack_check [OF assms] ends_stack_deploy [OF assms] ends_stack_lifecycle [OF assms]
    ends_stack_remove [OF assms] ends_template_deploy [OF assms] ends_template_redeploy [OF assms]
    ends_drift [OF assms] ends_host_facts [OF assms] ends_prune [OF assms] ends_bootstrap [OF assms]
    ends_service [OF assms])

section \<open>The task that returns\<close>

lemma ends_fail_message: "ready i d \<Longrightarrow> ends i (commit d (fail_message e i aid jt m d))"
proof -
  assume r: "ready i d"
  then obtain j where j: "get_job d i = Some j" by (auto simp: ready_def has_job_def)
  show ?thesis
  proof (cases "active j")
    case True
    then show ?thesis
      using ends_finish_run [OF r active_status_simps(3), unfolded finish_run_def] j
      by (simp add: fail_message_def Let_def)
  next
    case False
    then show ?thesis using j by (simp add: fail_message_def ended_def)
  qed
qed

lemma ends_then_out: "ends i m \<Longrightarrow> ends i (andthen m (\<lambda>d1 _. (d1, Inr out)))"
  by (cases m; cases "snd m") (auto simp: ends_def)

lemma ended_demo:
  assumes "finish_demo_job e i og sf d = (d', Inr v)" and "wf_ids d" and "settled d i"
  shows "ended i d'"
proof -
  let ?d = "start_demo_job e i d"
  have wf: "wf_ids (upd_job i (finish_demo_row e det) ?d)" for det
    using wf_ids_calm [OF finish_demo_row_calm] wf_ids_calm [OF start_demo_calm [OF assms(2,3)] assms(2)] .
  have en: "ended i (upd_job i (finish_demo_row e det) ?d)" if "get_job ?d i = Some j" for det j
    using that by (simp add: ended_def get_job_upd_same active_def)
  have k: "ended i x" if "get_job ?d i = Some j" "calm (upd_job i (finish_demo_row e det) ?d) x" for det j x
    using ended_calm [OF wf en [OF that(1)] that(2)] .
  show ?thesis
    using assms(1)
    by (auto simp: finish_demo_job_def Let_def split: option.splits sum.splits if_splits
        intro!: k dest!: record_event_calm record_from_job_calm intro: calm_trans)
qed

lemma ended_simulate:
  assumes "get_job d i = Some j" and "j_status j = ''pending''" and "wf_ids d"
  shows "ends i (simulate e i d)"
proof -
  have set: "settled d i" using assms(1,2) by (simp add: settled_def active_def)
  have wf: "wf_ids (start_demo_job e i d)" using wf_ids_calm [OF start_demo_calm [OF assms(3) set] assms(3)] .
  show ?thesis
    unfolding ends_def
    using ended_demo [OF _ wf start_demo_settled] assms(1,2) by (auto simp: simulate_def)
qed

lemma ends_wait:
  assumes "ready i d" and "get_job d i = Some j" and "j_status j = ''pending''"
  shows "ends i (wait_for_host e i aid jt d)"
  using assms ends_then_out [OF ends_fail_message [OF assms(1)]]
  by (auto simp: wait_for_host_def Let_def active_def split: option.splits sum.splits)

lemma ends_execute:
  assumes "wf_ids d" and "get_job d i = Some j" and "active j"
  shows "ends i (execute (program_body e x) jt i sid aid p d)"
proof (cases "exec_dispatch jt p")
  case (Inr c)
  obtain d1 r where run: "run_call e x c i sid aid d = (d1, r)" by (cases "run_call e x c i sid aid d")
  then have "r = Inr () \<Longrightarrow> ended i d1" using ends_run_call [OF assms, of e x c sid aid] by simp
  then show ?thesis using Inr run by (cases r) (simp_all add: execute_def program_body_def)
qed (simp add: execute_def)

lemma ends_exclusive_work:
  assumes "wf_ids d" and "get_job d i = Some j" and "j_status j = ''pending''"
  shows "ends i (exclusive_work e (program_body e x) i sid aid jt p d)"
proof -
  have r: "ready i d" using ready_job [OF assms(1,2)] .
  have "active j" using assms(3) by (simp add: active_def)
  then show ?thesis
    unfolding exclusive_work_def
    using ends_then_out [OF ended_simulate [OF assms(2,3,1)]] ends_then_out [OF ends_fail_message [OF r]]
      ends_wait [OF r assms(2,3)] ends_then_out [OF ends_execute [OF assms(1,2)]]
    by (auto intro!: ends_if)
qed

lemma ends_exclusive_try:
  assumes "wf_ids d" and "get_job d i = Some j" and "j_job_type j \<in> set EXCLUSIVE_CELERY_TYPES"
  shows "ends i (exclusive_try e (program_body e x) req i sid aid jt p d)"
proof -
  let ?d1 = "upd_job i (claim_row req) d"
  have ne: "j_job_type j \<noteq> []" using assms(3) by (auto simp: EXCLUSIVE_CELERY_TYPES_def)
  have wf: "wf_ids ?d1" using wf_ids_calm [OF claim_calm assms(1)] .
  have j1: "get_job ?d1 i = Some (claim_row req j)" using assms(2) by (simp add: get_job_upd_same)
  show ?thesis
  proof (cases "active j")
    case False
    then show ?thesis using assms ne by (simp add: exclusive_try_def Let_def ended_def)
  next
    case True
    then have "j_status j = ''running'' \<or> j_status j = ''pending''" by (auto simp: active_def active_status_def)
    then show ?thesis
      using True assms ne ends_then_out [OF ends_fail_message [OF ready_job [OF wf j1]]]
        ends_exclusive_work [OF wf j1]
      by (auto simp: exclusive_try_def Let_def active_def)
  qed
qed

text \<open>C35: the task settles what it takes: for a job of an exclusive type, whatever its state, its host and
the answers of the remote side, a delivery of the task that returns leaves the job finished. Only a
retry for an unreachable host or an exception of the task itself leaves it active.\<close>

theorem task_ends_job:
  assumes "wf_ids d" and "get_job d i = Some j" and "j_job_type j \<in> set EXCLUSIVE_CELERY_TYPES"
    and "run_exclusive_job e (program_body e x) req i sid aid jt p d = (d', Inr out)"
  shows "\<exists>j'. get_job d' i = Some j' \<and> \<not> active j'"
proof -
  obtain d1 r1 where t: "exclusive_try e (program_body e x) req i sid aid jt p d = (d1, r1)"
    by (cases "exclusive_try e (program_body e x) req i sid aid jt p d")
  have "calm d d1" using task.exclusive_try_calm [OF t assms(1)] .
  then have r: "ready i d1" using ready_calm [OF ready_job [OF assms(1,2)]] by blast
  have "ends i (exclusive_try e (program_body e x) req i sid aid jt p d)"
    using ends_exclusive_try [OF assms(1-3)] .
  then have ok: "ended i d1" if "r1 = Inr v" for v using t that by simp
  have fail: "ends i (commit d1 (fail_unexpected e i aid jt m d1))" for m
  proof -
    obtain k where k: "get_job d1 i = Some k" using r by (auto simp: ready_def has_job_def)
    show ?thesis
      using ends_fail_message [OF r] k by (cases "active k") (simp_all add: fail_unexpected_def ended_def)
  qed
  have "ends i (run_exclusive_job e (program_body e x) req i sid aid jt p d)"
    using ok ends_then_out [OF fail] ends_then_out [OF ends_fail_message [OF r]]
    by (auto simp: run_exclusive_job_def t Let_def split: sum.splits exc.splits)
  then show ?thesis using assms(4) by (simp add: ended_def)
qed

text \<open>A host whose remote side answers nothing but a reboot and an update check.\<close>

definition sample_remotes :: stack_remotes where
  "sample_remotes = \<lparr>x_reboot = Inr (True, ''Reboot command sent''), x_os_check = Inl ''apt is locked'',
     x_image_check = Inl ''down'', x_prune = (\<lambda>k. Inl ''down''), x_facts = Inl ''down'',
     x_os_patch = (\<lambda>s. Inl ''down''), x_os_log = [], x_container_patch = ([], Inl ''down''), x_dangling = Inl ''down'',
     x_stack_check = (\<lambda>p. Inl ''down''), x_redeploy = (\<lambda>p b f. Inl ''down''), x_compose = (\<lambda>p a s v. Inl ''down''),
     x_service_redeploy = (\<lambda>p s. Inl ''down''), x_wipe = (\<lambda>p. ([], Inl ''down'')), x_deployment = (\<lambda>i. None),
     x_drift = (\<lambda>i. Inl ''down''), x_values = (\<lambda>b. Inr (JObj [])), x_apply_template = (\<lambda>t v n. Inl ''down''),
     x_redeploy_state = (\<lambda>i p q n. Inl ''down''), x_bootstrap = (\<lambda>c q u. Inl ''down'')\<rparr>"

lemma begin_run_running:
  assumes "db_ok d" and "get_job d i = Some j" and "list_all kv_ok kvs"
  shows "\<exists>d1 j1. begin_run e i kvs d = (d1, Inr ()) \<and> db_ok d1 \<and> get_job d1 i = Some j1
    \<and> j_status j1 = ''running'' \<and> (\<forall>s. get_server d1 s = get_server d s)"
proof -
  let ?run = "\<lambda>j. j\<lparr>j_status := ''running'', j_started_at := Some (e_now e)\<rparr>"
  let ?d = "upd_job i ?run d"
  have ok: "db_ok ?d" using assms(1) by (rule db_ok_upd) simp
  have j: "get_job ?d i = Some (?run j)" using assms(2) by (simp add: get_job_upd_same)
  obtain j' where j': "merge_job_details kvs (?run j) = Inr j'" "det_ok (j_details j')"
    using merge_job_details_ok [OF det_ok_get [OF ok j] assms(3)] by blast
  let ?d1 = "upd_job i (\<lambda>r. r\<lparr>j_details := j_details j'\<rparr>) ?d"
  have "begin_run e i kvs d = (?d1, Inr ())"
    using j j'(1) by (simp add: begin_run_def merge_if_present_def)
  moreover have "db_ok ?d1" using ok by (rule db_ok_upd) (simp add: j'(2))
  moreover have "get_job ?d1 i = Some ((?run j)\<lparr>j_details := j_details j'\<rparr>)"
    by (subst get_job_upd_same) (simp_all add: j)
  moreover have "get_server ?d1 s = get_server d s" for s by simp
  ultimately show ?thesis by fastforce
qed

text \<open>An update check the host refuses: the task returns all the same.\<close>

lemma refused_check_returns:
  assumes "db_ok d" and "get_job d i = Some j" and "j_status j = ''pending''" and "j_job_type j = ''os_update_check''"
    and "get_server d sid \<noteq> None" and "e_ssh e sid" and "\<not> e_demo e" and "x_os_check x = Inl t"
  shows "\<exists>d'. run_exclusive_job e (program_body e x) req i sid aid jt p d = (d', Inr OkOut)"
proof -
  let ?d = "upd_job i (claim_row req) d" and ?l = "run_lines ''checking'' [''OS update check started'' @ dots,
         ''Refreshing apt lists & simulating upgrade'' @ dots]"
  have j: "get_job ?d i = Some (claim_row req j)" using assms(2) by (simp add: get_job_upd_same)
  obtain d1 j1 where b: "begin_run e i ?l ?d = (d1, Inr ())" and d1: "db_ok d1" "\<And>s. get_server d1 s = get_server ?d s"
    using begin_run_running [OF claim_db_ok [OF assms(1)] j, of ?l e] by (auto simp: run_lines_def kv_ok_def)
  obtain d2 where f: "finish e aid i ''failed'' (Plain (exc_text e (RuntimeError t))) (host_name d1 sid) ''os_update_check'' d1 = Inr d2"
    using finish_plain_ok [OF d1(1)] by blast
  have "x_os_check (remotes.truncate x) = Inl t" using assms(8) by (simp add: remotes.truncate_def)
  moreover obtain srv where "get_server d1 sid = Some srv" using assms(5) d1(2) by auto
  ultimately have r: "run_call e x ExecOsCheck i sid aid ?d = (d2, Inr ())"
    using b f by (simp add: execute_os_update_check_def Let_def answer_def or_fail_def)
  have "exec_dispatch ''os_update_check'' p = Inr ExecOsCheck" by (simp add: exec_dispatch_def)
  then have "execute (program_body e x) ''os_update_check'' i sid aid p ?d = (d2, Inr ())"
    using r by (simp add: execute_def program_body_def)
  moreover obtain host where "get_server d sid = Some host" using assms(5) by blast
  ultimately have "exclusive_try e (program_body e x) req i sid aid jt p d = (d2, Inr OkOut)"
    using assms(1-4,6-8) by (simp add: exclusive_try_def exclusive_work_def ssh_ready_def Let_def active_def EXCLUSIVE_CELERY_TYPES_def)
  then show ?thesis by (simp add: run_exclusive_job_def)
qed

lemma task_ends_job_witness:
  "\<exists>d' j'. run_exclusive_job sample_env (program_body sample_env sample_remotes) NoRequest 2 1 1 ''os_update_check'' [] busy_db
     = (d', Inr OkOut) \<and> get_job d' 2 = Some j' \<and> \<not> active j'"
proof -
  have "get_server busy_db 1 \<noteq> None" by (simp add: busy_db_def sample_db_def sample_server_def get_server_def)
  moreover have "e_ssh sample_env 1" "\<not> e_demo sample_env" by (simp_all add: sample_env_def)
  moreover have "x_os_check sample_remotes = Inl ''apt is locked''" by (simp add: sample_remotes_def)
  ultimately obtain d' where "run_exclusive_job sample_env (program_body sample_env sample_remotes) NoRequest 2 1 1
      ''os_update_check'' [] busy_db = (d', Inr OkOut)"
    using refused_check_returns [OF busy_ok busy_rows(2) sample_job_status(1) sample_job_status(3)] by fast
  moreover have "''os_update_check'' \<in> set EXCLUSIVE_CELERY_TYPES" by (simp add: EXCLUSIVE_CELERY_TYPES_def)
  ultimately show ?thesis using task_ends_job [OF busy_wf busy_rows(2)] by simp
qed

section \<open>A cancel that comes before the first step\<close>

text \<open>C36: the executors do not look at the status again. A job cancelled after the task's check, for
instance while the task probed the host's SSH port, is set running: the host is rebooted and the
cancelled job ends as a success.\<close>

theorem late_cancel_is_lost:
  assumes "db_ok d" and "get_job d i = Some j" and "j_status j = ''cancelled''"
    and "get_server d sid \<noteq> None" and "x_reboot x = Inr (True, text)"
  shows "\<exists>d' j'. execute_host_reboot e x i sid aid d = (d', Inr ()) \<and> get_job d' i = Some j'
    \<and> j_status j' = ''success'' \<and> j_finished_at j' = Some (e_now e)"
proof -
  obtain d1 j1 where b: "begin_run e i (run_lines ''rebooting'' [''Host reboot started'' @ dots]) d = (d1, Inr ())"
    and d1: "db_ok d1" "get_job d1 i = Some j1" "j_status j1 = ''running''" "\<And>s. get_server d1 s = get_server d s"
    using begin_run_running [OF assms(1,2), of "run_lines ''rebooting'' [''Host reboot started'' @ dots]" e]
    by (auto simp: run_lines_def kv_ok_def)
  let ?d2 = "emit (ResolvedRebootPending sid) (upd_server sid (\<lambda>r. r\<lparr>s_reboot_pending := False\<rparr>) d1)"
  have d2: "db_ok ?d2" using d1(1) by (simp add: db_ok_def upd_server_def)
  have jrow: "get_job ?d2 i = Some j1" "active j1" using d1(2,3) by (simp_all add: active_def)
  obtain d' j' where "finish e aid i ''success'' (Plain text) (host_name d1 sid) ''host_reboot'' ?d2 = Inr d'"
    and "get_job d' i = Some j'" "j_status j' = ''success''" "j_finished_at j' = Some (e_now e)"
    using finish_writes [OF d2 jrow, of e aid "''success''" "text" "host_name d1 sid" "''host_reboot''"] by blast
  moreover obtain host where "get_server d sid = Some host" using assms(4) by blast
  ultimately show ?thesis
    using assms(5) b d1(4) by (simp add: execute_host_reboot_def Let_def finish_run_def)
qed

lemma late_cancel_is_lost_witness:
  "\<exists>d' j'. execute_host_reboot sample_env (remotes.truncate sample_remotes) 3 1 1 busy_db = (d', Inr ())
    \<and> get_job d' 3 = Some j' \<and> j_status j' = ''success''"
  using late_cancel_is_lost [OF busy_ok busy_rows(3), of 1 "remotes.truncate sample_remotes" "''Reboot command sent''" sample_env 1]
  by (auto simp: sample_remotes_def remotes.truncate_def busy_db_def sample_db_def sample_server_def get_server_def)

section \<open>Encrypted variables\<close>

definition no_secrets :: "int \<Rightarrow> db \<Rightarrow> bool" where
  "no_secrets i d = (\<forall>j. get_job d i = Some j \<longrightarrow> (\<forall>k\<in>set secret_keys. dget (load_dict (j_details j)) k = None))"

lemma clear_details_none: "k \<in> set secret_keys \<Longrightarrow> dget (load_dict (clear_details c)) k = None"
proof -
  assume k: "k \<in> set secret_keys"
  have "map_of (filter (\<lambda>(x, v). x \<notin> set secret_keys) data) k = None" for data :: dict
    using k by (auto simp: map_of_eq_None_iff)
  then show ?thesis
    using k by (cases c rule: column.exhaust)
      (auto simp: clear_details_def dget_def load_dict_def loads_def split: json.splits)
qed

lemma clear_no_secrets: "no_secrets i (clear_job_secret_blobs i d)"
  by (auto simp: no_secrets_def clear_job_secret_blobs_def get_job_upd_same clear_details_none)

fun template_call :: "exec_call \<Rightarrow> bool" where
  "template_call (ExecTemplateDeploy slug now) = True"
| "template_call (ExecTemplateRedeploy dep now) = True"
| "template_call c = False"

lemma then_clear: "andthen m (\<lambda>d1 u. (clear_job_secret_blobs i d1, Inr ())) = (d', Inr v) \<Longrightarrow> no_secrets i d'"
  by (cases m; cases "snd m") (auto simp: clear_no_secrets)

lemma finally_clear_none: "finally_clear i m = (d', r) \<Longrightarrow> no_secrets i d'"
  by (auto simp: finally_clear_def clear_no_secrets)

lemma andthen_InrE: "andthen m f = (d', Inr v) \<Longrightarrow> (\<And>d1 u. f d1 u = (d', Inr v) \<Longrightarrow> P) \<Longrightarrow> P"
  by (cases m; cases "snd m") auto

text \<open>C37: a template deploy or redeploy that returns, whether it worked, failed or found no host, leaves no
encrypted variables in the details of its job.\<close>

theorem template_secrets_cleared:
  assumes "template_call c" and "run_call e x c i sid aid d = (d', Inr ())"
  shows "no_secrets i d'"
  using assms
  by (cases c)
    (auto simp: execute_template_deploy_def execute_template_redeploy_def Let_def lift_exc_def clear_no_secrets
      finally_clear_def elim!: andthen_InrE split: if_splits sum.splits)

text \<open>The pending job 2, handed to the deploy executor with variables in its details and a host that is gone.\<close>

definition secret_db :: db where
  "secret_db = upd_job 2 (\<lambda>j. j\<lparr>j_details := Text (JObj [(''values_encrypted'', JStr ''gAAAA'')])\<rparr>) busy_db"

lemma missing_host_deploy:
  assumes "db_ok d" and "get_job d i = Some j" and "get_server d sid = None"
  shows "\<exists>d'. run_call e x (ExecTemplateDeploy (JStr slug) now) i sid aid d = (d', Inr ())"
proof -
  let ?run = "run_fields ''deploying'' (''Applying template '' @ strip slug @ dots)"
  obtain d1 j1 where b: "begin_run e i ?run d = (d1, Inr ())" and d1: "db_ok d1"
    using begin_run_running [OF assms(1,2), of ?run e] by (auto simp: run_fields_def kv_ok_def)
  obtain d2 where "finish_run e aid i ''failed'' no_server (host_label d sid) ''template_deploy'' d1 = (d2, Inr ())"
    using finish_plain_ok [OF d1, of e aid i "''failed''" "''Server not found''" "host_label d sid" "''template_deploy''"]
    by (auto simp: finish_run_def no_server_def)
  then show ?thesis
    using b assms(3)
    by (cases slug) (simp_all add: execute_template_deploy_def lift_exc_def py_strip_def jor_def Let_def)
qed

lemma template_secrets_cleared_witness:
  "\<exists>d'. run_call sample_env sample_remotes (ExecTemplateDeploy (JStr ''app'') True) 2 9 1 secret_db = (d', Inr ())
    \<and> no_secrets 2 d' \<and> \<not> no_secrets 2 secret_db"
proof -
  have "db_ok secret_db" unfolding secret_db_def using busy_ok by (rule db_ok_upd) (simp add: det_ok_def log_ok_def load_dict_def loads_def dget0_def dget_def)
  moreover have row: "\<exists>j. get_job secret_db 2 = Some j \<and> j_details j = Text (JObj [(''values_encrypted'', JStr ''gAAAA'')])"
    by (simp add: secret_db_def get_job_upd_same busy_rows)
  moreover have "get_server secret_db 9 = None"
    by (simp add: secret_db_def) (simp add: busy_db_def sample_db_def sample_server_def get_server_def)
  ultimately obtain d' where "run_call sample_env sample_remotes (ExecTemplateDeploy (JStr ''app'') True) 2 9 1 secret_db = (d', Inr ())"
    using missing_host_deploy by blast
  moreover have "\<not> no_secrets 2 secret_db"
    using row by (auto simp: no_secrets_def load_dict_def loads_def dget_def secret_keys_def)
  ultimately show ?thesis using template_secrets_cleared [of "ExecTemplateDeploy (JStr ''app'') True"] by auto
qed

text \<open>A cancel, a failed publish and the stale sweep go through \<open>mark_job_terminal\<close>, which keeps them.\<close>

lemma terminal_keeps_secrets:
  assumes "terminal_details m st c = Inr det" and "k \<in> set secret_keys"
  shows "dget det k = dget (load_dict c) k"
proof -
  have k: "k \<noteq> ''log_lines''" "k \<notin> fst ` set (terminal_fields m st)"
    using assms(2) by (auto simp: secret_keys_def terminal_fields_def)
  obtain old where old: "(case loads c of None \<Rightarrow> JObj [] | Some v \<Rightarrow> v) = JObj old"
    using assms(1) by (auto simp: terminal_details_def split: json.splits)
  then have "load_dict c = old" by (auto simp: load_dict_def split: option.splits)
  moreover have "dget det k = dget (dupdate old (terminal_fields m st)) k"
    using assms(1) old k(1) by (auto simp: terminal_details_def Let_def split: option.splits)
  ultimately show ?thesis using dget_dupdate_other [OF k(2)] by simp
qed

end
