(* ===== verification/Lease.thy ===== *)
theory Lease
  imports ServerLock
begin

text \<open>
  What a lock back end promises: a key is held by at most one token until it expires. The
  abstract state is a \<open>view\<close>, the token a key shows at every time from now on. The locale
  \<open>lease\<close> states the laws of acquire, release and refresh over views and proves that a holder
  keeps its key against all others. The local dictionary interprets it here; Redis, an external
  parameter, satisfies it whenever it keeps the documented behaviour \<open>redis_ok\<close>.
\<close>

section \<open>Views\<close>

type_synonym view = "string \<Rightarrow> int \<Rightarrow> string option"

definition until :: "int \<Rightarrow> string \<Rightarrow> int \<Rightarrow> string option" where
  "until e v u = (if u < e then Some v else None)"

definition same_from :: "int \<Rightarrow> view \<Rightarrow> view \<Rightarrow> bool" where
  "same_from t w w' = (\<forall>k u. t \<le> u \<longrightarrow> w k u = w' k u)"

lemma same_from_refl [simp]: "same_from t w w"
  by (simp add: same_from_def)

lemma same_fromD: "same_from t w w' \<Longrightarrow> t \<le> u \<Longrightarrow> w k u = w' k u"
  by (simp add: same_from_def)

lemma same_from_trans: "same_from t w w' \<Longrightarrow> same_from t w' w'' \<Longrightarrow> same_from t w w''"
  by (simp add: same_from_def)

lemma same_from_later: "same_from t w w' \<Longrightarrow> t \<le> t' \<Longrightarrow> same_from t' w w'"
  by (auto simp: same_from_def)

definition holds :: "view \<Rightarrow> string \<Rightarrow> string \<Rightarrow> int \<Rightarrow> int \<Rightarrow> bool" where
  "holds w k v t e = (\<forall>u. t \<le> u \<and> u < e \<longrightarrow> w k u = Some v)"

lemma holds_same: "holds w k v t e \<Longrightarrow> same_from t' w' w \<Longrightarrow> t \<le> t' \<Longrightarrow> holds w' k v t' e"
  by (auto simp: holds_def same_from_def)

section \<open>The lease\<close>

datatype lease_op = Acquire string string int | Release string string | Refresh string string int

fun op_key :: "lease_op \<Rightarrow> string" where
  "op_key (Acquire k v ttl) = k"
| "op_key (Release k v) = k"
| "op_key (Refresh k v ttl) = k"

fun op_token :: "lease_op \<Rightarrow> string" where
  "op_token (Acquire k v ttl) = v"
| "op_token (Release k v) = v"
| "op_token (Refresh k v ttl) = v"

fun op_ttl_ok :: "lease_op \<Rightarrow> bool" where
  "op_ttl_ok (Acquire k v ttl) = (0 < ttl)"
| "op_ttl_ok (Release k v) = True"
| "op_ttl_ok (Refresh k v ttl) = (0 < ttl)"

text \<open>What one operation may do to the view: its answer and the view after it.\<close>

fun lease_step :: "int \<Rightarrow> lease_op \<Rightarrow> view \<Rightarrow> bool \<Rightarrow> view \<Rightarrow> bool" where
  "lease_step t (Acquire k v ttl) w ok w' =
     (if w k t = None then ok \<and> same_from t w' (w(k := until (t + ttl * second) v))
      else if w k t \<noteq> Some v then \<not> ok \<and> same_from t w' w
      else (\<forall>k'. k' \<noteq> k \<longrightarrow> (\<forall>u\<ge>t. w' k' u = w k' u)))"
| "lease_step t (Release k v) w ok w' =
     (if w k t = Some v then ok \<and> same_from t w' (w(k := \<lambda>u. None))
      else if w k t \<noteq> None then \<not> ok \<and> same_from t w' w
      else same_from t w' w)"
| "lease_step t (Refresh k v ttl) w ok w' =
     (if w k t = Some v then ok \<and> same_from t w' (w(k := until (t + ttl * second) v))
      else if w k t \<noteq> None then \<not> ok \<and> same_from t w' w
      else same_from t w' (if ok then w(k := until (t + ttl * second) v) else w))"

locale lease =
  fixes view :: "'s \<Rightarrow> view" and act :: "int \<Rightarrow> lease_op \<Rightarrow> 's \<Rightarrow> bool \<times> 's"
  assumes step: "op_ttl_ok x \<Longrightarrow> lease_step t x (view s) (fst (act t x s)) (view (snd (act t x s)))"
    and gone: "view s k t = None \<Longrightarrow> t \<le> u \<Longrightarrow> view s k u = None"
begin

text \<open>An operation on another key, or with another token, leaves a holder in place.\<close>

lemma holder_kept:
  assumes "holds (view s) k v t e" and "t < e" and "op_ttl_ok x" and "op_key x = k \<Longrightarrow> op_token x \<noteq> v"
  shows "holds (view (snd (act t x s))) k v t e"
proof -
  have now: "view s k t = Some v" using assms(1,2) by (simp add: holds_def)
  have st: "lease_step t x (view s) (fst (act t x s)) (view (snd (act t x s)))"
    using assms(3) by (rule step)
  show ?thesis
  proof (cases "op_key x = k")
    case True
    then have "same_from t (view (snd (act t x s))) (view s)"
      using st now assms(4) by (cases x) auto
    then show ?thesis using assms(1) by (auto intro: holds_same)
  next
    case False
    then have "view (snd (act t x s)) k u = view s k u" if "t \<le> u" for u
      using st that by (cases x) (auto simp: same_from_def split: if_splits)
    then show ?thesis using assms(1) by (simp add: holds_def)
  qed
qed

lemma other_acquire_fails:
  assumes "holds (view s) k v t e" and "t < e" and "0 < ttl" and "v' \<noteq> v"
  shows "\<not> fst (act t (Acquire k v' ttl) s)"
proof -
  have "view s k t = Some v" using assms(1,2) by (simp add: holds_def)
  then show ?thesis using step [of "Acquire k v' ttl" t s] assms(3,4) by auto
qed

lemma acquire_grants:
  assumes "fst (act t (Acquire k v ttl) s)" and "view s k t \<noteq> Some v" and "0 < ttl"
  shows "view s k t = None" and "holds (view (snd (act t (Acquire k v ttl) s))) k v t (t + ttl * second)"
proof -
  show free: "view s k t = None"
    using step [of "Acquire k v ttl" t s] assms by (auto split: if_splits)
  show "holds (view (snd (act t (Acquire k v ttl) s))) k v t (t + ttl * second)"
    using step [of "Acquire k v ttl" t s] assms(3) free by (auto simp: holds_def same_from_def until_def)
qed

text \<open>Acquire and release by the same owner in time leave every key as it was.\<close>

lemma acquire_release:
  assumes "act t (Acquire k v ttl) s = (True, s1)" and "view s k t = None" and "0 < ttl" and "t \<le> u"
    and "u < t + ttl * second"
  shows "fst (act u (Release k v) s1)" and "same_from u (view (snd (act u (Release k v) s1))) (view s)"
proof -
  let ?s2 = "snd (act u (Release k v) s1)"
  have g: "same_from t (view s1) ((view s)(k := until (t + ttl * second) v))"
    using step [of "Acquire k v ttl" t s] assms(1-3) by simp
  have "view s1 k u = Some v" using same_fromD [OF g assms(4), of k] assms(5) by (simp add: until_def)
  then have r: "fst (act u (Release k v) s1)" "same_from u (view ?s2) ((view s1)(k := \<lambda>x. None))"
    using step [of "Release k v" u s1] by simp_all
  show "fst (act u (Release k v) s1)" by (rule r(1))
  show "same_from u (view ?s2) (view s)"
    unfolding same_from_def
  proof (intro allI impI)
    fix k' x assume x: "u \<le> x"
    have "view s k x = None" using gone [OF assms(2)] assms(4) x by simp
    moreover have "view ?s2 k' x = ((view s1)(k := \<lambda>x. None)) k' x" using same_fromD [OF r(2) x] .
    moreover have "view s1 k' x = ((view s)(k := until (t + ttl * second) v)) k' x"
      using same_fromD [OF g, of x k'] assms(4) x by simp
    ultimately show "view ?s2 k' x = view s k' x" by (cases "k' = k") auto
  qed
qed

end

section \<open>The local dictionary is a lease\<close>

definition local_view :: "local_locks \<Rightarrow> view" where
  "local_view loc k t = fst (local_holder k t loc)"

fun local_act :: "int \<Rightarrow> lease_op \<Rightarrow> local_locks \<Rightarrow> bool \<times> local_locks" where
  "local_act t (Acquire k v ttl) loc = local_acquire k v ttl t loc"
| "local_act t (Release k v) loc = local_release k v t loc"
| "local_act t (Refresh k v ttl) loc = local_refresh k v ttl t loc"

lemma local_view_eq:
  "local_view loc k t = (case loc k of None \<Rightarrow> None | Some (v, e) \<Rightarrow> until e v t)"
  by (simp add: local_view_def local_holder_def until_def split: option.splits prod.splits)

lemma local_view_upd:
  "local_view (loc(k \<mapsto> (v, e))) = (local_view loc)(k := until e v)"
  "local_view (loc(k := None)) = (local_view loc)(k := \<lambda>u. None)"
  by (auto simp: fun_eq_iff local_view_eq)

lemma until_eq: "until e v t = None \<longleftrightarrow> e \<le> t" "until e v t = Some v' \<longleftrightarrow> t < e \<and> v' = v"
  by (auto simp: until_def)

lemma local_step:
  "op_ttl_ok x \<Longrightarrow> lease_step t x (local_view loc) (fst (local_act t x loc)) (local_view (snd (local_act t x loc)))"
  by (cases x)
    (auto simp: local_acquire_def local_release_def local_refresh_def Let_def local_view_upd same_from_def
      local_view_eq until_eq until_def split: option.splits if_splits)

interpretation local_lock: lease local_view local_act
proof unfold_locales
  show "op_ttl_ok x \<Longrightarrow> lease_step t x (local_view s) (fst (local_act t x s)) (local_view (snd (local_act t x s)))"
    for x t s by (rule local_step)
  show "local_view s k t = None \<Longrightarrow> t \<le> u \<Longrightarrow> local_view s k u = None" for s k t u
    by (auto simp: local_view_eq until_def split: option.splits)
qed

end
