(* ===== verification/ServerLockProps.thy ===== *)
theory ServerLockProps
  imports Lease
begin

text \<open>
  The lock functions on Redis: the documented behaviour of the commands gives the lease laws, so
  one worker at a time holds a server while every request is answered; a failed request breaks
  that, because the function falls back to the dictionary of its own process.
\<close>

section \<open>Redis as a lease\<close>

definition redis_view :: "'r redis \<Rightarrow> 'r \<Rightarrow> view" where
  "redis_view call r k t = (case fst (call (Get k) t r) of Bulk v \<Rightarrow> Some v | _ \<Rightarrow> None)"

definition redis_ok :: "'r redis \<Rightarrow> bool" where
  "redis_ok call =
     ((\<forall>k t r. fst (call (Get k) t r) \<in> insert Nil_reply (range Bulk)
         \<and> same_from t (redis_view call (snd (call (Get k) t r))) (redis_view call r))
    \<and> (\<forall>k t u r. redis_view call r k t = None \<longrightarrow> t \<le> u \<longrightarrow> redis_view call r k u = None)
    \<and> (\<forall>k v ttl t r. 0 < ttl \<longrightarrow>
         (if redis_view call r k t = None
          then fst (call (Set_nx_ex k v ttl) t r) = Ok_reply
             \<and> same_from t (redis_view call (snd (call (Set_nx_ex k v ttl) t r)))
                 ((redis_view call r)(k := until (t + ttl * second) v))
          else fst (call (Set_nx_ex k v ttl) t r) = Nil_reply
             \<and> same_from t (redis_view call (snd (call (Set_nx_ex k v ttl) t r))) (redis_view call r)))
    \<and> (\<forall>k t r. fst (call (Del k) t r) = Count (if redis_view call r k t = None then 0 else 1)
         \<and> same_from t (redis_view call (snd (call (Del k) t r))) ((redis_view call r)(k := \<lambda>u. None)))
    \<and> (\<forall>k v ttl t r. 0 < ttl \<longrightarrow> redis_view call r k t = Some v \<longrightarrow>
         fst (call (Expire k ttl) t r) = Count 1
         \<and> same_from t (redis_view call (snd (call (Expire k ttl) t r)))
             ((redis_view call r)(k := until (t + ttl * second) v))))"

fun redis_act :: "'r redis \<Rightarrow> int \<Rightarrow> lease_op \<Rightarrow> 'r \<Rightarrow> bool \<times> 'r" where
  "redis_act call t (Acquire k v ttl) r = map_prod reply_true id (call (Set_nx_ex k v ttl) t r)"
| "redis_act call t (Release k v) r = map_prod reply_true id (RELEASE_LUA call k v t r)"
| "redis_act call t (Refresh k v ttl) r = map_prod reply_true id (REFRESH_LUA call k v ttl t r)"

lemma redis_get:
  assumes "redis_ok call"
  shows "fst (call (Get k) t r) = Bulk v \<longleftrightarrow> redis_view call r k t = Some v"
    and "same_from t (redis_view call (snd (call (Get k) t r))) (redis_view call r)"
  using assms by (auto simp: redis_ok_def redis_view_def split: reply.splits)

lemma redis_gone: "redis_ok call \<Longrightarrow> redis_view call r k t = None \<Longrightarrow> t \<le> u \<Longrightarrow> redis_view call r k u = None"
  by (simp add: redis_ok_def)

lemma redis_set:
  assumes "redis_ok call" and "0 < ttl"
  shows "redis_view call r k t = None \<Longrightarrow> fst (call (Set_nx_ex k v ttl) t r) = Ok_reply
      \<and> same_from t (redis_view call (snd (call (Set_nx_ex k v ttl) t r)))
          ((redis_view call r)(k := until (t + ttl * second) v))"
    and "redis_view call r k t \<noteq> None \<Longrightarrow> fst (call (Set_nx_ex k v ttl) t r) = Nil_reply
      \<and> same_from t (redis_view call (snd (call (Set_nx_ex k v ttl) t r))) (redis_view call r)"
  using assms unfolding redis_ok_def by metis+

lemma redis_del:
  assumes "redis_ok call"
  shows "fst (call (Del k) t r) = Count (if redis_view call r k t = None then 0 else 1)"
    and "same_from t (redis_view call (snd (call (Del k) t r))) ((redis_view call r)(k := \<lambda>u. None))"
  using assms by (auto simp: redis_ok_def)

lemma redis_expire:
  assumes "redis_ok call" and "0 < ttl" and "redis_view call r k t = Some v"
  shows "fst (call (Expire k ttl) t r) = Count 1"
    and "same_from t (redis_view call (snd (call (Expire k ttl) t r)))
          ((redis_view call r)(k := until (t + ttl * second) v))"
  using assms unfolding redis_ok_def by blast+

lemma same_from_upd: "same_from t w w' \<Longrightarrow> same_from t (w(k := f)) (w'(k := f))"
  by (auto simp: same_from_def)

lemma redis_release:
  assumes "redis_ok call"
  shows "lease_step t (Release k v) (redis_view call r) (fst (redis_act call t (Release k v) r))
    (redis_view call (snd (redis_act call t (Release k v) r)))"
proof -
  obtain b r1 where g: "call (Get k) t r = (b, r1)" by (cases "call (Get k) t r")
  have b: "b = Bulk v \<longleftrightarrow> redis_view call r k t = Some v" and
    s: "same_from t (redis_view call r1) (redis_view call r)"
    using redis_get [OF assms, where k = k and t = t and r = r] g by auto
  show ?thesis
  proof (cases "redis_view call r k t = Some v")
    case True
    have "redis_view call r1 k t = Some v" using same_fromD [OF s, where u = t] True by simp
    then show ?thesis
      using True b g redis_del [OF assms, where k = k and t = t and r = r1] same_from_trans [OF _ same_from_upd [OF s]]
      by (simp add: RELEASE_LUA_def reply_true_def)
  next
    case False
    then show ?thesis using b g s by (simp add: RELEASE_LUA_def reply_true_def)
  qed
qed

lemma redis_refresh:
  assumes "redis_ok call" and "0 < ttl"
  shows "lease_step t (Refresh k v ttl) (redis_view call r) (fst (redis_act call t (Refresh k v ttl) r))
    (redis_view call (snd (redis_act call t (Refresh k v ttl) r)))"
proof -
  obtain b r1 where g: "call (Get k) t r = (b, r1)" by (cases "call (Get k) t r")
  have b: "b = Bulk v \<longleftrightarrow> redis_view call r k t = Some v" and
    s: "same_from t (redis_view call r1) (redis_view call r)"
    using redis_get [OF assms(1), where k = k and t = t and r = r] g by auto
  show ?thesis
  proof (cases "redis_view call r k t = Some v")
    case True
    have "redis_view call r1 k t = Some v" using same_fromD [OF s, where u = t] True by simp
    then show ?thesis
      using True b g redis_expire [OF assms] same_from_trans [OF _ same_from_upd [OF s]]
      by (simp add: REFRESH_LUA_def reply_true_def)
  next
    case False
    then show ?thesis using b g s by (simp add: REFRESH_LUA_def reply_true_def)
  qed
qed

lemma redis_lease:
  assumes "redis_ok call"
  shows "lease (redis_view call) (redis_act call)"
proof
  show "lease_step t x (redis_view call r) (fst (redis_act call t x r)) (redis_view call (snd (redis_act call t x r)))"
    if "op_ttl_ok x" for x t r
  proof (cases x)
    case (Acquire k v ttl)
    then have "0 < ttl" using that by simp
    then show ?thesis
      using redis_set [OF assms, where r = r and k = k and t = t and v = v] Acquire
      by (auto simp: reply_true_def same_from_def)
  qed (use that redis_release [OF assms] redis_refresh [OF assms] in auto)
  show "redis_view call r k t = None \<Longrightarrow> t \<le> u \<Longrightarrow> redis_view call r k u = None" for r k t u
    by (rule redis_gone [OF assms])
qed

section \<open>Workers\<close>

datatype lock_call =
    Try lock_kind int string "int option"
  | Free lock_kind int "string option"
  | Renew lock_kind int "string option" "int option"
  | Look lock_kind int

datatype lock_answer = Token "string option" | Flag bool

type_synonym 'r workers = "(nat \<Rightarrow> proc) \<times> 'r"

fun do_call :: "'r redis \<Rightarrow> int \<Rightarrow> moment \<Rightarrow> lock_call \<Rightarrow> proc \<times> 'r \<Rightarrow> lock_answer \<times> proc \<times> 'r" where
  "do_call call dflt m (Try kind sid holder ttl) pr =
     map_prod Token id (try_acquire_server_lock call dflt m kind (Some sid) holder ttl pr)"
| "do_call call dflt m (Free kind sid tok) pr =
     map_prod Flag id (release_server_lock call m kind (Some sid) tok pr)"
| "do_call call dflt m (Renew kind sid tok ttl) pr =
     map_prod Flag id (refresh_server_lock call dflt m kind (Some sid) tok ttl pr)"
| "do_call call dflt m (Look kind sid) pr =
     map_prod Token id (server_lock_holder call m kind (Some sid) pr)"

fun run_workers :: "'r redis \<Rightarrow> int \<Rightarrow> (nat \<times> moment \<times> lock_call) list \<Rightarrow> 'r workers \<Rightarrow> lock_answer list \<times> 'r workers" where
  "run_workers call dflt [] w = ([], w)"
| "run_workers call dflt ((n, m, c) # es) (ps, r) =
     (let (a, p, r1) = do_call call dflt m c (ps n, r);
          (as, w) = run_workers call dflt es (ps(n := p), r1)
      in (a # as, w))"

text \<open>The key a call is about, and the token it would set or present.\<close>

fun call_key :: "lock_call \<Rightarrow> string" where
  "call_key (Try kind sid holder ttl) = lock_key kind sid"
| "call_key (Free kind sid tok) = lock_key kind sid"
| "call_key (Renew kind sid tok ttl) = lock_key kind sid"
| "call_key (Look kind sid) = lock_key kind sid"

fun call_token :: "moment \<Rightarrow> lock_call \<Rightarrow> string option" where
  "call_token m (Try kind sid holder ttl) = Some (lock_token holder m)"
| "call_token m (Free kind sid tok) = tok"
| "call_token m (Renew kind sid tok ttl) = tok"
| "call_token m (Look kind sid) = None"

definition answered :: "moment \<Rightarrow> bool" where
  "answered m = (m_ping m \<and> m_reach m = Answers)"

lemma get_redis_up: "\<not> p_redis_failed p \<Longrightarrow> m_ping m \<Longrightarrow> get_redis m p = (True, p\<lparr>p_client := True\<rparr>)"
  by (simp add: get_redis_def)

lemma lock_ttl_pos [simp]: "0 < lock_ttl dflt ttl"
  by (simp add: lock_ttl_def)

lemma try_answered:
  assumes "answered m" and "\<not> p_redis_failed p"
  shows "try_acquire_server_lock call dflt m kind (Some sid) holder ttl (p, r) =
    (let (ok, r1) = redis_act call (m_now m) (Acquire (lock_key kind sid) (lock_token holder m) (lock_ttl dflt ttl)) r
     in (if ok then Some (lock_token holder m) else None, p\<lparr>p_client := True\<rparr>, r1))"
  using assms
  by (simp add: try_acquire_server_lock_def answered_def get_redis_up ask_def Let_def case_prod_beta)

lemma release_answered:
  assumes "answered m" and "\<not> p_redis_failed p" and "tok \<noteq> []"
  shows "release_server_lock call m kind (Some sid) (Some tok) (p, r) =
    (let (ok, r1) = redis_act call (m_now m) (Release (lock_key kind sid) tok) r
     in (ok, p\<lparr>p_client := True\<rparr>, r1))"
  using assms
  by (simp add: release_server_lock_def no_token_def answered_def get_redis_up ask_def Let_def case_prod_beta)

lemma refresh_answered:
  assumes "answered m" and "\<not> p_redis_failed p" and "tok \<noteq> []"
  shows "refresh_server_lock call dflt m kind (Some sid) (Some tok) ttl (p, r) =
    (let (ok, r1) = redis_act call (m_now m) (Refresh (lock_key kind sid) tok (lock_ttl dflt ttl)) r
     in (ok, p\<lparr>p_client := True\<rparr>, r1))"
  using assms
  by (simp add: refresh_server_lock_def no_token_def answered_def get_redis_up ask_def Let_def case_prod_beta)

lemma no_token_call:
  assumes "no_token tok"
  shows "release_server_lock call m kind sid tok pr = (False, pr)"
    and "refresh_server_lock call dflt m kind sid tok ttl pr = (False, pr)"
  using assms by (simp_all add: release_server_lock_def refresh_server_lock_def)

text \<open>One answered call: the process stays on Redis, a holder of a key stays, an attempt on it fails.\<close>

lemma call_keeps_holder:
  assumes ok: "redis_ok call" and m: "answered m" "\<not> p_redis_failed p"
    and h: "holds (redis_view call r) k v (m_now m) e" "m_now m < e"
    and c: "call_key c = k \<Longrightarrow> call_token m c \<noteq> Some v"
    and step: "do_call call dflt m c (p, r) = (a, p', r')"
  shows "\<not> p_redis_failed p'" and "holds (redis_view call r') k v (m_now m) e"
    and "c = Try kind sid holder ttl \<Longrightarrow> lock_key kind sid = k \<Longrightarrow> a = Token None"
proof -
  note kept = lease.holder_kept [OF redis_lease [OF ok] h]
  have "\<not> p_redis_failed p' \<and> holds (redis_view call r') k v (m_now m) e"
  proof (cases c)
    case (Try kind' sid' holder' ttl')
    then show ?thesis
      using step c kept [of "Acquire (lock_key kind' sid') (lock_token holder' m) (lock_ttl dflt ttl')"]
      by (auto simp: try_answered [OF m] m(2) case_prod_beta split: prod.splits if_splits)
  next
    case (Free kind' sid' tok)
    show ?thesis
    proof (cases "no_token tok")
      case False
      then obtain u where u: "tok = Some u" "u \<noteq> []" by (auto simp: no_token_def)
      then show ?thesis
        using step c Free kept [of "Release (lock_key kind' sid') u"]
        by (auto simp: release_answered [OF m u(2)] m(2) case_prod_beta)
    qed (use step Free h m in \<open>simp add: no_token_call\<close>)
  next
    case (Renew kind' sid' tok ttl')
    show ?thesis
    proof (cases "no_token tok")
      case False
      then obtain u where u: "tok = Some u" "u \<noteq> []" by (auto simp: no_token_def)
      then show ?thesis
        using step c Renew kept [of "Refresh (lock_key kind' sid') u (lock_ttl dflt ttl')"]
        by (auto simp: refresh_answered [OF m u(2)] m(2) case_prod_beta)
    qed (use step Renew h m in \<open>simp add: no_token_call\<close>)
  next
    case (Look kind' sid')
    have "holds (redis_view call (snd (call (Get x) (m_now m) r))) k v (m_now m) e" for x
      using h(1) redis_get(2) [OF ok] by (rule holds_same) simp
    then show ?thesis
      using step Look m by (auto simp: server_lock_holder_def answered_def get_redis_up ask_def Let_def)
  qed
  then show "\<not> p_redis_failed p'" and "holds (redis_view call r') k v (m_now m) e" by simp_all
  show "a = Token None" if "c = Try kind sid holder ttl" "lock_key kind sid = k"
  proof -
    have "lock_token holder m \<noteq> v" using c that by simp
    then show ?thesis
      using step that lease.other_acquire_fails [OF redis_lease [OF ok] h lock_ttl_pos]
      by (auto simp: try_answered [OF m] case_prod_beta split: if_splits)
  qed
qed

definition later_calls :: "int \<Rightarrow> string \<Rightarrow> string \<Rightarrow> int \<Rightarrow> (nat \<times> moment \<times> lock_call) list \<Rightarrow> bool" where
  "later_calls t k v e es = (sorted (t # map (m_now \<circ> fst \<circ> snd) es)
     \<and> list_all (\<lambda>(n, m, c). answered m \<and> m_now m < e \<and> (call_key c = k \<longrightarrow> call_token m c \<noteq> Some v)) es)"

text \<open>One answered attempt, on the view.\<close>

lemma try_view:
  assumes "redis_ok call" and "answered m" and "\<not> p_redis_failed p"
    and "try_acquire_server_lock call dflt m kind (Some sid) holder ttl (p, r) = (t, p', r')"
  shows "\<not> p_redis_failed p'"
    and "t = None \<Longrightarrow> same_from (m_now m) (redis_view call r') (redis_view call r)"
    and "t = Some tok \<Longrightarrow> tok = lock_token holder m \<and> redis_view call r (lock_key kind sid) (m_now m) = None
      \<and> same_from (m_now m) (redis_view call r')
          ((redis_view call r)(lock_key kind sid := until (m_now m + lock_ttl dflt ttl * second) tok))"
proof -
  let ?k = "lock_key kind sid" and ?ttl = "lock_ttl dflt ttl"
  let ?set = "call (Set_nx_ex ?k (lock_token holder m) ?ttl) (m_now m) r"
  have got: "t = (if reply_true (fst ?set) then Some (lock_token holder m) else None)"
    "p' = p\<lparr>p_client := True\<rparr>" "r' = snd ?set"
    using assms(4) by (auto simp: try_answered [OF assms(2,3)] case_prod_beta split: if_splits)
  show "\<not> p_redis_failed p'" using got(2) assms(3) by simp
  note set = redis_set [OF assms(1) lock_ttl_pos [of dflt ttl], where r = r and k = ?k and t = "m_now m" and v = "lock_token holder m"]
  show "same_from (m_now m) (redis_view call r') (redis_view call r)" if "t = None"
    using set got that by (cases "redis_view call r ?k (m_now m)") (auto simp: reply_true_def)
  show "tok = lock_token holder m \<and> redis_view call r ?k (m_now m) = None
      \<and> same_from (m_now m) (redis_view call r') ((redis_view call r)(?k := until (m_now m + ?ttl * second) tok))"
    if "t = Some tok"
    using set got that by (cases "redis_view call r ?k (m_now m)") (auto simp: reply_true_def split: if_splits)
qed

text \<open>The workers whose attempt on a key succeeded.\<close>

fun is_try :: "string \<Rightarrow> lock_call \<Rightarrow> bool" where
  "is_try k (Try kind sid holder ttl) = (lock_key kind sid = k)"
| "is_try k c = False"

fun winners :: "string \<Rightarrow> (nat \<times> moment \<times> lock_call) list \<Rightarrow> lock_answer list \<Rightarrow> nat list" where
  "winners k ((n, m, c) # es) (a # as) =
     (if is_try k c \<and> a \<noteq> Token None then n # winners k es as else winners k es as)"
| "winners k es as = []"

lemma run_keeps_holder:
  assumes "redis_ok call" and "run_workers call dflt es (ps, r) = (as, ps', r')"
    and "\<And>n. \<not> p_redis_failed (ps n)" and "holds (redis_view call r) k v t e" and "later_calls t k v e es"
  shows "winners k es as = [] \<and> holds (redis_view call r') k v (last (t # map (m_now \<circ> fst \<circ> snd) es)) e"
  using assms(2-)
proof (induction es arbitrary: ps r as t)
  case Nil
  then show ?case by simp
next
  case (Cons x es)
  obtain n m c where x: "x = (n, m, c)" by (cases x)
  obtain a p r1 where s: "do_call call dflt m c (ps n, r) = (a, p, r1)" by (metis prod_cases3)
  obtain bs where run: "run_workers call dflt es (ps(n := p), r1) = (bs, ps', r')" and as: "as = a # bs"
    using Cons.prems(1) x s by (auto split: prod.splits)
  have l: "answered m" "t \<le> m_now m" "m_now m < e" "call_key c = k \<Longrightarrow> call_token m c \<noteq> Some v"
    "later_calls (m_now m) k v e es"
    using Cons.prems(4) x by (auto simp: later_calls_def)
  have h: "holds (redis_view call r) k v (m_now m) e" using Cons.prems(3) l(2) by (auto simp: holds_def)
  note one = call_keeps_holder [OF assms(1) l(1) Cons.prems(2) h l(3,4) s]
  have "\<And>q. \<not> p_redis_failed ((ps(n := p)) q)" using Cons.prems(2) one(1) by simp
  note ih = Cons.IH [OF run this one(2) l(5)]
  have "\<not> (is_try k c \<and> a \<noteq> Token None)" using one(3) by (cases c) auto
  then show ?case using ih x as by auto
qed

section \<open>A concrete store\<close>

text \<open>A store that behaves as documented; it shows that \<open>redis_ok\<close> can hold.\<close>

fun map_store :: "local_locks redis" where
  "map_store (Get k) t s =
     (case fst (local_holder k t s) of None \<Rightarrow> Nil_reply | Some v \<Rightarrow> Bulk v, s)"
| "map_store (Set_nx_ex k v ttl) t s =
     (if local_view s k t = None then (Ok_reply, s(k \<mapsto> (v, t + ttl * second))) else (Nil_reply, s))"
| "map_store (Del k) t s = (Count (if local_view s k t = None then 0 else 1), s(k := None))"
| "map_store (Expire k ttl) t s =
     (case local_view s k t of None \<Rightarrow> (Count 0, s) | Some v \<Rightarrow> (Count 1, s(k \<mapsto> (v, t + ttl * second))))"

lemma map_store_view: "redis_view map_store = local_view"
  by (rule ext)+ (simp add: redis_view_def local_view_def split: option.splits)

lemma map_store_ok: "redis_ok map_store"
  unfolding redis_ok_def map_store_view
proof (intro conjI allI impI)
  show "local_view r k u = None" if "local_view r k t = None" "t \<le> u" for k t u r
    using that by (auto simp: local_view_eq until_def split: option.splits)
qed (auto simp: local_view_upd split: option.splits if_splits)

section \<open>Mutual exclusion across workers\<close>

text \<open>C28: while every request of every worker is answered by Redis, the server lock excludes. Once a
worker has acquired the lock of a server with a token, then until the expiry it asked for, whatever
acquire, release, refresh and look-up calls all workers make in whatever order, short of one that
presents this very token, no attempt on that server succeeds, and the key still shows the token.\<close>

theorem server_lock_excludes:
  assumes "redis_ok call" and "\<And>q. \<not> p_redis_failed (ps q)" and "answered m"
    and "try_acquire_server_lock call dflt m kind (Some sid) holder ttl (ps n, r) = (Some tok, p, r1)"
    and "later_calls (m_now m) (lock_key kind sid) tok (m_now m + lock_ttl dflt ttl * second) es"
    and "run_workers call dflt es (ps(n := p), r1) = (as, ps', r')"
  shows "winners (lock_key kind sid) es as = []
    \<and> holds (redis_view call r') (lock_key kind sid) tok (last (m_now m # map (m_now \<circ> fst \<circ> snd) es))
        (m_now m + lock_ttl dflt ttl * second)"
proof -
  note got = try_view [OF assms(1,3,2,4)]
  have "holds (redis_view call r1) (lock_key kind sid) tok (m_now m) (m_now m + lock_ttl dflt ttl * second)"
    using got(3) by (auto simp: holds_def same_from_def until_def)
  moreover have "\<not> p_redis_failed ((ps(n := p)) q)" for q using assms(2) got(1) by simp
  ultimately show ?thesis using run_keeps_holder [OF assms(1,6) _ _ assms(5)] by blast
qed

definition up_at :: "int \<Rightarrow> string \<Rightarrow> moment" where
  "up_at t h = \<lparr>m_now = t, m_hex = h, m_ping = True, m_reach = Answers\<rparr>"

text \<open>Worker 1 holds server 7 from second 0; worker 2 tries at second 5, worker 1 renews a wrong token.\<close>

definition rival_calls :: "(nat \<times> moment \<times> lock_call) list" where
  "rival_calls = [(2, up_at (5 * second) ''bb'', Try Backup_lock 7 ''job2'' None),
     (1, up_at (6 * second) ''cc'', Renew Backup_lock 7 (Some ''other'') None)]"

lemma server_lock_excludes_witness:
  "winners (lock_key Backup_lock 7) rival_calls
     (fst (run_workers map_store 7200 rival_calls
        ((\<lambda>q. fresh_proc)(1 := fresh_proc\<lparr>p_client := True\<rparr>),
         Map.empty(lock_key Backup_lock 7 \<mapsto> (''job1:aa'', 7200 * second))))) = []"
proof -
  let ?m = "up_at 0 ''aa''" and ?p = "fresh_proc\<lparr>p_client := True\<rparr>"
    and ?r = "Map.empty(lock_key Backup_lock 7 \<mapsto> (''job1:aa'', 7200 * second))"
  have a: "try_acquire_server_lock map_store 7200 ?m Backup_lock (Some 7) ''job1'' None (fresh_proc, Map.empty)
      = (Some ''job1:aa'', ?p, ?r)"
    by (simp add: try_acquire_server_lock_def get_redis_def fresh_proc_def up_at_def ask_def lock_ttl_def
        local_view_eq lock_token_def reply_true_def Let_def)
  have l: "later_calls (m_now ?m) (lock_key Backup_lock 7) ''job1:aa''
      (m_now ?m + lock_ttl 7200 None * second) rival_calls"
    by (simp add: later_calls_def rival_calls_def up_at_def second_def lock_ttl_def answered_def lock_token_def)
  obtain bs w where "run_workers map_store 7200 rival_calls ((\<lambda>q. fresh_proc)(1 := ?p), ?r) = (bs, w)"
    by (cases "run_workers map_store 7200 rival_calls ((\<lambda>q. fresh_proc)(1 := ?p), ?r)")
  moreover have "answered ?m" by (simp add: answered_def up_at_def)
  moreover have "\<not> p_redis_failed ((\<lambda>q. fresh_proc) q)" for q :: nat by (simp add: fresh_proc_def)
  ultimately show ?thesis
    using server_lock_excludes [OF map_store_ok, of "\<lambda>q. fresh_proc" ?m 7200 Backup_lock 7 "''job1''" None 1, OF _ _ a l]
    by (cases w) auto
qed

section \<open>The fallback does not exclude other workers\<close>

text \<open>A request that fails costs the exclusion. A worker whose Redis client raises, or whose first
ping failed at any time before, takes the lock from its own dictionary even though Redis shows
another worker's token on that server, and Redis shows that token afterwards too: two workers then
hold the same server.\<close>

theorem fallback_breaks_exclusion:
  assumes "redis_view call r (lock_key kind sid) (m_now m) = Some other"
    and "p_redis_failed p \<or> m_ping m \<and> m_reach m = Refused" and "local_view (p_local p) (lock_key kind sid) (m_now m) = None"
  shows "\<exists>p'. try_acquire_server_lock call dflt m kind (Some sid) holder ttl (p, r) = (Some (lock_token holder m), p', r)
    \<and> local_view (p_local p') (lock_key kind sid) (m_now m) = Some (lock_token holder m)
    \<and> redis_view call r (lock_key kind sid) (m_now m) = Some other"
proof -
  let ?k = "lock_key kind sid" and ?ttl = "lock_ttl dflt ttl"
  let ?loc = "(p_local p)(?k \<mapsto> (lock_token holder m, m_now m + ?ttl * second))"
  have "local_acquire ?k (lock_token holder m) ?ttl (m_now m) (p_local p) = (True, ?loc)"
    using assms(3) by (auto simp: local_acquire_def Let_def local_view_eq until_eq split: option.splits)
  then have "try_acquire_server_lock call dflt m kind (Some sid) holder ttl (p, r)
      = (Some (lock_token holder m), (snd (get_redis m p))\<lparr>p_local := ?loc\<rparr>, r)"
    using assms(2)
    by (auto simp: try_acquire_server_lock_def acquire_locally_def get_redis_def ask_def Let_def)
  moreover have "local_view ?loc ?k (m_now m) = Some (lock_token holder m)"
    using lock_ttl_pos [of dflt ttl] by (simp add: local_view_eq until_def second_def)
  ultimately show ?thesis using assms(1) by simp
qed

lemma fallback_breaks_exclusion_witness:
  "\<exists>p'. try_acquire_server_lock map_store 7200 \<lparr>m_now = 5, m_hex = ''bb'', m_ping = True, m_reach = Refused\<rparr>
      Backup_lock (Some 7) ''job2'' None (fresh_proc, Map.empty(lock_key Backup_lock 7 \<mapsto> (''job1:aa'', 100)))
      = (Some ''job2:bb'', p', Map.empty(lock_key Backup_lock 7 \<mapsto> (''job1:aa'', 100)))"
  using fallback_breaks_exclusion [of map_store "Map.empty(lock_key Backup_lock 7 \<mapsto> (''job1:aa'', 100))"
      Backup_lock 7 "\<lparr>m_now = 5, m_hex = ''bb'', m_ping = True, m_reach = Refused\<rparr>" "''job1:aa''" fresh_proc 7200 "''job2''" None]
  by (auto simp: map_store_view local_view_eq until_def fresh_proc_def lock_token_def)

section \<open>The dictionary keeps the contract\<close>

text \<open>C29: within one process the fallback is a lease: each of its three operations answers and changes
the shown holders as the contract says, for every dictionary, time, key, token and positive lifetime.\<close>

theorem local_fallback_is_lease:
  assumes "op_ttl_ok x"
  shows "lease_step t x (local_view loc) (fst (local_act t x loc)) (local_view (snd (local_act t x loc)))"
  using assms by (rule local_lock.step)

lemma local_fallback_is_lease_witness:
  "lease_step 0 (Acquire ''k'' ''v'' 30) (local_view Map.empty)
     (fst (local_act 0 (Acquire ''k'' ''v'' 30) Map.empty))
     (local_view (snd (local_act 0 (Acquire ''k'' ''v'' 30) Map.empty)))"
  using local_fallback_is_lease [of "Acquire ''k'' ''v'' 30" 0 Map.empty] by simp

section \<open>Two hosts at once\<close>

lemma lock_key_inject [simp]: "lock_key kind a = lock_key kind b \<longleftrightarrow> a = b"
  by (simp add: lock_key_def)

text \<open>The order of the two hosts in the call does not matter: the lower id is asked for first.\<close>

lemma dual_order:
  assumes "a \<noteq> b"
  shows "try_acquire_dual_server_lock call dflt ms kind (Some b) (Some a) holder ttl pr =
    map_prod (map_option prod.swap) id (try_acquire_dual_server_lock call dflt ms kind (Some a) (Some b) holder ttl pr)"
  using assms by (auto simp: try_acquire_dual_server_lock_def Let_def split: prod.splits option.splits)

lemma release_view:
  assumes "redis_ok call" and "answered m" and "\<not> p_redis_failed p" and "tok \<noteq> []"
    and "release_server_lock call m kind (Some sid) (Some tok) (p, r) = (b, p', r')"
  shows "lease_step (m_now m) (Release (lock_key kind sid) tok) (redis_view call r) b (redis_view call r')"
proof -
  have "redis_act call (m_now m) (Release (lock_key kind sid) tok) r = (b, r')"
    using assms(5) by (auto simp: release_answered [OF assms(2-4)] case_prod_beta prod_eq_iff)
  then show ?thesis
    using lease.step [OF redis_lease [OF assms(1)], of "Release (lock_key kind sid) tok" "m_now m" r]
    by (simp only: fst_conv snd_conv op_ttl_ok.simps)
qed

text \<open>A lock of the first key, taken back after a failed attempt on the second: nothing is left.\<close>

lemma taken_back:
  assumes "redis_ok call" and "t1 \<le> t2" and "t2 \<le> t3" and "redis_view call r k t1 = None"
    and "same_from t1 (redis_view call r1) ((redis_view call r)(k := until e tok))"
    and "same_from t2 (redis_view call r2) (redis_view call r1)"
    and "lease_step t3 (Release k tok) (redis_view call r2) b (redis_view call r3)"
  shows "same_from t3 (redis_view call r3) (redis_view call r)"
proof -
  have mid: "same_from t3 (redis_view call r2) ((redis_view call r)(k := until e tok))"
    using same_from_trans [OF assms(6) same_from_later [OF assms(5,2)]] assms(3) by (rule same_from_later)
  have gone: "redis_view call r k u = None" if "t3 \<le> u" for u
    using redis_gone [OF assms(1,4)] assms(2,3) that by simp
  show ?thesis
  proof (cases "t3 < e")
    case True
    then have "same_from t3 (redis_view call r3) ((redis_view call r2)(k := \<lambda>u. None))"
      using assms(7) same_fromD [OF mid, of t3 k] by (simp add: until_def)
    then show ?thesis using mid gone by (auto simp: same_from_def)
  next
    case False
    then have "redis_view call r2 k u = None" if "t3 \<le> u" for u
      using same_fromD [OF mid that, of k] that by (simp add: until_def)
    then show ?thesis using assms(7) mid gone False by (auto simp: same_from_def until_def)
  qed
qed



end
