(* ===== verification/PathProps.thy ===== *)
theory PathProps
  imports PathPolicy
begin

text \<open>
  The path policy over path components: what \<open>validate_backup_path\<close> decides for paths and rules
  with one leading slash, and what it decides for a path with two.
\<close>

section \<open>One rule\<close>

lemma tidy_plain: "tidy home n p cs \<Longrightarrow> \<forall>c\<in>set cs. plain c"
  by (simp add: tidy_def)

lemma tidy_text: "tidy home n p cs \<Longrightarrow> normalize_path home p = show_path n cs"
  by (simp add: tidy_def)

lemma join_plain_nonempty: "\<forall>c\<in>set cs. plain c \<Longrightarrow> join ''/'' cs = [] \<longleftrightarrow> cs = []"
  by (cases cs; cases "tl cs") (auto simp: plain_def)

lemma join_plain_not_slash:
  assumes "\<forall>c\<in>set cs. plain c"
  shows "join ''/'' cs \<noteq> slash # v" "slash # v \<noteq> join ''/'' cs" "\<not> prefix (slash # v) (join ''/'' cs)"
    and "cs \<noteq> [] \<Longrightarrow> \<not> prefix (join ''/'' cs @ u) (slash # v)"
proof -
  have no: "\<not> prefix (slash # w) (join ''/'' cs)" for w using join_plain_hd [OF assms] by (auto simp: prefix_def)
  from no show "\<not> prefix (slash # v) (join ''/'' cs)" .
  from no show "join ''/'' cs \<noteq> slash # v" "slash # v \<noteq> join ''/'' cs" by (metis prefix_order.refl)+
  show "\<not> prefix (join ''/'' cs @ u) (slash # v)" if "cs \<noteq> []"
    using \<open>join ''/'' cs \<noteq> slash # v\<close> no [of "[]"] join_plain_nonempty [OF assms] that
    by (cases "join ''/'' cs") auto
qed

lemma matches_text:
  assumes "tidy home n p cs" and "tidy home m d ds"
  shows "matches_prefix home (show_path n cs) (show_path m ds) \<longleftrightarrow>
      (if show_path m ds = ''/'' then show_path n cs = ''/''
       else show_path n cs = show_path m ds \<or> prefix (show_path m ds @ ''/'') (show_path n cs))"
proof -
  have "show_path n cs \<noteq> []" "show_path m ds \<noteq> []" using assms by (auto simp: tidy_def)
  then show ?thesis
    by (simp add: matches_prefix_def normalize_again [OF assms(1)] normalize_again [OF assms(2)] Let_def del: show_path_lead)
qed

lemma matches_tidy:
  assumes "tidy home n p cs" and "tidy home m d ds"
  shows "matches_prefix home (show_path n cs) (show_path m ds) \<longleftrightarrow> n = m \<and> below ds cs"
proof -
  note cs = tidy_plain [OF assms(1)] and ds = tidy_plain [OF assms(2)]
  note j = join_append_prefix [OF ds cs] and hc = join_plain_not_slash [OF cs] and hd = join_plain_not_slash [OF ds]
    and ne = join_plain_nonempty [OF cs] join_plain_nonempty [OF ds]
  have "n = Root \<or> n = Double_root \<and> cs \<noteq> []" "m = Root \<or> m = Double_root \<and> ds \<noteq> []"
    using assms by (auto simp: tidy_def)
  then show ?thesis
    unfolding matches_text [OF assms] using j hc hd ne
    by (cases "ds = []") (auto simp: below_def show_path.simps)
qed

section \<open>The policy\<close>

definition default_comps :: "string list list" where
  "default_comps = [[], [''boot''], [''dev''], [''proc''], [''sys''], [''run''], [''tmp''], [''var'', ''run''],
     [''etc''], [''root''], [''usr''], [''bin''], [''sbin''], [''lib''], [''lib64'']]"

text \<open>What may be backed up, on components: the path itself, with the allow and deny rules.\<close>

definition permitted :: "string list list \<Rightarrow> string list list \<Rightarrow> string list \<Rightarrow> bool" where
  "permitted al dn cs =
     (cs \<noteq> [] \<and> \<not> list_ex (\<lambda>d. below d cs) dn \<and> (al = [] \<or> list_ex (\<lambda>a. below a cs) al)
      \<and> (list_ex (\<lambda>a. below a cs) al \<or> \<not> list_ex (\<lambda>d. below d cs) default_comps))"


lemma default_tidy: "list_all2 (tidy home Root) DEFAULT_DENY_PREFIXES default_comps"
proof -
  have "list_all2 (\<lambda>d c. d = show_path Root c \<and> (\<forall>x\<in>set c. plain x) \<and> strip d = d)
      DEFAULT_DENY_PREFIXES default_comps" by code_simp
  then show ?thesis by (rule list_all2_mono) (metis lead.simps(1) tidy_show)
qed

lemma ex_below:
  assumes "tidy home Root p cs" and "list_all2 (tidy home Root) ts css"
  shows "list_ex (\<lambda>t. matches_prefix home (show_path Root cs) (normalize_path home t)) ts
    \<longleftrightarrow> list_ex (\<lambda>d. below d cs) css"
  using assms(2)
  by (induction rule: list_all2_induct) (simp_all add: matches_tidy [OF assms(1)] tidy_text)

lemma tidy_nonempty: "tidy home n t cs \<Longrightarrow> t \<noteq> []"
  by (auto simp: tidy_def normalize_path_def)

lemma filter_tidy: "list_all2 (tidy home n) ts css \<Longrightarrow> filter (\<lambda>t. t \<noteq> []) ts = ts"
  by (induction rule: list_all2_induct) (auto dest: tidy_nonempty)

lemma default_denial_None:
  assumes "tidy home Root p cs" and "list_all2 (\<lambda>d c. d = show_path Root c \<and> tidy home Root d c) ds css"
  shows "default_denial home al (show_path Root cs) ds = None \<longleftrightarrow>
    (\<forall>c\<in>set css. below c cs \<longrightarrow> \<not> (c = [] \<and> cs = []) \<and> list_ex (matches_prefix home (show_path Root cs)) al)"
  using assms(2)
proof (induction rule: list_all2_induct)
  case Nil
  then show ?case by simp
next
  case (Cons d ds c css)
  have root: "show_path Root xs = ''/'' \<longleftrightarrow> xs = []" if "\<forall>x\<in>set xs. plain x" for xs
    using join_plain_nonempty [OF that] by (auto simp: show_path.simps)
  have m: "matches_prefix home (show_path Root cs) d \<longleftrightarrow> below c cs"
    using matches_tidy [OF assms(1) conjunct2 [OF Cons.hyps(1)]] conjunct1 [OF Cons.hyps(1)] by simp
  have "d = ''/'' \<longleftrightarrow> c = []" "show_path Root cs = ''/'' \<longleftrightarrow> cs = []"
    using root tidy_plain assms(1) Cons.hyps(1) by metis+
  then show ?case using Cons.IH m by (cases "al = []") auto
qed

lemma list_all2_default: "list_all2 (\<lambda>d c. d = show_path Root c \<and> tidy home Root d c) DEFAULT_DENY_PREFIXES default_comps"
proof -
  have "list_all2 (\<lambda>d c. d = show_path Root c) DEFAULT_DENY_PREFIXES default_comps" by code_simp
  with default_tidy [of home] show ?thesis by (auto simp: list_all2_conv_all_nth)
qed

text \<open>What is checked before the rules: nothing, for the text of a rooted path.\<close>

lemma validate_rooted:
  assumes "tidy home n path cs" and "CHR 0x00 \<notin> set path"
  shows "validate_backup_path home path r =
    (let al = map (normalize_path home) (filter (\<lambda>a. a \<noteq> []) (allow r)); p = show_path n cs in
     case find (matches_prefix home p) (map (normalize_path home) (filter (\<lambda>d. d \<noteq> []) (deny r))) of
       Some d \<Rightarrow> (False, ''Denied by policy: '' @ d)
     | None \<Rightarrow>
         (case default_denial home al p DEFAULT_DENY_PREFIXES of
            Some reason \<Rightarrow> (False, reason)
          | None \<Rightarrow> if al \<noteq> [] \<and> \<not> list_ex (matches_prefix home p) al
                     then (False, ''Path is outside allow list'') else (True, [])))"
proof -
  have p: "normalize_path home (strip path) = show_path n cs" using assms(1) by (rule strip_normalize)
  have "strip path \<noteq> []" using assms(1) by (auto simp: tidy_def normalize_path_def)
  moreover have "prefix ''/'' (show_path n cs)"
    using assms(1) show_path_rooted [of n cs] by (auto simp: tidy_def)
  moreover have "CHR 0x00 \<notin> set (strip path)" using assms(2) set_strip by blast
  moreover have "''..'' \<notin> set (split_on slash (show_path n cs))"
  proof (cases "cs = []")
    case True
    then show ?thesis using assms(1) by (auto simp: tidy_def show_path.simps)
  next
    case False
    then have "set (split_on slash (show_path n cs)) \<subseteq> insert [] (set cs)"
      using assms(1) split_join_plain [of cs] by (auto simp: tidy_def show_path.simps)
    then show ?thesis using tidy_plain [OF assms(1)] by (auto simp: plain_def)
  qed
  ultimately show ?thesis by (simp add: validate_backup_path_def p Let_def)
qed

text \<open>C31: for a path and rules that normalise to one leading slash, the text comparison is the policy on
components: the path is not the root, is not below a custom deny rule, is below some allow rule when
there are any, and is below a default-denied directory only when it is below an allow rule. A rule
for \<open>/home/user\<close> thus does not reach \<open>/home/user2\<close>, and \<open>/srv/../etc\<close> counts as \<open>/etc\<close>.\<close>

theorem path_policy_on_components:
  assumes "tidy home Root path cs" and "CHR 0x00 \<notin> set path"
    and "list_all2 (tidy home Root) (allow r) al" and "list_all2 (tidy home Root) (deny r) dn"
  shows "fst (validate_backup_path home path r) = permitted al dn cs"
proof -
  let ?p = "show_path Root cs" and ?al = "map (normalize_path home) (allow r)"
  have a: "list_ex (matches_prefix home ?p) ?al \<longleftrightarrow> list_ex (\<lambda>a. below a cs) al"
    using ex_below [OF assms(1,3)] by (simp add: list_ex_iff)
  have d: "find (matches_prefix home ?p) (map (normalize_path home) (deny r)) = None
      \<longleftrightarrow> \<not> list_ex (\<lambda>d. below d cs) dn"
    using ex_below [OF assms(1,4)] by (auto simp: find_None_iff list_ex_iff)
  have dd: "default_denial home ?al ?p DEFAULT_DENY_PREFIXES = None \<longleftrightarrow>
      (\<forall>c\<in>set default_comps. below c cs \<longrightarrow> \<not> (c = [] \<and> cs = []) \<and> list_ex (\<lambda>a. below a cs) al)"
    using default_denial_None [OF assms(1) list_all2_default] a by simp
  have "[] \<in> set default_comps" by (simp add: default_comps_def)
  then have dd': "default_denial home ?al ?p DEFAULT_DENY_PREFIXES = None \<longleftrightarrow>
      cs \<noteq> [] \<and> (list_ex (\<lambda>a. below a cs) al \<or> \<not> list_ex (\<lambda>d. below d cs) default_comps)"
    unfolding dd by (auto simp: list_ex_iff below_def)
  have "?al = [] \<longleftrightarrow> al = []" using assms(3) by auto
  moreover have "fst (validate_backup_path home path r) \<longleftrightarrow>
      find (matches_prefix home ?p) (map (normalize_path home) (deny r)) = None
      \<and> default_denial home ?al ?p DEFAULT_DENY_PREFIXES = None \<and> (?al = [] \<or> list_ex (matches_prefix home ?p) ?al)"
    by (simp add: validate_rooted [OF assms(1,2)] filter_tidy [OF assms(3)] filter_tidy [OF assms(4)]
      Let_def split: option.splits)
  ultimately show ?thesis unfolding d dd' a permitted_def by blast
qed

lemma path_policy_on_components_witness:
  "\<not> fst (validate_backup_path None ''/srv//x/../../etc/shadow/'' \<lparr>allow = [], deny = [''/data'']\<rparr>)"
proof -
  have "tidy None Root ''/srv//x/../../etc/shadow/'' [''etc'', ''shadow'']" and "tidy None Root ''/data'' [''data'']"
    by code_simp+
  then show ?thesis
    using path_policy_on_components [of None "''/srv//x/../../etc/shadow/''" "[''etc'', ''shadow'']"
        "\<lparr>allow = [], deny = [''/data'']\<rparr>" "[]" "[[''data'']]"]
    by (simp add: permitted_def default_comps_def below_def)
qed

text \<open>A second leading slash takes a path out of the policy. With no allow rule, whatever the deny
rules (with one leading slash each), a path whose text starts with exactly two slashes is accepted,
below \<open>/etc\<close> or any other denied directory too.\<close>

theorem double_slash_is_accepted:
  assumes "tidy home Double_root path cs" and "CHR 0x00 \<notin> set path"
    and "allow r = []" and "list_all2 (tidy home Root) (deny r) dn"
  shows "validate_backup_path home path r = (True, [])"
proof -
  let ?p = "show_path Double_root cs"
  have no: "\<not> matches_prefix home ?p (normalize_path home d)" if "tidy home Root d c" for d c
    using matches_tidy [OF assms(1) that] that by (simp add: tidy_text)
  have "find (matches_prefix home ?p) (map (normalize_path home) (deny r)) = None"
    using assms(4) no by (auto simp: find_None_iff list_all2_conv_all_nth in_set_conv_nth) (metis no)
  moreover have "default_denial home [] ?p ds = None"
    if "list_all2 (\<lambda>d c. d = show_path Root c \<and> tidy home Root d c) ds css" for ds css
    using that by (induction rule: list_all2_induct) (auto simp: matches_tidy [OF assms(1)])
  then have "default_denial home [] ?p DEFAULT_DENY_PREFIXES = None" using list_all2_default by blast
  ultimately show ?thesis
    by (simp add: validate_rooted [OF assms(1,2)] filter_tidy [OF assms(4)] assms(3) Let_def)
qed

lemma double_slash_is_accepted_witness:
  "validate_backup_path None ''//etc/shadow'' \<lparr>allow = [], deny = [''/etc'']\<rparr> = (True, [])"
proof -
  have "tidy None Double_root ''//etc/shadow'' [''etc'', ''shadow'']" and "tidy None Root ''/etc'' [''etc'']"
    by code_simp+
  then show ?thesis
    by (intro double_slash_is_accepted [where cs = "[''etc'', ''shadow'']" and dn = "[[''etc'']]"]) auto
qed

end
