(* ===== verification/Ownership.thy ===== *)
theory Ownership
  imports PosixPath PyJson
begin

text \<open>
  \<open>src/app/services/backup_ownership.py\<close>: owner, group and mode of a backed-up tree. The listing
  of the source host is parsed into entries, the entries are written beside the backup, and a
  restore applies them, on this host through \<open>apply_manifest_tree\<close>, on a remote host through the
  shell script of \<open>render_apply_script\<close>.

  The file system is a function from the components below the target to the kind of file there;
  the answers of \<open>chown\<close> and \<open>chmod\<close> and the final \<open>resolve\<close> check are parameters.
\<close>

section \<open>Modes\<close>

definition is_octal :: "char \<Rightarrow> bool" where
  "is_octal c = (let n = of_char c :: nat in 48 \<le> n \<and> n \<le> 55)"

definition octal_val :: "string \<Rightarrow> nat" where
  "octal_val s = foldl (\<lambda>acc c. 8 * acc + digit_val c) 0 s"

text \<open>\<open>int(s, 8)\<close>: white space, a sign, an optional \<open>0o\<close>, octal digits with single underscores.\<close>

definition octal_body :: "string \<Rightarrow> int option" where
  "octal_body s =
     (let t = (if prefix ''0o'' s \<or> prefix ''0O'' s
               then (if prefix ''_'' (drop 2 s) then drop 3 s else drop 2 s) else s);
          gs = split_on CHR ''_'' t
      in if list_all (\<lambda>g. g \<noteq> [] \<and> list_all is_octal g) gs then Some (int (octal_val (concat gs))) else None)"

definition octal_int :: "string \<Rightarrow> int option" where
  "octal_int s = (case strip s of
       [] \<Rightarrow> None
     | c # cs \<Rightarrow>
         if c = CHR ''-'' then map_option uminus (octal_body cs)
         else if c = CHR ''+'' then octal_body cs
         else octal_body (c # cs))"

text \<open>\<open>format(n, "04o")\<close> for \<open>n\<close> below \<open>0o10000\<close>.\<close>

definition oct4 :: "nat \<Rightarrow> string" where
  "oct4 n = map (\<lambda>k. digit_char (n div 8 ^ k mod 8)) [3, 2, 1, 0]"

text \<open>The masks are \<open>0o7777 = 4095\<close> and \<open>0o1777 = 1023\<close>; \<open>n & 0o1777\<close> is \<open>n mod 1024\<close>.\<close>

definition canonical_mode :: "json \<Rightarrow> bool \<Rightarrow> string option" where
  "canonical_mode value strip_special =
     (case (case value of JStr s \<Rightarrow> octal_int s | _ \<Rightarrow> py_int value) of
        None \<Rightarrow> None
      | Some number \<Rightarrow>
          if number < 0 \<or> 4095 < number then None
          else Some (oct4 (nat (if strip_special then number mod 1024 else number))))"

section \<open>Relative paths\<close>

definition safe_rel :: "json \<Rightarrow> string option" where
  "safe_rel raw =
     (if raw = JNull then None
      else (let text = replace_all (py_str raw) [CHR 0x5C] ''/'' in
        if text = [] \<or> text = ''.'' then Some []
        else if prefix ''/'' text \<or> CHR 0x00 \<in> set text \<or> CHR 0x0A \<in> set text then None
        else (let parts = split_on slash text in
          if list_ex (\<lambda>part. part = [] \<or> part = ''.'' \<or> part = ''..'') parts then None
          else Some (join ''/'' parts))))"

section \<open>The listing of the source\<close>

record entry =
  e_path :: string
  e_uid :: int
  e_gid :: int
  e_mode :: string

datatype listing_error = Truncated | Bad_number

definition valid_id :: "int \<Rightarrow> bool" where
  "valid_id n = (0 \<le> n \<and> n \<le> 4294967295)"

text \<open>The four fields of one file, NUL-terminated each; \<open>decode\<close> is the decoding of the path bytes.\<close>

fun find_entries :: "(string \<Rightarrow> string) \<Rightarrow> string list \<Rightarrow> listing_error + entry list" where
  "find_entries decode (p # u # g # m # rest) =
     (case safe_rel (JStr (decode p)) of
        None \<Rightarrow> find_entries decode rest
      | Some cleaned \<Rightarrow>
          (case canonical_mode (JStr m) False of
             None \<Rightarrow> find_entries decode rest
           | Some mode \<Rightarrow>
               (case (int_of_str u, int_of_str g) of
                  (Some uid, Some gid) \<Rightarrow>
                    (if valid_id uid \<and> valid_id gid
                     then rbind (find_entries decode rest)
                       (\<lambda>es. Inr (\<lparr>e_path = cleaned, e_uid = uid, e_gid = gid, e_mode = mode\<rparr> # es))
                     else find_entries decode rest)
                | _ \<Rightarrow> Inl Bad_number)))"
| "find_entries decode rest = Inr []"

definition parse_find_output :: "(string \<Rightarrow> string) \<Rightarrow> string \<Rightarrow> listing_error + entry list" where
  "parse_find_output decode raw =
     (let parts0 = split_on CHR 0x00 raw;
          parts = (if parts0 \<noteq> [] \<and> last parts0 = [] then butlast parts0 else parts0)
      in if length parts mod 4 \<noteq> 0 then Inl Truncated else find_entries decode parts)"

section \<open>Listing a remote tree\<close>

text \<open>\<open>shlex.quote\<close>.\<close>

definition shell_safe :: "char \<Rightarrow> bool" where
  "shell_safe c = (let n = of_char c :: nat in
     (48 \<le> n \<and> n \<le> 57) \<or> (65 \<le> n \<and> n \<le> 90) \<or> (97 \<le> n \<and> n \<le> 122) \<or> c \<in> set ''_@%+=:,./-'')"

definition quote :: "string \<Rightarrow> string" where
  "quote s =
     (if s = [] then [CHR 0x27, CHR 0x27]
      else if list_all shell_safe s then s
      else [CHR 0x27] @ replace_all s [CHR 0x27] [CHR 0x27, CHR 0x22, CHR 0x27, CHR 0x22, CHR 0x27] @ [CHR 0x27])"

definition finder :: "string \<Rightarrow> string" where
  "finder source = ''find '' @ quote source @ '' '' @ [CHR 0x5C] @ ''( -type d -o -type f -o -type l '' @ [CHR 0x5C] @ '') ''
     @ ''-printf '' @ [CHR 0x27] @ concat (map (\<lambda>f. [CHR ''%'', f, CHR 0x5C, CHR ''0'']) ''PUGm'') @ [CHR 0x27]"

text \<open>
  \<open>exec\<close> runs a command on the host: exit status, output and error bytes. \<open>errors\<close> are the messages
  of the commands that failed so far, in the lenient decoding \<open>show_bytes\<close>.
\<close>

datatype collect_error = Listing listing_error | Find_failed string

fun try_finders ::
    "(string \<Rightarrow> string) \<Rightarrow> (string \<Rightarrow> string) \<Rightarrow> (string \<Rightarrow> int \<times> string \<times> string) \<Rightarrow> string list \<Rightarrow> string list
      \<Rightarrow> collect_error + entry list" where
  "try_finders decode show_bytes exec errors [] =
     (let detail = join ''; '' (filter (\<lambda>e. e \<noteq> []) errors)
      in Inl (Find_failed (take 300 (if detail = [] then ''find failed'' else detail))))"
| "try_finders decode show_bytes exec errors (cmd # cmds) =
     (case exec cmd of (status, out, err) \<Rightarrow>
        if status = 0 then (case parse_find_output decode out of Inl e \<Rightarrow> Inl (Listing e) | Inr es \<Rightarrow> Inr es)
        else try_finders decode show_bytes exec (errors @ [take 200 (show_bytes (if err \<noteq> [] then err else out))]) cmds)"

definition collect_remote_tree ::
    "(string \<Rightarrow> string) \<Rightarrow> (string \<Rightarrow> string) \<Rightarrow> (string \<Rightarrow> int \<times> string \<times> string) \<Rightarrow> string \<Rightarrow> collect_error + entry list" where
  "collect_remote_tree decode show_bytes exec source =
     try_finders decode show_bytes exec [] [''sudo -n '' @ finder source, finder source]"

section \<open>The manifest\<close>

definition SCHEMA :: int where
  "SCHEMA = 1"

definition entry_json :: "entry \<Rightarrow> json" where
  "entry_json e = JObj [(''path'', JStr (e_path e)), (''uid'', JInt (e_uid e)), (''gid'', JInt (e_gid e)),
     (''mode'', JStr (e_mode e))]"

definition write_manifest :: "entry list \<Rightarrow> json" where
  "write_manifest es = JObj [(''schema'', JInt SCHEMA), (''entries'', JList (map entry_json es))]"

text \<open>The file that is there: none, JSON text, or text that does not parse (with the message).\<close>

definition load_manifest :: "column \<Rightarrow> (string + json list) option" where
  "load_manifest file =
     (case file of
        Absent \<Rightarrow> None
      | Garbled msg \<Rightarrow> Some (Inl (take 200 (''ownership manifest is unreadable: '' @ msg)))
      | Text (JObj d) \<Rightarrow>
          if dget0 d ''schema'' = JInt SCHEMA \<or> dget0 d ''schema'' = JBool True then
            (case dget0 d ''entries'' of JList es \<Rightarrow> Some (Inr es)
             | _ \<Rightarrow> Some (Inl ''ownership manifest has no entries''))
          else Some (Inl ''ownership manifest schema is not supported'')
      | Text _ \<Rightarrow> Some (Inl ''ownership manifest schema is not supported''))"

text \<open>The checks on one manifest entry, the same in both ways to apply it; setuid and setgid go.\<close>

definition usable_entry :: "json \<Rightarrow> entry option" where
  "usable_entry raw =
     (case raw of
        JObj d \<Rightarrow>
          (case (py_int (dget0 d ''uid''), py_int (dget0 d ''gid'')) of
             (Some uid, Some gid) \<Rightarrow>
               (case (safe_rel (dget0 d ''path''), canonical_mode (dget0 d ''mode'') True) of
                  (Some rel, Some mode) \<Rightarrow>
                    if valid_id uid \<and> valid_id gid
                    then Some \<lparr>e_path = rel, e_uid = uid, e_gid = gid, e_mode = mode\<rparr> else None
                | _ \<Rightarrow> None)
           | _ \<Rightarrow> None)
      | _ \<Rightarrow> None)"

section \<open>Applying it here\<close>

datatype node = Dir | File | Link

type_synonym fs = "string list \<Rightarrow> node option"

text \<open>The walk from \<open>current\<close> over the parts that are left.\<close>

fun walk :: "fs \<Rightarrow> string list \<Rightarrow> string list \<Rightarrow> string list option" where
  "walk f current [] = Some current"
| "walk f current (part # parts) =
     (let nxt = current @ [part] in
      case f nxt of
        None \<Rightarrow> None
      | Some Link \<Rightarrow> if parts \<noteq> [] then None else Some nxt
      | Some k \<Rightarrow> if parts \<noteq> [] \<and> k \<noteq> Dir then None else walk f nxt parts)"

definition within_target :: "fs \<Rightarrow> (string list \<Rightarrow> bool) \<Rightarrow> string \<Rightarrow> string list option" where
  "within_target f inside rel =
     (if rel = [] then Some []
      else (case walk f [] (split_on slash rel) of
              None \<Rightarrow> None
            | Some p \<Rightarrow> if f p = Some Link \<or> inside p then Some p else None))"

datatype change = Chown "string list" int int | Chmod "string list" nat

record applied =
  a_applied :: nat
  a_skipped :: nat
  a_errors :: "string list"
  a_changes :: "change list"

definition apply_one ::
    "fs \<Rightarrow> (string list \<Rightarrow> bool) \<Rightarrow> (change \<Rightarrow> string option) \<Rightarrow> json \<Rightarrow> applied \<Rightarrow> applied" where
  "apply_one f inside refuses raw a =
     (case usable_entry raw of
        None \<Rightarrow> a\<lparr>a_skipped := a_skipped a + 1\<rparr>
      | Some e \<Rightarrow>
          (case within_target f inside (e_path e) of
             None \<Rightarrow> a\<lparr>a_skipped := a_skipped a + 1\<rparr>
           | Some p \<Rightarrow>
               (let own = Chown p (e_uid e) (e_gid e); mode = Chmod p (octal_val (e_mode e));
                    shown = (if e_path e = [] then ''.'' else e_path e);
                    failed = (\<lambda>a msg. a\<lparr>a_errors := a_errors a @ [shown @ '': '' @ msg]\<rparr>)
                in case refuses own of
                     Some msg \<Rightarrow> failed a msg
                   | None \<Rightarrow>
                       (let a1 = a\<lparr>a_changes := a_changes a @ [own]\<rparr> in
                        if f p = Some Link then a1\<lparr>a_applied := a_applied a1 + 1\<rparr>
                        else (case refuses mode of
                                Some msg \<Rightarrow> failed a1 msg
                              | None \<Rightarrow> a1\<lparr>a_applied := a_applied a1 + 1, a_changes := a_changes a1 @ [mode]\<rparr>)))))"

definition apply_manifest_tree ::
    "fs \<Rightarrow> (string list \<Rightarrow> bool) \<Rightarrow> (change \<Rightarrow> string option) \<Rightarrow> json list \<Rightarrow> applied" where
  "apply_manifest_tree f inside refuses entries =
     fold (apply_one f inside refuses) entries \<lparr>a_applied = 0, a_skipped = 0, a_errors = [], a_changes = []\<rparr>"

section \<open>Applying it on the host\<close>

definition apply_line :: "entry \<Rightarrow> string" where
  "apply_line e =
     ''apply_rel '' @ join '' '' (map quote
       [if e_path e = [] then ''.'' else e_path e, int_str (e_uid e), int_str (e_gid e), e_mode e])"

definition apply_calls :: "json list \<Rightarrow> string list" where
  "apply_calls entries = map apply_line (List.map_filter usable_entry entries)"

text \<open>
  The shell function \<open>apply_rel\<close> of the script: the patterns it tests its arguments against, and
  its loop, which splits the path at the first slash and stops at a link or a file on the way.
  It is modelled for commands that succeed; \<open>set -e\<close> ends the script at the first that fails.
\<close>

definition sh_number :: "string \<Rightarrow> bool" where
  "sh_number s = (s \<noteq> [] \<and> list_all is_digit s)"

definition sh_mode :: "string \<Rightarrow> bool" where
  "sh_mode m = (length m = 4 \<and> m ! 0 \<in> set ''01'' \<and> list_all is_octal (tl m))"

definition sh_climbs :: "string \<Rightarrow> bool" where
  "sh_climbs rel = (prefix ''/'' rel \<or> rel = ''..'' \<or> prefix ''../'' rel \<or> suffix ''/..'' rel \<or> contains rel ''/../'')"

definition before_slash :: "string \<Rightarrow> string" where
  "before_slash s = takeWhile (\<lambda>c. c \<noteq> slash) s"

definition after_slash :: "string \<Rightarrow> string" where
  "after_slash s = tl (dropWhile (\<lambda>c. c \<noteq> slash) s)"

lemma after_slash_shorter: "slash \<in> set s \<Longrightarrow> length (after_slash s) < length s"
  by (induction s) (auto simp: after_slash_def)

function sh_walk :: "fs \<Rightarrow> string list \<Rightarrow> string \<Rightarrow> string list option" where
  "sh_walk f dir rest =
     (let seg = before_slash rest; path = dir @ [seg] in
      if seg = [] \<or> seg = ''.'' \<or> seg = ''..'' then None
      else if rest = seg then (if f path = None then None else Some path)
      else if slash \<notin> set rest then None
      else if f path = Some Link \<or> f path \<noteq> Some Dir then None
      else sh_walk f path (after_slash rest))"
  by pat_completeness simp
termination by (relation "measure (\<lambda>(f, dir, rest). length rest)") (simp_all add: after_slash_shorter)

declare sh_walk.simps [simp del]

definition sh_apply_rel :: "fs \<Rightarrow> string \<Rightarrow> string \<Rightarrow> string \<Rightarrow> string \<Rightarrow> change list" where
  "sh_apply_rel f rel uid gid mode =
     (if \<not> sh_number uid \<or> \<not> sh_number gid \<or> \<not> sh_mode mode then []
      else (let own = (\<lambda>p. Chown p (int (digits_val uid)) (int (digits_val gid)));
                chm = (\<lambda>p. Chmod p (octal_val mode))
            in if rel = ''.'' then [own [], chm []]
               else if sh_climbs rel then []
               else (case sh_walk f [] rel of
                       None \<Rightarrow> []
                     | Some p \<Rightarrow> own p # (if f p = Some Link then [] else [chm p]))))"

end
