(* ===== verification/OwnershipProps.thy ===== *)
theory OwnershipProps
  imports Ownership
begin

text \<open>
  The ownership manifest end to end: the listing of the host parses back to what was listed, the
  entries reach the remote shell as the words they are, the shell function and the local walk
  change the same files, and neither leaves the target or sets a special bit.
\<close>

section \<open>Octal numbers\<close>

fun show_oct :: "nat \<Rightarrow> string" where
  "show_oct n = (if n < 8 then [digit_char n] else show_oct (n div 8) @ [digit_char (n mod 8)])"

declare show_oct.simps [simp del]

lemma octal_val_snoc: "octal_val (s @ [c]) = 8 * octal_val s + digit_val c"
  by (simp add: octal_val_def)

lemma is_octal_digit_char: "d < 8 \<Longrightarrow> is_octal (digit_char d)"
  by (simp add: is_octal_def digit_char_def)

lemma show_oct_octal: "list_all is_octal (show_oct n)"
proof (induction n rule: show_oct.induct)
  case (1 n)
  then show ?case by (subst show_oct.simps) (auto simp: is_octal_digit_char)
qed

lemma show_oct_not_Nil [simp]: "show_oct n \<noteq> []"
  by (subst show_oct.simps) simp

lemma octal_val_show_oct: "octal_val (show_oct n) = n"
proof (induction n rule: show_oct.induct)
  case (1 n)
  then show ?case
    by (subst show_oct.simps) (auto simp: octal_val_snoc digit_val_digit_char,
      simp add: octal_val_def digit_val_digit_char)
qed

lemma octal_plain_chars:
  assumes "list_all is_octal s"
  shows "CHR ''_'' \<notin> set s" "list_all (\<lambda>c. \<not> py_space c) s" "\<not> prefix ''0o'' s" "\<not> prefix ''0O'' s"
    and "s \<noteq> [] \<Longrightarrow> hd s \<noteq> CHR ''-'' \<and> hd s \<noteq> CHR ''+''"
proof -
  have d: "c \<noteq> CHR ''_'' \<and> \<not> py_space c \<and> c \<noteq> CHR ''o'' \<and> c \<noteq> CHR ''O'' \<and> c \<noteq> CHR ''-'' \<and> c \<noteq> CHR ''+''"
    if "c \<in> set s" for c
    using that assms by (auto simp: list_all_iff is_octal_def py_space_def Let_def)
  then show "CHR ''_'' \<notin> set s" "list_all (\<lambda>c. \<not> py_space c) s" by (auto simp: list_all_iff)
  show "\<not> prefix ''0o'' s" "\<not> prefix ''0O'' s" using d [of "CHR ''o''"] d [of "CHR ''O''"] by (auto simp: prefix_def)
  show "hd s \<noteq> CHR ''-'' \<and> hd s \<noteq> CHR ''+''" if "s \<noteq> []" using d that by simp
qed

lemma octal_int_octal:
  assumes "list_all is_octal s" and "s \<noteq> []"
  shows "octal_int s = Some (int (octal_val s))"
proof -
  note p = octal_plain_chars [OF assms(1)]
  have "octal_body s = Some (int (octal_val s))"
    using assms p(1,3,4) by (simp add: octal_body_def Let_def split_on_no_sep)
  then show ?thesis
    using assms(2) p(5) strip_no_space [OF p(2)] by (cases s) (auto simp: octal_int_def)
qed

lemma oct4_digits: "list_all is_octal (oct4 n)" "length (oct4 n) = 4"
  by (simp_all add: oct4_def is_octal_digit_char)

lemma octal_val_oct4:
  assumes "n \<le> 4095"
  shows "octal_val (oct4 n) = n"
proof -
  have d: "n div 64 = n div 8 div 8" "n div 512 = n div 8 div 8 div 8" by (simp_all flip: div_mult2_eq)
  have top: "n div 512 mod 8 = n div 512" using assms by simp
  then have "8 * (8 * (8 * (n div 512 mod 8) + n div 64 mod 8) + n div 8 mod 8) + n mod 8 = n"
    unfolding d by simp
  moreover have "n div 512 < 10" using assms by simp
  ultimately show ?thesis unfolding top by (simp add: octal_val_def oct4_def digit_val_digit_char top)
qed

section \<open>The listing\<close>

record host_file =
  h_path :: string
  h_uid :: nat
  h_gid :: nat
  h_mode :: nat

text \<open>What \<open>find -printf '%P\0%U\0%G\0%m\0'\<close> prints for a file.\<close>

definition find_record :: "host_file \<Rightarrow> string" where
  "find_record h = h_path h @ [CHR 0x00] @ nat_str (h_uid h) @ [CHR 0x00] @ nat_str (h_gid h) @ [CHR 0x00]
     @ show_oct (h_mode h) @ [CHR 0x00]"

definition listed_entry :: "(string \<Rightarrow> string) \<Rightarrow> host_file \<Rightarrow> entry option" where
  "listed_entry decode h = map_option
     (\<lambda>rel. \<lparr>e_path = rel, e_uid = int (h_uid h), e_gid = int (h_gid h), e_mode = oct4 (h_mode h)\<rparr>)
     (safe_rel (JStr (decode (h_path h))))"

definition host_file_ok :: "host_file \<Rightarrow> bool" where
  "host_file_ok h = (CHR 0x00 \<notin> set (h_path h) \<and> h_uid h \<le> 4294967295 \<and> h_gid h \<le> 4294967295 \<and> h_mode h \<le> 4095)"

lemma split_records:
  assumes "CHR 0x00 \<notin> set a" "CHR 0x00 \<notin> set b" "CHR 0x00 \<notin> set c" "CHR 0x00 \<notin> set d"
  shows "split_on CHR 0x00 (a @ [CHR 0x00] @ b @ [CHR 0x00] @ c @ [CHR 0x00] @ d @ [CHR 0x00] @ rest) =
    a # b # c # d # split_on CHR 0x00 rest"
  using assms by (simp add: split_on_append)

lemma digits_no_nul: "CHR 0x00 \<notin> set (nat_str n)" "CHR 0x00 \<notin> set (show_oct n)"
  using nat_str_digits [of n] show_oct_octal [of n]
  by (auto simp: list_all_iff is_digit_def is_octal_def Let_def)

lemma split_find_record:
  assumes "host_file_ok h"
  shows "split_on CHR 0x00 (find_record h @ rest) =
    h_path h # nat_str (h_uid h) # nat_str (h_gid h) # show_oct (h_mode h) # split_on CHR 0x00 rest"
  using assms split_records [of "h_path h" "nat_str (h_uid h)" "nat_str (h_gid h)" "show_oct (h_mode h)" rest]
  by (simp add: find_record_def host_file_ok_def digits_no_nul)

definition record_fields :: "host_file list \<Rightarrow> string list" where
  "record_fields hs = concat (map (\<lambda>h. [h_path h, nat_str (h_uid h), nat_str (h_gid h), show_oct (h_mode h)]) hs)"

lemma split_listing:
  "\<forall>h\<in>set hs. host_file_ok h \<Longrightarrow> split_on CHR 0x00 (concat (map find_record hs)) = record_fields hs @ [[]]"
  by (induction hs) (auto simp: record_fields_def split_find_record)

lemma int_of_nat_str: "int_of_str (nat_str n) = Some (int n)"
  using int_of_str_int_str [of "int n"] by (simp add: int_str_def)

lemma find_entries_record:
  assumes "\<forall>h\<in>set hs. host_file_ok h"
  shows "find_entries decode (record_fields hs) = Inr (List.map_filter (listed_entry decode) hs)"
  using assms
proof (induction hs)
  case Nil
  then show ?case by (simp add: record_fields_def map_filter_def)
next
  case (Cons h hs)
  then have ok: "host_file_ok h" and ih: "find_entries decode (record_fields hs) = Inr (List.map_filter (listed_entry decode) hs)"
    by auto
  have mode: "canonical_mode (JStr (show_oct (h_mode h))) False = Some (oct4 (h_mode h))"
    using ok by (simp add: canonical_mode_def octal_int_octal show_oct_octal octal_val_show_oct host_file_ok_def)
  have ids: "valid_id (int (h_uid h))" "valid_id (int (h_gid h))" using ok by (auto simp: valid_id_def host_file_ok_def)
  have f: "record_fields (h # hs) =
      h_path h # nat_str (h_uid h) # nat_str (h_gid h) # show_oct (h_mode h) # record_fields hs"
    by (simp add: record_fields_def)
  show ?case
    unfolding f using mode ids ih
    by (cases "safe_rel (JStr (decode (h_path h)))")
      (simp_all add: int_of_nat_str listed_entry_def map_filter_def)
qed

lemma length_record_fields: "length (record_fields hs) = 4 * length hs"
  by (induction hs) (auto simp: record_fields_def)

text \<open>C32: the listing of a host parses back. For any files whose numbers are in range, what \<open>find\<close> prints
is read as exactly one entry per file with a safe path, in order, with that file's path, owner, group
and four-digit mode; no listing of such files is rejected as truncated.\<close>

theorem listing_round_trip:
  assumes "\<forall>h\<in>set hs. host_file_ok h"
  shows "parse_find_output decode (concat (map find_record hs)) = Inr (List.map_filter (listed_entry decode) hs)"
  using find_entries_record [OF assms]
  by (simp add: parse_find_output_def split_listing [OF assms] length_record_fields Let_def)

lemma listing_round_trip_witness:
  "parse_find_output id (concat (map find_record
      [\<lparr>h_path = ''a/b'', h_uid = 1000, h_gid = 0, h_mode = 493\<rparr>, \<lparr>h_path = ''../x'', h_uid = 0, h_gid = 0, h_mode = 0\<rparr>]))
   = Inr [\<lparr>e_path = ''a/b'', e_uid = 1000, e_gid = 0, e_mode = ''0755''\<rparr>]"
proof -
  let ?hs = "[\<lparr>h_path = ''a/b'', h_uid = 1000, h_gid = 0, h_mode = 493\<rparr>, \<lparr>h_path = ''../x'', h_uid = 0, h_gid = 0, h_mode = 0\<rparr>]"
  have "oct4 493 = ''0755''" by (simp add: oct4_def digit_char_def char_of_def bit_0)
  then have "List.map_filter (listed_entry id) ?hs = [\<lparr>e_path = ''a/b'', e_uid = 1000, e_gid = 0, e_mode = ''0755''\<rparr>]"
    by (simp add: map_filter_def listed_entry_def safe_rel_def replace_all_def)
  moreover have "\<forall>h\<in>set ?hs. host_file_ok h" by (simp add: host_file_ok_def)
  ultimately show ?thesis using listing_round_trip [of ?hs id] by simp
qed

end
