(* ===== verification/OwnershipApply.thy ===== *)
theory OwnershipApply
  imports OwnershipProps
begin

text \<open>
  Applying the entries: how a shell reads the lines of the script, that the shell function
  changes what the local walk changes, and where those changes are confined to.
\<close>

section \<open>How the shell reads a line\<close>

text \<open>
  POSIX word splitting of one simple command, as far as quotes go: blanks end a word, single
  quotes keep everything, double quotes everything but expansions. Any other special character
  outside quotes is not such a command (\<open>None\<close>).
\<close>

datatype lex_mode = Bare | Single | Double

fun sh_words :: "lex_mode \<Rightarrow> string option \<Rightarrow> string \<Rightarrow> string list option" where
  "sh_words m w [] = (if m = Bare then Some (case w of None \<Rightarrow> [] | Some u \<Rightarrow> [u]) else None)"
| "sh_words m w (c # cs) =
     (let u = (case w of None \<Rightarrow> [] | Some u \<Rightarrow> u) in
      case m of
        Bare \<Rightarrow>
          if c = CHR '' '' then
            (case w of None \<Rightarrow> sh_words Bare None cs | Some u \<Rightarrow> map_option ((#) u) (sh_words Bare None cs))
          else if c = CHR 0x27 then sh_words Single (Some u) cs
          else if c = CHR 0x22 then sh_words Double (Some u) cs
          else if shell_safe c then sh_words Bare (Some (u @ [c])) cs
          else None
      | Single \<Rightarrow> if c = CHR 0x27 then sh_words Bare w cs else sh_words Single (Some (u @ [c])) cs
      | Double \<Rightarrow>
          if c = CHR 0x22 then sh_words Bare w cs
          else if c \<in> {CHR 0x5C, CHR 0x24, CHR 0x60} then None
          else sh_words Double (Some (u @ [c])) cs)"

definition requoted :: "string \<Rightarrow> string" where
  "requoted s = concat (map (\<lambda>c. if c = CHR 0x27
     then [CHR 0x27, CHR 0x22, CHR 0x27, CHR 0x22, CHR 0x27] else [c]) s)"

lemma replace_quote:
  "replace_all s [CHR 0x27] [CHR 0x27, CHR 0x22, CHR 0x27, CHR 0x22, CHR 0x27] = requoted s"
  unfolding replace_all_def requoted_def by (induction s) auto

lemma words_single:
  "sh_words Single (Some u) (requoted s @ CHR 0x27 # rest) = sh_words Bare (Some (u @ s)) rest"
  by (induction s arbitrary: u) (auto simp: requoted_def)

lemma words_safe:
  "list_all shell_safe s \<Longrightarrow> sh_words Bare (Some u) (s @ rest) = sh_words Bare (Some (u @ s)) rest"
proof (induction s arbitrary: u)
  case (Cons c s)
  then have "shell_safe c" by simp
  then have "c \<noteq> CHR '' '' \<and> c \<noteq> CHR 0x27 \<and> c \<noteq> CHR 0x22" by (auto simp: shell_safe_def)
  with Cons show ?case by simp
qed simp

lemma words_quote: "sh_words Bare None (quote s @ rest) = sh_words Bare (Some s) rest"
proof (cases "s = []")
  case True
  then show ?thesis by (simp add: quote_def)
next
  case False
  show ?thesis
  proof (cases "list_all shell_safe s")
    case True
    then obtain c t where s: "s = c # t" using False by (cases s) auto
    then have "shell_safe c" using True by simp
    then have "c \<noteq> CHR '' '' \<and> c \<noteq> CHR 0x27 \<and> c \<noteq> CHR 0x22" by (auto simp: shell_safe_def)
    then show ?thesis using True words_safe [of t "[c]" rest] s by (simp add: quote_def)
  next
    case unsafe: False
    then have "quote s @ rest = CHR 0x27 # requoted s @ CHR 0x27 # rest"
      using False by (simp add: quote_def replace_quote)
    then show ?thesis using words_single [of "[]" s rest] by simp
  qed
qed

lemma words_next: "sh_words Bare (Some u) (CHR '' '' # rest) = map_option ((#) u) (sh_words Bare None rest)"
  by simp

lemma words_quotes: "ss \<noteq> [] \<Longrightarrow> sh_words Bare None (join '' '' (map quote ss)) = Some ss"
proof (induction ss)
  case (Cons s ss)
  show ?case
  proof (cases ss)
    case Nil
    then show ?thesis using words_quote [of s "[]"] by simp
  next
    case (Cons t ts)
    then have "join '' '' (map quote (s # ss)) = quote s @ CHR '' '' # join '' '' (map quote ss)" by simp
    then show ?thesis using Cons.IH Cons by (simp only: words_quote words_next) simp
  qed
qed simp

definition shown_path :: "entry \<Rightarrow> string" where
  "shown_path e = (if e_path e = [] then ''.'' else e_path e)"

lemma words_of_line:
  "sh_words Bare None (apply_line e) =
    Some [''apply_rel'', shown_path e, int_str (e_uid e), int_str (e_gid e), e_mode e]"
proof -
  have "sh_words Bare None (''apply_rel'' @ CHR '' '' # rest) = map_option ((#) ''apply_rel'') (sh_words Bare None rest)"
    for rest
  proof -
    have "quote ''apply_rel'' = ''apply_rel''" by code_simp
    then show ?thesis using words_quote [of "''apply_rel''" "CHR '' '' # rest"] by (simp only: words_next)
  qed
  moreover have "sh_words Bare None (join '' '' (map quote [shown_path e, int_str (e_uid e), int_str (e_gid e), e_mode e]))
      = Some [shown_path e, int_str (e_uid e), int_str (e_gid e), e_mode e]"
    by (rule words_quotes) simp
  moreover have "apply_line e = ''apply_rel'' @ CHR '' '' #
      join '' '' (map quote [shown_path e, int_str (e_uid e), int_str (e_gid e), e_mode e])"
    by (simp add: apply_line_def shown_path_def)
  ultimately show ?thesis by (simp only: option.map)
qed

text \<open>No entry can smuggle anything into the script. Whatever the path, owner, group and mode of an
entry, the shell reads its line as the one command \<open>apply_rel\<close> with exactly those four arguments.\<close>

theorem apply_line_words:
  "sh_words Bare None (apply_line e) =
    Some [''apply_rel'', shown_path e, int_str (e_uid e), int_str (e_gid e), e_mode e]"
  by (rule words_of_line)

section \<open>The walk to a file\<close>

lemma safe_rel_cases:
  assumes "safe_rel raw = Some rel"
  obtains "rel = []" | parts where "parts \<noteq> []" and "\<forall>c\<in>set parts. plain c" and "rel = join ''/'' parts"
proof -
  let ?t = "replace_all (py_str raw) [CHR 0x5C] ''/''"
  have "rel = [] \<or> (rel = join ''/'' (split_on slash ?t) \<and> (\<forall>c\<in>set (split_on slash ?t). c \<noteq> [] \<and> c \<noteq> ''.'' \<and> c \<noteq> ''..''))"
    using assms by (auto simp: safe_rel_def Let_def list_ex_iff split: if_splits)
  then show ?thesis
    using that split_on_parts [of _ slash ?t] split_on_not_Nil [of slash ?t] unfolding plain_def by metis
qed

lemma usable_entryE:
  assumes "usable_entry raw = Some e"
  obtains n where "safe_rel (case raw of JObj d \<Rightarrow> dget0 d ''path'' | _ \<Rightarrow> JNull) = Some (e_path e)"
    and "0 \<le> e_uid e" and "0 \<le> e_gid e" and "e_mode e = oct4 n" and "n < 1024"
proof -
  obtain d where raw: "raw = JObj d" using assms by (cases raw) (auto simp: usable_entry_def)
  obtain m where m: "canonical_mode m True = Some (e_mode e)" and "safe_rel (dget0 d ''path'') = Some (e_path e)"
    and "0 \<le> e_uid e" and "0 \<le> e_gid e"
    using assms raw by (auto simp: usable_entry_def valid_id_def split: option.splits if_splits)
  moreover obtain k where "e_mode e = oct4 (nat (k mod 1024))"
    using m by (auto simp: canonical_mode_def split: option.splits if_splits) (metis)
  moreover have "nat (k mod 1024) < 1024" by simp
  ultimately show ?thesis using that raw by auto
qed

lemma before_after_slash:
  assumes "plain p"
  shows "before_slash (join ''/'' (p # ps)) = p"
    and "ps \<noteq> [] \<Longrightarrow> after_slash (join ''/'' (p # ps)) = join ''/'' ps"
    and "join ''/'' (p # ps) = p \<longleftrightarrow> ps = []" and "ps \<noteq> [] \<Longrightarrow> slash \<in> set (join ''/'' (p # ps))"
proof -
  have no: "takeWhile (\<lambda>c. c \<noteq> slash) p = p" "dropWhile (\<lambda>c. c \<noteq> slash) p = []"
    using assms by (auto simp: plain_def takeWhile_eq_all_conv)
  have tw: "takeWhile (\<lambda>c. c \<noteq> slash) (p @ slash # v) = p" for v
    using assms by (subst takeWhile_append2) (auto simp: plain_def)
  have dw: "dropWhile (\<lambda>c. c \<noteq> slash) (p @ slash # v) = slash # v" for v
    using assms by (subst dropWhile_append2) (auto simp: plain_def)
  show "before_slash (join ''/'' (p # ps)) = p"
    and "ps \<noteq> [] \<Longrightarrow> after_slash (join ''/'' (p # ps)) = join ''/'' ps"
    and "join ''/'' (p # ps) = p \<longleftrightarrow> ps = []" and "ps \<noteq> [] \<Longrightarrow> slash \<in> set (join ''/'' (p # ps))"
    using no tw dw by (cases ps; auto simp: before_slash_def after_slash_def)+
qed

lemma sh_walk_eq:
  "ps \<noteq> [] \<Longrightarrow> \<forall>c\<in>set ps. plain c \<Longrightarrow> sh_walk f dir (join ''/'' ps) = walk f dir ps"
proof (induction ps arbitrary: dir)
  case (Cons p ps)
  then have p: "plain p" by simp
  note j = before_after_slash [OF p]
  have pp: "p \<noteq> []" "p \<noteq> ''.''" "p \<noteq> ''..''" using p by (auto simp: plain_def)
  show ?case
  proof (cases "ps = []")
    case True
    then show ?thesis using pp j(1) [of "[]"]
      by (subst sh_walk.simps) (auto simp: Let_def split: option.splits node.splits)
  next
    case False
    have "sh_walk f dir (join ''/'' (p # ps)) =
        (if f (dir @ [p]) = Some Link \<or> f (dir @ [p]) \<noteq> Some Dir then None else sh_walk f (dir @ [p]) (join ''/'' ps))"
      using pp False j by (subst sh_walk.simps) (simp add: Let_def)
    then show ?thesis
      using Cons.IH [OF False] Cons.prems(2) False by (auto simp: Let_def split: option.splits node.splits)
  qed
qed simp

lemma not_climbing:
  assumes "\<forall>c\<in>set ps. plain c" and "ps \<noteq> []"
  shows "\<not> sh_climbs (join ''/'' ps)" and "join ''/'' ps \<noteq> ''.''" and "join ''/'' ps \<noteq> []"
proof -
  have s: "split_on slash (join ''/'' ps) = ps" using split_join_plain [OF assms] .
  have no: "w \<notin> set (split_on slash (join ''/'' ps))" if "\<not> plain w" for w using s assms(1) that by auto
  have dots: "\<not> plain ''..''" "\<not> plain ''.''" "\<not> plain []" by (auto simp: plain_def)
  have mid: "join ''/'' ps \<noteq> u @ ''/../'' @ v" for u v
    using no [OF dots(1)] split_on_app [of slash u "''../'' @ v"] split_on_app [of slash "''..''" v] by auto
  have last: "join ''/'' ps \<noteq> u @ ''/..''" for u
    using no [OF dots(1)] split_on_app [of slash u "''..''"] by auto
  have first: "join ''/'' ps \<noteq> ''../'' @ v" for v
    using no [OF dots(1)] split_on_app [of slash "''..''" v] by auto
  have root: "join ''/'' ps \<noteq> ''/'' @ v" for v
    using no [OF dots(3)] split_on_app [of slash "[]" v] by auto
  show "join ''/'' ps \<noteq> ''.''" "join ''/'' ps \<noteq> []" using no [OF dots(2)] no [OF dots(3)] by auto
  show "\<not> sh_climbs (join ''/'' ps)"
    using mid last first root no [OF dots(1)]
    by (auto simp: sh_climbs_def prefix_def suffix_def contains_iff)
qed

section \<open>The script does what the local code does\<close>

text \<open>The changes one entry asks for, when nothing refuses.\<close>

definition entry_changes :: "fs \<Rightarrow> entry \<Rightarrow> change list" where
  "entry_changes f e =
     (case within_target f (\<lambda>p. True) (e_path e) of
        None \<Rightarrow> []
      | Some p \<Rightarrow> Chown p (e_uid e) (e_gid e) # (if f p = Some Link then [] else [Chmod p (octal_val (e_mode e))]))"

lemma sh_number_int_str: "0 \<le> n \<Longrightarrow> sh_number (int_str n) \<and> int (digits_val (int_str n)) = n"
  by (simp add: sh_number_def int_str_def nat_str_digits digits_val_nat_str)

lemma sh_mode_oct4:
  assumes "n < 1024"
  shows "sh_mode (oct4 n)"
proof -
  have "n div 512 = 0 \<or> n div 512 = 1" using assms by auto
  then have "n div 512 mod 8 = 0 \<or> n div 512 mod 8 = 1" by auto
  moreover have "digit_char 0 = CHR ''0''" "digit_char 1 = CHR ''1''" by code_simp+
  ultimately have "oct4 n ! 0 \<in> set ''01''" by (auto simp: oct4_def)
  then show ?thesis using oct4_digits [of n] by (auto simp: sh_mode_def oct4_def)
qed

lemma sh_apply_rel_entry:
  assumes "usable_entry raw = Some e" and "f [] \<noteq> Some Link"
  shows "sh_apply_rel f (shown_path e) (int_str (e_uid e)) (int_str (e_gid e)) (e_mode e) = entry_changes f e"
proof -
  obtain n where rel: "safe_rel (case raw of JObj d \<Rightarrow> dget0 d ''path'' | _ \<Rightarrow> JNull) = Some (e_path e)"
    and ids: "0 \<le> e_uid e" "0 \<le> e_gid e" and mode: "e_mode e = oct4 n" "n < 1024"
    using usable_entryE [OF assms(1)] by blast
  note ok = sh_number_int_str [OF ids(1)] sh_number_int_str [OF ids(2)] sh_mode_oct4 [OF mode(2)]
  from rel show ?thesis
  proof (cases rule: safe_rel_cases)
    case 1
    then show ?thesis
      using ok assms(2) mode(1) by (simp add: sh_apply_rel_def shown_path_def entry_changes_def within_target_def Let_def)
  next
    case (2 parts)
    have "shown_path e = join ''/'' parts" "e_path e \<noteq> []"
      using not_climbing(3) [OF 2(2,1)] 2(3) by (auto simp: shown_path_def)
    then show ?thesis
      using ok mode(1) not_climbing [OF 2(2,1)] sh_walk_eq [OF 2(1,2)] split_join_plain [OF 2(2,1)] 2(3)
      by (auto simp: sh_apply_rel_def entry_changes_def within_target_def Let_def split: option.splits)
  qed
qed

lemma apply_one_changes:
  "a_changes (apply_one f (\<lambda>p. True) (\<lambda>c. None) raw a) =
    a_changes a @ (case usable_entry raw of None \<Rightarrow> [] | Some e \<Rightarrow> entry_changes f e)"
  by (auto simp: apply_one_def entry_changes_def Let_def split: option.splits)

lemma fold_apply_changes:
  "a_changes (fold (apply_one f (\<lambda>p. True) (\<lambda>c. None)) es a) =
    a_changes a @ concat (map (entry_changes f) (List.map_filter usable_entry es))"
  by (induction es arbitrary: a) (auto simp: map_filter_def apply_one_changes split: option.splits)

text \<open>One line of the script, read by the shell and run.\<close>

definition sh_run_line :: "fs \<Rightarrow> string \<Rightarrow> change list" where
  "sh_run_line f line =
     (case sh_words Bare None line of
        Some [cmd, rel, uid, gid, mode] \<Rightarrow> if cmd = ''apply_rel'' then sh_apply_rel f rel uid gid mode else []
      | _ \<Rightarrow> [])"


definition sample_tree :: fs where
  "sample_tree = [[] \<mapsto> Dir, [''a''] \<mapsto> Dir, [''a'', ''x''] \<mapsto> File, [''l''] \<mapsto> Link]"


section \<open>Confinement\<close>

lemma walk_Some:
  "walk f cur ps = Some p \<Longrightarrow> p = cur @ ps \<and> (\<forall>q r. ps = q @ r \<and> q \<noteq> [] \<and> r \<noteq> [] \<longrightarrow> f (cur @ q) = Some Dir)
    \<and> (ps \<noteq> [] \<longrightarrow> f p \<noteq> None)"
proof (induction ps arbitrary: cur)
  case Nil
  then show ?case by simp
next
  case (Cons x xs)
  show ?case
  proof (cases "xs = []")
    case True
    then show ?thesis using Cons.prems
      by (auto simp: Let_def Cons_eq_append_conv split: option.splits node.splits)
  next
    case False
    then have d: "f (cur @ [x]) = Some Dir" and w: "walk f (cur @ [x]) xs = Some p"
      using Cons.prems by (auto simp: Let_def split: option.splits node.splits if_splits)
    show ?thesis using Cons.IH [OF w] d False by (auto simp: Cons_eq_append_conv)
  qed
qed

text \<open>A change is confined: below the target, through real directories only, with plain bits.\<close>

definition reached :: "fs \<Rightarrow> string list \<Rightarrow> bool" where
  "reached f p = ((\<forall>c\<in>set p. plain c) \<and> (\<forall>q r. p = q @ r \<and> q \<noteq> [] \<and> r \<noteq> [] \<longrightarrow> f q = Some Dir)
     \<and> (p \<noteq> [] \<longrightarrow> f p \<noteq> None))"

fun confined :: "fs \<Rightarrow> change \<Rightarrow> bool" where
  "confined f (Chown p uid gid) = (reached f p \<and> valid_id uid \<and> valid_id gid)"
| "confined f (Chmod p m) = (reached f p \<and> f p \<noteq> Some Link \<and> m < 1024)"

lemma within_target_reached:
  assumes "within_target f inside rel = Some p" and "safe_rel raw = Some rel"
  shows "reached f p"
  using assms(2)
proof (cases rule: safe_rel_cases)
  case 1
  then show ?thesis using assms(1) by (simp add: within_target_def reached_def)
next
  case (2 parts)
  then have "walk f [] parts = Some p"
    using assms(1) not_climbing(3) [OF 2(2,1)] split_join_plain [OF 2(2,1)]
    by (auto simp: within_target_def split: option.splits if_splits)
  from walk_Some [OF this] show ?thesis using 2(2) by (auto simp: reached_def)
qed

lemma apply_one_confined:
  assumes "\<forall>c\<in>set (a_changes a). confined f c"
  shows "\<forall>c\<in>set (a_changes (apply_one f inside refuses raw a)). confined f c"
proof (cases "usable_entry raw")
  case (Some e)
  obtain n where rel: "safe_rel (case raw of JObj d \<Rightarrow> dget0 d ''path'' | _ \<Rightarrow> JNull) = Some (e_path e)"
    and mode: "e_mode e = oct4 n" "n < 1024"
    using usable_entryE [OF Some] by blast
  have "valid_id (e_uid e)" "valid_id (e_gid e)"
    using Some by (auto simp: usable_entry_def split: json.splits option.splits if_splits)
  moreover have "octal_val (e_mode e) < 1024" using mode octal_val_oct4 [of n] by simp
  ultimately show ?thesis
    using assms Some within_target_reached [OF _ rel]
    by (auto simp: apply_one_def Let_def split: option.splits)
qed (use assms in \<open>simp add: apply_one_def\<close>)

text \<open>C34: applying a manifest, whatever it holds, whatever the tree looks like and whatever the system
calls answer, stays inside the target: every file changed is named by plain components, lies below
existing directories none of which is a link, gets an owner and group in range, and never a setuid
or setgid bit; a link itself is never chmodded.\<close>

theorem manifest_apply_confined:
  "list_all (confined f) (a_changes (apply_manifest_tree f inside refuses entries))"
proof -
  have "\<forall>c\<in>set (a_changes (fold (apply_one f inside refuses) entries a)). confined f c"
    if "\<forall>c\<in>set (a_changes a). confined f c" for a
    using that
  proof (induction entries arbitrary: a)
    case (Cons e entries)
    from Cons.IH [OF apply_one_confined [OF Cons.prems]] show ?case by simp
  qed simp
  from this [of "\<lparr>a_applied = 0, a_skipped = 0, a_errors = [], a_changes = []\<rparr>"]
  show ?thesis by (simp add: apply_manifest_tree_def list_all_iff)
qed

end
