(* ===== verification/MoveSafety.thy ===== *)
theory MoveSafety
  imports MoveKeeps
begin

text \<open>
  A stack that runs on two hosts writes its data twice. What compose promises of the operations of a
  Move is enough to show that the pipeline, the undo and the recovery never let that happen, at no
  moment between two calls, and to show where a retry can.
\<close>

section \<open>What the outside promises\<close>

text \<open>
  Only a start or a redeploy of a stack sets it running, and a compose stop answers with its success,
  after which the stack does not run. A start or stop that reports a failure may have done anything to
  its own stack.
\<close>

definition obeys :: "('s \<Rightarrow> stack \<Rightarrow> bool) \<Rightarrow> 's outside \<Rightarrow> bool" where
  "obeys running x =
     ((\<forall>call s k. running (fst (o_call x call s)) k \<longrightarrow> running s k \<or> starts call = Some k)
      \<and> (\<forall>h p s s' r. o_call x (ComposeStop h p) s = (s', Inr r) \<longrightarrow>
           (\<exists>b. field r ''success'' = JBool b \<and> (b \<longrightarrow> \<not> running s' (Stack h p))))
      \<and> (\<forall>m s. running (o_log x m s) = running s) \<and> (\<forall>m s. running (o_step x m s) = running s))"

text \<open>The same outside, which writes down every state it passes through.\<close>

definition traced :: "'s outside \<Rightarrow> ('s \<times> 's list) outside" where
  "traced x = \<lparr>o_call = (\<lambda>call (s, hist). let (s', r) = o_call x call s in ((s', hist @ [s']), r)),
     o_log = (\<lambda>m (s, hist). (o_log x m s, hist @ [o_log x m s])),
     o_step = (\<lambda>m (s, hist). (o_step x m s, hist @ [o_step x m s]))\<rparr>"

definition throughout :: "('s \<Rightarrow> bool) \<Rightarrow> 's \<times> 's list \<Rightarrow> bool" where
  "throughout P sh = (P (fst sh) \<and> list_all P (snd sh))"

section \<open>What only depends on the running stacks\<close>

definition shrinks :: "('s \<Rightarrow> stack \<Rightarrow> bool) \<Rightarrow> ('s \<Rightarrow> bool) \<Rightarrow> bool" where
  "shrinks running P = (\<forall>t t'. P t \<longrightarrow> (\<forall>k. running t' k \<longrightarrow> running t k) \<longrightarrow> P t')"

lemma traced_call: "o_call (traced x) call (s, h) = (let (s', r) = o_call x call s in ((s', h @ [s']), r))"
  by (simp add: traced_def)

lemma traced_log: "o_log (traced x) m (s, h) = (o_log x m s, h @ [o_log x m s])"
  "o_step (traced x) m (s, h) = (o_step x m s, h @ [o_step x m s])"
  by (simp_all add: traced_def)

lemma obeys_starts: "obeys running x \<Longrightarrow> running (fst (o_call x call s)) k \<Longrightarrow> running s k \<or> starts call = Some k"
  by (simp add: obeys_def)

lemma obeys_stop:
  "obeys running x \<Longrightarrow> o_call x (ComposeStop h p) s = (s', Inr r) \<Longrightarrow>
     \<exists>b. field r ''success'' = JBool b \<and> (b \<longrightarrow> \<not> running s' (Stack h p))"
  unfolding obeys_def by blast

text \<open>A property of the running stacks, at every moment (\<open>P\<close>) and now (\<open>N\<close>).\<close>

definition so_far :: "('s \<Rightarrow> bool) \<Rightarrow> ('s \<Rightarrow> bool) \<Rightarrow> 's \<times> 's list \<Rightarrow> bool" where
  "so_far P N sh = (throughout P sh \<and> N (fst sh))"

lemma so_far_weaken: "so_far P N sh \<Longrightarrow> (\<And>t. N t \<Longrightarrow> N' t) \<Longrightarrow> so_far P N' sh"
  by (simp add: so_far_def)

lemma so_far_next:
  assumes "so_far P N (s, h)" and "P s'" and "N' s'"
  shows "so_far P N' (s', h @ [s'])"
  using assms by (simp add: so_far_def throughout_def)

lemma so_far_call:
  assumes "obeys running x" and "so_far P N (s, h)"
    and "\<And>s'. (\<And>k. running s' k \<Longrightarrow> running s k \<or> starts call = Some k) \<Longrightarrow> P s \<Longrightarrow> N s \<Longrightarrow> P s' \<and> N' s'"
  shows "so_far P N' (fst (o_call (traced x) call (s, h)))"
proof -
  obtain s' r where r: "o_call x call s = (s', r)" by (cases "o_call x call s")
  have "P s' \<and> N' s'"
    using assms(2) obeys_starts [OF assms(1), of call s] by (intro assms(3)) (auto simp: r so_far_def throughout_def)
  then show ?thesis using so_far_next [OF assms(2)] by (simp add: traced_call r)
qed

lemma keeps_start:
  assumes "obeys running x"
    and "\<And>s s'. (\<And>k. running s' k \<Longrightarrow> running s k \<or> starts call = Some k) \<Longrightarrow> P s \<Longrightarrow> N s \<Longrightarrow> P s' \<and> N s'"
  shows "keeps (so_far P N) (o_call (traced x) call)"
proof -
  have "so_far P N (fst (o_call (traced x) call (s, h)))" if "so_far P N (s, h)" for s h
    by (rule so_far_call [OF assms(1) that]) (rule assms(2))
  then show ?thesis by (auto simp: keeps_def)
qed

lemma so_far_stable:
  assumes "obeys running x" and "shrinks running P" and "shrinks running N"
  shows "stable (traced x) (so_far P N)"
proof -
  have "keeps (so_far P N) (o_call (traced x) call)" if "quiet call" for call
    by (rule keeps_start [OF assms(1)]) (use assms(2,3) that in \<open>auto simp: shrinks_def quiet_def\<close>)
  moreover have "so_far P N (o_log (traced x) m sh)" "so_far P N (o_step (traced x) m sh)" if "so_far P N sh" for m sh
    using that assms by (cases sh; auto simp: traced_log so_far_def throughout_def obeys_def shrinks_def)+
  ultimately show ?thesis by (simp add: stable_def)
qed

section \<open>The pipeline\<close>

definition alone :: "('s \<Rightarrow> stack \<Rightarrow> bool) \<Rightarrow> 's \<Rightarrow> stack \<Rightarrow> 's \<Rightarrow> bool" where
  "alone running s0 src t = (running t src \<longrightarrow> (\<forall>k. running t k \<longrightarrow> running s0 k))"

lemma alone_shrinks: "shrinks running (alone running s0 src)"
  by (auto simp: shrinks_def alone_def)

lemma down_shrinks: "shrinks running (\<lambda>t. \<not> running t src)"
  by (auto simp: shrinks_def)

lemma true_shrinks: "shrinks running (\<lambda>t. True)"
  by (simp add: shrinks_def)

text \<open>The stop of the source: on return it is down.\<close>

lemma stop_wp:
  assumes "obeys running x" and "shrinks running P" and "so_far P (\<lambda>t. True) sh"
  shows "wp (stop_step (traced x) a p) (\<lambda>_. so_far P (\<lambda>t. \<not> running t (Stack (source_id a) (mp_src_proj p))))
    (\<lambda>_. so_far P (\<lambda>t. True)) sh"
proof -
  have st: "stable (traced x) (so_far P (\<lambda>t. True))" by (rule so_far_stable [OF assms(1,2) true_shrinks])
  have call: "wp (o_call (traced x) (ComposeStop (source_id a) (mp_src_proj p)))
      (\<lambda>r sh'. if unsuccessful r then so_far P (\<lambda>t. True) sh'
         else so_far P (\<lambda>t. \<not> running t (Stack (source_id a) (mp_src_proj p))) sh') (\<lambda>_. so_far P (\<lambda>t. True)) sh'"
    (is "wp ?call _ _ _") if I: "so_far P (\<lambda>t. True) sh'" for sh'
  proof -
    obtain s h where sh': "sh' = (s, h)" by (cases sh')
    obtain s' r where r: "o_call x (ComposeStop (source_id a) (mp_src_proj p)) s = (s', r)"
      by (cases "o_call x (ComposeStop (source_id a) (mp_src_proj p)) s")
    have *: "so_far P (\<lambda>t. True) (s', h @ [s'])"
      using keepsD [OF keeps_call [OF st], of "ComposeStop (source_id a) (mp_src_proj p)" sh' "(s', h @ [s'])" r] I
      by (simp add: sh' traced_call r)
    have down: "\<not> running s' (Stack (source_id a) (mp_src_proj p))" if ok: "r = Inr v" "\<not> unsuccessful v" for v
    proof -
      obtain b where "field v ''success'' = JBool b" "b \<longrightarrow> \<not> running s' (Stack (source_id a) (mp_src_proj p))"
        using obeys_stop [OF assms(1)] r ok(1) by blast
      then show ?thesis using ok(2)
        by (auto simp: unsuccessful_def field_def dict_of_def is_dict_def dget0_def dget_def split: json.splits option.splits)
    qed
    show ?thesis
      using * down by (cases r) (auto simp: wp_def sh' traced_call r so_far_def)
  qed
  have logs: "so_far P (\<lambda>t. True) (o_log (traced x) m (o_step (traced x) n sh))" for m n
    using st assms(3) unfolding stable_def by blast
  show ?thesis
    unfolding stop_step_def log_def step_def wp_simps
    by (rule wp_conseq [OF call [OF logs]]) (auto simp: wp_simps split: if_splits)
qed

lemma after_copy_alone:
  assumes "obeys running x" and "source_id a \<noteq> dest_id a" and "stack_host src = source_id a"
  shows "keeps (so_far (alone running s0 src) (\<lambda>t. \<not> running t src)) (after_copy (traced x) a p pf)"
  by (rule keeps_after_copy [OF so_far_stable [OF assms(1) alone_shrinks down_shrinks]], rule keeps_start [OF assms(1)])
    (use assms(2,3) in \<open>auto simp: alone_def starts_def dest!: meta_spec [of _ src]\<close>)


section \<open>A host that does what it is told\<close>

text \<open>The running stacks; every call succeeds.\<close>

definition tame_call :: "move_op \<Rightarrow> (stack list, move_exc, json) act" where
  "tame_call call s = (case call of
       ComposeStop h p \<Rightarrow> (removeAll (Stack h p) s, Inr (JObj [(''success'', JBool True)]))
     | ComposeStart h p \<Rightarrow> (Stack h p # s, Inr (JObj [(''success'', JBool True)]))
     | Redeploy h p \<Rightarrow> (Stack h p # s, Inr (JObj [(''success'', JBool True)]))
     | _ \<Rightarrow> (s, Inr (JObj [(''ok'', JBool True)])))"

definition tame :: "stack list outside" where
  "tame = \<lparr>o_call = tame_call, o_log = (\<lambda>m. id), o_step = (\<lambda>m. id)\<rparr>"

lemma tame_obeys: "obeys (\<lambda>s k. k \<in> set s) tame"
  by (auto simp: obeys_def tame_def tame_call_def starts_def field_def dict_of_def dget0_def dget_def
      split: move_op.splits)

definition sample_host :: "int \<Rightarrow> string \<Rightarrow> host" where
  "sample_host i nm = \<lparr>h_id = i, h_name = nm, h_hostname = nm, h_ssh_username = ''pi'', h_docker_base_dir = ''/d'',
     h_os_type = ''debian''\<rparr>"

definition sample_move :: move_args where
  "sample_move = \<lparr>ma_source = sample_host 1 ''a'', ma_dest = sample_host 2 ''b'', ma_project = ''app'', ma_job_id = 7,
     ma_stage = ''/s'', ma_leftover = None, ma_devices_ack = False, ma_adopt_fabric = False, ma_dest_project = None,
     ma_port_map = [], ma_bind_map = [], ma_skip_binds = [], ma_live_inspect = False\<rparr>"

lemma tame_move:
  "remdups (snd (fst (run_copy_and_start (traced tame) sample_move ([Stack 1 ''/d/app''], []))))
     = [[Stack 1 ''/d/app''], [], [Stack 2 ''/d/app'']]"
  by code_simp


end
