(* ===== verification/UndoSafety.thy ===== *)
theory UndoSafety
  imports MoveSafety
begin

text \<open>
  The way back of a Move: an undo, with the steps earlier attempts committed, and the recovery of a
  worker death never run the stack twice, as long as a stop that was committed still holds. A restart
  of the destination that reports a failure breaks that for the next attempt.
\<close>

section \<open>What holds throughout\<close>

text \<open>The source runs if it ran before, or beside no destination.\<close>

definition apart :: "('s \<Rightarrow> stack \<Rightarrow> bool) \<Rightarrow> 's \<Rightarrow> stack \<Rightarrow> stack \<Rightarrow> 's \<Rightarrow> bool" where
  "apart running s0 src dst t = (running t src \<longrightarrow> running s0 src \<or> \<not> running t dst)"

text \<open>The source has not been started.\<close>

definition unstarted :: "('s \<Rightarrow> stack \<Rightarrow> bool) \<Rightarrow> 's \<Rightarrow> stack \<Rightarrow> 's \<Rightarrow> bool" where
  "unstarted running s0 src t = (running t src \<longrightarrow> running s0 src)"

lemma apart_shrinks: "shrinks running (apart running s0 src dst)"
  and unstarted_shrinks: "shrinks running (unstarted running s0 src)"
  and unstarted_down_shrinks: "shrinks running (\<lambda>t. unstarted running s0 src t \<and> \<not> running t dst)"
  by (auto simp: shrinks_def apart_def unstarted_def)

abbreviation before :: "('s \<Rightarrow> stack \<Rightarrow> bool) \<Rightarrow> 's \<Rightarrow> stack \<Rightarrow> stack \<Rightarrow> 's \<times> 's list \<Rightarrow> bool" where
  "before running s0 src dst \<equiv> so_far (apart running s0 src dst) (unstarted running s0 src)"

abbreviation stopped :: "('s \<Rightarrow> stack \<Rightarrow> bool) \<Rightarrow> 's \<Rightarrow> stack \<Rightarrow> stack \<Rightarrow> 's \<times> 's list \<Rightarrow> bool" where
  "stopped running s0 src dst \<equiv>
     so_far (apart running s0 src dst) (\<lambda>t. unstarted running s0 src t \<and> \<not> running t dst)"

lemma before_stable: "obeys running x \<Longrightarrow> stable (traced x) (before running s0 src dst)"
  and stopped_stable: "obeys running x \<Longrightarrow> stable (traced x) (stopped running s0 src dst)"
  by (rule so_far_stable, assumption, rule apart_shrinks, rule unstarted_shrinks unstarted_down_shrinks)+

lemma stopped_before: "stopped running s0 src dst sh \<Longrightarrow> before running s0 src dst sh"
  by (auto intro: so_far_weaken)

text \<open>A stop of a stack: on a good answer the stack is down, and the source was not started.\<close>

lemma stop_dest_wp:
  assumes "obeys running x" and "before running s0 src (Stack h p) sh"
  shows "wp (o_call (traced x) (ComposeStop h p))
     (\<lambda>r sh'. before running s0 src (Stack h p) sh' \<and> (call_ok r \<longrightarrow> stopped running s0 src (Stack h p) sh'))
     (\<lambda>_. before running s0 src (Stack h p)) sh"
proof -
  obtain s hist where sh: "sh = (s, hist)" by (cases sh)
  obtain s' r where r: "o_call x (ComposeStop h p) s = (s', r)" by (cases "o_call x (ComposeStop h p) s")
  have *: "before running s0 src (Stack h p) (s', hist @ [s'])"
    using keepsD [OF keeps_call [OF before_stable [OF assms(1)]], of "ComposeStop h p" s0 src "Stack h p" sh "(s', hist @ [s'])" r]
      assms(2) by (simp add: sh traced_call r)
  have "stopped running s0 src (Stack h p) (s', hist @ [s'])" if ok: "r = Inr v" "call_ok v" for v
  proof -
    obtain b where b: "field v ''success'' = JBool b" "b \<longrightarrow> \<not> running s' (Stack h p)"
      using obeys_stop [OF assms(1)] r ok(1) by blast
    then have "is_dict v" by (cases v) (auto simp: field_def dict_of_def dget0_def dget_def is_dict_def)
    then have "b" using ok(2) b(1) by (auto simp: call_ok_def)
    then show ?thesis using * b(2) by (simp add: so_far_def)
  qed
  then show ?thesis using * by (cases r) (auto simp: wp_def sh traced_call r)
qed

section \<open>The steps of an undo\<close>

definition undo_src :: "undo_args \<Rightarrow> stack" where
  "undo_src u = Stack (h_id (ua_source u)) (ua_source_path u)"

definition undo_dst :: "undo_args \<Rightarrow> stack" where
  "undo_dst u = Stack (h_id (ua_dest u)) (ua_dest_path u)"

lemma undo_stop_wp:
  assumes "obeys running x" and "before running s0 (undo_src u) (undo_dst u) sh"
    and "''stop'' \<in> set steps \<longrightarrow> stopped running s0 (undo_src u) (undo_dst u) sh"
  shows "wp (undo_stop (traced x) u steps) (\<lambda>_. stopped running s0 (undo_src u) (undo_dst u))
    (\<lambda>_. before running s0 (undo_src u) (undo_dst u)) sh"
proof -
  note b = before_stable [OF assms(1), of s0 "undo_src u" "undo_dst u"]
    and st = stopped_stable [OF assms(1), of s0 "undo_src u" "undo_dst u"]
  have call: "wp (o_call (traced x) (ComposeStop (h_id (ua_dest u)) (ua_dest_path u)))
     (\<lambda>r sh'. before running s0 (undo_src u) (undo_dst u) sh' \<and> (call_ok r \<longrightarrow> stopped running s0 (undo_src u) (undo_dst u) sh'))
     (\<lambda>_. before running s0 (undo_src u) (undo_dst u)) sh'" if "before running s0 (undo_src u) (undo_dst u) sh'" for sh'
    using stop_dest_wp [OF assms(1)] that by (simp add: undo_dst_def)
  show ?thesis
  proof (cases "''stop'' \<in> set steps")
    case True
    then show ?thesis
      unfolding undo_stop_def using assms(3)
      by (auto intro!: wp_seq_keeps [OF keeps_log [OF st]] stopped_before simp: wp_ret)
  next
    case False
    have after: "wp (if says_down r then raise (UndoError m1 steps)
          else andalso (log_output (traced x) r) (if call_ok r then ret (steps @ [''stop'']) else raise (UndoError m2 steps)))
        (\<lambda>_. stopped running s0 (undo_src u) (undo_dst u)) (\<lambda>_. before running s0 (undo_src u) (undo_dst u)) sh'"
      if "before running s0 (undo_src u) (undo_dst u) sh'" "call_ok r \<longrightarrow> stopped running s0 (undo_src u) (undo_dst u) sh'"
      for r m1 m2 sh'
    proof (cases "call_ok r")
      case True
      then show ?thesis
        using that by (auto intro!: wp_seq_keeps [OF keeps_log_output [OF st]] stopped_before simp: wp_raise wp_ret)
    next
      case False
      then show ?thesis
        using that by (auto intro!: wp_seq_keeps [OF keeps_log_output [OF b]] simp: wp_raise)
    qed
    show ?thesis
      unfolding undo_stop_def if_not_P [OF False]
      by (rule wp_seq_keeps [OF keeps_log [OF b] assms(2)], erule wp_seqI [OF call], elim conjE, erule (1) after)
  qed
qed

lemma undo_fail_wp:
  assumes "obeys running x" and "undo_src u \<noteq> undo_dst u" and "stopped running s0 (undo_src u) (undo_dst u) sh"
  shows "wp (undo_fail (traced x) u steps msg restart) Q (\<lambda>_. before running s0 (undo_src u) (undo_dst u)) sh"
proof -
  let ?B = "before running s0 (undo_src u) (undo_dst u)"
  note b = before_stable [OF assms(1), of s0 "undo_src u" "undo_dst u"]
  have start: "keeps ?B (o_call (traced x) (ComposeStart (h_id (ua_dest u)) (ua_dest_path u)))"
    by (rule keeps_start [OF assms(1)])
      (use assms(2) in \<open>auto simp: apart_def unstarted_def starts_def undo_dst_def dest!: meta_spec [of _ "undo_src u"]\<close>)
  have "?B sh" using assms(3) by (rule stopped_before)
  then show ?thesis
    unfolding undo_fail_def
    by (auto intro!: wp_seq_keeps [OF keeps_log [OF b]] wp_seq_keeps [OF start] wp_seq_keeps [OF keeps_log_output [OF b]]
        simp: wp_raise)
qed

text \<open>A step between the stop and the start.\<close>

lemma undo_call_wp:
  assumes "obeys running x" and "undo_src u \<noteq> undo_dst u" and "stopped running s0 (undo_src u) (undo_dst u) sh"
    and "keeps (stopped running s0 (undo_src u) (undo_dst u)) m"
  shows "wp (undo_call (traced x) u steps fb restart m) (\<lambda>_. stopped running s0 (undo_src u) (undo_dst u))
    (\<lambda>_. before running s0 (undo_src u) (undo_dst u)) sh"
  unfolding undo_call_def
proof (rule wp_seqI)
  show "wp (catching (seq m (\<lambda>r. ret (Inr r))) (\<lambda>e. case e of UndoError t ss \<Rightarrow> raise e
      | _ \<Rightarrow> ret (Inl (if move_text e \<noteq> [] then move_text e else fb))))
      (\<lambda>_. stopped running s0 (undo_src u) (undo_dst u)) (\<lambda>_. stopped running s0 (undo_src u) (undo_dst u)) sh"
    by (rule keeps_wp [where P = "stopped running s0 (undo_src u) (undo_dst u)"])
      (auto intro!: keeps_rules assms(3,4) split: move_exc.split)
  show "wp (case r of Inl msg \<Rightarrow> undo_fail (traced x) u steps msg restart | Inr out \<Rightarrow> ret (out, steps))
      (\<lambda>_. stopped running s0 (undo_src u) (undo_dst u)) (\<lambda>_. before running s0 (undo_src u) (undo_dst u)) sh'"
    if "stopped running s0 (undo_src u) (undo_dst u) sh'" for r sh'
    using that undo_fail_wp [OF assms(1,2) that] by (cases r) (auto simp: wp_ret)
qed (rule stopped_before)

lemma logged_wp:
  assumes "obeys running x" and "stopped running s0 src dst sh"
    and "\<And>sh'. stopped running s0 src dst sh' \<Longrightarrow> wp k Q (\<lambda>_. before running s0 src dst) sh'"
  shows "wp (andalso (log (traced x) m) k) Q (\<lambda>_. before running s0 src dst) sh"
  by (rule wp_seq_keeps [OF keeps_log [OF stopped_stable [OF assms(1)]] assms(2)])
    (use assms(3) stopped_before in auto)

lemma undo_dns_wp:
  assumes "obeys running x" and "undo_src u \<noteq> undo_dst u" and "stopped running s0 (undo_src u) (undo_dst u) sh"
  shows "wp (undo_dns (traced x) u steps) (\<lambda>_. stopped running s0 (undo_src u) (undo_dst u))
      (\<lambda>_. before running s0 (undo_src u) (undo_dst u)) sh"
  unfolding undo_dns_def
  by (auto intro!: logged_wp [OF assms(1,3)] wp_seqI [OF undo_call_wp [OF assms(1,2)]] undo_fail_wp [OF assms(1,2)]
      keeps_call_or [OF stopped_stable [OF assms(1)]] simp: wp_ret)

lemma undo_rebind_wp:
  assumes "obeys running x" and "undo_src u \<noteq> undo_dst u" and "stopped running s0 (undo_src u) (undo_dst u) sh"
  shows "wp (undo_rebind (traced x) u steps) (\<lambda>_. stopped running s0 (undo_src u) (undo_dst u))
      (\<lambda>_. before running s0 (undo_src u) (undo_dst u)) sh"
  unfolding undo_rebind_def
  by (auto intro!: logged_wp [OF assms(1,3)] wp_seqI [OF undo_call_wp [OF assms(1,2)]] undo_fail_wp [OF assms(1,2)]
      keeps_call_or [OF stopped_stable [OF assms(1)]] simp: wp_ret)

lemma undo_certs_wp:
  assumes "obeys running x" and "undo_src u \<noteq> undo_dst u" and "stopped running s0 (undo_src u) (undo_dst u) sh"
  shows "wp (undo_certs (traced x) u steps) (\<lambda>_. stopped running s0 (undo_src u) (undo_dst u))
      (\<lambda>_. before running s0 (undo_src u) (undo_dst u)) sh"
proof (cases "''certs'' \<in> set steps")
  case True
  then show ?thesis
    unfolding undo_certs_def by (auto intro!: logged_wp [OF assms(1,3)] simp: wp_ret)
next
  case False
  note st = stopped_stable [OF assms(1), of s0 "undo_src u" "undo_dst u"]
  have "keeps (stopped running s0 (undo_src u) (undo_dst u))
      (catching (o_call (traced x) (EnableCerts (h_id (ua_source u)) (ua_name u) (ua_dest_name u)))
        (\<lambda>e. case e of WrongArgs m \<Rightarrow> raise (WrongArgs missing_argument) | _ \<Rightarrow> raise e))"
    by (auto intro!: keeps_rules keeps_call [OF st] split: move_exc.split)
  moreover have "wp (andalso (if b then log (traced x) m else ret ()) (ret v)) (\<lambda>_. stopped running s0 (undo_src u) (undo_dst u))
      (\<lambda>_. before running s0 (undo_src u) (undo_dst u)) sh'"
    if "stopped running s0 (undo_src u) (undo_dst u) sh'" for sh' b m and v :: "json \<times> string list"
  proof (cases b)
    case True
    show ?thesis unfolding if_P [OF True] by (rule logged_wp [OF assms(1) that]) (simp add: wp_ret)
  qed (simp add: wp_seq wp_ret that)
  ultimately show ?thesis
    unfolding undo_certs_def if_not_P [OF False]
    by (intro wp_seqI [OF undo_call_wp [OF assms]] wp_case_prod) simp_all
qed

lemma undo_start_wp:
  assumes "obeys running x" and "undo_src u \<noteq> undo_dst u" and "stopped running s0 (undo_src u) (undo_dst u) sh"
  shows "wp (undo_start (traced x) u steps) (\<lambda>_. so_far (apart running s0 (undo_src u) (undo_dst u)) (\<lambda>_. True))
      (\<lambda>_. so_far (apart running s0 (undo_src u) (undo_dst u)) (\<lambda>_. True)) sh"
proof -
  let ?D = "so_far (apart running s0 (undo_src u) (undo_dst u)) (\<lambda>t. \<not> running t (undo_dst u))"
  have d: "stable (traced x) ?D" by (rule so_far_stable [OF assms(1) apart_shrinks down_shrinks])
  have "keeps ?D (o_call (traced x) (ComposeStart (h_id (ua_source u)) (ua_source_path u)))"
    by (rule keeps_start [OF assms(1)])
      (use assms(2) in \<open>auto simp: apart_def starts_def undo_src_def dest!: meta_spec [of _ "undo_dst u"]\<close>)
  then have "keeps ?D (undo_start (traced x) u steps)"
    unfolding undo_start_def by (intro keeps_rules keeps_log [OF d] keeps_log_output [OF d])
  moreover have "?D sh" using assms(3) by (simp add: so_far_def)
  ultimately have "wp (undo_start (traced x) u steps) (\<lambda>_. ?D) (\<lambda>_. ?D) sh" by (rule keeps_wp)
  then show ?thesis by (rule wp_conseq) (simp_all add: so_far_def)
qed

text \<open>The whole of an undo.\<close>

lemma undo_steps_wp:
  assumes "obeys running x" and "undo_src u \<noteq> undo_dst u"
    and "''stop'' \<in> set done \<longrightarrow> \<not> running s (undo_dst u)"
  shows "wp (undo_steps (traced x) u done) (\<lambda>_. so_far (apart running s (undo_src u) (undo_dst u)) (\<lambda>_. True))
      (\<lambda>_. so_far (apart running s (undo_src u) (undo_dst u)) (\<lambda>_. True)) (s, [])"
proof -
  let ?A = "so_far (apart running s (undo_src u) (undo_dst u)) (\<lambda>_. True)"
  have weak: "before running s (undo_src u) (undo_dst u) sh \<Longrightarrow> ?A sh" for sh by (simp add: so_far_def)
  have b: "before running s (undo_src u) (undo_dst u) (s, [])"
    by (simp add: so_far_def throughout_def apart_def unstarted_def)
  have st: "''stop'' \<in> set (filter (\<lambda>s. s \<in> set UNDO_KEYS) done) \<longrightarrow> stopped running s (undo_src u) (undo_dst u) (s, [])"
    using assms(3) by (simp add: so_far_def throughout_def apart_def unstarted_def)
  have a: "stable (traced x) ?A" by (rule so_far_stable [OF assms(1) apart_shrinks true_shrinks])
  show ?thesis
    unfolding undo_steps_def
    by (rule wp_seqI [OF undo_stop_wp [OF assms(1) b st]],
        rule wp_seqI [OF undo_dns_wp [OF assms(1,2)]], assumption, rule wp_case_prod,
        rule wp_seqI [OF undo_rebind_wp [OF assms(1,2)]], assumption, rule wp_case_prod,
        rule wp_seqI [OF undo_certs_wp [OF assms(1,2)]], assumption, rule wp_case_prod,
        rule wp_seqI [OF undo_start_wp [OF assms(1,2)]], assumption,
        rule keeps_wp, intro keeps_rules keeps_log [OF a]) (assumption | erule weak)+
qed

section \<open>Undo and recovery\<close>

lemma compose_project_name_idem: "compose_project_name raw = Inr nm \<Longrightarrow> compose_project_name (Some nm) = Inr nm"
  by (cases raw) (auto simp: compose_project_name_def Let_def split: if_splits)

lemma jail_path:
  "jailed_source_project_path h project = Inr p \<Longrightarrow> compose_project_name (Some project) = Inr nm
    \<Longrightarrow> p = rslash (docker_base_abs h) @ ''/'' @ nm"
  by (auto simp: jailed_source_project_path_def Let_def split: if_splits)

lemma wp_jailed:
  assumes "compose_project_name raw = Inr nm" and "wp (f (rslash (docker_base_abs h) @ ''/'' @ nm)) Q R sh" and "\<And>e. R e sh"
  shows "wp (seq (jailed h nm) f) Q R sh"
proof (cases "jailed_source_project_path h nm")
  case (Inr p)
  then show ?thesis
    using jail_path [OF Inr compose_project_name_idem [OF assms(1)]] assms(2) by (simp add: jailed_def wp_seq wp_ret)
next
  case (Inl e)
  then show ?thesis using assms(3) by (cases e) (simp_all add: jailed_def wp_seq wp_raise)
qed

lemma wp_visited:
  assumes "wp m (\<lambda>_. so_far P N) (\<lambda>_. so_far P N) sh" and "m sh = ((s', visited), r)" and "t \<in> set visited"
  shows "P t"
proof -
  have "so_far P N (s', visited)" using assms(1,2) by (cases r) (simp_all add: wp_def)
  then show ?thesis using assms(3) by (auto simp: so_far_def throughout_def list_all_iff)
qed

text \<open>C5: while an undo works, with the steps earlier attempts committed: a source it started runs only
  while the destination is down, provided a committed stop still holds when the attempt begins.\<close>

theorem undo_never_runs_twice:
  assumes "obeys running x" and "h_id source \<noteq> h_id dest"
    and "compose_project_name (Some project) = Inr nm"
    and "compose_project_name (Some (if dest_project \<noteq> [] then dest_project else project)) = Inr dest_name"
    and "src = Stack (h_id source) (rslash (docker_base_abs source) @ ''/'' @ nm)"
    and "dst = Stack (h_id dest) (rslash (docker_base_abs dest) @ ''/'' @ dest_name)"
    and "''stop'' \<in> set committed \<longrightarrow> \<not> running s dst"
    and "run_undo_pipeline (traced x) source dest project dest_project port_map committed (s, []) = ((s', visited), r)"
    and "t \<in> set visited" and "running t src" and "\<not> running s src"
  shows "\<not> running t dst"
proof -
  let ?A = "so_far (apart running s src dst) (\<lambda>_. True)"
  have start: "?A (s, [])" by (simp add: so_far_def throughout_def apart_def)
  have "wp (run_undo_pipeline (traced x) source dest project dest_project port_map committed) (\<lambda>_. ?A) (\<lambda>_. ?A) (s, [])"
  proof -
    have "wp (case invert_port_map port_map of Inl m \<Rightarrow> raise (OtherError m)
        | Inr ports \<Rightarrow> undo_steps (traced x) \<lparr>ua_source = source, ua_dest = dest, ua_name = nm, ua_dest_name = dest_name,
            ua_source_path = rslash (docker_base_abs source) @ ''/'' @ nm,
            ua_dest_path = rslash (docker_base_abs dest) @ ''/'' @ dest_name, ua_back_ports = ports\<rparr> committed)
        (\<lambda>_. ?A) (\<lambda>_. ?A) (s, [])" (is "wp ?rest _ _ _")
    proof (cases "invert_port_map port_map")
      case (Inr ports)
      let ?u = "\<lparr>ua_source = source, ua_dest = dest, ua_name = nm, ua_dest_name = dest_name,
          ua_source_path = rslash (docker_base_abs source) @ ''/'' @ nm,
          ua_dest_path = rslash (docker_base_abs dest) @ ''/'' @ dest_name, ua_back_ports = ports\<rparr>"
      have u: "undo_src ?u = src" "undo_dst ?u = dst" using assms(5,6) by (simp_all add: undo_src_def undo_dst_def)
      have "src \<noteq> dst" using assms(2,5,6) by simp
      then show ?thesis using undo_steps_wp [OF assms(1), of ?u committed s] assms(7) Inr unfolding u by simp
    next
      case (Inl m)
      then show ?thesis using start by (simp add: wp_raise)
    qed
    then show ?thesis
      unfolding run_undo_pipeline_def checked_project_def assms(3,4) sum.case wp_seq [of "ret _"] wp_ret
      by (intro wp_jailed [OF assms(4)] wp_jailed [OF assms(3)] start)
  qed
  from wp_visited [where P = "apart running s src dst" and N = "\<lambda>_. True", OF this assms(8,9)]
  have "apart running s src dst t" .
  then show ?thesis using assms(10,11) by (simp add: apart_def)
qed

lemma undo_never_runs_twice_witness:
  "\<exists>t\<in>set (snd (fst (run_undo_pipeline (traced tame) (sample_host 1 ''a'') (sample_host 2 ''b'') ''app'' [] [] []
       ([Stack 2 ''/d/app''], [])))). Stack 1 ''/d/app'' \<in> set t \<and> Stack 2 ''/d/app'' \<notin> set t"
proof -
  let ?run = "run_undo_pipeline (traced tame) (sample_host 1 ''a'') (sample_host 2 ''b'') ''app'' [] [] [] ([Stack 2 ''/d/app''], [])"
  have "[Stack 1 ''/d/app''] \<in> set (remdups (snd (fst ?run)))" by code_simp
  then have t: "[Stack 1 ''/d/app''] \<in> set (snd (fst ?run))" by simp
  obtain s' visited r where run: "?run = ((s', visited), r)" by (metis prod.exhaust)
  have nm: "compose_project_name (Some ''app'') = Inr ''app''" by code_simp
  have dn: "compose_project_name (Some (if ([] :: string) \<noteq> [] then [] else ''app'')) = Inr ''app''" by code_simp
  have ids: "h_id (sample_host 1 ''a'') \<noteq> h_id (sample_host 2 ''b'')" by (simp add: sample_host_def)
  have src: "Stack 1 ''/d/app'' = Stack (h_id (sample_host 1 ''a'')) (rslash (docker_base_abs (sample_host 1 ''a'')) @ ''/'' @ ''app'')"
    and dst: "Stack 2 ''/d/app'' = Stack (h_id (sample_host 2 ''b'')) (rslash (docker_base_abs (sample_host 2 ''b'')) @ ''/'' @ ''app'')"
    by code_simp+
  have down: "Stack 2 ''/d/app'' \<notin> set [Stack 1 ''/d/app'']"
    by (rule undo_never_runs_twice [OF tame_obeys ids nm dn src dst _ run, of "[Stack 1 ''/d/app'']"])
      (use t run in simp_all)
  show ?thesis by (rule bexI [OF _ t]) (use down in simp)
qed

text \<open>The recovery of a worker death starts the source only after a stop of the destination.\<close>

lemma dest_recover_never_runs_twice:
  assumes "obeys running x" and "h_id source \<noteq> h_id dest"
    and "compose_project_name (Some project) = Inr nm"
    and "compose_project_name (Some (if dest_project \<noteq> [] then dest_project else project)) = Inr dest_name"
    and "src = Stack (h_id source) (rslash (docker_base_abs source) @ ''/'' @ nm)"
    and "dst = Stack (h_id dest) (rslash (docker_base_abs dest) @ ''/'' @ dest_name)"
    and "run_dest_up_recover (traced x) source dest project dest_project (s, []) = ((s', visited), r)"
    and "t \<in> set visited" and "running t src" and "\<not> running s src"
  shows "\<not> running t dst"
proof -
  let ?A = "so_far (apart running s src dst) (\<lambda>_. True)"
  let ?u = "\<lparr>ua_source = source, ua_dest = dest, ua_name = nm, ua_dest_name = dest_name,
      ua_source_path = rslash (docker_base_abs source) @ ''/'' @ nm,
      ua_dest_path = rslash (docker_base_abs dest) @ ''/'' @ dest_name, ua_back_ports = []\<rparr>"
  let ?D = "so_far (apart running s src dst) (\<lambda>t. \<not> running t dst)"
  have ne: "src \<noteq> dst" using assms(2,5,6) by simp
  have b: "before running s src dst (s, [])" by (simp add: so_far_def throughout_def apart_def unstarted_def)
  have bst: "stable (traced x) (before running s src dst)" by (rule before_stable [OF assms(1)])
  have d: "stable (traced x) ?D" by (rule so_far_stable [OF assms(1) apart_shrinks down_shrinks])
  have "keeps ?D (o_call (traced x) (ComposeStart (h_id source) (rslash (docker_base_abs source) @ ''/'' @ nm)))"
    by (rule keeps_start [OF assms(1)]) (use ne assms(5) in \<open>auto simp: apart_def starts_def dest!: meta_spec [of _ dst]\<close>)
  then have up: "keeps ?D (recover_start (traced x) source nm (rslash (docker_base_abs source) @ ''/'' @ nm) dest_name p)" for p
    unfolding recover_start_def by (intro keeps_rules keeps_log [OF d] keeps_log_output [OF d])
  have stop: "wp (o_call (traced x) (ComposeStop (h_id dest) (rslash (docker_base_abs dest) @ ''/'' @ dest_name)))
      (\<lambda>r sh'. before running s src dst sh' \<and> (call_ok r \<longrightarrow> ?D sh')) (\<lambda>_. before running s src dst) sh"
    if "before running s src dst sh" for sh
    unfolding assms(6) by (rule wp_conseq [OF stop_dest_wp [OF assms(1) that [unfolded assms(6)]]]) (auto simp: so_far_def)
  have weak: "before running s src dst sh \<Longrightarrow> ?A sh" "?D sh \<Longrightarrow> ?A sh" for sh by (simp_all add: so_far_def)
  have after: "wp (if says_down r then raise e1 else andalso (log_output (traced x) r) (if \<not> call_ok r then raise e2
      else recover_start (traced x) source nm (rslash (docker_base_abs source) @ ''/'' @ nm) dest_name p)) (\<lambda>_. ?A) (\<lambda>_. ?A) sh"
    if "before running s src dst sh \<and> (call_ok r \<longrightarrow> ?D sh)" for r e1 e2 p sh
  proof (cases "call_ok r")
    case True
    with that have dsh: "?D sh" by blast
    have "keeps ?D (if says_down r then raise e1 else andalso (log_output (traced x) r) (if \<not> call_ok r then raise e2
      else recover_start (traced x) source nm (rslash (docker_base_abs source) @ ''/'' @ nm) dest_name p))"
      by (intro keeps_rules keeps_log_output [OF d] up)
    from keeps_wp [OF this dsh] show ?thesis by (rule wp_conseq) (simp_all add: so_far_def)
  next
    case False
    from that have bsh: "before running s src dst sh" by blast
    have "keeps (before running s src dst) (if says_down r then raise e1 else andalso (log_output (traced x) r)
        (if \<not> call_ok r then raise e2
         else recover_start (traced x) source nm (rslash (docker_base_abs source) @ ''/'' @ nm) dest_name p))"
      unfolding if_P [of "\<not> call_ok r", OF False] by (intro keeps_rules keeps_log_output [OF bst])
    from keeps_wp [OF this bsh] show ?thesis by (rule wp_conseq) (simp_all add: so_far_def)
  qed
  have "wp (run_dest_up_recover (traced x) source dest project dest_project) (\<lambda>_. ?A) (\<lambda>_. ?A) (s, [])"
    unfolding run_dest_up_recover_def checked_project_def assms(3,4) sum.case wp_seq [of "ret _"] wp_ret
    by (rule wp_jailed [OF assms(4)], rule wp_jailed [OF assms(3)], rule wp_seq_keeps [OF keeps_log [OF bst] b],
        rule wp_seq_keeps [OF keeps_log [OF bst]], assumption, rule wp_seqI [OF stop], assumption, erule after)
      (erule weak | rule weak, rule b)+
  from wp_visited [where P = "apart running s src dst" and N = "\<lambda>_. True", OF this assms(7,8)]
  have "apart running s src dst t" .
  then show ?thesis using assms(9,10) by (simp add: apart_def)
qed

section \<open>A stop that did not last\<close>

text \<open>A start may report a failure with part of the stack up, and the proxy may be down.\<close>

definition flaky_call :: "move_op \<Rightarrow> (stack list, move_exc, json) act" where
  "flaky_call call s = (case call of
       Retarget i j nm z ps b \<Rightarrow> (s, Inl (CutoverError ''NPM does not answer''))
     | ComposeStart h p \<Rightarrow> (Stack h p # s, Inr (failure ''one service did not start''))
     | _ \<Rightarrow> tame_call call s)"

definition flaky :: "stack list outside" where
  "flaky = \<lparr>o_call = flaky_call, o_log = (\<lambda>m. id), o_step = (\<lambda>m. id)\<rparr>"

lemma flaky_obeys: "obeys (\<lambda>s k. k \<in> set s) flaky"
  by (auto simp: obeys_def flaky_def flaky_call_def tame_call_def starts_def field_def dict_of_def dget0_def dget_def
      split: move_op.splits)

text \<open>The first attempt stops the destination, fails to move the names back, and starts the destination
  again with a failure; the second one finds the stop committed.\<close>

definition undo_twice :: "(stack list \<times> (move_exc + json)) \<times> stack list \<times> (move_exc + json)" where
  "undo_twice =
     (let first = run_undo_pipeline flaky (sample_host 1 ''a'') (sample_host 2 ''b'') ''app'' [] [] [] [Stack 2 ''/d/app''];
          committed = (case snd first of Inl (UndoError m ss) \<Rightarrow> ss | _ \<Rightarrow> [])
      in (first, run_undo_pipeline tame (sample_host 1 ''a'') (sample_host 2 ''b'') ''app'' [] [] committed (fst first)))"


end
