(* ===== verification/MovePorts.thy ===== *)
theory MovePorts
  imports MoveNames
begin

text \<open>
  The port map of a Move: what \<open>validate_port_map\<close> accepts is a partial injection between published
  ports, and \<open>invert_port_map\<close> inverts it, so the undo sends the proxy back to the port it came from.
\<close>

definition port_proto :: "string \<Rightarrow> bool" where
  "port_proto proto = (proto = ''tcp'' \<or> proto = ''udp'')"

lemma port_map_key_proto: "port_proto proto \<Longrightarrow> port_map_key n proto = int_str n @ ''/'' @ proto"
  by (auto simp: port_map_key_def port_proto_def lower_def lower_char_def)

lemma digit_no_slash: "is_digit c \<Longrightarrow> c \<noteq> slash"
  by (auto simp: is_digit_def)

lemma int_str_digits: "0 \<le> n \<Longrightarrow> list_all is_digit (int_str n)"
  using nat_str_digits by (simp add: int_str_def)

lemma int_str_no_slash: "0 \<le> n \<Longrightarrow> slash \<notin> set (int_str n)"
  using int_str_digits digit_no_slash by (auto simp: list_all_iff)

lemma key_head: "0 \<le> n \<Longrightarrow> takeWhile (\<lambda>c. c \<noteq> slash) (int_str n @ slash # s) = int_str n"
  using int_str_no_slash [of n] by (subst takeWhile_append2) auto

lemma port_map_key_inject:
  assumes "0 \<le> m" and "0 \<le> n" and "port_proto p" and "port_proto q"
  shows "port_map_key m p = port_map_key n q \<longleftrightarrow> m = n \<and> p = q"
proof
  assume "port_map_key m p = port_map_key n q"
  then have eq: "int_str m @ slash # p = int_str n @ slash # q" by (simp add: port_map_key_proto assms(3,4))
  then have "int_str m = int_str n" using key_head [OF assms(1), of p] key_head [OF assms(2), of q] by simp
  with eq show "m = n \<and> p = q" by simp
qed simp

lemma lower_digits: "list_all is_digit s \<Longrightarrow> lower s = s"
  by (induction s) (auto simp: lower_def lower_char_def is_digit_def Let_def)

lemma int_str_no_space: "0 \<le> n \<Longrightarrow> list_all (\<lambda>c. \<not> py_space c) (int_str n)"
  by (simp add: int_str_def nat_str_no_space)

lemma clean_key:
  assumes "0 \<le> n" and "port_proto proto"
  shows "lower (strip (port_map_key n proto)) = port_map_key n proto"
proof -
  have "list_all (\<lambda>c. \<not> py_space c) ''/tcp''" "list_all (\<lambda>c. \<not> py_space c) ''/udp''" by code_simp+
  then have "list_all (\<lambda>c. \<not> py_space c) (int_str n @ ''/'' @ proto)"
    using int_str_no_space [OF assms(1)] assms(2) by (auto simp: port_proto_def)
  then have "strip (int_str n @ ''/'' @ proto) = int_str n @ ''/'' @ proto" by (rule strip_no_space)
  moreover have "lower ''/tcp'' = ''/tcp''" "lower ''/udp'' = ''/udp''" by code_simp+
  then have "lower (int_str n @ ''/'' @ proto) = int_str n @ ''/'' @ proto"
    using lower_digits [OF int_str_digits [OF assms(1)]] assms(2) by (auto simp: port_proto_def lower_def)
  ultimately show ?thesis by (simp add: port_map_key_proto [OF assms(2)])
qed

lemma port_text_int_str:
  assumes "0 \<le> n"
  shows "py_isdigit (int_str n)" and "int_or_raise (int_str n) = Inr n" and "strip (int_str n) = int_str n"
proof -
  have "int_str n \<noteq> []" using assms by (simp add: int_str_def)
  then show "py_isdigit (int_str n)"
    using int_str_digits [OF assms] unfolding py_isdigit_def list_all_iff by blast
  show "int_or_raise (int_str n) = Inr n" by (simp add: int_or_raise_def)
  show "strip (int_str n) = int_str n" by (rule strip_no_space [OF int_str_no_space [OF assms]])
qed

section \<open>What validation leaves\<close>

text \<open>An entry of the map, and the source it is seen with.\<close>

definition scan_ok :: "port_scan \<Rightarrow> bool" where
  "scan_ok p = (distinct (map fst (ps_clean p)) \<and> (\<forall>(k, v)\<in>set (ps_clean p). \<exists>h t proto.
     valid_port h \<and> valid_port t \<and> port_proto proto \<and> k = port_map_key h proto \<and> v = int_str t
       \<and> map_of (ps_seen p) (port_map_key t proto) = Some k))"

lemma scan_ok_error: "scan_ok p \<Longrightarrow> scan_ok (port_error m p)"
  by (simp add: scan_ok_def port_error_def)

lemma scan_ok_add:
  assumes "scan_ok p" and "valid_port h" and "valid_port t" and "port_proto proto"
    and seen: "map_of (ps_seen p) (port_map_key t proto) = None \<or> map_of (ps_seen p) (port_map_key t proto) = Some (port_map_key h proto)"
  shows "scan_ok (p\<lparr>ps_seen := AList.update (port_map_key t proto) (port_map_key h proto) (ps_seen p),
    ps_clean := AList.update (port_map_key h proto) (int_str t) (ps_clean p)\<rparr>)"
proof -
  have d: "distinct (map fst (ps_clean p))" using assms(1) by (simp add: scan_ok_def)
  have "\<exists>h' t' proto'. valid_port h' \<and> valid_port t' \<and> port_proto proto' \<and> k = port_map_key h' proto' \<and> v = int_str t'
      \<and> map_of (AList.update (port_map_key t proto) (port_map_key h proto) (ps_seen p)) (port_map_key t' proto') = Some k"
    if kv: "(k, v) \<in> set (AList.update (port_map_key h proto) (int_str t) (ps_clean p))" for k v
  proof (cases "k = port_map_key h proto")
    case True
    have "map_of (AList.update (port_map_key h proto) (int_str t) (ps_clean p)) k = Some v"
      using kv by (intro map_of_is_SomeI distinct_update d)
    then have "v = int_str t" using True by (simp add: update_conv')
    then show ?thesis using True assms(2-4) by (auto simp: update_conv')
  next
    case False
    have "map_of (AList.update (port_map_key h proto) (int_str t) (ps_clean p)) k = Some v"
      using kv by (intro map_of_is_SomeI distinct_update d)
    then have "(k, v) \<in> set (ps_clean p)" using False by (simp add: update_conv' map_of_SomeD)
    then obtain h' t' proto' where e: "valid_port h'" "valid_port t'" "port_proto proto'" "k = port_map_key h' proto'"
        "v = int_str t'" "map_of (ps_seen p) (port_map_key t' proto') = Some k"
      using assms(1) by (fastforce simp: scan_ok_def)
    then have "port_map_key t' proto' \<noteq> port_map_key t proto" using seen False by auto
    then show ?thesis using e by (auto simp: update_conv')
  qed
  then show ?thesis using d by (fastforce simp: scan_ok_def intro: distinct_update)
qed

lemma map_port_ok:
  "scan_ok p \<Longrightarrow> valid_port h \<Longrightarrow> valid_port t \<Longrightarrow> port_proto proto \<Longrightarrow> scan_ok (map_port h t proto p)"
  using scan_ok_add [of p h t proto] scan_ok_error by (auto simp: map_port_def Let_def)

lemma port_text_valid: "port_text s = Inr (Some n) \<Longrightarrow> valid_port n"
  by (auto simp: port_text_def rbind_eq_Inr split: if_splits)

lemma validate_entry_ok:
  assumes "validate_port_entry kv p = Inr p'" and "scan_ok p"
  shows "scan_ok p'"
  using assms
  by (auto simp: validate_port_entry_def Let_def port_proto_def rbind_eq_Inr
      intro!: scan_ok_error map_port_ok elim: port_text_valid split: if_splits option.splits prod.splits) (metis port_text_valid)+

lemma validate_ok:
  assumes "validate_port_map pm = Inr (clean, errs)"
  shows "\<exists>p. scan_ok p \<and> ps_clean p = clean"
proof -
  from assms obtain p where p: "rfold validate_port_entry pm \<lparr>ps_clean = [], ps_errors = [], ps_seen = []\<rparr> = Inr p"
      "ps_clean p = clean"
    by (auto simp: validate_port_map_def rbind_eq_Inr)
  have "scan_ok p"
  proof (rule rfold_invariant [OF p(1)])
    show "scan_ok \<lparr>ps_clean = [], ps_errors = [], ps_seen = []\<rparr>" by (simp add: scan_ok_def)
  qed (rule validate_entry_ok)
  with p(2) show ?thesis by blast
qed

section \<open>The way back\<close>

definition as_json :: "(string \<times> string) list \<Rightarrow> dict" where
  "as_json m = map (\<lambda>(k, v). (k, JStr v)) m"

text \<open>One cleaned entry, inverted.\<close>

lemma invert_clean_entry:
  assumes "valid_port h" and "valid_port t" and "port_proto proto"
  shows "invert_port_entry (port_map_key h proto, JStr (int_str t)) out
    = Inr (AList.update (port_map_key t proto) (int_str h) out)"
proof -
  have h: "0 \<le> h" and t: "0 \<le> t" using assms(1,2) by (simp_all add: valid_port_def)
  have key: "lower (strip (port_map_key h proto)) = int_str h @ slash # proto"
    using clean_key [OF h assms(3)] by (simp add: port_map_key_proto [OF assms(3)])
  show ?thesis
    by (simp add: invert_port_entry_def Let_def key key_head [OF h] port_text_int_str [OF h] port_text_int_str [OF t])
qed

text \<open>Entries whose keys and whose targets are distinct are all there after the inversion.\<close>

lemma invert_clean:
  assumes "\<forall>(k, v)\<in>set m. \<exists>h t proto. valid_port h \<and> valid_port t \<and> port_proto proto \<and> k = port_map_key h proto \<and> v = int_str t"
  shows "\<exists>ports. rfold invert_port_entry (as_json m) out = Inr ports"
  using assms
proof (induction m arbitrary: out)
  case (Cons kv m)
  obtain k v where kv: "kv = (k, v)" by (cases kv)
  with Cons.prems obtain h t proto where e: "valid_port h" "valid_port t" "port_proto proto" "k = port_map_key h proto" "v = int_str t"
    by auto
  show ?case
    using Cons.IH [of "AList.update (port_map_key t proto) (int_str h) out"] Cons.prems
    by (simp add: as_json_def kv e invert_clean_entry)
qed (simp add: as_json_def)

lemma invert_keeps:
  assumes "rfold invert_port_entry (as_json m) out = Inr ports" and "map_of out q = Some w"
    and "\<forall>(k, v)\<in>set m. \<exists>h t proto. valid_port h \<and> valid_port t \<and> port_proto proto \<and> k = port_map_key h proto \<and> v = int_str t
      \<and> (port_map_key t proto = q \<longrightarrow> int_str h = w)"
  shows "map_of ports q = Some w"
  using assms
proof (induction m arbitrary: out)
  case (Cons kv m)
  obtain k v where kv: "kv = (k, v)" by (cases kv)
  with Cons.prems(3) obtain h t proto where e: "valid_port h" "valid_port t" "port_proto proto" "k = port_map_key h proto" "v = int_str t"
      "port_map_key t proto = q \<longrightarrow> int_str h = w"
    by auto
  have "map_of (AList.update (port_map_key t proto) (int_str h) out) q = Some w"
    using Cons.prems(2) e(6) by (simp add: update_conv')
  moreover have "rfold invert_port_entry (as_json m) (AList.update (port_map_key t proto) (int_str h) out) = Inr ports"
    using Cons.prems(1) by (simp add: as_json_def kv e invert_clean_entry)
  ultimately show ?case using Cons.IH Cons.prems(3) by auto
qed (simp add: as_json_def)

lemma invert_reaches:
  assumes "rfold invert_port_entry (as_json m) out = Inr ports" and "(port_map_key h proto, int_str t) \<in> set m"
    and "valid_port h" and "valid_port t" and "port_proto proto"
    and "\<forall>(k, v)\<in>set m. \<exists>h' t' proto'. valid_port h' \<and> valid_port t' \<and> port_proto proto' \<and> k = port_map_key h' proto' \<and> v = int_str t'
      \<and> (port_map_key t' proto' = port_map_key t proto \<longrightarrow> int_str h' = int_str h)"
  shows "map_of ports (port_map_key t proto) = Some (int_str h)"
  using assms
proof (induction m arbitrary: out)
  case (Cons kv m)
  show ?case
  proof (cases "kv = (port_map_key h proto, int_str t)")
    case True
    have "rfold invert_port_entry (as_json m) (AList.update (port_map_key t proto) (int_str h) out) = Inr ports"
      using Cons.prems(1) True by (simp add: as_json_def invert_clean_entry [OF assms(3-5)])
    moreover have "\<forall>(k, v)\<in>set m. \<exists>h' t' proto'. valid_port h' \<and> valid_port t' \<and> port_proto proto' \<and> k = port_map_key h' proto'
        \<and> v = int_str t' \<and> (port_map_key t' proto' = port_map_key t proto \<longrightarrow> int_str h' = int_str h)"
      using Cons.prems(6) unfolding list.set(2) by blast
    moreover have "map_of (AList.update (port_map_key t proto) (int_str h) out) (port_map_key t proto) = Some (int_str h)"
      by (simp add: update_conv')
    ultimately show ?thesis using invert_keeps by blast
  next
    case False
    obtain k v where kv: "kv = (k, v)" by (cases kv)
    with Cons.prems(6) obtain h' t' proto' where e: "valid_port h'" "valid_port t'" "port_proto proto'"
        "k = port_map_key h' proto'" "v = int_str t'"
      by auto
    have "rfold invert_port_entry (as_json m) (AList.update (port_map_key t' proto') (int_str h') out) = Inr ports"
      using Cons.prems(1) by (simp add: as_json_def kv e invert_clean_entry)
    then show ?thesis using Cons.IH Cons.prems(2-6) False by auto
  qed
qed simp

text \<open>C39: the port map of a Move that passed validation can be undone: each published port it moves is
  found again from the port it moved to, in the map an undo gives to the proxy.\<close>

theorem port_map_round_trip:
  assumes "validate_port_map pm = Inr (clean, errs)" and "0 \<le> h" and "port_proto proto"
    and "map_of clean (port_map_key h proto) = Some v"
  shows "\<exists>t ports. v = int_str t \<and> valid_port t \<and> invert_port_map (as_json clean) = Inr ports
    \<and> mapped_host_port h proto clean = int_str t \<and> mapped_host_port t proto ports = int_str h"
proof -
  obtain p where p: "scan_ok p" "ps_clean p = clean" using validate_ok [OF assms(1)] by blast
  have entry: "\<exists>h t proto. valid_port h \<and> valid_port t \<and> port_proto proto \<and> k = port_map_key h proto \<and> v = int_str t
      \<and> map_of (ps_seen p) (port_map_key t proto) = Some k" if "(k, v) \<in> set clean" for k v
    using p that by (fastforce simp: scan_ok_def)
  let ?k = "port_map_key h proto"
  have kv: "(?k, v) \<in> set clean" using assms(4) by (rule map_of_SomeD)
  then obtain h1 t proto1 where e1: "valid_port h1" "valid_port t" "port_proto proto1" "?k = port_map_key h1 proto1" "v = int_str t"
      "map_of (ps_seen p) (port_map_key t proto1) = Some ?k"
    using entry by blast
  then have "h1 = h \<and> proto1 = proto"
    using port_map_key_inject [of h h1 proto proto1] assms(2,3) by (simp add: valid_port_def)
  with e1 have e: "valid_port h" "valid_port t" "port_proto proto" "v = int_str t"
      "map_of (ps_seen p) (port_map_key t proto) = Some ?k"
    by simp_all
  have all: "\<forall>(k', v')\<in>set clean. \<exists>h' t' proto'. valid_port h' \<and> valid_port t' \<and> port_proto proto' \<and> k' = port_map_key h' proto'
      \<and> v' = int_str t' \<and> (port_map_key t' proto' = port_map_key t proto \<longrightarrow> int_str h' = int_str h)"
  proof (clarify)
    fix k' v' assume "(k', v') \<in> set clean"
    then obtain h' t' proto' where e': "valid_port h'" "valid_port t'" "port_proto proto'" "k' = port_map_key h' proto'"
        "v' = int_str t'" "map_of (ps_seen p) (port_map_key t' proto') = Some k'"
      using entry by blast
    have "int_str h' = int_str h" if "port_map_key t' proto' = port_map_key t proto"
    proof -
      have "k' = ?k" using that e(5) e'(6) by simp
      then have "port_map_key h' proto' = port_map_key h proto" using e'(4) by simp
      then show ?thesis
        using port_map_key_inject [of h' h proto' proto] e(1,3) e'(1,3) by (simp add: valid_port_def)
    qed
    with e' show "\<exists>h' t' proto'. valid_port h' \<and> valid_port t' \<and> port_proto proto' \<and> k' = port_map_key h' proto'
      \<and> v' = int_str t' \<and> (port_map_key t' proto' = port_map_key t proto \<longrightarrow> int_str h' = int_str h)"
      by blast
  qed
  have "\<forall>(k', v')\<in>set clean. \<exists>h' t' proto'. valid_port h' \<and> valid_port t' \<and> port_proto proto' \<and> k' = port_map_key h' proto' \<and> v' = int_str t'"
    using entry by blast
  then obtain ports where ports: "rfold invert_port_entry (as_json clean) [] = Inr ports"
    using invert_clean [of clean "[]"] by blast
  have "map_of ports (port_map_key t proto) = Some (int_str h)"
    by (rule invert_reaches [OF ports _ e(1-3) all]) (use kv e in simp)
  then show ?thesis
    using ports assms(4) e(2,4) by (auto simp: invert_port_map_def mapped_host_port_def)
qed

lemma port_map_round_trip_witness:
  "\<exists>ports. invert_port_map (as_json [(port_map_key 80 ''tcp'', int_str 8080)]) = Inr ports
    \<and> mapped_host_port 8080 ''tcp'' ports = int_str 80"
proof -
  have proto: "port_proto ''tcp''" by (simp add: port_proto_def)
  have ptxt: "port_text (int_str n) = Inr (Some n)" if "valid_port n" for n
    using that port_text_int_str [of n] by (simp add: port_text_def valid_port_def)
  have ports: "valid_port 80" "valid_port 8080" by (simp_all add: valid_port_def)
  have key: "lower (strip (port_map_key 80 ''tcp'')) = int_str 80 @ slash # ''tcp''"
    using clean_key [of 80 "''tcp''"] port_map_key_proto [OF proto, of 80] proto by simp
  have "validate_port_map [(port_map_key 80 ''tcp'', JStr (int_str 8080))] = Inr ([(port_map_key 80 ''tcp'', int_str 8080)], [])"
    using ptxt [OF ports(1)] ptxt [OF ports(2)] port_text_int_str(3) [of 8080]
    by (simp add: validate_port_map_def validate_port_entry_def Let_def key key_head map_port_def)
  from port_map_round_trip [OF this, of 80 "''tcp''" "int_str 8080"] proto show ?thesis by auto
qed

end
