(* ===== verification/MoveProps.thy ===== *)
theory MoveProps
  imports MoveFacts LifeProps
begin

text \<open>
  The rows of a Move: what an accepted request leaves in its row and keeps from others, and what
  the row of a failed Move offers.
\<close>

section \<open>An accepted request\<close>

text \<open>The hand-off leaves the row as it was created, but for the number of its Celery task.\<close>

definition same_but_task :: "job \<Rightarrow> job \<Rightarrow> bool" where
  "same_but_task j j' = (\<exists>t. j' = j\<lparr>j_celery_task_id := t\<rparr>)"

lemma fail_move_raises: "fail_move e i msg d \<noteq> (d1, Inr v)"
  by (auto simp: fail_move_def commit_def andthen_def split: sum.splits prod.splits)

lemma handoff_keeps_row:
  assumes "handoff_move e i jt no_worker label d = (d', Inr r)" and "get_job d i = Some j"
  shows "\<exists>j'. get_job d' i = Some j' \<and> same_but_task j j' \<and> r = Some i \<and> db_servers d' = db_servers d"
proof -
  have 1: "j_id j = i" using get_job_id [OF assms(2)] .
  have same: "same_but_task j j" "same_but_task j (set_task_id t j)" for t
    by (auto simp: same_but_task_def set_task_id_def intro: exI [of _ "j_celery_task_id j"])
  have "get_job (emit x d) i = Some j" for x using assms(2) by simp
  moreover have "get_job (upd_job i (set_task_id t) (emit x d)) i = Some (set_task_id t j)" for t x
    using assms(2) by (simp add: get_job_upd_same set_task_id_def)
  moreover have "db_servers (upd_job i f d) = db_servers d" "db_servers (emit x d) = db_servers d" for f x d
    by (simp_all add: upd_job_def emit_def)
  moreover have "j_id (set_task_id t j) = i" for t by (simp add: set_task_id_def 1)
  ultimately show ?thesis
    using assms(1) same 1 fail_move_raises [where 'a = unit]
    by (auto simp: handoff_move_def andthen_def split: if_splits sum.splits prod.splits)
qed

text \<open>What one request that came through has checked, and the row it left.\<close>

lemma accepted_move:
  assumes "wf_ids d" and "enqueue_service_migrate e rq d = (d', Inr r)"
  shows "\<exists>nm dest_name clean source dest j. checked_request rq = Inr (nm, dest_name, clean)
    \<and> get_server d (mr_source rq) = Some source \<and> get_server d (mr_dest rq) = Some dest
    \<and> move_blocker d (mr_source rq) (mr_dest rq) = None \<and> r = Some (db_next_job d)
    \<and> get_job d' (db_next_job d) = Some j \<and> active j \<and> j_job_type j = ''service_migrate''
    \<and> j_server_id j = Some (mr_source rq) \<and> db_servers d' = db_servers d
    \<and> (\<exists>msg. j_details j = queued_details e msg (mr_origin rq) (move_extra rq dest nm dest_name clean))"
proof -
  obtain nm dest_name clean source dest where ok: "checked_request rq = Inr (nm, dest_name, clean)"
      "get_server d (mr_source rq) = Some source" "get_server d (mr_dest rq) = Some dest"
      "move_blocker d (mr_source rq) (mr_dest rq) = None"
    using assms(2) by (auto simp: enqueue_service_migrate_def unless_blocked_def split: sum.splits option.splits)
  have sid: "s_id source = mr_source rq" using get_server_id [OF ok(2)] .
  let ?msg = "''Migrate '' @ nm @ '' queued'' @ arrow @ s_name dest @ dots"
  let ?x = "move_extra rq dest nm dest_name clean"
  obtain d1 c where cr: "create_queued_job_with_audit e (Some (mr_source rq)) ''service_migrate'' ?msg (mr_origin rq)
      (Some (''Job #{job_id}'' @ middot @ ''migrate '' @ nm @ arrow @ s_name dest)) ?x d = (d1, c)"
    using prod.exhaust by blast
  note adds = create_queued_adds [OF cr]
  obtain i aid where c: "c = Inr (i, aid)"
    using assms(2) ok cr sid by (cases c) (auto simp: enqueue_service_migrate_def unless_blocked_def)
  have i: "i = db_next_job d" using adds(6) c by auto
  have h: "handoff_move e i ''service_migrate'' (''Celery worker required for Move'' @ emdash @ ''start celery-worker container'')
      ''Move'' d1 = (d', Inr r)"
    using assms(2) ok cr sid c by (simp add: enqueue_service_migrate_def unless_blocked_def)
  obtain j where j: "get_job d1 i = Some j" "active j" "j_job_type j = ''service_migrate''" "j_server_id j = Some (mr_source rq)"
      "j_details j = queued_details e ?msg (mr_origin rq) ?x"
    using get_job_add_job [OF assms(1), of e "Some (mr_source rq)" "''service_migrate''" "queued_details e ?msg (mr_origin rq) ?x"]
      get_job_cong [OF adds(1)] i by (auto simp: active_def)
  from handoff_keeps_row [OF h j(1)] ok j adds(4) show ?thesis
    unfolding i same_but_task_def by (auto simp: active_def)
qed

text \<open>The fields of the request in the details of a new row.\<close>

lemma dget_origin_extra:
  "k \<noteq> ''user_id'' \<Longrightarrow> k \<noteq> ''api_token_id'' \<Longrightarrow> k \<noteq> ''api_token_name'' \<Longrightarrow> dget (origin_extra og x) k = dget x k"
  by (auto simp: origin_extra_def Let_def dset_new_def dget_def map_add_def split: option.splits)

lemma distinct_dset_new: "distinct (map fst x) \<Longrightarrow> distinct (map fst (dset_new k v x))"
  by (auto simp: dset_new_def dget_def map_of_eq_None_iff)

lemma distinct_origin_extra: "distinct (map fst x) \<Longrightarrow> distinct (map fst (origin_extra og x))"
  by (auto simp: origin_extra_def Let_def distinct_dset_new split: option.splits)

lemma queued_field:
  assumes "distinct (map fst x)" and "dget x k = Some v"
    and "k \<notin> {''user_id'', ''api_token_id'', ''api_token_name'', ''client_ip''}"
  shows "dget0 (load_dict (queued_details e msg og x)) k = v"
proof -
  have "dget (dupdate d (origin_extra og x)) k = Some v" for d
    using assms dget_origin_extra [of k og x]
    by (simp add: dget_dupdate distinct_origin_extra) (simp add: dget_def)
  then show ?thesis
    using assms(3) by (auto simp: queued_details_def initial_job_details_def Let_def dget0_def)
qed

lemma move_extra_distinct: "distinct (map fst (move_extra rq dest nm dest_name clean))"
  by (simp add: move_extra_def)

text \<open>The fields a Move reads back from its row.\<close>

lemma move_row_fields:
  assumes "j_details j = queued_details e msg og (move_extra rq dest nm dest_name clean)"
  shows "dget0 (load_dict (j_details j)) ''dest_server_id'' = JInt (s_id dest)"
    and "dget0 (load_dict (j_details j)) ''leftover'' = JStr (normalize_leftover (Some (mr_leftover rq)))"
    and "dget0 (load_dict (j_details j)) ''devices_ack'' = JBool (mr_devices_ack rq)"
    and "dget0 (load_dict (j_details j)) ''adopt_fabric'' = JBool (mr_adopt_fabric rq)"
    and "dget0 (load_dict (j_details j)) ''dest_project'' = JStr dest_name"
    and "dget0 (load_dict (j_details j)) ''port_map'' = JObj (text_dict clean)"
    and "dget0 (load_dict (j_details j)) ''bind_map'' = JObj (mr_bind_map rq)"
    and "dget0 (load_dict (j_details j)) ''skip_binds'' = JList (mr_skip_binds rq)"
  unfolding assms by (rule queued_field [OF move_extra_distinct], simp add: move_extra_def dget_def, simp)+

lemma queued_truthy: "\<exists>data. load_dict (queued_details e msg og x) = data \<and> queued_details e msg og x = Text (JObj data) \<and> data \<noteq> []"
proof -
  have "dset k v z \<noteq> []" for k v z by (cases "(k, v, z)" rule: dset.cases) auto
  moreover have "z \<noteq> [] \<Longrightarrow> dupdate z y \<noteq> []" for z y
    by (induction z y rule: dupdate.induct) (auto simp: calculation)
  ultimately show ?thesis by (auto simp: queued_details_def initial_job_details_def Let_def)
qed

lemma normalize_leftover_mode: "normalize_leftover m \<in> set LEFTOVER_MODES"
  by (auto simp: normalize_leftover_def LEFTOVER_MODES_def Let_def)

lemma normalize_leftover_idem: "m \<in> set LEFTOVER_MODES \<Longrightarrow> m \<noteq> [] \<and> normalize_leftover (Some m) = m"
  by (auto simp: LEFTOVER_MODES_def) code_simp+

lemma text_pairs_text_dict [simp]: "text_pairs (JObj (text_dict m)) = m"
  by (induction m) (auto simp: text_pairs_def dict_of_def text_dict_def)

lemma checked_names: "checked_request rq = Inr (nm, dest_name, clean) \<Longrightarrow> nm \<noteq> [] \<and> dest_name \<noteq> [] \<and> mr_source rq \<noteq> mr_dest rq"
  by (auto simp: checked_request_def normalize_dest_project_def compose_project_name_def Let_def
      split: sum.splits prod.splits option.splits if_splits)

section \<open>A sample\<close>

text \<open>Two hosts, a Move of \<open>blog\<close> between them with one remapped port, and a Move the other way.\<close>

definition two_hosts :: db where
  "two_hosts = sample_db\<lparr>db_servers := [sample_server, sample_server\<lparr>s_id := 2, s_name := ''pi4''\<rparr>]\<rparr>"

definition blog_move :: "int \<Rightarrow> int \<Rightarrow> move_request" where
  "blog_move s t = \<lparr>mr_source = s, mr_dest = t, mr_project = '' blog'',
     mr_origin = \<lparr>o_user_id = Some 1, o_api_token_id = None, o_api_token_name = None\<rparr>, mr_client_ip = None,
     mr_leftover = ''Remove '', mr_devices_ack = True, mr_adopt_fabric = False, mr_dest_project = Some ''blog2'',
     mr_port_map = [(''80/TCP'', JStr ''81'')], mr_bind_map = [(''/srv'', JStr ''/data'')], mr_skip_binds = [JStr '' '', JStr ''/etc'']\<rparr>"

definition moving :: db where
  "moving = fst (enqueue_service_migrate sample_env (blog_move 1 2) two_hosts)"

lemma moving_enqueued: "enqueue_service_migrate sample_env (blog_move 1 2) two_hosts = (moving, Inr (Some 1))"
  and blog_move_checked: "checked_request (blog_move 1 2) = Inr (''blog'', ''blog2'', [(''80/tcp'', ''81'')])"
    "checked_request (blog_move 2 1) = Inr (''blog'', ''blog2'', [(''80/tcp'', ''81'')])"
  and moving_servers: "get_server moving 1 \<noteq> None" "get_server moving 2 \<noteq> None" and two_hosts_wf: "wf_ids two_hosts"
  by code_simp+

section \<open>The arguments of a Move\<close>

text \<open>C38: the arguments of a Move travel through the text of its row unchanged: what the executor of an accepted
  request reads back are the cleaned names and ports of the request, its leftover mode in normal form, its
  flags and its bind choices, whoever sent the request and whatever else the row holds.\<close>

theorem move_options_round_trip:
  assumes "wf_ids d" and "enqueue_service_migrate e rq d = (d', Inr (Some i))"
    and "checked_request rq = Inr (nm, dest_name, clean)"
  shows "map_option (\<lambda>j. stored_options project (j_details j)) (get_job d' i) = Some
    \<lparr>mo_leftover = normalize_leftover (Some (mr_leftover rq)), mo_devices_ack = mr_devices_ack rq,
     mo_adopt_fabric = mr_adopt_fabric rq, mo_dest_project = JStr dest_name, mo_port_map = clean,
     mo_bind_map = map (\<lambda>(k, v). (k, py_str v)) (mr_bind_map rq),
     mo_skip_binds = filter (\<lambda>s. strip s \<noteq> []) (map py_str (mr_skip_binds rq))\<rparr>"
proof -
  obtain dest j msg where j: "get_job d' i = Some j"
      and det: "j_details j = queued_details e msg (mr_origin rq) (move_extra rq dest nm dest_name clean)"
    using accepted_move [OF assms(1,2)] assms(3) by auto
  obtain data where data: "load_dict (j_details j) = data" "j_details j = Text (JObj data)" "data \<noteq> []"
    using queued_truthy det by metis
  note fields = move_row_fields [OF det, unfolded data(1)]
  have "stored_leftover (dget0 data ''leftover'') = Some (normalize_leftover (Some (mr_leftover rq)))"
    using normalize_leftover_idem [OF normalize_leftover_mode] by (simp add: fields stored_leftover_def as_text_def)
  then show ?thesis
    using checked_names [OF assms(3)] data(3)
    by (simp add: j data(2) stored_options_def jor_def fields) (simp add: text_pairs_def dict_of_def)
qed

theorem move_options_round_trip_witness:
  "map_option (\<lambda>j. mo_port_map (stored_options ''blog'' (j_details j))) (get_job moving 1) = Some [(''80/tcp'', ''81'')]"
  using arg_cong [OF move_options_round_trip [OF two_hosts_wf moving_enqueued blog_move_checked(1), of "''blog''"], of "map_option mo_port_map"]
  by (simp add: option.map_comp comp_def)

section \<open>Both hosts are taken\<close>

definition takes_hosts :: "int \<Rightarrow> int \<Rightarrow> job \<Rightarrow> bool" where
  "takes_hosts s t j = (j_job_type j \<in> set MOVE_TYPES \<and> active j \<and> j_server_id j = Some s \<and> move_dest j = Some t)"

lemma takes_blocks:
  assumes "get_job d i = Some j" and "takes_hosts s t j" and "s \<noteq> t"
  shows "host_blocker d s \<noteq> None" and "host_blocker d t \<noteq> None"
proof -
  have j: "j \<in> set (db_jobs d)" using assms(1) by (rule get_job_in)
  then have "job_key j \<in> set (active_keys d)" using assms(2) by (auto simp: active_keys_def takes_hosts_def)
  moreover have "snd (job_key j) = (Some s, j_job_type j)" using assms(2) by (simp add: job_key_def takes_hosts_def)
  moreover have "j_job_type j \<in> set STACK_MUTATING_JOB_TYPES"
    using assms(2) by (auto simp: takes_hosts_def MOVE_TYPES_def STACK_MUTATING_JOB_TYPES_def)
  ultimately have "active_stack_mutating_job d s \<noteq> None"
    unfolding active_stack_mutating_job_def first_active_type_None by blast
  then show "host_blocker d s \<noteq> None" by (auto simp: host_blocker_None)
  have "active_migrate_as_dest d t \<noteq> None"
    using j assms(2,3) by (auto simp: active_migrate_as_dest_def find_None_iff takes_hosts_def)
  then show "host_blocker d t \<noteq> None" by (auto simp: host_blocker_None)
qed

text \<open>C7: a Move takes both of its hosts: it is accepted only while no stack job, no Move towards them and no backup
  is active on either, and from then on, as long as its row is active and names its destination, every further
  request for a Move from or to one of the two hosts is refused with the job that is in the way.\<close>

theorem move_takes_both_hosts:
  assumes "wf_ids d" and "enqueue_service_migrate e rq d = (d', Inr (Some i))"
    and later: "\<exists>j. get_job d2 i = Some j \<and> takes_hosts (mr_source rq) (mr_dest rq) j"
    and "checked_request rq2 = Inr c2" and "get_server d2 (mr_source rq2) \<noteq> None" and "get_server d2 (mr_dest rq2) \<noteq> None"
    and "{mr_source rq2, mr_dest rq2} \<inter> {mr_source rq, mr_dest rq} \<noteq> {}"
  shows "host_blocker d (mr_source rq) = None \<and> host_blocker d (mr_dest rq) = None
    \<and> (\<exists>j. get_job d' i = Some j \<and> takes_hosts (mr_source rq) (mr_dest rq) j)
    \<and> (\<exists>k. enqueue_service_migrate e2 rq2 d2 = (d2, Inl (JobAlreadyActive k)))"
proof -
  obtain nm dest_name clean dest j msg where acc: "checked_request rq = Inr (nm, dest_name, clean)"
      "get_server d (mr_dest rq) = Some dest" "move_blocker d (mr_source rq) (mr_dest rq) = None"
      "get_job d' i = Some j" "active j" "j_job_type j = ''service_migrate''" "j_server_id j = Some (mr_source rq)"
      "j_details j = queued_details e msg (mr_origin rq) (move_extra rq dest nm dest_name clean)"
    using accepted_move [OF assms(1,2)] by auto
  have "move_dest j = Some (mr_dest rq)"
    using move_row_fields(1) [OF acc(8)] get_server_id [OF acc(2)] by (simp add: move_dest_def py_int_def)
  then have new: "takes_hosts (mr_source rq) (mr_dest rq) j" using acc(5-7) by (simp add: takes_hosts_def MOVE_TYPES_def)
  have "mr_source rq \<noteq> mr_dest rq" using checked_names [OF acc(1)] by blast
  then have "host_blocker d2 (mr_source rq) \<noteq> None" "host_blocker d2 (mr_dest rq) \<noteq> None"
    using takes_blocks later by blast+
  then have "move_blocker d2 (mr_source rq2) (mr_dest rq2) \<noteq> None"
    using assms(7) by (auto simp: move_blocker_None)
  then obtain b where "move_blocker d2 (mr_source rq2) (mr_dest rq2) = Some b" by blast
  then have "\<exists>k. enqueue_service_migrate e2 rq2 d2 = (d2, Inl (JobAlreadyActive k))"
    using assms(4-6) by (cases c2) (auto simp: enqueue_service_migrate_def unless_blocked_def split: option.split)
  then show ?thesis using acc(3,4) new by (auto simp: move_blocker_None)
qed

lemma moving_takes: "\<exists>j. get_job moving 1 = Some j \<and> takes_hosts (mr_source (blog_move 1 2)) (mr_dest (blog_move 1 2)) j"
proof -
  have "(case get_job moving 1 of None \<Rightarrow> False | Some j \<Rightarrow> takes_hosts 1 2 j)" by code_simp
  then show ?thesis by (auto simp: blog_move_def split: option.splits)
qed

theorem move_takes_both_hosts_witness:
  "\<exists>k. enqueue_service_migrate sample_env (blog_move 2 1) moving = (moving, Inl (JobAlreadyActive k))"
  using move_takes_both_hosts [OF two_hosts_wf moving_enqueued moving_takes blog_move_checked(2), of sample_env]
    moving_servers by (auto simp: blog_move_def)

section \<open>The row while the Move runs\<close>

text \<open>What a Move writes to its row while it runs; the rest of the row stays.\<close>

definition PROGRESS_KEYS :: "string set" where
  "PROGRESS_KEYS = {''current'', ''log_line'', ''log_lines'', ''done'', ''migrate_step''}"

definition same_row :: "string set \<Rightarrow> job \<Rightarrow> job \<Rightarrow> bool" where
  "same_row ks j j' = (job_key j' = job_key j \<and> (active j \<longrightarrow> active j')
     \<and> (\<forall>k. k \<notin> ks \<longrightarrow> dget (load_dict (j_details j')) k = dget (load_dict (j_details j)) k))"

lemma same_row_refl [simp]: "same_row ks j j"
  by (simp add: same_row_def)

lemma same_row_trans: "same_row ks j j1 \<Longrightarrow> same_row ks j1 j2 \<Longrightarrow> same_row ks j j2"
  by (simp add: same_row_def)

lemma same_row_mono: "same_row ks j j' \<Longrightarrow> ks \<subseteq> ks' \<Longrightarrow> same_row ks' j j'"
  by (auto simp: same_row_def)

lemma same_row_get0: "same_row ks j j' \<Longrightarrow> k \<notin> ks \<Longrightarrow> dget0 (load_dict (j_details j')) k = dget0 (load_dict (j_details j)) k"
  by (simp add: same_row_def dget0_def)

text \<open>A merge changes the fields it names and the log.\<close>

lemma merge_same_row:
  assumes "merge_job_details kvs j = Inr j'" and "fst ` set kvs \<union> {''log_lines''} \<subseteq> ks"
  shows "same_row ks j (r\<lparr>j_details := j_details j'\<rparr>) \<longleftrightarrow> same_row ks j (r\<lparr>j_details := j_details j\<rparr>)"
proof -
  have "dget (load_dict (j_details j')) k = dget (load_dict (j_details j)) k" if "k \<notin> ks" for k
  proof -
    obtain data where "rfold merge_field kvs (load_dict (j_details j)) = Inr data" "j_details j' = Text (JObj data)"
      using assms(1) by (auto simp: merge_job_details_def merge_details_def elim!: rbind_InrE)
    moreover have "k \<notin> fst ` set kvs" "k \<noteq> ''log_lines''" using assms(2) that by auto
    ultimately show ?thesis by (simp add: rfold_merge_other)
  qed
  then show ?thesis by (auto simp: same_row_def job_key_def active_def)
qed

lemma merge_present:
  assumes "db_ok d" and "get_job d i = Some j" and "list_all kv_ok kvs"
  shows "\<exists>d1 j'. merge_if_present i kvs d = Inr d1 \<and> merge_job_details kvs j = Inr j' \<and> db_ok d1
    \<and> get_job d1 i = Some (j\<lparr>j_details := j_details j'\<rparr>) \<and> db_servers d1 = db_servers d"
proof -
  obtain j' where j': "merge_job_details kvs j = Inr j'" "det_ok (j_details j')"
    using merge_job_details_ok [OF det_ok_get [OF assms(1,2)] assms(3)] by blast
  let ?d1 = "upd_job i (\<lambda>r. r\<lparr>j_details := j_details j'\<rparr>) d"
  have "db_ok ?d1" using assms(1) by (rule db_ok_upd) (simp add: j'(2))
  moreover have "get_job ?d1 i = Some (j\<lparr>j_details := j_details j'\<rparr>)"
    by (subst get_job_upd_same) (simp_all add: assms(2))
  ultimately show ?thesis using assms(2) j'(1) by (simp add: merge_if_present_def upd_job_def)
qed

definition on_course :: "int \<Rightarrow> job \<Rightarrow> db \<times> 'w \<Rightarrow> bool" where
  "on_course i j s = (db_ok (fst s) \<and> (\<exists>j'. get_job (fst s) i = Some j' \<and> same_row PROGRESS_KEYS j j'))"

lemma flush_on_course:
  assumes "on_course i j (d, w)" and "fst ` set extra \<subseteq> PROGRESS_KEYS" and "list_all kv_ok extra"
  shows "on_course i j (flush_job_progress i c l dc extra d, w)"
proof -
  obtain j1 where d: "db_ok d" and j1: "get_job d i = Some j1" "same_row PROGRESS_KEYS j j1"
    using assms(1) by (auto simp: on_course_def)
  let ?kvs = "[(''current'', JStr (if c \<noteq> [] then c else dc)), (''log_line'', JStr l), (''done'', JBool False)] @ extra"
  have ok: "list_all kv_ok ?kvs" using assms(3) by (simp add: kv_ok_def)
  obtain d1 j' where m: "merge_if_present i ?kvs d = Inr d1" "merge_job_details ?kvs j1 = Inr j'" "db_ok d1"
      "get_job d1 i = Some (j1\<lparr>j_details := j_details j'\<rparr>)"
    using merge_present [OF d j1(1) ok] by blast
  have "same_row PROGRESS_KEYS j1 (j1\<lparr>j_details := j_details j'\<rparr>)"
    using merge_same_row [OF m(2), of PROGRESS_KEYS j1] assms(2) by (auto simp: PROGRESS_KEYS_def)
  then have "on_course i j (d1, w)" using m(3,4) j1(2) by (auto simp: on_course_def intro: same_row_trans)
  moreover have "flush_job_progress i c l dc extra d = (if active j1 then d1 else d)"
    using j1(1) m(1,2) by (auto simp: flush_job_progress_def merge_if_present_def)
  ultimately show ?thesis using assms(1) by simp
qed

lemma call_on_course: "keeps (on_course i j) (o_call (move_outside m lg st) call)"
  by (auto simp: keeps_def move_outside_def on_course_def split_beta)

lemma of_move_on_course: "stable (of_move m i) (on_course i j)"
  by (simp add: stable_def call_on_course)
    (auto simp: move_outside_def move_log_def move_on_step_def PROGRESS_KEYS_def kv_ok_def intro!: flush_on_course)

lemma run_on_course: "keeps (on_course i j) (run_move m i sid did project opts)"
  by (rule keeps_run_any [OF of_move_on_course call_on_course])

section \<open>The way back of a failed Move\<close>

text \<open>The fields the handler of a failed Move adds, as one dictionary.\<close>

definition way_back ::
    "int \<Rightarrow> int \<Rightarrow> string \<Rightarrow> move_options \<Rightarrow> server \<Rightarrow> string option \<Rightarrow> dict" where
  "way_back sid did project opts src failed = (case failed of
     None \<Rightarrow> []
   | Some st \<Rightarrow> if st \<in> set RECOVER_SOURCE_STEPS then
         (case jailed_source_project_path (host_of src) project of
            Inl x \<Rightarrow> [] | Inr path \<Rightarrow> [(''failed_step'', JStr st), (''recover_source'', recover_payload sid project path)])
       else (case Option.bind (as_text (mo_dest_project opts))
             (\<lambda>dp. undo_move_details sid did project (Some dp) (text_dict (mo_port_map opts)) failed) of
            None \<Rightarrow> [] | Some p \<Rightarrow> [(''failed_step'', JStr st), (''undo_move'', JObj p)]))"

lemma way_back_cases:
  obtains (none) "way_back sid did project opts src failed = []"
  | (start) st path where "failed = Some st" "st \<in> set RECOVER_SOURCE_STEPS" "way_back sid did project opts src failed
      = [(''failed_step'', JStr st), (''recover_source'', recover_payload sid project path)]"
  | (undo) st p where "failed = Some st" "st \<notin> set RECOVER_SOURCE_STEPS"
      "Option.bind (as_text (mo_dest_project opts))
         (\<lambda>dp. undo_move_details sid did project (Some dp) (text_dict (mo_port_map opts)) failed) = Some p"
      "way_back sid did project opts src failed = [(''failed_step'', JStr st), (''undo_move'', JObj p)]"
proof -
  let ?w = "way_back sid did project opts src failed"
  let ?u = "Option.bind (as_text (mo_dest_project opts))
    (\<lambda>dp. undo_move_details sid did project (Some dp) (text_dict (mo_port_map opts)) failed)"
  have "?w = []
    \<or> (\<exists>st path. failed = Some st \<and> st \<in> set RECOVER_SOURCE_STEPS
        \<and> ?w = [(''failed_step'', JStr st), (''recover_source'', recover_payload sid project path)])
    \<or> (\<exists>st p. failed = Some st \<and> st \<notin> set RECOVER_SOURCE_STEPS \<and> ?u = Some p
        \<and> ?w = [(''failed_step'', JStr st), (''undo_move'', JObj p)])"
    unfolding way_back_def by (simp split: option.split sum.split) blast
  then show ?thesis using that by blast
qed

lemma way_back_keys: "fst ` set (way_back sid did project opts src failed) \<inter> {''log_line'', ''log_lines''} = {}"
  and way_back_distinct: "distinct (map fst (way_back sid did project opts src failed))"
  and way_back_ok: "list_all kv_ok (way_back sid did project opts src failed)"
  by (rule way_back_cases [of sid did project opts src failed]; simp add: kv_ok_def)+

lemma keep_way_back_fields:
  "keep_way_back i sid did project opts (Some src) failed d
     = (if way_back sid did project opts src failed = [] then d else try_merge i (way_back sid did project opts src failed) d)"
  by (simp add: keep_way_back_def way_back_def split: option.split sum.split)

lemma merge_value:
  assumes "merge_job_details kvs j = Inr j'" and "distinct (map fst kvs)" and "fst ` set kvs \<inter> {''log_line'', ''log_lines''} = {}"
    and "k \<noteq> ''log_lines''"
  shows "dget (load_dict (j_details j')) k = (case map_of kvs k of Some v \<Rightarrow> Some v | None \<Rightarrow> dget (load_dict (j_details j)) k)"
proof -
  obtain data where m: "rfold merge_field kvs (load_dict (j_details j)) = Inr data" "j_details j' = Text (JObj data)"
    using assms(1) by (auto simp: merge_job_details_def merge_details_def elim!: rbind_InrE)
  show ?thesis
  proof (cases "map_of kvs k")
    case None
    then have "k \<notin> fst ` set kvs" by (simp add: map_of_eq_None_iff)
    then show ?thesis using rfold_merge_other [OF m(1)] assms(4) None by (simp add: m(2))
  next
    case (Some v)
    have kv: "(k, v) \<in> set kvs" using Some by (rule map_of_SomeD)
    then have "k \<in> fst ` set kvs" by force
    then have "k \<noteq> ''log_line''" using assms(3) by (metis disjoint_iff insertI1)
    then show ?thesis using rfold_merge_value [OF m(1) kv assms(2)] Some assms(4) by (simp add: m(2))
  qed
qed

text \<open>The row the handler leaves before it ends the job.\<close>

lemma way_back_row:
  assumes "db_ok d" and "get_job d i = Some j"
  shows "\<exists>j'. db_ok (keep_way_back i sid did project opts (Some src) failed d)
    \<and> get_job (keep_way_back i sid did project opts (Some src) failed d) i = Some j'
    \<and> job_key j' = job_key j \<and> active j' = active j
    \<and> (\<forall>k. k \<noteq> ''log_lines'' \<longrightarrow> dget (load_dict (j_details j')) k
         = (case map_of (way_back sid did project opts src failed) k of Some v \<Rightarrow> Some v | None \<Rightarrow> dget (load_dict (j_details j)) k))"
proof -
  let ?w = "way_back sid did project opts src failed"
  from merge_present [OF assms way_back_ok] obtain d1 j' where m: "merge_if_present i ?w d = Inr d1" "merge_job_details ?w j = Inr j'"
      "db_ok d1" "get_job d1 i = Some (j\<lparr>j_details := j_details j'\<rparr>)" by blast
  show ?thesis
  proof (cases "?w = []")
    case True
    then show ?thesis using assms by (simp add: keep_way_back_fields)
  next
    case False
    have "keep_way_back i sid did project opts (Some src) failed d = d1" using m(1) False by (simp add: keep_way_back_fields try_merge_def)
    moreover have "job_key (j\<lparr>j_details := j_details j'\<rparr>) = job_key j" "active (j\<lparr>j_details := j_details j'\<rparr>) = active j"
      by (simp_all add: job_key_def active_def)
    ultimately show ?thesis using m(3,4) merge_value [OF m(2) way_back_distinct way_back_keys]
      by (intro exI [of _ "j\<lparr>j_details := j_details j'\<rparr>"]) simp
  qed
qed

text \<open>The ended row, its old fields and those of the way back.\<close>

definition failed_as :: "dict \<Rightarrow> job \<Rightarrow> job \<Rightarrow> bool" where
  "failed_as w j j' = (j_status j' = ''failed'' \<and> job_key j' = job_key j
     \<and> (\<forall>k\<in>{''failed_step'', ''recover_source'', ''undo_move''}. dget0 (load_dict (j_details j')) k
         = (case map_of w k of Some v \<Rightarrow> v | None \<Rightarrow> dget0 (load_dict (j_details j)) k)))"

lemma move_failed_row:
  assumes "on_course i j (d, w)" and "active j"
  shows "\<exists>d1 j1. move_failed e i sid did project aid opts (Some src) h ex (d, w) = ((d1, w), Inr ())
    \<and> get_job d1 i = Some j1 \<and> failed_as (way_back sid did project opts src (failed_step ex)) j j1"
proof -
  let ?d = "keep_way_back i sid did project opts (Some src) (failed_step ex) d"
  let ?w = "way_back sid did project opts src (failed_step ex)"
  obtain j0 where j0: "get_job d i = Some j0" "same_row PROGRESS_KEYS j j0" and ok: "db_ok d"
    using assms(1) by (auto simp: on_course_def)
  obtain j1 where j1: "db_ok ?d" "get_job ?d i = Some j1" "job_key j1 = job_key j0" "active j1"
      "\<forall>k. k \<noteq> ''log_lines'' \<longrightarrow> dget (load_dict (j_details j1)) k
         = (case map_of ?w k of Some v \<Rightarrow> Some v | None \<Rightarrow> dget (load_dict (j_details j0)) k)"
    using way_back_row [OF ok j0(1)] j0(2) assms(2) unfolding same_row_def by blast
  obtain d2 j2 where fin: "finish e aid i ''failed'' (Plain (take 800 (move_text ex))) h ''service_migrate'' ?d = Inr d2"
      "get_job d2 i = Some j2" "j_status j2 = ''failed''" "job_key j2 = job_key j1"
      "\<forall>k. k \<notin> FINISH_KEYS \<longrightarrow> dget (load_dict (j_details j2)) k = dget (load_dict (j_details j1)) k"
    using finish_writes [OF j1(1,2,4)] by blast
  have "dget0 (load_dict (j_details j2)) k = (case map_of ?w k of Some v \<Rightarrow> v | None \<Rightarrow> dget0 (load_dict (j_details j)) k)"
    if "k \<in> {''failed_step'', ''recover_source'', ''undo_move''}" for k
  proof -
    have out: "k \<notin> FINISH_KEYS" "k \<notin> PROGRESS_KEYS" "k \<noteq> ''log_lines''"
      using that by (auto simp: FINISH_KEYS_def PROGRESS_KEYS_def)
    then have "dget (load_dict (j_details j2)) k = (case map_of ?w k of Some v \<Rightarrow> Some v | None \<Rightarrow> dget (load_dict (j_details j)) k)"
      using fin(5) j1(5) j0(2) by (simp add: same_row_def split: option.split)
    then show ?thesis by (simp add: dget0_def split: option.split)
  qed
  then have "failed_as ?w j j2" using fin(3,4) j1(3) j0(2) by (simp add: failed_as_def same_row_def)
  then show ?thesis using fin(1,2) by (auto simp: move_failed_def on_tables_def finish_run_def)
qed

text \<open>What such a row offers.\<close>

lemma undo_payload_usable:
  assumes "undo_move_details sid did project dp pm failed = Some p" and "0 < sid" and "0 < did"
  shows "p \<noteq> [] \<and> usable_payload p = Inr (Some p)"
proof -
  have nm: "compose_project_name (Some x) = Inr n \<Longrightarrow> n \<noteq> []" for x n
    by (auto simp: compose_project_name_def Let_def split: if_splits)
  obtain n1 n2 where n: "names_of project dp = Some (n1, n2)" "n1 \<noteq> []"
    using assms(1) by (auto simp: undo_move_details_def Let_def names_of_def split: if_splits option.splits sum.splits dest: nm)
  have p: "p = [(''source_id'', JInt sid), (''dest_id'', JInt did), (''project'', JStr n1), (''dest_project'', JStr n2),
      (''port_map'', JObj pm), (''failed_step'', JStr (strip (text0 failed)))]"
    using assms(1) n(1) by (simp add: undo_move_details_def Let_def split: if_splits)
  show ?thesis
    using assms(2,3) n(2) by (simp add: p usable_payload_def payload_int_def dget0_def dget_def jor_def py_int_def)
qed

lemma steps_apart: "st \<in> set RECOVER_SOURCE_STEPS \<Longrightarrow> st \<notin> set UNDO_STEPS"
  by (auto simp: RECOVER_SOURCE_STEPS_def UNDO_STEPS_def)

definition offered_undo :: "int \<Rightarrow> int \<Rightarrow> string \<Rightarrow> move_options \<Rightarrow> string option \<Rightarrow> dict option" where
  "offered_undo sid did project opts failed = (case failed of
     None \<Rightarrow> None
   | Some st \<Rightarrow> if st \<in> set UNDO_STEPS then Option.bind (as_text (mo_dest_project opts))
         (\<lambda>dp. undo_move_details sid did project (Some dp) (text_dict (mo_port_map opts)) failed) else None)"

definition offered_start :: "int \<Rightarrow> string \<Rightarrow> server \<Rightarrow> string option \<Rightarrow> json" where
  "offered_start sid project src failed = (case failed of
     None \<Rightarrow> JNull
   | Some st \<Rightarrow> if st \<in> set RECOVER_SOURCE_STEPS then
         (case jailed_source_project_path (host_of src) project of Inl x \<Rightarrow> JNull | Inr path \<Rightarrow> recover_payload sid project path)
       else JNull)"

text \<open>A row no earlier attempt has written to.\<close>

definition fresh_move :: "job \<Rightarrow> bool" where
  "fresh_move j = (j_job_type j = ''service_migrate'' \<and> active j
     \<and> (\<forall>k\<in>{''failed_step'', ''recover_source'', ''undo_move''}. dget0 (load_dict (j_details j)) k = JNull))"

lemma failed_row_offers:
  assumes "failed_as (way_back sid did project opts src failed) j j'" and "fresh_move j" and "0 < sid" and "0 < did"
  shows "dget0 (load_dict (j_details j')) ''recover_source'' = offered_start sid project src failed"
    and "eligible_undo (Some j') = Inr (offered_undo sid did project opts failed)"
proof -
  let ?w = "way_back sid did project opts src failed"
  let ?data = "load_dict (j_details j')"
  have at: "dget0 ?data k = (case map_of ?w k of Some v \<Rightarrow> v | None \<Rightarrow> JNull)"
    if "k \<in> {''failed_step'', ''recover_source'', ''undo_move''}" for k
    using assms(1,2) that unfolding failed_as_def fresh_move_def by (metis (no_types, lifting))
  have jt: "j_job_type j' = ''service_migrate''" "j_status j' = ''failed''"
    using assms(1,2) by (auto simp: failed_as_def fresh_move_def job_key_def)
  show "dget0 ?data ''recover_source'' = offered_start sid project src failed"
    using at [of "''recover_source''"] by (simp add: way_back_def offered_start_def split: option.split sum.split)
  show "eligible_undo (Some j') = Inr (offered_undo sid did project opts failed)"
  proof (cases rule: way_back_cases [of sid did project opts src failed])
    case none
    then have "offered_undo sid did project opts failed = None"
      using steps_apart by (auto simp: way_back_def offered_undo_def split: option.splits if_splits)
    then show ?thesis using at [of "''failed_step''"] none
      by (simp add: eligible_undo_def Let_def jt str_of_def jor_def py_str_def UNDO_STEPS_def)
  next
    case start
    then show ?thesis using at [of "''failed_step''"] steps_apart [OF start(2)] start
      by (auto simp: eligible_undo_def Let_def jt str_of_def jor_def offered_undo_def)
  next
    case (undo st p)
    obtain dp where "undo_move_details sid did project (Some dp) (text_dict (mo_port_map opts)) failed = Some p"
      using undo(3) by (cases "as_text (mo_dest_project opts)") auto
    then have p: "p \<noteq> []" "usable_payload p = Inr (Some p)" using undo_payload_usable assms(3,4) by blast+
    have st: "dget0 ?data ''failed_step'' = JStr st" and raw: "dget0 ?data ''undo_move'' = JObj p"
      using at [of "''failed_step''"] at [of "''undo_move''"] undo(4) by simp_all
    have "str_of ?data ''failed_step'' = st" by (simp add: str_of_def jor_def st)
    then show ?thesis
      using p undo(1,3) by (simp add: eligible_undo_def Let_def jt raw offered_undo_def)
  qed
qed

lemma begin_on_course:
  assumes "db_ok d" and "get_job d i = Some j"
  shows "\<exists>d1. begin_run e i (run_fields c l) d = (d1, Inr ()) \<and> on_course i j (d1, w)"
proof -
  let ?run = "\<lambda>j. j\<lparr>j_status := ''running'', j_started_at := Some (e_now e)\<rparr>"
  let ?d = "upd_job i ?run d"
  have ok: "db_ok ?d" using assms(1) by (rule db_ok_upd) simp
  have j: "get_job ?d i = Some (?run j)" using assms(2) by (simp add: get_job_upd_same)
  have "list_all kv_ok (run_fields c l)" by (simp add: run_fields_def kv_ok_def)
  from merge_present [OF ok j this] obtain d1 j' where m: "merge_if_present i (run_fields c l) ?d = Inr d1"
      "merge_job_details (run_fields c l) (?run j) = Inr j'" "db_ok d1" "get_job d1 i = Some ((?run j)\<lparr>j_details := j_details j'\<rparr>)"
    by blast
  have "same_row PROGRESS_KEYS (?run j) ((?run j)\<lparr>j_details := j_details j'\<rparr>)"
    using merge_same_row [OF m(2), of PROGRESS_KEYS "?run j"] by (simp add: run_fields_def PROGRESS_KEYS_def)
  moreover have "same_row PROGRESS_KEYS j (?run j)" by (simp add: same_row_def job_key_def active_def)
  ultimately have "on_course i j (d1, w)" using m(3,4) by (auto simp: on_course_def intro: same_row_trans)
  then show ?thesis using m(1) by (simp add: begin_run_def)
qed

text \<open>C8: what a failed Move offers is decided by the step it failed in: the executor always ends the row as
  failed; before the names moved (stop, copy, start of the destination) the row gets the payload to start the source, when
  the path of the project is one the code may touch; from the cutover on it gets the payload of an undo, which
  \<open>eligible_undo\<close> then accepts; in every other case neither. An undo and a start of the source are never both offered.\<close>

theorem failed_move_way_back:
  assumes "db_ok d" and "get_job d i = Some j" and "fresh_move j" and "0 < sid" and "0 < did"
    and "get_server d sid = Some src" and "get_server d did \<noteq> None"
    and run: "run_move m i sid did project (stored_options project (j_details j))
        (fst (begin_run e i (run_fields ''migrating'' (''Migrating '' @ project @ dots)) d), w) = (s2, Inl ex)"
  shows "\<exists>s3 j3. execute_service_migrate e m i sid did project aid (d, w) = (s3, Inr ())
    \<and> get_job (fst s3) i = Some j3 \<and> j_status j3 = ''failed''
    \<and> dget0 (load_dict (j_details j3)) ''recover_source'' = offered_start sid project src (failed_step ex)
    \<and> eligible_undo (Some j3) = Inr (offered_undo sid did project (stored_options project (j_details j)) (failed_step ex))
    \<and> (offered_start sid project src (failed_step ex) = JNull
       \<or> offered_undo sid did project (stored_options project (j_details j)) (failed_step ex) = None)"
proof -
  let ?o = "stored_options project (j_details j)"
  have act: "active j" using assms(3) by (simp add: fresh_move_def)
  obtain d1 where d1: "begin_run e i (run_fields ''migrating'' (''Migrating '' @ project @ dots)) d = (d1, Inr ())" "on_course i j (d1, w)"
    using begin_on_course [OF assms(1,2), where w = w] by blast
  have "on_course i j s2"
    using keeps_fst [OF run_on_course d1(2)] run d1(1) by (metis fst_conv)
  then obtain d3 j3 where f: "move_failed e i sid did project aid ?o (Some src) (host_label d sid) ex s2 = ((d3, snd s2), Inr ())"
      "get_job d3 i = Some j3" "failed_as (way_back sid did project ?o src (failed_step ex)) j j3"
    using move_failed_row [of i j "fst s2" "snd s2", OF _ act] by simp blast
  have "execute_service_migrate e m i sid did project aid (d, w) = ((d3, snd s2), Inr ())"
    using run d1(1) f(1) assms(2,6,7)
    by (auto simp: execute_service_migrate_def Let_def seq_def on_tables_def catching_def)
  moreover have "offered_start sid project src (failed_step ex) = JNull \<or> offered_undo sid did project ?o (failed_step ex) = None"
    using steps_apart by (auto simp: offered_start_def offered_undo_def split: option.split)
  ultimately show ?thesis
    using f(2,3) failed_row_offers [OF f(3) assms(3-5)] by (auto simp: failed_as_def)
qed

text \<open>The Move of the sample whose NPM retarget fails.\<close>

definition stuck_names :: "unit move_env" where
  "stuck_names = \<lparr>mv_call = (\<lambda>call s. (s, case call of
       Retarget a b c f g h \<Rightarrow> Inl (CutoverError ''NPM is down'')
     | _ \<Rightarrow> Inr (JObj [(''ok'', JBool True), (''success'', JBool True)]))),
     mv_backup_root = ''/backups'', mv_surface_allowed = True\<rparr>"

definition moving_job :: job where
  "moving_job = the (get_job moving 1)"

lemma moving_fresh: "db_ok moving" "get_job moving 1 = Some moving_job" "fresh_move moving_job"
  by (simp_all add: moving_job_def) code_simp+

lemma names_stuck: "case run_move stuck_names 1 1 2 ''blog'' (stored_options ''blog'' (j_details moving_job))
    (fst (begin_run sample_env 1 (run_fields ''migrating'' (''Migrating '' @ ''blog'' @ dots)) moving), ()) of
    (s, Inl (MigrateError t (Some st))) \<Rightarrow> st = ''cutover'' | _ \<Rightarrow> False"
  and undo_there: "offered_undo 1 2 ''blog'' (stored_options ''blog'' (j_details moving_job)) (Some ''cutover'') \<noteq> None"
  and two_servers: "get_server moving 1 = Some sample_server"
  by code_simp+

theorem failed_move_way_back_witness:
  "\<exists>s3 j3 p. execute_service_migrate sample_env stuck_names 1 1 2 ''blog'' 1 (moving, ()) = (s3, Inr ())
     \<and> get_job (fst s3) 1 = Some j3 \<and> eligible_undo (Some j3) = Inr (Some p)"
proof -
  obtain s t where run: "run_move stuck_names 1 1 2 ''blog'' (stored_options ''blog'' (j_details moving_job))
    (fst (begin_run sample_env 1 (run_fields ''migrating'' (''Migrating '' @ ''blog'' @ dots)) moving), ())
      = (s, Inl (MigrateError t (Some ''cutover'')))"
    using names_stuck by (auto split: prod.splits sum.splits move_exc.splits option.splits)
  show ?thesis
    using failed_move_way_back [OF moving_fresh _ _ two_servers moving_servers(2) run, of 1] undo_there
    by (auto simp: failed_step_def)
qed

end
