(* ===== verification/FabricRows.thy ===== *)
theory FabricRows
  imports MoveCopy
begin

text \<open>
  The control-plane tables a Move reads and rewrites beside the queue (\<open>app/models.py\<close>): hosts with their
  DNS identity, service names of the fabric, integrations and their bindings, and the rows that name a
  compose project on a host. The unique indexes of \<open>migrations/versions\<close> are part of the state: a commit
  that would break one raises and leaves the tables as they were. The look-ups over these tables are those of
  \<open>app/services/service_migrate/preflight.py\<close>, \<open>app/services/dns_fabric/core.py\<close> and
  \<open>app/services/integrations/registry.py\<close>.
\<close>

section \<open>Rows\<close>

text \<open>A host of the fleet: what a Move knows of it, and its addresses.\<close>

record fleet_host = host +
  fh_ip_address :: "string option"
  fh_dns_name :: "string option"
  fh_dns_manage_a :: bool
  fh_dns_ip_override :: "string option"
  fh_containers_on :: bool
  fh_inventory :: column

record dns_record =
  dr_id :: int
  dr_fqdn :: string
  dr_record_type :: string
  dr_target :: int
  dr_backend :: int
  dr_deployment :: "int option"
  dr_project :: "string option"
  dr_label :: "string option"
  dr_managed :: bool
  dr_via_proxy :: bool
  dr_npm_hint :: "string option"
  dr_certificate :: "int option"
  dr_external :: string
  dr_notes :: "string option"
  dr_synced_at :: "int option"
  dr_sync_status :: "string option"
  dr_sync_detail :: "string option"
  dr_updated_at :: int

record integration =
  in_id :: int
  in_type :: string
  in_name :: string
  in_base_url :: string
  in_enabled :: bool
  in_config :: column
  in_status :: column

record bind_to =
  bd_id :: int
  bd_integration :: int
  bd_server :: int
  bd_role :: string
  bd_project :: "string option"
  bd_container :: "string option"
  bd_external_id :: string
  bd_label :: "string option"
  bd_meta :: column
  bd_state :: "string option"
  bd_message :: "string option"
  bd_updated_at :: int

record stack_row =
  dp_id :: int
  dp_server :: int
  dp_project :: string
  dp_updated_at :: int

record visual_stack =
  vs_id :: int
  vs_server :: int
  vs_project :: string
  vs_slug :: string

record annotation =
  an_id :: int
  an_server :: int
  an_project :: string
  an_key :: string
  an_updated_at :: int

record port_note =
  pn_id :: int
  pn_server :: "int option"
  pn_owner :: "string option"
  pn_updated_at :: int

record runtime_edge =
  ed_id :: int
  ed_from_server :: int
  ed_from_project :: string
  ed_to_server :: int
  ed_to_project :: string
  ed_updated_at :: int

text \<open>The settings of a certificate target, and the row with the results of its deploys.\<close>

record target_spec =
  ts_label :: "string option"
  ts_remote_dir :: string
  ts_layout :: string
  ts_write_mode :: string
  ts_fullchain :: string
  ts_privkey :: string
  ts_combined :: string
  ts_pfx :: string
  ts_file_mode :: string
  ts_owner :: "string option"
  ts_group :: "string option"
  ts_password :: "string option"
  ts_post_deploy :: "string option"
  ts_verify_url :: "string option"
  ts_enabled :: bool

record cert_target =
  ct_id :: int
  ct_certificate :: int
  ct_server :: int
  ct_spec :: target_spec
  ct_deploy_status :: "string option"
  ct_verify_status :: "string option"

record dns_audit =
  da_user :: "int option"
  da_server :: "int option"
  da_action :: string
  da_status :: string
  da_details :: string

record fabric =
  fb_hosts :: "fleet_host list"
  fb_records :: "dns_record list"
  fb_integrations :: "integration list"
  fb_bindings :: "bind_to list"
  fb_deployments :: "stack_row list"
  fb_visuals :: "visual_stack list"
  fb_annotations :: "annotation list"
  fb_ports :: "port_note list"
  fb_edges :: "runtime_edge list"
  fb_targets :: "cert_target list"
  fb_next_record :: int
  fb_next_target :: int
  fb_audits :: "dns_audit list"

section \<open>Unique indexes\<close>

definition binding_key :: "bind_to \<Rightarrow> int \<times> int \<times> string \<times> string \<times> string \<times> string" where
  "binding_key b = (bd_integration b, bd_server b, bd_role b, bd_external_id b, text0 (bd_project b), text0 (bd_container b))"

definition deployment_key :: "stack_row \<Rightarrow> int \<times> string" where
  "deployment_key r = (dp_server r, dp_project r)"

definition visual_key :: "visual_stack \<Rightarrow> int \<times> string \<times> string" where
  "visual_key r = (vs_server r, vs_project r, vs_slug r)"

definition annotation_key :: "annotation \<Rightarrow> int \<times> string \<times> string" where
  "annotation_key r = (an_server r, an_project r, an_key r)"

definition indexes_hold :: "fabric \<Rightarrow> bool" where
  "indexes_hold f = (distinct (map binding_key (fb_bindings f)) \<and> distinct (map deployment_key (fb_deployments f))
     \<and> distinct (map visual_key (fb_visuals f)) \<and> distinct (map annotation_key (fb_annotations f))
     \<and> distinct (map dr_fqdn (fb_records f)))"

definition integrity_error :: move_exc where
  "integrity_error = OtherError ''UNIQUE constraint failed''"

text \<open>\<open>session.commit()\<close> of a session that began on \<open>f\<close> and holds \<open>f'\<close>.\<close>

definition commit_fabric :: "fabric \<Rightarrow> fabric \<Rightarrow> fabric \<times> (move_exc + unit)" where
  "commit_fabric f f' = (if indexes_hold f' then (f', Inr ()) else (f, Inl integrity_error))"

section \<open>Look-ups\<close>

definition get_host :: "fabric \<Rightarrow> int \<Rightarrow> fleet_host option" where
  "get_host f i = get_row h_id i (fb_hosts f)"

definition normalize_fqdn :: "string option \<Rightarrow> string" where
  "normalize_fqdn v = rstrip_chars (\<lambda>c. c = CHR ''.'') (lower (strip (text0 v)))"

text \<open>\<open>_dns_rows\<close>: the names of a project on the source, then on the destination.\<close>

definition dns_rows :: "fabric \<Rightarrow> int \<Rightarrow> string \<Rightarrow> int option \<Rightarrow> dns_record list" where
  "dns_rows f sid project dest =
     (let at = (\<lambda>s. filter (\<lambda>r. dr_backend r = s \<and> dr_project r = Some project) (fb_records f));
          rows = at sid in
      case dest of
        None \<Rightarrow> rows
      | Some did \<Rightarrow> if did = 0 \<or> did = sid then rows
          else rows @ filter (\<lambda>r. dr_id r \<notin> set (map dr_id rows)) (at did))"

definition loads_dict :: "column \<Rightarrow> dict" where
  "loads_dict c = (case loads c of Some (JObj d) \<Rightarrow> d | _ \<Rightarrow> [])"

definition GRAFANA_KINDS :: "string list" where
  "GRAFANA_KINDS = [''metrics'', ''containers'', ''logs'']"

text \<open>A field that the code strips: \<open>(meta.get(k) or "").strip()\<close>; an error when it is no text.\<close>

definition text_field :: "dict \<Rightarrow> string \<Rightarrow> move_exc + string" where
  "text_field d k = (case jor (dget0 d k) (JStr []) of JStr s \<Rightarrow> Inr s | JStamp t \<Rightarrow> Inr (isoformat t)
     | _ \<Rightarrow> Inl attribute_error)"

definition binding_grafana_kind :: "bind_to \<Rightarrow> move_exc + string" where
  "binding_grafana_kind b =
     (let meta = loads_dict (bd_meta b) in
      rbind (text_field meta ''kind'') (\<lambda>k.
        let raw = lower (strip k);
            proj = (if text0 (bd_project b) \<noteq> [] then text0 (bd_project b) else py_str (jor (dget0 meta ''docker_project'') (JStr [])));
            cont = (if text0 (bd_container b) \<noteq> [] then text0 (bd_container b) else py_str (jor (dget0 meta ''docker_container'') (JStr [])));
            scope = lower (strip (py_str (jor (dget0 meta ''scope'') (JStr [])))) in
        Inr (if raw \<in> set GRAFANA_KINDS then raw
             else if strip proj \<noteq> [] \<or> strip cont \<noteq> [] then ''containers''
             else if scope \<in> set [''container'', ''project'', ''docker''] then ''containers''
             else ''metrics'')))"

end
