(* ===== verification/MoveRebind.thy ===== *)
theory MoveRebind
  imports FabricRows
begin

text \<open>
  \<open>app/services/service_migrate/rebind.py\<close>: after the names moved, the rows that name the project on the
  source are rewritten to the destination, table by table, in one commit.
\<close>

type_synonym tally = "(string \<times> nat) list"

definition count_up :: "string \<Rightarrow> nat \<Rightarrow> tally \<Rightarrow> tally" where
  "count_up k n t = map (\<lambda>(k', m). (k', if k' = k then m + n else m)) t"

definition no_counts :: tally where
  "no_counts = map (\<lambda>k. (k, 0)) [''stack_deployments'', ''kuma_bindings'', ''dashboard_bindings'', ''proxy_host_bindings'',
     ''visual_stacks'', ''annotations'', ''ports'', ''edges'', ''cert_targets'', ''bindings_dup_dropped'']"

text \<open>What a rebind knows: the hosts, the old and the new name, and the time.\<close>

record rebind_args =
  ra_source :: int
  ra_dest :: int
  ra_name :: string
  ra_dest_name :: string
  ra_now :: int

text \<open>\<open>if dest_name != name: row.project = dest_name\<close>.\<close>

definition renamed :: "rebind_args \<Rightarrow> string \<Rightarrow> string" where
  "renamed a p = (if ra_dest_name a \<noteq> ra_name a then ra_dest_name a else p)"

section \<open>Tables with one project per row\<close>

definition move_deployment :: "rebind_args \<Rightarrow> stack_row \<Rightarrow> stack_row" where
  "move_deployment a r = r\<lparr>dp_server := ra_dest a, dp_project := renamed a (dp_project r), dp_updated_at := ra_now a\<rparr>"

definition deployment_moves :: "rebind_args \<Rightarrow> stack_row \<Rightarrow> bool" where
  "deployment_moves a r = (dp_server r = ra_source a \<and> dp_project r = ra_name a)"

definition move_visual :: "rebind_args \<Rightarrow> visual_stack \<Rightarrow> visual_stack" where
  "move_visual a r = r\<lparr>vs_server := ra_dest a, vs_project := renamed a (vs_project r)\<rparr>"

definition visual_moves :: "rebind_args \<Rightarrow> visual_stack \<Rightarrow> bool" where
  "visual_moves a r = (vs_server r = ra_source a \<and> vs_project r = ra_name a)"

definition move_annotation :: "rebind_args \<Rightarrow> annotation \<Rightarrow> annotation" where
  "move_annotation a r = r\<lparr>an_server := ra_dest a, an_project := renamed a (an_project r), an_updated_at := ra_now a\<rparr>"

definition annotation_moves :: "rebind_args \<Rightarrow> annotation \<Rightarrow> bool" where
  "annotation_moves a r = (an_server r = ra_source a \<and> an_project r = ra_name a)"

definition move_port :: "rebind_args \<Rightarrow> port_note \<Rightarrow> port_note" where
  "move_port a r = r\<lparr>pn_server := Some (ra_dest a), pn_owner := Some (renamed a (text0 (pn_owner r))), pn_updated_at := ra_now a\<rparr>"

definition port_moves :: "rebind_args \<Rightarrow> port_note \<Rightarrow> bool" where
  "port_moves a r = (pn_server r = Some (ra_source a) \<and> pn_owner r = Some (ra_name a))"

text \<open>Both ends of an edge are looked at, one after the other.\<close>

definition edge_from :: "rebind_args \<Rightarrow> runtime_edge \<Rightarrow> bool" where
  "edge_from a r = (ed_from_server r = ra_source a \<and> ed_from_project r = ra_name a)"

definition edge_to :: "rebind_args \<Rightarrow> runtime_edge \<Rightarrow> bool" where
  "edge_to a r = (ed_to_server r = ra_source a \<and> ed_to_project r = ra_name a)"

definition edge_moves :: "rebind_args \<Rightarrow> runtime_edge \<Rightarrow> bool" where
  "edge_moves a r = (edge_from a r \<or> edge_to a r)"

definition move_edge :: "rebind_args \<Rightarrow> runtime_edge \<Rightarrow> runtime_edge" where
  "move_edge a r =
     (let r1 = (if edge_from a r then r\<lparr>ed_from_server := ra_dest a, ed_from_project := renamed a (ed_from_project r)\<rparr> else r);
          r2 = (if edge_to a r then r1\<lparr>ed_to_server := ra_dest a, ed_to_project := renamed a (ed_to_project r)\<rparr> else r1)
      in r2\<lparr>ed_updated_at := ra_now a\<rparr>)"

text \<open>Every row of a table that names the project on the source, and their number.\<close>

definition rows_moved :: "('r \<Rightarrow> bool) \<Rightarrow> ('r \<Rightarrow> 'r) \<Rightarrow> 'r list \<Rightarrow> 'r list" where
  "rows_moved p g rows = map (\<lambda>r. if p r then g r else r) rows"

definition how_many :: "('r \<Rightarrow> bool) \<Rightarrow> 'r list \<Rightarrow> nat" where
  "how_many p rows = length (filter p rows)"

section \<open>Bindings\<close>

type_synonym scope = "int \<times> string \<times> string \<times> string \<times> string"

definition scope_of :: "bind_to \<Rightarrow> string \<Rightarrow> scope" where
  "scope_of b proj = (bd_integration b, strip (bd_role b), strip (bd_external_id b), proj, strip (text0 (bd_container b)))"

definition dest_scopes :: "rebind_args \<Rightarrow> bind_to list \<Rightarrow> scope list" where
  "dest_scopes a bs = map (\<lambda>b. scope_of b (strip (text0 (bd_project b)))) (filter (\<lambda>b. bd_server b = ra_dest a) bs)"

record bind_scan =
  bn_scopes :: "scope list"
  bn_rows :: "bind_to list"
  bn_counts :: tally

definition move_binding :: "rebind_args \<Rightarrow> bind_to \<Rightarrow> bind_to" where
  "move_binding a b = b\<lparr>bd_server := ra_dest a,
     bd_project := (if ra_dest_name a \<noteq> ra_name a then Some (ra_dest_name a) else bd_project b), bd_updated_at := ra_now a\<rparr>"

definition new_scope :: "rebind_args \<Rightarrow> bind_to \<Rightarrow> scope" where
  "new_scope a b = scope_of b (if ra_dest_name a \<noteq> ra_name a then ra_dest_name a
     else if text0 (bd_project b) \<noteq> [] then text0 (bd_project b) else ra_name a)"

text \<open>\<open>_move_bind\<close>: a row that is there already keeps its scope taken, a duplicate is deleted.\<close>

definition move_bind :: "rebind_args \<Rightarrow> string \<Rightarrow> bind_to \<Rightarrow> bind_scan \<Rightarrow> bind_scan" where
  "move_bind a counter b s =
     (let key = new_scope a b in
      if bd_server b = ra_dest a then s\<lparr>bn_scopes := key # bn_scopes s\<rparr>
      else if key \<in> set (bn_scopes s)
      then s\<lparr>bn_rows := filter (\<lambda>r. bd_id r \<noteq> bd_id b) (bn_rows s), bn_counts := count_up ''bindings_dup_dropped'' 1 (bn_counts s)\<rparr>
      else s\<lparr>bn_scopes := key # bn_scopes s, bn_rows := upd_row bd_id (bd_id b) (move_binding a) (bn_rows s),
             bn_counts := count_up counter 1 (bn_counts s)\<rparr>)"

text \<open>The counter of a row that goes along, or none.\<close>

definition bind_counter :: "bind_to \<Rightarrow> move_exc + string option" where
  "bind_counter b =
     (let role = strip (bd_role b) in
      if role = ''proxy_host'' then Inr (Some ''proxy_host_bindings'')
      else if role = ''dashboard'' then rbind (binding_grafana_kind b) (\<lambda>k.
        Inr (if k \<noteq> ''containers'' then None else Some ''dashboard_bindings''))
      else if role \<noteq> ''service'' then Inr None
      else Inr (Some ''kuma_bindings''))"

definition rebind_one :: "rebind_args \<Rightarrow> bind_to \<Rightarrow> bind_scan \<Rightarrow> move_exc + bind_scan" where
  "rebind_one a b s = rbind (bind_counter b) (\<lambda>c. Inr (case c of None \<Rightarrow> s | Some k \<Rightarrow> move_bind a k b s))"

definition rebind_bindings :: "rebind_args \<Rightarrow> bind_to list \<Rightarrow> tally \<Rightarrow> move_exc + bind_scan" where
  "rebind_bindings a bs counts =
     rfold (rebind_one a) (filter (\<lambda>b. bd_project b = Some (ra_name a)) bs)
       \<lparr>bn_scopes = dest_scopes a bs, bn_rows = bs, bn_counts = counts\<rparr>"

section \<open>Certificate targets\<close>

text \<open>The certificates of the names of the project, wherever the cutover left them.\<close>

definition cert_ids :: "rebind_args \<Rightarrow> fabric \<Rightarrow> int list" where
  "cert_ids a f =
     (let recs = dns_rows f (ra_source a) (ra_name a) None @ dns_rows f (ra_dest a) (ra_dest_name a) None
        @ (if ra_dest_name a \<noteq> ra_name a then dns_rows f (ra_dest a) (ra_name a) None else [])
      in remdups (map (\<lambda>r. the (dr_certificate r)) (filter (\<lambda>r. dr_certificate r \<noteq> None \<and> dr_certificate r \<noteq> Some 0) recs)))"

definition target_of :: "int \<Rightarrow> int \<Rightarrow> cert_target list \<Rightarrow> cert_target option" where
  "target_of sid cid ts = find (\<lambda>t. ct_server t = sid \<and> ct_certificate t = cid) ts"

definition clone_target :: "rebind_args \<Rightarrow> int \<Rightarrow> fabric \<times> tally \<Rightarrow> fabric \<times> tally" where
  "clone_target a cid ft = (case ft of (f, t) \<Rightarrow>
     if target_of (ra_dest a) cid (fb_targets f) \<noteq> None then (f, t)
     else (case target_of (ra_source a) cid (fb_targets f) of
         None \<Rightarrow> (f, t)
       | Some src \<Rightarrow> (f\<lparr>fb_targets := fb_targets f @ [\<lparr>ct_id = fb_next_target f, ct_certificate = cid, ct_server = ra_dest a,
             ct_spec = ct_spec src, ct_deploy_status = None, ct_verify_status = None\<rparr>],
             fb_next_target := fb_next_target f + 1\<rparr>, count_up ''cert_targets'' 1 t)))"

section \<open>The rebind\<close>

definition moved_tables :: "rebind_args \<Rightarrow> fabric \<Rightarrow> bind_to list \<Rightarrow> fabric" where
  "moved_tables a f bs = f\<lparr>
     fb_deployments := rows_moved (deployment_moves a) (move_deployment a) (fb_deployments f),
     fb_bindings := bs,
     fb_visuals := rows_moved (visual_moves a) (move_visual a) (fb_visuals f),
     fb_annotations := rows_moved (annotation_moves a) (move_annotation a) (fb_annotations f),
     fb_ports := rows_moved (port_moves a) (move_port a) (fb_ports f),
     fb_edges := rows_moved (edge_moves a) (move_edge a) (fb_edges f)\<rparr>"

definition moved_counts :: "rebind_args \<Rightarrow> fabric \<Rightarrow> tally \<Rightarrow> tally" where
  "moved_counts a f t = count_up ''edges'' (how_many (edge_moves a) (fb_edges f))
     (count_up ''ports'' (how_many (port_moves a) (fb_ports f))
     (count_up ''annotations'' (how_many (annotation_moves a) (fb_annotations f))
     (count_up ''visual_stacks'' (how_many (visual_moves a) (fb_visuals f)) t)))"

definition rebound :: "rebind_args \<Rightarrow> fabric \<Rightarrow> move_exc + fabric \<times> tally" where
  "rebound a f =
     rbind (rebind_bindings a (fb_bindings f)
         (count_up ''stack_deployments'' (how_many (deployment_moves a) (fb_deployments f)) no_counts)) (\<lambda>s.
       Inr (fold (clone_target a) (cert_ids a f) (moved_tables a f (bn_rows s), moved_counts a f (bn_counts s))))"

definition rebind_args_of :: "int \<Rightarrow> int \<Rightarrow> int \<Rightarrow> string \<Rightarrow> string option \<Rightarrow> move_exc + rebind_args" where
  "rebind_args_of now sid did project dest_project =
     (case compose_project_name (Some project) of
        Inl m \<Rightarrow> Inl (LockedError m)
      | Inr nm \<Rightarrow> (case compose_project_name (Some (if text0 dest_project \<noteq> [] then text0 dest_project else project)) of
          Inl m \<Rightarrow> Inl (LockedError m)
        | Inr dn \<Rightarrow> Inr \<lparr>ra_source = sid, ra_dest = did, ra_name = nm, ra_dest_name = dn, ra_now = now\<rparr>))"

definition rebind_control_plane ::
    "int \<Rightarrow> int \<Rightarrow> int \<Rightarrow> string \<Rightarrow> string option \<Rightarrow> fabric \<Rightarrow> fabric \<times> (move_exc + json)" where
  "rebind_control_plane now sid did project dest_project f =
     (case rbind (rebind_args_of now sid did project dest_project) (\<lambda>a. rebound a f) of
        Inl x \<Rightarrow> (f, Inl x)
      | Inr (f', counts) \<Rightarrow> (case commit_fabric f f' of
          (f1, Inl x) \<Rightarrow> (f1, Inl x)
        | (f1, Inr u) \<Rightarrow> (f1, Inr (JObj [(''ok'', JBool True),
            (''counts'', JObj (map (\<lambda>(k, n). (k, JInt (int n))) counts))]))))"

end
