(* ===== verification/FabricDns.thy ===== *)
theory FabricDns
  imports MoveRebind JobSummary
begin

text \<open>
  The DNS fabric (\<open>app/services/dns_fabric/core.py\<close>): the name of a host is an A record, the name of a service
  a CNAME to the host it is reached through, on every enabled Pi-hole. The tables keep what should be; each
  operation commits its rows and then speaks to the Pi-holes, whose HTTP answers are a parameter.
\<close>

section \<open>Names and addresses\<close>

definition label_char :: "char \<Rightarrow> bool" where
  "label_char c = (let n = of_char c :: nat in (48 \<le> n \<and> n \<le> 57) \<or> (65 \<le> n \<and> n \<le> 90) \<or> (97 \<le> n \<and> n \<le> 122) \<or> n = 45)"

definition dns_label :: "string \<Rightarrow> bool" where
  "dns_label l = (l \<noteq> [] \<and> length l \<le> 63 \<and> list_all label_char l \<and> hd l \<noteq> CHR ''-'' \<and> last l \<noteq> CHR ''-'')"

text \<open>\<open>_FQDN_RE\<close>: at least two labels; \<open>$\<close> also matches before a final line feed.\<close>

definition fqdn_match :: "string \<Rightarrow> bool" where
  "fqdn_match s = (let body = (if s \<noteq> [] \<and> last s = CHR 0x0A then butlast s else s); labels = split_on CHR ''.'' body in
     length body \<le> 253 \<and> 2 \<le> length labels \<and> list_all dns_label labels)"

definition is_valid_fqdn :: "string option \<Rightarrow> bool" where
  "is_valid_fqdn v = (let s = normalize_fqdn v in
     s \<noteq> [] \<and> length s \<le> 253 \<and> CHR ''.'' \<in> set s \<and> fqdn_match s)"

text \<open>\<open>_IPV4_RE\<close>: four decimal numbers below 256 of one to three digits.\<close>

definition octet :: "string \<Rightarrow> bool" where
  "octet p = (p \<noteq> [] \<and> length p \<le> 3 \<and> list_all is_digit p \<and> digits_val p \<le> 255)"

definition is_valid_ipv4 :: "string option \<Rightarrow> bool" where
  "is_valid_ipv4 v = (let parts = split_on CHR ''.'' (strip (text0 v)) in length parts = 4 \<and> list_all octet parts)"

definition host_ip_for_dns :: "fleet_host \<Rightarrow> string" where
  "host_ip_for_dns h =
     (let over = strip (text0 (fh_dns_ip_override h)); ip = strip (text0 (fh_ip_address h)); host = strip (h_hostname h) in
      if over \<noteq> [] \<and> is_valid_ipv4 (Some over) then over
      else if ip \<noteq> [] \<and> is_valid_ipv4 (Some ip) then ip
      else if is_valid_ipv4 (Some host) then host else [])"

definition is_host_identity_name :: "string \<Rightarrow> fleet_host option \<Rightarrow> bool" where
  "is_host_identity_name fqdn h = (case h of
     None \<Rightarrow> False
   | Some h \<Rightarrow> fqdn \<noteq> [] \<and> (let host_dns = normalize_fqdn (fh_dns_name h); name = normalize_fqdn (Some fqdn) in
       host_dns \<noteq> [] \<and> name \<noteq> [] \<and> host_dns = name))"

section \<open>Pi-holes\<close>

datatype pihole_op =
    PiLogin
  | PiAddHost string string
  | PiDeleteHost string string
  | PiAddCname string string
  | PiDeleteCname string string
  | PiRestartDns

text \<open>What the fabric needs from outside: the clock, and the answer of a Pi-hole, by its row, or the text of the error.\<close>

record 'w dns_env =
  dn_now :: int
  dn_pihole :: "integration \<Rightarrow> pihole_op \<Rightarrow> ('w, string, unit) act"

datatype dns_exc = DnsFabricError string string | DnsOther move_exc

type_synonym ('w, 'a) dns_act = "(fabric \<times> 'w, dns_exc, 'a) act"

text \<open>A step on the tables, and one on the outside.\<close>

definition with_rows :: "(fabric \<Rightarrow> fabric \<times> ('e + 'a)) \<Rightarrow> (fabric \<times> 'w, 'e, 'a) act" where
  "with_rows g s = (let (f', r) = g (fst s) in ((f', snd s), r))"

definition with_world :: "('w, 'e, 'a) act \<Rightarrow> (fabric \<times> 'w, 'e, 'a) act" where
  "with_world m s = (let (w', r) = m (snd s) in ((fst s, w'), r))"

definition reading :: "(fabric \<Rightarrow> 'a) \<Rightarrow> (fabric \<times> 'w, 'e, 'a) act" where
  "reading g s = (s, Inr (g (fst s)))"

text \<open>A commit: a broken index raises and keeps the tables.\<close>

definition commit_rows :: "(fabric \<Rightarrow> fabric) \<Rightarrow> ('w, unit) dns_act" where
  "commit_rows g = with_rows (\<lambda>f. case commit_fabric f (g f) of (f', Inl x) \<Rightarrow> (f', Inl (DnsOther x)) | (f', Inr u) \<Rightarrow> (f', Inr u))"

record pi_result =
  pr_id :: int
  pr_name :: string
  pr_ok :: bool
  pr_error :: string
  pr_present :: bool

definition ALREADY_PRESENT :: "string list" where
  "ALREADY_PRESENT = [''duplicate'', ''already exist'', ''already exists'', ''already present'', ''item already present'',
     ''uniqueness of items'', ''dnsmasq: duplicate'']"

definition is_already_present_error :: "string \<Rightarrow> bool" where
  "is_already_present_error err = list_ex (contains (lower err)) ALREADY_PRESENT"

definition is_pihole_primary :: "integration \<Rightarrow> bool" where
  "is_pihole_primary r = truthy (dget0 (loads_dict (in_config r)) ''is_primary'')"

text \<open>The enabled Pi-holes, primaries first, then by number.\<close>

definition piholes :: "fabric \<Rightarrow> integration list" where
  "piholes f = (let rows = filter (\<lambda>r. in_type r = ''pihole'' \<and> in_enabled r) (fb_integrations f) in
     sort_key in_id (filter is_pihole_primary rows) @ sort_key in_id (filter (\<lambda>r. \<not> is_pihole_primary r) rows))"

definition adds :: "pihole_op \<Rightarrow> bool" where
  "adds oper = (case oper of PiAddHost ip d \<Rightarrow> True | PiAddCname d t \<Rightarrow> True | _ \<Rightarrow> False)"

text \<open>One Pi-hole: log in, ask, log out; an error is noted, except that an added record may already be there.\<close>

definition fanout_one :: "'w dns_env \<Rightarrow> pihole_op \<Rightarrow> integration \<Rightarrow> pi_result list \<Rightarrow> (fabric \<times> 'w, dns_exc, pi_result list) act" where
  "fanout_one e oper r acc =
     (let item = (\<lambda>ok err there. \<lparr>pr_id = in_id r, pr_name = in_name r, pr_ok = ok, pr_error = err, pr_present = there\<rparr>) in
      catching (andalso (with_world (andalso (dn_pihole e r PiLogin) (dn_pihole e r oper))) (ret (acc @ [item True [] False])))
        (\<lambda>err. let t = take 200 err in
           if adds oper \<and> is_already_present_error t then ret (acc @ [item True [] True]) else ret (acc @ [item False t False])))"

definition fanout_pihole_dns :: "'w dns_env \<Rightarrow> pihole_op \<Rightarrow> ('w, pi_result list) dns_act" where
  "fanout_pihole_dns e oper = seq (reading piholes) (\<lambda>rows. loop (fanout_one e oper) rows [])"

definition result_json :: "pi_result \<Rightarrow> json" where
  "result_json r = JObj [(''id'', JInt (pr_id r)), (''name'', JStr (pr_name r)), (''ok'', JBool (pr_ok r)),
     (''error'', JStr (pr_error r)), (''already_present'', JBool (pr_present r))]"

definition summarize_results :: "pi_result list \<Rightarrow> string \<times> string" where
  "summarize_results rs =
     (if rs = [] then (''error'', ''No enabled Pi-hole instances'')
      else let n_ok = length (filter pr_ok rs);
               detail = join ''; '' (map (\<lambda>r. pr_name r @ '':'' @ (if pr_ok r then ''ok'' else if pr_error r \<noteq> [] then pr_error r else ''fail'')) rs) in
        if n_ok = length rs then (''ok'', detail) else if n_ok = 0 then (''error'', detail) else (''partial'', detail))"

definition audit_status :: "string \<Rightarrow> string" where
  "audit_status st = (if st = ''ok'' then ''success'' else if st = ''partial'' then ''partial'' else ''failed'')"

definition add_dns_audit :: "int option \<Rightarrow> int \<Rightarrow> string \<Rightarrow> string \<Rightarrow> json \<Rightarrow> fabric \<Rightarrow> fabric" where
  "add_dns_audit uid sid action st details f = f\<lparr>fb_audits := fb_audits f @ [\<lparr>da_user = uid, da_server = Some sid,
     da_action = action, da_status = st, da_details = dumps details\<rparr>]\<rparr>"

definition upd_record :: "int \<Rightarrow> (dns_record \<Rightarrow> dns_record) \<Rightarrow> fabric \<Rightarrow> fabric" where
  "upd_record i g f = f\<lparr>fb_records := upd_row dr_id i g (fb_records f)\<rparr>"

definition upd_host :: "int \<Rightarrow> (fleet_host \<Rightarrow> fleet_host) \<Rightarrow> fabric \<Rightarrow> fabric" where
  "upd_host i g f = f\<lparr>fb_hosts := upd_row h_id i g (fb_hosts f)\<rparr>"

definition get_record :: "fabric \<Rightarrow> int \<Rightarrow> dns_record option" where
  "get_record f i = get_row dr_id i (fb_records f)"

section \<open>The A record of a host\<close>

definition sync_host_a :: "'w dns_env \<Rightarrow> int option \<Rightarrow> fleet_host \<Rightarrow> ('w, pi_result list) dns_act" where
  "sync_host_a e uid h =
     (let name = normalize_fqdn (fh_dns_name h); ip = host_ip_for_dns h in
      if name = [] then raise (DnsFabricError ''Server has no DNS name'' ''no_dns_name'')
      else if ip = [] then raise (DnsFabricError (''No IP for A record'' @ emdash @ ''set IP address or DNS IP override'') ''no_ip'')
      else seq (fanout_pihole_dns e (PiAddHost ip name)) (\<lambda>results.
        let (status, detail) = summarize_results results in
        andalso (commit_rows (add_dns_audit uid (h_id h) ''dns_host_a_sync'' (audit_status status)
            (JObj [(''domain'', JStr name), (''ip'', JStr ip), (''results'', JList (map result_json results))])))
        (if status = ''error'' then raise (DnsFabricError (''Pi-hole A sync failed: '' @ detail) ''sync_failed'') else ret results)))"

definition remove_host_a :: "'w dns_env \<Rightarrow> int option \<Rightarrow> fleet_host \<Rightarrow> string \<Rightarrow> string \<Rightarrow> ('w, pi_result list) dns_act" where
  "remove_host_a e uid h domain ip =
     (let name = normalize_fqdn (if domain \<noteq> [] then Some domain else fh_dns_name h);
          addr = strip (if ip \<noteq> [] then ip else host_ip_for_dns h) in
      if name = [] \<or> addr = [] then ret []
      else seq (fanout_pihole_dns e (PiDeleteHost addr name)) (\<lambda>results.
        andalso (commit_rows (add_dns_audit uid (h_id h) ''dns_host_a_remove'' ''success''
            (JObj [(''domain'', JStr name), (''ip'', JStr addr), (''results'', JList (map result_json results))])))
        (ret results)))"

text \<open>\<open>_assert_unique_dns_name\<close>: the first other host with this very name.\<close>

definition dns_name_taken :: "fabric \<Rightarrow> string \<Rightarrow> int \<Rightarrow> fleet_host option" where
  "dns_name_taken f name sid = find (\<lambda>h. fh_dns_name h = Some name \<and> h_id h \<noteq> sid) (fb_hosts f)"

record host_dns =
  hd_name :: "string option"
  hd_manage :: bool
  hd_override :: "string option"
  hd_sync_now :: bool

text \<open>The row as the form leaves it.\<close>

definition named_host :: "string \<Rightarrow> host_dns \<Rightarrow> fleet_host \<Rightarrow> fleet_host" where
  "named_host name q h = h\<lparr>fh_dns_name := (if name = [] then None else Some name),
     fh_dns_manage_a := (hd_manage q \<and> name \<noteq> []),
     fh_dns_ip_override := (if strip (text0 (hd_override q)) = [] then None else Some (strip (text0 (hd_override q))))\<rparr>"

text \<open>What the Pi-holes are told after the commit, by the old and the new row; the action noted.\<close>

definition push_host :: "'w dns_env \<Rightarrow> int option \<Rightarrow> fleet_host \<Rightarrow> fleet_host \<Rightarrow> bool \<Rightarrow> ('w, string \<times> pi_result list) dns_act" where
  "push_host e uid old h sync_now =
     (let name = text0 (fh_dns_name h); old_name = normalize_fqdn (fh_dns_name old); old_ip = host_ip_for_dns old;
          managed = fh_dns_manage_a h; was_managed = fh_dns_manage_a old; ip_now = host_ip_for_dns h in
      if \<not> managed \<and> was_managed \<and> old_name \<noteq> [] then
        seq (remove_host_a e uid h old_name old_ip) (\<lambda>rs. ret (''removed'', rs))
      else if name \<noteq> [] \<and> managed then
        (if ip_now = []
         then raise (DnsFabricError (''DNS name saved, but no IP for A record'' @ emdash @ ''set IP address and save again'') ''no_ip'')
         else andalso (if was_managed \<and> old_name \<noteq> [] \<and> (old_name \<noteq> name \<or> old_ip \<noteq> ip_now) \<and> old_ip \<noteq> []
              then seq (fanout_pihole_dns e (PiDeleteHost old_ip old_name)) (\<lambda>_. ret ()) else ret ())
           (seq (sync_host_a e uid h) (\<lambda>rs. ret (''synced'', rs))))
      else if name \<noteq> [] \<and> sync_now then seq (sync_host_a e uid h) (\<lambda>rs. ret (''synced'', rs))
      else if name \<noteq> [] then ret (''saved_no_manage'', [])
      else ret (''saved'', []))"

definition settle_host :: "'w dns_env \<Rightarrow> int option \<Rightarrow> fleet_host \<Rightarrow> fleet_host \<Rightarrow> bool \<Rightarrow> ('w, string \<times> pi_result list) dns_act" where
  "settle_host e uid old h sync_now = seq (push_host e uid old h sync_now) (\<lambda>(action, results).
     andalso (commit_rows (add_dns_audit uid (h_id old) ''dns_host_update'' ''success''
       (JObj [(''dns_name'', jopt JStr (fh_dns_name h)), (''dns_manage_a'', JBool (fh_dns_manage_a h)),
         (''dns_ip_override'', jopt JStr (fh_dns_ip_override h)), (''action'', JStr action),
         (''sync'', JList (map result_json results))])))
      (ret (action, results)))"

definition update_server_dns :: "'w dns_env \<Rightarrow> int option \<Rightarrow> fleet_host \<Rightarrow> host_dns \<Rightarrow> ('w, string \<times> pi_result list) dns_act" where
  "update_server_dns e uid old q =
     (let name = (if text0 (hd_name q) \<noteq> [] then normalize_fqdn (hd_name q) else []); over = strip (text0 (hd_override q));
          h = named_host name q old in
      if name \<noteq> [] \<and> \<not> is_valid_fqdn (Some name)
      then raise (DnsFabricError (''Invalid DNS name: '' @ text0 (hd_name q)) ''invalid_fqdn'')
      else seq (reading (\<lambda>f. if name = [] then None else dns_name_taken f name (h_id old))) (\<lambda>taken. case taken of
        Some other \<Rightarrow> raise (DnsFabricError (''DNS name '' @ name @ '' already used by server '' @ h_name other) ''duplicate'')
      | None \<Rightarrow>
          if over \<noteq> [] \<and> \<not> is_valid_ipv4 (Some over)
          then raise (DnsFabricError (''Invalid IP override: '' @ over) ''invalid_ip'')
          else andalso (commit_rows (upd_host (h_id old) (named_host name q))) (settle_host e uid old h (hd_sync_now q))))"

section \<open>The name of a service\<close>

definition A_TYPES :: "string list" where
  "A_TYPES = [''a'', ''host'', ''host_identity'']"

definition no_target_name :: "dns_exc" where
  "no_target_name = DnsFabricError ''Target host missing DNS name'' ''target_no_dns''"

text \<open>The sync of a record: the name of the host itself stays an A record, any other name is a CNAME.\<close>

definition synced :: "dns_record \<Rightarrow> string \<Rightarrow> string \<Rightarrow> int \<Rightarrow> dns_record \<Rightarrow> dns_record" where
  "synced shape status detail t r = r\<lparr>dr_record_type := dr_record_type shape, dr_via_proxy := dr_via_proxy shape,
     dr_synced_at := Some t, dr_sync_status := Some status, dr_sync_detail := Some (take 2000 detail), dr_updated_at := t\<rparr>"

definition finish_sync ::
    "'w dns_env \<Rightarrow> int option \<Rightarrow> dns_record \<Rightarrow> string \<Rightarrow> dict \<Rightarrow> pi_result list \<Rightarrow> ('w, pi_result list) dns_act" where
  "finish_sync e uid shape action extra results =
     (let (status, detail) = summarize_results results in
      andalso (commit_rows (\<lambda>f. add_dns_audit uid (dr_backend shape) action (audit_status status)
          (JObj ([(''fqdn'', JStr (normalize_fqdn (Some (dr_fqdn shape)))), (''results'', JList (map result_json results))] @ extra))
          (upd_record (dr_id shape) (synced shape status detail (dn_now e)) f)))
      (if status = ''error'' then raise (DnsFabricError (''Pi-hole DNS sync failed: '' @ detail) ''sync_failed'') else ret results))"

definition sync_service_dns :: "'w dns_env \<Rightarrow> int option \<Rightarrow> dns_record \<Rightarrow> ('w, pi_result list) dns_act" where
  "sync_service_dns e uid r = seq (reading (\<lambda>f. (get_host f (dr_target r), get_host f (dr_backend r)))) (\<lambda>(target, found).
     case target of
       None \<Rightarrow> raise no_target_name
     | Some t \<Rightarrow>
         (let backend = (case found of None \<Rightarrow> t | Some b \<Rightarrow> b); domain = normalize_fqdn (Some (dr_fqdn r));
              tname = normalize_fqdn (fh_dns_name t); ip = host_ip_for_dns backend in
          if tname = [] then raise no_target_name
          else if lower (dr_record_type r) \<in> set A_TYPES \<or> is_host_identity_name domain (Some backend)
              \<or> is_host_identity_name domain (Some t) then
            (if ip = [] then raise (DnsFabricError ''Host identity needs an IP for the A record'' ''no_ip'')
             else seq (fanout_pihole_dns e (PiAddHost ip domain)) (finish_sync e uid (r\<lparr>dr_record_type := ''a'', dr_via_proxy := False\<rparr>)
               ''dns_service_a_sync'' [(''ip'', JStr ip), (''record_type'', JStr ''a''), (''host_identity'', JBool True)]))
          else seq (fanout_pihole_dns e (PiAddCname domain tname)) (finish_sync e uid (r\<lparr>dr_record_type := ''cname''\<rparr>)
               ''dns_service_cname_sync'' [(''target'', JStr tname), (''via_proxy'', JBool (dr_via_proxy r)), (''record_type'', JStr ''cname'')])))"

record service_form =
  sf_fqdn :: string
  sf_target :: int
  sf_backend :: int
  sf_deployment :: "int option"
  sf_project :: "string option"
  sf_label :: "string option"
  sf_managed :: bool
  sf_via_proxy :: "bool option"
  sf_npm_hint :: "string option"
  sf_certificate :: "int option"
  sf_external :: string
  sf_notes :: "string option"
  sf_record :: "int option"
  sf_sync_now :: bool

definition or_none :: "string option \<Rightarrow> string option" where
  "or_none v = (let s = strip (text0 v) in if s = [] then None else Some s)"

text \<open>\<open>x or "checklist"\<close>, stripped, and again.\<close>

definition external_status :: "string \<Rightarrow> string" where
  "external_status s = (let t = strip (if s \<noteq> [] then s else ''checklist'') in if t \<noteq> [] then t else ''checklist'')"

text \<open>The row of the form. The name of the host itself is an A record on the backend, without a proxy.\<close>

definition filled :: "string \<Rightarrow> bool \<Rightarrow> service_form \<Rightarrow> int \<Rightarrow> dns_record \<Rightarrow> dns_record" where
  "filled name identity q t r = r\<lparr>dr_fqdn := name, dr_record_type := (if identity then ''a'' else ''cname''),
     dr_target := (if identity then sf_backend q else sf_target q), dr_backend := sf_backend q, dr_deployment := sf_deployment q,
     dr_project := or_none (sf_project q), dr_label := or_none (sf_label q), dr_managed := sf_managed q,
     dr_via_proxy := (\<not> identity \<and> (case sf_via_proxy q of Some p \<Rightarrow> p | None \<Rightarrow> sf_target q \<noteq> sf_backend q)),
     dr_npm_hint := or_none (sf_npm_hint q), dr_certificate := sf_certificate q, dr_external := external_status (sf_external q),
     dr_notes := sf_notes q, dr_updated_at := t\<rparr>"

definition new_record :: "int \<Rightarrow> dns_record" where
  "new_record i = \<lparr>dr_id = i, dr_fqdn = [], dr_record_type = ''cname'', dr_target = 0, dr_backend = 0, dr_deployment = None,
     dr_project = None, dr_label = None, dr_managed = True, dr_via_proxy = False, dr_npm_hint = None, dr_certificate = None,
     dr_external = ''checklist'', dr_notes = None, dr_synced_at = None, dr_sync_status = None, dr_sync_detail = None, dr_updated_at = 0\<rparr>"

text \<open>Which row the form is about: \<open>Inr None\<close> is a new one.\<close>

definition record_of_form :: "fabric \<Rightarrow> string \<Rightarrow> int option \<Rightarrow> dns_exc + dns_record option" where
  "record_of_form f name rid =
     (let existing = find (\<lambda>r. dr_fqdn r = name) (fb_records f) in
      case (if rid = Some 0 then None else rid) of
        Some i \<Rightarrow> if (case existing of Some r \<Rightarrow> dr_id r \<noteq> i | None \<Rightarrow> False)
            then Inl (DnsFabricError (''FQDN '' @ name @ '' already registered'') ''duplicate'')
            else (case get_record f i of None \<Rightarrow> Inl (DnsFabricError ''Record not found'' ''not_found'') | Some r \<Rightarrow> Inr (Some r))
      | None \<Rightarrow> Inr existing)"

text \<open>What a row pointed at, for the CNAME to delete.\<close>

definition old_pointer :: "fabric \<Rightarrow> dns_record option \<Rightarrow> string \<times> string" where
  "old_pointer f ro = (case ro of
     None \<Rightarrow> ([], [])
   | Some r \<Rightarrow> if dr_target r = 0 then ([], [])
       else (normalize_fqdn (Some (dr_fqdn r)), case get_host f (dr_target r) of None \<Rightarrow> [] | Some h \<Rightarrow> normalize_fqdn (fh_dns_name h)))"

definition put_record :: "dns_record option \<Rightarrow> (dns_record \<Rightarrow> dns_record) \<Rightarrow> fabric \<Rightarrow> fabric" where
  "put_record ro g f = (case ro of
     Some r \<Rightarrow> upd_record (dr_id r) g f
   | None \<Rightarrow> f\<lparr>fb_records := fb_records f @ [g (new_record (fb_next_record f))], fb_next_record := fb_next_record f + 1\<rparr>)"

text \<open>After the commit: a CNAME that points elsewhere now is deleted, the new one is pushed; or only an audit is written.\<close>

definition settle_record ::
    "'w dns_env \<Rightarrow> int option \<Rightarrow> service_form \<Rightarrow> bool \<Rightarrow> string \<Rightarrow> string \<Rightarrow> fleet_host \<Rightarrow> fleet_host \<Rightarrow> dns_record
       \<Rightarrow> ('w, dns_record \<times> pi_result list) dns_act" where
  "settle_record e uid q identity old_fqdn old_target to b row =
     (let name = dr_fqdn row in
      if sf_sync_now q \<and> dr_managed row then
        andalso (if \<not> identity \<and> old_fqdn \<noteq> [] \<and> old_target \<noteq> []
              \<and> (old_fqdn \<noteq> name \<or> old_target \<noteq> normalize_fqdn (fh_dns_name to))
            then seq (fanout_pihole_dns e (PiDeleteCname old_fqdn old_target)) (\<lambda>_. ret ()) else ret ())
        (seq (sync_service_dns e uid row) (\<lambda>results. seq (reading (\<lambda>f. get_record f (dr_id row)))
          (\<lambda>r. ret (case r of Some x \<Rightarrow> x | None \<Rightarrow> row, results))))
      else andalso (commit_rows (add_dns_audit uid (h_id b) ''dns_service_upsert'' ''success''
          (JObj [(''fqdn'', JStr name), (''target'', jopt JStr (fh_dns_name to)), (''backend'', JStr (h_name b)),
            (''via_proxy'', JBool (dr_via_proxy row)), (''synced'', JBool False)])))
        (ret (row, [])))"

definition upsert_service_record ::
    "'w dns_env \<Rightarrow> int option \<Rightarrow> service_form \<Rightarrow> ('w, dns_record \<times> pi_result list) dns_act" where
  "upsert_service_record e uid q =
     (let name = normalize_fqdn (Some (sf_fqdn q)) in
      if \<not> is_valid_fqdn (Some name) then raise (DnsFabricError (''Invalid service FQDN: '' @ sf_fqdn q) ''invalid_fqdn'')
      else seq (reading (\<lambda>f. (f, get_host f (sf_target q), get_host f (sf_backend q)))) (\<lambda>(f, target, backend).
       case (target, backend) of
         (Some t, Some b) \<Rightarrow>
           (if normalize_fqdn (fh_dns_name t) = []
            then raise (DnsFabricError (''Target host '' @ h_name t @ '' needs a DNS name first'') ''target_no_dns'')
            else case record_of_form f name (sf_record q) of
              Inl x \<Rightarrow> raise x
            | Inr ro \<Rightarrow>
                (let (old_fqdn, old_target) = old_pointer f ro;
                     identity = (is_host_identity_name name (Some b) \<or> is_host_identity_name name (Some t));
                     to = (if identity then b else t); fill = filled name identity q (dn_now e);
                     row = fill (case ro of Some r \<Rightarrow> r | None \<Rightarrow> new_record (fb_next_record f)) in
                 andalso (commit_rows (put_record ro fill)) (settle_record e uid q identity old_fqdn old_target to b row)))
       | _ \<Rightarrow> raise (DnsFabricError ''Target or backend server not found'' ''not_found'')))"

definition delete_service_record :: "'w dns_env \<Rightarrow> int option \<Rightarrow> dns_record \<Rightarrow> bool \<Rightarrow> ('w, pi_result list) dns_act" where
  "delete_service_record e uid r remove = seq (reading (\<lambda>f. (get_host f (dr_target r), get_host f (dr_backend r)))) (\<lambda>(target, found).
     let backend = (case found of Some b \<Rightarrow> Some b | None \<Rightarrow> target); domain = normalize_fqdn (Some (dr_fqdn r));
         tname = (case target of Some t \<Rightarrow> normalize_fqdn (fh_dns_name t) | None \<Rightarrow> []);
         identity = (lower (dr_record_type r) \<in> set A_TYPES \<or> is_host_identity_name domain backend) in
     seq (if remove \<and> domain \<noteq> [] \<and> \<not> identity \<and> tname \<noteq> [] then fanout_pihole_dns e (PiDeleteCname domain tname) else ret []) (\<lambda>results.
     andalso (commit_rows (\<lambda>f. (add_dns_audit uid (dr_backend r) ''dns_service_delete'' ''success''
         (JObj [(''fqdn'', JStr domain), (''target'', JStr tname), (''results'', JList (map result_json results))]) f)
         \<lparr>fb_records := filter (\<lambda>x. dr_id x \<noteq> dr_id r) (fb_records f)\<rparr>))
     (ret results)))"

text \<open>\<open>link_service_project\<close>: the operator says which project a name leads to.\<close>

definition link_service_project :: "'w dns_env \<Rightarrow> int option \<Rightarrow> dns_record \<Rightarrow> string \<Rightarrow> bool \<Rightarrow> ('w, unit) dns_act" where
  "link_service_project e uid r docker_project mark_direct =
     (let proj = strip docker_project in
      if proj = [] then raise (DnsFabricError ''Compose project is required'' ''need_project'')
      else if 200 < length proj then raise (DnsFabricError ''Compose project name is too long'' ''invalid_project'')
      else seq (reading (\<lambda>f. get_host f (dr_backend r))) (\<lambda>backend. case backend of
        None \<Rightarrow> raise (DnsFabricError ''Backend host not found'' ''not_found'')
      | Some b \<Rightarrow> let old = strip (text0 (dr_project r)) in
          commit_rows (\<lambda>f. let f1 = upd_record (dr_id r) (\<lambda>x.
               let x1 = x\<lparr>dr_project := Some proj, dr_label := (if strip (text0 (dr_label x)) = [] then Some proj else dr_label x),
                     dr_updated_at := dn_now e\<rparr> in
               if \<not> mark_direct then x1
               else x1\<lparr>dr_via_proxy := False, dr_npm_hint := None, dr_target := h_id b,
                  dr_record_type := (if is_host_identity_name (dr_fqdn x) backend then ''a'' else dr_record_type x)\<rparr>) f in
             f1\<lparr>fb_audits := fb_audits f1 @ [\<lparr>da_user = uid, da_server = Some (dr_backend r), da_action = ''dns_service_link_project'',
               da_status = ''success'', da_details = dr_fqdn r @ '' project='' @ proj
                 @ (if old \<noteq> [] \<and> old \<noteq> proj then '' (was '' @ old @ '')'' else []) @ (if mark_direct then middot @ ''direct'' else [])\<rparr>]\<rparr>)))"

text \<open>\<open>cleanup_dns_for_server\<close>: the names that lead to a host about to be removed; the caller commits.\<close>

definition cleanup_dns_for_server :: "int \<Rightarrow> fabric \<Rightarrow> fabric \<times> nat" where
  "cleanup_dns_for_server sid f =
     (let gone = (\<lambda>r. dr_target r = sid \<or> dr_backend r = sid) in
      (f\<lparr>fb_records := filter (\<lambda>r. \<not> gone r) (fb_records f)\<rparr>, length (filter gone (fb_records f))))"

end
