(* ===== verification/NpmEdge.thy ===== *)
theory NpmEdge
  imports FabricDns
begin

text \<open>
  The public edge of the fleet: which names a reverse proxy (Nginx Proxy Manager) serves, by the cached poll of its
  integrations and by the bindings of a project, and whether a project is the edge itself
  (\<open>app/services/service_migrate/preflight.py\<close>), with the host part of a URL as \<open>urllib.parse\<close> reads it.
\<close>

section \<open>The host of a URL\<close>

definition scheme_char :: "char \<Rightarrow> bool" where
  "scheme_char c = (let n = of_char c :: nat in (65 \<le> n \<and> n \<le> 90) \<or> (97 \<le> n \<and> n \<le> 122) \<or> (48 \<le> n \<and> n \<le> 57)
     \<or> c = CHR ''+'' \<or> c = CHR ''-'' \<or> c = CHR ''.'')"

definition letter :: "char \<Rightarrow> bool" where
  "letter c = (let n = of_char c :: nat in (65 \<le> n \<and> n \<le> 90) \<or> (97 \<le> n \<and> n \<le> 122))"

definition before :: "char \<Rightarrow> string \<Rightarrow> string" where
  "before c s = takeWhile (\<lambda>x. x \<noteq> c) s"

definition without_scheme :: "string \<Rightarrow> string" where
  "without_scheme s = (let sch = before CHR '':'' s in
     if sch \<noteq> s \<and> sch \<noteq> [] \<and> letter (hd s) \<and> list_all scheme_char sch then drop (length sch + 1) s else s)"

definition url_netloc :: "string \<Rightarrow> string" where
  "url_netloc url =
     (let s = filter (\<lambda>c. c \<notin> {CHR 0x09, CHR 0x0A, CHR 0x0D}) (lstrip_chars (\<lambda>c. (of_char c :: nat) \<le> 32) url);
          rest = without_scheme s in
      if startswith rest ''//'' then takeWhile (\<lambda>c. c \<notin> {CHR ''/'', CHR ''?'', CHR ''#''}) (drop 2 rest) else [])"

text \<open>\<open>urlparse(url).hostname\<close>; unbalanced brackets raise. (The text inside brackets is not checked to be an address.)\<close>

definition url_hostname :: "string \<Rightarrow> move_exc + string option" where
  "url_hostname url =
     (let netloc = url_netloc url; opened = CHR ''['' \<in> set netloc; closed = CHR '']'' \<in> set netloc;
          info = last (split_on CHR ''@'' netloc);
          host = (if CHR ''['' \<in> set info then before CHR '']'' (drop (length (before CHR ''['' info) + 1) info)
                  else before CHR '':'' info) in
      if opened \<noteq> closed then Inl (OtherError ''Invalid IPv6 URL'')
      else Inr (if host = [] then None
                else let head = before CHR ''%'' host in Some (lower head @ drop (length head) host)))"

section \<open>Proxy hosts\<close>

definition enabled_npm :: "fabric \<Rightarrow> integration list" where
  "enabled_npm f = filter (\<lambda>r. in_type r = ''npm'' \<and> in_enabled r) (fb_integrations f)"

text \<open>The names of the enabled edges.\<close>

definition npm_edge_fqdns :: "fabric \<Rightarrow> move_exc + string list" where
  "npm_edge_fqdns f = rfold (\<lambda>r out. rbind (url_hostname (in_base_url r)) (\<lambda>h.
     let name = normalize_fqdn h in Inr (if name \<noteq> [] then out @ [name] else out))) (enabled_npm f) []"

text \<open>The proxy hosts of the last polls; a cache that is no object raises.\<close>

definition cached_hosts :: "integration \<Rightarrow> move_exc + dict list" where
  "cached_hosts r = (case (case loads (in_status r) of None \<Rightarrow> JObj [] | Some v \<Rightarrow> v) of
     JObj d \<Rightarrow> (case py_list (jor (dget0 d ''proxy_hosts'') (JList [])) of
         None \<Rightarrow> Inl type_error
       | Some xs \<Rightarrow> Inr (map dict_of (filter is_dict xs)))
   | _ \<Rightarrow> Inl attribute_error)"

definition npm_hosts_cached :: "fabric \<Rightarrow> move_exc + dict list \<times> nat" where
  "npm_hosts_cached f = rbind (rfold (\<lambda>r out. rbind (cached_hosts r) (\<lambda>hs. Inr (out @ hs))) (enabled_npm f) [])
     (\<lambda>hosts. Inr (hosts, length (enabled_npm f)))"

definition domains_of :: "dict \<Rightarrow> move_exc + json list" where
  "domains_of h = (case jor (jor (dget0 h ''domain_names'') (dget0 h ''domains'')) (JList []) of
     JStr s \<Rightarrow> Inr [JStr s]
   | JStamp t \<Rightarrow> Inr [JStamp t]
   | v \<Rightarrow> (case py_list v of None \<Rightarrow> Inl type_error | Some xs \<Rightarrow> Inr xs))"

fun match_npm :: "dict list \<Rightarrow> string \<Rightarrow> move_exc + dict option" where
  "match_npm [] fqdn = Inr None"
| "match_npm (h # hs) fqdn = (let want = normalize_fqdn (Some fqdn) in
     if want = [] then Inr None
     else rbind (domains_of h) (\<lambda>ds.
       if list_ex (\<lambda>d. normalize_fqdn (Some (py_str d)) = want) ds then Inr (Some h) else match_npm hs fqdn))"

definition match_npm_id :: "dict list \<Rightarrow> string \<Rightarrow> dict option" where
  "match_npm_id hosts host_id = (let hid = strip host_id in
     if hid = [] then None else find (\<lambda>h. strip (py_str (jor (dget0 h ''id'') (JStr []))) = hid) hosts)"

record npm_host =
  nh_fqdn :: string
  nh_id :: "string option"
  nh_forward_host :: json
  nh_forward_port :: json
  nh_binding :: int
  nh_binding_server :: int

text \<open>The names one binding stands for, with what the cache knows of its proxy host.\<close>

definition bound_domains :: "dict list \<Rightarrow> bind_to \<Rightarrow> move_exc + dict option \<times> string list" where
  "bound_domains hosts b =
     (let label = strip (text0 (bd_label b)); hid = strip (bd_external_id b) in
      rbind (if label \<noteq> [] then match_npm hosts label else Inr None) (\<lambda>m0.
      let m = (case m0 of Some h \<Rightarrow> Some h | None \<Rightarrow> if hid \<noteq> [] then match_npm_id hosts hid else None) in
      rbind (case m of None \<Rightarrow> Inr [] | Some h \<Rightarrow> rbind (domains_of h) (\<lambda>ds.
          Inr (filter (\<lambda>s. s \<noteq> []) (map (\<lambda>d. strip (py_str d)) ds)))) (\<lambda>ds.
      Inr (m, if label \<noteq> [] \<and> ds = [] then [label] else ds))))"

text \<open>A name without surrounding blanks, in lower case and without final dots.\<close>

definition fqdn_key :: "string \<Rightarrow> string" where
  "fqdn_key s = rstrip_chars (\<lambda>c. c = CHR ''.'') (lower s)"

definition add_npm_host :: "bind_to \<Rightarrow> dict option \<Rightarrow> string \<Rightarrow> npm_host list \<Rightarrow> npm_host list" where
  "add_npm_host b m fqdn out =
     (let h = (case m of None \<Rightarrow> [] | Some h \<Rightarrow> h); nid = py_str (jor (jor (dget0 h ''id'') (JStr (strip (bd_external_id b)))) (JStr [])) in
      if fqdn_key fqdn = [] \<or> fqdn_key fqdn \<in> set (map (\<lambda>n. fqdn_key (nh_fqdn n)) out) then out
      else out @ [\<lparr>nh_fqdn = fqdn, nh_id = (if nid = [] then None else Some nid), nh_forward_host = dget0 h ''forward_host'',
        nh_forward_port = dget0 h ''forward_port'', nh_binding = bd_id b, nh_binding_server = bd_server b\<rparr>])"

definition npm_proxy_hosts_for_project :: "fabric \<Rightarrow> string \<Rightarrow> move_exc + npm_host list" where
  "npm_proxy_hosts_for_project f project =
     (case compose_project_name (Some project) of
        Inl m \<Rightarrow> Inl (LockedError m)
      | Inr nm \<Rightarrow> rbind (npm_hosts_cached f) (\<lambda>(hosts, n).
          rfold (\<lambda>b out. rbind (bound_domains hosts b) (\<lambda>(m, ds). Inr (foldl (\<lambda>out d. add_npm_host b m d out) out ds)))
            (filter (\<lambda>b. bd_role b = ''proxy_host'' \<and> bd_project b = Some nm) (fb_bindings f)) []))"

section \<open>The edge\<close>

definition row_host :: "fabric \<Rightarrow> dns_record \<Rightarrow> fleet_host option" where
  "row_host f r = (let i = (if dr_backend r \<noteq> 0 then dr_backend r else dr_target r) in if i \<noteq> 0 then get_host f i else None)"

text \<open>The host the edge runs on: by the name of the edge in the fabric, then by a binding labelled with it.\<close>

definition npm_edge_server :: "fabric \<Rightarrow> move_exc + fleet_host option" where
  "npm_edge_server f = rbind (npm_edge_fqdns f) (\<lambda>edges.
     Inr (if edges = [] then None
       else case find (\<lambda>x. x \<noteq> None) (map (row_host f) (filter (\<lambda>r. normalize_fqdn (Some (dr_fqdn r)) \<in> set edges) (fb_records f))) of
         Some h \<Rightarrow> h
       | None \<Rightarrow> (case find (\<lambda>x. x \<noteq> None) (map (\<lambda>b. get_host f (bd_server b))
             (filter (\<lambda>b. bd_role b = ''proxy_host'' \<and> normalize_fqdn (bd_label b) \<in> set edges) (fb_bindings f))) of
           Some h \<Rightarrow> h | None \<Rightarrow> None)))"

definition is_npm_edge_project :: "fabric \<Rightarrow> int \<Rightarrow> string \<Rightarrow> dns_record list \<Rightarrow> move_exc + bool" where
  "is_npm_edge_project f sid project rows = rbind (npm_edge_fqdns f) (\<lambda>edges.
     if edges = [] then Inr False
     else case compose_project_name (Some project) of
       Inl m \<Rightarrow> Inl (LockedError m)
     | Inr nm \<Rightarrow> Inr (list_ex (\<lambda>r. normalize_fqdn (Some (dr_fqdn r)) \<in> set edges) rows
         \<or> list_ex (\<lambda>b. bd_server b = sid \<and> bd_project b = Some nm \<and> bd_role b = ''proxy_host''
              \<and> normalize_fqdn (bd_label b) \<in> set edges) (fb_bindings f)))"

text \<open>The names that lead to the edge host through a proxy, but for the rows of the moved project.\<close>

definition npm_edge_dependents :: "fabric \<Rightarrow> int \<Rightarrow> int option \<Rightarrow> int list \<Rightarrow> dns_record list" where
  "npm_edge_dependents f sid did skip =
     (let ids = sid # (case did of Some i \<Rightarrow> if i \<noteq> 0 then [i] else [] | None \<Rightarrow> []) in
      filter (\<lambda>r. dr_via_proxy r \<and> dr_target r \<in> set ids \<and> dr_id r \<notin> set skip) (fb_records f))"

end
