(* ===== verification/MoveCutover.thy ===== *)
theory MoveCutover
  imports NpmEdge
begin

text \<open>
  \<open>app/services/service_migrate/cutover.py\<close>: the names of a project are pointed at the destination, one record
  after the other with a commit each: a direct name gets a new CNAME target, a name behind the proxy a new
  backend at the proxy; then Pi-hole is told to reload. A call that raises ends the cutover where it is.
\<close>

section \<open>The proxy\<close>

datatype npm_op = NpmToken | NpmRetarget string string "int option"

record 'w cut_env = "'w dns_env" +
  ce_npm :: "integration \<Rightarrow> npm_op \<Rightarrow> ('w, string, json) act"
  ce_log :: "string \<Rightarrow> 'w \<Rightarrow> 'w"

type_synonym ('w, 'a) cut_act = "(fabric \<times> 'w, move_exc, 'a) act"

definition tell :: "'w cut_env \<Rightarrow> string \<Rightarrow> ('w, unit) cut_act" where
  "tell e msg = touch (\<lambda>(f, w). (f, ce_log e msg w))"

definition from_rows :: "(fabric \<Rightarrow> move_exc + 'a) \<Rightarrow> ('w, 'a) cut_act" where
  "from_rows g s = (s, g (fst s))"

text \<open>\<open>except DnsFabricError as e: raise CutoverError(str(e))\<close>.\<close>

definition as_cutover :: "('w, 'a) dns_act \<Rightarrow> ('w, 'a) cut_act" where
  "as_cutover = wrapped (\<lambda>x. case x of DnsFabricError m c \<Rightarrow> CutoverError m | DnsOther y \<Rightarrow> y)"

definition dest_forward_host :: "fleet_host \<Rightarrow> string" where
  "dest_forward_host h =
     (let ip = strip (text0 (fh_ip_address h)); host = strip (h_hostname h) in
      if ip \<noteq> [] then ip else if host \<noteq> [] then host else strip (text0 (fh_dns_name h)))"

text \<open>One integration of \<open>_put_npm_backend\<close>: the answer, or the text of the last error.\<close>

definition put_on ::
    "'w cut_env \<Rightarrow> string \<Rightarrow> string \<Rightarrow> string \<Rightarrow> int option \<Rightarrow> integration \<Rightarrow> string + json \<Rightarrow> ('w, string + json) cut_act" where
  "put_on e fqdn cached new_host port r acc = (case acc of
     Inr v \<Rightarrow> ret acc
   | Inl err \<Rightarrow> catching
       (seq (with_world (ce_npm e r NpmToken)) (\<lambda>_.
        seq (if strip cached \<noteq> [] then ret (strip cached)
             else wrapped move_text (seq (from_rows npm_hosts_cached) (\<lambda>(hosts, n). seq (from_rows (\<lambda>f. match_npm hosts fqdn)) (\<lambda>m.
               ret (case m of None \<Rightarrow> [] | Some h \<Rightarrow> py_str (jor (dget0 h ''id'') (JStr []))))))) (\<lambda>hid.
        if hid = [] then ret (Inl (fqdn @ '': unmatched proxy host on '' @ in_name r))
        else seq (with_world (ce_npm e r (NpmRetarget hid new_host port))) (\<lambda>v. ret (Inr v)))))
       (\<lambda>x. ret (Inl (take 300 (in_name r @ '': '' @ x)))))"

definition put_npm_backend :: "'w cut_env \<Rightarrow> string \<Rightarrow> string \<Rightarrow> string \<Rightarrow> int option \<Rightarrow> ('w, json) cut_act" where
  "put_npm_backend e fqdn cached new_host port = seq (reading enabled_npm) (\<lambda>rows.
     if rows = [] then raise (CutoverError (fqdn @ '': no enabled NPM integration''))
     else seq (loop (put_on e fqdn cached new_host port) rows (Inl ''no matching proxy host'')) (\<lambda>r. case r of
       Inr v \<Rightarrow> ret v
     | Inl err \<Rightarrow> raise (CutoverError (''NPM backend retarget failed for '' @ fqdn @ '': '' @ err))))"

text \<open>The port behind the proxy, when the map gives it another one.\<close>

definition forward_port :: "json \<Rightarrow> (string \<times> string) list \<Rightarrow> int option" where
  "forward_port raw pm =
     (if raw = JNull \<or> pm = [] then None
      else case py_int raw of
        None \<Rightarrow> None
      | Some old \<Rightarrow> (case map_of pm (port_map_key old ''tcp'') of
          None \<Rightarrow> None
        | Some mapped \<Rightarrow> if mapped \<noteq> [] \<and> mapped \<noteq> int_str old then int_of_str mapped else None))"

section \<open>One record\<close>

record cut_args =
  ca_source :: fleet_host
  ca_dest :: fleet_host
  ca_name :: string
  ca_dest_name :: string
  ca_port_map :: "(string \<times> string) list"
  ca_hosts :: "dict list"

record cut_scan =
  cs_out :: "dict list"
  cs_restart :: bool

definition add_out :: "dict \<Rightarrow> cut_scan \<Rightarrow> cut_scan" where
  "add_out d c = c\<lparr>cs_out := cs_out c @ [d]\<rparr>"

definition record_form :: "cut_args \<Rightarrow> dns_record \<Rightarrow> int \<Rightarrow> bool \<Rightarrow> service_form" where
  "record_form a r target proxied = \<lparr>sf_fqdn = dr_fqdn r, sf_target = target, sf_backend = h_id (ca_dest a),
     sf_deployment = dr_deployment r, sf_project = Some (ca_dest_name a), sf_label = dr_label r, sf_managed = dr_managed r,
     sf_via_proxy = Some proxied, sf_npm_hint = dr_npm_hint r, sf_certificate = dr_certificate r,
     sf_external = (if dr_external r \<noteq> [] then dr_external r else ''checklist''), sf_notes = dr_notes r,
     sf_record = Some (dr_id r), sf_sync_now = dr_managed r\<rparr>"

definition no_backend :: "string \<Rightarrow> move_exc" where
  "no_backend fqdn = CutoverError (fqdn @ '': dest has no IP/hostname for NPM forward_host'')"

definition cut_proxied :: "'w cut_env \<Rightarrow> cut_args \<Rightarrow> dns_record \<Rightarrow> cut_scan \<Rightarrow> ('w, cut_scan) cut_act" where
  "cut_proxied e a r c =
     (let fqdn = dr_fqdn r; backend = dest_forward_host (ca_dest a) in
      if backend = [] then raise (no_backend fqdn)
      else seq (from_rows (\<lambda>f. match_npm (ca_hosts a) fqdn)) (\<lambda>m.
        let h = (case m of None \<Rightarrow> [] | Some h \<Rightarrow> h);
            cached = py_str (jor (dget0 h ''id'') (JStr (text0 (dr_npm_hint r))));
            port = forward_port (dget0 h ''forward_port'') (ca_port_map a) in
        andalso (tell e (''NPM PUT '' @ fqdn @ '' forward_host'' @ arrow @ backend
          @ (case port of Some p \<Rightarrow> if p \<noteq> 0 then '' forward_port'' @ arrow @ int_str p else [] | None \<Rightarrow> [])))
        (seq (put_npm_backend e fqdn cached backend port) (\<lambda>res.
         andalso (as_cutover (upsert_service_record (dns_env.truncate e) None (record_form a r (dr_target r) True)))
          (ret (add_out [(''fqdn'', JStr fqdn), (''action'', JStr ''npm''), (''forward_host'', JStr backend),
             (''npm'', if is_dict res then res else JObj [(''ok'', JBool True)])] c))))))"

definition cut_direct :: "'w cut_env \<Rightarrow> cut_args \<Rightarrow> dns_record \<Rightarrow> cut_scan \<Rightarrow> ('w, cut_scan) cut_act" where
  "cut_direct e a r c =
     (let fqdn = dr_fqdn r; dest_dns = strip (text0 (fh_dns_name (ca_dest a))); src_dns = normalize_fqdn (fh_dns_name (ca_source a)) in
      if dest_dns = [] then raise (CutoverError (fqdn @ '': destination has no DNS name for CNAME retarget''))
      else andalso (tell e (''CNAME '' @ fqdn @ arrow @ dest_dns))
       (andalso (if dr_managed r \<and> src_dns \<noteq> [] \<and> src_dns \<noteq> normalize_fqdn (Some dest_dns)
          then seq (as_cutover (fanout_pihole_dns (dns_env.truncate e) (PiDeleteCname (normalize_fqdn (Some fqdn)) src_dns))) (\<lambda>_. ret ())
          else ret ())
        (andalso (as_cutover (upsert_service_record (dns_env.truncate e) None (record_form a r (h_id (ca_dest a)) False)))
         (ret ((add_out [(''fqdn'', JStr fqdn), (''action'', JStr ''cname''), (''target'', JStr dest_dns)] c)
           \<lparr>cs_restart := (cs_restart c \<or> dr_managed r)\<rparr>)))))"

text \<open>The name of a host itself is never moved.\<close>

definition cut_record :: "'w cut_env \<Rightarrow> cut_args \<Rightarrow> dns_record \<Rightarrow> cut_scan \<Rightarrow> ('w, cut_scan) cut_act" where
  "cut_record e a r c =
     (if is_host_identity_name (dr_fqdn r) (Some (ca_source a)) \<or> is_host_identity_name (dr_fqdn r) (Some (ca_dest a)) then
        andalso (tell e (''Skip host-identity name '' @ dr_fqdn r))
          (ret (add_out [(''fqdn'', JStr (dr_fqdn r)), (''action'', JStr ''skip_host_identity'')] c))
      else if dr_via_proxy r then cut_proxied e a r c else cut_direct e a r c)"

section \<open>Proxy hosts without a record\<close>

definition npm_done :: "dict list \<Rightarrow> string list" where
  "npm_done out = map (\<lambda>d. normalize_fqdn (Some (py_str (jor (dget0 d ''fqdn'') (JStr [])))))
     (filter (\<lambda>d. dget0 d ''action'' = JStr ''npm'') out)"

definition cut_bound :: "'w cut_env \<Rightarrow> cut_args \<Rightarrow> npm_host \<Rightarrow> cut_scan \<Rightarrow> ('w, cut_scan) cut_act" where
  "cut_bound e a n c =
     (let fqdn = strip (nh_fqdn n); key = normalize_fqdn (Some fqdn); backend = dest_forward_host (ca_dest a); nid = text0 (nh_id n) in
      if key = [] \<or> key \<in> set (npm_done (cs_out c)) then ret c
      else if backend = [] then raise (no_backend fqdn)
      else seq (from_rows (\<lambda>f. if nid = [] then match_npm (ca_hosts a) fqdn else Inr None)) (\<lambda>m.
        let h = (case m of None \<Rightarrow> [] | Some h \<Rightarrow> h);
            cached = (if m = None then nid else py_str (jor (dget0 h ''id'') (JStr nid)));
            raw = (if nh_forward_port n = JNull then dget0 h ''forward_port'' else nh_forward_port n);
            port = forward_port raw (ca_port_map a) in
        andalso (tell e (''NPM PUT '' @ fqdn @ '' forward_host'' @ arrow @ backend
          @ (case port of Some p \<Rightarrow> if p \<noteq> 0 then '' forward_port'' @ arrow @ int_str p else [] | None \<Rightarrow> []) @ '' (proxy-host binding)''))
        (seq (put_npm_backend e fqdn cached backend port) (\<lambda>res.
          ret (add_out [(''fqdn'', JStr fqdn), (''action'', JStr ''npm''), (''forward_host'', JStr backend), (''from_binding'', JBool True),
             (''npm'', if is_dict res then res else JObj [(''ok'', JBool True)])] c)))))"

text \<open>Such a name becomes a record of the fabric, when the caller asks for it.\<close>

definition adopt_form :: "fleet_host \<Rightarrow> cut_args \<Rightarrow> string \<Rightarrow> dict \<Rightarrow> service_form" where
  "adopt_form edge a fqdn d = \<lparr>sf_fqdn = fqdn, sf_target = h_id edge, sf_backend = h_id (ca_dest a), sf_deployment = None,
     sf_project = Some (ca_dest_name a), sf_label = Some (before CHR ''.'' fqdn), sf_managed = False, sf_via_proxy = Some True,
     sf_npm_hint = (let h = py_str (jor (dget0 (dict_of (dget0 d ''npm'')) ''id'') (JStr [])) in if h = [] then None else Some h),
     sf_certificate = None, sf_external = ''none'', sf_notes = Some ''Adopted from NPM proxy-host binding on migrate'',
     sf_record = None, sf_sync_now = False\<rparr>"

definition adopt_one :: "'w cut_env \<Rightarrow> cut_args \<Rightarrow> fleet_host \<Rightarrow> dict \<Rightarrow> dict list \<Rightarrow> ('w, dict list) cut_act" where
  "adopt_one e a edge d out =
     (let fqdn = strip (py_str (jor (dget0 d ''fqdn'') (JStr []))); key = normalize_fqdn (Some fqdn) in
      if dget0 d ''action'' \<noteq> JStr ''npm'' \<or> \<not> truthy (dget0 d ''from_binding'') \<or> key = [] then ret (out @ [d])
      else seq (reading (\<lambda>f. list_ex (\<lambda>r. dr_fqdn r = key) (fb_records f))) (\<lambda>there.
        if there then andalso (tell e (''Adopt fabric skip '' @ fqdn @ '': already in DNS list'')) (ret (out @ [dset ''adopted'' (JBool False) d]))
        else andalso (tell e (''Adopt '' @ fqdn @ '' into fabric via_proxy'' @ arrow @ h_name edge @ '' (no cert, Pi-hole CNAME not rewritten)''))
         (andalso (as_cutover (upsert_service_record (dns_env.truncate e) None (adopt_form edge a fqdn d)))
          (ret (out @ [dset ''adopted'' (JBool True) d])))))"

section \<open>The edge itself\<close>

definition keep_dependent :: "'w cut_env \<Rightarrow> cut_args \<Rightarrow> dns_record \<Rightarrow> dict list \<Rightarrow> ('w, dict list) cut_act" where
  "keep_dependent e a r out =
     (let did = h_id (ca_dest a) in
      andalso (tell e (if dr_target r = did then ''Edge alias already dest for '' @ dr_fqdn r
        else ''Keep '' @ dr_fqdn r @ '' CNAME on NPM edge; fabric target'' @ arrow @ h_name (ca_dest a)))
      (ret (out @ [[(''fqdn'', JStr (dr_fqdn r)), (''action'', JStr ''keep_cname_on_edge''), (''target_server_id'', JInt did)]])))"

definition restart_one :: "'w cut_env \<Rightarrow> integration \<Rightarrow> pi_result list \<Rightarrow> ('w, pi_result list) cut_act" where
  "restart_one e r acc =
     (let item = (\<lambda>ok err. \<lparr>pr_id = in_id r, pr_name = in_name r, pr_ok = ok, pr_error = err, pr_present = False\<rparr>) in
      catching (andalso (with_world (andalso (dn_pihole e r PiLogin) (dn_pihole e r PiRestartDns))) (ret (acc @ [item True []])))
        (\<lambda>err. ret (acc @ [item False (take 200 err)])))"

definition fanout_pihole_restartdns :: "'w cut_env \<Rightarrow> ('w, pi_result list) cut_act" where
  "fanout_pihole_restartdns e = seq (reading (\<lambda>f. filter (\<lambda>r. in_type r = ''pihole'' \<and> in_enabled r) (fb_integrations f)))
     (\<lambda>rows. loop (restart_one e) rows [])"

definition restart_json :: "pi_result \<Rightarrow> json" where
  "restart_json r = JObj [(''id'', JInt (pr_id r)), (''name'', JStr (pr_name r)), (''ok'', JBool (pr_ok r)), (''error'', JStr (pr_error r))]"

definition restart_all :: "'w cut_env \<Rightarrow> bool \<Rightarrow> ('w, pi_result list) cut_act" where
  "restart_all e needed =
     (if \<not> needed then ret []
      else andalso (tell e (''Restarting Pi-hole DNS (all instances)'' @ [ellipsis]))
       (seq (fanout_pihole_restartdns e) (\<lambda>rs.
         let bad = filter (\<lambda>r. \<not> pr_ok r) rs in
         if bad \<noteq> [] then raise (CutoverError (''Pi-hole restartdns failed: ''
           @ join ''; '' (map (\<lambda>r. pr_name r @ '':'' @ (if pr_error r \<noteq> [] then pr_error r else ''fail'')) bad)))
         else ret rs)))"

section \<open>The cutover\<close>

definition cut_args_of ::
    "fabric \<Rightarrow> fleet_host \<Rightarrow> fleet_host \<Rightarrow> string \<Rightarrow> string option \<Rightarrow> (string \<times> string) list \<Rightarrow> move_exc + cut_args" where
  "cut_args_of f source dest project dest_project pm =
     (case compose_project_name (Some project) of
        Inl m \<Rightarrow> Inl (LockedError m)
      | Inr nm \<Rightarrow> (case compose_project_name (Some (if text0 dest_project \<noteq> [] then text0 dest_project else project)) of
          Inl m \<Rightarrow> Inl (LockedError m)
        | Inr dn \<Rightarrow> rbind (npm_hosts_cached f) (\<lambda>(hosts, n). Inr \<lparr>ca_source = source, ca_dest = dest, ca_name = nm,
            ca_dest_name = dn, ca_port_map = pm, ca_hosts = hosts\<rparr>)))"

definition project_rows :: "fabric \<Rightarrow> fleet_host \<Rightarrow> fleet_host \<Rightarrow> string \<Rightarrow> dns_record list" where
  "project_rows f source dest nm = dns_rows f (h_id source) nm (Some (h_id dest))"

definition edge_moves_along :: "fabric \<Rightarrow> cut_args \<Rightarrow> move_exc + bool" where
  "edge_moves_along f a = is_npm_edge_project f (h_id (ca_source a)) (ca_name a) (project_rows f (ca_source a) (ca_dest a) (ca_name a))"

definition cut_bindings :: "'w cut_env \<Rightarrow> cut_args \<Rightarrow> cut_scan \<Rightarrow> ('w, cut_scan) cut_act" where
  "cut_bindings e a c = seq (from_rows (\<lambda>f. npm_proxy_hosts_for_project f (ca_name a))) (\<lambda>hs. loop (cut_bound e a) hs c)"

definition adopt_all :: "'w cut_env \<Rightarrow> cut_args \<Rightarrow> dict list \<Rightarrow> ('w, dict list) cut_act" where
  "adopt_all e a out = seq (from_rows npm_edge_server) (\<lambda>edge. case edge of
     None \<Rightarrow> andalso (tell e ''Adopt fabric skipped: no NPM edge host in fabric'') (ret out)
   | Some h \<Rightarrow> loop (adopt_one e a h) out [])"

definition move_edge_names :: "'w cut_env \<Rightarrow> cut_args \<Rightarrow> int list \<Rightarrow> dict list \<Rightarrow> ('w, dict list) cut_act" where
  "move_edge_names e a skip out =
     seq (reading (\<lambda>f. npm_edge_dependents f (h_id (ca_source a)) (Some (h_id (ca_dest a))) skip)) (\<lambda>deps.
     seq (loop (keep_dependent e a) deps out) (\<lambda>out1.
     andalso (as_cutover (commit_rows (\<lambda>f. f\<lparr>fb_records := map (\<lambda>r. if dr_id r \<in> set (map dr_id deps)
         then r\<lparr>dr_target := h_id (ca_dest a)\<rparr> else r) (fb_records f)\<rparr>)))
     (ret out1)))"

definition retarget_dns_npm ::
    "'w cut_env \<Rightarrow> fleet_host \<Rightarrow> fleet_host \<Rightarrow> string \<Rightarrow> string option \<Rightarrow> (string \<times> string) list \<Rightarrow> bool \<Rightarrow> ('w, json) cut_act" where
  "retarget_dns_npm e source dest project dest_project pm adopt =
     seq (from_rows (\<lambda>f. cut_args_of f source dest project dest_project pm)) (\<lambda>a.
     seq (from_rows (\<lambda>f. edge_moves_along f a)) (\<lambda>edge.
     seq (reading (\<lambda>f. project_rows f source dest (ca_name a))) (\<lambda>rows.
     seq (loop (cut_record e a) rows \<lparr>cs_out = [], cs_restart = False\<rparr>) (\<lambda>c.
     seq (if edge then ret c else cut_bindings e a c) (\<lambda>c1.
     seq (if adopt \<and> \<not> edge then adopt_all e a (cs_out c1) else ret (cs_out c1)) (\<lambda>out.
     andalso (if out = [] then tell e ''No DNS fabric rows or NPM proxy hosts for this project'' else ret ())
     (seq (if edge then move_edge_names e a (map dr_id rows) out else ret out) (\<lambda>out1.
     seq (restart_all e (cs_restart c1)) (\<lambda>ftl.
     ret (JObj [(''ok'', JBool True), (''records'', JList (map JObj out1)), (''restartdns'', JList (map restart_json ftl))]))))))))))"

end
