(* ===== verification/MoveValidate.thy ===== *)
theory MoveValidate
  imports MoveCutover
begin

text \<open>
  \<open>app/services/service_migrate/validate.py\<close>: when the rows of a project are on the destination, its names with
  a certificate are probed over TLS and its monitors are polled once more. A probe that fails or a monitor that is down
  raises; nothing is rolled back.
\<close>

section \<open>The probes\<close>

text \<open>
  From outside: the fingerprints of the certificates (a Move never writes them), the TLS probe of a URL against a
  fingerprint, and a poll with what it gave its bindings (its exceptions are swallowed). Of the columns a poll writes,
  the ones shown to the user are followed; the cached answer in \<open>external_meta_json\<close> is not read again by a Move.
\<close>

record polled =
  po_state :: "string option"
  po_label :: "string option"
  po_message :: "string option"

record 'w probe_env =
  pe_log :: "string \<Rightarrow> 'w \<Rightarrow> 'w"
  pe_prints :: "(int \<times> string option) list"
  pe_tls :: "string \<Rightarrow> string \<Rightarrow> ('w, move_exc, json) act"
  pe_poll :: "int \<Rightarrow> 'w \<Rightarrow> 'w \<times> (int \<times> polled) list"

definition probe_log :: "'w probe_env \<Rightarrow> string \<Rightarrow> ('w, unit) cut_act" where
  "probe_log e msg = touch (\<lambda>(f, w). (f, pe_log e msg w))"

record tls_row =
  tr_fqdn :: string
  tr_ok :: bool
  tr_status :: json
  tr_message :: string

record name_scan =
  ns_seen :: "string list"
  ns_tls :: "tls_row list"

definition has_certificate :: "dns_record \<Rightarrow> bool" where
  "has_certificate r = (dr_certificate r \<noteq> None \<and> dr_certificate r \<noteq> Some 0)"

definition fingerprint_of :: "'w probe_env \<Rightarrow> int \<Rightarrow> string" where
  "fingerprint_of e cid = (case map_of (pe_prints e) cid of None \<Rightarrow> [] | Some p \<Rightarrow> strip (text0 p))"

definition tls_row_of :: "string \<Rightarrow> json \<Rightarrow> tls_row" where
  "tls_row_of fqdn res = \<lparr>tr_fqdn = fqdn, tr_ok = truthy (field res ''ok''),
     tr_status = jor (field res ''status'') (JStr (if truthy (field res ''ok'') then ''ok'' else ''failed'')),
     tr_message = take 300 (str_field res ''message'')\<rparr>"

definition probe_name :: "'w probe_env \<Rightarrow> dns_record \<Rightarrow> name_scan \<Rightarrow> ('w, name_scan) cut_act" where
  "probe_name e r c =
     (let fqdn = dr_fqdn r; c1 = c\<lparr>ns_seen := fqdn # ns_seen c\<rparr> in
      if fqdn \<in> set (ns_seen c) then ret c
      else if \<not> has_certificate r then ret c1
      else andalso (probe_log e (''TLS probe '' @ fqdn @ '' (SNI='' @ fqdn @ '')''))
       (seq (with_world (pe_tls e (''https://'' @ fqdn @ ''?sni='' @ fqdn) (fingerprint_of e (the (dr_certificate r))))) (\<lambda>res.
        let row = tls_row_of fqdn res; c2 = c1\<lparr>ns_tls := ns_tls c @ [row]\<rparr> in
        if tr_status row = JStr ''skipped''
        then andalso (probe_log e (''TLS skipped '' @ fqdn @ '': '' @ tr_message row)) (ret c2)
        else if \<not> tr_ok row
        then raise (ValidateError (''TLS probe failed for '' @ fqdn @ '': '' @ (if tr_message row \<noteq> [] then tr_message row else ''mismatch'')))
        else ret c2)))"

section \<open>The monitors\<close>

text \<open>What a poll of an integration writes to its bindings.\<close>

definition with_poll :: "polled \<Rightarrow> bind_to \<Rightarrow> bind_to" where
  "with_poll p b = b\<lparr>bd_state := po_state p, bd_label := po_label p, bd_message := po_message p\<rparr>"

definition set_states :: "int \<Rightarrow> (int \<times> polled) list \<Rightarrow> fabric \<Rightarrow> fabric" where
  "set_states iid st f = f\<lparr>fb_bindings := map (\<lambda>b. case map_of st (bd_id b) of
       Some v \<Rightarrow> if bd_integration b = iid then with_poll v b else b
     | None \<Rightarrow> b) (fb_bindings f)\<rparr>"

definition poll_states :: "'w probe_env \<Rightarrow> int \<Rightarrow> ('w, unit) cut_act" where
  "poll_states e iid = touch (\<lambda>(f, w). case pe_poll e iid w of (w', st) \<Rightarrow> (set_states iid st f, w'))"

definition service_binds :: "fabric \<Rightarrow> int \<Rightarrow> string \<Rightarrow> bind_to list" where
  "service_binds f did project =
     filter (\<lambda>b. bd_server b = did \<and> bd_role b = ''service'' \<and> bd_project b = Some project) (fb_bindings f)"

definition monitor_state :: "bind_to \<Rightarrow> string" where
  "monitor_state b = lower (strip (text0 (bd_state b)))"

definition monitor_label :: "bind_to \<Rightarrow> string" where
  "monitor_label b = (if text0 (bd_label b) \<noteq> [] then text0 (bd_label b) else bd_external_id b)"

definition monitor_json :: "bind_to \<Rightarrow> json" where
  "monitor_json b = JObj [(''binding_id'', JInt (bd_id b)), (''label'', JStr (monitor_label b)),
     (''state'', JStr (if monitor_state b \<noteq> [] then monitor_state b else ''unknown''))]"

record poll_scan =
  ps_polled :: "int list"
  ps_kuma :: "json list"

text \<open>\<open>session.refresh(b)\<close> reads the row again.\<close>

definition refreshed :: "bind_to \<Rightarrow> fabric \<Rightarrow> move_exc + bind_to" where
  "refreshed b f = (case get_row bd_id (bd_id b) (fb_bindings f) of
     Some b' \<Rightarrow> Inr b' | None \<Rightarrow> Inl (OtherError ''Could not refresh instance''))"

definition poll_monitor :: "'w probe_env \<Rightarrow> bind_to \<Rightarrow> poll_scan \<Rightarrow> ('w, poll_scan) cut_act" where
  "poll_monitor e b c =
     (let iid = bd_integration b; new = (iid \<noteq> 0 \<and> iid \<notin> set (ps_polled c));
          c1 = (if new then c\<lparr>ps_polled := iid # ps_polled c\<rparr> else c) in
      andalso (if new then poll_states e iid else ret ())
      (seq (from_rows (refreshed b)) (\<lambda>b'.
       let state = monitor_state b'; label = monitor_label b'; c2 = c1\<lparr>ps_kuma := ps_kuma c @ [monitor_json b']\<rparr> in
       if state = ''down'' then raise (ValidateError (''Kuma monitor '' @ label @ '' is down after migrate''))
       else if state \<noteq> [] \<and> state \<notin> {''up'', ''maintenance''}
       then andalso (probe_log e (''Kuma '' @ label @ '' state='' @ state @ '' (not failing the job)'')) (ret c2)
       else ret c2)))"

section \<open>The validation\<close>

definition probed_rows :: "fabric \<Rightarrow> int \<Rightarrow> int \<Rightarrow> string \<Rightarrow> dns_record list" where
  "probed_rows f sid did nm = dns_rows f did nm None @ dns_rows f sid nm None"

definition tls_json :: "tls_row \<Rightarrow> json" where
  "tls_json r = JObj [(''fqdn'', JStr (tr_fqdn r)), (''ok'', JBool (tr_ok r)), (''status'', tr_status r), (''message'', JStr (tr_message r))]"

definition valid_name :: "string \<Rightarrow> move_exc + string" where
  "valid_name project = (case compose_project_name (Some project) of Inl m \<Rightarrow> Inl (LockedError m) | Inr nm \<Rightarrow> Inr nm)"

definition validate_migrate :: "'w probe_env \<Rightarrow> int \<Rightarrow> int \<Rightarrow> string \<Rightarrow> ('w, json) cut_act" where
  "validate_migrate e sid did project =
     seq (from_rows (\<lambda>f. valid_name project)) (\<lambda>nm.
     seq (reading (\<lambda>f. probed_rows f sid did nm)) (\<lambda>recs.
     seq (loop (probe_name e) recs \<lparr>ns_seen = [], ns_tls = []\<rparr>) (\<lambda>c.
     seq (reading (\<lambda>f. service_binds f did nm)) (\<lambda>binds.
     seq (loop (poll_monitor e) binds \<lparr>ps_polled = [], ps_kuma = []\<rparr>) (\<lambda>p.
     ret (JObj [(''ok'', JBool True), (''tls'', JList (map tls_json (ns_tls c))), (''kuma'', JList (ps_kuma p))]))))))"

end
