(* ===== verification/DnsFacts.thy ===== *)
theory DnsFacts
  imports FabricDns
begin

text \<open>
  The DNS fabric as a state machine over its tables: what the parts of each operation do to the rows, and that
  every operation, however it ends and whatever the Pi-holes answer, leaves well-formed tables.
\<close>

section \<open>Parts\<close>

lemma wp_reading [wp_simps]: "wp (reading g) Q R s = Q (g (fst s)) s"
  by (simp add: wp_def reading_def)

lemma wp_commit_rows [wp_simps]:
  "wp (commit_rows g) Q R (f, w) = (if indexes_hold (g f) then Q () (g f, w) else R (DnsOther integrity_error) (f, w))"
  by (simp add: wp_def commit_rows_def with_rows_def commit_fabric_def)

lemma wp_with_world: "(\<And>v w. Q v (fst s, w)) \<Longrightarrow> (\<And>x w. R x (fst s, w)) \<Longrightarrow> wp (with_world m) Q R s"
  by (auto simp: wp_def with_world_def split: prod.split sum.split)

text \<open>One case after the other, with what selects it.\<close>

named_theorems wp_split "the weakest precondition of a choice, by its cases"

lemma wp_let [wp_split]: "(\<And>x. x = a \<Longrightarrow> wp (body x) Q R s) \<Longrightarrow> wp (let x = a in body x) Q R s"
  and wp_ifI [wp_split]: "(b \<Longrightarrow> wp m Q R s) \<Longrightarrow> (\<not> b \<Longrightarrow> wp n Q R s) \<Longrightarrow> wp (if b then m else n) Q R s"
  and wp_optionI [wp_split]: "(z = None \<Longrightarrow> wp m Q R s) \<Longrightarrow> (\<And>y. z = Some y \<Longrightarrow> wp (h y) Q R s)
    \<Longrightarrow> wp (case z of None \<Rightarrow> m | Some y \<Rightarrow> h y) Q R s"
  and wp_sumI [wp_split]: "(\<And>x. t = Inl x \<Longrightarrow> wp (l x) Q R s) \<Longrightarrow> (\<And>y. t = Inr y \<Longrightarrow> wp (r y) Q R s)
    \<Longrightarrow> wp (case t of Inl x \<Rightarrow> l x | Inr y \<Rightarrow> r y) Q R s"
  and wp_prodI [wp_split]: "(\<And>x y. u = (x, y) \<Longrightarrow> wp (c x y) Q R s) \<Longrightarrow> wp (case u of (x, y) \<Rightarrow> c x y) Q R s"
  and wp_readI [wp_split]: "wp (k (g (fst s))) Q R s \<Longrightarrow> wp (seq (reading g) k) Q R s"
  by (simp_all add: wp_simps split: option.split sum.split prod.split)

text \<open>Talking to the Pi-holes touches no row and never raises.\<close>

lemma wp_fanout:
  assumes "\<And>rs w. Q rs (fst s, w)"
  shows "wp (fanout_pihole_dns e oper) Q R s"
proof -
  have "wp (loop (fanout_one e oper) rows acc) (\<lambda>rs t. fst t = fst s) (\<lambda>x t. False) t" if "fst t = fst s" for rows acc t
    by (rule wp_loop [where I = "\<lambda>acc t. fst t = fst s", THEN wp_conseq])
      (use that in \<open>auto simp: fanout_one_def Let_def wp_simps intro!: wp_with_world\<close>)
  then have "wp (fanout_pihole_dns e oper) (\<lambda>rs t. fst t = fst s) (\<lambda>x t. False) s"
    by (simp add: fanout_pihole_dns_def wp_simps)
  then show ?thesis by (rule wp_conseq) (use assms in \<open>force+\<close>)
qed

lemma keeps_by_wp:
  assumes "\<And>s. P s \<Longrightarrow> wp m (\<lambda>v. P) (\<lambda>e. P) s"
  shows "keeps P m"
proof -
  have "P (fst (m s))" if "P s" for s
    using assms [OF that] by (cases "m s"; cases "snd (m s)") (auto simp: wp_def)
  then show ?thesis by (simp add: keeps_def)
qed

text \<open>An operation on the tables keeps what its commits keep.\<close>

definition row_keeps :: "(fabric \<Rightarrow> bool) \<Rightarrow> (fabric \<times> 'w, 'e, 'a) act \<Rightarrow> bool" where
  "row_keeps P m = keeps (\<lambda>s. P (fst s)) m"

named_theorems row_rules "an operation on the tables keeps a property of them"

lemma row_keeps_seq [row_rules]: "row_keeps P m \<Longrightarrow> (\<And>v. row_keeps P (g v)) \<Longrightarrow> row_keeps P (seq m g)"
  and row_keeps_ret [row_rules]: "row_keeps P (ret v)" and row_keeps_raise [row_rules]: "row_keeps P (raise x)"
  by (simp_all add: row_keeps_def keeps_rules)

lemma row_keeps_if [row_rules]: "(b \<Longrightarrow> row_keeps P m) \<Longrightarrow> (\<not> b \<Longrightarrow> row_keeps P n) \<Longrightarrow> row_keeps P (if b then m else n)"
  and row_keeps_let [row_rules]: "(\<And>x. x = a \<Longrightarrow> row_keeps P (k x)) \<Longrightarrow> row_keeps P (let x = a in k x)"
  and row_keeps_option [row_rules]: "(z = None \<Longrightarrow> row_keeps P m) \<Longrightarrow> (\<And>y. z = Some y \<Longrightarrow> row_keeps P (h y))
    \<Longrightarrow> row_keeps P (case z of None \<Rightarrow> m | Some y \<Rightarrow> h y)"
  and row_keeps_sum [row_rules]: "(\<And>x. t = Inl x \<Longrightarrow> row_keeps P (l x)) \<Longrightarrow> (\<And>y. t = Inr y \<Longrightarrow> row_keeps P (r y))
    \<Longrightarrow> row_keeps P (case t of Inl x \<Rightarrow> l x | Inr y \<Rightarrow> r y)"
  and row_keeps_prod [row_rules]: "(\<And>x y. u = (x, y) \<Longrightarrow> row_keeps P (c x y)) \<Longrightarrow> row_keeps P (case u of (x, y) \<Rightarrow> c x y)"
  by (simp_all split: option.split sum.split prod.split)

lemma row_keeps_reading [row_rules]: "row_keeps P (reading g)"
  by (simp add: row_keeps_def keeps_def reading_def)

lemma row_keeps_fanout [row_rules]: "row_keeps P (fanout_pihole_dns e oper)"
  unfolding row_keeps_def by (rule keeps_by_wp) (auto intro: wp_fanout)

lemma row_keeps_commit [row_rules]:
  "(\<And>f. P f \<Longrightarrow> indexes_hold (g f) \<Longrightarrow> P (g f)) \<Longrightarrow> row_keeps P (commit_rows g)"
  by (simp add: row_keeps_def keeps_def commit_rows_def with_rows_def commit_fabric_def)

lemma row_keeps_read_seq:
  "(\<And>f w. P f \<Longrightarrow> P (fst (fst (k (g f) (f, w))))) \<Longrightarrow> row_keeps P (seq (reading g) k)"
  by (simp add: row_keeps_def keeps_def seq_def reading_def)

lemma row_keeps_commit_seq:
  "row_keeps P k \<Longrightarrow> P f \<Longrightarrow> (indexes_hold (g f) \<Longrightarrow> P (g f)) \<Longrightarrow> P (fst (fst (andalso (commit_rows g) k (f, w))))"
  by (auto simp: row_keeps_def keeps_def seq_def commit_rows_def with_rows_def commit_fabric_def)

lemma row_keepsD: "row_keeps P m \<Longrightarrow> P f \<Longrightarrow> P (fst (fst (m (f, w))))"
  by (simp add: row_keeps_def keeps_def)

section \<open>Well-formed tables\<close>

definition named_host_fits :: "fleet_host \<Rightarrow> bool" where
  "named_host_fits h = ((case fh_dns_name h of None \<Rightarrow> \<not> fh_dns_manage_a h | Some n \<Rightarrow> is_valid_fqdn (Some n))
     \<and> (case fh_dns_ip_override h of None \<Rightarrow> True | Some ip \<Rightarrow> is_valid_ipv4 (Some ip)))"

definition record_ok :: "dns_record \<Rightarrow> bool" where
  "record_ok r = (is_valid_fqdn (Some (dr_fqdn r)) \<and> dr_record_type r \<in> {''a'', ''cname''}
     \<and> (dr_record_type r = ''a'' \<longrightarrow> \<not> dr_via_proxy r) \<and> dr_project r \<noteq> Some [] \<and> dr_external r \<noteq> [])"

definition hosts_ok :: "fleet_host list \<Rightarrow> bool" where
  "hosts_ok hs = (distinct (map h_id hs) \<and> list_all named_host_fits hs
     \<and> (\<forall>h\<in>set hs. \<forall>h'\<in>set hs. fh_dns_name h = fh_dns_name h' \<longrightarrow> fh_dns_name h = None \<or> h_id h = h_id h'))"

definition records_ok :: "int \<Rightarrow> dns_record list \<Rightarrow> bool" where
  "records_ok next rs = (distinct (map dr_id rs) \<and> list_all (\<lambda>r. 0 < dr_id r \<and> dr_id r < next \<and> record_ok r) rs \<and> 0 < next)"

definition fabric_ok :: "fabric \<Rightarrow> bool" where
  "fabric_ok f = (indexes_hold f \<and> hosts_ok (fb_hosts f) \<and> records_ok (fb_next_record f) (fb_records f))"

lemma fabric_ok_audit [simp]: "fabric_ok (add_dns_audit uid sid action st d f) = fabric_ok f"
  by (simp add: fabric_ok_def indexes_hold_def add_dns_audit_def)

lemma records_audit [simp]: "fb_records (add_dns_audit uid sid action st d f) = fb_records f"
  by (simp add: add_dns_audit_def)

lemma indexes_audit [simp]: "indexes_hold (add_dns_audit uid sid action st d f) = indexes_hold f"
  by (simp add: indexes_hold_def add_dns_audit_def)

lemma records_ok_upd:
  assumes "records_ok n rs" and "\<And>r. dr_id (g r) = dr_id r" and "\<And>r. r \<in> set rs \<Longrightarrow> record_ok r \<Longrightarrow> record_ok (g r)"
  shows "records_ok n (upd_row dr_id i g rs)"
  using assms upd_row_keys [of dr_id g i rs] by (auto simp: records_ok_def list_all_iff set_upd_row)

lemma fabric_ok_upd_record:
  assumes "fabric_ok f" and "indexes_hold (upd_record i g f)" and "\<And>r. dr_id (g r) = dr_id r"
    and "\<And>r. record_ok r \<Longrightarrow> record_ok (g r)"
  shows "fabric_ok (upd_record i g f)"
  using assms records_ok_upd [of "fb_next_record f" "fb_records f" g i] by (simp add: fabric_ok_def upd_record_def)

lemma fabric_ok_fewer:
  "fabric_ok f \<Longrightarrow> fabric_ok (f\<lparr>fb_records := filter p (fb_records f)\<rparr>)"
  by (auto simp: fabric_ok_def indexes_hold_def records_ok_def distinct_map_filter list_all_iff)

section \<open>Syncs\<close>

lemma synced_ok: "record_ok r \<Longrightarrow> dr_record_type shape \<in> {''a'', ''cname''} \<Longrightarrow> (dr_record_type shape = ''a'' \<longrightarrow> \<not> dr_via_proxy shape)
   \<Longrightarrow> record_ok (synced shape st det t r)"
  by (auto simp: record_ok_def synced_def)

lemma finish_sync_ok:
  assumes "dr_record_type shape \<in> {''a'', ''cname''}" and "dr_record_type shape = ''a'' \<longrightarrow> \<not> dr_via_proxy shape"
  shows "row_keeps fabric_ok (finish_sync e uid shape action extra results)"
  unfolding finish_sync_def
  by (auto simp: Let_def split_beta intro!: row_rules fabric_ok_upd_record synced_ok assms) (simp_all add: synced_def)

lemma sync_service_ok [row_rules]: "row_keeps fabric_ok (sync_service_dns e uid r)"
  unfolding sync_service_dns_def
  by (auto simp: Let_def split: option.split intro!: row_rules finish_sync_ok)

lemma sync_host_a_ok [row_rules]: "row_keeps fabric_ok (sync_host_a e uid h)"
  and remove_host_a_ok [row_rules]: "row_keeps fabric_ok (remove_host_a e uid h d ip)"
  unfolding sync_host_a_def remove_host_a_def
  by (auto simp: Let_def split_beta intro!: row_rules)

lemma push_host_ok [row_rules]: "row_keeps fabric_ok (push_host e uid old h sync_now)"
  unfolding push_host_def by (auto simp: Let_def split: prod.split intro!: row_rules)

section \<open>The operations\<close>

text \<open>The name of a host: the row is written only when no other host has the name.\<close>

lemma named_host_ok:
  assumes "name \<noteq> [] \<Longrightarrow> is_valid_fqdn (Some name)"
    and "strip (text0 (hd_override q)) \<noteq> [] \<Longrightarrow> is_valid_ipv4 (Some (strip (text0 (hd_override q))))"
  shows "named_host_fits (named_host name q h)"
  using assms by (auto simp: named_host_fits_def named_host_def)

lemma named_hosts_ok:
  assumes ok: "hosts_ok hs" and "\<And>h. named_host_fits (named_host name q h)" and free: "\<And>h. name \<noteq> [] \<Longrightarrow> h \<in> set hs \<Longrightarrow> fh_dns_name h = Some name \<Longrightarrow> h_id h = i"
  shows "hosts_ok (upd_row h_id i (named_host name q) hs)"
proof -
  have id: "h_id (named_host name q h) = h_id h" for h by (simp add: named_host_def)
  have name': "name = [] \<Longrightarrow> fh_dns_name (named_host [] q h) = None" "name \<noteq> [] \<Longrightarrow> fh_dns_name (named_host name q h) = Some name" for h by (simp_all add: named_host_def)
  have "fh_dns_name h = None \<or> h_id h = h_id h'" if "h \<in> set (upd_row h_id i (named_host name q) hs)"
    "h' \<in> set (upd_row h_id i (named_host name q) hs)" "fh_dns_name h = fh_dns_name h'" for h h'
    using that ok free by (cases "name = []") (auto simp: hosts_ok_def set_upd_row id name' dest: sym [of "Some name"])
  then show ?thesis
    using ok assms(2) upd_row_keys [of h_id "named_host name q" i hs] id by (auto simp: hosts_ok_def list_all_iff set_upd_row)
qed

lemma settle_host_ok: "row_keeps fabric_ok (settle_host e uid old h now)"
  unfolding settle_host_def by (auto simp: split_beta intro!: row_rules)

lemma renamed_ok:
  assumes ok: "fabric_ok f" and valid: "name \<noteq> [] \<longrightarrow> is_valid_fqdn (Some name)"
    and free: "name \<noteq> [] \<longrightarrow> dns_name_taken f name i = None"
    and over: "strip (text0 (hd_override q)) \<noteq> [] \<longrightarrow> is_valid_ipv4 (Some (strip (text0 (hd_override q))))"
  shows "fabric_ok (upd_host i (named_host name q) f)"
proof -
  have "h_id h = i" if "name \<noteq> []" "h \<in> set (fb_hosts f)" "fh_dns_name h = Some name" for h
    using that free by (auto simp: dns_name_taken_def find_None_iff)
  then have "hosts_ok (upd_row h_id i (named_host name q) (fb_hosts f))"
    using ok valid over by (intro named_hosts_ok) (auto simp: fabric_ok_def intro: named_host_ok)
  then show ?thesis using ok by (simp add: fabric_ok_def upd_host_def indexes_hold_def)
qed

lemma update_server_dns_ok: "row_keeps fabric_ok (update_server_dns e uid old q)"
proof -
  have "wp (update_server_dns e uid old q) (\<lambda>v s. fabric_ok (fst s)) (\<lambda>x s. fabric_ok (fst s)) (f, w)" if "fabric_ok f" for f w
    unfolding update_server_dns_def using that
    by (intro wp_let) (auto simp: wp_simps simp del: text0_def split: option.split if_splits
        intro!: keeps_wp [OF settle_host_ok [unfolded row_keeps_def]] renamed_ok)
  then show ?thesis unfolding row_keeps_def by (intro keeps_by_wp) auto
qed

text \<open>The name of a service.\<close>

lemma filled_ok: "is_valid_fqdn (Some name) \<Longrightarrow> record_ok (filled name identity q t r)"
  by (auto simp: record_ok_def filled_def or_none_def external_status_def Let_def)

lemma put_record_ok:
  assumes "fabric_ok f" and "indexes_hold (put_record ro (filled name identity q t) f)" and "is_valid_fqdn (Some name)"
  shows "fabric_ok (put_record ro (filled name identity q t) f)"
proof (cases ro)
  case None
  have "dr_id r \<noteq> fb_next_record f" if "r \<in> set (fb_records f)" for r
    using assms(1) that by (auto simp: fabric_ok_def records_ok_def list_all_iff)
  then have "fb_next_record f \<notin> dr_id ` set (fb_records f)" by force
  then show ?thesis
    using assms filled_ok [OF assms(3), of identity q t "new_record (fb_next_record f)"] None
    by (auto simp: fabric_ok_def put_record_def records_ok_def list_all_iff) (auto simp: filled_def new_record_def)
next
  case (Some r)
  then show ?thesis using assms filled_ok [OF assms(3)]
    by (auto simp: put_record_def intro!: fabric_ok_upd_record) (simp add: filled_def)
qed

lemma settle_record_ok [row_rules]: "row_keeps fabric_ok (settle_record e uid q identity oldf oldt t b row)"
  unfolding settle_record_def by (intro row_rules) auto

lemma upsert_ok: "row_keeps fabric_ok (upsert_service_record e uid q)"
  unfolding upsert_service_record_def by (intro row_rules) (auto intro: put_record_ok)

lemma delete_service_ok: "row_keeps fabric_ok (delete_service_record e uid r remove)"
proof -
  have "fabric_ok ((add_dns_audit i sid act st d f)\<lparr>fb_records := filter p (fb_records f)\<rparr>)" if "fabric_ok f" for i sid act st d p and f :: fabric
    using fabric_ok_fewer [of "add_dns_audit i sid act st d f" p] that by simp
  then show ?thesis unfolding delete_service_record_def by (intro row_rules) auto
qed

lemma link_service_ok: "row_keeps fabric_ok (link_service_project e uid r proj mark_direct)"
proof -
  have "fabric_ok ((upd_record i g f)\<lparr>fb_audits := a\<rparr>)"
    if "fabric_ok f" "indexes_hold ((upd_record i g f)\<lparr>fb_audits := a\<rparr>)" "\<And>r. dr_id (g r) = dr_id r" "\<And>r. record_ok r \<Longrightarrow> record_ok (g r)"
    for i g a f
  proof -
    have "fabric_ok (upd_record i g f)" using that by (intro fabric_ok_upd_record) (auto simp: indexes_hold_def)
    then show ?thesis by (simp add: fabric_ok_def indexes_hold_def)
  qed
  note put = this
  show ?thesis unfolding link_service_project_def
    by (intro row_rules) (auto simp: Let_def record_ok_def intro!: put)
qed

lemma cleanup_ok: "fabric_ok f \<Longrightarrow> fabric_ok (fst (cleanup_dns_for_server sid f))"
  by (simp add: cleanup_dns_for_server_def Let_def fabric_ok_fewer)

section \<open>What an upsert changes\<close>

text \<open>Everything but the names, the audits and the number of the next row.\<close>

definition rest_same :: "fabric \<Rightarrow> fabric \<Rightarrow> bool" where
  "rest_same f f' = (f' = f\<lparr>fb_records := fb_records f', fb_next_record := fb_next_record f', fb_audits := fb_audits f'\<rparr>)"

text \<open>The row says what the form asks. (How it is looked up and the state of its sync are left open.)\<close>

definition as_asked :: "service_form \<Rightarrow> dns_record \<Rightarrow> bool" where
  "as_asked q r = (dr_fqdn r = normalize_fqdn (Some (sf_fqdn q)) \<and> dr_backend r = sf_backend q
     \<and> dr_target r \<in> {sf_target q, sf_backend q} \<and> dr_project r = or_none (sf_project q) \<and> dr_deployment r = sf_deployment q
     \<and> dr_label r = or_none (sf_label q) \<and> dr_managed r = sf_managed q \<and> dr_certificate r = sf_certificate q
     \<and> dr_npm_hint r = or_none (sf_npm_hint q) \<and> dr_external r = external_status (sf_external q) \<and> dr_notes r = sf_notes q)"

text \<open>Only the row with this number changed, and it says what the form asks.\<close>

definition put :: "service_form \<Rightarrow> int \<Rightarrow> fabric \<Rightarrow> fabric \<Rightarrow> bool" where
  "put q i f f' = (rest_same f f' \<and> (\<forall>k. k \<noteq> i \<longrightarrow> get_record f' k = get_record f k) \<and> (\<exists>x. get_record f' i = Some x \<and> as_asked q x))"

lemma rest_same_trans: "rest_same f g \<Longrightarrow> rest_same g h \<Longrightarrow> rest_same f h"
  by (cases f; cases g; cases h) (simp add: rest_same_def)

lemma rest_same_simps [simp]:
  "rest_same f f" "rest_same f (f\<lparr>fb_records := rs\<rparr>)" "rest_same f (upd_record i g f)"
  "rest_same f (add_dns_audit uid sid a st d f)" "rest_same f (put_record ro g f)"
  by (simp_all add: rest_same_def upd_record_def add_dns_audit_def put_record_def split: option.split)

lemma get_record_audit [simp]: "get_record (add_dns_audit uid sid a st d f) k = get_record f k"
  by (simp add: get_record_def)

lemma get_record_upd:
  "(\<And>r. dr_id (g r) = dr_id r) \<Longrightarrow> get_record (upd_record i g f) k = (if k = i then map_option g (get_record f i) else get_record f k)"
  by (simp add: get_record_def upd_record_def get_row_upd_same get_row_upd_other)

lemma put_audit: "put q i f f' \<Longrightarrow> put q i f (add_dns_audit uid sid a st d f')"
  by (auto simp: put_def intro: rest_same_trans)

lemma put_synced: "put q i f f' \<Longrightarrow> put q i f (upd_record i (synced shape st det t) f')"
  by (auto simp: put_def get_record_upd synced_def as_asked_def intro: rest_same_trans)

lemma put_sync_service [row_rules]:
  assumes "dr_id row = i"
  shows "row_keeps (put q i f) (sync_service_dns e uid row)"
  unfolding sync_service_dns_def finish_sync_def
  by (intro row_rules) (auto simp: assms intro!: put_audit put_synced)

lemma put_settle_record:
  assumes "dr_id row = i"
  shows "row_keeps (put q i f) (settle_record e uid q' identity oldf oldt t b row)"
  unfolding settle_record_def by (intro row_rules) (auto simp: assms intro!: put_audit)

text \<open>Which row an upsert writes.\<close>

definition row_of_form :: "fabric \<Rightarrow> service_form \<Rightarrow> int option" where
  "row_of_form f q = (case record_of_form f (normalize_fqdn (Some (sf_fqdn q))) (sf_record q) of
     Inl x \<Rightarrow> None | Inr None \<Rightarrow> Some (fb_next_record f) | Inr (Some r) \<Rightarrow> Some (dr_id r))"

lemma as_asked_filled: "name = normalize_fqdn (Some (sf_fqdn q)) \<Longrightarrow> as_asked q (filled name identity q t r)"
  by (simp add: as_asked_def filled_def)

lemma record_of_form_row:
  assumes "fabric_ok f" and "record_of_form f name rid = Inr (Some r)"
  shows "get_record f (dr_id r) = Some r"
proof -
  have "r \<in> set (fb_records f)"
    using assms(2) get_row_Some [of dr_id _ "fb_records f" r]
    by (auto simp: record_of_form_def Let_def get_record_def find_Some_iff split: option.splits if_splits)
  then show ?thesis using assms(1) by (simp add: get_record_def get_row_unique fabric_ok_def records_ok_def)
qed

lemma put_written:
  assumes "fabric_ok f" and "record_of_form f name rid = Inr ro" and "name = normalize_fqdn (Some (sf_fqdn q))"
  shows "put q (case ro of None \<Rightarrow> fb_next_record f | Some r \<Rightarrow> dr_id r) f (put_record ro (filled name identity q t) f)"
proof (cases ro)
  case None
  have "get_record f (fb_next_record f) = None"
    using assms(1) by (auto simp: get_record_def get_row_None fabric_ok_def records_ok_def list_all_iff)
  moreover have "dr_id (filled name identity q t (new_record (fb_next_record f))) = fb_next_record f"
    by (simp add: filled_def new_record_def)
  ultimately show ?thesis
    using None as_asked_filled [OF assms(3)] by (simp add: put_def put_record_def get_record_def get_row_append rest_same_def split: option.split)
next
  case (Some r)
  have "dr_id (filled name identity q t x) = dr_id x" for x by (simp add: filled_def)
  then show ?thesis
    using Some record_of_form_row [OF assms(1)] assms(2) as_asked_filled [OF assms(3)]
    by (simp add: put_def put_record_def get_record_upd)
qed

lemma settle_puts:
  assumes "put q i f f'" and "dr_id row = i" and "row_of_form f q = Some i"
  shows "wp (settle_record e uid q' identity oldf oldt t b row) (\<lambda>v s. \<exists>i. row_of_form f q = Some i \<and> put q i f (fst s))
     (\<lambda>x s. fst s = f \<or> (\<exists>i. row_of_form f q = Some i \<and> put q i f (fst s))) (f', w)"
  by (rule wp_conseq [OF keeps_wp [OF put_settle_record [OF assms(2), unfolded row_keeps_def]]]) (use assms in auto)

lemma upsert_puts:
  assumes ok: "fabric_ok f"
  shows "wp (upsert_service_record e uid q) (\<lambda>v s. \<exists>i. row_of_form f q = Some i \<and> put q i f (fst s))
     (\<lambda>x s. fst s = f \<or> (\<exists>i. row_of_form f q = Some i \<and> put q i f (fst s))) (f, w)"
proof -
  have row: "dr_id (filled name identity q t (case ro of None \<Rightarrow> new_record (fb_next_record f) | Some r \<Rightarrow> r))
      = (case ro of None \<Rightarrow> fb_next_record f | Some r \<Rightarrow> dr_id r)" for name identity t ro
    by (simp add: filled_def new_record_def split: option.split)
  have which: "row_of_form f q = Some (case ro of None \<Rightarrow> fb_next_record f | Some r \<Rightarrow> dr_id r)"
    if "record_of_form f (normalize_fqdn (Some (sf_fqdn q))) (sf_record q) = Inr ro" for ro
    using that by (simp add: row_of_form_def split: option.split)
  have core: "wp (andalso (commit_rows (put_record ro (filled name identity q t))) (settle_record e uid q identity oldf oldt to b
      (filled name identity q t (case ro of None \<Rightarrow> new_record (fb_next_record f) | Some r \<Rightarrow> r))))
      (\<lambda>v s. \<exists>i. row_of_form f q = Some i \<and> put q i f (fst s))
      (\<lambda>x s. fst s = f \<or> (\<exists>i. row_of_form f q = Some i \<and> put q i f (fst s))) (f, w)"
    if "record_of_form f name (sf_record q) = Inr ro" "name = normalize_fqdn (Some (sf_fqdn q))" for name identity t oldf oldt to b ro
    using that by (auto simp: wp_simps intro!: settle_puts put_written [OF ok] row which)
  show ?thesis
    unfolding upsert_service_record_def by (intro wp_split) (auto simp: wp_raise intro!: core)
qed

end
