(* ===== verification/CutoverFacts.thy ===== *)
theory CutoverFacts
  imports MoveCutover DnsFacts
begin

text \<open>
  What a cutover does to the names: whatever the proxies and the Pi-holes answer and wherever it stops, every
  name of the project is either as it was or moved, no other name changes but those that follow a moved
  edge, and a cutover that returns has moved them all.
\<close>

section \<open>Parts\<close>

lemma row_keeps_from_rows [row_rules]: "row_keeps P (from_rows g)"
  by (simp add: row_keeps_def keeps_def from_rows_def)

lemma row_keeps_tell [row_rules]: "row_keeps P (tell e msg)"
  by (simp add: row_keeps_def keeps_def tell_def touch_def split_beta)

lemma row_keeps_world [row_rules]: "row_keeps P (with_world m)"
  by (simp add: row_keeps_def keeps_def with_world_def split_beta)

lemma row_keeps_loop [row_rules]: "(\<And>x acc. x \<in> set xs \<Longrightarrow> row_keeps P (body x acc)) \<Longrightarrow> row_keeps P (loop body xs acc)"
  and row_keeps_catching [row_rules]: "row_keeps P m \<Longrightarrow> (\<And>x. row_keeps P (h x)) \<Longrightarrow> row_keeps P (catching m h)"
  and row_keeps_wrapped [row_rules]: "row_keeps P m \<Longrightarrow> row_keeps P (wrapped g m)"
  and row_keeps_as_cutover [row_rules]: "row_keeps P d \<Longrightarrow> row_keeps P (as_cutover d)"
  by (simp_all add: row_keeps_def keeps_rules as_cutover_def)

text \<open>The proxies and the Pi-holes see no row.\<close>

lemma row_keeps_put_npm [row_rules]: "row_keeps P (put_npm_backend e fqdn cached h port)"
  unfolding put_npm_backend_def put_on_def by (intro row_rules)

lemma row_keeps_restart [row_rules]: "row_keeps P (restart_all e needed)"
  unfolding restart_all_def fanout_pihole_restartdns_def restart_one_def by (intro row_rules)

lemma row_keeps_wp: "row_keeps P m \<Longrightarrow> P (fst s) \<Longrightarrow> wp m (\<lambda>v t. P (fst t)) (\<lambda>x t. P (fst t)) s"
  unfolding row_keeps_def by (rule keeps_wp)

text \<open>A step that touches no row, and what follows it.\<close>

lemma silent_seq:
  assumes "\<And>P. row_keeps P m" and "\<And>v t. fst t = fst s \<Longrightarrow> wp (k v) Q R t" and "\<And>x t. fst t = fst s \<Longrightarrow> R x t"
  shows "wp (seq m k) Q R s"
  by (rule wp_seqI [OF row_keeps_wp [OF assms(1), of "\<lambda>f. f = fst s"]]) (use assms(2,3) in auto)

lemmas silent_steps = silent_seq [OF row_keeps_tell] silent_seq [OF row_keeps_from_rows] silent_seq [OF row_keeps_put_npm]
  silent_seq [OF row_keeps_restart] silent_seq [OF row_keeps_reading]

lemma wp_and:
  assumes "wp m Q R s" and "wp m Q' R' s"
  shows "wp m (\<lambda>v t. Q v t \<and> Q' v t) (\<lambda>x t. R x t \<and> R' x t) s"
  using assms by (auto simp: wp_def split: prod.splits sum.splits)

text \<open>A loop, with what was done so far.\<close>

lemma wp_loop_done:
  assumes "I [] acc s"
    and "\<And>ds x rest acc s. xs = ds @ x # rest \<Longrightarrow> I ds acc s \<Longrightarrow> wp (body x acc) (I (ds @ [x])) R s"
  shows "wp (loop body xs acc) (I xs) R s"
proof -
  have "wp (loop body todo acc) (I xs) R s" if "xs = ds @ todo" "I ds acc s" for ds todo acc s
    using that
  proof (induction todo arbitrary: ds acc s)
    case Nil
    then show ?case by (simp add: wp_simps)
  next
    case (Cons x todo)
    have "wp (body x acc) (\<lambda>acc' s'. wp (loop body todo acc') (I xs) R s') R s"
      by (rule wp_conseq [OF assms(2) [OF Cons.prems]]) (use Cons.IH [of "ds @ [x]"] Cons.prems(1) in auto)
    then show ?case by (simp add: wp_simps)
  qed
  from this [of "[]" xs acc s] show ?thesis using assms(1) by simp
qed

section \<open>A cutover, anywhere\<close>

text \<open>The row of the project after its turn.\<close>

definition moved_to :: "cut_args \<Rightarrow> dns_record \<Rightarrow> dns_record \<Rightarrow> bool" where
  "moved_to a x x' = (dr_id x' = dr_id x \<and> dr_fqdn x' = normalize_fqdn (Some (dr_fqdn x)) \<and> dr_backend x' = h_id (ca_dest a)
     \<and> dr_project x' = Some (ca_dest_name a) \<and> dr_certificate x' = dr_certificate x \<and> dr_managed x' = dr_managed x
     \<and> dr_deployment x' = dr_deployment x
     \<and> (dr_target x' = h_id (ca_dest a) \<or> dr_via_proxy x \<and> dr_target x' = dr_target x))"

text \<open>Another row: only the target of a name that is reached through the moved edge may change.\<close>

definition kept_row :: "cut_args \<Rightarrow> dns_record \<Rightarrow> dns_record \<Rightarrow> bool" where
  "kept_row a x x' = (x' = x \<or> dr_via_proxy x \<and> dr_target x = h_id (ca_source a) \<and> x' = x\<lparr>dr_target := h_id (ca_dest a)\<rparr>)"

definition adopted_row :: "cut_args \<Rightarrow> dns_record \<Rightarrow> bool" where
  "adopted_row a x = (dr_backend x = h_id (ca_dest a) \<and> dr_project x = Some (ca_dest_name a) \<and> \<not> dr_managed x \<and> dr_certificate x = None)"

definition cut_ok :: "cut_args \<Rightarrow> fabric \<Rightarrow> dns_record list \<Rightarrow> fabric \<Rightarrow> bool" where
  "cut_ok a f0 rows f = (fabric_ok f \<and> rest_same f0 f
     \<and> (\<forall>x\<in>set (fb_records f0). \<exists>x'. get_record f (dr_id x) = Some x' \<and> (x \<in> set rows \<and> moved_to a x x' \<or> kept_row a x x'))
     \<and> (\<forall>k x'. get_record f k = Some x' \<longrightarrow> get_record f0 k = None \<longrightarrow> adopted_row a x'))"

definition is_moved :: "cut_args \<Rightarrow> fabric \<Rightarrow> dns_record \<Rightarrow> bool" where
  "is_moved a f x = (\<exists>x'. get_record f (dr_id x) = Some x' \<and> moved_to a x x')"

lemma same_row: "fabric_ok f \<Longrightarrow> x \<in> set (fb_records f) \<Longrightarrow> y \<in> set (fb_records f) \<Longrightarrow> dr_id x = dr_id y \<Longrightarrow> x = y"
  by (auto simp: fabric_ok_def records_ok_def distinct_map dest: inj_onD)

lemma record_there: "fabric_ok f \<Longrightarrow> x \<in> set (fb_records f) \<Longrightarrow> get_record f (dr_id x) = Some x"
  by (simp add: get_record_def get_row_unique fabric_ok_def records_ok_def)

lemma cut_ok_start: "fabric_ok f \<Longrightarrow> cut_ok a f rows f"
  by (auto simp: cut_ok_def kept_row_def record_there)

text \<open>The form of a row of the project, and the row it writes.\<close>

lemma form_as_asked:
  assumes "as_asked (record_form a r t proxied) x'" and "dr_id x' = dr_id r" and "or_none (Some (ca_dest_name a)) = Some (ca_dest_name a)"
    and "t = h_id (ca_dest a) \<or> dr_via_proxy r \<and> t = dr_target r"
  shows "moved_to a r x'"
  using assms by (auto simp: as_asked_def moved_to_def record_form_def)

lemma form_row: "row_of_form f q = Some i \<Longrightarrow> sf_record q = Some k \<Longrightarrow> k \<noteq> 0 \<Longrightarrow> i = k"
  by (auto simp: row_of_form_def record_of_form_def Let_def get_record_def dest: get_row_Some split: option.splits if_splits)

lemma cut_ok_put:
  assumes start: "fabric_ok f0" and ok: "cut_ok a f0 rows f" and rows: "set rows \<subseteq> set (fb_records f0)" and r: "r \<in> set rows"
    and p: "put (record_form a r t proxied) (dr_id r) f f'" and ok': "fabric_ok f'"
    and clean: "or_none (Some (ca_dest_name a)) = Some (ca_dest_name a)"
    and t: "t = h_id (ca_dest a) \<or> dr_via_proxy r \<and> t = dr_target r"
  shows "cut_ok a f0 rows f'" and "is_moved a f' r" and "y \<in> set rows \<Longrightarrow> is_moved a f y \<Longrightarrow> is_moved a f' y"
proof -
  obtain x' where x': "get_record f' (dr_id r) = Some x'" and st: "as_asked (record_form a r t proxied) x'"
    using p by (auto simp: put_def)
  have id: "dr_id x' = dr_id r" using x' get_row_Some [of dr_id] by (fastforce simp: get_record_def)
  note mv = form_as_asked [OF st id clean t]
  then show moved: "is_moved a f' r" using x' by (simp add: is_moved_def)
  have other: "get_record f' k = get_record f k" if "k \<noteq> dr_id r" for k using p that by (simp add: put_def)
  have "y = r" if "y \<in> set (fb_records f0)" "dr_id y = dr_id r" for y
    using same_row [OF start] that r rows by blast
  note same = this
  show "y \<in> set rows \<Longrightarrow> is_moved a f y \<Longrightarrow> is_moved a f' y"
    using moved same [of y] other [of "dr_id y"] rows by (cases "dr_id y = dr_id r") (auto simp: is_moved_def)
  have "rest_same f0 f'" using ok p by (auto simp: cut_ok_def put_def intro: rest_same_trans)
  moreover have "\<exists>z. get_record f' (dr_id x) = Some z \<and> (x \<in> set rows \<and> moved_to a x z \<or> kept_row a x z)" if "x \<in> set (fb_records f0)" for x
  proof (cases "dr_id x = dr_id r")
    case True
    then show ?thesis using same [OF that True] r mv x' by auto
  next
    case False
    then show ?thesis using ok that other [OF False] by (auto simp: cut_ok_def)
  qed
  moreover have "adopted_row a z" if "get_record f' k = Some z" "get_record f0 k = None" for k z
  proof -
    have "get_record f0 (dr_id r) = Some r" using record_there [OF start] r rows by blast
    then have "k \<noteq> dr_id r" using that(2) by auto
    then show ?thesis using ok that other by (simp add: cut_ok_def)
  qed
  ultimately show "cut_ok a f0 rows f'" using ok' by (simp add: cut_ok_def)
qed

section \<open>One record\<close>

text \<open>A record that is left alone.\<close>

definition own_name :: "cut_args \<Rightarrow> dns_record \<Rightarrow> bool" where
  "own_name a x = (is_host_identity_name (dr_fqdn x) (Some (ca_source a)) \<or> is_host_identity_name (dr_fqdn x) (Some (ca_dest a)))"

definition cut_upto :: "cut_args \<Rightarrow> fabric \<Rightarrow> dns_record list \<Rightarrow> dns_record list \<Rightarrow> fabric \<Rightarrow> bool" where
  "cut_upto a f0 rows ds f = (cut_ok a f0 rows f \<and> (\<forall>y\<in>set ds. own_name a y \<or> is_moved a f y))"

lemma upsert_cut:
  assumes start: "fabric_ok f0" and rows: "set rows \<subseteq> set (fb_records f0)" and ds: "set ds \<subseteq> set rows" and r: "r \<in> set rows"
    and clean: "or_none (Some (ca_dest_name a)) = Some (ca_dest_name a)"
    and t: "t = h_id (ca_dest a) \<or> dr_via_proxy r \<and> t = dr_target r" and pre: "cut_upto a f0 rows ds (fst s)"
  shows "wp (upsert_service_record e None (record_form a r t proxied)) (\<lambda>v s. cut_upto a f0 rows (ds @ [r]) (fst s))
    (\<lambda>x s. cut_ok a f0 rows (fst s)) s"
proof -
  obtain f w where s: "s = (f, w)" by (cases s)
  have ok: "cut_ok a f0 rows f" "fabric_ok f" and dn: "\<And>y. y \<in> set ds \<Longrightarrow> own_name a y \<or> is_moved a f y"
    using pre by (auto simp: s cut_upto_def cut_ok_def)
  have "0 < dr_id r" using start r rows by (auto simp: fabric_ok_def records_ok_def list_all_iff)
  then have row: "i = dr_id r" if "row_of_form f (record_form a r t proxied) = Some i" for i
    using form_row [OF that, of "dr_id r"] by (simp add: record_form_def)
  have next_ok: "cut_upto a f0 rows (ds @ [r]) f'" "cut_ok a f0 rows f'"
    if "put (record_form a r t proxied) (dr_id r) f f'" "fabric_ok f'" for f'
    using cut_ok_put [OF start ok(1) rows r that clean t] dn ds by (auto simp: cut_upto_def)
  show ?thesis
    unfolding s
    by (rule wp_conseq [OF wp_and [OF upsert_puts [OF ok(2), where e = e and uid = None]
          row_keeps_wp [OF upsert_ok, where s = "(f, w)"]]]) (use ok next_ok row in auto)
qed

lemma cut_record_step:
  assumes "fabric_ok f0" and "set rows \<subseteq> set (fb_records f0)" and "set ds \<subseteq> set rows" and r: "r \<in> set rows"
    and "or_none (Some (ca_dest_name a)) = Some (ca_dest_name a)" and pre: "cut_upto a f0 rows ds (fst s)"
  shows "wp (cut_record e a r c) (\<lambda>c' s. cut_upto a f0 rows (ds @ [r]) (fst s)) (\<lambda>x s. cut_ok a f0 rows (fst s)) s"
proof -
  have up: "wp (seq (as_cutover (upsert_service_record (dns_env.truncate e) None (record_form a r t proxied))) k) Q (\<lambda>x s. cut_ok a f0 rows (fst s)) s"
    if "cut_upto a f0 rows ds (fst s)" "t = h_id (ca_dest a) \<or> dr_via_proxy r \<and> t = dr_target r"
      "\<And>v t. cut_upto a f0 rows (ds @ [r]) (fst t) \<Longrightarrow> wp (k v) Q (\<lambda>x s. cut_ok a f0 rows (fst s)) t" for t proxied k Q s
    unfolding as_cutover_def
    by (rule wp_seqI, simp only: wp_wrapped, rule upsert_cut [OF assms(1-3) r assms(5) that(2,1)]) (use that(3) in auto)
  have fan: "row_keeps P (if b then seq (as_cutover (fanout_pihole_dns (dns_env.truncate e) oper)) (\<lambda>_. ret ()) else ret ())" for P b oper
    by (intro row_rules)
  have skip: "cut_upto a f0 rows (ds @ [r]) f" if "own_name a r" "cut_upto a f0 rows ds f" for f
    using that by (auto simp: cut_upto_def)
  have stop: "cut_ok a f0 rows f" if "cut_upto a f0 rows ds f" for f using that by (simp add: cut_upto_def)
  have own: "is_host_identity_name (dr_fqdn r) (Some (ca_source a)) \<or> is_host_identity_name (dr_fqdn r) (Some (ca_dest a)) \<Longrightarrow> own_name a r"
    by (simp add: own_name_def)
  show ?thesis
    unfolding cut_record_def cut_proxied_def cut_direct_def
    by (intro wp_split silent_steps silent_seq [OF fan] up)
      (auto simp: wp_simps pre stop skip own)
qed

section \<open>After the records\<close>

lemma row_keeps_bindings [row_rules]: "row_keeps P (cut_bindings e a c)"
  unfolding cut_bindings_def cut_bound_def by (intro row_rules)

lemma adopt_row:
  assumes "row_of_form f (adopt_form edge a fqdn d) = Some i" and "\<not> list_ex (\<lambda>r. dr_fqdn r = normalize_fqdn (Some fqdn)) (fb_records f)"
  shows "i = fb_next_record f"
proof -
  have "find (\<lambda>r. dr_fqdn r = normalize_fqdn (Some fqdn)) (fb_records f) = None"
    using assms(2) by (simp add: find_None_iff list_ex_iff)
  then show ?thesis using assms(1) by (simp add: row_of_form_def record_of_form_def adopt_form_def)
qed

lemma cut_upto_new:
  assumes pre: "cut_upto a f0 rows ds f" and rows: "set ds \<subseteq> set (fb_records f0)" and p: "put (adopt_form edge a fqdn d) (fb_next_record f) f f'"
    and ok: "fabric_ok f'" and clean: "or_none (Some (ca_dest_name a)) = Some (ca_dest_name a)"
  shows "cut_upto a f0 rows ds f'"
proof -
  have pre': "fabric_ok f" "rest_same f0 f" "\<And>k x'. get_record f k = Some x' \<Longrightarrow> get_record f0 k = None \<Longrightarrow> adopted_row a x'"
    and there: "\<And>x. x \<in> set (fb_records f0) \<Longrightarrow> \<exists>x'. get_record f (dr_id x) = Some x' \<and> (x \<in> set rows \<and> moved_to a x x' \<or> kept_row a x x')"
    using pre by (auto simp: cut_upto_def cut_ok_def)
  obtain z where z: "get_record f' (fb_next_record f) = Some z" "as_asked (adopt_form edge a fqdn d) z" using p by (auto simp: put_def)
  have new: "adopted_row a z" using z(2) clean by (auto simp: adopted_row_def as_asked_def adopt_form_def)
  have other: "get_record f' k = get_record f k" if "k \<noteq> fb_next_record f" for k using p that by (simp add: put_def)
  have "dr_id x \<noteq> fb_next_record f" if x: "x \<in> set (fb_records f0)" for x
  proof
    assume "dr_id x = fb_next_record f"
    then obtain x' where "x' \<in> set (fb_records f)" "dr_id x' = fb_next_record f"
      using there [OF x] get_row_Some [of dr_id] by (fastforce simp: get_record_def)
    then show False using pre'(1) by (auto simp: fabric_ok_def records_ok_def list_all_iff)
  qed
  note old = other [OF this]
  have "adopted_row a x'" if "get_record f' k = Some x'" "get_record f0 k = None" for k x'
    using that pre'(3) new z(1) other by (cases "k = fb_next_record f") auto
  moreover have "rest_same f0 f'" using pre'(2) p by (auto simp: put_def intro: rest_same_trans)
  ultimately have "cut_ok a f0 rows f'" using ok there old by (auto simp: cut_ok_def)
  moreover have "own_name a y \<or> is_moved a f' y" if "y \<in> set ds" for y
  proof -
    have "y \<in> set (fb_records f0)" using that rows by blast
    then show ?thesis using pre that old [of y] by (auto simp: cut_upto_def is_moved_def)
  qed
  ultimately show ?thesis by (simp add: cut_upto_def)
qed

lemma adopt_step:
  assumes rows: "set ds \<subseteq> set (fb_records f0)" and clean: "or_none (Some (ca_dest_name a)) = Some (ca_dest_name a)"
    and pre: "cut_upto a f0 rows ds (fst s)"
  shows "wp (adopt_one e a edge d out) (\<lambda>v s. cut_upto a f0 rows ds (fst s)) (\<lambda>x s. cut_ok a f0 rows (fst s)) s"
proof -
  have stop: "cut_ok a f0 rows f" if "cut_upto a f0 rows ds f" for f using that by (simp add: cut_upto_def)
  have up: "wp (seq (as_cutover (upsert_service_record (dns_env.truncate e) None (adopt_form edge a fqdn d))) k) Q (\<lambda>x s. cut_ok a f0 rows (fst s)) s"
    if s: "cut_upto a f0 rows ds (fst s)" "\<not> list_ex (\<lambda>r. dr_fqdn r = normalize_fqdn (Some fqdn)) (fb_records (fst s))"
      "\<And>v t. cut_upto a f0 rows ds (fst t) \<Longrightarrow> wp (k v) Q (\<lambda>x s. cut_ok a f0 rows (fst s)) t" for fqdn k Q s
  proof -
    obtain f w where fw: "s = (f, w)" by (cases s)
    have ok: "fabric_ok f" using s(1) by (simp add: fw cut_upto_def cut_ok_def)
    have new: "cut_upto a f0 rows ds f'" if "put (adopt_form edge a fqdn d) i f f'" "row_of_form f (adopt_form edge a fqdn d) = Some i" "fabric_ok f'" for i f'
      using cut_upto_new [OF _ rows _ that(3) clean, of rows f edge fqdn d] that(1) adopt_row [OF that(2)] s(1,2) by (simp add: fw)
    have "wp (upsert_service_record (dns_env.truncate e) None (adopt_form edge a fqdn d)) (\<lambda>v t. cut_upto a f0 rows ds (fst t)) (\<lambda>x t. cut_ok a f0 rows (fst t)) s"
      unfolding fw
      by (rule wp_conseq [OF wp_and [OF upsert_puts [OF ok, where e = "dns_env.truncate e" and uid = None]
            row_keeps_wp [OF upsert_ok, where s = "(f, w)"]]]) (use ok new stop s(1) in \<open>auto simp: fw\<close>)
    then show ?thesis unfolding as_cutover_def by (intro wp_seqI [OF _ s(3)]) (auto simp: wp_wrapped)
  qed
  show ?thesis
    unfolding adopt_one_def by (intro wp_split silent_steps up) (auto simp: wp_simps pre stop)
qed

text \<open>The names reached through a moved edge.\<close>

lemma get_row_all: "(\<And>r. key (g r) = key r) \<Longrightarrow> get_row key k (map g rs) = map_option g (get_row key k rs)"
  by (induction rs) (auto simp: get_row_def)

lemma edge_names_cut:
  assumes pre: "cut_upto a f0 rows ds f" and rows: "set ds \<subseteq> set rows"
    and ids: "D = dr_id ` set (npm_edge_dependents f (h_id (ca_source a)) (Some (h_id (ca_dest a))) (map dr_id rows))"
    and f': "f' = f\<lparr>fb_records := map (\<lambda>r. if dr_id r \<in> D then r\<lparr>dr_target := h_id (ca_dest a)\<rparr> else r) (fb_records f)\<rparr>"
    and idx: "indexes_hold f'"
  shows "cut_upto a f0 rows ds f'"
proof -
  let ?g = "\<lambda>r. if dr_id r \<in> D then r\<lparr>dr_target := h_id (ca_dest a)\<rparr> else r"
  have ok: "fabric_ok f" and same: "rest_same f0 f" and new: "\<And>k x'. get_record f k = Some x' \<Longrightarrow> get_record f0 k = None \<Longrightarrow> adopted_row a x'"
    and there: "\<And>x. x \<in> set (fb_records f0) \<Longrightarrow> \<exists>x'. get_record f (dr_id x) = Some x' \<and> (x \<in> set rows \<and> moved_to a x x' \<or> kept_row a x x')"
    using pre by (auto simp: cut_upto_def cut_ok_def)
  have get: "get_record f' k = map_option ?g (get_record f k)" for k
    unfolding f' get_record_def by (simp add: get_row_all)
  have dep: "dr_via_proxy x \<and> dr_target x \<in> {h_id (ca_source a), h_id (ca_dest a)}" if x: "get_record f k = Some x" "dr_id x \<in> D" for k x
  proof -
    obtain y where y: "y \<in> set (npm_edge_dependents f (h_id (ca_source a)) (Some (h_id (ca_dest a))) (map dr_id rows))" "dr_id y = dr_id x"
      using x(2) ids by auto
    have "y \<in> set (fb_records f)" "dr_via_proxy y \<and> dr_target y \<in> {h_id (ca_source a), h_id (ca_dest a)}"
      using y(1) by (auto simp: npm_edge_dependents_def Let_def split: if_splits)
    moreover have "x \<in> set (fb_records f)" using x(1) get_row_Some by (fastforce simp: get_record_def)
    ultimately show ?thesis using same_row [OF ok, of y x] y(2) by simp
  qed
  have out: "dr_id x \<notin> D" if "x \<in> set rows" for x
  proof -
    have "dr_id x \<in> dr_id ` set rows" using that by (rule imageI)
    then show ?thesis using ids by (auto simp: npm_edge_dependents_def Let_def)
  qed
  have "\<exists>x'. get_record f' (dr_id x) = Some x' \<and> (x \<in> set rows \<and> moved_to a x x' \<or> kept_row a x x')" if x: "x \<in> set (fb_records f0)" for x
  proof -
    obtain x' where x': "get_record f (dr_id x) = Some x'" "x \<in> set rows \<and> moved_to a x x' \<or> kept_row a x x'" using there [OF x] by blast
    have id: "dr_id x' = dr_id x" using x'(1) get_row_Some by (fastforce simp: get_record_def)
    show ?thesis using x' out [of x] id dep [OF x'(1)] by (cases "dr_id x \<in> D") (auto simp: get kept_row_def)
  qed
  moreover have "adopted_row a x'" if x: "get_record f' k = Some x'" "get_record f0 k = None" for k x'
  proof -
    obtain z where z: "get_record f k = Some z" "x' = ?g z" using x(1) get by auto
    then show ?thesis using new [OF z(1) x(2)] by (simp add: adopted_row_def)
  qed
  moreover have "records_ok (fb_next_record f') (fb_records f')"
    using ok by (auto simp: fabric_ok_def records_ok_def f' list_all_iff record_ok_def comp_def if_distrib cong: if_cong)
  moreover have "rest_same f0 f'" using same by (auto simp: f' intro: rest_same_trans)
  ultimately have "cut_ok a f0 rows f'" using ok idx by (auto simp: cut_ok_def fabric_ok_def f')
  moreover have "own_name a y \<or> is_moved a f' y" if "y \<in> set ds" for y
  proof -
    have "own_name a y \<or> is_moved a f y" "dr_id y \<notin> D" using pre that rows out by (auto simp: cut_upto_def)
    then show ?thesis using get_row_Some by (fastforce simp: is_moved_def get moved_to_def)
  qed
  ultimately show ?thesis by (simp add: cut_upto_def)
qed

section \<open>The whole cutover\<close>

lemma wp_from_rows: "(\<And>v. g (fst s) = Inr v \<Longrightarrow> wp (k v) Q R s) \<Longrightarrow> (\<And>x. g (fst s) = Inl x \<Longrightarrow> R x s) \<Longrightarrow> wp (seq (from_rows g) k) Q R s"
  by (cases "g (fst s)") (simp_all add: wp_def seq_def from_rows_def)

lemma cut_args_fields:
  assumes "cut_args_of f source dest project dest_project pm = Inr a"
  shows "ca_source a = source \<and> ca_dest a = dest \<and> or_none (Some (ca_dest_name a)) = Some (ca_dest_name a)"
proof -
  have "or_none (Some n) = Some n" if "compose_project_name x = Inr n" for x n
    using that by (auto simp: compose_project_name_def or_none_def Let_def text0_def split: if_splits)
  then show ?thesis using assms by (auto simp: cut_args_of_def rbind_eq_Inr split: sum.splits)
qed

lemma project_rows_sub: "set (project_rows f source dest nm) \<subseteq> set (fb_records f)"
  by (auto simp: project_rows_def dns_rows_def Let_def split: if_splits)

lemma adopt_all_step:
  assumes "set ds \<subseteq> set (fb_records f0)" and "or_none (Some (ca_dest_name a)) = Some (ca_dest_name a)" and pre: "cut_upto a f0 rows ds (fst s)"
  shows "wp (adopt_all e a out) (\<lambda>v s. cut_upto a f0 rows ds (fst s)) (\<lambda>x s. cut_ok a f0 rows (fst s)) s"
proof -
  have stop: "cut_ok a f0 rows f" if "cut_upto a f0 rows ds f" for f using that by (simp add: cut_upto_def)
  have "wp (loop (adopt_one e a h) xs acc) (\<lambda>v s. cut_upto a f0 rows ds (fst s)) (\<lambda>x s. cut_ok a f0 rows (fst s)) s"
    if "cut_upto a f0 rows ds (fst s)" for h xs acc s
    by (rule wp_loop [where I = "\<lambda>v s. cut_upto a f0 rows ds (fst s)"]) (use that adopt_step [OF assms(1,2)] in auto)
  note adopted = this
  show ?thesis
    unfolding adopt_all_def by (intro wp_split silent_steps) (auto simp: wp_simps pre stop intro!: adopted)
qed

lemma move_edge_step:
  assumes rows: "set ds \<subseteq> set rows" and pre: "cut_upto a f0 rows ds (fst s)"
  shows "wp (move_edge_names e a (map dr_id rows) out) (\<lambda>v s. cut_upto a f0 rows ds (fst s)) (\<lambda>x s. cut_ok a f0 rows (fst s)) s"
proof -
  have stop: "cut_ok a f0 rows f" if "cut_upto a f0 rows ds f" for f using that by (simp add: cut_upto_def)
  have keep: "row_keeps P (loop (keep_dependent e a) deps out)" for P deps
    unfolding keep_dependent_def by (intro row_rules)
  show ?thesis
    unfolding move_edge_names_def
    by (intro wp_readI silent_seq [OF keep]) (auto simp: wp_simps as_cutover_def stop pre split_beta
        intro!: edge_names_cut [OF pre rows refl])
qed

lemma retarget_cuts:
  assumes ok: "fabric_ok f" and a: "cut_args_of f source dest project dest_project pm = Inr a"
  shows "wp (retarget_dns_npm e source dest project dest_project pm adopt)
    (\<lambda>v s. cut_upto a f (project_rows f source dest (ca_name a)) (project_rows f source dest (ca_name a)) (fst s))
    (\<lambda>x s. cut_ok a f (project_rows f source dest (ca_name a)) (fst s)) (f, w)"
proof -
  let ?rows = "project_rows f source dest (ca_name a)"
  note sub = project_rows_sub [of f source dest "ca_name a"] and clean = cut_args_fields [OF a, THEN conjunct2, THEN conjunct2]
  have stop: "cut_ok a f rows g" if "cut_upto a f rows ds g" for g rows ds using that by (simp add: cut_upto_def)
  have start: "cut_upto a f ?rows [] f" by (simp add: cut_upto_def cut_ok_start ok)
  have records: "wp (loop (cut_record e a) ?rows c) (\<lambda>v s. cut_upto a f ?rows ?rows (fst s)) (\<lambda>x s. cut_ok a f ?rows (fst s)) s" if "fst s = f" for c s
  proof (rule wp_loop_done [where I = "\<lambda>ds v s. cut_upto a f ?rows ds (fst s)"])
    fix ds x rest acc and t :: "fabric \<times> 'a"
    assume "?rows = ds @ x # rest" and "cut_upto a f ?rows ds (fst t)"
    moreover from this(1) have "set ds \<subseteq> set ?rows" "x \<in> set ?rows" by auto
    ultimately show "wp (cut_record e a x acc) (\<lambda>v s. cut_upto a f ?rows (ds @ [x]) (fst s)) (\<lambda>x s. cut_ok a f ?rows (fst s)) t"
      by (intro cut_record_step [OF ok sub _ _ clean])
  qed (use that start in simp)
  have bind: "row_keeps P (if edge then ret c else cut_bindings e a c)" and msg: "row_keeps P (if b then tell e m else ret ())" for P edge c b m
    by (intro row_rules)+
  have adopted: "wp (if adopt \<and> \<not> edge then adopt_all e a out else ret out) (\<lambda>v s. cut_upto a f ?rows ?rows (fst s)) (\<lambda>x s. cut_ok a f ?rows (fst s)) t"
    if "cut_upto a f ?rows ?rows (fst t)" for edge out t
    using that by (intro wp_ifI adopt_all_step [OF sub clean]) (simp_all add: wp_ret)
  have moved: "wp (if edge then move_edge_names e a (map dr_id ?rows) out else ret out) (\<lambda>v s. cut_upto a f ?rows ?rows (fst s)) (\<lambda>x s. cut_ok a f ?rows (fst s)) t"
    if "cut_upto a f ?rows ?rows (fst t)" for edge out t
    using that by (intro wp_ifI move_edge_step) (simp_all add: wp_ret)
  have rest: "wp (seq (if edge then ret c else cut_bindings e a c) (\<lambda>c1.
     seq (if adopt \<and> \<not> edge then adopt_all e a (cs_out c1) else ret (cs_out c1)) (\<lambda>out.
     andalso (if out = [] then tell e msg' else ret ())
     (seq (if edge then move_edge_names e a (map dr_id rs) out else ret out) (\<lambda>out1.
     seq (restart_all e (cs_restart c1)) (\<lambda>ftl. ret (g out1 ftl))))))) (\<lambda>v s. cut_upto a f ?rows ?rows (fst s)) (\<lambda>x s. cut_ok a f ?rows (fst s)) t"
    if t: "cut_upto a f ?rows ?rows (fst t)" and rs: "rs = ?rows" for edge c msg' g t rs
    unfolding rs
    by (intro silent_seq [OF bind] wp_seqI [OF adopted] silent_seq [OF msg] wp_seqI [OF moved] silent_steps) (auto simp: t stop [OF t] wp_ret intro: stop)
  show ?thesis
    unfolding retarget_dns_npm_def
    by (intro wp_from_rows wp_readI) (auto simp: a cut_ok_start ok split del: if_split intro!: wp_seqI [OF records] rest)
qed

end
