(* ===== verification/RebindProps.thy ===== *)
theory RebindProps
  imports MoveRebind
begin

text \<open>
  What a rebind does to the tables: it is all or nothing, the bindings never break their index, the other
  tables break theirs exactly when the destination already has such a row, and afterwards no row that
  follows a project names it on the source.
\<close>

section \<open>Rows that move together\<close>

lemma rows_moved_distinct:
  assumes "distinct (map key rows)"
    and "\<And>r s. r \<in> set rows \<Longrightarrow> s \<in> set rows \<Longrightarrow> p r \<Longrightarrow> p s \<Longrightarrow> key (g r) = key (g s) \<Longrightarrow> key r = key s"
  shows "distinct (map key (rows_moved p g rows)) \<longleftrightarrow> (\<forall>r\<in>set rows. p r \<longrightarrow> (\<forall>s\<in>set rows. \<not> p s \<longrightarrow> key s \<noteq> key (g r)))"
proof -
  have dist: "distinct rows" and inj: "inj_on key (set rows)" using assms(1) by (simp_all add: distinct_map)
  have "distinct (map key (rows_moved p g rows)) \<longleftrightarrow> inj_on (\<lambda>r. key (if p r then g r else r)) (set rows)"
    using dist by (simp add: rows_moved_def distinct_map comp_def)
  also have "\<dots> \<longleftrightarrow> (\<forall>r\<in>set rows. p r \<longrightarrow> (\<forall>s\<in>set rows. \<not> p s \<longrightarrow> key s \<noteq> key (g r)))"
    unfolding inj_on_def using assms(2) inj by (auto dest: inj_onD) metis+
  finally show ?thesis .
qed

lemma rows_moved_free:
  assumes "distinct (map key rows)"
    and "\<And>r s. p r \<Longrightarrow> p s \<Longrightarrow> key (g r) = key (g s) \<Longrightarrow> key r = key s" and "\<And>r s. p r \<Longrightarrow> p s \<Longrightarrow> key s \<noteq> key (g r)"
  shows "distinct (map key (rows_moved p g rows)) \<longleftrightarrow> \<not> (\<exists>r\<in>set rows. p r \<and> key (g r) \<in> key ` set rows)"
proof -
  have "distinct (map key (rows_moved p g rows)) \<longleftrightarrow> (\<forall>r\<in>set rows. p r \<longrightarrow> (\<forall>s\<in>set rows. \<not> p s \<longrightarrow> key s \<noteq> key (g r)))"
    by (rule rows_moved_distinct [OF assms(1)]) (rule assms(2))
  also have "\<dots> \<longleftrightarrow> (\<forall>r\<in>set rows. p r \<longrightarrow> (\<forall>s\<in>set rows. key s \<noteq> key (g r)))"
    using assms(3) by blast
  also have "\<dots> \<longleftrightarrow> \<not> (\<exists>r\<in>set rows. p r \<and> key (g r) \<in> key ` set rows)"
    unfolding image_iff by metis
  finally show ?thesis .
qed

section \<open>Bindings\<close>

text \<open>Names come out of \<open>compose_project_name\<close>, so they are stripped.\<close>

definition clean_args :: "rebind_args \<Rightarrow> bool" where
  "clean_args a = (strip (ra_name a) = ra_name a \<and> strip (ra_dest_name a) = ra_dest_name a \<and> ra_name a \<noteq> []
     \<and> ra_source a \<noteq> ra_dest a)"

definition carried :: "rebind_args \<Rightarrow> bind_to \<Rightarrow> bool" where
  "carried a b = (bd_project b = Some (ra_name a) \<and> bd_server b \<noteq> ra_dest a \<and> bind_counter b \<noteq> Inr None)"

text \<open>Every row on the destination has its scope noted, keys and row numbers are unique, and the rows
  still to come are as they were.\<close>

definition scan_fits :: "rebind_args \<Rightarrow> bind_to list \<Rightarrow> bind_scan \<Rightarrow> bool" where
  "scan_fits a todo s = (distinct (map binding_key (bn_rows s)) \<and> distinct (map bd_id (bn_rows s))
     \<and> (\<forall>r\<in>set (bn_rows s). bd_server r = ra_dest a \<longrightarrow> scope_of r (strip (text0 (bd_project r))) \<in> set (bn_scopes s))
     \<and> (\<forall>b\<in>set todo. b \<in> set (bn_rows s) \<and> bd_project b = Some (ra_name a)) \<and> distinct (map bd_id todo)
     \<and> (\<forall>r\<in>set (bn_rows s). carried a r \<longrightarrow> r \<in> set todo))"

text \<open>What became of the rows: none was made up, and what does not follow the project is still there.\<close>

definition scan_frame :: "rebind_args \<Rightarrow> bind_to list \<Rightarrow> bind_scan \<Rightarrow> bool" where
  "scan_frame a bs s = ((\<forall>r\<in>set (bn_rows s). r \<in> set bs \<or> (\<exists>b\<in>set bs. carried a b \<and> r = move_binding a b))
     \<and> (\<forall>r\<in>set bs. \<not> carried a r \<longrightarrow> r \<in> set (bn_rows s)))"

lemma same_id: "distinct (map bd_id rows) \<Longrightarrow> b \<in> set rows \<Longrightarrow> r \<in> set rows \<Longrightarrow> bd_id r = bd_id b \<longleftrightarrow> r = b"
  by (auto simp: distinct_map dest: inj_onD)

lemma moved_frame [simp]: "bd_id (move_binding a b) = bd_id b" "bd_server (move_binding a b) = ra_dest a"
  by (simp_all add: move_binding_def)

lemma moved_scope:
  assumes "clean_args a" and "bd_project b = Some (ra_name a)"
  shows "scope_of (move_binding a b) (strip (text0 (bd_project (move_binding a b)))) = new_scope a b"
  using assms by (simp add: scope_of_def new_scope_def move_binding_def clean_args_def text0_def)

lemma same_key_same_scope:
  "binding_key r = binding_key r' \<Longrightarrow> scope_of r (strip (text0 (bd_project r))) = scope_of r' (strip (text0 (bd_project r')))"
  by (simp add: binding_key_def scope_of_def)

text \<open>The row is rewritten to a place that is free.\<close>

lemma moved_rows:
  assumes "distinct (map bd_id rows)" and "b \<in> set rows"
  shows "set (upd_row bd_id (bd_id b) (move_binding a) rows) = insert (move_binding a b) {r \<in> set rows. r \<noteq> b}"
proof -
  have "{r \<in> set rows. bd_id r \<noteq> bd_id b} = {r \<in> set rows. r \<noteq> b}" "{r \<in> set rows. bd_id r = bd_id b} = {b}"
    using same_id [OF assms] assms(2) by blast+
  then show ?thesis by (simp add: set_upd_row)
qed

lemma moved_keys_distinct:
  assumes "distinct (map bd_id rows)" and "b \<in> set rows" and "distinct (map binding_key rows)"
    and free: "\<And>r. r \<in> set rows \<Longrightarrow> r \<noteq> b \<Longrightarrow> binding_key r \<noteq> binding_key (move_binding a b)"
  shows "distinct (map binding_key (upd_row bd_id (bd_id b) (move_binding a) rows))"
proof -
  have "upd_row bd_id (bd_id b) (move_binding a) rows = rows_moved (\<lambda>r. bd_id r = bd_id b) (move_binding a) rows"
    by (simp add: upd_row_def rows_moved_def)
  also have "distinct (map binding_key (rows_moved (\<lambda>r. bd_id r = bd_id b) (move_binding a) rows))"
    using free same_id [OF assms(1,2)] by (subst rows_moved_distinct [OF assms(3)]) blast+
  finally show ?thesis .
qed

lemma move_bind_fits:
  assumes clean: "clean_args a" and fits: "scan_fits a (b # todo) s" and k: "bind_counter b = Inr (Some k)"
  shows "scan_fits a todo (move_bind a k b s)"
proof -
  let ?rows = "bn_rows s"
  have keys: "distinct (map binding_key ?rows)" and ids: "distinct (map bd_id ?rows)"
    and noted: "\<And>r. r \<in> set ?rows \<Longrightarrow> bd_server r = ra_dest a \<Longrightarrow> scope_of r (strip (text0 (bd_project r))) \<in> set (bn_scopes s)"
    and b: "b \<in> set ?rows" "bd_project b = Some (ra_name a)"
    and todo: "\<And>c. c \<in> set todo \<Longrightarrow> c \<in> set ?rows \<and> bd_project c = Some (ra_name a)"
    and todo_ids: "distinct (map bd_id todo)" "bd_id b \<notin> bd_id ` set todo"
    and left: "\<And>r. r \<in> set ?rows \<Longrightarrow> carried a r \<Longrightarrow> r = b \<or> r \<in> set todo"
    using fits by (auto simp: scan_fits_def)
  consider (there) "bd_server b = ra_dest a" | (dup) "bd_server b \<noteq> ra_dest a" "new_scope a b \<in> set (bn_scopes s)"
    | (go) "bd_server b \<noteq> ra_dest a" "new_scope a b \<notin> set (bn_scopes s)" by blast
  then show ?thesis
  proof cases
    case there
    then have "\<not> carried a b" by (simp add: carried_def)
    then have "\<And>r. r \<in> set ?rows \<Longrightarrow> carried a r \<Longrightarrow> r \<in> set todo" using left by blast
    then show ?thesis using there keys ids noted todo todo_ids(1)
      by (simp add: scan_fits_def move_bind_def Let_def)
  next
    case dup
    have rows: "{r \<in> set ?rows. bd_id r \<noteq> bd_id b} = {r \<in> set ?rows. r \<noteq> b}"
      using same_id [OF ids b(1)] by blast
    have "c \<noteq> b" if "c \<in> set todo" for c using todo_ids(2) that by blast
    moreover have "r \<in> set todo" if "r \<in> set ?rows" "r \<noteq> b" "carried a r" for r using left that by blast
    ultimately show ?thesis using dup keys ids noted todo todo_ids
      by (simp add: scan_fits_def move_bind_def Let_def distinct_map_filter rows)
  next
    case go
    let ?m = "move_binding a b"
    have free: "binding_key r \<noteq> binding_key ?m" if r: "r \<in> set ?rows" "r \<noteq> b" for r
    proof
      assume same: "binding_key r = binding_key ?m"
      then have "bd_server r = ra_dest a" by (simp add: binding_key_def)
      then have "scope_of ?m (strip (text0 (bd_project ?m))) \<in> set (bn_scopes s)"
        using noted [OF r(1)] same_key_same_scope [OF same] by simp
      then show False using go(2) moved_scope [OF clean b(2)] by simp
    qed
    have rows: "set (upd_row bd_id (bd_id b) (move_binding a) ?rows) = insert ?m {r \<in> set ?rows. r \<noteq> b}"
      by (rule moved_rows [OF ids b(1)])
    have "distinct (map binding_key (upd_row bd_id (bd_id b) (move_binding a) ?rows))"
      using moved_keys_distinct [OF ids b(1) keys] free by blast
    moreover have "map bd_id (upd_row bd_id (bd_id b) (move_binding a) ?rows) = map bd_id ?rows"
      by (rule upd_row_keys) simp
    moreover have "\<not> carried a ?m" by (simp add: carried_def)
    moreover have "c \<noteq> b" if "c \<in> set todo" for c using todo_ids(2) that by blast
    moreover have "r \<in> set todo" if "r \<in> set ?rows" "r \<noteq> b" "carried a r" for r using left that by blast
    ultimately show ?thesis
      using go ids noted todo todo_ids moved_scope [OF clean b(2)]
      by (simp add: scan_fits_def move_bind_def Let_def rows)
  qed
qed

lemma move_bind_frame:
  assumes frame: "scan_frame a bs s" and fits: "scan_fits a (b # todo) s" and b: "b \<in> set bs" and k: "bind_counter b = Inr (Some k)"
  shows "scan_frame a bs (move_bind a k b s)"
proof -
  let ?rows = "bn_rows s"
  have ids: "distinct (map bd_id ?rows)" and mem: "b \<in> set ?rows" and proj: "bd_project b = Some (ra_name a)"
    using fits by (simp_all add: scan_fits_def)
  have rows: "{r \<in> set ?rows. bd_id r \<noteq> bd_id b} = {r \<in> set ?rows. r \<noteq> b}"
    using same_id [OF ids mem] by blast
  show ?thesis
  proof (cases "bd_server b = ra_dest a")
    case True
    then show ?thesis using frame by (simp add: scan_frame_def move_bind_def Let_def)
  next
    case False
    then have car: "carried a b" using k proj by (simp add: carried_def)
    then have keep: "r \<noteq> b" if "\<not> carried a r" for r using that by blast
    show ?thesis
      using frame car b keep False
      by (auto simp: scan_frame_def move_bind_def Let_def rows moved_rows [OF ids mem])
  qed
qed

lemma rebind_one_keeps:
  assumes "clean_args a" and "scan_fits a (b # todo) s \<and> scan_frame a bs s" and "b \<in> set bs" and "rebind_one a b s = Inr s'"
  shows "scan_fits a todo s' \<and> scan_frame a bs s'"
proof -
  obtain c where c: "bind_counter b = Inr c" "s' = (case c of None \<Rightarrow> s | Some k \<Rightarrow> move_bind a k b s)"
    using assms(4) by (auto simp: rebind_one_def elim!: rbind_InrE)
  show ?thesis
  proof (cases c)
    case None
    then have "\<not> carried a b" using c(1) by (simp add: carried_def)
    then show ?thesis using c(2) None assms(2) by (auto simp: scan_fits_def)
  next
    case (Some k)
    then have "bind_counter b = Inr (Some k)" "s' = move_bind a k b s" using c by simp_all
    then show ?thesis using move_bind_fits [OF assms(1)] move_bind_frame [OF _ _ assms(3)] assms(2) by blast
  qed
qed

lemma rebind_fold_keeps:
  assumes "clean_args a" and "scan_fits a todo s \<and> scan_frame a bs s" and "set todo \<subseteq> set bs"
    and "rfold (rebind_one a) todo s = Inr s'"
  shows "scan_fits a [] s' \<and> scan_frame a bs s'"
  using assms(2-4)
proof (induction todo arbitrary: s)
  case (Cons b todo)
  then obtain s1 where "rebind_one a b s = Inr s1" "rfold (rebind_one a) todo s1 = Inr s'"
    by (auto elim!: rbind_InrE)
  then show ?case using Cons rebind_one_keeps [OF assms(1), of b todo s bs s1] by simp
qed simp

lemma rebind_bindings_result:
  assumes "clean_args a" and "distinct (map binding_key bs)" and "distinct (map bd_id bs)" and "rebind_bindings a bs t = Inr s"
  shows "distinct (map binding_key (bn_rows s))" and "distinct (map bd_id (bn_rows s))" and "scan_frame a bs s"
    and "\<And>r. r \<in> set (bn_rows s) \<Longrightarrow> \<not> carried a r"
proof -
  let ?s = "\<lparr>bn_scopes = dest_scopes a bs, bn_rows = bs, bn_counts = t\<rparr>"
  let ?todo = "filter (\<lambda>b. bd_project b = Some (ra_name a)) bs"
  have "scan_fits a ?todo ?s"
    using assms(2,3) by (auto simp: scan_fits_def dest_scopes_def carried_def distinct_map_filter)
  moreover have "scan_frame a bs ?s" by (simp add: scan_frame_def)
  ultimately have "scan_fits a [] s \<and> scan_frame a bs s"
    by (intro rebind_fold_keeps [OF assms(1) _ _ assms(4) [unfolded rebind_bindings_def]]) auto
  then show "distinct (map binding_key (bn_rows s))" "distinct (map bd_id (bn_rows s))" "scan_frame a bs s"
    "\<And>r. r \<in> set (bn_rows s) \<Longrightarrow> \<not> carried a r" by (auto simp: scan_fits_def)
qed

text \<open>It raises only when the kind of a dashboard cannot be read.\<close>

lemma rfold_total: "(\<And>x s. x \<in> set xs \<Longrightarrow> \<exists>s'. f x s = Inr s') \<Longrightarrow> \<exists>s'. rfold f xs s = Inr s'"
proof (induction xs arbitrary: s)
  case (Cons x xs)
  then obtain s1 where "f x s = Inr s1" by fastforce
  then show ?case using Cons by simp
qed simp

lemma rebind_bindings_total:
  assumes "\<And>b. b \<in> set bs \<Longrightarrow> bd_project b = Some (ra_name a) \<Longrightarrow> \<exists>c. bind_counter b = Inr c"
  shows "\<exists>s. rebind_bindings a bs t = Inr s"
  unfolding rebind_bindings_def by (rule rfold_total) (use assms in \<open>fastforce simp: rebind_one_def\<close>)

lemma rfold_error: "rfold g xs s = Inl x \<Longrightarrow> (\<And>y t. g y t = Inl x \<Longrightarrow> P) \<Longrightarrow> P"
  by (induction xs arbitrary: s) (auto simp: rbind_def split: sum.splits)

lemma rebind_bindings_error:
  assumes "rebind_bindings a bs t = Inl x" shows "x = attribute_error"
  using assms unfolding rebind_bindings_def
  by (rule rfold_error)
    (auto simp: rebind_one_def bind_counter_def binding_grafana_kind_def text_field_def rbind_def Let_def split: sum.splits if_splits json.splits option.splits)

section \<open>The whole rebind\<close>

text \<open>The destination already has a row of a table where only one may be.\<close>

definition place_taken :: "rebind_args \<Rightarrow> fabric \<Rightarrow> bool" where
  "place_taken a f =
     ((\<exists>r\<in>set (fb_deployments f). deployment_moves a r \<and> deployment_key (move_deployment a r) \<in> deployment_key ` set (fb_deployments f))
    \<or> (\<exists>r\<in>set (fb_visuals f). visual_moves a r \<and> visual_key (move_visual a r) \<in> visual_key ` set (fb_visuals f))
    \<or> (\<exists>r\<in>set (fb_annotations f). annotation_moves a r \<and> annotation_key (move_annotation a r) \<in> annotation_key ` set (fb_annotations f)))"

text \<open>No row that follows the project names it on the source.\<close>

definition nothing_left :: "rebind_args \<Rightarrow> fabric \<Rightarrow> bool" where
  "nothing_left a f = ((\<forall>r\<in>set (fb_deployments f). \<not> deployment_moves a r) \<and> (\<forall>r\<in>set (fb_visuals f). \<not> visual_moves a r)
     \<and> (\<forall>r\<in>set (fb_annotations f). \<not> annotation_moves a r) \<and> (\<forall>r\<in>set (fb_ports f). \<not> port_moves a r)
     \<and> (\<forall>r\<in>set (fb_edges f). \<not> edge_moves a r) \<and> (\<forall>b\<in>set (fb_bindings f). \<not> carried a b))"

text \<open>What does not name the project on the source stays as it is.\<close>

definition others_stay :: "rebind_args \<Rightarrow> fabric \<Rightarrow> fabric \<Rightarrow> bool" where
  "others_stay a f f' = ((\<forall>r\<in>set (fb_deployments f). \<not> deployment_moves a r \<longrightarrow> r \<in> set (fb_deployments f'))
     \<and> (\<forall>r\<in>set (fb_visuals f). \<not> visual_moves a r \<longrightarrow> r \<in> set (fb_visuals f'))
     \<and> (\<forall>r\<in>set (fb_annotations f). \<not> annotation_moves a r \<longrightarrow> r \<in> set (fb_annotations f'))
     \<and> (\<forall>r\<in>set (fb_ports f). \<not> port_moves a r \<longrightarrow> r \<in> set (fb_ports f'))
     \<and> (\<forall>r\<in>set (fb_edges f). \<not> edge_moves a r \<longrightarrow> r \<in> set (fb_edges f'))
     \<and> (\<forall>b\<in>set (fb_bindings f). \<not> carried a b \<longrightarrow> b \<in> set (fb_bindings f'))
     \<and> set (fb_targets f) \<subseteq> set (fb_targets f') \<and> fb_records f' = fb_records f \<and> fb_hosts f' = fb_hosts f
     \<and> fb_integrations f' = fb_integrations f)"

lemma clone_frame:
  assumes "fold (clone_target a) cids ft = (f', t')"
  shows "fb_deployments f' = fb_deployments (fst ft) \<and> fb_visuals f' = fb_visuals (fst ft) \<and> fb_annotations f' = fb_annotations (fst ft)
    \<and> fb_ports f' = fb_ports (fst ft) \<and> fb_edges f' = fb_edges (fst ft) \<and> fb_bindings f' = fb_bindings (fst ft)
    \<and> set (fb_targets (fst ft)) \<subseteq> set (fb_targets f') \<and> fb_records f' = fb_records (fst ft) \<and> fb_hosts f' = fb_hosts (fst ft)
    \<and> fb_integrations f' = fb_integrations (fst ft) \<and> fb_next_record f' = fb_next_record (fst ft)"
  using assms
proof (induction cids arbitrary: ft)
  case (Cons c cids)
  obtain f t where ft: "ft = (f, t)" by (cases ft)
  have "fold (clone_target a) cids (clone_target a c ft) = (f', t')" using Cons.prems by simp
  note Cons.IH [OF this]
  then show ?case by (auto simp: ft clone_target_def split: option.splits if_splits)
qed auto

text \<open>The three tables with one row per project and place.\<close>

lemma tables_distinct:
  assumes "ra_source a \<noteq> ra_dest a" and "distinct (map deployment_key (fb_deployments f))" and "distinct (map visual_key (fb_visuals f))"
    and "distinct (map annotation_key (fb_annotations f))"
  shows "distinct (map deployment_key (rows_moved (deployment_moves a) (move_deployment a) (fb_deployments f)))
      \<and> distinct (map visual_key (rows_moved (visual_moves a) (move_visual a) (fb_visuals f)))
      \<and> distinct (map annotation_key (rows_moved (annotation_moves a) (move_annotation a) (fb_annotations f)))
    \<longleftrightarrow> \<not> place_taken a f"
proof -
  have d: "distinct (map deployment_key (rows_moved (deployment_moves a) (move_deployment a) (fb_deployments f)))
      \<longleftrightarrow> \<not> (\<exists>r\<in>set (fb_deployments f). deployment_moves a r \<and> deployment_key (move_deployment a r) \<in> deployment_key ` set (fb_deployments f))"
    using assms(1) by (intro rows_moved_free [OF assms(2)]) (simp_all add: deployment_moves_def deployment_key_def move_deployment_def)
  have v: "distinct (map visual_key (rows_moved (visual_moves a) (move_visual a) (fb_visuals f)))
      \<longleftrightarrow> \<not> (\<exists>r\<in>set (fb_visuals f). visual_moves a r \<and> visual_key (move_visual a r) \<in> visual_key ` set (fb_visuals f))"
    using assms(1) by (intro rows_moved_free [OF assms(3)]) (simp_all add: visual_moves_def visual_key_def move_visual_def)
  have n: "distinct (map annotation_key (rows_moved (annotation_moves a) (move_annotation a) (fb_annotations f)))
      \<longleftrightarrow> \<not> (\<exists>r\<in>set (fb_annotations f). annotation_moves a r \<and> annotation_key (move_annotation a r) \<in> annotation_key ` set (fb_annotations f))"
    using assms(1) by (intro rows_moved_free [OF assms(4)]) (simp_all add: annotation_moves_def annotation_key_def move_annotation_def)
  show ?thesis unfolding d v n place_taken_def by blast
qed

lemma moved_left_nothing:
  assumes "ra_source a \<noteq> ra_dest a"
  shows "r \<in> set (rows_moved (deployment_moves a) (move_deployment a) ds) \<Longrightarrow> \<not> deployment_moves a r"
    and "v \<in> set (rows_moved (visual_moves a) (move_visual a) vs) \<Longrightarrow> \<not> visual_moves a v"
    and "n \<in> set (rows_moved (annotation_moves a) (move_annotation a) ns) \<Longrightarrow> \<not> annotation_moves a n"
    and "p \<in> set (rows_moved (port_moves a) (move_port a) ps) \<Longrightarrow> \<not> port_moves a p"
    and "e \<in> set (rows_moved (edge_moves a) (move_edge a) es) \<Longrightarrow> \<not> edge_moves a e"
proof -
  have edge: "\<not> edge_moves a (move_edge a e)" for e
    using assms by (simp add: edge_moves_def edge_from_def edge_to_def move_edge_def Let_def)
  show "e \<in> set (rows_moved (edge_moves a) (move_edge a) es) \<Longrightarrow> \<not> edge_moves a e"
    using edge by (auto simp: rows_moved_def split: if_splits)
qed (use assms in \<open>auto simp: rows_moved_def deployment_moves_def move_deployment_def visual_moves_def move_visual_def
    annotation_moves_def move_annotation_def port_moves_def move_port_def split: if_splits\<close>)

lemma rows_moved_stay: "r \<in> set rows \<Longrightarrow> \<not> p r \<Longrightarrow> r \<in> set (rows_moved p g rows)"
  by (force simp: rows_moved_def)

lemma rebind_args_clean:
  assumes "rebind_args_of now sid did project dest = Inr a" and "sid \<noteq> did"
  shows "clean_args a" and "ra_source a = sid" and "ra_dest a = did"
proof -
  have nm: "compose_project_name (Some x) = Inr n \<Longrightarrow> strip n = n \<and> n \<noteq> []" for x n
    by (auto simp: compose_project_name_def Let_def split: if_splits)
  show "clean_args a" "ra_source a = sid" "ra_dest a = did"
    using assms by (auto simp: rebind_args_of_def clean_args_def split: sum.splits dest: nm)
qed

text \<open>The tables a rebind commits.\<close>

definition first_counts :: "rebind_args \<Rightarrow> fabric \<Rightarrow> tally" where
  "first_counts a f = count_up ''stack_deployments'' (how_many (deployment_moves a) (fb_deployments f)) no_counts"

lemma rebound_moves:
  assumes "indexes_hold f" and "distinct (map bd_id (fb_bindings f))" and "sid \<noteq> did"
    and a: "rebind_args_of now sid did project dest_project = Inr a"
    and s: "rebind_bindings a (fb_bindings f) (first_counts a f) = Inr s"
    and f': "fold (clone_target a) (cert_ids a f) (moved_tables a f (bn_rows s), moved_counts a f (bn_counts s)) = (f', t')"
  shows "indexes_hold f' \<longleftrightarrow> \<not> place_taken a f" and "nothing_left a f'" and "others_stay a f f'"
proof -
  note clean = rebind_args_clean [OF a assms(3)]
  have apart: "ra_source a \<noteq> ra_dest a" using clean(2,3) assms(3) by simp
  note idx = assms(1) [unfolded indexes_hold_def]
  note rb = rebind_bindings_result [OF clean(1) _ assms(2) s]
  note fr = clone_frame [OF f', simplified moved_tables_def fst_conv, simplified]
  show "indexes_hold f' \<longleftrightarrow> \<not> place_taken a f"
    using rb(1) idx tables_distinct [OF apart, of f] fr by (simp add: indexes_hold_def)
  show "nothing_left a f'"
    using fr rb(4) idx moved_left_nothing [OF apart] by (auto simp: nothing_left_def)
  show "others_stay a f f'"
    using fr rb(3) idx unfolding others_stay_def scan_frame_def by (simp add: rows_moved_stay)
qed

text \<open>However a rebind ends.\<close>

lemma rebind_ends:
  assumes "indexes_hold f" and "distinct (map bd_id (fb_bindings f))" and "sid \<noteq> did"
    and run: "rebind_control_plane now sid did project dest_project f = (f', r)"
  shows "case r of Inl x \<Rightarrow> f' = f \<and> (\<forall>m. x \<noteq> WrongArgs m)
    | Inr v \<Rightarrow> \<exists>a. rebind_args_of now sid did project dest_project = Inr a \<and> indexes_hold f' \<and> nothing_left a f' \<and> others_stay a f f'"
proof (cases "rebind_args_of now sid did project dest_project")
  case (Inl x)
  then show ?thesis using run by (auto simp: rebind_control_plane_def rebind_args_of_def split: sum.splits)
next
  case (Inr a)
  show ?thesis
  proof (cases "rebind_bindings a (fb_bindings f) (first_counts a f)")
    case (Inl x)
    have "x \<noteq> WrongArgs m" for m using rebind_bindings_error [OF Inl] by (auto simp: attribute_error_def)
    then show ?thesis using run Inr Inl by (auto simp: rebind_control_plane_def rebound_def first_counts_def)
  next
    case s: (Inr s)
    obtain g t where g: "fold (clone_target a) (cert_ids a f) (moved_tables a f (bn_rows s), moved_counts a f (bn_counts s)) = (g, t)"
      by (cases "fold (clone_target a) (cert_ids a f) (moved_tables a f (bn_rows s), moved_counts a f (bn_counts s))")
    show ?thesis
      using run Inr s g rebound_moves [OF assms(1-3) Inr s g]
      by (auto simp: rebind_control_plane_def rebound_def first_counts_def commit_fabric_def integrity_error_def split: if_splits)
  qed
qed


text \<open>A project with a deployment and a dashboard on host 1, and a stale row of the same dashboard on host 2.\<close>

definition small_fabric :: fabric where
  "small_fabric = \<lparr>fb_hosts = [], fb_records = [], fb_integrations = [],
     fb_bindings = [\<lparr>bd_id = 1, bd_integration = 7, bd_server = 1, bd_role = ''service'', bd_project = Some ''web'',
         bd_container = None, bd_external_id = ''3'', bd_label = None, bd_meta = Absent, bd_state = None, bd_message = None, bd_updated_at = 0\<rparr>,
       \<lparr>bd_id = 2, bd_integration = 7, bd_server = 2, bd_role = ''service'', bd_project = Some ''web'',
         bd_container = None, bd_external_id = ''3'', bd_label = None, bd_meta = Absent, bd_state = None, bd_message = None, bd_updated_at = 0\<rparr>],
     fb_deployments = [\<lparr>dp_id = 1, dp_server = 1, dp_project = ''web'', dp_updated_at = 0\<rparr>],
     fb_visuals = [], fb_annotations = [], fb_ports = [], fb_edges = [], fb_targets = [], fb_next_record = 1, fb_next_target = 1,
     fb_audits = []\<rparr>"

definition small_args :: rebind_args where
  "small_args = \<lparr>ra_source = 1, ra_dest = 2, ra_name = ''web'', ra_dest_name = ''web'', ra_now = 9\<rparr>"

lemma small_counters: "\<forall>b\<in>set (fb_bindings small_fabric). bind_counter b = Inr (Some ''kuma_bindings'')"
  by code_simp

lemma small_rebind:
  "indexes_hold small_fabric" "distinct (map bd_id (fb_bindings small_fabric))" "(1::int) \<noteq> 2"
  "rebind_args_of 9 1 2 ''web'' None = Inr small_args"
  "\<forall>b\<in>set (fb_bindings small_fabric). bd_project b = Some (ra_name small_args) \<longrightarrow> (\<exists>c. bind_counter b = Inr c)"
  "\<not> place_taken small_args small_fabric"
  subgoal by code_simp
  subgoal by code_simp
  subgoal by simp
  subgoal by code_simp
  subgoal using small_counters by blast
  subgoal by code_simp
  done


end
