(* ===== verification/ValidateFacts.thy ===== *)
theory ValidateFacts
  imports MoveValidate CutoverFacts RebindProps
begin

text \<open>
  What a validation guarantees when it returns, and all it writes: states of monitors.
\<close>

section \<open>Only states change\<close>

definition states_only :: "fabric \<Rightarrow> fabric \<Rightarrow> bool" where
  "states_only f f' = (\<exists>g. (\<forall>b. \<exists>v. g b = with_poll v b) \<and> f' = f\<lparr>fb_bindings := map g (fb_bindings f)\<rparr>)"

lemma own_state: "\<exists>p. b = with_poll p b"
  by (rule exI [of _ "\<lparr>po_state = bd_state b, po_label = bd_label b, po_message = bd_message b\<rparr>"]) (simp add: with_poll_def)

lemma with_poll_simps [simp]:
  "with_poll p (with_poll q b) = with_poll p b" "bd_id (with_poll p b) = bd_id b" "bd_integration (with_poll p b) = bd_integration b"
  "bd_server (with_poll p b) = bd_server b" "bd_role (with_poll p b) = bd_role b" "bd_project (with_poll p b) = bd_project b"
  "binding_key (with_poll p b) = binding_key b"
  by (simp_all add: with_poll_def binding_key_def)

lemma kind_state [simp]: "binding_grafana_kind (with_poll p b) = binding_grafana_kind b"
  by (simp add: binding_grafana_kind_def with_poll_def cong: if_cong)

lemma counter_state [simp]: "bind_counter (with_poll p b) = bind_counter b"
  by (simp add: bind_counter_def cong: if_cong)

lemma states_only_refl [simp]: "states_only f f"
  unfolding states_only_def by (rule exI [of _ id]) (simp add: own_state)

lemma states_only_trans: "states_only f g \<Longrightarrow> states_only g h \<Longrightarrow> states_only f h"
proof -
  assume "states_only f g" "states_only g h"
  then obtain p q where p: "\<forall>b. \<exists>v. p b = with_poll v b" "g = f\<lparr>fb_bindings := map p (fb_bindings f)\<rparr>"
    and q: "\<forall>b. \<exists>v. q b = with_poll v b" "h = g\<lparr>fb_bindings := map q (fb_bindings g)\<rparr>"
    unfolding states_only_def by blast
  have "\<exists>v. q (p b) = with_poll v b" for b
  proof -
    obtain v w where "p b = with_poll v b" "q (with_poll v b) = with_poll w (with_poll v b)" using p(1) q(1) by blast
    then show ?thesis by auto
  qed
  then show ?thesis unfolding states_only_def p(2) q(2) by (intro exI [of _ "q \<circ> p"]) simp
qed

lemma set_states_only: "states_only f (set_states iid st f)"
proof -
  let ?g = "\<lambda>b. case map_of st (bd_id b) of Some v \<Rightarrow> if bd_integration b = iid then with_poll v b else b | None \<Rightarrow> b"
  have "\<exists>v. ?g b = with_poll v b" for b :: bind_to
  proof (cases "map_of st (bd_id b)")
    case (Some v)
    then show ?thesis using own_state [of b] by (cases "bd_integration b = iid") (simp_all add: exI [of _ v])
  qed (simp add: own_state)
  then show ?thesis unfolding states_only_def set_states_def by (intro exI [of _ ?g]) simp
qed

text \<open>What does not look at the states is the same.\<close>

lemma states_only_frame:
  assumes "states_only f f'"
  shows "fb_records f' = fb_records f" "fb_hosts f' = fb_hosts f" "fabric_ok f' = fabric_ok f" "nothing_left a f' = nothing_left a f"
    "map bd_id (fb_bindings f') = map bd_id (fb_bindings f)"
proof -
  obtain g where g: "\<forall>b. \<exists>v. g b = with_poll v b" and f': "f' = f\<lparr>fb_bindings := map g (fb_bindings f)\<rparr>"
    using assms by (auto simp: states_only_def)
  have same: "bd_id (g b) = bd_id b" "binding_key (g b) = binding_key b" "carried a (g b) = carried a b" for b
  proof -
    obtain v where "g b = with_poll v b" using g by blast
    then show "bd_id (g b) = bd_id b" "binding_key (g b) = binding_key b" "carried a (g b) = carried a b"
      by (simp_all add: carried_def)
  qed
  then have keys: "map (\<lambda>x. bd_id (g x)) xs = map bd_id xs" "map (\<lambda>x. binding_key (g x)) xs = map binding_key xs" for xs by auto
  show "fb_records f' = fb_records f" "fb_hosts f' = fb_hosts f" "fabric_ok f' = fabric_ok f" "nothing_left a f' = nothing_left a f"
    "map bd_id (fb_bindings f') = map bd_id (fb_bindings f)"
    by (simp_all add: f' fabric_ok_def indexes_hold_def nothing_left_def same keys comp_def)
qed

section \<open>The probes leave the rows\<close>

lemma row_keeps_probe_log [row_rules]: "row_keeps P (probe_log e msg)"
  by (auto simp: row_keeps_def probe_log_def intro!: keeps_rules)

lemma row_keeps_probe_name: "row_keeps P (probe_name e r c)"
  unfolding probe_name_def by (intro row_rules)

section \<open>The monitors\<close>

text \<open>A monitor that was looked at: its row is there, is not down, and its integration will not be polled again.\<close>

definition looked_at :: "fabric \<Rightarrow> int list \<Rightarrow> bind_to \<Rightarrow> bool" where
  "looked_at f polled b = (\<exists>b'. get_row bd_id (bd_id b) (fb_bindings f) = Some b' \<and> bd_integration b' = bd_integration b
     \<and> monitor_state b' \<noteq> ''down'' \<and> (bd_integration b = 0 \<or> bd_integration b \<in> set polled))"

lemma looked_at_poll:
  assumes "looked_at f polled b" and "iid \<noteq> 0" and "iid \<notin> set polled"
  shows "looked_at (set_states iid st f) (iid # polled) b"
proof -
  obtain b' where b': "get_row bd_id (bd_id b) (fb_bindings f) = Some b'" "bd_integration b' = bd_integration b"
    "monitor_state b' \<noteq> ''down''" "bd_integration b = 0 \<or> bd_integration b \<in> set polled"
    using assms(1) by (auto simp: looked_at_def)
  let ?g = "\<lambda>b. case map_of st (bd_id b) of Some v \<Rightarrow> if bd_integration b = iid then with_poll v b else b | None \<Rightarrow> b"
  have "bd_id (?g r) = bd_id r" for r by (simp split: option.split)
  note get_row_all [where key = bd_id and g = ?g, OF this]
  then have "get_row bd_id (bd_id b) (fb_bindings (set_states iid st f)) = map_option ?g (get_row bd_id (bd_id b) (fb_bindings f))"
    unfolding set_states_def by simp
  also have "\<dots> = Some b'" using b' assms(2,3) by (auto split: option.split)
  finally have "get_row bd_id (bd_id b) (fb_bindings (set_states iid st f)) = Some b'" .
  then show ?thesis using b' by (auto simp: looked_at_def)
qed

lemma poll_monitor_step:
  assumes "states_only f0 (fst s)" and b: "b \<in> set (fb_bindings f0)" and d: "distinct (map bd_id (fb_bindings f0))"
    and "\<forall>y\<in>set ds. looked_at (fst s) (ps_polled c) y"
  shows "wp (poll_monitor e b c) (\<lambda>c' t. states_only f0 (fst t) \<and> (\<forall>y\<in>set (ds @ [b]). looked_at (fst t) (ps_polled c') y))
    (\<lambda>x t. states_only f0 (fst t)) s"
proof -
  obtain f w where s: "s = (f, w)" by (cases s)
  obtain w' st where p: "pe_poll e (bd_integration b) w = (w', st)" by (cases "pe_poll e (bd_integration b) w")
  let ?new = "bd_integration b \<noteq> 0 \<and> bd_integration b \<notin> set (ps_polled c)"
  let ?f = "if ?new then set_states (bd_integration b) st f else f" and ?l = "if ?new then bd_integration b # ps_polled c else ps_polled c"
  have so: "states_only f0 ?f" using assms(1) states_only_trans [OF _ set_states_only] by (simp add: s)
  have done1: "looked_at ?f ?l y" if "y \<in> set ds" for y using assms(4) that looked_at_poll by (auto simp: s)
  have row: "bd_integration b' = bd_integration b" if "get_row bd_id (bd_id b) (fb_bindings ?f) = Some b'" for b'
  proof -
    obtain g where g: "\<forall>b. \<exists>v. g b = with_poll v b" "?f = f0\<lparr>fb_bindings := map g (fb_bindings f0)\<rparr>"
      using so by (auto simp: states_only_def)
    have "bd_id (g r) = bd_id r \<and> bd_integration (g r) = bd_integration r" for r
    proof -
      obtain v where "g r = with_poll v r" using g(1) by blast
      then show ?thesis by simp
    qed
    then show ?thesis using that get_row_unique [OF d b] g(2) by (auto simp: get_row_all)
  qed
  have now: "looked_at ?f ?l b" if "get_row bd_id (bd_id b) (fb_bindings ?f) = Some b'" "monitor_state b' \<noteq> ''down''" for b'
    using that row [OF that(1)] by (auto simp: looked_at_def)
  have first: "wp (if ?new then poll_states e (bd_integration b) else ret ()) (\<lambda>v t. fst t = ?f) (\<lambda>x t. states_only f0 (fst t)) (f, w)"
    by (simp add: poll_states_def wp_simps p)
  have stop: "states_only f0 (fst t)" if "fst t = ?f" for t :: "fabric \<times> 'a" using that so by simp
  show ?thesis
    unfolding s poll_monitor_def Let_def
    by (rule wp_seqI [OF first], intro wp_from_rows wp_ifI wp_seqI [OF row_keeps_wp [OF row_keeps_probe_log, where P = "\<lambda>g. g = ?f"]])
      (use so done1 now in \<open>auto simp: wp_simps refreshed_def split: option.splits\<close>)
qed

section \<open>The whole validation\<close>

definition monitors_up :: "int \<Rightarrow> string \<Rightarrow> fabric \<Rightarrow> bool" where
  "monitors_up did nm f = (\<forall>b\<in>set (service_binds f did nm). monitor_state b \<noteq> ''down'')"

lemma looked_at_up:
  assumes so: "states_only f0 f" and d: "distinct (map bd_id (fb_bindings f0))"
    and all: "\<forall>b\<in>set (service_binds f0 did nm). looked_at f polled b"
  shows "monitors_up did nm f"
proof -
  obtain g where g: "\<forall>b. \<exists>v. g b = with_poll v b" and f: "f = f0\<lparr>fb_bindings := map g (fb_bindings f0)\<rparr>"
    using so by (auto simp: states_only_def)
  have same: "bd_id (g b) = bd_id b \<and> bd_server (g b) = bd_server b \<and> bd_role (g b) = bd_role b \<and> bd_project (g b) = bd_project b" for b
  proof -
    obtain v where "g b = with_poll v b" using g by blast
    then show ?thesis by simp
  qed
  have "monitor_state (g b) \<noteq> ''down''" if b: "b \<in> set (fb_bindings f0)" and sel: "bd_server b = did" "bd_role b = ''service''" "bd_project b = Some nm" for b
  proof -
    have "looked_at f polled b" using all b sel by (simp add: service_binds_def)
    moreover have "get_row bd_id (bd_id b) (fb_bindings f) = Some (g b)"
      using get_row_unique [OF d b] same by (simp add: f get_row_all)
    ultimately show ?thesis by (auto simp: looked_at_def)
  qed
  then show ?thesis using same by (auto simp: monitors_up_def service_binds_def f)
qed

lemma validate_up:
  assumes d: "distinct (map bd_id (fb_bindings f))" and nm: "compose_project_name (Some project) = Inr nm"
  shows "wp (validate_migrate e sid did project) (\<lambda>v t. states_only f (fst t) \<and> monitors_up did nm (fst t)) (\<lambda>x t. states_only f (fst t)) (f, w)"
proof -
  have polls: "wp (seq (loop (poll_monitor e) (service_binds f did nm) c) (\<lambda>p. ret (g p)))
      (\<lambda>v t. states_only f (fst t) \<and> monitors_up did nm (fst t)) (\<lambda>x t. states_only f (fst t)) t" if "fst t = f" for c t and g :: "poll_scan \<Rightarrow> json"
  proof (rule wp_seqI [OF wp_loop_done [where I = "\<lambda>ds c t. states_only f (fst t) \<and> (\<forall>y\<in>set ds. looked_at (fst t) (ps_polled c) y)"]])
    fix ds x rest and acc :: poll_scan and t' :: "fabric \<times> 'a"
    assume "service_binds f did nm = ds @ x # rest" and I: "states_only f (fst t') \<and> (\<forall>y\<in>set ds. looked_at (fst t') (ps_polled acc) y)"
    then have "x \<in> set (service_binds f did nm)" by simp
    then have "x \<in> set (fb_bindings f)" by (simp add: service_binds_def)
    then show "wp (poll_monitor e x acc) (\<lambda>c' t. states_only f (fst t) \<and> (\<forall>y\<in>set (ds @ [x]). looked_at (fst t) (ps_polled c') y))
        (\<lambda>x t. states_only f (fst t)) t'"
      using I by (intro poll_monitor_step [OF _ _ d]) auto
  qed (use that looked_at_up [OF _ d] in \<open>auto simp: wp_ret\<close>)
  have names: "row_keeps P (loop (probe_name e) rs c)" for P rs c by (intro row_rules row_keeps_probe_name)
  show ?thesis
    unfolding validate_migrate_def
    by (intro wp_from_rows wp_readI silent_seq [OF names]) (auto simp: valid_name_def nm intro!: polls)
qed

lemma validate_keeps_rows: "states_only f (fst (fst (validate_migrate e sid did project (f, w))))" if "distinct (map bd_id (fb_bindings f))"
proof (cases "compose_project_name (Some project)")
  case (Inl m)
  then show ?thesis by (simp add: validate_migrate_def seq_def from_rows_def valid_name_def)
next
  case (Inr nm)
  show ?thesis using validate_up [OF that Inr, of e sid did w] by (auto simp: wp_def split: prod.splits sum.splits)
qed

end
