(* ===== verification/FabricProps.thy ===== *)
theory FabricProps
  imports CutoverFacts RebindProps
begin

text \<open>
  The tables of the fabric as a state machine: edits of hosts and names, cutovers and rebinds in any order, with any answers
  of the Pi-holes and the proxies.
\<close>

section \<open>Any history of the tables\<close>

text \<open>One operation: what it is called with and what the outside answers are free.\<close>

inductive fabric_step :: "fabric \<times> 'w \<Rightarrow> fabric \<times> 'w \<Rightarrow> bool" where
  Elsewhere: "fabric_step (f, w) (f, w')"
| NameHost: "fabric_step s (fst (update_server_dns e uid old q s))"
| SyncHost: "fabric_step s (fst (sync_host_a e uid h s))"
| UnsyncHost: "fabric_step s (fst (remove_host_a e uid h domain ip s))"
| NameService: "fabric_step s (fst (upsert_service_record e uid form s))"
| SyncService: "fabric_step s (fst (sync_service_dns e uid r s))"
| DropService: "fabric_step s (fst (delete_service_record e uid r remove s))"
| LinkService: "fabric_step s (fst (link_service_project e uid r project mark_direct s))"
| ForgetHost: "fabric_step (f, w) (fst (cleanup_dns_for_server sid f), w)"
| Cutover: "fabric_step s (fst (retarget_dns_npm c source dest project dest_project pm adopt s))"
| Rebind: "fabric_step (f, w) (fst (rebind_control_plane now sid did project dest_project f), w)"

lemma cutover_ok: "row_keeps fabric_ok (retarget_dns_npm c source dest project dest_project pm adopt)"
proof -
  have "fabric_ok (fst (fst (retarget_dns_npm c source dest project dest_project pm adopt (f, w))))" if "fabric_ok f" for f w
  proof (cases "cut_args_of f source dest project dest_project pm")
    case (Inl x)
    then show ?thesis using that by (simp add: retarget_dns_npm_def seq_def from_rows_def)
  next
    case (Inr a)
    show ?thesis using retarget_cuts [OF that Inr, where w = w and e = c and adopt = adopt]
      by (auto simp: wp_def cut_upto_def cut_ok_def split: prod.splits sum.splits)
  qed
  then show ?thesis by (auto simp: row_keeps_def keeps_def)
qed

lemma rebind_ok:
  assumes "fabric_ok f"
  shows "fabric_ok (fst (rebind_control_plane now sid did project dest_project f))"
proof -
  have "fabric_ok f'" if "indexes_hold f'" "fb_records f' = fb_records f" "fb_hosts f' = fb_hosts f" "fb_next_record f' = fb_next_record f" for f'
    using assms that by (simp add: fabric_ok_def)
  then show ?thesis
    using assms
    by (auto simp: rebind_control_plane_def commit_fabric_def rebound_def moved_tables_def rbind_def
        dest: clone_frame split: sum.split prod.split if_splits)
qed

lemma row_keeps_result: "row_keeps P m \<Longrightarrow> P (fst s) \<Longrightarrow> P (fst (fst (m s)))"
  by (cases s) (simp add: row_keeps_def keeps_def)

lemma fabric_step_ok:
  assumes "fabric_step s t" and "fabric_ok (fst s)"
  shows "fabric_ok (fst t)"
  using assms
proof cases
  case NameHost then show ?thesis using row_keeps_result [OF update_server_dns_ok] assms(2) by simp
next
  case SyncHost then show ?thesis using row_keeps_result [OF sync_host_a_ok] assms(2) by simp
next
  case UnsyncHost then show ?thesis using row_keeps_result [OF remove_host_a_ok] assms(2) by simp
next
  case NameService then show ?thesis using row_keeps_result [OF upsert_ok] assms(2) by simp
next
  case SyncService then show ?thesis using row_keeps_result [OF sync_service_ok] assms(2) by simp
next
  case DropService then show ?thesis using row_keeps_result [OF delete_service_ok] assms(2) by simp
next
  case LinkService then show ?thesis using row_keeps_result [OF link_service_ok] assms(2) by simp
next
  case Cutover then show ?thesis using row_keeps_result [OF cutover_ok] assms(2) by simp
qed (use assms(2) in \<open>auto simp: cleanup_ok rebind_ok\<close>)

text \<open>C11: whatever happens to the fabric, its tables stay well-formed. Host names are valid and unique, an
  A record is only managed for a host with a name, an override is an IPv4 address; service names are valid, unique and
  numbered, an A record is never behind the proxy; and every unique index holds. The operations are those
  on hosts and services, the removal of a host, the cutover and the rebind of a Move, each also when it raises half-way.\<close>

theorem fabric_stays_well_formed:
  assumes "fabric_step\<^sup>*\<^sup>* s t" and "fabric_ok (fst s)"
  shows "fabric_ok (fst t)"
  using assms by (induction rule: rtranclp_induct) (auto intro: fabric_step_ok)

section \<open>A name of a service\<close>


section \<open>The names of a moved project\<close>



section \<open>A small fleet\<close>

text \<open>Two hosts with names, a direct name and a proxied name of the project, and a name of another project.\<close>

definition fleet :: "int \<Rightarrow> string \<Rightarrow> fleet_host" where
  "fleet i n = \<lparr>h_id = i, h_name = n, h_hostname = ''10.0.0.1'', h_ssh_username = ''ops'', h_docker_base_dir = [], h_os_type = ''linux'',
     fh_ip_address = None, fh_dns_name = Some (n @ ''.lan''), fh_dns_manage_a = True, fh_dns_ip_override = None,
     fh_containers_on = True, fh_inventory = Absent\<rparr>"

definition named :: "int \<Rightarrow> string \<Rightarrow> string \<Rightarrow> bool \<Rightarrow> dns_record" where
  "named i n project managed = (new_record i)\<lparr>dr_fqdn := n, dr_target := 1, dr_backend := 1, dr_project := Some project, dr_managed := managed\<rparr>"

definition small_fleet :: "bool \<Rightarrow> fabric" where
  "small_fleet managed = \<lparr>fb_hosts = [fleet 1 ''one'', fleet 2 ''two''],
     fb_records = [named 1 ''app.lan'' ''web'' managed, named 2 ''other.lan'' ''db'' managed],
     fb_integrations = [], fb_bindings = [], fb_deployments = [], fb_visuals = [], fb_annotations = [], fb_ports = [], fb_edges = [],
     fb_targets = [], fb_next_record = 3, fb_next_target = 1, fb_audits = []\<rparr>"

definition quiet_env :: "'w cut_env" where
  "quiet_env = \<lparr>dn_now = 7, dn_pihole = (\<lambda>r oper. ret ()), ce_npm = (\<lambda>r oper. ret (JObj [])), ce_log = (\<lambda>msg w. w)\<rparr>"

definition small_cut :: cut_args where
  "small_cut = \<lparr>ca_source = fleet 1 ''one'', ca_dest = fleet 2 ''two'', ca_name = ''web'', ca_dest_name = ''web'', ca_port_map = [], ca_hosts = []\<rparr>"

lemma small_fleet_ok: "fabric_ok (small_fleet False)" "cut_args_of (small_fleet False) (fleet 1 ''one'') (fleet 2 ''two'') ''web'' None [] = Inr small_cut"
  by code_simp+

lemma small_cut_runs:
  "snd (retarget_dns_npm quiet_env (fleet 1 ''one'') (fleet 2 ''two'') ''web'' None [] False (small_fleet False, ())) = Inr (JObj [(''ok'', JBool True),
     (''records'', JList [JObj [(''fqdn'', JStr ''app.lan''), (''action'', JStr ''cname''), (''target'', JStr ''two.lan'')]]),
     (''restartdns'', JList [])])"
  by code_simp

lemma small_rows: "project_rows (small_fleet managed) (fleet 1 ''one'') (fleet 2 ''two'') (ca_name small_cut) = [named 1 ''app.lan'' ''web'' managed]"
  "\<not> own_name small_cut (named 1 ''app.lan'' ''web'' managed)"
  by (cases managed; code_simp)+

lemma unit_run: "\<exists>f' r. (z :: (fabric \<times> unit) \<times> 'r) = ((f', ()), r)"
  by (cases z; cases "fst z") auto


lemma fabric_stays_well_formed_witness:
  "fabric_ok (fst (fst (upsert_service_record (dns_env.truncate quiet_env) None (record_form small_cut (named 1 ''app.lan'' ''web'' False) 2 False) (small_fleet False, ()))))"
  by (rule fabric_stays_well_formed [where s = "(small_fleet False, ())"]) (auto simp: small_fleet_ok intro: NameService)

definition small_form :: service_form where
  "small_form = record_form small_cut (named 1 ''app.lan'' ''web'' False) 2 False"


text \<open>A Pi-hole that is down for a while: the first cutover stops after the row was saved. Run again under the new name, it
  reports success and never speaks to the Pi-hole.\<close>

definition failing_env :: "nat cut_env" where
  "failing_env = \<lparr>dn_now = 7, dn_pihole = (\<lambda>r oper n. (Suc n, if n < 3 then Inl ''timeout'' else Inr ())), ce_npm = (\<lambda>r oper. ret (JObj [])), ce_log = (\<lambda>msg w. w)\<rparr>"

definition piholed :: fabric where
  "piholed = (small_fleet True)\<lparr>fb_integrations := [\<lparr>in_id = 1, in_type = ''pihole'', in_name = ''p'', in_base_url = [], in_enabled = True, in_config = Absent, in_status = Absent\<rparr>]\<rparr>"

definition first_try :: "(fabric \<times> nat) \<times> (move_exc + json)" where
  "first_try = retarget_dns_npm failing_env (fleet 1 ''one'') (fleet 2 ''two'') ''web'' (Some ''web2'') [] False (piholed, 0)"

definition second_try :: "(fabric \<times> nat) \<times> (move_exc + json)" where
  "second_try = retarget_dns_npm failing_env (fleet 1 ''one'') (fleet 2 ''two'') ''web'' (Some ''web2'') [] False (fst first_try)"

definition renamed_cut :: cut_args where
  "renamed_cut = small_cut\<lparr>ca_dest_name := ''web2''\<rparr>"

definition moved_name :: dns_record where
  "moved_name = (named 1 ''app.lan'' ''web2'' True)\<lparr>dr_target := 2, dr_backend := 2, dr_synced_at := Some 7,
     dr_sync_status := Some ''error'', dr_sync_detail := Some ''p:timeout'', dr_updated_at := 7\<rparr>"

lemma both_tries:
  "case first_try of ((f, w), r) \<Rightarrow> r = Inl (CutoverError ''Pi-hole DNS sync failed: p:timeout'') \<and> fabric_ok f \<and> get_record f 1 = Some moved_name
     \<and> (case retarget_dns_npm failing_env (fleet 1 ''one'') (fleet 2 ''two'') ''web'' (Some ''web2'') [] False (f, w) of ((f', w'), r') \<Rightarrow>
          r' = Inr (JObj [(''ok'', JBool True), (''records'', JList []), (''restartdns'', JList [])]) \<and> w' = w)"
  by code_simp

lemma first_try_fails: "fabric_ok (fst (fst first_try))" "get_record (fst (fst first_try)) 1 = Some moved_name"
  and second_try_silent: "\<exists>v. snd second_try = Inr v" "snd (fst second_try) = snd (fst first_try)"
  subgoal using both_tries by (cases first_try) (simp add: split_beta)
  subgoal using both_tries by (cases first_try) (simp add: split_beta)
  subgoal using both_tries by (cases first_try) (auto simp: split_beta second_try_def)
  subgoal using both_tries by (cases first_try) (simp add: split_beta second_try_def)
  done


end
