(* ===== verification/MoveFabric.thy ===== *)
theory MoveFabric
  imports ValidateFacts FabricProps MoveSafety
begin

text \<open>
  The pipeline of a Move on the tables of the control plane: its cutover, its rebind and its validation are the ones
  of the fabric, everything else is answered by any outside.
\<close>

section \<open>The pipeline and the fabric together\<close>

definition both_hosts :: "int \<Rightarrow> int \<Rightarrow> fabric \<Rightarrow> move_exc + fleet_host \<times> fleet_host" where
  "both_hosts sid did f = (case (get_host f sid, get_host f did) of
     (Some s, Some d) \<Rightarrow> Inr (s, d) | _ \<Rightarrow> Inl (OtherError ''server not found''))"

definition fabric_call :: "'w cut_env \<Rightarrow> 'w probe_env \<Rightarrow> int \<Rightarrow> 'w outside \<Rightarrow> move_op \<Rightarrow> (fabric \<times> 'w, json) move" where
  "fabric_call c e now x call = (case call of
     Retarget sid did p dp pm adopt \<Rightarrow> seq (from_rows (both_hosts sid did)) (\<lambda>(s, d). retarget_dns_npm c s d p dp pm adopt)
   | RebindRows sid did p dp \<Rightarrow> with_rows (rebind_control_plane now sid did p dp)
   | Validate sid did p \<Rightarrow> validate_migrate e sid did p
   | _ \<Rightarrow> with_world (o_call x call))"

definition on_fabric :: "'w cut_env \<Rightarrow> 'w probe_env \<Rightarrow> int \<Rightarrow> 'w outside \<Rightarrow> (fabric \<times> 'w) outside" where
  "on_fabric c e now x = \<lparr>o_call = fabric_call c e now x, o_log = (\<lambda>m (f, w). (f, o_log x m w)), o_step = (\<lambda>m (f, w). (f, o_step x m w))\<rparr>"

lemma fabric_rests: "at_rest (on_fabric c e now x) (\<lambda>s. P (fst s))"
proof -
  have "keeps (\<lambda>s. P (fst s)) (with_world m)" for m :: "('a, move_exc, json) act"
    by (auto simp: keeps_def with_world_def split_beta)
  then have "silent call \<Longrightarrow> keeps (\<lambda>s. P (fst s)) (fabric_call c e now x call)" for call
    by (cases call) (simp_all add: fabric_call_def)
  then show ?thesis by (auto simp: at_rest_def on_fabric_def)
qed

section \<open>Names\<close>

definition of_project :: "int \<Rightarrow> int \<Rightarrow> string \<Rightarrow> dns_record \<Rightarrow> bool" where
  "of_project sid did nm x = (dr_project x = Some nm \<and> (dr_backend x = sid \<or> dr_backend x = did))"

definition same_name :: "dns_record \<Rightarrow> dns_record \<Rightarrow> bool" where
  "same_name x x' = (\<exists>t. x' = x\<lparr>dr_target := t\<rparr>)"

text \<open>Some names of the project are on the destination, every other name is where it was.\<close>

definition names_carried :: "int \<Rightarrow> int \<Rightarrow> string \<Rightarrow> fabric \<Rightarrow> fabric \<Rightarrow> bool" where
  "names_carried sid did nm f g = (fabric_ok g \<and> rest_same f g \<and> (\<forall>x\<in>set (fb_records f). \<exists>x'. get_record g (dr_id x) = Some x'
     \<and> (of_project sid did nm x \<and> dr_backend x' = did \<and> dr_id x' = dr_id x \<or> same_name x x')))"

definition host_named :: "fleet_host \<Rightarrow> fleet_host \<Rightarrow> dns_record \<Rightarrow> bool" where
  "host_named s d x = (is_host_identity_name (dr_fqdn x) (Some s) \<or> is_host_identity_name (dr_fqdn x) (Some d))"

text \<open>All of them are, but for the names of the two hosts.\<close>

definition names_arrived :: "fleet_host \<Rightarrow> fleet_host \<Rightarrow> string \<Rightarrow> fabric \<Rightarrow> fabric \<Rightarrow> bool" where
  "names_arrived s d nm f g = (\<forall>x\<in>set (fb_records f). of_project (h_id s) (h_id d) nm x \<longrightarrow> \<not> host_named s d x \<longrightarrow>
     (\<exists>x'. get_record g (dr_id x) = Some x' \<and> dr_backend x' = h_id d))"

lemma same_nameI: "same_name x x" "same_name x (x\<lparr>dr_target := t\<rparr>)"
  unfolding same_name_def by (rule exI [of _ "dr_target x"], simp) blast

lemma same_name_frame: "same_name x x' \<Longrightarrow> dr_id x' = dr_id x \<and> dr_fqdn x' = dr_fqdn x \<and> dr_backend x' = dr_backend x \<and> dr_project x' = dr_project x"
  by (auto simp: same_name_def)

lemma names_carried_refl: "fabric_ok f \<Longrightarrow> names_carried sid did nm f f"
  by (auto simp: names_carried_def rest_same_def record_there same_nameI)

lemma record_mem: "get_record g i = Some x \<Longrightarrow> x \<in> set (fb_records g) \<and> dr_id x = i"
  by (auto simp: get_record_def dest: get_row_Some)

lemma names_carried_trans:
  assumes "names_carried sid did nm f g" and "names_carried sid did nm g h"
  shows "names_carried sid did nm f h"
proof -
  have "\<exists>x''. get_record h (dr_id x) = Some x'' \<and> (of_project sid did nm x \<and> dr_backend x'' = did \<and> dr_id x'' = dr_id x \<or> same_name x x'')"
    if x: "x \<in> set (fb_records f)" for x
  proof -
    obtain x' where x': "get_record g (dr_id x) = Some x'" "of_project sid did nm x \<and> dr_backend x' = did \<and> dr_id x' = dr_id x \<or> same_name x x'"
      using assms(1) x by (auto simp: names_carried_def)
    obtain x'' where "get_record h (dr_id x') = Some x''" "of_project sid did nm x' \<and> dr_backend x'' = did \<and> dr_id x'' = dr_id x' \<or> same_name x' x''"
      using assms(2) record_mem [OF x'(1)] by (auto simp: names_carried_def)
    then show ?thesis
      using x' record_mem [OF x'(1)] by (auto simp: of_project_def same_name_def)
  qed
  then show ?thesis using assms by (auto simp: names_carried_def intro: rest_same_trans)
qed

lemma names_arrived_later:
  assumes "names_carried (h_id s) (h_id d) nm f g" and "names_carried (h_id s) (h_id d) nm g h" and "names_arrived s d nm g h"
  shows "names_arrived s d nm f h"
  unfolding names_arrived_def
proof (intro ballI impI)
  fix x assume x: "x \<in> set (fb_records f)" "of_project (h_id s) (h_id d) nm x" "\<not> host_named s d x"
  obtain x' where x': "get_record g (dr_id x) = Some x'" "dr_backend x' = h_id d \<or> same_name x x'"
    using assms(1) x(1) by (auto simp: names_carried_def)
  have mem: "x' \<in> set (fb_records g)" "dr_id x' = dr_id x" using record_mem [OF x'(1)] by auto
  obtain x'' where x'': "get_record h (dr_id x') = Some x''" "dr_backend x'' = h_id d \<or> same_name x' x''"
    using assms(2) mem(1) by (auto simp: names_carried_def)
  show "\<exists>x'. get_record h (dr_id x) = Some x' \<and> dr_backend x' = h_id d"
  proof (cases "dr_backend x' = h_id d")
    case True
    then show ?thesis using x'' mem(2) same_name_frame [of x' x''] by auto
  next
    case False
    then have "same_name x x'" using x'(2) by simp
    then have "of_project (h_id s) (h_id d) nm x'" "\<not> host_named s d x'"
      using x(2,3) same_name_frame [of x x'] by (auto simp: of_project_def host_named_def)
    then show ?thesis using assms(3) mem by (auto simp: names_arrived_def)
  qed
qed

section \<open>The steps\<close>

lemma project_rows_of:
  assumes "fabric_ok f" and "h_id s \<noteq> h_id d" and "h_id d \<noteq> 0"
  shows "x \<in> set (project_rows f s d nm) \<longleftrightarrow> x \<in> set (fb_records f) \<and> of_project (h_id s) (h_id d) nm x"
  using assms(2,3) same_row [OF assms(1)] by (fastforce simp: project_rows_def dns_rows_def Let_def of_project_def)

lemma retarget_carries:
  assumes ok: "fabric_ok f" and nm: "compose_project_name (Some project) = Inr nm" and "h_id s \<noteq> h_id d" and "h_id d \<noteq> 0"
  shows "wp (retarget_dns_npm c s d project dp pm adopt)
    (\<lambda>v t. names_carried (h_id s) (h_id d) nm f (fst t) \<and> names_arrived s d nm f (fst t))
    (\<lambda>x t. names_carried (h_id s) (h_id d) nm f (fst t)) (f, w)"
proof (cases "cut_args_of f s d project dp pm")
  case (Inl x)
  then show ?thesis by (simp add: wp_def retarget_dns_npm_def seq_def from_rows_def names_carried_refl ok)
next
  case (Inr a)
  have a: "ca_name a = nm" "ca_source a = s" "ca_dest a = d"
    using Inr nm by (auto simp: cut_args_of_def rbind_eq_Inr split: sum.splits)
  note rows = project_rows_of [OF ok assms(3,4)]
  have carried: "names_carried (h_id s) (h_id d) nm f g" if "cut_ok a f (project_rows f s d nm) g" for g
  proof -
    have "of_project (h_id s) (h_id d) nm x \<and> dr_backend x' = h_id d \<and> dr_id x' = dr_id x \<or> same_name x x'"
      if "x \<in> set (project_rows f s d nm) \<and> moved_to a x x' \<or> kept_row a x x'" for x x'
      using that same_nameI by (auto simp: moved_to_def kept_row_def a rows)
    then show ?thesis using that unfolding cut_ok_def names_carried_def by blast
  qed
  have arrived: "names_arrived s d nm f g" if "cut_upto a f (project_rows f s d nm) (project_rows f s d nm) g" for g
    using that by (auto simp: cut_upto_def names_arrived_def own_name_def host_named_def is_moved_def moved_to_def a rows)
  show ?thesis
    by (rule wp_conseq [OF retarget_cuts [OF ok Inr]]) (auto simp: a carried arrived cut_upto_def)
qed

text \<open>Where a Move finds its hosts and its rows.\<close>

definition move_on :: "move_args \<Rightarrow> fleet_host \<Rightarrow> fleet_host \<Rightarrow> fabric \<Rightarrow> bool" where
  "move_on a s d f = (fabric_ok f \<and> distinct (map bd_id (fb_bindings f)) \<and> source_id a = h_id s \<and> dest_id a = h_id d
     \<and> get_host f (h_id s) = Some s \<and> get_host f (h_id d) = Some d \<and> h_id s \<noteq> h_id d \<and> h_id d \<noteq> 0)"

lemma carried_hosts:
  assumes "move_on a s d f" and "names_carried i j nm f g"
  shows "move_on a s d g"
proof -
  have "fb_hosts g = fb_hosts f" "fb_bindings g = fb_bindings f" using assms(2) by (auto simp: names_carried_def rest_same_def)
      (metis fabric.surjective fabric.update_convs(1,2,11,13) fabric.select_convs(1,4))+
  then show ?thesis using assms by (simp add: move_on_def get_host_def names_carried_def)
qed

lemma retarget_call:
  assumes on: "move_on a s d f" and nm: "compose_project_name (Some p) = Inr nm"
  shows "wp (o_call (on_fabric c e now x) (Retarget (source_id a) (dest_id a) p dp pm adopt))
    (\<lambda>v t. names_carried (h_id s) (h_id d) nm f (fst t) \<and> names_arrived s d nm f (fst t))
    (\<lambda>x t. names_carried (h_id s) (h_id d) nm f (fst t)) (f, w)"
proof -
  have "both_hosts (source_id a) (dest_id a) f = Inr (s, d)" using on by (simp add: move_on_def both_hosts_def)
  moreover have "fabric_ok f" "h_id s \<noteq> h_id d" "h_id d \<noteq> 0" using on by (simp_all add: move_on_def)
  ultimately show ?thesis
    using retarget_carries [OF _ nm, of f s d c dp pm adopt w] by (simp add: on_fabric_def fabric_call_def wp_seq) (simp add: wp_def from_rows_def)
qed

text \<open>A second try under the old name, should the first one raise a \<open>TypeError\<close>.\<close>

lemma retarget_twice:
  assumes on: "move_on a s d f" and nm: "compose_project_name (Some p) = Inr nm"
  shows "wp (call_or (on_fabric c e now x) (Retarget (source_id a) (dest_id a) p dp pm adopt) (Retarget (source_id a) (dest_id a) p None [] False))
    (\<lambda>v t. names_carried (h_id s) (h_id d) nm f (fst t) \<and> names_arrived s d nm f (fst t))
    (\<lambda>x t. names_carried (h_id s) (h_id d) nm f (fst t)) (f, w)"
proof -
  have "wp (o_call (on_fabric c e now x) (Retarget (source_id a) (dest_id a) p None [] False))
      (\<lambda>v t. names_carried (h_id s) (h_id d) nm f (fst t) \<and> names_arrived s d nm f (fst t))
      (\<lambda>x t. names_carried (h_id s) (h_id d) nm f (fst t)) t"
    if g: "names_carried (h_id s) (h_id d) nm f (fst t)" for t
    using retarget_call [OF carried_hosts [OF on g] nm, of c e now x None "[]" False "snd t", unfolded prod.collapse]
    by (rule wp_conseq) (auto intro: names_carried_trans [OF g] names_arrived_later [OF g])
  then show ?thesis
    unfolding call_or_def wp_catching
    by (intro wp_conseq [OF retarget_call [OF on nm]]) (auto simp: wp_raise split: move_exc.split)
qed

lemma wp_log [simp]: "wp (log (on_fabric c e now x) m) Q R s = Q () (fst s, o_log x m (snd s))"
  and wp_step [simp]: "wp (step (on_fabric c e now x) m) Q R s = Q () (fst s, o_step x m (snd s))"
  by (cases s; simp add: log_def step_def on_fabric_def wp_simps)+

lemma cutover_carries:
  assumes "move_on a s d (fst t)" and "compose_project_name (Some (mp_name p)) = Inr nm"
  shows "wp (cutover_step (on_fabric c e now x) a p pf)
    (\<lambda>v t'. names_carried (h_id s) (h_id d) nm (fst t) (fst t') \<and> names_arrived s d nm (fst t) (fst t'))
    (\<lambda>x t'. names_carried (h_id s) (h_id d) nm (fst t) (fst t')) t"
  unfolding cutover_step_def
  by (simp add: wp_seq wp_catching, rule wp_conseq [OF retarget_twice [OF assms]]) (auto simp: wp_raise split: move_exc.split)

section \<open>Rows\<close>

lemma rebind_ids:
  assumes "indexes_hold f" and "distinct (map bd_id (fb_bindings f))" and "sid \<noteq> did"
  shows "distinct (map bd_id (fb_bindings (fst (rebind_control_plane now sid did project dp f))))"
proof -
  have "distinct (map bd_id (fb_bindings f'))"
    if a: "rebind_args_of now sid did project dp = Inr a" and s: "rebind_bindings a (fb_bindings f) t = Inr s"
      and f': "fold (clone_target a) cs (moved_tables a f (bn_rows s), n) = (f', t')" for a t s cs n f' t'
    using rebind_bindings_result(2) [OF rebind_args_clean(1) [OF a assms(3)] _ assms(2) s] clone_frame [OF f'] assms(1)
    by (simp add: indexes_hold_def moved_tables_def)
  then show ?thesis
    using assms(2) by (auto simp: rebind_control_plane_def commit_fabric_def rebound_def rbind_def split: sum.split prod.split if_splits)
qed

text \<open>The tables after a rebind that committed.\<close>

definition rows_arrived :: "int \<Rightarrow> int \<Rightarrow> string \<Rightarrow> string \<Rightarrow> fabric \<Rightarrow> bool" where
  "rows_arrived sid did nm dn f =
     (\<exists>now. nothing_left \<lparr>ra_source = sid, ra_dest = did, ra_name = nm, ra_dest_name = dn, ra_now = now\<rparr> f)"

lemma rebind_call:
  assumes on: "move_on a s d (fst t)" and nm: "compose_project_name (Some p) = Inr nm"
  shows "wp (o_call (on_fabric c e now x) (RebindRows (source_id a) (dest_id a) p dp))
    (\<lambda>v t'. move_on a s d (fst t') \<and> fb_records (fst t') = fb_records (fst t)
      \<and> (\<exists>dn. compose_project_name (Some (if text0 dp \<noteq> [] then text0 dp else p)) = Inr dn \<and> rows_arrived (h_id s) (h_id d) nm dn (fst t')))
    (\<lambda>x t'. fst t' = fst t \<and> (\<forall>m. x \<noteq> WrongArgs m)) t"
proof -
  obtain f w where t: "t = (f, w)" by (cases t)
  obtain g r where run: "rebind_control_plane now (h_id s) (h_id d) p dp f = (g, r)"
    by (cases "rebind_control_plane now (h_id s) (h_id d) p dp f")
  have f: "fabric_ok f" "indexes_hold f" "distinct (map bd_id (fb_bindings f))" "h_id s \<noteq> h_id d"
    using on by (simp_all add: move_on_def t fabric_ok_def)
  note ends = rebind_ends [OF f(2-4) run]
  have keep: "fabric_ok g" "distinct (map bd_id (fb_bindings g))"
    using rebind_ok [OF f(1), of now "h_id s" "h_id d" p dp] rebind_ids [OF f(2-4), of now p dp] run by simp_all
  have "move_on a s d g" "fb_records g = fb_records f"
    "\<exists>dn. compose_project_name (Some (if text0 dp \<noteq> [] then text0 dp else p)) = Inr dn \<and> rows_arrived (h_id s) (h_id d) nm dn g"
    if r: "r = Inr v" for v
  proof -
    obtain a' where a': "rebind_args_of now (h_id s) (h_id d) p dp = Inr a'" "nothing_left a' g" "others_stay a' f g"
      using ends r by auto
    obtain dn where dn: "compose_project_name (Some (if text0 dp \<noteq> [] then text0 dp else p)) = Inr dn"
      "a' = \<lparr>ra_source = h_id s, ra_dest = h_id d, ra_name = nm, ra_dest_name = dn, ra_now = now\<rparr>"
      using a'(1) nm by (auto simp: rebind_args_of_def split: sum.splits)
    show "move_on a s d g" "fb_records g = fb_records f"
      using a' keep on by (auto simp: move_on_def t others_stay_def get_host_def)
    show "\<exists>dn. compose_project_name (Some (if text0 dp \<noteq> [] then text0 dp else p)) = Inr dn \<and> rows_arrived (h_id s) (h_id d) nm dn g"
      using a'(2) dn by (auto simp: rows_arrived_def)
  qed
  then show ?thesis
    using ends run on by (cases r) (auto simp: wp_def t on_fabric_def fabric_call_def with_rows_def move_on_def)
qed

lemma rebind_carries:
  assumes on: "move_on a s d (fst t)" and nm: "compose_project_name (Some (mp_name p)) = Inr nm"
  shows "wp (rebind_step (on_fabric c e now x) a p)
    (\<lambda>v t'. move_on a s d (fst t') \<and> fb_records (fst t') = fb_records (fst t)
      \<and> (\<exists>dn. (mp_dest_name p \<noteq> [] \<longrightarrow> compose_project_name (Some (mp_dest_name p)) = Inr dn) \<and> rows_arrived (h_id s) (h_id d) nm dn (fst t')))
    (\<lambda>x t'. fst t' = fst t) t"
  unfolding rebind_step_def call_or_def
  by (simp add: wp_seq wp_catching, rule wp_conseq [OF rebind_call [OF _ nm]])
    (use on in \<open>auto simp: wp_raise text0_def split: move_exc.split\<close>)

section \<open>The whole Move\<close>

definition fabric_done :: "fleet_host \<Rightarrow> fleet_host \<Rightarrow> string \<Rightarrow> string \<Rightarrow> fabric \<Rightarrow> fabric \<Rightarrow> bool" where
  "fabric_done s d nm dn f g = (fabric_ok g \<and> names_arrived s d nm f g \<and> rows_arrived (h_id s) (h_id d) nm dn g)"

lemma fabric_done_states: "states_only g h \<Longrightarrow> fabric_done s d nm dn f g \<Longrightarrow> fabric_done s d nm dn f h"
  by (simp add: fabric_done_def states_only_frame rows_arrived_def names_arrived_def get_record_def)

lemma no_empty_name: "compose_project_name (Some []) = Inl ''invalid compose project name''"
  by code_simp

lemma validate_carries:
  assumes on: "move_on a s d (fst t)" and dn: "mp_dest_name p \<noteq> [] \<longrightarrow> compose_project_name (Some (mp_dest_name p)) = Inr dn"
  shows "wp (validate_step (on_fabric c e now x) a p) (\<lambda>v t'. states_only (fst t) (fst t') \<and> monitors_up (h_id d) dn (fst t'))
    (\<lambda>x t'. states_only (fst t) (fst t')) t"
proof -
  have ids: "distinct (map bd_id (fb_bindings (fst t)))" "source_id a = h_id s" "dest_id a = h_id d" using on by (simp_all add: move_on_def)
  have "wp (validate_migrate e (h_id s) (h_id d) (mp_dest_name p)) (\<lambda>v t'. states_only (fst t) (fst t') \<and> monitors_up (h_id d) dn (fst t'))
      (\<lambda>x t'. states_only (fst t) (fst t')) (fst t, w)" for w
  proof (cases "compose_project_name (Some (mp_dest_name p))")
    case (Inl m)
    then show ?thesis by (simp add: wp_def validate_migrate_def seq_def from_rows_def valid_name_def)
  next
    case (Inr n)
    then have "n = dn" using dn by (cases "mp_dest_name p = []") (auto simp: no_empty_name)
    then show ?thesis using validate_up [OF ids(1) Inr, of e "h_id s" "h_id d" w] by simp
  qed
  then have call: "wp (o_call (on_fabric c e now x) (Validate (h_id s) (h_id d) (mp_dest_name p)))
      (\<lambda>v t'. states_only (fst t) (fst t') \<and> monitors_up (h_id d) dn (fst t')) (\<lambda>x t'. states_only (fst t) (fst t')) (fst t, w)" for w
    by (simp add: on_fabric_def fabric_call_def)
  show ?thesis
    unfolding validate_step_def ids
    by (simp add: wp_seq wp_catching, rule wp_conseq [OF call]) (auto simp: wp_raise split: move_exc.split)
qed

text \<open>The fabric of a Move that stopped: some names are carried, or all of them and the rows too.\<close>

definition fabric_partly :: "fleet_host \<Rightarrow> fleet_host \<Rightarrow> string \<Rightarrow> fabric \<Rightarrow> fabric \<Rightarrow> bool" where
  "fabric_partly s d nm f g = (names_carried (h_id s) (h_id d) nm f g \<or> (\<exists>dn. fabric_done s d nm dn f g))"

definition fabric_moved :: "fleet_host \<Rightarrow> fleet_host \<Rightarrow> string \<Rightarrow> fabric \<Rightarrow> fabric \<Rightarrow> bool" where
  "fabric_moved s d nm f g = (\<exists>dn. fabric_done s d nm dn f g \<and> monitors_up (h_id d) dn g)"

lemma wp_rest:
  assumes "\<And>P. keeps (\<lambda>s. P (fst s)) m" and "\<And>v t'. fst t' = fst t \<Longrightarrow> wp (k v) Q R t'" and "\<And>x t'. fst t' = fst t \<Longrightarrow> R x t'"
  shows "wp (seq m k) Q R t"
  by (rule wp_seq_keeps [where P = "\<lambda>s. fst s = fst t"]) (use assms in auto)

lemma after_copy_carries:
  fixes t :: "fabric \<times> 'w"
  assumes on: "move_on a s d (fst t)" and nm: "compose_project_name (Some (mp_name p)) = Inr nm"
  shows "wp (after_copy (on_fabric c e now x) a p pf) (\<lambda>v t'. fabric_moved s d nm (fst t) (fst t')) (\<lambda>x t'. fabric_partly s d nm (fst t) (fst t')) t"
proof -
  note rests = fabric_rests [of c e now x]
  let ?f = "fst t"
  have start: "fabric_partly s d nm ?f ?f" using on by (simp add: fabric_partly_def names_carried_refl move_on_def)
  have tail: "wp (seq (leftover_step (on_fabric c e now x) a p pf) (\<lambda>left. andalso (mark_stale_step (on_fabric c e now x) a)
      (andalso (log (on_fabric c e now x) ''Migrate complete.'') (ret (g left)))))
      (\<lambda>v t'. fabric_moved s d nm ?f (fst t')) (\<lambda>x t'. fabric_partly s d nm ?f (fst t')) t'"
    if m: "fabric_moved s d nm ?f (fst t')" for g :: "json \<Rightarrow> json" and t'
  proof -
    have "fabric_partly s d nm ?f (fst t')" using m by (auto simp: fabric_moved_def fabric_partly_def)
    then show ?thesis using m
      by (intro wp_rest [OF rest_leftover_step [OF rests]] wp_rest [OF rest_mark_stale [OF rests]]) (simp_all add: wp_simps)
  qed
  have valid: "wp (seq (validate_step (on_fabric c e now x) a p) (\<lambda>val. seq (leftover_step (on_fabric c e now x) a p pf)
      (\<lambda>left. andalso (mark_stale_step (on_fabric c e now x) a) (andalso (log (on_fabric c e now x) ''Migrate complete.'') (ret (g val left))))))
      (\<lambda>v t'. fabric_moved s d nm ?f (fst t')) (\<lambda>x t'. fabric_partly s d nm ?f (fst t')) t'"
    if on': "move_on a s d (fst t')" and dn: "mp_dest_name p \<noteq> [] \<longrightarrow> compose_project_name (Some (mp_dest_name p)) = Inr dn"
      and m: "fabric_done s d nm dn ?f (fst t')" for g :: "json \<Rightarrow> json \<Rightarrow> json" and dn t'
    by (rule wp_seqI [OF validate_carries [OF on' dn]], rule tail)
      (use fabric_done_states [OF _ m] in \<open>auto simp: fabric_moved_def fabric_partly_def\<close>)
  have rebind: "wp (seq (rebind_step (on_fabric c e now x) a p) (\<lambda>rb. seq (validate_step (on_fabric c e now x) a p) (\<lambda>val.
      seq (leftover_step (on_fabric c e now x) a p pf) (\<lambda>left. andalso (mark_stale_step (on_fabric c e now x) a)
      (andalso (log (on_fabric c e now x) ''Migrate complete.'') (ret (g rb val left)))))))
      (\<lambda>v t'. fabric_moved s d nm ?f (fst t')) (\<lambda>x t'. fabric_partly s d nm ?f (fst t')) t'"
    if car: "names_carried (h_id s) (h_id d) nm ?f (fst t')" and arr: "names_arrived s d nm ?f (fst t')"
    for g :: "json \<Rightarrow> json \<Rightarrow> json \<Rightarrow> json" and t'
  proof -
    have "fabric_done s d nm dn ?f (fst t'')"
      if "move_on a s d (fst t'')" "fb_records (fst t'') = fb_records (fst t')" "rows_arrived (h_id s) (h_id d) nm dn (fst t'')" for dn t''
      using that arr by (simp add: fabric_done_def names_arrived_def get_record_def move_on_def)
    note arrived = this
    show ?thesis
    proof (rule wp_seqI [OF rebind_carries [OF carried_hosts [OF on car] nm]])
      fix v and t'' :: "fabric \<times> 'w" assume "move_on a s d (fst t'') \<and> fb_records (fst t'') = fb_records (fst t')
        \<and> (\<exists>dn. (mp_dest_name p \<noteq> [] \<longrightarrow> compose_project_name (Some (mp_dest_name p)) = Inr dn) \<and> rows_arrived (h_id s) (h_id d) nm dn (fst t''))"
      then obtain dn where "move_on a s d (fst t'')" "fb_records (fst t'') = fb_records (fst t')" "rows_arrived (h_id s) (h_id d) nm dn (fst t'')"
        "mp_dest_name p \<noteq> [] \<longrightarrow> compose_project_name (Some (mp_dest_name p)) = Inr dn" by blast
      then show "wp (seq (validate_step (on_fabric c e now x) a p) (\<lambda>val. seq (leftover_step (on_fabric c e now x) a p pf)
          (\<lambda>left. andalso (mark_stale_step (on_fabric c e now x) a) (andalso (log (on_fabric c e now x) ''Migrate complete.'') (ret (g v val left))))))
          (\<lambda>v t'. fabric_moved s d nm ?f (fst t')) (\<lambda>x t'. fabric_partly s d nm ?f (fst t')) t''"
        by (intro valid [where dn = dn] arrived) auto
    qed (use car in \<open>auto simp: fabric_partly_def\<close>)
  qed
  have cut: "wp (seq (cutover_step (on_fabric c e now x) a p pf) (\<lambda>dns. seq (rebind_step (on_fabric c e now x) a p) (\<lambda>rb.
      seq (validate_step (on_fabric c e now x) a p) (\<lambda>val. seq (leftover_step (on_fabric c e now x) a p pf) (\<lambda>left.
      andalso (mark_stale_step (on_fabric c e now x) a) (andalso (log (on_fabric c e now x) ''Migrate complete.'') (ret (g dns rb val left))))))))
      (\<lambda>v t'. fabric_moved s d nm ?f (fst t')) (\<lambda>x t'. fabric_partly s d nm ?f (fst t')) t'"
    if same: "fst t' = ?f" for g :: "json \<Rightarrow> json \<Rightarrow> json \<Rightarrow> json \<Rightarrow> json" and t' :: "fabric \<times> 'w"
  proof -
    have here: "move_on a s d (fst t')" using on same by simp
    show ?thesis
      by (rule wp_seqI [OF cutover_carries [OF here nm]], rule rebind) (simp_all add: same, simp add: fabric_partly_def)
  qed
  have up: "keeps (\<lambda>s. P (fst s)) (o_call (on_fabric c e now x) (Redeploy (dest_id a) (mp_dst_proj p)))" for P
    by (auto simp: keeps_def on_fabric_def fabric_call_def with_world_def split_beta)
  show ?thesis
    unfolding after_copy_def by (intro wp_rest [OF rest_dest_up [OF rests up]] cut) (simp_all add: start)
qed

lemma seq_ret: "seq (ret v) k = k v"
  by (rule ext) (simp add: seq_def ret_def)

lemma run_carries:
  assumes on: "move_on a s d f" and nm: "compose_project_name (Some (ma_project a)) = Inr nm"
  shows "wp (run_copy_and_start (on_fabric c e now x) a) (\<lambda>v t'. fabric_moved s d nm f (fst t')) (\<lambda>x t'. fabric_partly s d nm f (fst t')) (f, w)"
proof -
  note rests = fabric_rests [of c e now x]
  have start: "fabric_partly s d nm f f" using on by (simp add: fabric_partly_def names_carried_refl move_on_def)
  have name: "compose_project_name (Some (mp_name (make_plan a nm pf))) = Inr nm" for pf
    using nm by (auto simp: make_plan_def Let_def compose_project_name_def split: if_splits)
  have after: "wp (after_copy (on_fabric c e now x) a (make_plan a nm pf) pf) (\<lambda>v t'. fabric_moved s d nm f (fst t'))
      (\<lambda>x t'. fabric_partly s d nm f (fst t')) t" if "fst t = f" for pf t
    using after_copy_carries [of a s d t _ nm c e now x pf, OF _ name] on by (simp add: that)
  show ?thesis
    unfolding run_copy_and_start_def Let_def checked_project_def nm sum.case seq_ret
    by (intro wp_rest [OF rest_step [OF rests]] wp_rest [OF rest_preflight [OF rests]] wp_rest [OF rest_stop_step [OF rests]]
        wp_rest [OF rest_copy_phase [OF rests]] wp_rest [OF rest_call [OF rests]] after) (simp_all add: start)
qed


section \<open>A small Move\<close>

definition calm_probe :: "'w probe_env" where
  "calm_probe = \<lparr>pe_log = (\<lambda>msg w. w), pe_prints = [], pe_tls = (\<lambda>url fp. ret (JObj [(''ok'', JBool True)])), pe_poll = (\<lambda>i w. (w, []))\<rparr>"

definition web_move :: move_args where
  "web_move = sample_move\<lparr>ma_source := sample_host 1 ''one'', ma_dest := sample_host 2 ''two'', ma_project := ''web''\<rparr>"

lemma web_move_runs:
  "case run_copy_and_start (on_fabric quiet_env calm_probe 7 tame) web_move (small_fleet False, []) of ((f', w'), r) \<Rightarrow>
     (case r of Inr v \<Rightarrow> True | Inl m \<Rightarrow> False) \<and> w' = [Stack 2 ''/d/web'']"
  by code_simp

lemma web_move_on: "move_on web_move (fleet 1 ''one'') (fleet 2 ''two'') (small_fleet False)"
  by code_simp


end
