(* ===== verification/DockerPorts.thy ===== *)
theory DockerPorts
  imports MoveNames
begin

text \<open>
  The published ports in the text Docker prints (\<open>parse_published_ports\<close> in \<open>app/services/dns_fabric/ports.py\<close>), and
  the sockets in the output of \<open>ss\<close> and \<open>netstat\<close> (\<open>app/services/service_migrate/facts.py\<close>). The two regular
  expressions are written out as the search Python does: from left to right, without overlap, the alternatives
  in their order and the longest repetition first.
\<close>

section \<open>One match\<close>

text \<open>A host port, a container port, a protocol, and how long the text is.\<close>

record port_match =
  pm_host :: string
  pm_container :: string
  pm_proto :: "string option"
  pm_len :: nat

definition short_number :: "nat \<Rightarrow> string \<Rightarrow> string" where
  "short_number n s = take n (takeWhile is_digit s)"

definition proto_suffix :: "string \<Rightarrow> string option" where
  "proto_suffix s = (let t = lower (take 4 s) in if t = ''/tcp'' \<or> t = ''/udp'' then Some (drop 1 t) else None)"

definition suffix_len :: "string option \<Rightarrow> nat" where
  "suffix_len p = (if p = None then 0 else 4)"

text \<open>\<open>host->container(/proto)?\<close>.\<close>

definition mapping_at :: "string \<Rightarrow> port_match option" where
  "mapping_at s =
     (let h = short_number 5 s; r = drop (length h) s; c = short_number 5 (drop 2 r); p = proto_suffix (drop (2 + length c) r) in
      if h = [] \<or> \<not> startswith r ''->'' \<or> c = [] then None
      else Some \<lparr>pm_host = h, pm_container = c, pm_proto = p, pm_len = length h + 2 + length c + suffix_len p\<rparr>)"

definition after_colon :: "string \<Rightarrow> port_match option" where
  "after_colon s = (if startswith s '':'' then mapping_at (drop 1 s) else None)"

text \<open>The address before it: dotted numbers, hexadecimal groups with or without brackets, or a star.\<close>

fun octets :: "nat \<Rightarrow> string \<Rightarrow> string option" where
  "octets 0 s = (let d = short_number 3 s in if d = [] then None else Some d)"
| "octets (Suc n) s = (let d = short_number 3 s; r = drop (length d) s in
     if d = [] \<or> \<not> startswith r ''.'' then None else map_option (\<lambda>t. d @ ''.'' @ t) (octets n (drop 1 r)))"

definition bound :: "string \<Rightarrow> string \<Rightarrow> (string \<times> port_match) option" where
  "bound b s = map_option (\<lambda>m. (b, m\<lparr>pm_len := pm_len m + length b + 1\<rparr>)) (after_colon (drop (length b) s))"

definition dotted_at :: "string \<Rightarrow> (string \<times> port_match) option" where
  "dotted_at s = (case octets 3 s of None \<Rightarrow> None | Some b \<Rightarrow> bound b s)"

definition group_char :: "char \<Rightarrow> bool" where
  "group_char c = (is_digit c \<or> c \<in> set ''abcdefABCDEF:'')"

text \<open>The first \<open>k\<close> characters of the groups, a closing bracket if it is there, then the rest; shorter ones next.\<close>

fun groups_at :: "nat \<Rightarrow> nat \<Rightarrow> string \<Rightarrow> (string \<times> port_match) option" where
  "groups_at lead 0 s = None"
| "groups_at lead (Suc k) s =
     (let n = lead + Suc k; b = take (if startswith (drop n s) '']'' then n + 1 else n) s in
      case bound b s of Some m \<Rightarrow> Some m | None \<Rightarrow> groups_at lead k s)"

definition hex_at :: "string \<Rightarrow> (string \<times> port_match) option" where
  "hex_at s = (let lead = (if startswith s ''['' then 1 else 0) in groups_at lead (length (takeWhile group_char (drop lead s))) s)"

definition star_at :: "string \<Rightarrow> (string \<times> port_match) option" where
  "star_at s = (if startswith s ''*'' then bound ''*'' s else None)"

definition first_some :: "'a option list \<Rightarrow> 'a option" where
  "first_some xs = (case find (\<lambda>x. x \<noteq> None) xs of None \<Rightarrow> None | Some x \<Rightarrow> x)"

definition arrow_at :: "string \<Rightarrow> (string \<times> port_match) option" where
  "arrow_at s = first_some [dotted_at s, hex_at s, star_at s, map_option (Pair []) (mapping_at s)]"

section \<open>All matches\<close>

text \<open>\<open>finditer\<close>: the first number counts the characters of the last match still to skip.\<close>

fun find_all :: "(string \<Rightarrow> ('a \<times> nat) option) \<Rightarrow> nat \<Rightarrow> string \<Rightarrow> 'a list" where
  "find_all at k [] = []"
| "find_all at (Suc k) (c # s) = find_all at k s"
| "find_all at 0 (c # s) = (case at (c # s) of None \<Rightarrow> find_all at 0 s | Some (m, n) \<Rightarrow> m # find_all at (n - 1) s)"

record published =
  pp_host :: string
  pp_container :: string
  pp_proto :: string
  pp_bind :: string
  pp_published :: bool

definition bracket :: "char \<Rightarrow> bool" where
  "bracket c = (c \<in> {CHR ''['', CHR '']''})"

definition proto_or_tcp :: "string option \<Rightarrow> string" where
  "proto_or_tcp p = (case p of Some t \<Rightarrow> t | None \<Rightarrow> ''tcp'')"

definition arrow_port :: "string \<times> port_match \<Rightarrow> published" where
  "arrow_port bm = (case bm of (b, m) \<Rightarrow> let addr = rstrip_chars bracket (lstrip_chars bracket b) in
     \<lparr>pp_host = pm_host m, pp_container = pm_container m, pp_proto = proto_or_tcp (pm_proto m),
      pp_bind = (if addr = [] then ''*'' else addr), pp_published = True\<rparr>)"

definition bare_at :: "string \<Rightarrow> ((string \<times> string option) \<times> nat) option" where
  "bare_at s = (let d = short_number 5 s; p = proto_suffix (drop (length d) s) in
     if d = [] then None else Some ((d, p), length d + suffix_len p))"

definition bare_port :: "string \<times> string option \<Rightarrow> published" where
  "bare_port dp = (case dp of (d, p) \<Rightarrow> \<lparr>pp_host = d, pp_container = d, pp_proto = proto_or_tcp p, pp_bind = ''*'', pp_published = False\<rparr>)"

text \<open>A port that is there already is not listed again; 16 at most are kept.\<close>

definition add_port :: "published list \<Rightarrow> published \<Rightarrow> published list" where
  "add_port out p = (if p \<in> set out then out else out @ [p])"

definition MAX_PORTS :: nat where
  "MAX_PORTS = 16"

definition arrow_ports :: "string \<Rightarrow> published list" where
  "arrow_ports text = foldl add_port [] (map arrow_port (find_all (\<lambda>s. map_option (\<lambda>bm. (bm, pm_len (snd bm))) (arrow_at s)) 0 text))"

definition bare_ports :: "string \<Rightarrow> published list" where
  "bare_ports text = foldl add_port [] (map bare_port (filter (\<lambda>dp. fst dp \<noteq> ''22'') (find_all bare_at 0 text)))"

definition no_text :: "string list" where
  "no_text = [[CHR 0x97], ''-'']"

definition port_chunks :: "json \<Rightarrow> json \<Rightarrow> string list" where
  "port_chunks display ports =
     (if truthy display \<and> strip (py_str display) \<notin> set ([] # no_text) then [py_str display] else [])
     @ (case ports of
          JList xs \<Rightarrow> filter (\<lambda>t. strip t \<noteq> []) (map py_str (filter (\<lambda>p. p \<noteq> JNull) xs))
        | JStr s \<Rightarrow> if strip s \<noteq> [] \<and> s \<notin> set no_text then [s] else []
        | _ \<Rightarrow> [])"

definition parse_published_ports :: "json \<Rightarrow> json \<Rightarrow> published list" where
  "parse_published_ports display ports =
     (let text = join '', '' (port_chunks display ports); out = arrow_ports text in
      if strip text = [] then [] else take MAX_PORTS (if out \<noteq> [] then out else bare_ports text))"

section \<open>Sockets\<close>

type_synonym port_key = "string \<times> string"

definition add_key :: "port_key \<Rightarrow> port_key list \<Rightarrow> port_key list" where
  "add_key k out = (if k \<in> set out then out else out @ [k])"

text \<open>The text after the last occurrence.\<close>

fun last_after :: "string \<Rightarrow> string \<Rightarrow> string option" where
  "last_after sub [] = None"
| "last_after sub (c # cs) = (case last_after sub cs of
     Some t \<Rightarrow> Some t | None \<Rightarrow> if startswith (c # cs) sub then Some (drop (length sub) (c # cs)) else None)"

text \<open>The port of a local address: after the brackets of an IPv6 address, or after the last colon.\<close>

definition parse_listen_local :: "string \<Rightarrow> string \<Rightarrow> port_key option" where
  "parse_listen_local local proto =
     (let addr = strip local;
          port = (case (if startswith addr ''['' then last_after '']:'' addr else None) of
              Some t \<Rightarrow> Some t | None \<Rightarrow> last_after '':'' addr) in
      if addr \<in> set [[], ''*'', ''Local''] then None
      else case port of None \<Rightarrow> None | Some t \<Rightarrow> if py_isdigit t then Some (t, proto) else None)"

text \<open>\<open>s.split()\<close>.\<close>

definition words :: "string \<Rightarrow> string list" where
  "words s = filter (\<lambda>w. w \<noteq> []) (split_on CHR '' '' (map (\<lambda>c. if py_space c then CHR '' '' else c) s))"

definition SOCKET_HEADS :: "string list" where
  "SOCKET_HEADS = [''LISTEN'', ''UNCONN'', ''udp'', ''tcp'', ''tcp6'', ''udp6'']"

definition listen_key :: "string \<Rightarrow> string \<Rightarrow> port_key option" where
  "listen_key proto line =
     (let parts = words line in
      if length parts < 4 then None
      else parse_listen_local (if parts ! 0 \<notin> set SOCKET_HEADS \<and> CHR '':'' \<in> set (parts ! 0) then parts ! 0 else parts ! 3) proto)"

definition parse_ss_listen :: "string \<Rightarrow> string \<Rightarrow> port_key list" where
  "parse_ss_listen stdout proto =
     foldl (\<lambda>used line. case listen_key proto line of None \<Rightarrow> used | Some k \<Rightarrow> add_key k used) [] (split_lines [] stdout)"

definition published_key :: "published \<Rightarrow> port_key" where
  "published_key p = (strip (pp_host p), if strip (pp_proto p) \<noteq> [] then strip (pp_proto p) else ''tcp'')"

definition parse_ps_ports :: "string \<Rightarrow> port_key list" where
  "parse_ps_ports stdout =
     foldl (\<lambda>used line. foldl (\<lambda>used p. if fst (published_key p) = [] then used else add_key (published_key p) used) used
         (parse_published_ports (JStr line) JNull)) [] (split_lines [] stdout)"

end
