(* ===== verification/MoveProbes.thy ===== *)
theory MoveProbes
  imports DockerPorts MoveCopy
begin

text \<open>
  What a Move asks the hosts before it starts (\<open>probe_host_facts\<close> and \<open>probe_dest_occupancy\<close> in
  \<open>app/services/service_migrate/facts.py\<close>): a few shell commands each. A probe does not raise; it keeps what it has
  read and the text of the exception, cut to 200 characters.
\<close>

datatype shell_cmd =
    Uname
  | DiskFree string
  | TestWritable string
  | FindFiles string
  | ComposeContainers string
  | AllPorts
  | ProjectPorts string
  | TcpListen
  | UdpListen

text \<open>The SSH connection of a host and a command on it: an exception's text, or the exit status and the output.\<close>

record 'w shell =
  sh_connect :: "int \<Rightarrow> ('w, string, unit) act"
  sh_run :: "int \<Rightarrow> shell_cmd \<Rightarrow> ('w, string, int \<times> string) act"

text \<open>Steps on a result that grows; the first exception ends them.\<close>

fun probe_steps :: "('r \<Rightarrow> ('w, string, 'r) act) list \<Rightarrow> 'r \<Rightarrow> 'w \<Rightarrow> 'w \<times> 'r \<times> string option" where
  "probe_steps [] r w = (w, r, None)"
| "probe_steps (p # ps) r w = (case p r w of
     (w', Inl m) \<Rightarrow> (w', r, Some (take 200 m))
   | (w', Inr r') \<Rightarrow> probe_steps ps r' w')"

definition on_success :: "'w shell \<Rightarrow> int \<Rightarrow> shell_cmd \<Rightarrow> (string \<Rightarrow> 'r \<Rightarrow> string + 'r) \<Rightarrow> 'r \<Rightarrow> ('w, string, 'r) act" where
  "on_success sh sid cmd g r = seq (sh_run sh sid cmd) (\<lambda>(st, out). if st = 0 then (\<lambda>w. (w, g out r)) else ret r)"

definition connect_first :: "'w shell \<Rightarrow> int \<Rightarrow> 'r \<Rightarrow> ('w, string, 'r) act" where
  "connect_first sh sid r = seq (sh_connect sh sid) (\<lambda>_. ret r)"

section \<open>Facts of a host\<close>

record host_facts =
  hf_arch :: "string option"
  hf_free :: "int option"
  hf_writable :: "bool option"
  hf_base :: "string option"

definition read_arch :: "string \<Rightarrow> host_facts \<Rightarrow> string + host_facts" where
  "read_arch out r = (case words out of [] \<Rightarrow> Inl ''list index out of range'' | a # as \<Rightarrow> Inr (r\<lparr>hf_arch := Some a\<rparr>))"

definition read_free :: "string \<Rightarrow> host_facts \<Rightarrow> string + host_facts" where
  "read_free out r = (let parts = words out in
     if 4 \<le> length parts \<and> py_isdigit (parts ! 3)
     then rbind (int_or_raise (parts ! 3)) (\<lambda>n. Inr (r\<lparr>hf_free := Some (n * 1024)\<rparr>)) else Inr r)"

definition read_writable :: "string \<Rightarrow> host_facts \<Rightarrow> string + host_facts" where
  "read_writable out r = Inr (r\<lparr>hf_writable := Some (lower (strip out) = ''yes'')\<rparr>)"

definition probe_host_facts :: "'w shell \<Rightarrow> host \<Rightarrow> 'w \<Rightarrow> 'w \<times> host_facts \<times> string option" where
  "probe_host_facts sh h =
     (let base = docker_base_abs h in probe_steps
       [connect_first sh (h_id h), \<lambda>r. ret (r\<lparr>hf_base := Some base\<rparr>), on_success sh (h_id h) Uname read_arch,
        on_success sh (h_id h) (DiskFree base) read_free, on_success sh (h_id h) (TestWritable base) read_writable]
       \<lparr>hf_arch = None, hf_free = None, hf_writable = None, hf_base = None\<rparr>)"

section \<open>What is on the destination\<close>

record occupancy =
  oc_files :: "string list"
  oc_containers :: "string list"
  oc_ports :: "port_key list"
  oc_project_ports :: "port_key list"
  oc_listen :: "port_key list"

definition nonblank_lines :: "string \<Rightarrow> string list" where
  "nonblank_lines out = filter (\<lambda>l. l \<noteq> []) (map strip (split_lines [] out))"

definition listening :: "string \<Rightarrow> int \<times> string \<Rightarrow> port_key list" where
  "listening proto res = (case res of (st, out) \<Rightarrow> if st = 0 then parse_ss_listen out proto else [])"

definition listen_step :: "'w shell \<Rightarrow> int \<Rightarrow> occupancy \<Rightarrow> ('w, string, occupancy) act" where
  "listen_step sh sid r = seq (sh_run sh sid TcpListen) (\<lambda>t. seq (sh_run sh sid UdpListen) (\<lambda>u.
     ret (r\<lparr>oc_listen := foldl (\<lambda>ks k. add_key k ks) [] (listening ''tcp'' t @ listening ''udp'' u)\<rparr>)))"

definition probe_dest_occupancy :: "'w shell \<Rightarrow> int \<Rightarrow> string \<Rightarrow> string \<Rightarrow> 'w \<Rightarrow> 'w \<times> occupancy \<times> string option" where
  "probe_dest_occupancy sh sid dest_name dest_path w =
     (let path = norm_text dest_path; nm = strip dest_name;
          start = \<lparr>oc_files = [], oc_containers = [], oc_ports = [], oc_project_ports = [], oc_listen = []\<rparr>;
          read = on_success sh sid in
      if path = ''/'' \<or> ''..'' \<in> set (split_on slash path) \<or> nm = [] then (w, start, Some ''invalid dest path'')
      else probe_steps
       [connect_first sh sid,
        read (FindFiles path) (\<lambda>out r. Inr (r\<lparr>oc_files := nonblank_lines out\<rparr>)),
        read (ComposeContainers nm) (\<lambda>out r. Inr (r\<lparr>oc_containers := nonblank_lines out\<rparr>)),
        read AllPorts (\<lambda>out r. Inr (r\<lparr>oc_ports := parse_ps_ports out\<rparr>)),
        read (ProjectPorts nm) (\<lambda>out r. Inr (r\<lparr>oc_project_ports := parse_ps_ports out\<rparr>)),
        listen_step sh sid]
       start w)"

text \<open>The ways the preflight reads it.\<close>

definition LIVE_DEST_STATES :: "string list" where
  "LIVE_DEST_STATES = [''running'', ''restarting'', ''paused'']"

definition dest_container_state :: "string \<Rightarrow> string" where
  "dest_container_state line = lower (case last_after '' '' (strip line) of Some t \<Rightarrow> t | None \<Rightarrow> strip line)"

definition dest_running_containers :: "occupancy \<Rightarrow> string list" where
  "dest_running_containers oc = filter (\<lambda>l. l \<noteq> [] \<and> dest_container_state l \<in> set LIVE_DEST_STATES) (map strip (oc_containers oc))"

definition dest_leftover_container_names :: "occupancy \<Rightarrow> string list" where
  "dest_leftover_container_names oc = filter (\<lambda>l. strip l \<noteq> []) (oc_containers oc)"

definition dest_folder_nonempty :: "occupancy \<Rightarrow> string list" where
  "dest_folder_nonempty oc = filter (\<lambda>l. strip l \<noteq> []) (oc_files oc)"

definition live_dest_ports :: "port_key list \<Rightarrow> port_key list" where
  "live_dest_ports ps = filter (\<lambda>k. fst k \<noteq> [])
     (map (\<lambda>(h, p). (strip h, if strip (if p \<noteq> [] then p else ''tcp'') \<noteq> [] then strip (if p \<noteq> [] then p else ''tcp'') else ''tcp'')) ps)"

end
