(* ===== verification/MovePreflight.thy ===== *)
theory MovePreflight
  imports MoveProbes MoveLock NpmEdge JobGuards
begin

text \<open>
  What the preflight of a Move reads from the cached Docker inventory of a host and from the queue
  (\<open>app/services/service_migrate/preflight.py\<close>): the data of a project, its published ports, its hardware, the busy
  jobs. The inventory is the JSON that \<open>docker_inventory.py\<close> writes; where it holds no list, an empty one is read.
\<close>

section \<open>Items of a report\<close>

record flag =
  fl_id :: string
  fl_message :: string
  fl_extra :: dict

definition flag_of :: "string \<Rightarrow> string \<Rightarrow> dict \<Rightarrow> flag" where
  "flag_of cid msg extra = \<lparr>fl_id = cid, fl_message = msg, fl_extra = extra\<rparr>"

definition flag_json :: "flag \<Rightarrow> json" where
  "flag_json x = JObj ([(''id'', JStr (fl_id x)), (''message'', JStr (fl_message x))] @ fl_extra x)"

text \<open>\<open>f"{b['id']}:{b.get('fqdn') or b.get('path') or b.get('message')}"\<close>, and the first block of each.\<close>

definition flag_key :: "flag \<Rightarrow> string" where
  "flag_key x = fl_id x @ '':'' @ py_str (jor (jor (dget0 (fl_extra x) ''fqdn'') (dget0 (fl_extra x) ''path'')) (JStr (fl_message x)))"

definition uniq_flags :: "flag list \<Rightarrow> flag list" where
  "uniq_flags bs = foldl (\<lambda>out b. if flag_key b \<in> set (map flag_key out) then out else out @ [b]) [] bs"

text \<open>Blocks and warnings, in the order they are found.\<close>

type_synonym report = "flag list \<times> flag list"

definition block_if :: "bool \<Rightarrow> string \<Rightarrow> string \<Rightarrow> dict \<Rightarrow> flag list" where
  "block_if b cid msg extra = (if b then [flag_of cid msg extra] else [])"

text \<open>\<open>_human\<close>: one decimal of a quotient by a power of two, rounded to even.\<close>

definition tenths :: "int \<Rightarrow> int \<Rightarrow> string" where
  "tenths n d = (let q = 10 * n div d; r = 2 * (10 * n mod d); k = (if r > d \<or> r = d \<and> odd q then q + 1 else q) in
     int_str (k div 10) @ ''.'' @ int_str (k mod 10))"

definition human :: "int option \<Rightarrow> string" where
  "human v = (case v of
     None \<Rightarrow> ''unknown''
   | Some n \<Rightarrow> if 1073741824 \<le> n then tenths n 1073741824 @ '' GiB'' else if 1048576 \<le> n then tenths n 1048576 @ '' MiB''
       else if 1024 \<le> n then tenths n 1024 @ '' KiB'' else int_str n @ '' B'')"

section \<open>The inventory\<close>

definition items0 :: "json \<Rightarrow> json list" where
  "items0 v = (case v of JList xs \<Rightarrow> xs | _ \<Rightarrow> [])"

definition parse_inventory :: "column \<Rightarrow> dict" where
  "parse_inventory c = (case c of Text (JObj d) \<Rightarrow> if truthy (dget0 d ''v'') then d else [] | _ \<Rightarrow> [])"

definition inventory_projects :: "fleet_host \<Rightarrow> dict list" where
  "inventory_projects h = map dict_of (filter is_dict (items0 (dget0 (parse_inventory (fh_inventory h)) ''projects'')))"

definition project_from_inventory :: "fleet_host \<Rightarrow> string \<Rightarrow> dict option" where
  "project_from_inventory h nm = find (\<lambda>p. jor (dget0 p ''name'') (JStr []) = JStr nm) (inventory_projects h)"

definition inventory_project_names :: "fleet_host \<Rightarrow> string list" where
  "inventory_project_names h = map (\<lambda>p. py_str (dget0 p ''name'')) (filter (\<lambda>p. truthy (dget0 p ''name'')) (inventory_projects h))"

definition containers_of :: "dict \<Rightarrow> dict list" where
  "containers_of p = map dict_of (filter is_dict (items0 (dget0 p ''containers'')))"

definition real_containers :: "dict \<Rightarrow> dict list" where
  "real_containers p = filter (\<lambda>c. \<not> truthy (dget0 c ''placeholder'')) (containers_of p)"

section \<open>The data of a project\<close>

record data_item =
  di_source :: string
  di_kind :: string
  di_volume :: "string option"
  di_bytes :: "int option"

record data_scan =
  dc_items :: "data_item list"
  dc_total :: int
  dc_known :: bool
  dc_outside :: "string list"
  dc_truncated :: "string list"
  dc_seen :: "string list"

text \<open>\<open>classify_volume_source\<close> of \<open>compose_project_files.py\<close>, its first part.\<close>

definition classify_volume_source :: "string \<Rightarrow> string" where
  "classify_volume_source source = (let src = strip source in
     if src = [] then ''named''
     else if startswith src ''/'' \<and> \<not> startswith src ''//'' then ''bind_absolute''
     else if startswith src ''./'' \<or> startswith src ''../'' \<or> slash \<in> set src \<or> src \<in> set [''.'', ''..''] then ''bind_relative''
     else ''named'')"

definition bind_item_kind :: "string \<Rightarrow> string" where
  "bind_item_kind src = (if is_host_local_bind src then ''bind_host_local'' else classify_volume_source src)"

definition is_outside_jail_bind :: "string \<Rightarrow> string \<Rightarrow> string \<Rightarrow> bool" where
  "is_outside_jail_bind src mode docker_base =
     (let jail = rslash docker_base @ ''/'' in
      mode \<in> set [''bind_absolute'', ''bind_host_local''] \<and> \<not> (jail = ''/'' \<or> startswith src jail \<or> src = docker_base)
      \<and> \<not> startswith src ''/dev/'')"

text \<open>One mount: a truncated path, a named volume, or a bind with its kind.\<close>

definition add_mount :: "string \<Rightarrow> string \<Rightarrow> string option \<Rightarrow> int option \<Rightarrow> data_scan \<Rightarrow> data_scan" where
  "add_mount base src vol sz s =
     (let s1 = s\<lparr>dc_seen := src # dc_seen s, dc_known := (sz \<noteq> None \<and> dc_known s),
                 dc_total := dc_total s + (case sz of Some n \<Rightarrow> n | None \<Rightarrow> 0)\<rparr>;
          mode = bind_item_kind src in
      case vol of
        Some v \<Rightarrow> s1\<lparr>dc_items := dc_items s @ [\<lparr>di_source = src, di_kind = ''named'', di_volume = Some v, di_bytes = sz\<rparr>]\<rparr>
      | None \<Rightarrow> s1\<lparr>dc_items := dc_items s @ [\<lparr>di_source = src, di_kind = mode, di_volume = None, di_bytes = sz\<rparr>],
          dc_outside := (if is_outside_jail_bind src mode base then dc_outside s @ [src] else dc_outside s)\<rparr>)"

definition skip_mount :: "string \<Rightarrow> data_scan \<Rightarrow> data_scan" where
  "skip_mount src s = s\<lparr>dc_truncated := dc_truncated s @ [src], dc_seen := src # dc_seen s\<rparr>"

definition py_size :: "json \<Rightarrow> move_exc + int option" where
  "py_size v = (if v = JNull then Inr None else case py_int v of Some n \<Rightarrow> Inr (Some n) | None \<Rightarrow> Inl (OtherError ''invalid sz''))"

definition detail_mount :: "string \<Rightarrow> json \<Rightarrow> data_scan \<Rightarrow> move_exc + data_scan" where
  "detail_mount base m s =
     (let d = dict_of m; src = strip (py_str (jor (jor (dget0 d ''source'') (dget0 d ''name'')) (JStr []))) in
      if \<not> is_dict m \<or> src = [] \<or> src \<in> set (dc_seen s) then Inr s
      else if is_truncated_host_path src then Inr (skip_mount src s)
      else rbind (py_size (dget0 d ''size_bytes'')) (\<lambda>sz.
        Inr (add_mount base src (named_volume_id src (str_field m ''type'') (str_field m ''name'')) sz s)))"

definition mount_source_from_line :: "string \<Rightarrow> string" where
  "mount_source_from_line line =
     (let s = strip line; s1 = (if CHR 0x9D \<in> set s then strip (takeWhile (\<lambda>c. c \<noteq> CHR 0x9D) s) else s) in
      if CHR '':'' \<in> set s1 then strip (takeWhile (\<lambda>c. c \<noteq> CHR '':'') s1) else s1)"

definition line_mount :: "string \<Rightarrow> json \<Rightarrow> data_scan \<Rightarrow> data_scan" where
  "line_mount base line s = (let src = mount_source_from_line (py_str line) in
     if src = [] \<or> src \<in> set (dc_seen s) then s
     else if is_truncated_host_path src then skip_mount src s
     else add_mount base src (named_volume_id src [] []) None s)"

definition container_data :: "string \<Rightarrow> dict \<Rightarrow> data_scan \<Rightarrow> move_exc + data_scan" where
  "container_data base c s =
     (let detail = dget0 c ''mounts_detail''; total = dget0 c ''mounts_total_bytes'' in
      if items0 detail \<noteq> [] then rfold (detail_mount base) (items0 detail) s
      else let s1 = foldl (\<lambda>s l. line_mount base l s) s (items0 (dget0 c ''mounts_list'')) in
        if truthy total \<and> \<not> truthy detail
        then rbind (py_size total) (\<lambda>n. Inr (s1\<lparr>dc_total := dc_total s1 + (case n of Some k \<Rightarrow> k | None \<Rightarrow> 0), dc_known := True\<rparr>))
        else Inr s1)"

record project_data =
  pd_items :: "data_item list"
  pd_bytes :: "int option"
  pd_outside :: "string list"
  pd_truncated :: "string list"

definition MAX_ITEMS :: nat where
  "MAX_ITEMS = 80"

definition dataset_from_project :: "dict option \<Rightarrow> string \<Rightarrow> move_exc + project_data" where
  "dataset_from_project row base =
     (case row of
        None \<Rightarrow> Inr \<lparr>pd_items = [], pd_bytes = None, pd_outside = [], pd_truncated = []\<rparr>
      | Some p \<Rightarrow> rbind (rfold (container_data base) (real_containers p)
            \<lparr>dc_items = [], dc_total = 0, dc_known = True, dc_outside = [], dc_truncated = [], dc_seen = []\<rparr>) (\<lambda>s.
          Inr \<lparr>pd_items = take MAX_ITEMS (dc_items s),
            pd_bytes = (if dc_items s \<noteq> [] \<and> dc_known s \<or> dc_total s \<noteq> 0 then Some (dc_total s) else None),
            pd_outside = dc_outside s, pd_truncated = dc_truncated s\<rparr>))"

definition item_json :: "data_item \<Rightarrow> json" where
  "item_json i = JObj ([(''source'', JStr (di_source i)), (''kind'', JStr (di_kind i))]
     @ (case di_volume i of Some v \<Rightarrow> [(''volume'', JStr v)] | None \<Rightarrow> []) @ [(''bytes'', jopt JInt (di_bytes i))])"

definition data_json :: "project_data \<Rightarrow> json" where
  "data_json d = JObj [(''items'', JList (map item_json (pd_items d))), (''bytes'', jopt JInt (pd_bytes d)),
     (''bytes_human'', JStr (human (pd_bytes d))), (''outside_jail'', JList (map JStr (pd_outside d))),
     (''truncated'', JList (map JStr (pd_truncated d)))]"

section \<open>Ports and hardware\<close>

definition container_host_network :: "dict \<Rightarrow> bool" where
  "container_host_network c =
     (let is_host = (\<lambda>t. lower (strip t) = ''host''); nets = jor (dget0 c ''networks'') (JList []) in
      is_host (py_str (jor (dget0 c ''network_mode'') (JStr [])))
      \<or> list_ex (\<lambda>n. is_host (py_str n)) (case nets of JStr s \<Rightarrow> [nets] | _ \<Rightarrow> items0 nets))"

definition parse_port_token :: "json \<Rightarrow> port_key option" where
  "parse_port_token raw =
     (let s = lower (strip (py_str (jor raw (JStr []))));
          proto = (case last_after ''/'' s of Some r \<Rightarrow> if strip r \<noteq> [] then strip r else ''tcp'' | None \<Rightarrow> ''tcp'');
          host = (case last_after ''/'' s of Some r \<Rightarrow> strip (take (length s - length r - 1) s) | None \<Rightarrow> s) in
      if s = [] \<or> \<not> py_isdigit host then None else Some (host, proto))"

definition exposed_ports :: "dict \<Rightarrow> port_key list" where
  "exposed_ports c = concat (map (\<lambda>r. case parse_port_token r of Some k \<Rightarrow> [k] | None \<Rightarrow> []) (items0 (dget0 c ''exposed_ports'')))"

definition shown_ports :: "dict \<Rightarrow> port_key list" where
  "shown_ports c = filter (\<lambda>k. fst k \<noteq> [])
     (map (\<lambda>p. (pp_host p, pp_proto p)) (parse_published_ports (dget0 c ''ports_display'') (dget0 c ''ports'')))"

definition project_uses_host_network :: "dict option \<Rightarrow> bool" where
  "project_uses_host_network row = (case row of None \<Rightarrow> False | Some p \<Rightarrow> list_ex container_host_network (real_containers p))"

definition host_network_ports :: "dict option \<Rightarrow> port_key list" where
  "host_network_ports row = (case row of None \<Rightarrow> []
     | Some p \<Rightarrow> concat (map (\<lambda>c. filter (\<lambda>k. fst k \<noteq> []) (map (\<lambda>(h, q). (strip h, q)) (shown_ports c)) @ exposed_ports c)
         (filter container_host_network (real_containers p))))"

definition published_ports :: "dict option \<Rightarrow> port_key list" where
  "published_ports row = (case row of None \<Rightarrow> []
     | Some p \<Rightarrow> foldl (\<lambda>out k. add_key k out) [] (concat (map (\<lambda>c.
         shown_ports c @ (if container_host_network c then exposed_ports c else [])) (real_containers p))))"

definition dest_used_ports :: "fleet_host \<Rightarrow> port_key list" where
  "dest_used_ports h = concat (map (\<lambda>p. concat (map shown_ports (real_containers p))) (inventory_projects h))
     @ concat (map (\<lambda>c. shown_ports (dict_of c)) (filter is_dict (items0 (dget0 (parse_inventory (fh_inventory h)) ''orphan_containers''))))"

definition DEV_HINTS :: "string list" where
  "DEV_HINTS = [''/dev/apex'', ''/dev/bus/usb'', ''/dev/dri'', ''/dev/kfd'', ''/dev/nvidia'']"

definition device_hit :: "string \<Rightarrow> bool" where
  "device_hit b = (startswith b ''/dev/'' \<or> list_ex (contains (lower b)) DEV_HINTS)"

definition container_blobs :: "dict \<Rightarrow> string list" where
  "container_blobs c = map (\<lambda>m. str_field m ''source'') (filter is_dict (items0 (dget0 c ''mounts_detail'')))
     @ map py_str (items0 (dget0 c ''mounts_list''))"

definition hardware_warn :: "dict option \<Rightarrow> string option" where
  "hardware_warn row = (case row of None \<Rightarrow> None
     | Some p \<Rightarrow> let cs = containers_of p;
           hits = map (\<lambda>b. takeWhile (\<lambda>c. c \<noteq> CHR '':'') b) (filter device_hit (concat (map container_blobs cs)));
           parts = (if hits \<noteq> [] then [''Hardware-looking mounts: '' @ join '', '' (take 6 (sort (remdups hits)))] else [])
             @ (if list_ex container_host_network cs
                then [''uses host network (the process binds dest host ports; published-port remap does not apply)''] else [])
             @ (if list_ex (\<lambda>c. truthy (dget0 c ''privileged'')) cs then [''privileged''] else []) in
         if parts = [] then None else Some (join ''; '' parts))"

section \<open>Jobs and monitors\<close>

definition STACK_BUSY_TYPES :: "string list" where
  "STACK_BUSY_TYPES = [''backup'', ''docker_stack_deploy'', ''docker_stack_stop'', ''docker_stack_start'', ''docker_stack_restart'',
     ''template_deploy'', ''template_redeploy'', ''service_migrate'']"

definition busy_jobs :: "db \<Rightarrow> int \<Rightarrow> int \<Rightarrow> job list" where
  "busy_jobs d sid ignore =
     (let rows = filter (\<lambda>j. j_server_id j = Some sid \<and> j_job_type j \<in> set STACK_BUSY_TYPES \<and> active j) (db_jobs d);
          others = filter (\<lambda>j. j_job_type j = ''service_migrate'' \<and> active j \<and> j_server_id j \<noteq> None \<and> j_server_id j \<noteq> Some sid
            \<and> move_dest j = Some sid) (db_jobs d) in
      filter (\<lambda>j. ignore = 0 \<or> j_id j \<noteq> ignore) (rows @ others))"

text \<open>\<open>\b(?:\d{1,3}\.){3}\d{1,3}\b\<close> anywhere in a text.\<close>

definition word_char :: "char \<Rightarrow> bool" where
  "word_char c = (let n = of_char c :: nat in letter c \<or> is_digit c \<or> c = CHR ''_''
     \<or> n \<in> {131, 138, 140, 142, 154, 156, 158, 159, 170, 178, 179, 181, 185, 186, 188, 189, 190} \<or> 192 \<le> n \<and> n \<noteq> 215 \<and> n \<noteq> 247)"

definition ipv4_at :: "string \<Rightarrow> bool" where
  "ipv4_at s = (case octets 3 s of None \<Rightarrow> False
     | Some b \<Rightarrow> (case drop (length b) s of [] \<Rightarrow> True | c # cs \<Rightarrow> \<not> word_char c))"

fun has_ipv4 :: "bool \<Rightarrow> string \<Rightarrow> bool" where
  "has_ipv4 inside [] = False"
| "has_ipv4 inside (c # s) = (\<not> inside \<and> ipv4_at (c # s) \<or> has_ipv4 (word_char c) s)"

definition binding_blob :: "bind_to \<Rightarrow> string" where
  "binding_blob b = join '' '' [text0 (bd_label b), bd_external_id b, text0 (bd_message b), column_text (bd_meta b)]"

definition kuma_ip_warn :: "fabric \<Rightarrow> int \<Rightarrow> string \<Rightarrow> string option" where
  "kuma_ip_warn f sid project =
     (let hits = map (\<lambda>b. if text0 (bd_label b) \<noteq> [] then text0 (bd_label b) else bd_external_id b)
        (filter (\<lambda>b. has_ipv4 False (binding_blob b))
          (filter (\<lambda>b. bd_server b = sid \<and> bd_role b = ''service'' \<and> bd_project b = Some project) (fb_bindings f))) in
      if hits = [] then None
      else Some (''Kuma binding looks IP-based ('' @ join '', '' (take 4 hits) @ '') '' @ [CHR 0x97] @ '' monitor hostname will not be rewritten''))"

end
