(* ===== verification/PreflightRun.thy ===== *)
theory PreflightRun
  imports MovePreflight
begin

text \<open>
  \<open>run_preflight\<close> (\<open>app/services/service_migrate/preflight.py\<close>): everything that stands against a Move, as blocks and
  warnings, and the maps the pipeline works with. Each section of the function is a definition that gives its part of the
  report; the last one puts them together. What is asked over SSH is answered by the environment.
\<close>

section \<open>The question\<close>

record pf_query =
  pq_source :: fleet_host
  pq_dest :: fleet_host
  pq_project :: string
  pq_source_facts :: "host_facts option"
  pq_dest_facts :: "host_facts option"
  pq_herder_free :: "int option"
  pq_dest_project :: "string option"
  pq_port_map :: dict
  pq_binds :: "bind_row list"
  pq_ignore :: int
  pq_live :: bool

text \<open>
  The tables, the shell, \<open>docker inspect\<close> of the project with the listing of its directory (or an exception), and
  \<open>int(payload * 0.15)\<close>, a product of doubles.
\<close>

record 'w pf_env =
  pf_db :: db
  pf_rows :: fabric
  pf_metas :: "meta list"
  pf_shell :: "'w shell"
  pf_inspect :: "fleet_host \<Rightarrow> dict \<Rightarrow> ('w, unit, json) act"
  pf_tree :: "fleet_host \<Rightarrow> string \<Rightarrow> ('w, unit, string list) act"
  pf_share :: "int \<Rightarrow> int"

abbreviation host_of :: "fleet_host \<Rightarrow> host" where
  "host_of h \<equiv> host.truncate h"

definition facts_base :: "host_facts option \<Rightarrow> fleet_host \<Rightarrow> string" where
  "facts_base facts h = (let b = (case facts of None \<Rightarrow> [] | Some r \<Rightarrow> text0 (hf_base r)) in
     if b \<noteq> [] then b else docker_base_abs (host_of h))"

definition no_report :: report where
  "no_report = ([], [])"

definition join_reports :: "report list \<Rightarrow> report" where
  "join_reports rs = (concat (map fst rs), concat (map snd rs))"

definition dash :: string where
  "dash = [CHR 0x97]"

section \<open>Names and hosts\<close>

definition name_report :: "string option \<Rightarrow> string list \<Rightarrow> report" where
  "name_report err map_errors =
     ((case err of Some e \<Rightarrow> if e \<noteq> [] then [flag_of ''dest_project_invalid'' (''Destination project name is invalid: '' @ e) []] else [] | None \<Rightarrow> [])
      @ map (\<lambda>e. flag_of ''port_map_invalid'' e []) map_errors, [])"

definition host_report :: "fleet_host \<Rightarrow> fleet_host \<Rightarrow> report" where
  "host_report s d =
     (block_if (is_haos_server (host_of s)) ''haos_source'' (''Source host is HAOS '' @ dash @ '' never a migrate source'') []
      @ block_if (is_haos_server (host_of d)) ''haos_dest'' (''Destination host is HAOS '' @ dash @ '' never a migrate dest'') []
      @ block_if (h_id s = h_id d) ''same_host'' ''Destination must be a different host'' []
      @ block_if (\<not> fh_containers_on d) ''dest_docker_off'' ''Destination does not have Docker / containers enabled'' [], [])"

definition lock_report :: "lock_view \<Rightarrow> report" where
  "lock_report st =
     (let label = (if text0 (lv_reason_label st) \<noteq> [] then text0 (lv_reason_label st) else ''this host'');
          msg = ''Source project is locked ('' @ label @ '')'' in
      (block_if (lv_locked st) ''host_lock'' (if text0 (lv_note st) \<noteq> [] then msg @ '': '' @ text0 (lv_note st) else msg)
        [(''reason'', jopt JStr (lv_reason st))], []))"

section \<open>The destination\<close>

definition dest_error_text :: "string \<Rightarrow> string" where
  "dest_error_text e = ''Could not SSH destination to see what is actually there ('' @ e @ ''). Recheck when dest is reachable ''
     @ dash @ '' cached dest Docker inventory is not used.''"

definition running_text :: "string \<Rightarrow> string list \<Rightarrow> string" where
  "running_text dn running = ''Destination already has running containers for '' @ dn @ '': '' @ join '', '' (take 8 running)
     @ '' '' @ dash @ '' pick a different dest name or stop that stack on dest''"

definition overwrite_text :: "string \<Rightarrow> string list \<Rightarrow> string" where
  "overwrite_text proj files = ''Destination folder '' @ proj @ '' is not empty ('' @ (if files \<noteq> [] then join '', '' (take 8 files) else ''files'')
     @ ''). Move will overwrite it (rsync --delete). Empty it first only if you do not want that.''"

definition ghosts_text :: "string list \<Rightarrow> string" where
  "ghosts_text ghosts = ''Destination has leftover compose containers from a previous attempt ('' @ join '', '' (take 8 ghosts)
     @ ''). Move will remove them before dest up '' @ dash @ '' you do not need to docker rm on dest.''"

text \<open>What is really there, with the ports in use; an error text that is empty counts as no error.\<close>

definition live_report :: "string \<Rightarrow> string \<Rightarrow> occupancy \<times> string option \<Rightarrow> report \<times> port_key list" where
  "live_report dn proj live = (case live of (oc, err) \<Rightarrow>
     if text0 err \<noteq> [] then (([flag_of ''dest_live_failed'' (dest_error_text (text0 err)) []], []), [])
     else let used = live_dest_ports (oc_ports oc) @ live_dest_ports (oc_listen oc);
              running = dest_running_containers oc; files = dest_folder_nonempty oc; ghosts = dest_leftover_container_names oc;
              dp = [(''dest_project'', JStr dn)]; left = (ghosts \<noteq> [] \<and> running = []) in
       ((block_if (running \<noteq> []) ''dest_project_exists'' (running_text dn running) dp,
         block_if (running = [] \<and> (files \<noteq> [] \<or> oc_files oc \<noteq> [])) ''dest_folder_overwrite'' (overwrite_text proj files) dp
         @ block_if left ''dest_leftover_containers'' (ghosts_text ghosts) dp),
        if left then filter (\<lambda>k. k \<notin> set (live_dest_ports (oc_project_ports oc))) used else used))"

text \<open>Without a look at the host, its cached inventory.\<close>

definition cached_report :: "string \<Rightarrow> fleet_host \<Rightarrow> report \<times> port_key list" where
  "cached_report dn d =
     ((block_if (dn \<in> set (inventory_project_names d)) ''dest_project_exists''
        (''Destination already has a compose project named '' @ dn @ '' '' @ dash
         @ '' pick a different dest name, or remove leftovers on dest then Recheck'') [(''dest_project'', JStr dn)], []),
      dest_used_ports d)"

definition dest_report :: "string \<Rightarrow> string \<Rightarrow> fleet_host \<Rightarrow> (occupancy \<times> string option) option \<Rightarrow> report \<times> port_key list" where
  "dest_report dn proj d live = (case live of None \<Rightarrow> cached_report dn d | Some l \<Rightarrow> live_report dn proj l)"

section \<open>Architecture, disk and data\<close>

definition fact_arch :: "host_facts option \<Rightarrow> string" where
  "fact_arch facts = (case facts of None \<Rightarrow> [] | Some r \<Rightarrow> text0 (hf_arch r))"

definition arch_report :: "string \<Rightarrow> string \<Rightarrow> report" where
  "arch_report src dst =
     (if src \<noteq> [] \<and> dst \<noteq> [] \<and> src \<noteq> dst
      then ([flag_of ''arch_mismatch'' (''Architecture mismatch: source '' @ src @ '' vs dest '' @ dst) []], [])
      else if dst = [] then ([], [flag_of ''dest_arch_unknown'' ''Could not read destination arch (uname -m)'' []])
      else if src = [] then ([], [flag_of ''source_arch_unknown'' ''Could not read source arch (uname -m)'' []])
      else no_report)"

definition writable_report :: "host_facts option \<Rightarrow> report" where
  "writable_report facts = (case facts of
     None \<Rightarrow> no_report
   | Some r \<Rightarrow> (case hf_writable r of
       Some False \<Rightarrow> ([flag_of ''dest_not_writable'' ''Destination docker base dir is not writable by the fleet SSH user'' []], [])
     | Some True \<Rightarrow> no_report
     | None \<Rightarrow> ([], [flag_of ''dest_writable_unknown'' ''Could not test destination docker base writability'' []])))"

definition truncated_report :: "string list \<Rightarrow> report" where
  "truncated_report paths = (map (\<lambda>p. flag_of ''bind_truncated''
     (''Inventory mount path is truncated (docker ps ellipsis) '' @ dash @ '' not a real directory, will not rsync: '' @ p
      @ ''. Refresh Docker on the source host so inspect fills full paths, then Recheck.'') [(''path'', JStr p)]) paths, [])"

definition DISK_MARGIN_MIN :: int where
  "DISK_MARGIN_MIN = 536870912"

definition payload_of :: "project_data \<Rightarrow> int" where
  "payload_of d = (case pd_bytes d of None \<Rightarrow> 0 | Some n \<Rightarrow> n)"

definition margin_for :: "(int \<Rightarrow> int) \<Rightarrow> int \<Rightarrow> int" where
  "margin_for share payload = (if payload \<noteq> 0 then max (share payload) DISK_MARGIN_MIN else DISK_MARGIN_MIN)"

definition disk_report :: "(int \<Rightarrow> int) \<Rightarrow> int \<Rightarrow> host_facts option \<Rightarrow> int option \<Rightarrow> report" where
  "disk_report share payload facts herder =
     (let margin = margin_for share payload; free = (case facts of None \<Rightarrow> None | Some r \<Rightarrow> hf_free r);
          short = (\<lambda>have. payload \<noteq> 0 \<and> (case have of None \<Rightarrow> False | Some n \<Rightarrow> n < payload + margin)) in
      join_reports
       [if short free
        then ([flag_of ''dest_disk'' (''Destination free space '' @ human free @ '' is below payload '' @ human (Some payload)
          @ '' + margin '' @ human (Some margin)) []], [])
        else ([], block_if (free = None \<and> facts \<noteq> None) ''dest_disk_unknown'' ''Could not read destination free disk'' []),
        (block_if (short herder) ''herder_disk'' (''Herder staging disk '' @ human herder @ '' is below payload ''
          @ human (Some payload) @ '' + margin'') [], [])])"

section \<open>Binds outside the base\<close>

record bind_plan =
  bp_rows :: "json list"
  bp_map :: "(string \<times> string) list"
  bp_skipped :: "string list"
  bp_local :: "string list"
  bp_report :: report

definition bind_override :: "bind_row list \<Rightarrow> string \<Rightarrow> bind_row option" where
  "bind_override rows path = (if path = [] then None else find (\<lambda>r. br_source r = path) (rev rows))"

definition bind_json :: "nat \<Rightarrow> string \<Rightarrow> string \<Rightarrow> string \<Rightarrow> bool \<Rightarrow> string option \<Rightarrow> bool \<Rightarrow> json" where
  "bind_json i path dest usual skip err local =
     JObj [(''index'', JInt (int i)), (''source'', JStr path), (''dest'', JStr dest), (''dest_default'', JStr usual),
       (''skip'', JBool skip), (''ok'', JBool (skip \<or> err = None)), (''error'', jopt JStr err), (''host_local'', JBool local)]"

definition bind_flags :: "string \<Rightarrow> string \<Rightarrow> string \<Rightarrow> string \<Rightarrow> bool \<Rightarrow> bool \<Rightarrow> string option \<Rightarrow> report" where
  "bind_flags path dest src_base dst_base local skip err =
     (let at = [(''path'', JStr path)] in
      if local then ([], [flag_of ''bind_host_local'' (''Host socket/device '' @ path @ '' '' @ dash
        @ '' not copied. Dest will bind the dest host's own path (Uptime Kuma docker.sock, /dev, '' @ [ellipsis] @ '').'') at])
      else if skip then ([], [flag_of ''bind_skipped'' (''Will not copy bind '' @ path @ '' '' @ dash
        @ '' dest compose still needs a dest path or the same host path on dest'') at])
      else if err \<noteq> None then ([flag_of ''bind_outside_jail'' (''Absolute bind outside source docker base ('' @ src_base @ ''): '' @ path
        @ '' '' @ dash @ '' set a dest path under '' @ dst_base @ '' or skip copy'') at], [])
      else ([], block_if (\<not> path_in_jail dest dst_base) ''bind_dest_outside_project'' (''Dest bind '' @ dest
        @ '' is outside dest docker base '' @ dash @ '' prefer dest project folder unless you overrode it.'') [(''path'', JStr dest)]))"

text \<open>One absolute bind: a socket or device stays, a skipped one is not copied, any other needs a valid destination.\<close>

definition plan_bind :: "bind_row list \<Rightarrow> string \<Rightarrow> string \<Rightarrow> string \<Rightarrow> nat \<times> string \<Rightarrow> bind_plan \<Rightarrow> bind_plan" where
  "plan_bind rows src_base dst_base dn ip b = (case ip of (i, path) \<Rightarrow>
     let ov = bind_override rows path; local = is_host_local_bind path;
         default0 = suggest_dest_bind path src_base dst_base dn;
         asked = (case ov of Some r \<Rightarrow> if br_dest r \<noteq> [] then br_dest r else default0 | None \<Rightarrow> default0);
         dest = (if local then path else strip asked); usual = (if local then path else default0);
         skip = (local \<or> (case ov of Some r \<Rightarrow> br_skip r | None \<Rightarrow> False));
         err = (if skip then None else validate_dest_bind_path dest dst_base) in
     b\<lparr>bp_rows := bp_rows b @ [bind_json i path dest usual skip err local],
       bp_map := (if skip \<or> err \<noteq> None then bp_map b else AList.update path dest (bp_map b)),
       bp_skipped := (if skip then bp_skipped b @ [path] else bp_skipped b),
       bp_local := (if local then bp_local b @ [path] else bp_local b),
       bp_report := join_reports [bp_report b, bind_flags path dest src_base dst_base local skip err]\<rparr>)"

definition plan_binds :: "bind_row list \<Rightarrow> string \<Rightarrow> string \<Rightarrow> string \<Rightarrow> string list \<Rightarrow> bind_plan" where
  "plan_binds rows src_base dst_base dn paths =
     (let b = foldl (\<lambda>b ip. plan_bind rows src_base dst_base dn ip b)
          \<lparr>bp_rows = [], bp_map = [], bp_skipped = [], bp_local = [], bp_report = no_report\<rparr> (enumerate 0 paths) in
      b\<lparr>bp_report := join_reports [bp_report b, ([], block_if (list_ex (\<lambda>p. p \<notin> set (bp_local b)) (bp_skipped b)) ''bind_skip_ack''
        ''One or more absolute binds will not be copied. Dest may miss that data.'' [])]\<rparr>)"

section \<open>Ports\<close>

record port_row =
  po_host :: string
  po_proto :: string
  po_dest :: string
  po_clash :: bool
  po_host_net :: bool

definition value_error :: "string + 'a \<Rightarrow> move_exc + 'a" where
  "value_error r = (case r of Inl m \<Rightarrow> Inl (OtherError m) | Inr v \<Rightarrow> Inr v)"

definition port_row_of ::
    "(string \<times> string) list \<Rightarrow> port_key list \<Rightarrow> port_key list \<Rightarrow> port_key \<Rightarrow> move_exc + port_row" where
  "port_row_of pm used net k = (case k of (host, proto) \<Rightarrow>
     rbind (value_error (int_or_raise host)) (\<lambda>n. let dest = mapped_host_port n proto pm in
       Inr \<lparr>po_host = host, po_proto = proto, po_dest = dest, po_clash = ((dest, proto) \<in> set used), po_host_net = (k \<in> set net)\<rparr>))"

definition port_rows_of ::
    "(string \<times> string) list \<Rightarrow> port_key list \<Rightarrow> port_key list \<Rightarrow> port_key list \<Rightarrow> move_exc + port_row list" where
  "port_rows_of pm used net ks = rfold (\<lambda>k out. rbind (port_row_of pm used net k) (\<lambda>r. Inr (out @ [r]))) ks []"

definition port_text_of :: "port_row \<Rightarrow> string" where
  "port_text_of r = po_dest r @ ''/'' @ po_proto r"

definition port_json :: "port_row \<Rightarrow> json" where
  "port_json r = JObj [(''host'', JStr (po_host r)), (''proto'', JStr (po_proto r)), (''dest_host'', JStr (po_dest r)),
     (''field'', JStr (''dest_port_'' @ po_host r @ ''_'' @ po_proto r)), (''clash'', JBool (po_clash r)),
     (''host_network'', JBool (po_host_net r))]"

definition ports_report :: "port_row list \<Rightarrow> report" where
  "ports_report rows =
     (let remapped = map (\<lambda>r. po_host r @ ''/'' @ po_proto r @ [CHR 0x9D] @ po_dest r) (filter (\<lambda>r. po_host_net r \<and> po_dest r \<noteq> po_host r) rows);
          clashes = map port_text_of (filter po_clash rows); net = map port_text_of (filter (\<lambda>r. po_clash r \<and> po_host_net r) rows);
          extra = (if net \<noteq> [] then ''Host network: remap does not apply '' @ dash @ '' dest must have '' @ join '', '' (take 8 net)
              @ '' free (stop that dest listener or pick another dest).'' else ''Remap the dest host port below'') in
      (block_if (remapped \<noteq> []) ''host_network_remap''
         (''Host-network ports cannot be remapped (the process still binds the source host port on dest): '' @ join '', '' (take 12 remapped)
          @ '' '' @ dash @ '' leave dest ports as source, stop the dest listener, or change compose off host network first'')
         [(''ports'', JList (map JStr remapped))]
       @ block_if (clashes \<noteq> []) ''port_clash''
         (''Published port clash on destination: '' @ join '', '' (take 12 clashes) @ '' '' @ dash
          @ '' that port is already bound on dest (live listen / docker). '' @ extra) [(''ports'', JList (map JStr clashes))], []))"

section \<open>Busy hosts\<close>

definition busy_flag :: "string \<Rightarrow> string \<Rightarrow> job list \<Rightarrow> report" where
  "busy_flag cid who js = (case js of
     [] \<Rightarrow> no_report
   | j # rest \<Rightarrow> ([flag_of cid (who @ '' host has an active '' @ j_job_type j @ '' job #'' @ int_str (j_id j)) [(''job_id'', JInt (j_id j))]], []))"

section \<open>Names\<close>

record name_plan =
  np_entries :: "dict list"
  np_report :: report

definition at_name :: "string \<Rightarrow> dict" where
  "at_name fqdn = [(''fqdn'', JStr fqdn)]"

definition unmatched_text :: "string \<Rightarrow> string" where
  "unmatched_text fqdn = ''No NPM proxy host matches '' @ fqdn @ '' (poll NPM if the list is stale)''"

text \<open>A row of the fabric: through a proxy it needs a proxy host, directly it needs the name of the destination.\<close>

definition dns_entry :: "dict list \<Rightarrow> nat \<Rightarrow> string \<Rightarrow> dns_record \<Rightarrow> move_exc + dict \<times> flag list" where
  "dns_entry hosts npms dest_dns r =
     (let fqdn = dr_fqdn r; base = [(''fqdn'', JStr fqdn), (''via_proxy'', JBool (dr_via_proxy r)), (''external_dns_status'', JStr (dr_external r))] in
      if dr_via_proxy r then
        (let e = base @ [(''action'', JStr ''npm'')] in
         if npms = 0 then Inr (e, [flag_of ''npm_missing'' (fqdn @ '' is via NPM but no enabled NPM integration is configured'') (at_name fqdn)])
         else rbind (match_npm hosts fqdn) (\<lambda>m. Inr (case m of
             None \<Rightarrow> (e, [flag_of ''npm_unmatched'' (unmatched_text fqdn) (at_name fqdn)])
           | Some h \<Rightarrow> if h = [] then (e, [flag_of ''npm_unmatched'' (unmatched_text fqdn) (at_name fqdn)])
               else (e @ [(''npm_id'', dget0 h ''id''), (''forward_host'', dget0 h ''forward_host'')], []))))
      else Inr (base @ [(''action'', JStr ''cname'')],
        block_if (dest_dns = []) ''dest_dns_name'' (''Destination has no DNS name '' @ dash @ '' cannot retarget a direct CNAME'') []))"

definition plan_dns :: "dict list \<Rightarrow> nat \<Rightarrow> string \<Rightarrow> dns_record \<Rightarrow> name_plan \<Rightarrow> move_exc + name_plan" where
  "plan_dns hosts npms dest_dns r p = rbind (dns_entry hosts npms dest_dns r) (\<lambda>(e, blocks).
     Inr \<lparr>np_entries = np_entries p @ [e],
       np_report = join_reports [np_report p, (blocks, block_if (dr_external r \<notin> set [''done'', ''none'']) ''external_dns''
         (dr_fqdn r @ '' still has an external DNS checklist (Cloudflare / other)'') (at_name (dr_fqdn r)))]\<rparr>)"

text \<open>A proxy host bound to the project that no row names.\<close>

definition proxy_block :: "nat \<Rightarrow> string \<Rightarrow> npm_host \<Rightarrow> flag list" where
  "proxy_block npms forward h = (let fqdn = nh_fqdn h in
     if npms = 0 then [flag_of ''npm_missing'' (fqdn @ '' is an NPM proxy host for this project but no enabled NPM integration is configured'') (at_name fqdn)]
     else if nh_id h = None \<and> nh_forward_host h = JNull then [flag_of ''npm_unmatched'' (unmatched_text fqdn) (at_name fqdn)]
     else block_if (forward = []) ''dest_forward_host'' (''Destination has no IP/hostname '' @ dash @ '' cannot retarget NPM forward_host'') (at_name fqdn))"

definition proxy_entry :: "npm_host \<Rightarrow> dict" where
  "proxy_entry h = [(''fqdn'', JStr (nh_fqdn h)), (''via_proxy'', JBool True), (''action'', JStr ''npm''), (''from_binding'', JBool True),
     (''npm_id'', jopt JStr (nh_id h)), (''forward_host'', nh_forward_host h), (''external_dns_status'', JNull)]"

definition entry_key :: "dict \<Rightarrow> string" where
  "entry_key e = fqdn_key (strip (py_str (jor (dget0 e ''fqdn'') (JStr []))))"

definition plan_proxy :: "nat \<Rightarrow> string \<Rightarrow> npm_host \<Rightarrow> name_plan \<Rightarrow> name_plan" where
  "plan_proxy npms forward h p =
     (let key = fqdn_key (strip (nh_fqdn h)) in
      if key = [] \<or> key \<in> set (map entry_key (np_entries p)) then p
      else \<lparr>np_entries = np_entries p @ [proxy_entry h],
        np_report = join_reports [np_report p, (proxy_block npms forward h,
          [flag_of ''npm_binding'' (nh_fqdn h @ '' is proxied via NPM for this project (no fabric DNS row) '' @ dash
             @ '' Move will PUT forward_host to dest'') (at_name (nh_fqdn h))])]\<rparr>)"

definition forward_of :: "fleet_host \<Rightarrow> string" where
  "forward_of d = (let ip = strip (text0 (fh_ip_address d)); hn = strip (h_hostname d) in
     if ip \<noteq> [] then ip else if hn \<noteq> [] then hn else strip (text0 (fh_dns_name d)))"

definition plan_names :: "fabric \<Rightarrow> string \<Rightarrow> fleet_host \<Rightarrow> dict list \<Rightarrow> nat \<Rightarrow> dns_record list \<Rightarrow> move_exc + name_plan" where
  "plan_names f nm d hosts npms rows =
     rbind (rfold (plan_dns hosts npms (strip (text0 (fh_dns_name d)))) rows \<lparr>np_entries = [], np_report = no_report\<rparr>) (\<lambda>p.
     rbind (npm_proxy_hosts_for_project f nm) (\<lambda>phs.
     Inr (foldl (\<lambda>p h. plan_proxy npms (forward_of d) h p) p phs)))"

definition edge_report :: "string list \<Rightarrow> nat \<Rightarrow> report" where
  "edge_report edges n =
     (let alias = (if edges = [] then ''the NPM hostname'' else join '', '' (sort (remdups edges))) in
      ([], [flag_of ''npm_edge'' (''This stack is the NPM edge ('' @ alias @ ''). ''
        @ (if n \<noteq> 0 then int_str (int n) @ '' public name(s) CNAME to that alias and stay; ''
           else ''Public names CNAME to that alias and stay; '')
        @ ''only the edge CNAME moves to dest. Pi-hole admin URLs that go through this proxy are reached on LAN during cutover.'')
        [(''fqdn'', JStr alias), (''dependents'', JInt (int n))]]))"

section \<open>Where a Move may go\<close>

definition eligible_destinations :: "fabric \<Rightarrow> int \<Rightarrow> fleet_host list" where
  "eligible_destinations f sid = filter (\<lambda>h. \<not> is_haos_server (host_of h) \<and> fh_containers_on h)
     (sort_key h_name (filter (\<lambda>h. h_id h \<noteq> sid) (fb_hosts f)))"

section \<open>The whole preflight\<close>

text \<open>The names and the port map, before anything is asked.\<close>

record pf_names =
  pn_name :: string
  pn_dest :: string
  pn_dest_error :: "string option"
  pn_map :: "(string \<times> string) list"
  pn_map_errors :: "string list"

definition preflight_names :: "pf_query \<Rightarrow> move_exc + pf_names" where
  "preflight_names q = (case compose_project_name (Some (pq_project q)) of
     Inl m \<Rightarrow> Inl (LockedError m)
   | Inr nm \<Rightarrow> rbind (value_error (validate_port_map (pq_port_map q))) (\<lambda>(pm, errs).
       case normalize_dest_project nm (pq_dest_project q) of (dn, err) \<Rightarrow>
         Inr \<lparr>pn_name = nm, pn_dest = dn, pn_dest_error = err, pn_map = pm, pn_map_errors = errs\<rparr>))"

definition source_lock :: "meta list \<Rightarrow> pf_query \<Rightarrow> string \<Rightarrow> move_exc + lock_view" where
  "source_lock metas q nm = (case lock_state (host_of (pq_source q)) nm metas of
     Inl (HostLockError m code) \<Rightarrow> Inl (LockedError m) | Inr st \<Rightarrow> Inr st)"

definition source_base :: "pf_query \<Rightarrow> string" where
  "source_base q = facts_base (pq_source_facts q) (pq_source q)"

definition dest_base :: "pf_query \<Rightarrow> string" where
  "dest_base q = facts_base (pq_dest_facts q) (pq_dest q)"

text \<open>What the hosts were asked: the project with its real mounts and files, and the destination. No question raises.\<close>

record gathered =
  ga_row :: "dict option"
  ga_files :: "string list"
  ga_live :: "(occupancy \<times> string option) option"

definition inspect_source :: "'w pf_env \<Rightarrow> pf_query \<Rightarrow> string \<Rightarrow> 'w \<Rightarrow> 'w \<times> dict option \<times> string list" where
  "inspect_source e q nm w = (case project_from_inventory (pq_source q) nm of
     None \<Rightarrow> (w, None, [])
   | Some p \<Rightarrow> if \<not> pq_live q then (w, Some p, [])
       else case pf_inspect e (pq_source q) p w of
         (w1, Inl x) \<Rightarrow> (w1, Some p, [])
       | (w1, Inr v) \<Rightarrow> let row = (if is_dict v then dict_of v else p) in
           (case pf_tree e (pq_source q) (rslash (source_base q) @ ''/'' @ nm) w1 of
              (w2, Inl x) \<Rightarrow> (w2, Some row, []) | (w2, Inr files) \<Rightarrow> (w2, Some row, files)))"

definition gather :: "'w pf_env \<Rightarrow> pf_query \<Rightarrow> pf_names \<Rightarrow> 'w \<Rightarrow> 'w \<times> gathered" where
  "gather e q n w = (case inspect_source e q (pn_name n) w of (w1, row, files) \<Rightarrow>
     if \<not> pq_live q then (w1, \<lparr>ga_row = row, ga_files = files, ga_live = None\<rparr>)
     else case probe_dest_occupancy (pf_shell e) (h_id (pq_dest q)) (pn_dest n) (rslash (dest_base q) @ ''/'' @ pn_dest n) w1 of
       (w2, live) \<Rightarrow> (w2, \<lparr>ga_row = row, ga_files = files, ga_live = Some live\<rparr>))"

definition project_names_rows :: "fabric \<Rightarrow> pf_query \<Rightarrow> string \<Rightarrow> dns_record list" where
  "project_names_rows f q nm = dns_rows f (h_id (pq_source q)) nm (Some (h_id (pq_dest q)))"

text \<open>The sections, in the order of the report.\<close>

definition preflight_report ::
    "'w pf_env \<Rightarrow> pf_query \<Rightarrow> pf_names \<Rightarrow> lock_view \<Rightarrow> gathered \<Rightarrow> project_data \<Rightarrow> port_row list \<Rightarrow> name_plan \<Rightarrow> report \<Rightarrow> report" where
  "preflight_report e q n st g data ports names edge =
     (let s = pq_source q; d = pq_dest q in join_reports
      [name_report (pn_dest_error n) (pn_map_errors n), host_report s d, lock_report st,
       (block_if (ga_row g = None) ''source_missing'' ''Project is not in the source Docker inventory (refresh Docker on the source host)'' [], []),
       fst (dest_report (pn_dest n) (rslash (dest_base q) @ ''/'' @ pn_dest n) d (ga_live g)),
       arch_report (fact_arch (pq_source_facts q)) (fact_arch (pq_dest_facts q)), writable_report (pq_dest_facts q),
       truncated_report (pd_truncated data), disk_report (pf_share e) (payload_of data) (pq_dest_facts q) (pq_herder_free q),
       bp_report (plan_binds (pq_binds q) (source_base q) (dest_base q) (pn_dest n) (pd_outside data)),
       ([], case hardware_warn (ga_row g) of Some m \<Rightarrow> [flag_of ''devices'' m []] | None \<Rightarrow> []), ports_report ports,
       busy_flag ''busy_source'' ''Source'' (busy_jobs (pf_db e) (h_id s) (pq_ignore q)),
       busy_flag ''busy_dest'' ''Destination'' (busy_jobs (pf_db e) (h_id d) (pq_ignore q)), np_report names, edge,
       ([], case kuma_ip_warn (pf_rows e) (h_id s) (pn_name n) of Some m \<Rightarrow> [flag_of ''kuma_ip'' m []] | None \<Rightarrow> [])])"

definition removable_volumes :: "project_data \<Rightarrow> string list" where
  "removable_volumes data = sort (remdups (filter (\<lambda>v. v \<noteq> [] \<and> slash \<notin> set v \<and> \<not> contains v ''..'')
     (map (\<lambda>i. let v = strip (text0 (di_volume i)) in if v \<noteq> [] then v else text0 (named_volume_id (di_source i) [] []))
       (filter (\<lambda>i. di_kind i = ''named'') (pd_items data)))))"

definition source_json :: "pf_query \<Rightarrow> string \<Rightarrow> json" where
  "source_json q nm = (let s = pq_source q in JObj [(''id'', JInt (h_id s)), (''name'', JStr (h_name s)), (''hostname'', JStr (h_hostname s)),
     (''dns_name'', jopt JStr (fh_dns_name s)), (''arch'', jopt JStr (case pq_source_facts q of None \<Rightarrow> None | Some r \<Rightarrow> hf_arch r)),
     (''docker_base'', JStr (source_base q)), (''project_path'', JStr (rslash (source_base q) @ ''/'' @ nm))])"

definition dest_json :: "pf_query \<Rightarrow> string \<Rightarrow> json" where
  "dest_json q dn = (let d = pq_dest q; free = (case pq_dest_facts q of None \<Rightarrow> None | Some r \<Rightarrow> hf_free r); dns = strip (text0 (fh_dns_name d)) in
     JObj [(''id'', JInt (h_id d)), (''name'', JStr (h_name d)), (''hostname'', JStr (h_hostname d)),
       (''dns_name'', jopt JStr (if dns = [] then None else Some dns)), (''arch'', jopt JStr (case pq_dest_facts q of None \<Rightarrow> None | Some r \<Rightarrow> hf_arch r)),
       (''disk_free_bytes'', jopt JInt free), (''disk_free_human'', JStr (human free)), (''project'', JStr dn),
       (''project_path'', JStr (rslash (dest_base q) @ ''/'' @ dn)), (''docker_base'', JStr (dest_base q))])"

definition preflight_json ::
    "pf_query \<Rightarrow> pf_names \<Rightarrow> gathered \<Rightarrow> project_data \<Rightarrow> port_row list \<Rightarrow> name_plan \<Rightarrow> bool \<Rightarrow> dns_record list \<Rightarrow> report \<Rightarrow> json" where
  "preflight_json q n g data ports names moving deps rep =
     (let blocks = uniq_flags (fst rep); binds = plan_binds (pq_binds q) (source_base q) (dest_base q) (pn_dest n) (pd_outside data);
          input = strip (text0 (pq_dest_project q)) in
      JObj [(''ok'', JBool (blocks = [])), (''can_copy'', JBool False), (''project'', JStr (pn_name n)), (''dest_project'', JStr (pn_dest n)),
        (''dest_project_input'', JStr (if input \<noteq> [] then input else pn_dest n)),
        (''port_map'', JObj (map (\<lambda>(k, v). (k, JStr v)) (pn_map n))), (''ports'', JList (map port_json ports)),
        (''binds'', JList (bp_rows binds)), (''bind_map'', JObj (map (\<lambda>(k, v). (k, JStr v)) (bp_map binds))),
        (''skip_binds'', JList (map JStr (bp_skipped binds))), (''host_network'', JBool (project_uses_host_network (ga_row g))),
        (''blocks'', JList (map flag_json blocks)), (''warns'', JList (map flag_json (snd rep))), (''dataset'', data_json data),
        (''project_files'', JList (map JStr (ga_files g))), (''dns'', JList (map JObj (np_entries names))), (''npm_edge'', JBool moving),
        (''npm_edge_dependents'', JList (map (\<lambda>r. JObj [(''fqdn'', JStr (dr_fqdn r)), (''action'', JStr ''keep_cname_on_edge'')]) deps)),
        (''source'', source_json q (pn_name n)),
        (''leftover_remove'', JObj [(''project_path'', JStr (rslash (source_base q) @ ''/'' @ pn_name n)),
           (''named_volumes'', JList (map JStr (removable_volumes data)))]),
        (''dest'', dest_json q (pn_dest n))])"

definition preflight_result :: "'w pf_env \<Rightarrow> pf_query \<Rightarrow> pf_names \<Rightarrow> lock_view \<Rightarrow> gathered \<Rightarrow> move_exc + json" where
  "preflight_result e q n st g =
     (let f = pf_rows e; rows = project_names_rows f q (pn_name n);
          used = snd (dest_report (pn_dest n) (rslash (dest_base q) @ ''/'' @ pn_dest n) (pq_dest q) (ga_live g)) in
      rbind (dataset_from_project (ga_row g) (source_base q)) (\<lambda>data.
      rbind (port_rows_of (pn_map n) used (host_network_ports (ga_row g)) (published_ports (ga_row g))) (\<lambda>ports.
      rbind (npm_hosts_cached f) (\<lambda>(hosts, npms).
      rbind (npm_edge_fqdns f) (\<lambda>edges.
      rbind (is_npm_edge_project f (h_id (pq_source q)) (pn_name n) rows) (\<lambda>moving.
      rbind (plan_names f (pn_name n) (pq_dest q) hosts npms rows) (\<lambda>names.
      let deps = (if moving then npm_edge_dependents f (h_id (pq_source q)) (Some (h_id (pq_dest q))) (map dr_id rows) else []);
          edge = (if moving then edge_report edges (length deps) else no_report) in
      Inr (preflight_json q n g data ports names moving deps (preflight_report e q n st g data ports names edge)))))))))"

definition run_preflight :: "'w pf_env \<Rightarrow> pf_query \<Rightarrow> ('w, move_exc, json) act" where
  "run_preflight e q w =
     (case rbind (preflight_names q) (\<lambda>n. rbind (source_lock (pf_metas e) q (pn_name n)) (\<lambda>st. Inr (n, st))) of
        Inl x \<Rightarrow> (w, Inl x)
      | Inr (n, st) \<Rightarrow> (case gather e q n w of (w', g) \<Rightarrow> (w', preflight_result e q n st g)))"

end
