(* ===== verification/PreflightFacts.thy ===== *)
theory PreflightFacts
  imports PreflightRun
begin

text \<open>
  What a preflight decides: section by section when its report has no block, and together what it means that a Move may
  start.
\<close>

section \<open>Reports\<close>

definition add_flag :: "flag list \<Rightarrow> flag \<Rightarrow> flag list" where
  "add_flag out b = (if flag_key b \<in> set (map flag_key out) then out else out @ [b])"

lemma add_flag_grows: "out \<noteq> [] \<Longrightarrow> foldl add_flag out bs \<noteq> []"
  by (induction bs arbitrary: out) (simp_all add: add_flag_def)

lemma uniq_flags_Nil: "uniq_flags bs = [] \<longleftrightarrow> bs = []"
proof -
  have "uniq_flags bs = foldl add_flag [] bs" by (simp add: uniq_flags_def add_flag_def [abs_def])
  moreover have "add_flag [] b = [b]" for b by (simp add: add_flag_def)
  ultimately show ?thesis using add_flag_grows by (cases bs) simp_all
qed

lemma blocked_by_Nil [simp]: "block_if b cid msg ex = [] \<longleftrightarrow> \<not> b"
  by (simp add: block_if_def)

lemma join_reports_fst [simp]: "fst (join_reports rs) = concat (map fst rs)"
  by (simp add: join_reports_def)

lemma no_report_fst [simp]: "fst no_report = []"
  by (simp add: no_report_def)

section \<open>Section by section\<close>

definition fit_names :: "pf_names \<Rightarrow> bool" where
  "fit_names n = (text0 (pn_dest_error n) = [] \<and> pn_map_errors n = [])"

definition fit_hosts :: "fleet_host \<Rightarrow> fleet_host \<Rightarrow> bool" where
  "fit_hosts s d = (\<not> is_haos_server (host_of s) \<and> \<not> is_haos_server (host_of d) \<and> h_id s \<noteq> h_id d \<and> fh_containers_on d)"

text \<open>No stack of that name runs on the destination.\<close>

definition dest_clear :: "string \<Rightarrow> fleet_host \<Rightarrow> (occupancy \<times> string option) option \<Rightarrow> bool" where
  "dest_clear dn d live = (case live of
     None \<Rightarrow> dn \<notin> set (inventory_project_names d)
   | Some (oc, err) \<Rightarrow> text0 err = [] \<and> (\<forall>l\<in>set (oc_containers oc). dest_container_state l \<notin> set LIVE_DEST_STATES))"

definition fit_arch :: "pf_query \<Rightarrow> bool" where
  "fit_arch q = (let s = fact_arch (pq_source_facts q); d = fact_arch (pq_dest_facts q) in
     (s \<noteq> [] \<longrightarrow> d \<noteq> [] \<longrightarrow> s = d) \<and> (case pq_dest_facts q of None \<Rightarrow> True | Some r \<Rightarrow> hf_writable r \<noteq> Some False))"

definition space_for :: "(int \<Rightarrow> int) \<Rightarrow> int \<Rightarrow> int option \<Rightarrow> bool" where
  "space_for share payload have = (payload = 0 \<or> (case have of None \<Rightarrow> True | Some n \<Rightarrow> payload + margin_for share payload \<le> n))"

definition dest_free :: "pf_query \<Rightarrow> int option" where
  "dest_free q = (case pq_dest_facts q of None \<Rightarrow> None | Some r \<Rightarrow> hf_free r)"

text \<open>A bind outside the base: a host path, one the user left out, or one with a destination that is allowed.\<close>

definition left_out :: "bind_row list \<Rightarrow> string \<Rightarrow> bool" where
  "left_out rows path = (is_host_local_bind path \<or> (case bind_override rows path of None \<Rightarrow> False | Some r \<Rightarrow> br_skip r))"

definition wanted_dest :: "pf_query \<Rightarrow> string \<Rightarrow> string \<Rightarrow> string" where
  "wanted_dest q dn path = strip (case bind_override (pq_binds q) path of
     Some r \<Rightarrow> if br_dest r \<noteq> [] then br_dest r else suggest_dest_bind path (source_base q) (dest_base q) dn
   | None \<Rightarrow> suggest_dest_bind path (source_base q) (dest_base q) dn)"

definition fit_data :: "(int \<Rightarrow> int) \<Rightarrow> pf_query \<Rightarrow> string \<Rightarrow> project_data \<Rightarrow> bool" where
  "fit_data share q dn data = (pd_truncated data = [] \<and> space_for share (payload_of data) (dest_free q)
     \<and> space_for share (payload_of data) (pq_herder_free q)
     \<and> (\<forall>p\<in>set (pd_outside data). left_out (pq_binds q) p \<or> validate_dest_bind_path (wanted_dest q dn p) (dest_base q) = None))"

text \<open>The port a published port gets is free; on the host network it is the same one.\<close>

definition port_fits :: "(string \<times> string) list \<Rightarrow> port_key list \<Rightarrow> port_key list \<Rightarrow> port_key \<Rightarrow> bool" where
  "port_fits pm used net k = (case int_or_raise (fst k) of
     Inl m \<Rightarrow> False
   | Inr n \<Rightarrow> (mapped_host_port n (snd k) pm, snd k) \<notin> set used \<and> (k \<in> set net \<longrightarrow> mapped_host_port n (snd k) pm = fst k))"

definition fit_ports :: "(string \<times> string) list \<Rightarrow> port_key list \<Rightarrow> dict option \<Rightarrow> bool" where
  "fit_ports pm used row = (\<forall>k\<in>set (published_ports row). port_fits pm used (host_network_ports row) k)"

lemma name_clear: "fst (name_report err errs) = [] \<longleftrightarrow> text0 err = [] \<and> errs = []"
  by (auto simp: name_report_def text0_def split: option.split)

lemma host_clear: "fst (host_report s d) = [] \<longleftrightarrow> fit_hosts s d"
  by (auto simp: host_report_def fit_hosts_def)

lemma lock_clear: "fst (lock_report st) = [] \<longleftrightarrow> \<not> lv_locked st"
  by (simp add: lock_report_def Let_def)

lemma state_strip: "dest_container_state (strip l) = dest_container_state l"
  by (simp add: dest_container_state_def cong: option.case_cong)

lemma state_blank: "strip l = [] \<Longrightarrow> dest_container_state l \<notin> set LIVE_DEST_STATES"
  by (simp add: dest_container_state_def LIVE_DEST_STATES_def lower_def)

lemma dest_clear: "fst (fst (dest_report dn proj d live)) = [] \<longleftrightarrow> dest_clear dn d live"
  using state_blank
  by (auto simp: dest_report_def cached_report_def live_report_def dest_clear_def dest_running_containers_def Let_def state_strip
      filter_empty_conv split: option.split)

lemma arch_clear: "fst (arch_report s d) = [] \<longleftrightarrow> (s \<noteq> [] \<longrightarrow> d \<noteq> [] \<longrightarrow> s = d)"
  by (auto simp: arch_report_def)

lemma writable_clear: "fst (writable_report facts) = [] \<longleftrightarrow> (case facts of None \<Rightarrow> True | Some r \<Rightarrow> hf_writable r \<noteq> Some False)"
  by (auto simp: writable_report_def split: option.split bool.split)

lemma truncated_clear: "fst (truncated_report ps) = [] \<longleftrightarrow> ps = []"
  by (simp add: truncated_report_def)

lemma disk_clear:
  "fst (disk_report share payload (pq_dest_facts q) herder) = [] \<longleftrightarrow> space_for share payload (dest_free q) \<and> space_for share payload herder"
  by (auto simp: disk_report_def space_for_def dest_free_def Let_def split: option.split)

lemma plan_bind_clear:
  "fst (bp_report (plan_bind (pq_binds q) (source_base q) (dest_base q) dn (i, p) b)) = [] \<longleftrightarrow> fst (bp_report b) = []
     \<and> (left_out (pq_binds q) p \<or> validate_dest_bind_path (wanted_dest q dn p) (dest_base q) = None)"
  by (auto simp: plan_bind_def bind_flags_def left_out_def wanted_dest_def Let_def split: option.split if_splits)

lemma binds_clear:
  "fst (bp_report (plan_binds (pq_binds q) (source_base q) (dest_base q) dn ps)) = [] \<longleftrightarrow>
     (\<forall>p\<in>set ps. left_out (pq_binds q) p \<or> validate_dest_bind_path (wanted_dest q dn p) (dest_base q) = None)"
proof -
  have "fst (bp_report (foldl (\<lambda>b ip. plan_bind (pq_binds q) (source_base q) (dest_base q) dn ip b) b (enumerate i ps))) = [] \<longleftrightarrow>
      fst (bp_report b) = [] \<and> (\<forall>p\<in>set ps. left_out (pq_binds q) p \<or> validate_dest_bind_path (wanted_dest q dn p) (dest_base q) = None)" for i b
    by (induction ps arbitrary: i b) (auto simp: plan_bind_clear)
  then show ?thesis by (simp add: plan_binds_def Let_def)
qed

text \<open>The rows of the ports.\<close>

lemma rfold_rows:
  "rfold (\<lambda>k out. rbind (g k) (\<lambda>r. Inr (out @ [r]))) ks out = Inr rs \<longleftrightarrow>
     (\<exists>rs'. rs = out @ rs' \<and> list_all2 (\<lambda>k r. g k = Inr r) ks rs')"
proof (induction ks arbitrary: out)
  case (Cons k ks)
  show ?case
    using Cons.IH by (cases "g k") (auto simp: list_all2_Cons1)
qed auto

lemma port_rows_ports:
  assumes "port_rows_of pm used net ks = Inr rs"
  shows "list_all2 (\<lambda>k r. port_row_of pm used net k = Inr r) ks rs"
  using assms rfold_rows [of "port_row_of pm used net" ks "[]" rs] by (simp add: port_rows_of_def)

lemma port_row_ok:
  assumes "port_row_of pm used net k = Inr r"
  shows "(\<not> po_clash r \<and> (po_host_net r \<longrightarrow> po_dest r = po_host r)) = port_fits pm used net k"
  using assms by (cases k) (auto simp: port_fits_def port_row_of_def rbind_eq_Inr value_error_def Let_def split: sum.splits)

lemma list_all2_swap:
  assumes "list_all2 P xs ys" and "\<And>x y. P x y \<Longrightarrow> Q x y = R x y"
  shows "list_all2 Q xs ys = list_all2 R xs ys"
  using assms by (auto simp: list_all2_conv_all_nth)

lemma ports_clear:
  assumes "port_rows_of pm used (host_network_ports row) (published_ports row) = Inr rs"
  shows "fst (ports_report rs) = [] \<longleftrightarrow> fit_ports pm used row"
proof -
  have each: "list_all2 (\<lambda>k r. port_row_of pm used (host_network_ports row) k = Inr r) (published_ports row) rs"
    by (rule port_rows_ports [OF assms])
  have "fst (ports_report rs) = [] \<longleftrightarrow> (\<forall>r\<in>set rs. \<not> po_clash r \<and> (po_host_net r \<longrightarrow> po_dest r = po_host r))"
    by (auto simp: ports_report_def Let_def filter_empty_conv)
  also have "\<dots> \<longleftrightarrow> list_all2 (\<lambda>k r. \<not> po_clash r \<and> (po_host_net r \<longrightarrow> po_dest r = po_host r)) (published_ports row) rs"
    using list_all2_lengthD [OF each] by (auto simp: list_all2_conv_all_nth set_conv_nth)
  also have "\<dots> \<longleftrightarrow> list_all2 (\<lambda>k r. port_fits pm used (host_network_ports row) k) (published_ports row) rs"
    by (rule list_all2_swap [OF each port_row_ok])
  also have "\<dots> \<longleftrightarrow> fit_ports pm used row"
    using list_all2_lengthD [OF each] by (auto simp: fit_ports_def list_all2_conv_all_nth all_set_conv_all_nth)
  finally show ?thesis .
qed

section \<open>Names\<close>

definition fit_record :: "dict list \<Rightarrow> nat \<Rightarrow> string \<Rightarrow> dns_record \<Rightarrow> bool" where
  "fit_record hosts npms dest_dns r =
     (if dr_via_proxy r then npms \<noteq> 0 \<and> (case match_npm hosts (dr_fqdn r) of Inr (Some h) \<Rightarrow> h \<noteq> [] | _ \<Rightarrow> False) else dest_dns \<noteq> [])"

definition fit_proxy :: "nat \<Rightarrow> string \<Rightarrow> npm_host \<Rightarrow> bool" where
  "fit_proxy npms forward h = (npms \<noteq> 0 \<and> (nh_id h \<noteq> None \<or> nh_forward_host h \<noteq> JNull) \<and> forward \<noteq> [])"

definition name_key :: "string \<Rightarrow> string" where
  "name_key fqdn = fqdn_key (strip fqdn)"

text \<open>Every row leads somewhere on the destination, and so does every proxy host without a row.\<close>

definition fit_dns :: "fabric \<Rightarrow> pf_query \<Rightarrow> string \<Rightarrow> bool" where
  "fit_dns f q nm = (case (npm_hosts_cached f, npm_proxy_hosts_for_project f nm) of
     (Inr (hosts, npms), Inr phs) \<Rightarrow> let rows = project_names_rows f q nm; d = pq_dest q in
       (\<forall>r\<in>set rows. fit_record hosts npms (strip (text0 (fh_dns_name d))) r)
       \<and> (\<forall>h\<in>set phs. name_key (nh_fqdn h) \<in> insert [] (set (map (\<lambda>r. name_key (dr_fqdn r)) rows)) \<or> fit_proxy npms (forward_of d) h)
   | _ \<Rightarrow> False)"

lemma entry_key_fqdn: "entry_key ((''fqdn'', JStr f) # d) = name_key f"
  by (simp add: entry_key_def name_key_def dget0_def dget_def jor_def)

lemma dns_entry_clear:
  assumes "dns_entry hosts npms dd r = Inr (e, bs)"
  shows "(bs = []) = fit_record hosts npms dd r \<and> entry_key e = name_key (dr_fqdn r)"
proof (cases "dr_via_proxy r \<and> npms \<noteq> 0")
  case True
  then show ?thesis
    using assms by (cases "match_npm hosts (dr_fqdn r)")
      (auto simp: dns_entry_def fit_record_def Let_def entry_key_fqdn split: option.splits if_splits)
next
  case False
  then show ?thesis
    using assms by (auto simp: dns_entry_def fit_record_def Let_def entry_key_fqdn split: if_splits)
qed

lemma plan_dns_step:
  assumes "plan_dns hosts npms dd r p = Inr p'"
  shows "fst (np_report p') = [] \<longleftrightarrow> fst (np_report p) = [] \<and> fit_record hosts npms dd r"
    and "map entry_key (np_entries p') = map entry_key (np_entries p) @ [name_key (dr_fqdn r)]"
  using assms dns_entry_clear by (auto simp: plan_dns_def rbind_eq_Inr)

lemma plan_dns_clear:
  assumes "rfold (plan_dns hosts npms dd) rows p = Inr p'"
  shows "fst (np_report p') = [] \<longleftrightarrow> fst (np_report p) = [] \<and> (\<forall>r\<in>set rows. fit_record hosts npms dd r)"
    and "map entry_key (np_entries p') = map entry_key (np_entries p) @ map (\<lambda>r. name_key (dr_fqdn r)) rows"
proof -
  have "(fst (np_report p') = [] \<longleftrightarrow> fst (np_report p) = [] \<and> (\<forall>r\<in>set rows. fit_record hosts npms dd r))
      \<and> map entry_key (np_entries p') = map entry_key (np_entries p) @ map (\<lambda>r. name_key (dr_fqdn r)) rows"
    using assms
  proof (induction rows arbitrary: p)
    case (Cons r rows)
    obtain p1 where "plan_dns hosts npms dd r p = Inr p1" "rfold (plan_dns hosts npms dd) rows p1 = Inr p'"
      using Cons.prems by (auto simp: rbind_eq_Inr)
    then show ?case using Cons.IH plan_dns_step by auto
  qed simp
  then show "fst (np_report p') = [] \<longleftrightarrow> fst (np_report p) = [] \<and> (\<forall>r\<in>set rows. fit_record hosts npms dd r)"
    "map entry_key (np_entries p') = map entry_key (np_entries p) @ map (\<lambda>r. name_key (dr_fqdn r)) rows" by blast+
qed

text \<open>The proxy hosts of a project are listed once each.\<close>

definition listed_once :: "npm_host list \<Rightarrow> bool" where
  "listed_once hs = ((\<forall>h\<in>set hs. strip (nh_fqdn h) = nh_fqdn h) \<and> distinct (map (\<lambda>h. fqdn_key (nh_fqdn h)) hs))"

lemma add_npm_host_once: "listed_once out \<Longrightarrow> strip fqdn = fqdn \<Longrightarrow> listed_once (add_npm_host b m fqdn out)"
  by (auto simp: listed_once_def add_npm_host_def Let_def)

lemma bound_domains_stripped:
  assumes "bound_domains hosts b = Inr (m, ds)" and "d \<in> set ds"
  shows "strip d = d"
  using assms by (auto simp: bound_domains_def Let_def rbind_eq_Inr split: option.splits if_splits)

lemma npm_hosts_once:
  assumes "npm_proxy_hosts_for_project f nm = Inr phs"
  shows "distinct (map (\<lambda>h. name_key (nh_fqdn h)) phs)"
proof -
  have once: "listed_once (foldl (\<lambda>out d. add_npm_host b m d out) out ds)" if "listed_once out" "\<forall>d\<in>set ds. strip d = d" for out ds b m
    using that by (induction ds arbitrary: out) (simp_all add: add_npm_host_once)
  have "listed_once phs"
  proof -
    obtain n hosts k where h: "npm_hosts_cached f = Inr (hosts, k)" and r: "rfold (\<lambda>b out. rbind (bound_domains hosts b) (\<lambda>(m, ds).
        Inr (foldl (\<lambda>out d. add_npm_host b m d out) out ds))) (filter (\<lambda>b. bd_role b = ''proxy_host'' \<and> bd_project b = Some n) (fb_bindings f)) [] = Inr phs"
      using assms by (auto simp: npm_proxy_hosts_for_project_def rbind_eq_Inr split: sum.splits)
    show ?thesis
    proof (rule rfold_invariant [OF r])
      show "listed_once []" by (simp add: listed_once_def)
      fix b out out' assume "listed_once out" and "rbind (bound_domains hosts b) (\<lambda>(m, ds). Inr (foldl (\<lambda>out d. add_npm_host b m d out) out ds)) = Inr out'"
      then show "listed_once out'"
        using bound_domains_stripped by (auto simp: rbind_eq_Inr intro!: once)
    qed
  qed
  moreover have "map (\<lambda>h. name_key (nh_fqdn h)) phs = map (\<lambda>h. fqdn_key (nh_fqdn h)) phs" using calculation by (auto simp: listed_once_def name_key_def)
  ultimately show ?thesis by (simp only: listed_once_def)
qed

lemma proxy_block_clear: "proxy_block npms forward h = [] \<longleftrightarrow> fit_proxy npms forward h"
  by (auto simp: proxy_block_def fit_proxy_def Let_def)

lemma proxy_entry_key: "entry_key (proxy_entry h) = name_key (nh_fqdn h)"
  by (simp add: entry_key_def proxy_entry_def name_key_def dget0_def dget_def jor_def)

lemma plan_proxy_clear:
  assumes "distinct (map (\<lambda>h. name_key (nh_fqdn h)) phs)"
  shows "fst (np_report (foldl (\<lambda>p h. plan_proxy npms fw h p) p phs)) = [] \<longleftrightarrow> fst (np_report p) = []
     \<and> (\<forall>h\<in>set phs. name_key (nh_fqdn h) \<in> insert [] (set (map entry_key (np_entries p))) \<or> fit_proxy npms fw h)"
  using assms
proof (induction phs arbitrary: p)
  case (Cons h phs)
  let ?k = "name_key (nh_fqdn h)"
  show ?case
  proof (cases "?k \<in> insert [] (set (map entry_key (np_entries p)))")
    case True
    then have "plan_proxy npms fw h p = p" by (auto simp: plan_proxy_def name_key_def Let_def)
    then show ?thesis using Cons True by auto
  next
    case False
    then have new: "np_entries (plan_proxy npms fw h p) = np_entries p @ [proxy_entry h]"
      "fst (np_report (plan_proxy npms fw h p)) = [] \<longleftrightarrow> fst (np_report p) = [] \<and> fit_proxy npms fw h"
      by (auto simp: plan_proxy_def name_key_def Let_def proxy_block_clear)
    have "name_key (nh_fqdn x) \<noteq> ?k" if "x \<in> set phs" for x using Cons.prems that by (auto simp: image_iff)
    then show ?thesis using Cons False new by (auto simp: proxy_entry_key)
  qed
qed simp

lemma names_clear:
  assumes "plan_names f nm (pq_dest q) hosts npms (project_names_rows f q nm) = Inr p" and "npm_hosts_cached f = Inr (hosts, npms)"
  shows "fst (np_report p) = [] \<longleftrightarrow> fit_dns f q nm"
proof -
  let ?rows = "project_names_rows f q nm" and ?dd = "strip (text0 (fh_dns_name (pq_dest q)))"
  obtain p0 phs where p0: "rfold (plan_dns hosts npms ?dd) ?rows \<lparr>np_entries = [], np_report = no_report\<rparr> = Inr p0"
    and phs: "npm_proxy_hosts_for_project f nm = Inr phs" and p: "p = foldl (\<lambda>p h. plan_proxy npms (forward_of (pq_dest q)) h p) p0 phs"
    using assms(1) by (auto simp: plan_names_def rbind_eq_Inr)
  show ?thesis
    using plan_dns_clear [OF p0] plan_proxy_clear [OF npm_hosts_once [OF phs], of npms "forward_of (pq_dest q)" p0]
    by (simp add: p fit_dns_def assms(2) phs Let_def)
qed

section \<open>The whole decision\<close>

definition fit_for_move :: "'w pf_env \<Rightarrow> pf_query \<Rightarrow> pf_names \<Rightarrow> gathered \<Rightarrow> bool" where
  "fit_for_move e q n g =
     (let s = pq_source q; d = pq_dest q; used = snd (dest_report (pn_dest n) (rslash (dest_base q) @ ''/'' @ pn_dest n) d (ga_live g)) in
      fit_names n \<and> fit_hosts s d \<and> (case source_lock (pf_metas e) q (pn_name n) of Inr st \<Rightarrow> \<not> lv_locked st | Inl x \<Rightarrow> False)
      \<and> ga_row g \<noteq> None \<and> dest_clear (pn_dest n) d (ga_live g) \<and> fit_arch q
      \<and> (case dataset_from_project (ga_row g) (source_base q) of Inr data \<Rightarrow> fit_data (pf_share e) q (pn_dest n) data | Inl x \<Rightarrow> False)
      \<and> fit_ports (pn_map n) used (ga_row g) \<and> busy_jobs (pf_db e) (h_id s) (pq_ignore q) = []
      \<and> busy_jobs (pf_db e) (h_id d) (pq_ignore q) = [] \<and> fit_dns (pf_rows e) q (pn_name n))"

lemma busy_clear: "fst (busy_flag cid who js) = [] \<longleftrightarrow> js = []"
  by (simp add: busy_flag_def split: list.split)

lemma edge_clear: "fst (if moving then edge_report edges n else no_report) = []"
  by (simp add: edge_report_def Let_def)

lemma report_clear:
  assumes st: "source_lock (pf_metas e) q (pn_name n) = Inr st" and data: "dataset_from_project (ga_row g) (source_base q) = Inr data"
    and ports: "port_rows_of (pn_map n) (snd (dest_report (pn_dest n) (rslash (dest_base q) @ ''/'' @ pn_dest n) (pq_dest q) (ga_live g)))
      (host_network_ports (ga_row g)) (published_ports (ga_row g)) = Inr rows"
    and hosts: "npm_hosts_cached (pf_rows e) = Inr (hosts, npms)"
    and names: "plan_names (pf_rows e) (pn_name n) (pq_dest q) hosts npms (project_names_rows (pf_rows e) q (pn_name n)) = Inr names"
  shows "fst (preflight_report e q n st g data rows names (if moving then edge_report edges k else no_report)) = [] \<longleftrightarrow> fit_for_move e q n g"
  unfolding preflight_report_def fit_for_move_def Let_def
  by (simp only: join_reports_fst concat_eq_Nil_conv set_map list.set ball_simps fst_conv st data sum.case name_clear host_clear lock_clear
      blocked_by_Nil dest_clear arch_clear writable_clear truncated_clear disk_clear binds_clear ports_clear [OF ports] busy_clear
      names_clear [OF names hosts] edge_clear)
    (auto simp: fit_names_def fit_data_def fit_arch_def Let_def)

lemma preflight_ok:
  assumes "run_preflight e q w = (w', Inr pf)"
  shows "\<exists>n g. preflight_names q = Inr n \<and> gather e q n w = (w', g) \<and> field pf ''ok'' = JBool (fit_for_move e q n g)"
proof -
  obtain n st g where n: "preflight_names q = Inr n" and st: "source_lock (pf_metas e) q (pn_name n) = Inr st"
    and g: "gather e q n w = (w', g)" and r: "preflight_result e q n st g = Inr pf"
    using assms by (auto simp: run_preflight_def rbind_eq_Inr split: sum.splits prod.splits)
  let ?f = "pf_rows e" and ?rows = "project_names_rows (pf_rows e) q (pn_name n)"
  let ?used = "snd (dest_report (pn_dest n) (rslash (dest_base q) @ ''/'' @ pn_dest n) (pq_dest q) (ga_live g))"
  obtain data ports hosts npms edges moving names deps where
    data: "dataset_from_project (ga_row g) (source_base q) = Inr data"
    and ports: "port_rows_of (pn_map n) ?used (host_network_ports (ga_row g)) (published_ports (ga_row g)) = Inr ports"
    and hosts: "npm_hosts_cached ?f = Inr (hosts, npms)"
    and names: "plan_names ?f (pn_name n) (pq_dest q) hosts npms ?rows = Inr names"
    and pf: "pf = preflight_json q n g data ports names moving deps (preflight_report e q n st g data ports names
      (if moving then edge_report edges (length deps) else no_report))"
    using r by (auto simp: preflight_result_def rbind_eq_Inr Let_def)
  have "field pf ''ok'' = JBool (fst (preflight_report e q n st g data ports names (if moving then edge_report edges (length deps) else no_report)) = [])"
    by (simp add: pf preflight_json_def Let_def field_def dict_of_def dget0_def dget_def uniq_flags_Nil)
  then show ?thesis using report_clear [OF st data ports hosts names] n g by simp
qed

end
