(* ===== verification/PreflightProps.thy ===== *)
theory PreflightProps
  imports PreflightFacts
begin

text \<open>
  What a preflight promises, on a concrete fleet: the decision is the meaning of its sections, and what it misses when the
  destination does not answer.
\<close>

section \<open>A small fleet\<close>

definition asked_host :: "int \<Rightarrow> string \<Rightarrow> column \<Rightarrow> fleet_host" where
  "asked_host i nm held = \<lparr>h_id = i, h_name = nm, h_hostname = nm, h_ssh_username = ''pi'', h_docker_base_dir = ''/d'', h_os_type = ''debian'',
     fh_ip_address = None, fh_dns_name = Some nm, fh_dns_manage_a = True, fh_dns_ip_override = None, fh_containers_on = True, fh_inventory = held\<rparr>"

definition stocked :: column where
  "stocked = Text (JObj [(''v'', JInt 1), (''projects'', JList [JObj [(''name'', JStr ''app''), (''containers'', JList
     [JObj [(''name'', JStr ''web''), (''mounts_list'', JList [JStr ''/srv''])]])]])])"

definition asked :: pf_query where
  "asked = \<lparr>pq_source = asked_host 1 ''a'' stocked, pq_dest = asked_host 2 ''b'' Absent, pq_project = ''app'', pq_source_facts = None,
     pq_dest_facts = None, pq_herder_free = None, pq_dest_project = None, pq_port_map = [], pq_binds = [], pq_ignore = 0, pq_live = True\<rparr>"

definition quiet_shell :: "string \<Rightarrow> unit shell" where
  "quiet_shell out = \<lparr>sh_connect = (\<lambda>h. ret ()), sh_run = (\<lambda>h c. ret (case c of ComposeContainers p \<Rightarrow> (0, out) | _ \<Rightarrow> (1, [])))\<rparr>"

definition small_env :: "string \<Rightarrow> job list \<Rightarrow> unit pf_env" where
  "small_env out js = \<lparr>pf_db = \<lparr>db_jobs = js, db_audits = [], db_servers = [], db_next_job = 9, db_next_audit = 1, db_ssh_down = [],
       db_host_down = [], db_effects = []\<rparr>,
     pf_rows = \<lparr>fb_hosts = [], fb_records = [], fb_integrations = [], fb_bindings = [], fb_deployments = [], fb_visuals = [],
       fb_annotations = [], fb_ports = [], fb_edges = [], fb_targets = [], fb_next_record = 1, fb_next_target = 1, fb_audits = []\<rparr>,
     pf_metas = [], pf_shell = quiet_shell out, pf_inspect = (\<lambda>h p. ret (JObj p)), pf_tree = (\<lambda>h p. ret []), pf_share = (\<lambda>n. n div 8)\<rparr>"

section \<open>Deciding\<close>

lemma preflight_reaches:
  assumes "preflight_names q = Inr n" and "source_lock (pf_metas e) q (pn_name n) = Inr st" and "gather e q n w = (w', g)"
    and "dataset_from_project (ga_row g) (source_base q) = Inr data"
    and "port_rows_of (pn_map n) (snd (dest_report (pn_dest n) (rslash (dest_base q) @ ''/'' @ pn_dest n) (pq_dest q) (ga_live g)))
      (host_network_ports (ga_row g)) (published_ports (ga_row g)) = Inr rows"
    and "npm_hosts_cached (pf_rows e) = Inr (hosts, npms)" and "npm_edge_fqdns (pf_rows e) = Inr edges"
    and "is_npm_edge_project (pf_rows e) (h_id (pq_source q)) (pn_name n) (project_names_rows (pf_rows e) q (pn_name n)) = Inr moving"
    and "plan_names (pf_rows e) (pn_name n) (pq_dest q) hosts npms (project_names_rows (pf_rows e) q (pn_name n)) = Inr names"
  shows "\<exists>pf. run_preflight e q w = (w', Inr pf)"
  using assms by (simp add: run_preflight_def preflight_result_def Let_def)

definition asked_names :: pf_names where
  "asked_names = \<lparr>pn_name = ''app'', pn_dest = ''app'', pn_dest_error = None, pn_map = [], pn_map_errors = []\<rparr>"

definition asked_row :: dict where
  "asked_row = [(''name'', JStr ''app''), (''containers'', JList [JObj [(''name'', JStr ''web''), (''mounts_list'', JList [JStr ''/srv''])]])]"

definition asked_data :: project_data where
  "asked_data = \<lparr>pd_items = [\<lparr>di_source = ''/srv'', di_kind = ''bind_absolute'', di_volume = None, di_bytes = None\<rparr>], pd_bytes = None,
     pd_outside = [''/srv''], pd_truncated = []\<rparr>"

definition seen :: "string list \<Rightarrow> gathered" where
  "seen cs = \<lparr>ga_row = Some asked_row, ga_files = [],
     ga_live = Some (\<lparr>oc_files = [], oc_containers = cs, oc_ports = [], oc_project_ports = [], oc_listen = []\<rparr>, None)\<rparr>"

lemma small_gather: "gather (small_env out js) asked asked_names () = ((), seen (nonblank_lines out))"
proof -
  have "inspect_source (small_env out js) asked ''app'' () = ((), Some asked_row, [])" by code_simp
  moreover have "dest_base asked = ''/d''" by code_simp
  moreover have "norm_text ''/d/app'' = ''/d/app''" and "\<not> ''..'' \<in> set (split_on slash ''/d/app'')" and "strip ''app'' = ''app''" by code_simp+
  moreover have "rslash ''/d'' = ''/d''" by code_simp
  ultimately show ?thesis
    by (simp add: gather_def asked_names_def asked_def probe_dest_occupancy_def small_env_def quiet_shell_def on_success_def seen_def
        connect_first_def seq_def ret_def listen_step_def listening_def asked_host_def Let_def)
qed

lemma small_stages:
  "preflight_names asked = Inr asked_names" "source_lock (pf_metas (small_env out js)) asked ''app'' = Inr empty_state"
  "source_base asked = ''/d''" "dest_base asked = ''/d''" "dataset_from_project (Some asked_row) ''/d'' = Inr asked_data"
  "host_network_ports (Some asked_row) = []" "published_ports (Some asked_row) = []"
  "npm_hosts_cached (pf_rows (small_env out js)) = Inr ([], 0)" "npm_edge_fqdns (pf_rows (small_env out js)) = Inr []"
  "project_names_rows (pf_rows (small_env out js)) asked ''app'' = []"
  "is_npm_edge_project (pf_rows (small_env out js)) (h_id (pq_source asked)) ''app'' [] = Inr False"
  "plan_names (pf_rows (small_env out js)) ''app'' (pq_dest asked) [] 0 [] = Inr \<lparr>np_entries = [], np_report = no_report\<rparr>"
  subgoal unfolding asked_names_def by code_simp
  subgoal by code_simp
  subgoal by code_simp
  subgoal by code_simp
  subgoal by code_simp
  subgoal by code_simp
  subgoal by code_simp
  subgoal by code_simp
  subgoal by code_simp
  subgoal by code_simp
  subgoal by code_simp
  subgoal by code_simp
  done

lemma small_run: "\<exists>pf. run_preflight (small_env out js) asked () = ((), Inr pf)"
  by (rule preflight_reaches [OF small_stages(1) _ small_gather, where st = empty_state and data = asked_data and rows = "[]"
        and hosts = "[]" and npms = 0 and edges = "[]" and moving = False and names = "\<lparr>np_entries = [], np_report = no_report\<rparr>"])
    (simp_all add: small_stages asked_names_def seen_def port_rows_of_def)

lemma small_fit:
  "fit_names asked_names" "fit_hosts (pq_source asked) (pq_dest asked)" "\<not> lv_locked empty_state" "fit_arch asked"
  "fit_data (pf_share (small_env out js)) asked ''app'' asked_data" "fit_dns (pf_rows (small_env out js)) asked ''app''"
  "busy_jobs (pf_db (small_env out [])) 1 0 = []" "busy_jobs (pf_db (small_env out [])) 2 0 = []"
  subgoal by code_simp
  subgoal by code_simp
  subgoal by code_simp
  subgoal by code_simp
  subgoal by code_simp
  subgoal by code_simp
  subgoal by code_simp
  subgoal by code_simp
  done

lemma small_decision: "fit_for_move (small_env out []) asked asked_names (seen ls) \<longleftrightarrow> (\<forall>l\<in>set ls. dest_container_state l \<notin> set LIVE_DEST_STATES)"
proof -
  have "h_id (pq_source asked) = 1" "h_id (pq_dest asked) = 2" "pq_ignore asked = 0" by code_simp+
  then show ?thesis
    by (simp add: small_fit small_fit(1) [unfolded asked_names_def] fit_for_move_def small_stages asked_names_def seen_def dest_clear_def fit_ports_def text0_def)
qed

section \<open>What a preflight decides\<close>

text \<open>C40: a preflight that returns says ok exactly when the Move is fit to start: names and ports are valid, the two hosts
  are different, neither is HAOS and the destination has containers switched on, the source is not locked, the project is
  in the inventory, no stack of that name runs on the destination (as seen over SSH, or in its inventory when it is not
  asked), the architectures agree, the payload with its margin fits on the destination and on the herder, every bind outside
  the base has an allowed place or is left out, every published port gets a free one, no job of the fleet works on either
  host, and every name has somewhere to go.\<close>

theorem preflight_decides:
  assumes "run_preflight e q w = (w', Inr pf)"
  shows "\<exists>n g. preflight_names q = Inr n \<and> gather e q n w = (w', g) \<and> field pf ''ok'' = JBool (fit_for_move e q n g)"
  by (rule preflight_ok [OF assms])

theorem preflight_decides_witness:
  "\<exists>pf pf'. run_preflight (small_env [] []) asked () = ((), Inr pf) \<and> field pf ''ok'' = JBool True
     \<and> run_preflight (small_env ''w running'' []) asked () = ((), Inr pf') \<and> field pf' ''ok'' = JBool False"
proof -
  have lines: "nonblank_lines [] = []" "nonblank_lines ''w running'' = [''w running'']"
    "dest_container_state ''w running'' \<in> set LIVE_DEST_STATES" by code_simp+
  have each: "\<exists>pf. run_preflight (small_env out []) asked () = ((), Inr pf)
      \<and> field pf ''ok'' = JBool (\<forall>l\<in>set (nonblank_lines out). dest_container_state l \<notin> set LIVE_DEST_STATES)" for out
  proof -
    obtain pf where r: "run_preflight (small_env out []) asked () = ((), Inr pf)" using small_run by blast
    then show ?thesis using preflight_decides [OF r] by (simp add: small_stages(1) small_gather small_decision)
  qed
  show ?thesis using each [of "[]"] each [of "''w running''"] lines by auto
qed

lemma fit_is_eligible:
  assumes "d \<in> set (fb_hosts f)" and "\<not> is_haos_server (host_of s)"
  shows "fit_hosts s d \<longleftrightarrow> d \<in> set (eligible_destinations f (h_id s))"
  using assms by (auto simp: fit_hosts_def eligible_destinations_def)

section \<open>What it does not see\<close>

text \<open>An exception without a text (\<open>EOFError()\<close> of a connection that is closed on it) counts as no error, so the
  destination is taken to be empty; so is one on which every command fails.\<close>

lemma silent_probe_clears:
  assumes "sh_connect sh (h_id (pq_dest q)) w = (w', Inl [])" and "norm_text proj \<noteq> ''/''"
    and "''..'' \<notin> set (split_on slash (norm_text proj))" and "strip dn \<noteq> []"
  shows "\<exists>oc. probe_dest_occupancy sh (h_id (pq_dest q)) dn proj w = (w', oc, Some []) \<and> dest_clear dn d (Some (oc, Some []))"
  using assms by (simp add: probe_dest_occupancy_def Let_def connect_first_def seq_def dest_clear_def text0_def)

lemma failing_commands_clear:
  assumes "\<And>w. sh_connect sh sid w = (w, Inr ())" and "\<And>c w. sh_run sh sid c w = (w, Inr (127, []))"
    and "norm_text proj \<noteq> ''/''" and "''..'' \<notin> set (split_on slash (norm_text proj))" and "strip dn \<noteq> []"
  shows "\<exists>oc. probe_dest_occupancy sh sid dn proj w = (w, oc, None) \<and> dest_clear dn d (Some (oc, None))"
  using assms by (simp add: probe_dest_occupancy_def Let_def connect_first_def seq_def ret_def on_success_def listen_step_def
      listening_def dest_clear_def text0_def)

text \<open>A port a container only exposes (\<open>80/tcp\<close> without an arrow) is taken for a published one.\<close>

lemma exposed_port_counts:
  "published_ports (Some [(''containers'', JList [JObj [(''ports_display'', JStr ''80/tcp'')]])]) = [(''80'', ''tcp'')]"
  by code_simp

end
