(* ===== verification/CopySelection.thy ===== *)
theory CopySelection
  imports MoveCopy JobSummary
begin

text \<open>
  What a copy of the backup drive sends (\<open>app/services/backup_replicate.py\<close>): the ticked paths with their unticked
  children, the ticks of one host, the plan of the syncs and the command line of each. Paths are relative to the backup
  root and have no empty component.
\<close>

section \<open>Paths\<close>

definition backslash :: char where
  "backslash = CHR 0x5C"

definition clean_rel :: "string \<Rightarrow> exc + string" where
  "clean_rel path =
     (let text = lstrip_chars (\<lambda>c. c = slash) (map (\<lambda>c. if c = backslash then slash else c) (strip path));
          parts = filter (\<lambda>p. p \<noteq> [] \<and> p \<noteq> ''.'') (split_on slash text) in
      if ''..'' \<in> set parts then Inl (ValueError ''path escapes the backup drive'') else Inr (join ''/'' parts))"

definition under :: "string \<Rightarrow> string \<Rightarrow> bool" where
  "under child parent = (child = parent \<or> startswith child (rslash parent @ ''/''))"

section \<open>The selection\<close>

type_synonym selection = "string list \<times> string list"

text \<open>The paths that can be cleaned; the others are left out.\<close>

definition cleaned :: "string list \<Rightarrow> string list" where
  "cleaned raws = concat (map (\<lambda>r. case clean_rel r of Inl x \<Rightarrow> [] | Inr rel \<Rightarrow> [rel]) raws)"

definition outermost :: "string list \<Rightarrow> string list" where
  "outermost ps = filter (\<lambda>p. \<not> list_ex (\<lambda>q. under p q \<and> p \<noteq> q) ps) ps"

definition normalize_selection :: "selection \<Rightarrow> selection" where
  "normalize_selection sel = (case sel of (checked, skipped) \<Rightarrow>
     let clean_checked = foldl (\<lambda>out rel. if rel \<noteq> [] \<and> rel \<notin> set out then out @ [rel] else out) [] (cleaned checked);
         kept = outermost clean_checked;
         clean_skipped = filter (\<lambda>rel. rel \<noteq> [] \<and> rel \<notin> set kept \<and> list_ex (under rel) kept) (cleaned skipped) in
     (kept, outermost clean_skipped))"

definition apply_toggle :: "selection \<Rightarrow> string \<Rightarrow> bool \<Rightarrow> exc + selection" where
  "apply_toggle sel path on = rbind (clean_rel path) (\<lambda>rel.
     if rel = [] then Inl (ValueError ''Choose a folder or file inside the backup drive'')
     else case normalize_selection sel of (checked, skipped) \<Rightarrow>
       let skipped1 = filter (\<lambda>s. s \<noteq> rel \<and> \<not> under s rel) skipped in
       Inr (normalize_selection
         (if on then let checked1 = filter (\<lambda>c. \<not> under c rel) checked in
            (if list_ex (under rel) checked1 then checked1 else checked1 @ [rel], skipped1)
          else let checked1 = filter (\<lambda>c. c \<noteq> rel \<and> \<not> under c rel) checked in
            (checked1, if list_ex (under rel) checked1 then skipped1 @ [rel] else skipped1))))"

definition included :: "selection \<Rightarrow> string \<Rightarrow> bool" where
  "included sel rel = (case sel of (checked, skipped) \<Rightarrow>
     rel \<noteq> [] \<and> \<not> list_ex (\<lambda>s. rel = s \<or> under rel s) skipped \<and> list_ex (\<lambda>c. rel = c \<or> under rel c) checked)"

definition path_included :: "string \<Rightarrow> selection \<Rightarrow> exc + bool" where
  "path_included path sel = rbind (if path \<noteq> [] then clean_rel path else Inr []) (\<lambda>rel. Inr (included sel rel))"

definition selection_state :: "string \<Rightarrow> selection \<Rightarrow> string" where
  "selection_state path sel = (case sel of (checked, skipped) \<Rightarrow>
     case (if path \<noteq> [] then clean_rel path else Inr []) of
       Inl x \<Rightarrow> ''off''
     | Inr rel \<Rightarrow>
       if rel = [] then (if checked \<noteq> [] then ''partial'' else ''off'')
       else if included sel rel then (if list_ex (\<lambda>s. under s rel \<and> s \<noteq> rel) skipped then ''partial'' else ''on'')
       else if list_ex (\<lambda>c. under c rel \<and> c \<noteq> rel) checked then ''partial'' else ''off'')"

text \<open>As the row keeps it.\<close>

definition listed :: "json \<Rightarrow> exc + string list" where
  "listed v = rbind (py_items (jor v (JList []))) (\<lambda>xs. Inr (filter (\<lambda>p. strip p \<noteq> []) (map py_str xs)))"

definition parse_selection :: "column \<Rightarrow> exc + selection" where
  "parse_selection raw = (let data = load_dict raw in
     rbind (listed (dget0 data ''checked'')) (\<lambda>checked. rbind (listed (dget0 data ''skipped'')) (\<lambda>skipped.
       Inr (normalize_selection (checked, skipped)))))"

definition selection_json :: "selection \<Rightarrow> column" where
  "selection_json sel = (case normalize_selection sel of (checked, skipped) \<Rightarrow>
     Text (JObj [(''checked'', JList (map JStr checked)), (''skipped'', JList (map JStr skipped))]))"

section \<open>The ticks of one host\<close>

definition narrowed :: "string \<Rightarrow> string list \<Rightarrow> string list" where
  "narrowed pre checked = map (\<lambda>p. if under pre p \<and> p \<noteq> pre then pre else p)
     (filter (\<lambda>p. p = pre \<or> under p pre \<or> under pre p) checked)"

definition paths_for_scope :: "selection \<Rightarrow> string option \<Rightarrow> selection" where
  "paths_for_scope sel scope = (case sel of (checked, skipped) \<Rightarrow>
     let pre = rslash (lstrip_chars (\<lambda>c. c = slash) (strip (text0 scope))); ps = narrowed pre checked in
     if text0 scope = [] \<or> pre = [] then sel
     else normalize_selection (ps, filter (\<lambda>p. p = pre \<or> under p pre \<or> list_ex (under p) ps) skipped))"

section \<open>The plan\<close>

definition sync_plan :: "selection \<Rightarrow> (string \<times> string list) list" where
  "sync_plan sel = (case sel of (checked, skipped) \<Rightarrow>
     map (\<lambda>folder. let pre = rslash folder @ ''/'' in
       (folder, map (drop (length pre)) (filter (\<lambda>s. startswith s pre) skipped))) checked)"

text \<open>\<open>Path(pattern).name\<close> of a relative path without a parent component.\<close>

definition path_name :: "string \<Rightarrow> string" where
  "path_name p = (case rev (filter (\<lambda>c. c \<noteq> [] \<and> c \<noteq> ''.'') (split_on slash p)) of [] \<Rightarrow> [] | c # cs \<Rightarrow> c)"

definition exclude_args :: "string \<Rightarrow> string list" where
  "exclude_args rel = (let pat = rslash rel in
     if pat = [] \<or> startswith pat ''/'' \<or> ''..'' \<in> set (split_on slash pat) then []
     else [''--exclude'', if CHR ''.'' \<in> set (path_name pat) then pat else pat @ ''/**''])"

definition rclone_sync_cmd :: "string \<Rightarrow> string \<Rightarrow> string \<Rightarrow> string list \<Rightarrow> bool \<Rightarrow> string list" where
  "rclone_sync_cmd config local_dir remote excludes use_trash =
     [''rclone'', ''sync'', local_dir, ''dest:'' @ remote, ''--config'', config]
     @ (if use_trash then [''--drive-use-trash''] else []) @ [''--stats-one-line'', ''--stats'', ''0'']
     @ concat (map exclude_args excludes)"

definition rclone_copy_file_cmd :: "string \<Rightarrow> string \<Rightarrow> string \<Rightarrow> bool \<Rightarrow> string list" where
  "rclone_copy_file_cmd config local_file remote use_trash =
     [''rclone'', ''copyto'', local_file, ''dest:'' @ remote, ''--config'', config]
     @ (if use_trash then [''--drive-use-trash''] else []) @ [''--stats-one-line'', ''--stats'', ''0'']"

definition rclone_pull_cmd :: "string \<Rightarrow> string \<Rightarrow> string \<Rightarrow> bool \<Rightarrow> string list" where
  "rclone_pull_cmd config local_dir remote dry_run =
     [''rclone'', ''sync'', ''dest:'' @ remote, local_dir, ''--config'', config, ''--stats-one-line'', ''--stats'', ''0'']
     @ (if dry_run then [''--dry-run''] else [])"

text \<open>
  The selection of a copy: ticking and unticking a path changes what is sent below that path and nowhere else, the row
  keeps it, and the plan of a host sends exactly the ticked paths of that host.
\<close>

section \<open>Below\<close>

definition endless :: "string \<Rightarrow> bool" where
  "endless p = (p \<noteq> [] \<and> last p \<noteq> slash)"

lemma rslash_endless: "endless p \<Longrightarrow> rslash p = p"
  by (auto simp: endless_def rslash_def rstrip_chars_def dropWhile_idem_hd hd_rev)

lemma under_prefix: "endless p \<Longrightarrow> under c p \<longleftrightarrow> prefix (p @ ''/'') (c @ ''/'')"
  by (auto simp: under_def rslash_endless startswith_def)

lemma under_refl [simp]: "under p p"
  by (simp add: under_def)

lemma under_trans: "under a b \<Longrightarrow> under b c \<Longrightarrow> endless b \<Longrightarrow> endless c \<Longrightarrow> under a c"
  using prefix_order.order_trans [of "c @ ''/''" "b @ ''/''" "a @ ''/''"] unfolding under_prefix by blast

lemma under_antisym: "under a b \<Longrightarrow> under b a \<Longrightarrow> endless a \<Longrightarrow> endless b \<Longrightarrow> a = b"
  by (simp only: under_prefix) (metis append_same_eq prefix_order.antisym)

lemma under_comparable: "under q a \<Longrightarrow> under q b \<Longrightarrow> endless a \<Longrightarrow> endless b \<Longrightarrow> under a b \<or> under b a"
  using prefix_same_cases [of "a @ ''/''" "q @ ''/''" "b @ ''/''"] unfolding under_prefix by blast

section \<open>Clean paths\<close>

definition clean_path :: "string \<Rightarrow> bool" where
  "clean_path p = (p \<noteq> [] \<and> clean_rel p = Inr p)"

lemma last_join:
  assumes "ws \<noteq> []" and "last ws \<noteq> []"
  shows "join sep ws \<noteq> [] \<and> last (join sep ws) = last (last ws)"
  using assms by (induction sep ws rule: join.induct) auto

lemma clean_endless: "clean_path p \<Longrightarrow> endless p"
proof -
  assume "clean_path p"
  then have ne: "p \<noteq> []" and c: "clean_rel p = Inr p" by (auto simp: clean_path_def)
  let ?text = "lstrip_chars (\<lambda>c. c = slash) (map (\<lambda>c. if c = backslash then slash else c) (strip p))"
  let ?parts = "filter (\<lambda>w. w \<noteq> [] \<and> w \<noteq> ''.'') (split_on slash ?text)"
  have "p = join ''/'' ?parts" using c by (simp add: clean_rel_def Let_def split: if_splits)
  moreover have "\<forall>w\<in>set ?parts. w \<noteq> [] \<and> slash \<notin> set w" using split_on_parts [of _ slash] by auto
  ultimately obtain parts where parts: "p = join ''/'' parts" "\<forall>w\<in>set parts. w \<noteq> [] \<and> slash \<notin> set w" by blast
  then have "parts \<noteq> []" using ne by auto
  then have l: "last parts \<in> set parts" by (rule last_in_set)
  then have "last parts \<noteq> []" "slash \<notin> set (last parts)" using parts(2) by auto
  then show ?thesis using last_join [OF \<open>parts \<noteq> []\<close>, of "''/''"] parts(1) ne by (metis endless_def last_in_set)
qed

lemma cleaned_clean: "\<forall>p\<in>set ps. clean_path p \<Longrightarrow> cleaned ps = ps"
  by (induction ps) (auto simp: cleaned_def clean_path_def)

lemma clean_strip: "clean_path p \<Longrightarrow> strip p \<noteq> []"
  by (auto simp: clean_path_def clean_rel_def lstrip_chars_def Let_def split: if_splits)

section \<open>The normal form\<close>

definition apart_paths :: "string set \<Rightarrow> bool" where
  "apart_paths ps = (\<forall>p\<in>ps. \<forall>q\<in>ps. under p q \<longrightarrow> p = q)"

definition normal :: "selection \<Rightarrow> bool" where
  "normal sel = (case sel of (checked, skipped) \<Rightarrow>
     (\<forall>p\<in>set checked \<union> set skipped. clean_path p) \<and> distinct checked \<and> apart_paths (set checked) \<and> apart_paths (set skipped)
     \<and> (\<forall>s\<in>set skipped. \<exists>c\<in>set checked. under s c \<and> s \<noteq> c))"

lemma outermost_apart: "apart_paths (set ps) \<Longrightarrow> outermost ps = ps"
  by (auto simp: outermost_def apart_paths_def list_ex_iff filter_id_conv)

lemma dedupe: "\<forall>p\<in>set ps. p \<noteq> [] \<Longrightarrow> distinct (out @ ps) \<Longrightarrow>
    foldl (\<lambda>out rel. if rel \<noteq> [] \<and> rel \<notin> set out then out @ [rel] else out) out ps = out @ ps"
  by (induction ps arbitrary: out) auto

lemma normalize_shape:
  assumes "\<forall>p\<in>set ch \<union> set sk. clean_path p" and "distinct ch" and "apart_paths (set ch)"
    and "\<forall>s\<in>set sk. \<exists>c\<in>set ch. under s c \<and> s \<noteq> c"
  shows "normalize_selection (ch, sk) = (ch, outermost sk)"
proof -
  have ne: "\<forall>p\<in>set ch. p \<noteq> []" "\<forall>p\<in>set sk. p \<noteq> []" using assms(1) by (auto simp: clean_path_def)
  have "filter (\<lambda>rel. rel \<noteq> [] \<and> rel \<notin> set ch \<and> list_ex (under rel) ch) sk = sk"
    using assms(3,4) ne by (auto simp: filter_id_conv list_ex_iff apart_paths_def)
  then show ?thesis
    using dedupe [OF ne(1), of "[]"] assms(1,2) by (simp add: normalize_selection_def Let_def cleaned_clean outermost_apart [OF assms(3)])
qed

lemma normal_fixed: "normal sel \<Longrightarrow> normalize_selection sel = sel"
  by (cases sel) (auto simp: normal_def normalize_shape outermost_apart)

lemma filter_normal:
  assumes "normal (ch, sk)" and "\<And>s. s \<in> set sk \<Longrightarrow> P s \<Longrightarrow> \<exists>c\<in>set ch. P c \<and> under s c \<and> s \<noteq> c"
  shows "normal (filter P ch, filter P sk)"
proof -
  have "\<forall>s\<in>set (filter P sk). \<exists>c\<in>set (filter P ch). under s c \<and> s \<noteq> c"
    using assms(2) unfolding set_filter by blast
  moreover have "\<forall>p\<in>set (filter P ch) \<union> set (filter P sk). clean_path p" "distinct (filter P ch)"
    "apart_paths (set (filter P ch))" "apart_paths (set (filter P sk))"
    using assms(1) by (auto simp: normal_def apart_paths_def)
  ultimately show ?thesis unfolding normal_def prod.case by blast
qed

lemma normal_endless: "normal (ch, sk) \<Longrightarrow> p \<in> set ch \<union> set sk \<Longrightarrow> endless p"
  by (auto simp: normal_def intro: clean_endless)

lemma included_iff: "included (ch, sk) q \<longleftrightarrow> q \<noteq> [] \<and> (\<exists>c\<in>set ch. under q c) \<and> \<not> (\<exists>s\<in>set sk. under q s)"
  by (auto simp: included_def list_ex_iff intro: under_refl)

section \<open>Ticking\<close>

text \<open>The paths that keep their tick, and the ones that stay unticked, when \<open>rel\<close> is toggled.\<close>

definition ticked :: "selection \<Rightarrow> string \<Rightarrow> bool \<Rightarrow> selection" where
  "ticked sel rel on = (case sel of (checked, skipped) \<Rightarrow>
     let ch = filter (\<lambda>c. \<not> under c rel) checked; sk = filter (\<lambda>s. \<not> under s rel) skipped in
     if on then (if list_ex (under rel) ch then ch else ch @ [rel], sk)
     else (ch, if list_ex (under rel) ch \<and> \<not> list_ex (under rel) sk then sk @ [rel] else sk))"

lemma apart_insert: "apart_paths A \<Longrightarrow> (\<And>a. a \<in> A \<Longrightarrow> \<not> under a r \<and> \<not> under r a) \<Longrightarrow> apart_paths (insert r A)"
  by (auto simp: apart_paths_def)

lemma ticked_normal:
  assumes n: "normal (ch, sk)" and rel: "clean_path rel"
  shows "normal (ticked (ch, sk) rel on)"
proof -
  have e: "\<And>p. p \<in> set ch \<union> set sk \<Longrightarrow> endless p" "endless rel" using normal_endless [OF n] clean_endless [OF rel] by blast+
  have keep: "\<exists>c\<in>set ch. \<not> under c rel \<and> under s c \<and> s \<noteq> c" if "s \<in> set sk" "\<not> under s rel" for s
    using n that under_trans [OF _ _ _ e(2)] e(1) by (fastforce simp: normal_def)
  let ?ch = "filter (\<lambda>c. \<not> under c rel) ch" and ?sk = "filter (\<lambda>s. \<not> under s rel) sk"
  have base: "normal (?ch, ?sk)" by (rule filter_normal [OF n]) (use keep in blast)
  have out: "rel \<notin> set ?ch" "rel \<notin> set ?sk" by simp_all
  show ?thesis
  proof (cases on)
    case True
    then show ?thesis
    proof (cases "list_ex (under rel) ?ch")
      case False
      then have "normal (?ch @ [rel], ?sk)"
        using base rel out by (auto simp: normal_def list_ex_iff intro!: apart_insert)
      then show ?thesis using True False by (simp add: ticked_def)
    qed (use base in \<open>simp add: ticked_def\<close>)
  next
    case off: False
    show ?thesis
    proof (cases "list_ex (under rel) ?ch \<and> \<not> list_ex (under rel) ?sk")
      case True
      then obtain c where "c \<in> set ?ch" "under rel c" by (auto simp: list_ex_iff)
      moreover have "rel \<noteq> c" using out(1) \<open>c \<in> set ?ch\<close> by blast
      ultimately have "normal (?ch, ?sk @ [rel])"
        using True base rel out by (auto simp: normal_def list_ex_iff intro!: apart_insert)
      then show ?thesis using True off by (simp add: ticked_def)
    qed (use base off in \<open>auto simp: ticked_def Let_def\<close>)
  qed
qed

lemma apply_ticked:
  assumes n: "normal (ch, sk)" and rel: "clean_rel path = Inr rel" "clean_path rel"
  shows "apply_toggle (ch, sk) path on = Inr (ticked (ch, sk) rel on)"
proof -
  let ?ch = "filter (\<lambda>c. \<not> under c rel) ch" and ?sk = "filter (\<lambda>s. \<not> under s rel) sk"
  have ne: "rel \<noteq> []" using rel(2) by (simp add: clean_path_def)
  have f: "filter (\<lambda>c. c \<noteq> rel \<and> \<not> under c rel) xs = filter (\<lambda>c. \<not> under c rel) xs" for xs
    by (rule filter_cong) (use under_refl in auto)
  show ?thesis
  proof (cases "\<not> on \<and> list_ex (under rel) ?ch \<and> list_ex (under rel) ?sk")
    case True
    have "normal (?ch, ?sk)" using ticked_normal [OF n rel(2), of on] True by (simp add: ticked_def)
    then have sh: "normalize_selection (?ch, ?sk @ [rel]) = (?ch, outermost (?sk @ [rel]))"
      using True rel(2) by (intro normalize_shape) (auto simp: normal_def list_ex_iff)
    have "outermost (?sk @ [rel]) = ?sk"
    proof -
      have ap: "apart_paths (set ?sk)" using \<open>normal (?ch, ?sk)\<close> by (simp add: normal_def)
      have in_sk: "\<not> list_ex (\<lambda>q. under p q \<and> p \<noteq> q) (?sk @ [rel])" if "p \<in> set ?sk" for p
        using that ap unfolding list_ex_iff apart_paths_def by auto
      obtain s where "s \<in> set ?sk" "under rel s" using True by (auto simp: list_ex_iff)
      moreover have "rel \<noteq> s" using calculation by auto
      ultimately have "list_ex (\<lambda>q. under rel q \<and> rel \<noteq> q) (?sk @ [rel])" unfolding list_ex_iff by auto
      moreover have "filter (\<lambda>p. \<not> list_ex (\<lambda>q. under p q \<and> p \<noteq> q) (?sk @ [rel])) ?sk = ?sk" using in_sk by (simp only: filter_id_conv) blast
      ultimately show ?thesis unfolding outermost_def by (simp only: filter_append) simp
    qed
    then show ?thesis using True ne rel(1) normal_fixed [OF n] sh by (simp add: apply_toggle_def ticked_def f Let_def)
  next
    case False
    then have "apply_toggle (ch, sk) path on = Inr (normalize_selection (ticked (ch, sk) rel on))"
      using ne rel(1) normal_fixed [OF n] by (auto simp: apply_toggle_def ticked_def f Let_def)
    then show ?thesis using normal_fixed [OF ticked_normal [OF n rel(2)]] by simp
  qed
qed

lemma ticked_included:
  assumes n: "normal (ch, sk)" and rel: "clean_path rel" and "q \<noteq> []"
  shows "included (ticked (ch, sk) rel on) q \<longleftrightarrow>
    (if under q rel then on \<and> \<not> (\<exists>s\<in>set sk. under rel s \<and> rel \<noteq> s) else included (ch, sk) q)"
proof -
  have e: "\<And>p. p \<in> set ch \<union> set sk \<Longrightarrow> endless p" "endless rel" using normal_endless [OF n] clean_endless [OF rel] by blast+
  note up = under_trans [OF _ _ e(2)] and down = under_trans [OF _ _ _ e(2)]
  show ?thesis
  proof (cases "under q rel")
    case True
    have cmp: "under c rel \<or> under rel c" if "c \<in> set ch \<union> set sk" "under q c" for c
      using under_comparable [OF that(2) True e(1) [OF that(1)] e(2)] by blast
    have "\<exists>c\<in>set (fst (ticked (ch, sk) rel True)). under q c"
      using True up e(1) by (auto simp: ticked_def Let_def list_ex_iff)
    moreover have "(\<exists>s\<in>set sk. \<not> under s rel \<and> under q s) \<longleftrightarrow> (\<exists>s\<in>set sk. under rel s \<and> rel \<noteq> s)"
      using cmp up [OF True] e under_antisym [OF _ _ e(2)] under_refl by (metis UnI2)
    moreover have "(\<exists>c\<in>set ch. \<not> under c rel \<and> under q c) \<Longrightarrow> \<exists>c\<in>set ch. \<not> under c rel \<and> under rel c"
      using cmp by blast
    ultimately show ?thesis using True \<open>q \<noteq> []\<close>
      by (cases on) (auto simp: ticked_def included_iff Let_def list_ex_iff)
  next
    case False
    then have "(\<exists>c\<in>set xs. \<not> under c rel \<and> under q c) \<longleftrightarrow> (\<exists>c\<in>set xs. under q c)" if "set xs \<subseteq> set ch \<union> set sk" for xs
      using that down e(1) by blast
    then show ?thesis using False by (auto simp: ticked_def included_iff Let_def)
  qed
qed

text \<open>C18: ticking a path selects everything below it, unticking removes everything below it, and no other path changes;
  the one exception is a path inside an unticked folder, which a tick does not bring back. The row keeps the selection as it
  is, and it stays in normal form.\<close>

theorem toggle_exact:
  assumes "normal sel" and "clean_rel path = Inr rel" and "clean_path rel"
  shows "\<exists>sel'. apply_toggle sel path on = Inr sel' \<and> normal sel' \<and> parse_selection (selection_json sel') = Inr sel'
    \<and> (\<forall>q. q \<noteq> [] \<longrightarrow> included sel' q =
         (if under q rel then on \<and> \<not> (\<exists>s\<in>set (snd sel). under rel s \<and> rel \<noteq> s) else included sel q))"
proof (cases sel)
  case (Pair ch sk)
  have kept: "parse_selection (selection_json s) = Inr s" if "normal s" for s
  proof (cases s)
    case (Pair a b)
    have "filter (\<lambda>p. strip p \<noteq> []) xs = xs" if "\<forall>p\<in>set xs. clean_path p" for xs
      using that clean_strip by (auto simp: filter_id_conv)
    then show ?thesis
      using that Pair normal_fixed [OF that]
      by (cases "a = []"; cases "b = []") (simp_all add: selection_json_def parse_selection_def listed_def normal_def dget0_def dget_def jor_def py_items_def py_list_def comp_def Let_def)
  qed
  show ?thesis
    using apply_ticked [OF assms(1) [unfolded Pair] assms(2,3)] ticked_normal [OF assms(1) [unfolded Pair] assms(3)]
      ticked_included [OF assms(1) [unfolded Pair] assms(3)] kept Pair by auto
qed

theorem toggle_exact_witness:
  "\<exists>sel'. apply_toggle ([''pi''], [''pi/tmp'']) ''pi/tmp/a/'' True = Inr sel' \<and> \<not> included sel' ''pi/tmp/a''
     \<and> (\<exists>sel2. apply_toggle ([''pi''], [''pi/tmp'']) ''/pi/db'' False = Inr sel2 \<and> \<not> included sel2 ''pi/db/x'' \<and> included sel2 ''pi/y'')"
proof -
  have n: "normal ([''pi''], [''pi/tmp''])" and c: "clean_rel ''pi/tmp/a/'' = Inr ''pi/tmp/a''" "clean_rel ''/pi/db'' = Inr ''pi/db''"
    "clean_path ''pi/tmp/a''" "clean_path ''pi/db''" and u: "under ''pi/tmp/a'' ''pi/tmp''" "under ''pi/db/x'' ''pi/db''" "\<not> under ''pi/y'' ''pi/db''"
    "included ([''pi''], [''pi/tmp'']) ''pi/y''" by code_simp+
  show ?thesis
    using toggle_exact [OF n c(1,3), of True] toggle_exact [OF n c(2,4), of False] u by fastforce
qed

section \<open>What is sent\<close>

text \<open>A path is sent when a sync of the plan starts at it or above it and none of its exclusions is at it or above it.\<close>

definition sent :: "(string \<times> string list) list \<Rightarrow> string \<Rightarrow> bool" where
  "sent plan q = list_ex (\<lambda>(folder, ex). under q folder \<and> \<not> list_ex (\<lambda>x. under q (folder @ ''/'' @ x)) ex) plan"

lemma plan_sends:
  assumes n: "normal (ch, sk)" and q: "q \<noteq> []"
  shows "sent (sync_plan (ch, sk)) q \<longleftrightarrow> included (ch, sk) q"
proof -
  have e: "\<And>p. p \<in> set ch \<union> set sk \<Longrightarrow> endless p" using normal_endless [OF n] by blast
  have strict: "startswith s (rslash c @ ''/'') \<longleftrightarrow> under s c \<and> s \<noteq> c" if "c \<in> set ch" for s c
    using e that by (auto simp: under_def startswith_def rslash_endless prefix_def)
  have cut: "c @ ''/'' @ drop (length (rslash c @ ''/'')) s = s" if "c \<in> set ch" "startswith s (rslash c @ ''/'')" for s c
    using that e by (auto simp: startswith_def rslash_endless prefix_def)
  have "sent (sync_plan (ch, sk)) q \<longleftrightarrow> (\<exists>c\<in>set ch. under q c \<and> \<not> (\<exists>s\<in>set sk. startswith s (rslash c @ ''/'')
      \<and> under q (c @ ''/'' @ drop (length (rslash c @ ''/'')) s)))"
    by (auto simp: sent_def sync_plan_def list_ex_iff Let_def)
  also have "\<dots> \<longleftrightarrow> (\<exists>c\<in>set ch. under q c \<and> \<not> (\<exists>s\<in>set sk. under s c \<and> s \<noteq> c \<and> under q s))"
    using strict cut by (metis (no_types, opaque_lifting))
  also have "\<dots> \<longleftrightarrow> included (ch, sk) q"
  proof -
    have "under s c \<and> s \<noteq> c" if c: "c \<in> set ch" "under q c" and "s \<in> set sk" and qs: "under q s" for s c
    proof -
      obtain c' where c': "c' \<in> set ch" "under s c'" "s \<noteq> c'" using n \<open>s \<in> set sk\<close> by (auto simp: normal_def)
      have "under q c'" by (rule under_trans [OF qs c'(2)]) (use e \<open>s \<in> set sk\<close> c' in auto)
      then have "under c c' \<or> under c' c" using under_comparable [OF c(2)] e c(1) c' by blast
      then have "c = c'" using n c(1) c'(1) by (auto simp: normal_def apart_paths_def)
      then show ?thesis using c' by simp
    qed
    then show ?thesis using q by (auto simp: included_iff)
  qed
  finally show ?thesis .
qed

lemma scope_keeps:
  assumes n: "normal (ch, sk)" and f: "clean_path f" "slash \<notin> set f" "strip f = f"
  shows "paths_for_scope (ch, sk) (Some f) = (filter (\<lambda>p. under p f) ch, filter (\<lambda>p. under p f) sk)"
    and "normal (filter (\<lambda>p. under p f) ch, filter (\<lambda>p. under p f) sk)"
proof -
  have e: "\<And>p. p \<in> set ch \<union> set sk \<Longrightarrow> endless p" "endless f" using normal_endless [OF n] clean_endless [OF f(1)] by blast+
  have top: "c = f" if "under f c" "endless c" for c
    using that f(2) by (auto simp: under_def startswith_def rslash_endless prefix_def)
  have pre: "rslash (lstrip_chars (\<lambda>c. c = slash) (strip (text0 (Some f)))) = f"
    using f e(2) by (cases f) (auto simp: text0_def lstrip_chars_def rslash_endless)
  have nar: "narrowed f ch = filter (\<lambda>p. under p f) ch"
  proof -
    have "filter (\<lambda>p. p = f \<or> under p f \<or> under f p) ch = filter (\<lambda>p. under p f) ch"
      by (rule filter_cong) (use top e(1) under_refl in auto)
    moreover have "(if under f p \<and> p \<noteq> f then f else p) = p" if "p \<in> set ch" for p using top e(1) that by auto
    ultimately show ?thesis by (auto simp: narrowed_def intro!: map_idI)
  qed
  show n': "normal (filter (\<lambda>p. under p f) ch, filter (\<lambda>p. under p f) sk)"
  proof -
    have "\<exists>c\<in>set ch. under c f \<and> under s c \<and> s \<noteq> c" if "s \<in> set sk" "under s f" for s
    proof -
      have "\<exists>c\<in>set ch. under s c \<and> s \<noteq> c" using n that(1) by (simp add: normal_def)
      then obtain c where c: "c \<in> set ch" "under s c" "s \<noteq> c" by blast
      then have "under c f \<or> under f c" using under_comparable [OF c(2) that(2)] e by blast
      then have "under c f" using top e(1) c(1) under_refl by auto
      then show ?thesis using c by blast
    qed
    then show ?thesis by (rule filter_normal [OF n])
  qed
  have sk: "filter (\<lambda>p. p = f \<or> under p f \<or> list_ex (under p) (filter (\<lambda>p. under p f) ch)) sk = filter (\<lambda>p. under p f) sk"
    by (rule filter_cong) (use under_trans e under_refl in \<open>auto simp: list_ex_iff\<close>)
  have "text0 (Some f) \<noteq> []" "f \<noteq> []" using f(1) by (auto simp: text0_def clean_path_def)
  then show "paths_for_scope (ch, sk) (Some f) = (filter (\<lambda>p. under p f) ch, filter (\<lambda>p. under p f) sk)"
    using normal_fixed [OF n'] unfolding paths_for_scope_def Let_def prod.case pre nar sk by simp
qed

text \<open>C17: the plan of a copy that follows the backup of one host sends a path exactly when it is ticked and lies in the
  folder of that host; the plan of a whole copy sends exactly the ticked paths.\<close>

theorem copy_sends_selection:
  assumes "normal sel" and "clean_path f" and "slash \<notin> set f" and "strip f = f" and "q \<noteq> []"
  shows "(sent (sync_plan (paths_for_scope sel (Some f))) q \<longleftrightarrow> included sel q \<and> under q f)
    \<and> (sent (sync_plan (paths_for_scope sel None)) q \<longleftrightarrow> included sel q)"
proof -
  obtain ch sk where sel: "sel = (ch, sk)" by fastforce
  have e: "\<And>p. p \<in> set ch \<union> set sk \<Longrightarrow> endless p" "endless f" using normal_endless assms(1,2) clean_endless sel by blast+
  have cmp: "under c f" if "under q c" "under q f" "c \<in> set ch \<union> set sk" for c
  proof -
    have "under c f \<or> under f c" using under_comparable [OF that(1,2)] e that(3) by blast
    then show ?thesis using assms(3) e that(3) by (auto simp: under_def startswith_def rslash_endless prefix_def)
  qed
  have up: "under q f" if "under q c" "under c f" "c \<in> set ch" for c using under_trans [OF that(1,2)] e that(3) by blast
  have "sent (sync_plan (paths_for_scope sel (Some f))) q \<longleftrightarrow> included (paths_for_scope sel (Some f)) q"
    using plan_sends assms(5) scope_keeps [OF assms(1) [unfolded sel] assms(2-4)] sel by metis
  also have "\<dots> \<longleftrightarrow> included sel q \<and> under q f"
    using scope_keeps(1) [OF assms(1) [unfolded sel] assms(2-4)] sel cmp up by (auto simp: included_iff)
  finally have "sent (sync_plan (paths_for_scope sel (Some f))) q \<longleftrightarrow> included sel q \<and> under q f" .
  moreover have "sent (sync_plan (paths_for_scope sel None)) q \<longleftrightarrow> included sel q"
    using plan_sends assms(1,5) sel by (simp add: paths_for_scope_def text0_def)
  ultimately show ?thesis by simp
qed

theorem copy_sends_selection_witness:
  "sent (sync_plan (paths_for_scope ([''pi'', ''nas/db''], [''pi/tmp'']) (Some ''pi''))) ''pi/home/x''
   \<and> \<not> sent (sync_plan (paths_for_scope ([''pi'', ''nas/db''], [''pi/tmp'']) (Some ''pi''))) ''pi/tmp/x''
   \<and> \<not> sent (sync_plan (paths_for_scope ([''pi'', ''nas/db''], [''pi/tmp'']) (Some ''pi''))) ''nas/db/x''"
proof -
  have n: "normal ([''pi'', ''nas/db''], [''pi/tmp''])" "clean_path ''pi''" "slash \<notin> set ''pi''" "strip ''pi'' = ''pi''" by code_simp+
  have "included ([''pi'', ''nas/db''], [''pi/tmp'']) ''pi/home/x''" "\<not> included ([''pi'', ''nas/db''], [''pi/tmp'']) ''pi/tmp/x''"
    "under ''pi/home/x'' ''pi''" "\<not> under ''nas/db/x'' ''pi''" by code_simp+
  then show ?thesis using copy_sends_selection [OF n] by simp
qed

text \<open>The exclusions on the command line: a name with a dot in it becomes the pattern of a file, any other the pattern of
  what is inside a folder, whatever the path is.\<close>

lemma excludes_written:
  "concat (map exclude_args [''cache'', ''Makefile'', ''site.d'']) =
     [''--exclude'', ''cache/**'', ''--exclude'', ''Makefile/**'', ''--exclude'', ''site.d'']"
  by code_simp

end
