(* ===== verification/CopyQueue.thy ===== *)
theory CopyQueue
  imports CopySelection MoveTasks "HOL-Library.AList"
begin

text \<open>
  The jobs that copy the backup drive (\<open>app/services/backup_replicate.py\<close>, the grouping of direct hosts in
  \<open>backup_direct.py\<close>, the entry of the scheduler in \<open>scheduler.py\<close>): one row of type \<open>backup_replicate\<close> copies the folder
  tree, pushes the direct hosts or copies one archive of PiHerder to one destination. The state has the tables of the
  queue, the destinations and the hosts with their backup columns.
\<close>

section \<open>Rows\<close>

record copy_dest =
  cd_id :: int
  cd_name :: string
  cd_provider :: string
  cd_enabled :: bool
  cd_config :: column
  cd_selection :: column
  cd_credentials :: "string option"
  cd_after_host :: bool
  cd_schedule :: "string option"

record copy_host =
  ch_id :: int
  ch_hostname :: string
  ch_folder :: "string option"
  ch_backup_on :: bool
  ch_direct :: bool
  ch_targets :: column

record copy_rows =
  cs_db :: db
  cs_dests :: "copy_dest list"
  cs_hosts :: "copy_host list"
  cs_next_dest :: int
  cs_alerts :: "(int \<times> string \<times> string) list"

section \<open>Destinations\<close>

definition SELECTABLE :: "string list" where
  "SELECTABLE = [''drive'', ''smb'', ''onedrive'']"

definition normalize_provider :: "string option \<Rightarrow> exc + string" where
  "normalize_provider v = (let p = lower (strip (if text0 v \<noteq> [] then text0 v else ''drive'')) in
     if p \<in> set SELECTABLE then Inr p else Inl (ValueError ''provider''))"

definition destination_name :: "string \<Rightarrow> string" where
  "destination_name provider = (if provider = ''smb'' then ''LAN NAS / SMB''
     else if provider = ''onedrive'' then ''OneDrive'' else ''Google Drive'')"

definition credentials_saved :: "copy_dest \<Rightarrow> bool" where
  "credentials_saved d = (strip (text0 (cd_credentials d)) \<noteq> [])"

definition copies_herder_backup :: "copy_dest \<Rightarrow> bool" where
  "copies_herder_backup d = truthy (dget0 (load_dict (cd_config d)) ''copy_herder_backup'')"

definition has_saved_destination :: "copy_dest \<Rightarrow> exc + bool" where
  "has_saved_destination d =
     (let cfg = load_dict (cd_config d);
          kept = (\<lambda>k. strip (py_str (jor (dget0 cfg k) (JStr []))) \<noteq> []) in
      if credentials_saved d \<or> strip (text0 (cd_schedule d)) \<noteq> [] \<or> cd_after_host d
         \<or> list_ex kept [''host'', ''share'', ''oauth_client_id'', ''oauth_client_secret_encrypted'']
      then Inr True
      else rbind (parse_selection (cd_selection d)) (\<lambda>(checked, skipped). Inr (checked \<noteq> [] \<or> skipped \<noteq> [])))"

definition find_destination :: "copy_dest list \<Rightarrow> string \<Rightarrow> copy_dest option" where
  "find_destination ds provider = (let key = lower (strip provider) in
     if key \<notin> set SELECTABLE then None else find (\<lambda>d. cd_provider d = key) ds)"

definition get_or_create_dest :: "string option \<Rightarrow> copy_rows \<Rightarrow> copy_rows \<times> (exc + copy_dest)" where
  "get_or_create_dest provider s = (case normalize_provider provider of
     Inl x \<Rightarrow> (s, Inl x)
   | Inr p \<Rightarrow> (case find_destination (cs_dests s) p of
       Some d \<Rightarrow> (s, Inr d)
     | None \<Rightarrow> let d = \<lparr>cd_id = cs_next_dest s, cd_name = destination_name p, cd_provider = p, cd_enabled = True, cd_config = Absent,
           cd_selection = selection_json ([], []), cd_credentials = None, cd_after_host = False, cd_schedule = None\<rparr> in
         (s\<lparr>cs_dests := cs_dests s @ [d], cs_next_dest := cs_next_dest s + 1\<rparr>, Inr d)))"

definition remove_destination :: "env \<Rightarrow> string option \<Rightarrow> string option \<Rightarrow> copy_rows \<Rightarrow> copy_rows \<times> (exc + int list)" where
  "remove_destination e provider confirm s =
     (if e_demo e then (s, Inl (RuntimeError (e_error_text e)))
      else if strip (text0 confirm) \<noteq> ''remove'' then (s, Inl (ValueError ''confirm''))
      else case normalize_provider provider of
        Inl x \<Rightarrow> (s, Inl x)
      | Inr key \<Rightarrow> let rows = filter (\<lambda>d. cd_provider d = key) (cs_dests s) in
          if rows = [] then (s, Inl (ValueError ''missing''))
          else (s\<lparr>cs_dests := filter (\<lambda>d. cd_provider d \<noteq> key) (cs_dests s)\<rparr>, Inr (map cd_id (filter (\<lambda>d. cd_id d \<noteq> 0) rows))))"

section \<open>Direct hosts\<close>

definition host_folder_name :: "copy_host \<Rightarrow> string" where
  "host_folder_name h = strip (map (\<lambda>c. if c = slash then CHR ''_'' else c)
     (if text0 (ch_folder h) \<noteq> [] then text0 (ch_folder h) else ch_hostname h))"

definition DIRECT_PROVIDERS :: "string list" where
  "DIRECT_PROVIDERS = [''drive'', ''onedrive'', ''smb'']"

definition selected_direct_providers :: "json list \<Rightarrow> string list" where
  "selected_direct_providers vs = foldl (\<lambda>out v. let p = lower (strip (py_str (jor v (JStr [])))) in
     if p \<in> set DIRECT_PROVIDERS \<and> p \<notin> set out then out @ [p] else out) [] vs"

definition parse_direct_targets :: "column \<Rightarrow> string list" where
  "parse_direct_targets c = (case c of Text (JList vs) \<Rightarrow> selected_direct_providers vs | _ \<Rightarrow> [])"

definition index_rows :: "copy_host list \<Rightarrow> (string \<times> copy_host) list" where
  "index_rows rows = foldl (\<lambda>ix h. let f = host_folder_name h in
     if ch_direct h \<and> ch_backup_on h \<and> f \<noteq> [] then AList.update f h ix else ix) [] rows"

definition top_folder :: "string \<Rightarrow> string" where
  "top_folder rel = takeWhile (\<lambda>c. c \<noteq> slash) rel"

text \<open>The folders of the direct hosts, in the order of their first path, with their paths.\<close>

definition partition_checked :: "string list \<Rightarrow> copy_host list \<Rightarrow> string list \<times> (copy_host \<times> string list) list" where
  "partition_checked checked hosts =
     (let ix = index_rows hosts; direct = (\<lambda>rel. map_of ix (top_folder rel) \<noteq> None);
          order = foldl (\<lambda>out rel. if top_folder rel \<in> set out then out else out @ [top_folder rel]) [] (filter direct checked) in
      (filter (\<lambda>rel. \<not> direct rel) checked,
       map (\<lambda>f. (the (map_of ix f), filter (\<lambda>rel. top_folder rel = f) checked)) order))"

definition groups_for_destination :: "copy_dest \<Rightarrow> (copy_host \<times> string list) list \<Rightarrow> (copy_host \<times> string list) list" where
  "groups_for_destination d groups = (let p = lower (strip (cd_provider d)) in
     filter (\<lambda>(h, rels). p \<noteq> [] \<and> p \<in> set (parse_direct_targets (ch_targets h))) groups)"

definition scoped_parts ::
    "copy_host list \<Rightarrow> copy_dest \<Rightarrow> string option \<Rightarrow> exc + string list \<times> (copy_host \<times> string list) list \<times> string list" where
  "scoped_parts hosts d scope = rbind (parse_selection (cd_selection d)) (\<lambda>sel.
     case paths_for_scope sel scope of (checked, skipped) \<Rightarrow>
     case partition_checked checked hosts of (local, groups) \<Rightarrow> Inr (local, groups_for_destination d groups, skipped))"

section \<open>Slots\<close>

definition REPLICATE :: string where
  "REPLICATE = ''backup_replicate''"

text \<open>The active copies, the newest first, and the first that meets a test that can raise.\<close>

definition active_copies :: "db \<Rightarrow> job list" where
  "active_copies d = sort_key (\<lambda>j. - j_created_at j) (filter (\<lambda>j. j_job_type j = REPLICATE \<and> active j) (db_jobs d))"

fun first_match :: "('a \<Rightarrow> exc + bool) \<Rightarrow> 'a list \<Rightarrow> exc + 'a option" where
  "first_match p [] = Inr None"
| "first_match p (x # xs) = rbind (p x) (\<lambda>b. if b then Inr (Some x) else first_match p xs)"

definition archive_text :: "dict \<Rightarrow> string" where
  "archive_text data = py_str (jor (dget0 data ''herder_archive'') (JStr []))"

definition is_direct :: "dict \<Rightarrow> bool" where
  "is_direct data = (dget data ''direct_host'' = Some (JBool True))"

definition is_folder_hop :: "job \<Rightarrow> bool" where
  "is_folder_hop j = (let data = load_dict (j_details j) in strip (archive_text data) = [] \<and> \<not> is_direct data)"

definition goes_to :: "int \<Rightarrow> dict \<Rightarrow> exc + bool" where
  "goes_to did data = rbind (payload_int data ''destination_id'') (\<lambda>n. Inr (n = did))"

definition active_replicate :: "db \<Rightarrow> int \<Rightarrow> exc + job option" where
  "active_replicate d did = first_match (\<lambda>j. let data = load_dict (j_details j) in
     if strip (archive_text data) \<noteq> [] then Inr False else goes_to did data) (active_copies d)"

definition active_direct :: "db \<Rightarrow> int \<Rightarrow> exc + job option" where
  "active_direct d did = first_match (\<lambda>j. let data = load_dict (j_details j) in
     if \<not> is_direct data then Inr False else goes_to did data) (active_copies d)"

definition active_herder_copy :: "db \<Rightarrow> int \<Rightarrow> string \<Rightarrow> exc + job option" where
  "active_herder_copy d did name = first_match (\<lambda>j. case loads (j_details j) of
       Some (JObj data) \<Rightarrow> rbind (goes_to did data) (\<lambda>b. Inr (b \<and> archive_text data = name))
     | None \<Rightarrow> rbind (goes_to did []) (\<lambda>b. Inr (b \<and> name = []))
     | Some v \<Rightarrow> Inl AttributeError) (active_copies d)"

section \<open>New rows\<close>

text \<open>A copy that is refused is a row in memory only.\<close>

datatype copy_answer = RefusedCopy | CopyJob int

definition queue_copy_message :: "copy_dest \<Rightarrow> bool \<Rightarrow> string" where
  "queue_copy_message d direct =
     (let p = cd_provider d in
      (if direct then if p = ''smb'' then ''Direct copy to the LAN share queued'' else if p = ''onedrive'' then ''Direct copy to OneDrive queued''
         else ''Direct copy to Drive queued''
       else if p = ''smb'' then ''SMB copy queued'' else if p = ''onedrive'' then ''OneDrive copy queued'' else ''Drive copy queued'') @ dots)"

text \<open>\<open>ya29\.[0-9A-Za-z_\-]+\<close>, replaced from left to right.\<close>

definition token_char :: "char \<Rightarrow> bool" where
  "token_char c = (let n = of_char c :: nat in
     is_digit c \<or> (65 \<le> n \<and> n \<le> 90) \<or> (97 \<le> n \<and> n \<le> 122) \<or> c = CHR ''_'' \<or> c = CHR ''-'')"

definition token_len :: "string \<Rightarrow> nat" where
  "token_len s = (let run = takeWhile token_char (drop 5 s) in
     if startswith s ''ya29.'' \<and> run \<noteq> [] then 5 + length run else 0)"

fun scrub_from :: "nat \<Rightarrow> string \<Rightarrow> string" where
  "scrub_from k [] = []"
| "scrub_from (Suc k) (c # cs) = scrub_from k cs"
| "scrub_from 0 (c # cs) = (let n = token_len (c # cs) in
     if n \<noteq> 0 then ''[redacted]'' @ scrub_from (n - 1) cs else c # scrub_from 0 cs)"

definition scrub_job_text :: "string \<Rightarrow> string" where
  "scrub_job_text s = scrub_from 0 s"

definition unstarted_details :: "copy_dest \<Rightarrow> string \<Rightarrow> bool \<Rightarrow> dict" where
  "unstarted_details d message direct =
     [(''error'', JStr (take 500 (scrub_job_text message))), (''destination_id'', JInt (cd_id d)), (''done'', JBool True)]
     @ (if direct then [(''direct_host'', JBool True)] else [])"

definition end_unstarted :: "env \<Rightarrow> dict \<Rightarrow> job \<Rightarrow> job" where
  "end_unstarted e data j = j\<lparr>j_status := ''failed'', j_finished_at := Some (e_now e), j_details := Text (JObj data)\<rparr>"

text \<open>The row is committed, then published; the demo and a broker that raises fail it.\<close>

definition publish_copy :: "env \<Rightarrow> int \<Rightarrow> (string \<Rightarrow> dict) \<Rightarrow> db \<Rightarrow> db" where
  "publish_copy e i failing d =
     (if e_demo e then upd_job i (end_unstarted e (failing ''Demo does not upload'')) d
      else case e_publish e of
        Inl err \<Rightarrow> upd_job i (end_unstarted e (failing (take 500 err))) d
      | Inr tid \<Rightarrow> upd_job i (set_task_id tid) (emit (Published ''backup_replicate'' i JNull) d))"

definition copy_extra :: "env \<Rightarrow> copy_dest \<Rightarrow> string option \<Rightarrow> int option \<Rightarrow> bool \<Rightarrow> bool \<Rightarrow> dict" where
  "copy_extra e d scope uid direct follow =
     [(''destination_id'', JInt (cd_id d)), (''scope'', jopt JStr scope), (''user_id'', jopt JInt uid), (''queued_at'', JStamp (e_now e))]
     @ (if direct then [(''direct_host'', JBool True)] else []) @ (if follow then [(''direct_after'', JBool True)] else [])"

definition create_replicate_job ::
    "env \<Rightarrow> copy_dest \<Rightarrow> int option \<Rightarrow> string option \<Rightarrow> int option \<Rightarrow> bool \<Rightarrow> bool \<Rightarrow> db \<Rightarrow> db \<times> (exc + copy_answer)" where
  "create_replicate_job e d sid scope uid direct follow tables =
     (let i = db_next_job tables;
          d1 = add_job e sid REPLICATE (Text (JObj (initial_job_details e (queue_copy_message d direct)
            (copy_extra e d scope uid direct follow)))) tables in
      (publish_copy e i (\<lambda>m. unstarted_details d m direct) d1, Inr (CopyJob i)))"

definition enqueue_direct_followup ::
    "env \<Rightarrow> copy_host list \<Rightarrow> copy_dest \<Rightarrow> string option \<Rightarrow> int option \<Rightarrow> db \<Rightarrow> db \<times> (exc + copy_answer option)" where
  "enqueue_direct_followup e hosts d scope uid tables =
     (if \<not> credentials_saved d then (tables, Inr None)
      else case scoped_parts hosts d scope of
        Inl x \<Rightarrow> (tables, Inl x)
      | Inr (local, groups, skipped) \<Rightarrow>
          if groups = [] then (tables, Inr None)
          else case active_direct tables (cd_id d) of
            Inl x \<Rightarrow> (tables, Inl x)
          | Inr (Some j) \<Rightarrow> (tables, Inr (Some (CopyJob (j_id j))))
          | Inr None \<Rightarrow> (case create_replicate_job e d None scope uid True False tables of
              (t, r) \<Rightarrow> (t, rbind r (\<lambda>a. Inr (Some a)))))"

definition enqueue_copy ::
    "env \<Rightarrow> copy_host list \<Rightarrow> copy_dest \<Rightarrow> int option \<Rightarrow> string option \<Rightarrow> int option \<Rightarrow> db \<Rightarrow> db \<times> (exc + copy_answer)" where
  "enqueue_copy e hosts d sid scope uid tables =
     (if \<not> credentials_saved d then (tables, Inr RefusedCopy)
      else case rbind (active_replicate tables (cd_id d)) (\<lambda>a. rbind (scoped_parts hosts d scope) (\<lambda>p. Inr (a, p))) of
        Inl x \<Rightarrow> (tables, Inl x)
      | Inr (Some j, local, groups, skipped) \<Rightarrow>
          if is_folder_hop j \<and> groups \<noteq> []
          then (case enqueue_direct_followup e hosts d scope uid tables of
              (t, r) \<Rightarrow> (t, rbind r (\<lambda>a. Inr (case a of Some v \<Rightarrow> v | None \<Rightarrow> CopyJob (j_id j)))))
          else (tables, Inr (CopyJob (j_id j)))
      | Inr (None, local, groups, skipped) \<Rightarrow>
          create_replicate_job e d sid scope uid (groups \<noteq> [] \<and> local = []) (groups \<noteq> [] \<and> local \<noteq> []) tables)"

section \<open>Archives of PiHerder\<close>

text \<open>\<open>^piherder-.+\.(tar\.gz|tgz|tar)$\<close> without regard to case, on a name that is one path component.\<close>

definition archive_name :: "string \<Rightarrow> bool" where
  "archive_name s = (let rest = drop 9 (lower s) in
     startswith (lower s) ''piherder-'' \<and> CHR 0x0A \<notin> set rest
     \<and> list_ex (\<lambda>x. endswith rest x \<and> length x < length rest) [''.tar.gz'', ''.tgz'', ''.tar''])"

definition is_safe_archive_basename :: "string \<Rightarrow> bool" where
  "is_safe_archive_basename name = (let raw = strip name in
     raw \<noteq> [] \<and> slash \<notin> set raw \<and> raw \<noteq> ''.'' \<and> \<not> contains raw ''..'' \<and> archive_name raw)"

definition archive_extra :: "env \<Rightarrow> copy_dest \<Rightarrow> string \<Rightarrow> int option \<Rightarrow> dict" where
  "archive_extra e d name uid =
     [(''destination_id'', JInt (cd_id d)), (''herder_archive'', JStr name), (''user_id'', jopt JInt uid), (''queued_at'', JStamp (e_now e))]"

definition archive_message :: "copy_dest \<Rightarrow> string" where
  "archive_message d = (let p = cd_provider d in
     (if p = ''smb'' then ''Self-backup copy to the LAN share queued'' else if p = ''onedrive'' then ''Self-backup copy to OneDrive queued''
      else ''Self-backup copy to Drive queued'') @ dots)"

definition archive_unstarted :: "env \<Rightarrow> copy_dest \<Rightarrow> string \<Rightarrow> string \<Rightarrow> dict" where
  "archive_unstarted e d name message =
     [(''error'', JStr message), (''destination_id'', JInt (cd_id d)), (''herder_archive'', JStr name)]
     @ (if e_demo e then [(''done'', JBool True)] else [])"

definition enqueue_herder_archive :: "env \<Rightarrow> copy_dest \<Rightarrow> string \<Rightarrow> int option \<Rightarrow> db \<Rightarrow> db \<times> (exc + copy_answer)" where
  "enqueue_herder_archive e d archive uid tables =
     (let name = path_name archive in
      if \<not> credentials_saved d \<or> \<not> is_safe_archive_basename name then (tables, Inr RefusedCopy)
      else case active_herder_copy tables (cd_id d) name of
        Inl x \<Rightarrow> (tables, Inl x)
      | Inr (Some j) \<Rightarrow> (tables, Inr (CopyJob (j_id j)))
      | Inr None \<Rightarrow>
          let i = db_next_job tables;
              d1 = add_job e None REPLICATE (Text (JObj (initial_job_details e (archive_message d) (archive_extra e d name uid)))) tables in
          (publish_copy e i (archive_unstarted e d name) d1, Inr (CopyJob i)))"

section \<open>After a backup, and on schedule\<close>

text \<open>One destination after the other; the first exception ends it, what was committed stays.\<close>

fun each_dest :: "(copy_dest \<Rightarrow> db \<Rightarrow> db \<times> (exc + copy_answer)) \<Rightarrow> copy_dest list \<Rightarrow> db \<Rightarrow> db \<times> (exc + copy_answer list)" where
  "each_dest f [] tables = (tables, Inr [])"
| "each_dest f (d # ds) tables = andthen (f d tables) (\<lambda>t a. andthen (each_dest f ds t) (\<lambda>t' as. (t', Inr (a # as))))"

definition enqueue_after_herder_backup :: "env \<Rightarrow> string \<Rightarrow> copy_rows \<Rightarrow> db \<times> (exc + copy_answer list)" where
  "enqueue_after_herder_backup e archive s =
     (let name = path_name archive in
      if \<not> is_safe_archive_basename name then (cs_db s, Inr [])
      else each_dest (\<lambda>d. enqueue_herder_archive e d name None)
        (filter (\<lambda>d. cd_enabled d \<and> credentials_saved d \<and> copies_herder_backup d) (cs_dests s)) (cs_db s))"

definition copy_after_backup :: "env \<Rightarrow> copy_host list \<Rightarrow> copy_host \<Rightarrow> string \<Rightarrow> copy_dest \<Rightarrow> db \<Rightarrow> db \<times> (exc + copy_answer list)" where
  "copy_after_backup e hosts h folder d tables = (case parse_selection (cd_selection d) of
     Inl x \<Rightarrow> (tables, Inl x)
   | Inr sel \<Rightarrow> if fst (paths_for_scope sel (Some folder)) = [] then (tables, Inr [])
       else andthen (enqueue_copy e hosts d (Some (ch_id h)) (Some folder) None tables) (\<lambda>t a. (t, Inr [a])))"

fun each_copy :: "(copy_dest \<Rightarrow> db \<Rightarrow> db \<times> (exc + copy_answer list)) \<Rightarrow> copy_dest list \<Rightarrow> db \<Rightarrow> db \<times> (exc + unit)" where
  "each_copy f [] tables = (tables, Inr ())"
| "each_copy f (d # ds) tables = andthen (f d tables) (\<lambda>t _. each_copy f ds t)"

definition enqueue_after_host_backup :: "env \<Rightarrow> copy_host \<Rightarrow> copy_rows \<Rightarrow> db \<times> (exc + unit)" where
  "enqueue_after_host_backup e h s =
     (let folder = host_folder_name h in
      if ch_direct h \<or> folder = [] then (cs_db s, Inr ())
      else each_copy (copy_after_backup e (cs_hosts s) h folder)
        (filter (\<lambda>d. cd_enabled d \<and> cd_after_host d \<and> credentials_saved d) (cs_dests s)) (cs_db s))"

text \<open>\<open>schedule_backup_copy_job\<close>: an exception is logged.\<close>

definition schedule_backup_copy_job :: "env \<Rightarrow> int \<Rightarrow> copy_rows \<Rightarrow> db" where
  "schedule_backup_copy_job e did s = (case get_row cd_id did (cs_dests s) of
     None \<Rightarrow> cs_db s
   | Some d \<Rightarrow> if cd_enabled d \<and> credentials_saved d \<and> strip (text0 (cd_schedule d)) \<noteq> []
       then fst (enqueue_copy e (cs_hosts s) d None None None (cs_db s)) else cs_db s)"

end
