(* ===== verification/CopyRun.thy ===== *)
theory CopyRun
  imports CopyQueue
begin

text \<open>
  What a copy job does (\<open>execute\<close>, \<open>execute_direct\<close>, \<open>execute_herder_archive\<close> and \<open>pull_rel\<close> in
  \<open>app/services/backup_replicate.py\<close>) and its Celery task with the failure signal (\<open>replicate_backup\<close>,
  \<open>fail_replicate_job\<close> in \<open>app/tasks.py\<close>). rclone, the backup drive and the stored sign-ins answer through a parameter.
\<close>

section \<open>Outside\<close>

datatype path_kind = Missing | Folder string | File string

text \<open>
  \<open>ce_look\<close>: \<open>resolve_under_root\<close> with the kind of what is there; \<open>ce_resolve\<close>: the same path, or none when it leaves the
  backup root; \<open>ce_mkdir\<close>: \<open>mkdir\<close> with its parents; \<open>ce_secrets\<close>: the client secret and the refresh token of a
  stored sign-in, \<open>ce_password\<close> the password of a share (empty when it cannot be read); \<open>ce_config\<close>: a temporary rclone
  configuration, \<open>ce_obscured\<close> the password line in it; \<open>ce_run\<close>: exit status, output and error output of a command, or
  \<open>None\<close> when there is no rclone; \<open>ce_push\<close>: \<open>push_groups\<close>; \<open>ce_archive\<close>: \<open>resolve_archive_in_roots\<close>. Exceptions are texts.
\<close>

record 'w copy_env =
  ce_look :: "string \<Rightarrow> ('w, string, path_kind) act"
  ce_resolve :: "string \<Rightarrow> string option"
  ce_mkdir :: "string \<Rightarrow> ('w, string, unit) act"
  ce_secrets :: "copy_dest \<Rightarrow> string + (string \<times> string)"
  ce_password :: "copy_dest \<Rightarrow> string"
  ce_config :: "copy_dest \<Rightarrow> ('w, string, string) act"
  ce_obscured :: "'w \<Rightarrow> string \<Rightarrow> string"
  ce_discard :: "string \<Rightarrow> 'w \<Rightarrow> 'w"
  ce_run :: "string list \<Rightarrow> ('w, string, (int \<times> string \<times> string) option) act"
  ce_push :: "copy_dest \<Rightarrow> (copy_host \<times> string list) list \<Rightarrow> string list \<Rightarrow> ('w, string, string list \<times> string list) act"
  ce_archive :: "string \<Rightarrow> (string \<times> string) option"

section \<open>Names of a share\<close>

definition single_line :: "string \<Rightarrow> string \<Rightarrow> bool \<Rightarrow> nat \<Rightarrow> exc + string" where
  "single_line v code required max_len = (let text = strip v in
     if text = [] then (if required then Inl (ValueError code) else Inr [])
     else if max_len < length text \<or> list_ex (\<lambda>c. (of_char c :: nat) < 32) text then Inl (ValueError code) else Inr text)"

definition clean_smb_host :: "string \<Rightarrow> exc + string" where
  "clean_smb_host v = rbind (single_line v ''host'' True 253) (\<lambda>text.
     if list_ex py_space text \<or> slash \<in> set text \<or> backslash \<in> set text \<or> contains text ''://''
     then Inl (ValueError ''host'') else Inr text)"

definition clean_smb_share :: "string \<Rightarrow> exc + string" where
  "clean_smb_share v = rbind (single_line v ''share'' True 80) (\<lambda>text.
     if slash \<in> set text \<or> backslash \<in> set text \<or> CHR '':'' \<in> set text \<or> CHR '' '' \<in> set text \<or> text \<in> set [''.'', ''..'']
     then Inl (ValueError ''share'') else Inr text)"

definition clean_smb_path :: "string \<Rightarrow> exc + string" where
  "clean_smb_path v = (let text = strip v in
     if text = [] then Inr []
     else case clean_rel text of
       Inl x \<Rightarrow> Inl (ValueError ''path'')
     | Inr p \<Rightarrow> if p = [] \<or> 200 < length p then Inl (ValueError ''path'') else Inr p)"

definition clean_smb_user :: "string \<Rightarrow> exc + string" where
  "clean_smb_user v = rbind (single_line v ''user'' True 128) (\<lambda>text.
     if backslash \<in> set text \<or> slash \<in> set text then Inl (ValueError ''user'') else Inr text)"

definition clean_smb_domain :: "string \<Rightarrow> exc + string" where
  "clean_smb_domain v = rbind (single_line v ''domain'' False 64) (\<lambda>text.
     if text \<noteq> [] \<and> (list_ex py_space text \<or> slash \<in> set text \<or> backslash \<in> set text \<or> CHR '':'' \<in> set text)
     then Inl (ValueError ''domain'') else Inr text)"

definition cfg_text :: "dict \<Rightarrow> string \<Rightarrow> string" where
  "cfg_text cfg k = py_str (jor (dget0 cfg k) (JStr []))"

definition smb_remote_root :: "copy_dest \<Rightarrow> exc + string" where
  "smb_remote_root d = (let cfg = load_dict (cd_config d) in
     rbind (clean_smb_share (cfg_text cfg ''share'')) (\<lambda>share.
     rbind (clean_smb_path (cfg_text cfg ''remote_dir'')) (\<lambda>sub. Inr (if sub \<noteq> [] then share @ ''/'' @ sub else share))))"

definition strip_slashes :: "string \<Rightarrow> string" where
  "strip_slashes s = rslash (lstrip_chars (\<lambda>c. c = slash) s)"

text \<open>\<open>_remote_dir\<close>; a configuration that is a value with no \<open>get\<close> raises.\<close>

definition remote_dir :: "copy_dest \<Rightarrow> exc + string" where
  "remote_dir d =
     (let named = (\<lambda>cfg. let nm = strip_slashes (strip (py_str (jor (dget0 cfg ''remote_dir'') (JStr ''PiHerder'')))) in
            if nm \<noteq> [] then nm else ''PiHerder'') in
      case loads (cd_config d) of
        Some (JObj cfg) \<Rightarrow> Inr (named cfg)
      | Some v \<Rightarrow> if truthy v then Inl AttributeError else Inr (named [])
      | None \<Rightarrow> Inr (named []))"

definition remote_root_for :: "copy_dest \<Rightarrow> exc + string" where
  "remote_root_for d = (if lower (strip (cd_provider d)) = ''smb'' then smb_remote_root d else remote_dir d)"

definition herder_archive_remote :: "copy_dest \<Rightarrow> string \<Rightarrow> exc + string" where
  "herder_archive_remote d nm = rbind (if cd_provider d = ''smb'' then smb_remote_root d else remote_dir d)
     (\<lambda>root. Inr (root @ ''/herder/'' @ path_name nm))"

definition clean_drive_folder :: "string \<Rightarrow> exc + string" where
  "clean_drive_folder v = (let nm = strip_slashes (strip v);
       parts = filter (\<lambda>p. p \<noteq> [] \<and> p \<noteq> ''.'') (split_on slash nm) in
     if nm = [] then Inr ''PiHerder''
     else if ''..'' \<in> set parts then Inl (ValueError ''folder'')
     else Inr (if parts = [] then ''PiHerder'' else join ''/'' parts))"

section \<open>A run of rclone\<close>

definition redact :: "string \<Rightarrow> string \<Rightarrow> string" where
  "redact text secret = (if text = [] \<or> secret = [] then text else replace_all text secret ''[redacted]'')"

definition rclone_text :: "string \<Rightarrow> (int \<times> string \<times> string) option \<Rightarrow> int \<times> string" where
  "rclone_text secret r = (case r of
     None \<Rightarrow> (127, ''rclone is not installed in this image'')
   | Some (rc, out, err) \<Rightarrow> let text = strip (if err \<noteq> [] then err else out);
       shown = (if contains (lower text) ''token'' \<and> contains text ''ya29'' then ''rclone failed (token redacted)'' else text) in
     (rc, last_n 2000 (scrub_job_text (redact shown secret))))"

definition run_rclone :: "'w copy_env \<Rightarrow> string list \<Rightarrow> string \<Rightarrow> ('w, string, int \<times> string) act" where
  "run_rclone c cmd secret = seq (ce_run c cmd) (\<lambda>r. ret (rclone_text secret r))"

definition failed_copy :: "string \<Rightarrow> dict" where
  "failed_copy m = [(''ok'', JBool False), (''error'', JStr m)]"

definition finish_copy :: "string list \<Rightarrow> string list \<Rightarrow> dict" where
  "finish_copy copied errors =
     (if errors \<noteq> [] \<and> copied = [] then failed_copy (hd errors) @ [(''errors'', JList (map JStr errors))]
      else if errors \<noteq> [] then failed_copy (hd errors) @ [(''copied'', JList (map JStr copied)), (''errors'', JList (map JStr errors))]
      else [(''ok'', JBool True), (''copied'', JList (map JStr copied))])"

definition raised_copy :: "string \<Rightarrow> dict" where
  "raised_copy m = failed_copy m @ [(''errors'', JList [JStr m])]"

definition or_failed :: "string \<Rightarrow> string" where
  "or_failed err = (if err \<noteq> [] then err else ''rclone failed'')"

text \<open>One path of the plan: the paths copied and the errors so far.\<close>

definition copy_step ::
    "'w copy_env \<Rightarrow> string \<Rightarrow> string \<Rightarrow> bool \<Rightarrow> string \<Rightarrow> (string \<Rightarrow> string) \<Rightarrow> (string \<Rightarrow> string)
     \<Rightarrow> string \<times> string list \<Rightarrow> string list \<times> string list \<Rightarrow> ('w, string, string list \<times> string list) act" where
  "copy_step c cfg root trash secret polish line part acc = (case (part, acc) of ((rel, excludes), (copied, errors)) \<Rightarrow>
     seq (ce_look c rel) (\<lambda>k.
       let remote = root @ ''/'' @ rel;
           run = (\<lambda>cmd. seq (run_rclone c cmd secret) (\<lambda>(rc, err).
             ret (if rc \<noteq> 0 then (copied, errors @ [line (take 500 (rel @ '': '' @ or_failed (polish err)))]) else (copied @ [rel], errors)))) in
       case k of
         Missing \<Rightarrow> ret (copied, errors @ [rel @ '' is not on the backup drive''])
       | Folder p \<Rightarrow> run (rclone_sync_cmd cfg p remote excludes trash)
       | File p \<Rightarrow> run (rclone_copy_file_cmd cfg p remote trash)))"

definition lifted :: "env \<Rightarrow> exc + 'a \<Rightarrow> ('w, string, 'a) act" where
  "lifted e r = (case r of Inl x \<Rightarrow> raise (exc_text e x) | Inr v \<Rightarrow> ret v)"

definition with_config :: "'w copy_env \<Rightarrow> copy_dest \<Rightarrow> (string \<Rightarrow> ('w, string, 'a) act) \<Rightarrow> ('w, string, 'a) act" where
  "with_config c d body = seq (ce_config c d) (\<lambda>cfg. always (body cfg) (touch (ce_discard c cfg) :: ('w, string, unit) act))"

definition nothing_selected :: dict where
  "nothing_selected = failed_copy ''Nothing selected on the backup drive''"

definition demo_upload :: dict where
  "demo_upload = failed_copy ''Demo does not upload''"

definition not_built :: "copy_dest \<Rightarrow> dict" where
  "not_built d = failed_copy (''Provider '' @ cd_provider d @ '' is not built'')"

definition herder_part :: "copy_host list \<Rightarrow> copy_dest \<Rightarrow> string option \<Rightarrow> exc + selection" where
  "herder_part hosts d scope = rbind (parse_selection (cd_selection d)) (\<lambda>sel.
     case paths_for_scope sel scope of (checked, skipped) \<Rightarrow> Inr (fst (partition_checked checked hosts), skipped))"

definition execute_smb :: "env \<Rightarrow> 'w copy_env \<Rightarrow> copy_host list \<Rightarrow> copy_dest \<Rightarrow> string option \<Rightarrow> ('w, exc, dict) act" where
  "execute_smb e c hosts d scope =
     (let secret = ce_password c d in
      catching (seq (lifted e (herder_part hosts d scope)) (\<lambda>sel.
        if fst sel = [] then ret nothing_selected
        else with_config c d (\<lambda>cfg w.
          let obscured = ce_obscured c w cfg in
          seq (lifted e (smb_remote_root d)) (\<lambda>root.
          seq (loop (copy_step c cfg root False secret (\<lambda>t. scrub_job_text (redact t obscured)) (\<lambda>t. scrub_job_text (redact t secret)))
              (sync_plan sel) ([], [])) (\<lambda>(copied, errors). ret (finish_copy copied errors))) w)))
      (\<lambda>m. ret (raised_copy (scrub_job_text (redact (take 500 m) secret)))))"

definition execute_folders :: "env \<Rightarrow> 'w copy_env \<Rightarrow> copy_host list \<Rightarrow> copy_dest \<Rightarrow> string option \<Rightarrow> ('w, exc, dict) act" where
  "execute_folders e c hosts d scope =
     (if e_demo e then ret demo_upload
      else if cd_provider d = ''smb'' then execute_smb e c hosts d scope
      else if cd_provider d \<notin> set [''drive'', ''onedrive''] then ret (not_built d)
      else case herder_part hosts d scope of
        Inl x \<Rightarrow> raise x
      | Inr sel \<Rightarrow>
          if fst sel = [] then ret nothing_selected
          else case ce_secrets c d of
            Inl m \<Rightarrow> ret (raised_copy (scrub_job_text (take 500 m)))
          | Inr (client_secret, refresh) \<Rightarrow>
              catching (with_config c d (\<lambda>cfg. seq (lifted e (remote_dir d)) (\<lambda>root.
                seq (loop (copy_step c cfg root (cd_provider d = ''drive'') client_secret (\<lambda>t. scrub_job_text (redact t refresh)) scrub_job_text)
                  (sync_plan sel) ([], [])) (\<lambda>(copied, errors). ret (finish_copy copied errors)))))
              (\<lambda>m. ret (raised_copy (scrub_job_text (redact (redact (take 500 m) client_secret) refresh)))))"

definition execute_direct :: "env \<Rightarrow> 'w copy_env \<Rightarrow> copy_host list \<Rightarrow> copy_dest \<Rightarrow> string option \<Rightarrow> ('w, exc, dict) act" where
  "execute_direct e c hosts d scope =
     (if e_demo e then ret demo_upload
      else if cd_provider d \<notin> set SELECTABLE then ret (not_built d)
      else case scoped_parts hosts d scope of
        Inl x \<Rightarrow> raise x
      | Inr (local, groups, skipped) \<Rightarrow>
          if groups = [] then ret nothing_selected
          else seq (wrapped RuntimeError (ce_push c d groups skipped)) (\<lambda>(copied, errors).
            ret (finish_copy copied (map (\<lambda>m. take 500 (scrub_job_text m)) errors))))"

text \<open>\<open>_open_destination_rclone\<close>: a configuration with what must be redacted.\<close>

definition open_destination :: "'w copy_env \<Rightarrow> copy_dest \<Rightarrow> ('w, string, string \<times> string \<times> string) act" where
  "open_destination c d =
     (if cd_provider d = ''smb'' then seq (ce_config c d) (\<lambda>cfg. ret (cfg, ce_password c d, []))
      else case ce_secrets c d of
        Inl m \<Rightarrow> raise m
      | Inr (secret, refresh) \<Rightarrow> seq (ce_config c d) (\<lambda>cfg. ret (cfg, secret, refresh)))"

definition execute_herder_archive :: "env \<Rightarrow> 'w copy_env \<Rightarrow> copy_dest \<Rightarrow> string \<Rightarrow> ('w, exc, dict) act" where
  "execute_herder_archive e c d archive =
     (if e_demo e then ret demo_upload
      else if cd_provider d \<notin> set SELECTABLE then ret (not_built d)
      else case ce_archive c (path_name archive) of
        None \<Rightarrow> ret (failed_copy ''That self-backup archive is not on this PiHerder'')
      | Some (path, nm) \<Rightarrow>
          catching (seq (open_destination c d) (\<lambda>(cfg, secret, refresh).
              catching (always (seq (lifted e (herder_archive_remote d nm)) (\<lambda>remote.
                seq (run_rclone c (rclone_copy_file_cmd cfg path remote (cd_provider d = ''drive'')) secret) (\<lambda>(rc, err) w.
                  let err1 = redact err refresh;
                      err2 = (if cd_provider d = ''smb'' then redact err1 (ce_obscured c w cfg) else err1) in
                  ret (if rc \<noteq> 0 then failed_copy (take 500 (or_failed err2))
                    else [(''ok'', JBool True), (''copied'', JList [JStr (''herder/'' @ nm)])]) w)))
                (touch (ce_discard c cfg) :: ('w, string, unit) act))
              (\<lambda>m. ret (failed_copy (redact (redact (take 500 m) secret) refresh)))))
          (\<lambda>m. ret (failed_copy (take 500 m))))"

section \<open>A rejected sign-in\<close>

definition OAUTH_CODES :: "string list" where
  "OAUTH_CODES = [''invalid_grant'', ''invalid_client'', ''unauthorized_client'', ''access_denied'']"

definition SMB_CODES :: "string list" where
  "SMB_CODES = [''NT_STATUS_LOGON_FAILURE'', ''NT_STATUS_WRONG_PASSWORD'', ''NT_STATUS_ACCOUNT_LOCKED_OUT'',
     ''NT_STATUS_ACCOUNT_DISABLED'', ''NT_STATUS_NO_SUCH_USER'']"

definition COPY_AUTH_MARKERS :: "string list" where
  "COPY_AUTH_MARKERS = [''invalid_grant'', ''invalid_client'', ''unauthorized_client'', ''rclone config reconnect'',
     ''did not return the default drive'', ''token has been expired or revoked'', ''invalid username or password'',
     ''nt_status_logon_failure'', ''nt_status_wrong_password'', ''nt_status_account_locked_out'', ''nt_status_account_disabled'',
     ''nt_status_no_such_user'']"

definition copy_auth_failure :: "string \<Rightarrow> bool" where
  "copy_auth_failure m = list_ex (contains (lower m)) COPY_AUTH_MARKERS"

definition auth_error_code :: "string \<Rightarrow> string option" where
  "auth_error_code m = (let text = lower m in
     case find (contains text) OAUTH_CODES of
       Some code \<Rightarrow> Some code
     | None \<Rightarrow> (case find (\<lambda>code. contains text (lower code)) SMB_CODES of
         Some code \<Rightarrow> Some code
       | None \<Rightarrow> if contains text ''token has been expired or revoked'' \<or> contains text ''rclone config reconnect'' then Some ''invalid_grant''
           else if contains text ''invalid username or password'' then Some ''NT_STATUS_LOGON_FAILURE'' else None))"

definition public_auth_failure :: "string \<Rightarrow> string \<Rightarrow> string \<times> string" where
  "public_auth_failure provider m =
     (let kind = lower (strip provider); nm = destination_name kind;
          (title, body) = (if kind = ''drive'' \<or> kind = ''onedrive''
            then (''Reconnect '' @ nm, ''Reconnect '' @ nm @ ''. The saved sign-in was rejected.'')
            else (nm @ '' rejected the sign-in'', nm @ '' rejected the saved sign-in.'')) in
      (title, case auth_error_code m of Some code \<Rightarrow> body @ '' ('' @ code @ '')'' | None \<Rightarrow> body))"

text \<open>
  The Celery task of a copy job (\<open>replicate_backup\<close>, \<open>_start_direct_followup\<close>, \<open>fail_replicate_job\<close> in \<open>app/tasks.py\<close>) and
  the way back of a folder (\<open>pull_rel\<close>). The alerts are kept by destination: the open one says that its sign-in was
  rejected.
\<close>

section \<open>The way back\<close>

definition no_such_folder :: dict where
  "no_such_folder = failed_copy ''That folder is not on the backup drive''"

definition pull_failed :: "string \<Rightarrow> string \<Rightarrow> dict" where
  "pull_failed shown text = failed_copy shown @ [(''auth_failed'', JBool (copy_auth_failure text))]"

text \<open>\<open>destination_place\<close>: folder, or host, share and path of a share.\<close>

definition destination_place :: "copy_dest \<Rightarrow> string" where
  "destination_place d =
     (let label = destination_name (cd_provider d); cfg = load_dict (cd_config d) in
      if lower (strip (cd_provider d)) = ''smb'' then
        let tail = join ''/'' (filter (\<lambda>t. t \<noteq> []) [strip (cfg_text cfg ''host''),
          strip_slashes (strip (cfg_text cfg ''share'')), strip_slashes (strip (cfg_text cfg ''remote_dir''))]) in
        if tail \<noteq> [] then label @ middot @ tail else label
      else
        let folder = strip_slashes (strip (py_str (jor (dget0 cfg ''remote_dir'') (JStr ''PiHerder'')))) in
        label @ middot @ (if folder \<noteq> [] then folder else ''PiHerder''))"

text \<open>One \<open>rclone sync\<close> down into \<open>folder\<close>.\<close>

definition pull_into :: "env \<Rightarrow> 'w copy_env \<Rightarrow> copy_dest \<Rightarrow> string \<Rightarrow> bool \<Rightarrow> string \<Rightarrow> ('w, exc, dict) act" where
  "pull_into e c d path dry_run folder =
     catching (seq (open_destination c d) (\<lambda>(cfg, secret, refresh).
       catching (always (andalso (if dry_run then ret () else ce_mkdir c folder)
           (seq (lifted e (remote_root_for d)) (\<lambda>root.
           seq (run_rclone c (rclone_pull_cmd cfg folder (root @ ''/'' @ path) dry_run) secret) (\<lambda>(rc, err) w.
             let err1 = scrub_job_text (redact err refresh);
                 err2 = (if lower (strip (cd_provider d)) = ''smb'' then scrub_job_text (redact err1 (ce_obscured c w cfg)) else err1) in
             ret (if rc \<noteq> 0 then pull_failed (take 500 (or_failed err2)) (or_failed err2)
               else [(''ok'', JBool True), (''rel'', JStr path), (''dry_run'', JBool dry_run), (''place'', JStr (destination_place d))]) w))))
           (touch (ce_discard c cfg) :: ('w, string, unit) act))
         (\<lambda>m. let t = scrub_job_text (redact (redact (take 500 m) secret) refresh) in ret (pull_failed t t))))
     (\<lambda>m. let t = scrub_job_text (take 500 m) in ret (pull_failed t t))"

definition pull_rel :: "env \<Rightarrow> 'w copy_env \<Rightarrow> copy_dest \<Rightarrow> string \<Rightarrow> bool \<Rightarrow> string option \<Rightarrow> ('w, exc, dict) act" where
  "pull_rel e c d rel dry_run local_dir =
     (let path = strip_slashes (strip rel) in
      if path = [] \<or> ''..'' \<in> set (split_on slash path) then ret no_such_folder
      else if e_demo e then ret (failed_copy ''Demo does not download'')
      else if lower (strip (cd_provider d)) \<notin> set SELECTABLE then ret (not_built d)
      else case rbind (parse_selection (cd_selection d)) (path_included path) of
        Inl x \<Rightarrow> raise x
      | Inr False \<Rightarrow> ret (failed_copy ''That folder is not selected for this copy'')
      | Inr True \<Rightarrow>
          (case (case local_dir of Some p \<Rightarrow> Some p | None \<Rightarrow> ce_resolve c path) of
             None \<Rightarrow> ret no_such_folder
           | Some folder \<Rightarrow> pull_into e c d path dry_run folder))"

section \<open>Alerts\<close>

definition note_copy_auth_failure :: "copy_dest \<Rightarrow> string \<Rightarrow> copy_rows \<Rightarrow> copy_rows" where
  "note_copy_auth_failure d m s = (if copy_auth_failure m
     then s\<lparr>cs_alerts := AList.update (cd_id d) (public_auth_failure (cd_provider d) m) (cs_alerts s)\<rparr> else s)"

definition resolve_copy_auth_failure :: "int \<Rightarrow> copy_rows \<Rightarrow> copy_rows" where
  "resolve_copy_auth_failure did s = (if did = 0 then s else s\<lparr>cs_alerts := AList.delete did (cs_alerts s)\<rparr>)"

section \<open>The task\<close>

datatype copy_outcome = CopySkipped | CopyDone | CopyFailed "string option"

definition on_rows_of :: "(db \<Rightarrow> db) \<Rightarrow> copy_rows \<Rightarrow> copy_rows" where
  "on_rows_of f s = s\<lparr>cs_db := f (cs_db s)\<rparr>"

text \<open>The queue writes a text or null for the scope.\<close>

definition scope_text :: "json \<Rightarrow> string option" where
  "scope_text v = (case v of JStr t \<Rightarrow> Some t | _ \<Rightarrow> None)"

definition user_of :: "json \<Rightarrow> int option" where
  "user_of v = (case v of JInt n \<Rightarrow> Some n | JBool b \<Rightarrow> Some (if b then 1 else 0) | _ \<Rightarrow> None)"

definition dest_of :: "dict \<Rightarrow> copy_dest list \<Rightarrow> copy_dest option" where
  "dest_of data ds = (case dget0 data ''destination_id'' of JInt n \<Rightarrow> get_row cd_id n ds | _ \<Rightarrow> None)"

definition start_direct_followup ::
    "env \<Rightarrow> int \<Rightarrow> string option \<Rightarrow> int option \<Rightarrow> int \<Rightarrow> copy_rows \<Rightarrow> copy_rows" where
  "start_direct_followup e did scope uid i s =
     (if (case get_job (cs_db s) i of Some j \<Rightarrow> j_status j = ''cancelled'' | None \<Rightarrow> False) then s
      else case get_row cd_id did (cs_dests s) of
        None \<Rightarrow> s
      | Some d \<Rightarrow> s\<lparr>cs_db := fst (enqueue_direct_followup e (cs_hosts s) d scope uid (cs_db s))\<rparr>)"

definition stored_error :: "copy_dest \<Rightarrow> string \<Rightarrow> string" where
  "stored_error d raw = (if copy_auth_failure raw then snd (public_auth_failure (cd_provider d) raw) else take 500 raw)"

definition error_row :: "string \<Rightarrow> dict" where
  "error_row m = [(''error'', JStr m), (''current'', JStr ''failed'')]"

definition end_copy :: "env \<Rightarrow> int \<Rightarrow> copy_dest \<Rightarrow> dict \<Rightarrow> copy_rows \<Rightarrow> copy_rows \<times> copy_outcome" where
  "end_copy e i d result s =
     (if truthy (dget0 result ''ok'') then
        (resolve_copy_auth_failure (cd_id d) (on_rows_of (update_job_status e i ''success''
          [(''current'', JStr ''completed''), (''copied'', jor (dget0 result ''copied'') (JList []))]) s), CopyDone)
      else let raw = scrub_job_text (py_str (jor (dget0 result ''error'') (JStr ''copy failed''))); stored = stored_error d raw in
        (note_copy_auth_failure d raw (on_rows_of (update_job_status e i ''failed'' (error_row stored)) s), CopyFailed (Some stored)))"

text \<open>\<open>except Exception\<close>: the alert before the row.\<close>

definition break_copy :: "env \<Rightarrow> int \<Rightarrow> copy_dest option \<Rightarrow> exc \<Rightarrow> copy_rows \<Rightarrow> copy_rows \<times> copy_outcome" where
  "break_copy e i dest x s =
     (let raw = scrub_job_text (exc_text e x) in
      case dest of
        Some d \<Rightarrow> (on_rows_of (update_job_status e i ''failed'' (error_row (stored_error d raw))) (note_copy_auth_failure d raw s),
          CopyFailed (Some (stored_error d raw)))
      | None \<Rightarrow> (on_rows_of (update_job_status e i ''failed'' (error_row (take 500 raw))) s, CopyFailed (Some (take 500 raw))))"

text \<open>The row of a task that works: claimed, and running.\<close>

definition begun :: "env \<Rightarrow> celery_request \<Rightarrow> int \<Rightarrow> copy_rows \<Rightarrow> copy_rows" where
  "begun e req i s = on_rows_of (update_job_status e i ''running'' [(''current'', JStr ''copying'')])
     (on_rows_of (upd_job i (\<lambda>j. snd (remember_celery_worker j req))) s)"

definition copy_work ::
    "env \<Rightarrow> 'w copy_env \<Rightarrow> copy_host list \<Rightarrow> copy_dest \<Rightarrow> dict \<Rightarrow> ('w, exc, dict) act" where
  "copy_work e c hosts d data =
     (let archive = strip (archive_text data); scope = scope_text (dget0 data ''scope'') in
      if archive \<noteq> [] then execute_herder_archive e c d archive
      else if is_direct data then execute_direct e c hosts d scope
      else execute_folders e c hosts d scope)"

definition follows :: "dict \<Rightarrow> bool" where
  "follows data = (dget data ''direct_after'' = Some (JBool True) \<and> strip (archive_text data) = [] \<and> \<not> is_direct data)"

definition replicate_backup :: "env \<Rightarrow> 'w copy_env \<Rightarrow> celery_request \<Rightarrow> int \<Rightarrow> copy_rows \<times> 'w \<Rightarrow> (copy_rows \<times> 'w) \<times> copy_outcome" where
  "replicate_backup e c req i sw = (case sw of (s0, w) \<Rightarrow>
     case get_job (cs_db s0) i of
       None \<Rightarrow> (sw, CopySkipped)
     | Some j \<Rightarrow>
         if \<not> active j then (sw, CopySkipped)
         else let s1 = begun e req i s0 in
           case loads (j_details j) of
             Some (JObj data) \<Rightarrow>
               (case dest_of data (cs_dests s0) of
                  None \<Rightarrow> ((on_rows_of (update_job_status e i ''failed'' (error_row ''Destination missing'')) s1, w), CopyFailed None)
                | Some d \<Rightarrow>
                    (case copy_work e c (cs_hosts s1) d data w of (w', r) \<Rightarrow>
                     case (case r of Inr result \<Rightarrow> end_copy e i d result s1 | Inl x \<Rightarrow> break_copy e i (Some d) x s1) of (s2, out) \<Rightarrow>
                     ((if follows data \<and> cd_id d \<noteq> 0
                       then start_direct_followup e (cd_id d) (scope_text (dget0 data ''scope'')) (user_of (dget0 data ''user_id'')) i s2
                       else s2, w'), out)))
           | Some v \<Rightarrow> (case break_copy e i None AttributeError (on_rows_of (upd_job i (\<lambda>j. snd (remember_celery_worker j req))) s0) of
               (s2, out) \<Rightarrow> ((s2, w), out))
           | None \<Rightarrow> ((on_rows_of (update_job_status e i ''failed'' (error_row ''Destination missing'')) s1, w), CopyFailed None))"

section \<open>A worker that dies\<close>

definition replicate_stopped_text :: "dict \<Rightarrow> string \<Rightarrow> string" where
  "replicate_stopped_text data m = (let text = strip m in
     take 500 (if is_direct data
       then (if text = [] then ''Direct copy stopped''
         else replace_all (replace_all text ''Backup copy'' ''Direct copy'') ''backup copy'' ''direct copy'')
       else if text \<noteq> [] then text else ''Backup copy stopped''))"

definition queue_direct_after_failure :: "env \<Rightarrow> dict \<Rightarrow> copy_rows \<Rightarrow> copy_rows" where
  "queue_direct_after_failure e data s =
     (if \<not> follows data then s
      else case payload_int data ''destination_id'' of
        Inl x \<Rightarrow> s
      | Inr did \<Rightarrow> if did = 0 then s
          else case get_row cd_id did (cs_dests s) of
            None \<Rightarrow> s
          | Some d \<Rightarrow> s\<lparr>cs_db := fst (enqueue_direct_followup e (cs_hosts s) d (scope_text (dget0 data ''scope''))
              (user_of (dget0 data ''user_id'')) (cs_db s))\<rparr>)"

text \<open>Only an error of the database is left out; details that are no dictionary raise before the row is written.\<close>

definition fail_replicate_job :: "env \<Rightarrow> int \<Rightarrow> string \<Rightarrow> copy_rows \<Rightarrow> copy_rows \<times> bool" where
  "fail_replicate_job e i m s = (case get_job (cs_db s) i of
     None \<Rightarrow> (s, False)
   | Some j \<Rightarrow>
       if j_job_type j \<noteq> REPLICATE \<or> terminal_status (j_status j) then (s, False)
       else case updatable (j_details j) of
         None \<Rightarrow> (s, False)
       | Some data \<Rightarrow> (case py_list (jor (dget0 data ''log_lines'') (JList [])) of
           None \<Rightarrow> (s, False)
         | Some lines \<Rightarrow>
             let text = take 500 (scrub_job_text (replicate_stopped_text data m));
                 shown = last_n 15 (if lines = [] \<or> last lines \<noteq> JStr text then lines @ [JStr text] else lines);
                 kept = dset ''done'' (JBool True) (dset ''current'' (JStr ''failed'') (dset ''error'' (JStr text)
                   (dset ''log_lines'' (JList shown) data)));
                 s1 = on_rows_of (upd_job i (\<lambda>j. j\<lparr>j_details := Text (JObj kept), j_status := ''failed'', j_finished_at := Some (e_now e)\<rparr>)) s in
             (queue_direct_after_failure e kept s1, True)))"

definition drive_copy_failure_message :: "string option \<Rightarrow> string \<Rightarrow> string" where
  "drive_copy_failure_message kind m =
     ((if kind \<in> {Some ''TimeLimitExceeded'', Some ''HardTimeLimitExceeded''} \<or> contains (lower m) ''time limit''
       then ''Backup copy hit the worker time limit and was stopped. '' else ''The worker stopped during the backup copy. '')
      @ ''Start it again. Files already copied stay.'')"

end
