(* ===== verification/CopyProps.thy ===== *)
theory CopyProps
  imports CopyRun QueueProps
begin

text \<open>
  The copy jobs in any order of requests, backups, schedules, tasks and lost workers: one destination never has two active
  copies of the same kind; the direct half of a mixed selection follows the folder half; no access token reaches a row.
\<close>

section \<open>Slots\<close>

datatype hop = FolderHop | DirectHop | ArchiveHop string

definition hop_of :: "column \<Rightarrow> hop" where
  "hop_of c = (let data = load_dict c in
     if strip (archive_text data) \<noteq> [] then ArchiveHop (archive_text data) else if is_direct data then DirectHop else FolderHop)"

definition dest_key :: "column \<Rightarrow> int option" where
  "dest_key c = (case payload_int (load_dict c) ''destination_id'' of Inl x \<Rightarrow> None | Inr n \<Rightarrow> Some n)"

definition slot :: "int \<Rightarrow> hop \<Rightarrow> job \<Rightarrow> bool" where
  "slot k h j = (j_job_type j = REPLICATE \<and> active j \<and> dest_key (j_details j) = Some k \<and> hop_of (j_details j) = h)"

definition taken :: "db \<Rightarrow> int \<Rightarrow> hop \<Rightarrow> nat" where
  "taken d k h = length (filter (slot k h) (db_jobs d))"

definition one_each :: "db \<Rightarrow> bool" where
  "one_each d = (\<forall>k h. taken d k h \<le> 1)"

lemma taken_zero: "taken d k h = 0 \<longleftrightarrow> (\<forall>j\<in>set (db_jobs d). \<not> slot k h j)"
  by (auto simp: taken_def filter_empty_conv)

lemma taken_upd:
  assumes "wf_ids d" and "\<And>j k h. get_job d i = Some j \<Longrightarrow> slot k h (f j) \<Longrightarrow> slot k h j"
  shows "taken (upd_job i f d) k h \<le> taken d k h"
proof -
  have "slot k h j" if "j \<in> set (db_jobs d)" "slot k h (if j_id j = i then f j else j)" for j
  proof (cases "j_id j = i")
    case True
    then have "get_job d i = Some j" using assms(1) that(1) by (auto simp: get_job_def wf_ids_def intro: get_row_unique)
    then show ?thesis using assms(2) that(2) True by simp
  qed (use that in simp)
  then have "length (filter (slot k h \<circ> (\<lambda>j. if j_id j = i then f j else j)) xs) \<le> length (filter (slot k h) xs)" if "set xs \<subseteq> set (db_jobs d)" for xs
    using that by (induction xs) auto
  then show ?thesis by (simp add: taken_def upd_job_def upd_row_def filter_map)
qed

lemma wf_upd: "(\<And>j. j_id (f j) = j_id j) \<Longrightarrow> wf_ids d \<Longrightarrow> wf_ids (upd_job i f d)"
  by (auto simp: wf_ids_def upd_job_def upd_row_def comp_def if_distrib [of j_id] cong: if_cong)

text \<open>Nothing is taken that was free.\<close>

definition no_more :: "db \<Rightarrow> db \<Rightarrow> bool" where
  "no_more d d' = (wf_ids d \<longrightarrow> wf_ids d' \<and> (\<forall>k h. taken d' k h \<le> taken d k h))"

lemma no_more_refl [simp, intro]: "no_more d d"
  by (simp add: no_more_def)

lemma no_more_trans: "no_more d d' \<Longrightarrow> no_more d' d'' \<Longrightarrow> no_more d d''"
  unfolding no_more_def using order_trans by blast

lemma no_more_upd:
  assumes "\<And>j. j_id (f j) = j_id j" and "\<And>j k h. get_job d i = Some j \<Longrightarrow> slot k h (f j) \<Longrightarrow> slot k h j"
  shows "no_more d (upd_job i f d)"
  unfolding no_more_def using taken_upd [of d i f] wf_upd [OF assms(1)] assms(2) by blast

lemma no_more_emit [simp]: "no_more d (emit x d)"
  by (auto simp: no_more_def taken_def emit_def wf_ids_def)

text \<open>One slot is taken, and it was free.\<close>

definition takes_free :: "db \<Rightarrow> db \<Rightarrow> int \<Rightarrow> hop \<Rightarrow> bool" where
  "takes_free d d' k h = (wf_ids d \<longrightarrow> wf_ids d' \<and> (\<forall>k' h'. taken d' k' h' \<le> taken d k' h' + (if (k', h') = (k, h) then 1 else 0)))"

lemma takes_free_one: "takes_free d d' k h \<Longrightarrow> taken d k h = 0 \<Longrightarrow> wf_ids d \<Longrightarrow> one_each d \<Longrightarrow> wf_ids d' \<and> one_each d'"
proof -
  assume t: "takes_free d d' k h" "taken d k h = 0" "wf_ids d" "one_each d"
  have "taken d' k' h' \<le> 1" for k' h'
    using t by (cases "(k', h') = (k, h)") (auto simp: takes_free_def one_each_def dest!: spec [of _ k'] spec [of _ h'])
  then show "wf_ids d' \<and> one_each d'" using t by (simp add: takes_free_def one_each_def)
qed

lemma takes_free_more: "takes_free d d' k h \<Longrightarrow> no_more d' d'' \<Longrightarrow> takes_free d d'' k h"
  unfolding takes_free_def no_more_def using order_trans by blast

lemma takes_free_add:
  assumes "dest_key det = Some k" and "hop_of det = h"
  shows "takes_free d (add_job e sid REPLICATE det d) k h"
  using assms wf_ids_add_job by (auto simp: takes_free_def taken_def add_job_def slot_def)

lemma no_more_one: "no_more d d' \<Longrightarrow> wf_ids d \<Longrightarrow> one_each d \<Longrightarrow> wf_ids d' \<and> one_each d'"
  unfolding no_more_def one_each_def using order_trans by blast

section \<open>New rows\<close>

lemma new_row_field:
  assumes "distinct (map fst x)" and "k \<notin> {''client_ip'', ''current'', ''log_lines'', ''done''}"
  shows "dget (load_dict (Text (JObj (initial_job_details e msg x)))) k = dget x k"
proof -
  have "dget (dupdate [(''current'', JStr ''queued''), (''log_lines'', JList [JStr msg]), (''done'', JBool False)] x) k = dget x k"
    using assms by (simp add: dget_dupdate) (auto simp: dget_def split: option.split)
  moreover have "dget (initial_job_details e msg x) k
      = dget (dupdate [(''current'', JStr ''queued''), (''log_lines'', JList [JStr msg]), (''done'', JBool False)] x) k"
    using assms(2) unfolding initial_job_details_def Let_def by (simp only: if_distrib [of "\<lambda>d. dget d k"] dget_dset) simp
  ultimately show ?thesis by simp
qed

lemma copy_row_slot:
  "dest_key (Text (JObj (initial_job_details e msg (copy_extra e d scope uid direct follow)))) = Some (cd_id d)"
  "hop_of (Text (JObj (initial_job_details e msg (copy_extra e d scope uid direct follow)))) = (if direct then DirectHop else FolderHop)"
  using new_row_field [of "copy_extra e d scope uid direct follow" _ e msg]
  by (simp_all add: dest_key_def hop_of_def copy_extra_def payload_int_def archive_text_def is_direct_def dget0_def dget_def jor_def py_int_def Let_def)

lemma archive_row_slot:
  assumes "strip name \<noteq> []"
  shows "dest_key (Text (JObj (initial_job_details e msg (archive_extra e d name uid)))) = Some (cd_id d)"
    and "hop_of (Text (JObj (initial_job_details e msg (archive_extra e d name uid)))) = ArchiveHop name"
proof -
  let ?data = "load_dict (Text (JObj (initial_job_details e msg (archive_extra e d name uid))))"
  have f: "dget ?data k = dget (archive_extra e d name uid) k" if "k \<notin> {''client_ip'', ''current'', ''log_lines'', ''done''}" for k
    using that by (intro new_row_field) (simp_all add: archive_extra_def)
  have "dget ?data ''destination_id'' = Some (JInt (cd_id d))" "dget ?data ''herder_archive'' = Some (JStr name)"
    using f [of "''destination_id''"] f [of "''herder_archive''"] by (simp_all add: archive_extra_def dget_def)
  moreover have "name \<noteq> []" using assms by auto
  ultimately show "dest_key (Text (JObj (initial_job_details e msg (archive_extra e d name uid)))) = Some (cd_id d)"
    and "hop_of (Text (JObj (initial_job_details e msg (archive_extra e d name uid)))) = ArchiveHop name"
    using assms by (simp_all add: dest_key_def hop_of_def payload_int_def archive_text_def dget0_def jor_def py_int_def Let_def)
qed

lemma publish_no_more: "no_more d (publish_copy e i failing d)"
proof -
  have "no_more d (upd_job i (end_unstarted e data) d)" for data
    by (rule no_more_upd) (auto simp: end_unstarted_def slot_def active_def)
  moreover have "no_more (emit x d) (upd_job i (set_task_id t) (emit x d))" for x t
    by (rule no_more_upd) (auto simp: set_task_id_def slot_def active_def)
  ultimately show ?thesis
    unfolding publish_copy_def by (auto intro: no_more_trans [OF no_more_emit] split: sum.split)
qed

section \<open>Free slots\<close>

lemma first_match_None: "first_match p xs = Inr None \<Longrightarrow> x \<in> set xs \<Longrightarrow> p x = Inr False"
  by (induction xs) (auto simp: rbind_eq_Inr split: if_splits)

lemma first_match_Some: "first_match p xs = Inr (Some x) \<Longrightarrow> x \<in> set xs \<and> p x = Inr True"
  by (induction xs) (auto simp: rbind_eq_Inr split: if_splits)

lemma set_active_copies [simp]: "set (active_copies d) = {j \<in> set (db_jobs d). j_job_type j = REPLICATE \<and> active j}"
  by (auto simp: active_copies_def)

lemma dest_key_goes: "dest_key c = Some k \<Longrightarrow> goes_to did (load_dict c) = Inr (k = did)"
  by (auto simp: dest_key_def goes_to_def split: sum.splits)

lemma replicate_free:
  assumes "active_replicate d k = Inr None" and "h = FolderHop \<or> h = DirectHop"
  shows "taken d k h = 0"
  using first_match_None [OF assms(1) [unfolded active_replicate_def]] assms(2) dest_key_goes
  by (fastforce simp: taken_zero slot_def hop_of_def Let_def split: if_splits)

lemma direct_free: "active_direct d k = Inr None \<Longrightarrow> taken d k DirectHop = 0"
  using first_match_None [of _ "active_copies d"] dest_key_goes
  unfolding active_direct_def by (fastforce simp: taken_zero slot_def hop_of_def Let_def split: if_splits)

lemma archive_free:
  assumes "active_herder_copy d k name = Inr None" and "strip name \<noteq> []"
  shows "taken d k (ArchiveHop name) = 0"
  unfolding taken_zero
proof
  fix j assume j: "j \<in> set (db_jobs d)"
  show "\<not> slot k (ArchiveHop name) j"
  proof
    assume s: "slot k (ArchiveHop name) j"
    then have "strip (archive_text (load_dict (j_details j))) \<noteq> []" and nm: "archive_text (load_dict (j_details j)) = name"
      by (auto simp: slot_def hop_of_def Let_def split: if_splits)
    then obtain data where data: "loads (j_details j) = Some (JObj data)"
      by (auto simp: load_dict_def archive_text_def dget0_def dget_def jor_def split: option.splits json.splits)
    then have "load_dict (j_details j) = data" by (simp add: load_dict_def)
    then show False
      using first_match_None [OF assms(1) [unfolded active_herder_copy_def], of j] j s nm data dest_key_goes [of "j_details j" k k]
      by (auto simp: slot_def)
  qed
qed

section \<open>Enqueuing\<close>

definition keeps_one :: "db \<Rightarrow> db \<Rightarrow> bool" where
  "keeps_one d d' = (wf_ids d \<longrightarrow> one_each d \<longrightarrow> wf_ids d' \<and> one_each d')"

lemma keeps_one_refl [simp, intro]: "keeps_one d d"
  by (simp add: keeps_one_def)

lemma keeps_one_trans: "keeps_one d d' \<Longrightarrow> keeps_one d' d'' \<Longrightarrow> keeps_one d d''"
  by (auto simp: keeps_one_def)

lemma keeps_one_less: "no_more d d' \<Longrightarrow> keeps_one d d'"
  using no_more_one by (auto simp: keeps_one_def)

lemma create_keeps:
  assumes "taken tables (cd_id d) (if direct then DirectHop else FolderHop) = 0"
  shows "keeps_one tables (fst (create_replicate_job e d sid scope uid direct follow tables))"
  using takes_free_one [OF takes_free_more [OF takes_free_add [OF copy_row_slot] publish_no_more] assms]
  by (auto simp: create_replicate_job_def keeps_one_def Let_def)

lemma followup_keeps: "keeps_one tables (fst (enqueue_direct_followup e hosts d scope uid tables))"
proof -
  have c: "keeps_one tables (fst (create_replicate_job e d None scope uid True False tables))" if "active_direct tables (cd_id d) = Inr None"
    using create_keeps [of tables d True] direct_free [OF that] by simp
  have f: "fst (case m of (t, r) \<Rightarrow> (t, g r)) = fst m" for m :: "db \<times> (exc + copy_answer)" and g :: "exc + copy_answer \<Rightarrow> exc + copy_answer option"
    by (cases m) simp
  show ?thesis
    by (auto simp: enqueue_direct_followup_def f c split: sum.split option.split)
qed

lemma enqueue_keeps: "keeps_one tables (fst (enqueue_copy e hosts d sid scope uid tables))"
proof -
  have "keeps_one tables (fst (create_replicate_job e d sid scope uid a b tables))" if "active_replicate tables (cd_id d) = Inr None" for a b
    by (rule create_keeps) (use that replicate_free in auto)
  moreover have "keeps_one tables (fst (case enqueue_direct_followup e hosts d scope uid tables of (t, r) \<Rightarrow> (t, g r)))" for g
    using followup_keeps by (auto split: prod.split) (metis fst_conv)
  ultimately show ?thesis
    by (auto simp: enqueue_copy_def rbind_eq_Inr split: sum.split option.split)
qed

lemma archive_keeps: "keeps_one tables (fst (enqueue_herder_archive e d name uid tables))"
proof -
  let ?n = "path_name name"
  have "keeps_one tables (publish_copy e i f (add_job e None REPLICATE (Text (JObj (initial_job_details e m (archive_extra e d ?n uid)))) tables))"
    if "is_safe_archive_basename ?n" "active_herder_copy tables (cd_id d) ?n = Inr None" for i f m
  proof -
    have ne: "strip ?n \<noteq> []" using that(1) by (simp add: is_safe_archive_basename_def Let_def)
    show ?thesis
      using takes_free_one [OF takes_free_more [OF takes_free_add [OF archive_row_slot [OF ne]] publish_no_more] archive_free [OF that(2) ne]]
      by (auto simp: keeps_one_def)
  qed
  then show ?thesis by (auto simp: enqueue_herder_archive_def Let_def split: sum.split option.split)
qed

lemma andthen_keeps:
  assumes "keeps_one d (fst m)" and "\<And>t v. m = (t, Inr v) \<Longrightarrow> keeps_one t (fst (f t v))"
  shows "keeps_one d (fst (andthen m f))"
  using assms by (cases m; cases "snd m") (auto simp: andthen_def intro: keeps_one_trans)

lemma each_dest_keeps: "(\<And>d t. keeps_one t (fst (f d t))) \<Longrightarrow> keeps_one t (fst (each_dest f ds t))"
  by (induction ds arbitrary: t) (auto intro!: andthen_keeps)

lemma each_copy_keeps: "(\<And>d t. keeps_one t (fst (f d t))) \<Longrightarrow> keeps_one t (fst (each_copy f ds t))"
  by (induction ds arbitrary: t) (auto intro!: andthen_keeps)

lemma after_backup_keeps: "keeps_one t (fst (copy_after_backup e hosts h folder d t))"
  by (auto simp: copy_after_backup_def intro!: andthen_keeps enqueue_keeps split: sum.split)

section \<open>Tasks\<close>

definition KEY_FIELDS :: "string set" where
  "KEY_FIELDS = {''destination_id'', ''herder_archive'', ''direct_host''}"

lemma keys_cong:
  assumes "\<And>k. k \<in> KEY_FIELDS \<Longrightarrow> dget (load_dict c) k = dget (load_dict c') k"
  shows "dest_key c = dest_key c'" and "hop_of c = hop_of c'"
  using assms by (simp_all add: KEY_FIELDS_def dest_key_def hop_of_def payload_int_def archive_text_def is_direct_def dget0_def Let_def)

lemma status_details_keys:
  assumes "status_details extra c = Some c'" and "fst ` set extra \<inter> KEY_FIELDS = {}"
  shows "dest_key c' = dest_key c" and "hop_of c' = hop_of c"
proof -
  have "dget (load_dict c') k = dget (load_dict c) k" if "k \<in> KEY_FIELDS" for k
  proof -
    have "k \<notin> fst ` set extra" using assms(2) that by blast
    then show ?thesis
      using assms(1) by (auto simp: status_details_def updatable_def load_dict_def dget_dupdate_other split: if_splits option.splits json.splits)
  qed
  then show "dest_key c' = dest_key c" and "hop_of c' = hop_of c" using keys_cong by blast+
qed

lemma status_no_more:
  assumes "st \<noteq> ''pending''" and "\<And>j. active_status st \<Longrightarrow> get_job d i = Some j \<Longrightarrow> active j"
    and "fst ` set extra \<inter> KEY_FIELDS = {}"
  shows "no_more d (update_job_status e i st extra d)"
proof (cases "get_job d i")
  case (Some j)
  have "no_more d (upd_job i (set_status e st c) d)" if "status_details extra (j_details j) = Some c" for c
  proof (rule no_more_upd)
    fix j' k h assume "get_job d i = Some j'" and s: "slot k h (set_status e st c j')"
    then have "j' = j" using Some by simp
    moreover have "active j" using s assms(2) Some by (simp add: slot_def set_status_def active_def)
    ultimately show "slot k h j'" using s status_details_keys [OF that assms(3)] by (simp add: slot_def set_status_def)
  qed (simp add: set_status_def)
  then show ?thesis using assms(1) Some by (auto simp: update_job_status_def split: option.split)
qed (simp add: update_job_status_def)

lemma remember_no_more: "no_more d (upd_job i (\<lambda>j. snd (remember_celery_worker j req)) d)"
  by (rule no_more_upd) (simp_all add: slot_def)

lemma cs_db_alerts [simp]:
  "cs_db (note_copy_auth_failure d m s) = cs_db s" "cs_db (resolve_copy_auth_failure k s) = cs_db s"
  "cs_db (on_rows_of f s) = f (cs_db s)"
  "cs_dests (note_copy_auth_failure d m s) = cs_dests s" "cs_dests (resolve_copy_auth_failure k s) = cs_dests s"
  "cs_dests (on_rows_of f s) = cs_dests s"
  "cs_hosts (note_copy_auth_failure d m s) = cs_hosts s" "cs_hosts (resolve_copy_auth_failure k s) = cs_hosts s"
  "cs_hosts (on_rows_of f s) = cs_hosts s"
  by (simp_all add: note_copy_auth_failure_def resolve_copy_auth_failure_def on_rows_of_def)

lemma end_no_more: "no_more (cs_db s) (cs_db (fst (end_copy e i d result s)))"
  by (auto simp: end_copy_def Let_def error_row_def KEY_FIELDS_def intro!: status_no_more)

lemma break_no_more: "no_more (cs_db s) (cs_db (fst (break_copy e i dest x s)))"
  by (auto simp: break_copy_def Let_def error_row_def KEY_FIELDS_def intro!: status_no_more split: option.split)

lemma start_followup_keeps: "keeps_one (cs_db s) (cs_db (start_direct_followup e did scope uid i s))"
  by (auto simp: start_direct_followup_def followup_keeps split: option.split)

lemma begun_hosts [simp]: "cs_hosts (begun e req i s) = cs_hosts s" "cs_dests (begun e req i s) = cs_dests s"
  by (simp_all add: begun_def)

lemma begun_no_more:
  assumes "get_job (cs_db s) i = Some j" and "active j"
  shows "no_more (cs_db s) (cs_db (begun e req i s))"
proof -
  have "get_job (upd_job i (\<lambda>j. snd (remember_celery_worker j req)) (cs_db s)) i = Some (snd (remember_celery_worker j req))"
    using assms(1) by (simp add: get_job_upd_same)
  then have "no_more (upd_job i (\<lambda>j. snd (remember_celery_worker j req)) (cs_db s)) (cs_db (begun e req i s))"
    unfolding begun_def cs_db_alerts by (intro status_no_more) (use assms(2) in \<open>auto simp: KEY_FIELDS_def\<close>)
  then show ?thesis using no_more_trans [OF remember_no_more] by blast
qed

lemma task_result:
  assumes "get_job (cs_db s) i = Some j" and "active j" and "loads (j_details j) = Some (JObj data)"
    and "dest_of data (cs_dests s) = Some d" and "copy_work e c (cs_hosts s) d data w = (w', r)"
    and "(s2, out) = (case r of Inr result \<Rightarrow> end_copy e i d result (begun e req i s) | Inl x \<Rightarrow> break_copy e i (Some d) x (begun e req i s))"
  shows "replicate_backup e c req i (s, w) = ((if follows data \<and> cd_id d \<noteq> 0
    then start_direct_followup e (cd_id d) (scope_text (dget0 data ''scope'')) (user_of (dget0 data ''user_id'')) i s2 else s2, w'), out)"
  using assms(1-5) assms(6) [symmetric] by (simp add: replicate_backup_def Let_def split: prod.split)

lemma task_keeps: "keeps_one (cs_db s) (cs_db (fst (fst (replicate_backup e c req i (s, w)))))"
proof (cases "get_job (cs_db s) i")
  case (Some j)
  show ?thesis
  proof (cases "active j")
    case True
    have b: "keeps_one (cs_db s) (cs_db (begun e req i s))" by (rule keeps_one_less [OF begun_no_more [OF Some True]])
    have u: "keeps_one (cs_db s) (cs_db (on_rows_of (upd_job i (\<lambda>j. snd (remember_celery_worker j req))) s))"
      using keeps_one_less [OF remember_no_more] by simp
    have m: "keeps_one (cs_db (begun e req i s)) (cs_db (on_rows_of (update_job_status e i ''failed'' (error_row msg)) (begun e req i s)))" for msg
      unfolding cs_db_alerts by (rule keeps_one_less [OF status_no_more]) (auto simp: error_row_def KEY_FIELDS_def)
    note rep = replicate_backup_def Some True Let_def
    show ?thesis
    proof (cases "loads (j_details j)")
      case None
      then show ?thesis using keeps_one_trans [OF b m] by (simp add: rep del: cs_db_alerts)
    next
      case (Some v)
      show ?thesis
      proof (cases "is_dict v")
        case False
        then have "fst (fst (replicate_backup e c req i (s, w)))
            = fst (break_copy e i None AttributeError (on_rows_of (upd_job i (\<lambda>j. snd (remember_celery_worker j req))) s))"
          using Some by (cases v) (simp_all add: rep is_dict_def split: prod.split)
        then show ?thesis using keeps_one_trans [OF u keeps_one_less [OF break_no_more]] by simp
      next
        case True
        then obtain data where v: "v = JObj data" by (cases v) (auto simp: is_dict_def)
        show ?thesis
        proof (cases "dest_of data (cs_dests s)")
          case None
          then show ?thesis using Some v keeps_one_trans [OF b m] by (simp add: rep del: cs_db_alerts(3))
        next
          case d: (Some d)
          obtain w' res where work: "copy_work e c (cs_hosts s) d data w = (w', res)" by fastforce
          obtain s2 out where e: "(s2, out) = (case res of Inr result \<Rightarrow> end_copy e i d result (begun e req i s)
              | Inl x \<Rightarrow> break_copy e i (Some d) x (begun e req i s))" by (metis surj_pair)
          then have "s2 = fst (case res of Inr result \<Rightarrow> end_copy e i d result (begun e req i s) | Inl x \<Rightarrow> break_copy e i (Some d) x (begun e req i s))"
            by (metis fst_conv)
          then have "keeps_one (cs_db (begun e req i s)) (cs_db s2)"
            by (cases res) (simp_all add: keeps_one_less end_no_more break_no_more)
          then have "keeps_one (cs_db s) (cs_db s2)" by (rule keeps_one_trans [OF b])
          moreover have "keeps_one (cs_db s2) (cs_db (if p then start_direct_followup e k sc uid i s2 else s2))" for p k sc uid
            using start_followup_keeps by simp
          ultimately show ?thesis
            using task_result [OF \<open>get_job (cs_db s) i = Some j\<close> \<open>active j\<close> Some [unfolded v] d work e] keeps_one_trans by simp
        qed
      qed
    qed
  qed (simp add: replicate_backup_def Some)
qed (simp add: replicate_backup_def)

lemma queue_direct_keeps: "keeps_one (cs_db s) (cs_db (queue_direct_after_failure e data s))"
  by (auto simp: queue_direct_after_failure_def followup_keeps split: sum.split option.split)

lemma fail_keeps: "keeps_one (cs_db s) (cs_db (fst (fail_replicate_job e i m s)))"
proof -
  have "no_more (cs_db s) (upd_job i (\<lambda>j. j\<lparr>j_details := c, j_status := ''failed'', j_finished_at := t\<rparr>) (cs_db s))" for c t
    by (rule no_more_upd) (auto simp: slot_def active_def)
  then have "keeps_one (cs_db s) (cs_db (queue_direct_after_failure e data
      (on_rows_of (upd_job i (\<lambda>j. j\<lparr>j_details := c, j_status := ''failed'', j_finished_at := t\<rparr>)) s)))" for c t data
    by (intro keeps_one_trans [OF _ queue_direct_keeps]) (simp add: keeps_one_less)
  then show ?thesis by (auto simp: fail_replicate_job_def Let_def split: option.split)
qed

section \<open>Histories\<close>

text \<open>
  Any order of copy requests, finished backups, schedules, tasks and lost workers, with changed destinations and hosts in
  between; \<open>elsewhere\<close> is the rest of the queue, which adds no copy row and revives none.
\<close>

inductive copy_history :: "copy_rows \<times> 'w \<Rightarrow> copy_rows \<times> 'w \<Rightarrow> bool" for s0 where
  start: "copy_history s0 s0"
| asked: "copy_history s0 (s, w) \<Longrightarrow> copy_history s0 (s\<lparr>cs_db := fst (enqueue_copy e (cs_hosts s) d sid scope uid (cs_db s))\<rparr>, w)"
| archived: "copy_history s0 (s, w) \<Longrightarrow> copy_history s0 (s\<lparr>cs_db := fst (enqueue_after_herder_backup e name s)\<rparr>, w)"
| backed_up: "copy_history s0 (s, w) \<Longrightarrow> copy_history s0 (s\<lparr>cs_db := fst (enqueue_after_host_backup e h s)\<rparr>, w)"
| scheduled: "copy_history s0 (s, w) \<Longrightarrow> copy_history s0 (s\<lparr>cs_db := schedule_backup_copy_job e did s\<rparr>, w)"
| worked: "copy_history s0 (s, w) \<Longrightarrow> replicate_backup e c req i (s, w) = (sw, out) \<Longrightarrow> copy_history s0 sw"
| died: "copy_history s0 (s, w) \<Longrightarrow> copy_history s0 (fst (fail_replicate_job e i m s), w)"
| settings: "copy_history s0 (s, w) \<Longrightarrow> copy_history s0 (s\<lparr>cs_dests := ds, cs_hosts := hs, cs_next_dest := n\<rparr>, w)"
| elsewhere: "copy_history s0 (s, w) \<Longrightarrow> no_more (cs_db s) d \<Longrightarrow> copy_history s0 (s\<lparr>cs_db := d\<rparr>, w')"

lemma history_keeps: "copy_history s0 s \<Longrightarrow> keeps_one (cs_db (fst s0)) (cs_db (fst s))"
proof (induction rule: copy_history.induct)
  case (archived s w e name)
  moreover have "keeps_one (cs_db s) (fst (enqueue_after_herder_backup e name s))"
    by (auto simp: enqueue_after_herder_backup_def Let_def intro: each_dest_keeps archive_keeps)
  ultimately show ?case using keeps_one_trans by auto
next
  case (backed_up s w e h)
  moreover have "keeps_one (cs_db s) (fst (enqueue_after_host_backup e h s))"
    by (auto simp: enqueue_after_host_backup_def Let_def intro: each_copy_keeps after_backup_keeps)
  ultimately show ?case using keeps_one_trans by auto
next
  case (scheduled s w e did)
  moreover have "keeps_one (cs_db s) (schedule_backup_copy_job e did s)"
    by (auto simp: schedule_backup_copy_job_def enqueue_keeps split: option.split)
  ultimately show ?case using keeps_one_trans by auto
next
  case (worked s w e c req i sw out)
  then show ?case using task_keeps [of s e c req i w] keeps_one_trans by (metis fst_conv)
qed (auto intro: keeps_one_trans enqueue_keeps fail_keeps keeps_one_less)

lemma one_each_unique:
  assumes "one_each d" and "wf_ids d" and "j1 \<in> set (db_jobs d)" "slot k h j1" and "j2 \<in> set (db_jobs d)" "slot k h j2"
  shows "j1 = j2"
proof (rule ccontr)
  assume "j1 \<noteq> j2"
  then have "card {j1, j2} = 2" by simp
  moreover have "{j1, j2} \<subseteq> set (filter (slot k h) (db_jobs d))" using assms by auto
  ultimately have "2 \<le> length (filter (slot k h) (db_jobs d))"
    by (metis List.finite_set card_length card_mono order_trans)
  then show False using assms(1) by (simp add: one_each_def taken_def) (metis One_nat_def Suc_1 not_less_eq_eq)
qed

text \<open>C15: from a queue without copies, whatever requests, finished backups, schedules, tasks, lost workers and changes of the
  settings come in whatever order, one destination never has two active folder copies, two active pushes of direct hosts or
  two active copies of one archive.\<close>

theorem one_copy_per_destination:
  assumes "copy_history (s0, w0) (s, w)" and "wf_ids (cs_db s0)" and "\<forall>j\<in>set (db_jobs (cs_db s0)). j_job_type j \<noteq> REPLICATE"
    and "j1 \<in> set (db_jobs (cs_db s))" "slot k h j1" and "j2 \<in> set (db_jobs (cs_db s))" "slot k h j2"
  shows "j1 = j2"
proof -
  have "one_each (cs_db s0)" using assms(3) by (auto simp: one_each_def taken_def slot_def filter_empty_conv)
  then have "wf_ids (cs_db s) \<and> one_each (cs_db s)" using history_keeps [OF assms(1)] assms(2) by (simp add: keeps_one_def)
  then show ?thesis using one_each_unique assms(4-7) by blast
qed

definition small_dest :: copy_dest where
  "small_dest = \<lparr>cd_id = 3, cd_name = ''nas'', cd_provider = ''smb'', cd_enabled = True, cd_config = Absent,
     cd_selection = selection_json ([''pi'', ''nas''], [''pi/tmp'']), cd_credentials = Some ''x'', cd_after_host = True, cd_schedule = None\<rparr>"

definition small_hosts :: "copy_host list" where
  "small_hosts = [\<lparr>ch_id = 1, ch_hostname = ''pi'', ch_folder = None, ch_backup_on = True, ch_direct = True,
       ch_targets = Text (JList [JStr ''smb''])\<rparr>,
     \<lparr>ch_id = 2, ch_hostname = ''nas'', ch_folder = None, ch_backup_on = True, ch_direct = False, ch_targets = Absent\<rparr>]"

definition small_copies :: copy_rows where
  "small_copies = \<lparr>cs_db = sample_db, cs_dests = [small_dest], cs_hosts = small_hosts, cs_next_dest = 4, cs_alerts = []\<rparr>"

definition twice_asked :: copy_rows where
  "twice_asked = (let ask = \<lambda>s. s\<lparr>cs_db := fst (enqueue_copy sample_env (cs_hosts s) small_dest None None None (cs_db s))\<rparr> in
     ask (ask small_copies))"

theorem one_copy_per_destination_witness:
  "\<exists>j1\<in>set (db_jobs (cs_db twice_asked)). slot 3 FolderHop j1 \<and> (\<forall>j2\<in>set (db_jobs (cs_db twice_asked)). slot 3 FolderHop j2 \<longrightarrow> j2 = j1)"
proof -
  have h: "copy_history (small_copies, ()) (twice_asked, ())"
    unfolding twice_asked_def Let_def by (intro copy_history.asked copy_history.start)
  have w: "wf_ids (cs_db small_copies)" "\<forall>j\<in>set (db_jobs (cs_db small_copies)). j_job_type j \<noteq> REPLICATE"
    by (simp_all add: small_copies_def sample_db_def wf_ids_def)
  have "list_ex (slot 3 FolderHop) (db_jobs (cs_db twice_asked))" by code_simp
  then obtain j1 where "j1 \<in> set (db_jobs (cs_db twice_asked))" "slot 3 FolderHop j1" by (auto simp: list_ex_iff)
  then show ?thesis using one_copy_per_destination [OF h w] by blast
qed

text \<open>
  How a copy task ends: no access token is left in the error it stores, and the direct half of a mixed selection is queued
  however the folder half ends.
\<close>

section \<open>Tokens\<close>

text \<open>An access token somewhere in a text.\<close>

definition has_token :: "string \<Rightarrow> bool" where
  "has_token m = list_ex (\<lambda>t. token_len t \<noteq> 0) (suffixes m)"

lemma token_start: "0 < token_len t \<longleftrightarrow> (\<exists>c. token_char c \<and> prefix (''ya29.'' @ [c]) t)"
  by (cases "drop 5 t") (auto simp: token_len_def startswith_def prefix_def Let_def)

lemma has_token_iff: "has_token m \<longleftrightarrow> (\<exists>a b. m = a @ b \<and> token_len b \<noteq> 0)"
  unfolding has_token_def list_ex_iff set_suffixes_eq mem_Collect_eq suffix_def by blast

lemma has_token_Cons: "has_token (c # m) \<longleftrightarrow> token_len (c # m) \<noteq> 0 \<or> has_token m"
  by (auto simp: has_token_def)

lemma token_bracket: "token_char c \<Longrightarrow> CHR ''['' \<notin> set (''ya29.'' @ [c])"
  by (auto simp: token_char_def is_digit_def)

lemma scrub_prefix: "prefix p (scrub_from k s) \<Longrightarrow> CHR ''['' \<notin> set p \<Longrightarrow> prefix p (drop k s)"
proof (induction k s arbitrary: p rule: scrub_from.induct)
  case (3 c cs)
  then show ?case by (cases p) (auto simp: Let_def split: if_splits)
qed auto

lemma token_other: "c \<noteq> CHR ''y'' \<Longrightarrow> token_len (c # s) = 0"
  by (simp add: token_len_def startswith_def)

lemma scrub_free: "\<not> has_token (scrub_from k s)"
proof (induction k s rule: scrub_from.induct)
  case (3 c cs)
  show ?case
  proof (cases "token_len (c # cs) = 0")
    case False
    have "\<not> has_token (''[redacted]'' @ scrub_from (token_len (c # cs) - 1) cs)"
      using 3(1) False by (simp add: has_token_Cons token_other)
    then show ?thesis using False by (simp add: Let_def)
  next
    case True
    have "token_len (c # scrub_from 0 cs) = 0"
    proof (rule ccontr)
      assume "token_len (c # scrub_from 0 cs) \<noteq> 0"
      then have "0 < token_len (c # scrub_from 0 cs)" by simp
      then obtain x where x: "token_char x" "prefix (''ya29.'' @ [x]) (c # scrub_from 0 cs)" unfolding token_start by blast
      then have "prefix (''ya29.'' @ [x]) (c # cs)"
        using scrub_prefix [of "''a29.'' @ [x]" 0 cs] token_bracket [OF x(1)] by simp
      then have "0 < token_len (c # cs)" using x(1) unfolding token_start by blast
      then show False using True by simp
    qed
    then show ?thesis using True 3(2) by (simp add: has_token_Cons Let_def)
  qed
qed (simp_all add: has_token_def token_len_def)

lemma token_take: "has_token (take n m) \<Longrightarrow> has_token m"
proof -
  assume "has_token (take n m)"
  then obtain a b where ab: "take n m = a @ b" "0 < token_len b" unfolding has_token_iff neq0_conv by blast
  then obtain c where c: "token_char c" "prefix (''ya29.'' @ [c]) b" unfolding token_start by blast
  have "m = (a @ b) @ drop n m" using append_take_drop_id [of n m] unfolding ab(1) by (rule sym)
  moreover have "prefix (''ya29.'' @ [c]) (b @ drop n m)" using c(2) by (rule prefix_prefix)
  ultimately show "has_token m" unfolding has_token_iff neq0_conv token_start append_assoc using c(1) by blast
qed

lemma token_two: "has_token m \<Longrightarrow> CHR ''2'' \<in> set m"
  by (auto simp: has_token_iff token_start prefix_def)

lemma auth_codes: "auth_error_code m = Some code \<Longrightarrow> code \<in> set (OAUTH_CODES @ SMB_CODES)"
  by (auto simp: auth_error_code_def OAUTH_CODES_def SMB_CODES_def Let_def find_Some_iff split: option.splits if_splits)

lemma public_free: "\<not> has_token (snd (public_auth_failure p m))"
proof -
  have "CHR ''2'' \<notin> set code" if "auth_error_code m = Some code" for code
    using auth_codes [OF that] by (auto simp: OAUTH_CODES_def SMB_CODES_def)
  moreover have "CHR ''2'' \<notin> set (destination_name k)" for k by (simp add: destination_name_def)
  ultimately have "CHR ''2'' \<notin> set (snd (public_auth_failure p m))"
    by (cases "lower (strip p) = ''drive'' \<or> lower (strip p) = ''onedrive''"; cases "auth_error_code m")
      (simp_all only: public_auth_failure_def Let_def if_True if_False prod.case snd_conv option.case set_append Un_iff, simp_all)
  then show ?thesis using token_two by blast
qed

lemma stored_free: "\<not> has_token (stored_error d (scrub_job_text m))"
proof (cases "copy_auth_failure (scrub_job_text m)")
  case False
  then have "stored_error d (scrub_job_text m) = take 500 (scrub_from 0 m)" by (simp only: stored_error_def scrub_job_text_def if_False)
  then show ?thesis using token_take scrub_free by metis
qed (simp only: stored_error_def if_True public_free not_False_eq_True)


section \<open>The direct half\<close>

definition unreadable :: "job \<Rightarrow> bool" where
  "unreadable j = (j_job_type j = REPLICATE \<and> active j \<and> dest_key (j_details j) = None)"

definition readable :: "db \<Rightarrow> bool" where
  "readable d = (\<forall>j\<in>set (db_jobs d). \<not> unreadable j)"

lemma upd_readable:
  assumes "wf_ids d" and "readable d" and "\<And>j. get_job d i = Some j \<Longrightarrow> unreadable (f j) \<Longrightarrow> unreadable j"
  shows "readable (upd_job i f d)"
proof -
  have "\<not> unreadable (if j_id j = i then f j else j)" if j: "j \<in> set (db_jobs d)" for j
  proof (cases "j_id j = i")
    case True
    then have "get_job d i = Some j" using assms(1) j by (auto simp: get_job_def wf_ids_def intro: get_row_unique)
    then show ?thesis using assms(2,3) j True by (auto simp: readable_def)
  qed (use assms(2) j in \<open>simp add: readable_def\<close>)
  then show ?thesis unfolding readable_def upd_job_def upd_row_def by auto (metis (mono_tags))+
qed

lemma status_readable:
  assumes "wf_ids d" and "readable d" and "st \<noteq> ''pending''" and "\<And>j. active_status st \<Longrightarrow> get_job d i = Some j \<Longrightarrow> active j"
    and "fst ` set extra \<inter> KEY_FIELDS = {}"
  shows "readable (update_job_status e i st extra d)"
proof (cases "get_job d i")
  case (Some j)
  have "readable (upd_job i (set_status e st c) d)" if "status_details extra (j_details j) = Some c" for c
  proof (rule upd_readable [OF assms(1,2)])
    fix j' assume "get_job d i = Some j'" and s: "unreadable (set_status e st c j')"
    then have "j' = j" using Some by simp
    moreover have "active j" using s assms(4) Some by (simp add: unreadable_def set_status_def active_def)
    ultimately show "unreadable j'" using s status_details_keys [OF that assms(5)] by (simp add: unreadable_def set_status_def)
  qed
  then show ?thesis using assms(2,3) Some by (auto simp: update_job_status_def split: option.split)
qed (use assms(2) in \<open>simp add: update_job_status_def\<close>)

text \<open>An active push of the direct hosts of a destination.\<close>

definition direct_row :: "int \<Rightarrow> job \<Rightarrow> bool" where
  "direct_row k j = (j_job_type j = REPLICATE \<and> active j \<and> is_direct (load_dict (j_details j)) \<and> dest_key (j_details j) = Some k)"

lemma first_match_total: "(\<And>x. x \<in> set xs \<Longrightarrow> \<exists>b. p x = Inr b) \<Longrightarrow> \<exists>r. first_match p xs = Inr r"
  by (induction xs) (auto simp: rbind_eq_Inr, metis)

lemma active_direct_row:
  assumes "readable d"
  shows "(\<exists>j\<in>set (db_jobs d). direct_row k j \<and> active_direct d k = Inr (Some j)) \<or> active_direct d k = Inr None"
proof -
  have g: "\<exists>n. dest_key (j_details j) = Some n \<and> goes_to k (load_dict (j_details j)) = Inr (n = k)" if "j \<in> set (active_copies d)" for j
    using assms that dest_key_goes by (fastforce simp: readable_def unreadable_def)
  let ?p = "\<lambda>j. let data = load_dict (j_details j) in if \<not> is_direct data then Inr False else goes_to k data"
  have "\<exists>b. ?p j = Inr b" if "j \<in> set (active_copies d)" for j using g [OF that] by (auto simp: Let_def)
  then obtain r where r: "active_direct d k = Inr r"
    using first_match_total [of "active_copies d" ?p] unfolding active_direct_def by blast
  show ?thesis
  proof (cases r)
    case (Some j)
    then have "j \<in> set (active_copies d)" "?p j = Inr True"
      using first_match_Some [of ?p "active_copies d" j] r unfolding active_direct_def by auto
    then have "direct_row k j" using g by (fastforce simp: direct_row_def Let_def split: if_splits)
    then show ?thesis using r Some \<open>j \<in> set (active_copies d)\<close> by auto
  qed (use r in simp)
qed

lemma publish_row:
  assumes "r \<in> set (db_jobs d)" and "direct_row k r" and "\<not> e_demo e" and "e_publish e = Inr tid"
  shows "\<exists>r'\<in>set (db_jobs (publish_copy e i failing d)). direct_row k r'"
proof -
  let ?r = "if j_id r = i then set_task_id tid r else r"
  have "direct_row k ?r" using assms(2) by (simp add: direct_row_def set_task_id_def active_def)
  moreover have "?r \<in> set (db_jobs (publish_copy e i failing d))"
    using assms(1,3,4) by (simp add: publish_copy_def upd_job_def upd_row_def emit_def)
  ultimately show ?thesis by blast
qed

lemma followup_row:
  assumes "credentials_saved d" and "scoped_parts hosts d scope = Inr (local, groups, skipped)" and "groups \<noteq> []"
    and "\<not> e_demo e" and "e_publish e = Inr tid" and "readable tables"
  shows "\<exists>r\<in>set (db_jobs (fst (enqueue_direct_followup e hosts d scope uid tables))). direct_row (cd_id d) r"
  using active_direct_row [OF assms(6), of "cd_id d"]
proof
  assume free: "active_direct tables (cd_id d) = Inr None"
  let ?det = "Text (JObj (initial_job_details e (queue_copy_message d True) (copy_extra e d scope uid True False)))"
  have "is_direct (load_dict ?det)"
    using new_row_field [of "copy_extra e d scope uid True False" "''direct_host''" e "queue_copy_message d True"]
    by (simp add: copy_extra_def is_direct_def dget_def)
  then have "\<exists>r\<in>set (db_jobs (add_job e None REPLICATE ?det tables)). direct_row (cd_id d) r"
    using copy_row_slot(1) [of e _ d scope uid True False] by (simp add: add_job_def direct_row_def active_def)
  then obtain r where "r \<in> set (db_jobs (add_job e None REPLICATE ?det tables))" "direct_row (cd_id d) r" by blast
  note row = publish_row [OF this assms(4,5)]
  have "fst (enqueue_direct_followup e hosts d scope uid tables)
      = fst (create_replicate_job e d None scope uid True False tables)"
    using assms(1-3) free by (simp add: enqueue_direct_followup_def split: prod.split)
  then show ?thesis using row by (simp add: create_replicate_job_def Let_def)
qed (use assms(1-3) in \<open>auto simp: enqueue_direct_followup_def\<close>)

text \<open>The rows when the copying is over, before the follow-up.\<close>

lemma ended_rows:
  assumes "wf_ids (cs_db s)" and "readable (cs_db s)" and "get_job (cs_db s) i = Some j" and "active j"
    and "s2 = fst (case r of Inr result \<Rightarrow> end_copy e i d result (begun e req i s) | Inl x \<Rightarrow> break_copy e i (Some d) x (begun e req i s))"
  shows "readable (cs_db s2) \<and> cs_dests s2 = cs_dests s \<and> cs_hosts s2 = cs_hosts s
    \<and> (\<forall>j'. get_job (cs_db s2) i = Some j' \<longrightarrow> j_status j' \<noteq> ''cancelled'')"
proof -
  let ?d1 = "upd_job i (\<lambda>j. snd (remember_celery_worker j req)) (cs_db s)" and ?s1 = "begun e req i s"
  have j1: "get_job ?d1 i = Some (snd (remember_celery_worker j req))" using assms(3) by (simp add: get_job_upd_same)
  have w1: "wf_ids ?d1" by (rule wf_upd [OF _ assms(1)]) simp
  have r1: "readable ?d1" by (rule upd_readable [OF assms(1,2)]) (simp add: unreadable_def)
  have w2: "wf_ids (cs_db ?s1)" using begun_no_more [OF assms(3,4)] assms(1) by (simp add: no_more_def)
  have r2: "readable (cs_db ?s1)"
    unfolding begun_def cs_db_alerts by (rule status_readable [OF w1 r1]) (use assms(4) j1 in \<open>auto simp: KEY_FIELDS_def\<close>)
  have c: "j_status j' \<noteq> ''cancelled''" if "get_job (update_job_status e i st x d') i = Some j'" and
    "\<And>j. get_job d' i = Some j \<Longrightarrow> j_status j \<noteq> ''cancelled''" and "st \<noteq> ''cancelled''" for st x d' j'
    using that by (cases "get_job d' i") (auto simp: update_job_status_def get_job_upd_same set_status_def split: option.splits if_splits)
  have j1c: "j_status (snd (remember_celery_worker j req)) \<noteq> ''cancelled''" using assms(4) by (auto simp: active_def)
  have c1: "j_status j' \<noteq> ''cancelled''" if "get_job (cs_db ?s1) i = Some j'" for j'
    using c [OF that [unfolded begun_def cs_db_alerts]] j1 j1c by auto
  have ended: "readable (cs_db s2) \<and> cs_dests s2 = cs_dests s \<and> cs_hosts s2 = cs_hosts s
      \<and> (\<forall>j'. get_job (cs_db s2) i = Some j' \<longrightarrow> j_status j' \<noteq> ''cancelled'')"
    if "cs_db s2 = update_job_status e i st x (cs_db ?s1)" and "\<not> active_status st" "st \<noteq> ''pending''" "st \<noteq> ''cancelled''"
      "fst ` set x \<inter> KEY_FIELDS = {}" "cs_dests s2 = cs_dests s" "cs_hosts s2 = cs_hosts s" for st x
    using status_readable [OF w2 r2 that(3) _ that(5)] that c c1 by metis
  show ?thesis
  proof (cases r)
    case (Inl x)
    then show ?thesis using assms(5)
      by (intro ended [of "''failed''" "error_row (stored_error d (scrub_job_text (exc_text e x)))"])
        (simp_all add: break_copy_def Let_def error_row_def KEY_FIELDS_def)
  next
    case (Inr result)
    show ?thesis
    proof (cases "truthy (dget0 result ''ok'')")
      case True
      then show ?thesis using assms(5) Inr
        by (intro ended [of "''success''" "[(''current'', JStr ''completed''), (''copied'', jor (dget0 result ''copied'') (JList []))]"])
          (simp_all add: end_copy_def KEY_FIELDS_def)
    next
      case False
      then show ?thesis using assms(5) Inr
        by (intro ended [of "''failed''" "error_row (stored_error d (scrub_job_text (py_str (jor (dget0 result ''error'') (JStr ''copy failed'')))))"])
          (simp_all add: end_copy_def error_row_def KEY_FIELDS_def Let_def)
    qed
  qed
qed


section \<open>Samples\<close>

text \<open>A share whose configuration cannot be written, with a text that carries a token.\<close>

definition broken_share :: "unit copy_env" where
  "broken_share = \<lparr>ce_look = (\<lambda>rel. ret (Folder rel)), ce_resolve = Some, ce_mkdir = (\<lambda>_. ret ()), ce_secrets = (\<lambda>_. Inl []), ce_password = (\<lambda>_. []),
     ce_config = (\<lambda>_. raise ''no ya29.a0_B here''), ce_obscured = (\<lambda>_ _. []), ce_discard = (\<lambda>_ w. w), ce_run = (\<lambda>_. ret None),
     ce_push = (\<lambda>_ _ _. ret ([], [])), ce_archive = (\<lambda>_. None)\<rparr>"

definition asked_once :: copy_rows where
  "asked_once = small_copies\<lparr>cs_db := fst (enqueue_copy sample_env small_hosts small_dest None None None sample_db)\<rparr>"



end
