(* ===== verification/Spec2Isabelle.thy ===== *)
theory Spec2Isabelle
  imports ExecutorProps ServerLockProps PathProps OwnershipApply UndoSafety MovePorts MoveProps MoveFabric PreflightProps CopyProps
begin

text \<open>
  PiHerder looks after a fleet of Linux hosts over SSH: it patches, reboots and backs them up and
  runs their compose stacks. Everything that takes time is a \<^emph>\<open>job\<close>, a row of the table \<open>job\<close> that web
  requests, API calls, the scheduler and the MCP server create and Celery workers execute. This
  library models that queue with the code around it: admission, dispatch, execution, cancel and
  recovery of jobs, the audit trail they leave, the lock that keeps workers apart, the move of a stack from
  one host to another with its ways back, the two modules of the backup that decide which paths of a
  host may be read and restored, and the copies of the backup drive to a cloud drive or a share.

  \<^bold>\<open>The queue\<close> (\<open>app/services/jobs/service.py\<close>, \<open>app/services/jobs_exclusive.py\<close>). The state is one record
  \<open>db\<close> of \<open>JobStore\<close>: the tables \<open>Job\<close>, \<open>AuditLog\<close> and \<open>Server\<close> of \<open>app/models.py\<close> with the columns the queue
  reads and writes, the next row numbers, the alert states it sets, and the list of effects the code
  sent out (published tasks, revocations, started threads). A session that is committed is a step from
  one record to the next; a raised exception leaves the record as far as it was committed. Fallible
  code returns \<open>exc + 'a\<close>, code that commits on the way returns the record as well.
    \<^item> \<open>PyText\<close> and \<open>PyJson\<close> are Python's \<open>str\<close>, \<open>int\<close> and \<open>json\<close> operations; a text column is a \<open>column\<close>, either
      absent, a JSON value or a text that does not parse.
    \<^item> \<open>JobWorker\<close> (\<open>job_worker.py\<close>), \<open>JobAudit\<close> (\<open>audit_write.py\<close>, \<open>backup_audit.py\<close>, redaction of \<open>demo.py\<close>),
      \<open>JobTypes\<close> and \<open>JobSummary\<close> (type sets, labels, \<open>_human_job_summary\<close>, the result predicates of
      \<open>container_patching.py\<close>).
    \<^item> \<open>JobLifecycle\<close> and \<open>JobFinish\<close>: \<open>mark_job_terminal\<close>, \<open>cancel_job\<close>, the list queries, progress, demo jobs,
      \<open>_finish\<close>. \<open>JobSweeps\<close>: the stale, orphan and bootstrap sweeps and the worker reconciliation.
    \<^item> \<open>JobGuards\<close>, \<open>JobLanes\<close>, \<open>JobCreate\<close>: what an entry point asks of the queue before it adds a row, every
      \<open>enqueue_*\<close> function and \<open>create_job_and_run\<close>; \<open>Admission\<close>, \<open>CreateFacts\<close>, \<open>Lanes\<close>: what they guarantee.
    \<^item> \<open>ExclusiveJobs\<close>: the Celery task of exclusive jobs (redelivery, wait for SSH, dispatch, errors);
      \<open>Housekeeping\<close>, \<open>HostExecutors\<close>, \<open>StackExecutors\<close>, \<open>TemplateExecutors\<close>: the executors.
    \<^item> \<open>QueueRuns\<close>: a run is any sequence of these steps, those of the Move jobs below included, with any
      environment from an empty queue.

  \<^bold>\<open>The lock\<close> (\<open>app/services/server_job_lock.py\<close>). \<open>ServerLock\<close> has the functions on Redis and on the dictionary
  a process falls back to, \<open>Lease\<close> the contract of such a lock and its client's lemmas, \<open>ServerLockProps\<close> the
  two implementations and the two-server lock.

  \<^bold>\<open>Backup paths and ownership\<close> (\<open>app/services/backup_path_policy.py\<close>, \<open>app/services/backup_ownership.py\<close>).
  \<open>PosixPath\<close> is the lexical part of \<open>os.path\<close>; \<open>PathPolicy\<close> and \<open>PathProps\<close> the allow and deny rules;
  \<open>Ownership\<close>, \<open>OwnershipProps\<close>, \<open>OwnershipApply\<close> the listing of a tree, its manifest, and the two ways to
  restore owners and modes: a local walk and a generated shell script.

  \<^bold>\<open>Move of a stack\<close> (\<open>app/services/service_migrate/\<close>). \<open>Actions\<close> is the monad of the pipelines: a state, a
  result or an exception, and a weakest-precondition calculus over both outcomes.
    \<^item> \<open>MoveNames\<close> (\<open>overrides.py\<close>, parts of \<open>facts.py\<close>, \<open>preflight.py\<close>, \<open>ssh.py\<close>): names, ports, bind paths and the
      directory of a project; \<open>MovePorts\<close>: validation and inversion of a port map.
    \<^item> \<open>MoveLock\<close> (\<open>host_lock.py\<close>): the lock of a project on its host, rows and operations.
    \<^item> \<open>MoveCopy\<close>, \<open>MovePipeline\<close> (\<open>pipeline.py\<close>), \<open>MoveLeftover\<close> (\<open>leftover.py\<close>), \<open>MoveUndo\<close> (\<open>undo.py\<close>,
      \<open>dest_up_recover.py\<close>): the pipelines call by call, with the step each failure carries.
    \<^item> \<open>MoveRows\<close>, \<open>MoveBack\<close> (\<open>jobs_migrate.py\<close>): the executors of the Move, undo and recovery jobs: the options
      read from the row, the pipeline with its progress written to the row, the way back a failure leaves.
    \<^item> \<open>MoveQueue\<close> (\<open>jobs_migrate.py\<close>): the three entry points and the conditions of an undo or a recovery;
      \<open>MoveTasks\<close> (\<open>app/tasks.py\<close>): the Celery tasks, which hold the locks of both hosts while they work.
    \<^item> \<open>MoveKeeps\<close>, \<open>MoveSafety\<close>, \<open>UndoSafety\<close>: the trace of the states a pipeline goes through and what holds
      in each; \<open>MoveFacts\<close>: the entry points, executors and tasks keep what every step of the queue keeps.

  \<^bold>\<open>The control plane of a Move\<close> (\<open>app/services/dns_fabric/core.py\<close>, \<open>app/services/service_migrate/cutover.py\<close>,
  \<open>rebind.py\<close>, \<open>validate.py\<close>). \<open>FabricRows\<close> has the tables with their unique indexes: hosts with their DNS identity, service names,
  integrations and bindings, and the rows that name a compose project on a host.
    \<^item> \<open>FabricDns\<close> (\<open>core.py\<close>): host and service names, the fan-out of a change to the Pi-holes; \<open>NpmEdge\<close>
      (\<open>preflight.py\<close>): the cached proxy hosts and which project is the edge.
    \<^item> \<open>MoveCutover\<close> (\<open>cutover.py\<close>): the names of a project are pointed at the destination, one record and one commit after
      the other; \<open>MoveRebind\<close> (\<open>rebind.py\<close>): the rows of the project are rewritten in one commit; \<open>MoveValidate\<close>
      (\<open>validate.py\<close>): TLS probes of the names and a last poll of the monitors.
    \<^item> \<open>DnsFacts\<close>, \<open>CutoverFacts\<close>: what each operation does to the rows, by the calculus of \<open>Actions\<close>; \<open>FabricProps\<close>: any
      history of these operations; \<open>RebindProps\<close>: the rebind and the unique indexes; \<open>ValidateFacts\<close>: what a validation
      that returns has seen; \<open>MoveFabric\<close>: the pipeline of \<open>MovePipeline\<close> run on these tables.

  \<^bold>\<open>The preflight of a Move\<close> (\<open>app/services/service_migrate/preflight.py\<close>, \<open>facts.py\<close>, \<open>app/services/dns_fabric/ports.py\<close>).
    \<^item> \<open>DockerPorts\<close>: the port columns of Docker, \<open>ss\<close> and \<open>netstat\<close> as text; the search of their regular expressions is written
      out. \<open>MoveProbes\<close>: what a host and the destination are asked over SSH. \<open>MovePreflight\<close>: the data, ports and
      hardware of a project as its cached inventory shows them, the busy jobs.
    \<^item> \<open>PreflightRun\<close>: \<open>run_preflight\<close>, one definition per section of the report. \<open>PreflightFacts\<close>: each section has no block
      exactly when its condition holds; \<open>PreflightProps\<close>: the decision, and the destinations it does not see.

  \<^bold>\<open>Copies of the backup drive\<close> (\<open>app/services/backup_replicate.py\<close>, parts of \<open>backup_direct.py\<close>, \<open>scheduler.py\<close>,
  \<open>app/tasks.py\<close>). A destination has a selection of ticked and unticked paths; folders that PiHerder holds and hosts that
  push themselves (direct hosts) are two rows of the queue.
    \<^item> \<open>CopySelection\<close>: paths, the normal form of a selection, a tick, the part of one host, the plan of the syncs and the
      command lines of rclone, with what a tick and a plan do.
    \<^item> \<open>CopyQueue\<close>: destinations, the split by direct host, the slots of active copies, every way to queue a copy (request,
      finished backup, new archive, schedule). \<open>CopyRun\<close>: the work of a copy with its redaction, the way back, the Celery
      task, its follow-up and the failure signal.
    \<^item> \<open>CopyProps\<close>: any history of these operations, the errors a task stores, the direct half of a mixed selection.

  \<^bold>\<open>What the lemmas show.\<close>
    \<^item> Lanes (\<open>Lanes\<close>, \<open>QueueProps\<close>): in every run one host has at most one active job of an exclusive type, no
      reboot beside a patch or backup, and one compose mutation as long as requests go through the lane check;
      the token API does not.
    \<^item> Life of a job (\<open>LifeProps\<close>, \<open>ExclusiveProps\<close>, \<open>ExecutorProps\<close>): finish and cancel on every branch, a
      cancelled job stays cancelled against finish, progress and redelivery; a task that returns has ended
      its job. The gap is an executor that starts after the cancel: it does not look at the status.
    \<^item> Recovery (\<open>SweepProps\<close>, \<open>AuditProps\<close>): exactly which rows each sweep fails, exactly which audit rows the
      end of a job closes, what a failed publish leaves.
    \<^item> Lock (\<open>ServerLockProps\<close>): exclusion while Redis answers, refinement of the lease by the fallback, loss
      of exclusion when one worker falls back.
    \<^item> Move (\<open>MoveSafety\<close>, \<open>UndoSafety\<close>, \<open>MovePorts\<close>, \<open>MoveProps\<close>): source and destination never run together while a Move, an
      undo or a recovery works, wherever it fails, and the retry of an undo that breaks this; an accepted port
      map inverts; an accepted Move takes both hosts, its arguments reach the executor unchanged, and the step it fails
      in decides which way back its row offers.
    \<^item> Control plane (\<open>RebindProps\<close>, \<open>FabricProps\<close>): the tables stay well-formed under any history; a cutover moves the names
      of its project and no other row, all of them when it returns; a rebind is all or nothing and breaks off exactly when the
      destination already has a row of the project; a renamed project is not picked up again by a retried cutover. A whole Move that
      returns (\<open>MoveFabric\<close>) has the names and rows of its project on the destination and no monitor down. A preflight says ok
      exactly when nothing stands against the Move (\<open>PreflightProps\<close>).
    \<^item> Paths (\<open>PathProps\<close>, \<open>OwnershipProps\<close>, \<open>OwnershipApply\<close>): the textual prefix checks decide the policy on path
      components; listing and shell words round-trip; script and local walk make the same changes, all of
      them below the target.
    \<^item> Copies (\<open>CopySelection\<close>, \<open>CopyProps\<close>): a tick changes what is sent below its path and nowhere else; the plan sends
      exactly what is ticked; a destination never has two active copies of one kind; the direct half of a mixed selection
      is queued however the folder half ends; no access token is left in an error.

  \<^bold>\<open>Interfaces.\<close> Client lemmas are proved in locales and used through their interpretations on the code's
  own definitions: \<open>lane\<close> (three lanes), the calm operations of the task body (\<open>task\<close> in \<open>ExecutorFacts\<close>), and
  \<open>lease\<close> (Redis and the dictionary).

  \<^bold>\<open>Parameters.\<close> Code that is not in the repository is an argument. \<open>env\<close> holds the clock, the broker's answer to
  a publication, SSH reachability, the redaction filter, Fernet encryption and the settings; \<open>remotes\<close> and
  \<open>stack_remotes\<close> the answers of SSH commands, Docker and the template services; the lock takes the Redis
  commands and assumes of them what Redis documents of SET NX EX, GET and EVAL; the path policy takes the
  home directory; the ownership module the decoding of bytes, the exit status of remote commands and the
  system calls. The calls a pipeline makes are a datatype \<open>move_op\<close> and \<open>outside\<close> answers them on a state of its
  own; \<open>move_env\<close> names the calls, the backup root and the check of a path for the executors of a Move and
  \<open>lock_env\<close> the lock store for its tasks. \<open>dns_env\<close> and \<open>cut_env\<close> are the clock and the answers of the Pi-holes and the proxies, \<open>probe_env\<close> those of the TLS
  probes and the polls, \<open>pf_env\<close> holds the tables and the answers of the shell and of \<open>docker inspect\<close>,
  \<open>copy_env\<close> the stored sign-ins, the backup drive, the runs of rclone and the push of a direct host; the pipeline takes
  the report of a preflight as one answer. \<open>obeys\<close> is what the safety theorems ask of Docker: only a start or a redeploy of a stack sets it
  running, and a stop that reports success stops it. Times are integers in microseconds, row numbers are unbounded as in Python.

  \<^bold>\<open>Bounds and termination.\<close> There is no fuel: every loop of the modelled code is structural on a list or
  bounded by its argument. The wait for SSH is the one loop that spans deliveries; \<open>wait_for_host_ends\<close> and
  \<open>host_wait_limit_bounds\<close> bound it by 24 hours and by the retries of the task.

  \<^bold>\<open>Not modelled.\<close> Steps are atomic: the code takes no database lock between a guard and its insert, and two
  requests inside one another are outside the model, so the lane theorems and the slots of the copies are about sequential
  requests; while a copy task copies, no other step changes the rows.
  Of a Move rsync, the shell and the editing of compose files are operations the
  parameter answers. What an executor does on the host, the rendering of
  pages, reports and polls, demo seeding, rsync, certificate services, the maps and import plans of the DNS fabric, the
  sign-ins of the cloud drives with their rclone configurations, the push of a direct host, and the console are left out:
  they are file system, network or presentation code. \<open>collect_local_tree\<close> walks a directory and is left out
  as well.
\<close>

end
